(* ===== verification/Prelude.thy ===== *)
theory Prelude
  imports Main "HOL-Library.Char_ord" "HOL-Library.List_Lexorder"
begin

text \<open>
  Shared vocabulary of the development. It holds the named collections the component theories
  fill, the pieces of the Go standard library the sources use (ASCII lower-casing and the other
  \<^verbatim>\<open>strings\<close> helpers, Go errors with \<^verbatim>\<open>%w\<close> wrapping, \<^verbatim>\<open>errors.Is\<close>,
  \<^verbatim>\<open>errors.As\<close>, \<^verbatim>\<open>errors.Unwrap\<close> and \<^verbatim>\<open>errors.Join\<close>), the result of a
  reconciliation (\<^verbatim>\<open>ctrl.Result\<close>), and the generic facts on lists and maps that the
  component proofs share.

  A Go function that returns \<open>(T, error)\<close> is a function into \<open>goerror + T\<close> (\<open>Inl\<close> is the
  error), and one that returns only \<open>error\<close> is a function into \<open>goerror option\<close>
  (\<open>None\<close> is nil). A \<^verbatim>\<open>map[string]T\<close> is a map \<open>string \<rightharpoonup> T\<close>; a nil map
  and an empty one read alike, so both are \<open>Map.empty\<close>.
\<close>

section \<open>Collections of facts\<close>

named_theorems err_simps \<open>evaluation of Go errors: text, wrapping, classification\<close>
named_theorems step_simps \<open>definitions of the steps that the reconcilers compose\<close>
named_theorems keep_simps \<open>fields that an operation leaves alone\<close>

section \<open>Strings\<close>

type_synonym labels = "string \<rightharpoonup> string"

text \<open>ASCII lower case, as \<^verbatim>\<open>strings.ToLower\<close> computes it on ASCII input.\<close>

definition lower_char :: "char \<Rightarrow> char" where
  "lower_char c = (if of_char c \<ge> (65::nat) \<and> of_char c \<le> (90::nat)
     then char_of ((of_char c :: nat) + 32) else c)"

definition toLower :: "string \<Rightarrow> string" where
  "toLower s = map lower_char s"

lemma lower_char_idem [simp]: "lower_char (lower_char c) = lower_char c"
  by (simp add: lower_char_def)

lemma toLower_idem [simp]: "toLower (toLower s) = toLower s"
  by (simp add: toLower_def)

lemma toLower_Nil [simp]: "toLower [] = []"
  by (simp add: toLower_def)

fun hasPrefix :: "string \<Rightarrow> string \<Rightarrow> bool" where
  "hasPrefix s [] = True"
| "hasPrefix [] (p # ps) = False"
| "hasPrefix (c # cs) (p # ps) = (c = p \<and> hasPrefix cs ps)"

definition hasSuffix :: "string \<Rightarrow> string \<Rightarrow> bool" where
  "hasSuffix s t = hasPrefix (rev s) (rev t)"

fun containsStr :: "string \<Rightarrow> string \<Rightarrow> bool" where
  "containsStr [] t = hasPrefix [] t"
| "containsStr (c # cs) t = (hasPrefix (c # cs) t \<or> containsStr cs t)"

text \<open>\<^verbatim>\<open>strings.TrimRight s cutset\<close>: drop trailing characters of the cut set.\<close>

definition trimRight :: "string \<Rightarrow> string \<Rightarrow> string" where
  "trimRight s cutset = rev (dropWhile (\<lambda>c. c \<in> set cutset) (rev s))"

fun joinWith :: "string \<Rightarrow> string list \<Rightarrow> string" where
  "joinWith sep [] = []"
| "joinWith sep [x] = x"
| "joinWith sep (x # y # xs) = x @ sep @ joinWith sep (y # xs)"

lemma hasPrefix_append [simp]: "hasPrefix (p @ s) p"
  by (induction p) auto

lemma hasPrefix_iff: "hasPrefix s p \<longleftrightarrow> (\<exists>r. s = p @ r)"
  by (induction s p rule: hasPrefix.induct) auto

lemma hasSuffix_iff: "hasSuffix s t \<longleftrightarrow> (\<exists>r. s = r @ t)"
proof
  assume "hasSuffix s t"
  then obtain r where "rev s = rev t @ r" by (auto simp: hasSuffix_def hasPrefix_iff)
  then have "s = rev r @ t" by (metis rev_append rev_rev_ident)
  then show "\<exists>r. s = r @ t" by blast
next
  assume "\<exists>r. s = r @ t"
  then show "hasSuffix s t" by (auto simp: hasSuffix_def)
qed

lemma joinWith_Cons: "xs \<noteq> [] \<Longrightarrow> joinWith sep (x # xs) = x @ sep @ joinWith sep xs"
  by (cases xs) auto

section \<open>Go errors\<close>

text \<open>
  A Go error value is a tree. Its leaves are the sentinels declared with
  \<^verbatim>\<open>errors.New\<close> in a package (identified by the name of their variable, since Go compares
  them by identity), and errors that come out of a library: for those the model keeps what the
  sources ask of them through the library's own predicates. An inner node is an
  \<^verbatim>\<open>fmt.Errorf\<close> or \<^verbatim>\<open>errors.Join\<close>: literal text and the errors wrapped with
  \<^verbatim>\<open>%w\<close>.
\<close>

datatype api_reason =
  ReasonNotFound | ReasonUnauthorized | ReasonForbidden | ReasonConflict | ReasonAlreadyExists
| ReasonOther string

record ext_error =
  ext_msg :: string
  ext_reason :: "api_reason option"   \<comment> \<open>the reason, when the error is an API status\<close>
  ext_conn_refused :: bool            \<comment> \<open>is \<^verbatim>\<open>syscall.ECONNREFUSED\<close>\<close>
  ext_dns_not_found :: "bool option"  \<comment> \<open>\<^verbatim>\<open>IsNotFound\<close>, when it is a \<^verbatim>\<open>*net.DNSError\<close>\<close>
  ext_group_not_found :: "bool option" \<comment> \<open>some group is not found, when discovery failed\<close>
  ext_not_registered :: bool          \<comment> \<open>the type is not registered in the scheme\<close>
  ext_no_match :: bool                \<comment> \<open>the REST mapper has no match\<close>

datatype goerror =
  Sentinel string string
| Ext ext_error
| Errorf "errpart list"
and errpart =
  Lit string
| Wrap goerror

text \<open>\<^verbatim>\<open>err.Error()\<close>.\<close>

primrec error_text :: "goerror \<Rightarrow> string" and part_text :: "errpart \<Rightarrow> string" where
  "error_text (Sentinel n m) = m"
| "error_text (Ext x) = ext_msg x"
| "error_text (Errorf ps) = concat (map part_text ps)"
| "part_text (Lit s) = s"
| "part_text (Wrap e) = error_text e"

text \<open>
  \<^verbatim>\<open>errors.Is(err, target)\<close> for a sentinel \<open>target\<close>: a walk over the tree in which
  every wrapped error is visited.
\<close>

primrec errors_Is :: "goerror \<Rightarrow> goerror \<Rightarrow> bool"
  and part_Is :: "errpart \<Rightarrow> goerror \<Rightarrow> bool" where
  "errors_Is (Sentinel n m) t = (t = Sentinel n m)"
| "errors_Is (Ext x) t = (t = Ext x)"
| "errors_Is (Errorf ps) t = (t = Errorf ps \<or> list_ex (\<lambda>b. b) (map (\<lambda>p. part_Is p t) ps))"
| "part_Is (Lit s) t = False"
| "part_Is (Wrap e) t = errors_Is e t"

text \<open>The library errors of a tree in the order \<^verbatim>\<open>errors.As\<close> visits them.\<close>

primrec ext_leaves :: "goerror \<Rightarrow> ext_error list"
  and part_leaves :: "errpart \<Rightarrow> ext_error list" where
  "ext_leaves (Sentinel n m) = []"
| "ext_leaves (Ext x) = [x]"
| "ext_leaves (Errorf ps) = concat (map part_leaves ps)"
| "part_leaves (Lit s) = []"
| "part_leaves (Wrap e) = ext_leaves e"

text \<open>\<^verbatim>\<open>errors.As\<close> to a library type: the first leaf that has the wanted attribute.\<close>

fun errors_As :: "(ext_error \<Rightarrow> 'a option) \<Rightarrow> ext_error list \<Rightarrow> 'a option" where
  "errors_As f [] = None"
| "errors_As f (x # xs) = (case f x of None \<Rightarrow> errors_As f xs | Some a \<Rightarrow> Some a)"

definition reasonForError :: "goerror \<Rightarrow> api_reason option" where
  "reasonForError e = errors_As ext_reason (ext_leaves e)"

text \<open>\<^verbatim>\<open>errors.Unwrap\<close>: only a node with exactly one wrapped error unwraps.\<close>

definition wrapped :: "errpart list \<Rightarrow> goerror list" where
  "wrapped ps = concat (map (\<lambda>p. case p of Lit s \<Rightarrow> [] | Wrap e \<Rightarrow> [e]) ps)"

fun errors_Unwrap :: "goerror \<Rightarrow> goerror option" where
  "errors_Unwrap (Errorf ps) = (case wrapped ps of [e] \<Rightarrow> Some e | _ \<Rightarrow> None)"
| "errors_Unwrap e = None"

text \<open>\<^verbatim>\<open>fmt.Errorf("pre%w", err)\<close>, \<^verbatim>\<open>fmt.Errorf("%wpost", err)\<close> and
  \<^verbatim>\<open>errors.Join\<close> of two non-nil errors.\<close>

abbreviation wrapErr :: "string \<Rightarrow> goerror \<Rightarrow> goerror" where
  "wrapErr pre e \<equiv> Errorf [Lit pre, Wrap e]"

abbreviation wrapPost :: "goerror \<Rightarrow> string \<Rightarrow> goerror" where
  "wrapPost e post \<equiv> Errorf [Wrap e, Lit post]"

definition errors_Join :: "goerror \<Rightarrow> goerror \<Rightarrow> goerror" where
  "errors_Join a b = Errorf [Wrap a, Lit [CHR 0x0A], Wrap b]"

text \<open>\<^verbatim>\<open>errors.Join\<close> of a list of errors: the texts on separate lines.\<close>

fun join_parts :: "goerror list \<Rightarrow> errpart list" where
  "join_parts [] = []"
| "join_parts [e] = [Wrap e]"
| "join_parts (e # es) = Wrap e # Lit [CHR 0x0A] # join_parts es"

definition errors_JoinAll :: "goerror list \<Rightarrow> goerror" where
  "errors_JoinAll es = Errorf (join_parts es)"

lemma errors_Is_refl [simp]: "errors_Is e e"
  by (cases e) auto

lemma errors_Is_wrapErr [err_simps]:
  "errors_Is (wrapErr pre e) (Sentinel n m) = errors_Is e (Sentinel n m)"
  "errors_Is (wrapPost e post) (Sentinel n m) = errors_Is e (Sentinel n m)"
  by auto

lemma errors_Is_Join [err_simps]:
  "errors_Is (errors_Join a b) (Sentinel n m)
     = (errors_Is a (Sentinel n m) \<or> errors_Is b (Sentinel n m))"
  by (auto simp: errors_Join_def)

lemma errors_Is_JoinAll [err_simps]:
  "errors_Is (errors_JoinAll es) (Sentinel n m) = (\<exists>e \<in> set es. errors_Is e (Sentinel n m))"
proof -
  have "list_ex (\<lambda>b. b) (map (\<lambda>p. part_Is p (Sentinel n m)) (join_parts es)) =
      (\<exists>e \<in> set es. errors_Is e (Sentinel n m))"
    by (induction es rule: join_parts.induct) auto
  then show ?thesis by (simp add: errors_JoinAll_def)
qed

lemma reasonForError_wrap [err_simps]:
  "reasonForError (wrapErr pre e) = reasonForError e"
  "reasonForError (wrapPost e post) = reasonForError e"
  by (simp_all add: reasonForError_def)

lemma reasonForError_Sentinel [err_simps]: "reasonForError (Sentinel n m) = None"
  by (simp add: reasonForError_def)

text \<open>\<^verbatim>\<open>client.IgnoreNotFound(err)\<close>: nil for a not-found status, else the error.\<close>

definition client_IgnoreNotFound :: "goerror \<Rightarrow> goerror option" where
  "client_IgnoreNotFound e = (if reasonForError e = Some ReasonNotFound then None else Some e)"

text \<open>Reading a field through a nil pointer and writing to a nil map panic.\<close>

definition nilDereference :: goerror where
  "nilDereference =
     Sentinel ''panic'' ''runtime error: invalid memory address or nil pointer dereference''"

definition nilMapWrite :: goerror where
  "nilMapWrite = Sentinel ''nilMapWrite'' ''assignment to entry in nil map''"

text \<open>A plain not-found answer of the API server, for evaluation.\<close>

definition notFoundErr :: goerror where
  "notFoundErr = Ext \<lparr>ext_msg = ''not found'', ext_reason = Some ReasonNotFound, ext_conn_refused = False,
     ext_dns_not_found = None, ext_group_not_found = None, ext_not_registered = False, ext_no_match = False\<rparr>"

text \<open>Decimal digits of a number, as \<^verbatim>\<open>%d\<close> prints an unsigned integer.\<close>

fun decimal :: "nat \<Rightarrow> string" where
  "decimal n = (if n < 10 then [char_of (48 + n)] else decimal (n div 10) @ [char_of (48 + n mod 10)])"

declare decimal.simps [simp del]

text \<open>The same for a 32 bit hash, computed on integers.\<close>

function decimal_int :: "int \<Rightarrow> string" where
  "decimal_int n = (if n < 10 then [char_of (48 + n)] else decimal_int (n div 10) @ [char_of (48 + n mod 10)])"
  by pat_completeness auto

termination
  by (relation "measure nat") auto

declare decimal_int.simps [simp del]

section \<open>Reconciliation results\<close>

text \<open>Durations are nanoseconds; \<^verbatim>\<open>ctrl.Result\<close> with a zero \<open>RequeueAfter\<close> does not
  requeue.\<close>

type_synonym duration = int

definition second :: duration where "second = 1000000000"
definition minute :: duration where "minute = 60 * second"
definition hour :: duration where "hour = 60 * minute"

record ctrl_result =
  RequeueAfter :: duration

definition no_requeue :: ctrl_result where
  "no_requeue = \<lparr>RequeueAfter = 0\<rparr>"

definition requeue :: "duration \<Rightarrow> ctrl_result" where
  "requeue d = \<lparr>RequeueAfter = d\<rparr>"

type_synonym reconcile_result = "ctrl_result \<times> goerror option"

text \<open>
  The statement \<^verbatim>\<open>if err := f(); err != nil { bad }; ok\<close> on a state: \<open>on_err\<close> runs the
  handler or goes on.
\<close>

fun on_err :: "'s \<times> goerror option \<Rightarrow> ('s \<Rightarrow> goerror \<Rightarrow> 'r) \<Rightarrow> ('s \<Rightarrow> 'r) \<Rightarrow> 'r" where
  "on_err (s, None) bad ok = ok s"
| "on_err (s, Some e) bad ok = bad s e"

lemma on_err_split:
  "P (on_err x bad ok) \<longleftrightarrow>
     (\<forall>s. x = (s, None) \<longrightarrow> P (ok s)) \<and> (\<forall>s e. x = (s, Some e) \<longrightarrow> P (bad s e))"
  by (cases x; cases "snd x") auto

lemma on_err_split_asm:
  "P (on_err x bad ok) \<longleftrightarrow>
     \<not> ((\<exists>s. x = (s, None) \<and> \<not> P (ok s)) \<or> (\<exists>s e. x = (s, Some e) \<and> \<not> P (bad s e)))"
  by (cases x; cases "snd x") auto

lemma on_err_invariant:
  assumes "P (fst x)" and "\<And>s. P s \<Longrightarrow> Q (ok s)" and "\<And>s e. P s \<Longrightarrow> Q (bad s e)"
  shows "Q (on_err x bad ok)"
  using assms by (cases x; cases "snd x") auto

section \<open>Lists, options and maps\<close>

text \<open>A fold that stops at the first error, the shape of a Go loop with an early return.\<close>

fun try_each :: "('a \<Rightarrow> 's \<Rightarrow> 's \<times> goerror option) \<Rightarrow> 'a list \<Rightarrow> 's \<Rightarrow> 's \<times> goerror option" where
  "try_each f [] s = (s, None)"
| "try_each f (x # xs) s =
     (case f x s of (s', None) \<Rightarrow> try_each f xs s' | (s', Some e) \<Rightarrow> (s', Some e))"

lemma try_each_invariant:
  assumes "\<And>x s. x \<in> set xs \<Longrightarrow> P s \<Longrightarrow> P (fst (f x s))" and "P s"
  shows "P (fst (try_each f xs s))"
  using assms
proof (induction xs arbitrary: s)
  case Nil
  then show ?case by simp
next
  case (Cons x xs)
  obtain s' r where f: "f x s = (s', r)" by (cases "f x s")
  have "P s'" using Cons.prems(1) [of x s] Cons.prems(2) f by simp
  then show ?case using Cons f by (cases r) simp_all
qed

text \<open>
  Goroutines of an \<^verbatim>\<open>errgroup\<close>, in the order in which they get their turn: all of them run, and
  the first error is reported.
\<close>

fun run_group :: "('a \<Rightarrow> 's \<Rightarrow> 's \<times> goerror option) \<Rightarrow> 'a list \<Rightarrow> 's \<Rightarrow> 's \<times> goerror option" where
  "run_group f [] s = (s, None)"
| "run_group f (x # xs) s =
     (case f x s of (s1, r) \<Rightarrow>
        (case run_group f xs s1 of (s2, r2) \<Rightarrow> (s2, (case r of Some e \<Rightarrow> Some e | None \<Rightarrow> r2))))"

lemma find_Some_in: "find P xs = Some x \<Longrightarrow> x \<in> set xs \<and> P x"
  by (induction xs) (auto split: if_splits)

lemma find_None_iff_all: "find P xs = None \<longleftrightarrow> (\<forall>x \<in> set xs. \<not> P x)"
  by (induction xs) auto

lemma find_map_comp: "find P (map f xs) = map_option f (find (\<lambda>x. P (f x)) xs)"
  by (induction xs) auto

lemma ball_notin3: "(\<forall>x \<in> S. f x \<notin> {a, b, c}) \<longleftrightarrow> a \<notin> f ` S \<and> b \<notin> f ` S \<and> c \<notin> f ` S"
  by auto

lemma set_map_filter_iff: "set (List.map_filter f xs) = {y. \<exists>x \<in> set xs. f x = Some y}"
  by (induction xs) (auto simp: List.map_filter_simps split: option.splits)

text \<open>Keep the last entry for every key, the way a Go loop that stores into a map does.\<close>

definition map_by :: "('a \<Rightarrow> 'k) \<Rightarrow> 'a list \<Rightarrow> ('k \<rightharpoonup> 'a)" where
  "map_by key xs = map_of (rev (map (\<lambda>x. (key x, x)) xs))"

lemma map_by_Nil [simp]: "map_by key [] = Map.empty"
  by (simp add: map_by_def)

lemma map_by_snoc [simp]: "map_by key (xs @ [x]) = (map_by key xs)(key x \<mapsto> x)"
  by (simp add: map_by_def)

lemma dom_map_by: "dom (map_by key xs) = key ` set xs"
  by (simp add: map_by_def dom_map_of_conv_image_fst image_image)

lemma map_by_Some: "map_by key xs k = Some x \<Longrightarrow> x \<in> set xs \<and> key x = k"
  by (induction xs rule: rev_induct) (auto split: if_splits)

lemma map_by_distinct:
  assumes "distinct (map key xs)" and "x \<in> set xs"
  shows "map_by key xs (key x) = Some x"
  using assms by (induction xs rule: rev_induct) (auto simp: image_iff)

text \<open>A loop over a list that fills a map and skips the keys it has seen: the first one wins.\<close>

lemma fold_first_wins:
  "fold (\<lambda>x m. (case m (key x) of Some _ \<Rightarrow> m | None \<Rightarrow> m(key x \<mapsto> f x))) xs m0 =
     (\<lambda>n. case m0 n of Some v \<Rightarrow> Some v | None \<Rightarrow> map_option f (find (\<lambda>x. key x = n) xs))"
proof (induction xs arbitrary: m0)
  case Nil
  show ?case by (rule ext) (simp split: option.split)
next
  case (Cons x xs)
  show ?case
    by (rule ext) (auto simp: Cons.IH split: option.split)
qed

lemma find_None_keys: "find (\<lambda>x. key x = n) xs = None \<longleftrightarrow> n \<notin> key ` set xs"
  by (induction xs) auto

end
