(* ===== verification/ApiTypes.thy ===== *)
theory ApiTypes
  imports Prelude
begin

text \<open>
  The custom resources of the control plane (\<^verbatim>\<open>api/shared\<close>, \<^verbatim>\<open>api/v1beta2\<close>):
  the Kyma, the Manifest, the ModuleTemplate and the ModuleReleaseMeta with the methods that the
  controllers call on them. A Go struct is a record whose fields carry the struct's initials, a Go
  string enumeration is a datatype with a constructor for the empty string and one for any value
  outside the enumeration.

  The functions of the Kubernetes libraries that write conditions and finalizers are not part of
  the repository: operations that call them take a record \<open>klib\<close> of these functions, and
  \<open>klib_ok\<close> states what their documentation promises.
\<close>

section \<open>States, labels and channels (\<^verbatim>\<open>api/shared\<close>)\<close>

datatype State =
  StateReady | StateProcessing | StateError | StateDeleting | StateWarning | StateUnmanaged
| StateEmpty | StateOther string

definition state_text :: "State \<Rightarrow> string" where
  "state_text st = (case st of StateReady \<Rightarrow> ''Ready'' | StateProcessing \<Rightarrow> ''Processing'' | StateError \<Rightarrow> ''Error''
     | StateDeleting \<Rightarrow> ''Deleting'' | StateWarning \<Rightarrow> ''Warning'' | StateUnmanaged \<Rightarrow> ''Unmanaged''
     | StateEmpty \<Rightarrow> [] | StateOther x \<Rightarrow> x)"

definition IsSupportedState :: "State \<Rightarrow> bool" where
  "IsSupportedState s =
     (s = StateReady \<or> s = StateProcessing \<or> s = StateError \<or> s = StateDeleting \<or> s = StateWarning)"

definition AllKymaStates :: "State list" where
  "AllKymaStates = [StateReady, StateProcessing, StateError, StateDeleting, StateWarning]"

definition AllModuleStates :: "State list" where
  "AllModuleStates =
     [StateReady, StateProcessing, StateError, StateDeleting, StateWarning, StateUnmanaged]"

definition OperatorGroup :: string where "OperatorGroup = ''operator.kyma-project.io''"
definition KymaGroup :: string where "KymaGroup = ''kyma-project.io''"
definition ManagedBy :: string where "ManagedBy = OperatorGroup @ ''/managed-by''"
definition ManagedByLabelValue :: string where "ManagedByLabelValue = ''kyma''"
definition KymaNameLabel :: string where "KymaNameLabel = OperatorGroup @ ''/kyma-name''"
definition ModuleNameLabel :: string where "ModuleNameLabel = OperatorGroup @ ''/module-name''"
definition ChannelLabel :: string where "ChannelLabel = OperatorGroup @ ''/channel''"
definition ControllerNameLabel :: string where
  "ControllerNameLabel = OperatorGroup @ ''/controller-name''"
definition MandatoryLabel :: string where "MandatoryLabel = OperatorGroup @ ''/mandatory-module''"
definition SkipReconcileLabel :: string where
  "SkipReconcileLabel = OperatorGroup @ ''/skip-reconciliation''"
definition InternalLabel :: string where "InternalLabel = OperatorGroup @ ''/internal''"
definition BetaLabel :: string where "BetaLabel = OperatorGroup @ ''/beta''"
definition WatchedByLabel :: string where "WatchedByLabel = OperatorGroup @ ''/watched-by''"
definition OperatorName :: string where "OperatorName = ''lifecycle-manager''"
definition EnableLabelValue :: string where "EnableLabelValue = ''true''"
definition GlobalAccountIDLabel :: string where
  "GlobalAccountIDLabel = KymaGroup @ ''/global-account-id''"
definition RegionLabel :: string where "RegionLabel = KymaGroup @ ''/region''"
definition PlatformRegionLabel :: string where "PlatformRegionLabel = KymaGroup @ ''/platform-region''"
definition PlanLabel :: string where "PlanLabel = KymaGroup @ ''/broker-plan-name''"
definition RuntimeIDLabel :: string where "RuntimeIDLabel = KymaGroup @ ''/runtime-id''"
definition SubAccountIDLabel :: string where "SubAccountIDLabel = KymaGroup @ ''/subaccount-id''"
definition IstioInjectionLabel :: string where "IstioInjectionLabel = ''istio-injection''"
definition WardenLabel :: string where "WardenLabel = ''namespaces.warden.kyma-project.io/validate''"
definition EnabledValue :: string where "EnabledValue = ''enabled''"
definition WatchedByLabelValue :: string where "WatchedByLabelValue = ''kyma''"
definition DefaultRemoteKymaName :: string where "DefaultRemoteKymaName = ''default''"
definition DefaultControlPlaneNamespace :: string where "DefaultControlPlaneNamespace = ''kcp-system''"
definition DefaultRemoteNamespace :: string where "DefaultRemoteNamespace = ''kyma-system''"
definition OwnedByAnnotation :: string where
  "OwnedByAnnotation = ''deprecated-'' @ OperatorGroup @ ''/owned-by''"
definition UnmanagedAnnotation :: string where "UnmanagedAnnotation = OperatorGroup @ ''/is-unmanaged''"
definition FQDNAnnotation :: string where "FQDNAnnotation = OperatorGroup @ ''/fqdn''"
definition OCMComponentNameAnnotation :: string where
  "OCMComponentNameAnnotation = OperatorGroup @ ''/ocm-component-name''"
definition IsClusterScopedAnnotation :: string where
  "IsClusterScopedAnnotation = OperatorGroup @ ''/is-cluster-scoped''"
definition KymaFinalizer :: string where "KymaFinalizer = OperatorGroup @ ''/Kyma''"
definition MandatoryModuleFinalizer :: string where
  "MandatoryModuleFinalizer = OperatorGroup @ ''/mandatory-module''"

definition IsEnabled :: "string \<Rightarrow> bool" where
  "IsEnabled v = (toLower v = EnableLabelValue)"

definition NoneChannel :: string where "NoneChannel = ''none''"

definition Channel_Equals :: "string \<Rightarrow> string \<Rightarrow> bool" where
  "Channel_Equals c v = (c = toLower v)"

definition DefaultChannel :: string where "DefaultChannel = ''regular''"

text \<open>Reading a Go map: the zero value for a missing key.\<close>

definition label_get :: "labels \<Rightarrow> string \<Rightarrow> string" where
  "label_get m k = (case m k of None \<Rightarrow> [] | Some v \<Rightarrow> v)"

lemma label_get_upd [simp]: "label_get (m(k \<mapsto> v)) k' = (if k' = k then v else label_get m k')"
  by (simp add: label_get_def)

lemma IsEnabled_true [simp]: "IsEnabled EnableLabelValue"
  by (simp add: IsEnabled_def EnableLabelValue_def toLower_def lower_char_def)

section \<open>Object metadata\<close>

record ObjectMeta =
  om_Name :: string
  om_Namespace :: string
  om_Labels :: labels
  om_Annotations :: labels
  om_Finalizers :: "string list"
  om_DeletionTimestamp :: "int option"
  om_Generation :: int
  om_OwnerReferences :: "string list"   \<comment> \<open>the names of the owners\<close>
  om_ManagedFields :: "string list"     \<comment> \<open>the managers of the field entries\<close>

record GVK =
  gvk_Group :: string
  gvk_Version :: string
  gvk_Kind :: string

type_synonym NamespacedName = "string \<times> string"

text \<open>\<^verbatim>\<open>controllerutil.ContainsFinalizer\<close> "checks an Object that the provided
  finalizer is present".\<close>

definition ContainsFinalizer :: "ObjectMeta \<Rightarrow> string \<Rightarrow> bool" where
  "ContainsFinalizer m f = (f \<in> set (om_Finalizers m))"

section \<open>Conditions\<close>

datatype ConditionStatus = ConditionTrue | ConditionFalse | ConditionUnknown

record Condition =
  cond_Type :: string
  cond_Status :: ConditionStatus
  cond_Reason :: string
  cond_Message :: string
  cond_ObservedGeneration :: int
  cond_LastTransitionTime :: int

section \<open>The Kubernetes libraries\<close>

text \<open>
  The functions of the Kubernetes libraries that change an object. They are parameters of the
  model, collected in a record: \<^verbatim>\<open>meta.SetStatusCondition\<close>, and the two finalizer
  operations of \<^verbatim>\<open>controllerutil\<close> on the finalizer list, each with the flag it returns.
\<close>

record klib =
  SetStatusCondition :: "Condition list \<Rightarrow> Condition \<Rightarrow> Condition list"
  AddFinalizer :: "string list \<Rightarrow> string \<Rightarrow> string list \<times> bool"
  RemoveFinalizer :: "string list \<Rightarrow> string \<Rightarrow> string list \<times> bool"

definition cond_core :: "Condition \<Rightarrow> string \<times> ConditionStatus \<times> string \<times> string \<times> int" where
  "cond_core c = (cond_Type c, cond_Status c, cond_Reason c, cond_Message c, cond_ObservedGeneration c)"

text \<open>
  What the documentation of \<^verbatim>\<open>meta.SetStatusCondition\<close> says, for conditions with distinct
  types: an existing condition of the type gets all fields of the new one (the transition time
  apart), a missing one is appended, every other condition stays as it is.
\<close>

definition SetStatusCondition_spec :: "klib \<Rightarrow> bool" where
  "SetStatusCondition_spec lib \<longleftrightarrow>
     (\<forall>cs c. distinct (map cond_Type cs) \<longrightarrow>
        map cond_core (SetStatusCondition lib cs c) =
          (if cond_Type c \<in> set (map cond_Type cs)
           then map (\<lambda>d. if cond_Type d = cond_Type c then cond_core c else cond_core d) cs
           else map cond_core cs @ [cond_core c]))"

text \<open>
  The finalizer operations add a finalizer that is not present and remove one that is present,
  report whether the list changed, and touch no other finalizer.
\<close>

definition Finalizer_spec :: "klib \<Rightarrow> bool" where
  "Finalizer_spec lib \<longleftrightarrow>
     (\<forall>fs f. set (fst (AddFinalizer lib fs f)) = insert f (set fs)
        \<and> (f \<in> set fs \<longrightarrow> fst (AddFinalizer lib fs f) = fs)
        \<and> snd (AddFinalizer lib fs f) = (f \<notin> set fs)
        \<and> set (fst (RemoveFinalizer lib fs f)) = set fs - {f}
        \<and> (f \<notin> set fs \<longrightarrow> fst (RemoveFinalizer lib fs f) = fs)
        \<and> snd (RemoveFinalizer lib fs f) = (f \<in> set fs))"

definition klib_ok :: "klib \<Rightarrow> bool" where
  "klib_ok lib \<longleftrightarrow> SetStatusCondition_spec lib \<and> Finalizer_spec lib"

text \<open>A concrete library that behaves as documented, for evaluation.\<close>

definition ref_klib :: klib where
  "ref_klib =
     \<lparr>SetStatusCondition = (\<lambda>cs c.
        if cond_Type c \<in> set (map cond_Type cs)
        then map (\<lambda>d. if cond_Type d = cond_Type c then c else d) cs else cs @ [c]),
      AddFinalizer = (\<lambda>fs f. if f \<in> set fs then (fs, False) else (fs @ [f], True)),
      RemoveFinalizer = (\<lambda>fs f. (filter (\<lambda>g. g \<noteq> f) fs, f \<in> set fs))\<rparr>"

lemma ref_klib_ok: "klib_ok ref_klib"
  by (auto simp: klib_ok_def SetStatusCondition_spec_def Finalizer_spec_def ref_klib_def filter_id_conv)

definition FindStatusCondition :: "Condition list \<Rightarrow> string \<Rightarrow> Condition option" where
  "FindStatusCondition cs t = find (\<lambda>c. cond_Type c = t) cs"

lemma fst_cond_core [simp]: "fst (cond_core c) = cond_Type c"
  by (simp add: cond_core_def)

lemma SetStatusCondition_types:
  assumes "SetStatusCondition_spec lib" and "distinct (map cond_Type cs)"
  shows "map cond_Type (SetStatusCondition lib cs c) =
     (if cond_Type c \<in> set (map cond_Type cs) then map cond_Type cs
      else map cond_Type cs @ [cond_Type c])"
proof -
  have "map fst (map cond_core (SetStatusCondition lib cs c)) =
     map fst (if cond_Type c \<in> set (map cond_Type cs)
           then map (\<lambda>d. if cond_Type d = cond_Type c then cond_core c else cond_core d) cs
           else map cond_core cs @ [cond_core c])"
    using assms by (simp only: SetStatusCondition_spec_def)
  moreover have "map fst (map (\<lambda>d. if cond_Type d = cond_Type c then cond_core c else cond_core d) cs)
      = map cond_Type cs"
    by (induction cs) auto
  ultimately show ?thesis by (simp add: comp_def split: if_splits)
qed

lemma SetStatusCondition_distinct:
  assumes "SetStatusCondition_spec lib" and "distinct (map cond_Type cs)"
  shows "distinct (map cond_Type (SetStatusCondition lib cs c))"
  using SetStatusCondition_types [OF assms, of c] assms(2) by auto

text \<open>Membership of a condition after the call, up to the transition time.\<close>

lemma SetStatusCondition_core:
  assumes "SetStatusCondition_spec lib" and "distinct (map cond_Type cs)"
  shows "cond_core ` set (SetStatusCondition lib cs c) =
     insert (cond_core c) (cond_core ` {d \<in> set cs. cond_Type d \<noteq> cond_Type c})"
proof -
  let ?L = "if cond_Type c \<in> set (map cond_Type cs)
           then map (\<lambda>d. if cond_Type d = cond_Type c then cond_core c else cond_core d) cs
           else map cond_core cs @ [cond_core c]"
  have "map cond_core (SetStatusCondition lib cs c) = ?L"
    using assms by (simp only: SetStatusCondition_spec_def)
  then have "set (map cond_core (SetStatusCondition lib cs c)) = set ?L"
    by (simp only:)
  moreover have "set ?L = insert (cond_core c) (cond_core ` {d \<in> set cs. cond_Type d \<noteq> cond_Type c})"
  proof (cases "cond_Type c \<in> set (map cond_Type cs)")
    case True
    then show ?thesis by auto
  next
    case False
    then have "\<forall>d \<in> set cs. cond_Type d \<noteq> cond_Type c" by (metis image_eqI set_map)
    then have "{d \<in> set cs. cond_Type d \<noteq> cond_Type c} = set cs" by blast
    with False show ?thesis by simp
  qed
  ultimately show ?thesis by (simp only: set_map)
qed

end
