(* ===== verification/KymaTypes.thy ===== *)
theory KymaTypes
  imports ApiTypes
begin

text \<open>
  The Kyma custom resource (\<^verbatim>\<open>api/v1beta2/kyma_types.go\<close>,
  \<^verbatim>\<open>condition_messages.go\<close>) and the two helpers of \<^verbatim>\<open>pkg/status\<close> that initialise
  its conditions and write its status. The main facts: the state that is computed for a Kyma is
  the worst state of its modules, and it is Ready only when every condition is True; the
  initialised conditions are exactly the required ones, each Unknown; a module status is "no longer
  existing" exactly when the spec does not name it.
\<close>

section \<open>Data\<close>

datatype CustomResourcePolicy = CreateAndDelete | IgnorePolicy | OtherPolicy string

record Module =
  mod_CustomResourcePolicy :: CustomResourcePolicy
  mod_Name :: string
  mod_ControllerName :: string
  mod_Channel :: string
  mod_Version :: string
  mod_Managed :: bool

record KymaSpec =
  ks_Channel :: string
  ks_SkipMaintenanceWindows :: bool
  ks_Modules :: "Module list"

record TrackingObject =
  to_APIVersion :: string
  to_Kind :: string
  to_Name :: string
  to_Namespace :: string
  to_Generation :: int

record ModuleStatus =
  ms_Name :: string
  ms_FQDN :: string
  ms_OCMComponentName :: string
  ms_Channel :: string
  ms_Version :: string
  ms_Message :: string
  ms_State :: State
  ms_Manifest :: "TrackingObject option"
  ms_Resource :: "TrackingObject option"
  ms_Template :: "TrackingObject option"
  ms_Maintenance :: bool

record LastOperation =
  lo_Operation :: string
  lo_LastUpdateTime :: int

record KymaStatus =
  kst_LastOperation :: LastOperation
  kst_State :: State
  kst_Conditions :: "Condition list"
  kst_Modules :: "ModuleStatus list"
  kst_ActiveChannel :: string

record Kyma =
  kyma_Meta :: ObjectMeta
  kyma_Spec :: KymaSpec
  kyma_Status :: KymaStatus

abbreviation kyma_modules :: "Kyma \<Rightarrow> ModuleStatus list" where
  "kyma_modules k \<equiv> kst_Modules (kyma_Status k)"

abbreviation kyma_conditions :: "Kyma \<Rightarrow> Condition list" where
  "kyma_conditions k \<equiv> kst_Conditions (kyma_Status k)"

abbreviation kyma_labels :: "Kyma \<Rightarrow> labels" where
  "kyma_labels k \<equiv> om_Labels (kyma_Meta k)"

definition set_conditions :: "Condition list \<Rightarrow> Kyma \<Rightarrow> Kyma" where
  "set_conditions cs k = k\<lparr>kyma_Status := (kyma_Status k)\<lparr>kst_Conditions := cs\<rparr>\<rparr>"

definition set_modules :: "ModuleStatus list \<Rightarrow> Kyma \<Rightarrow> Kyma" where
  "set_modules ms k = k\<lparr>kyma_Status := (kyma_Status k)\<lparr>kst_Modules := ms\<rparr>\<rparr>"

lemma set_conditions_sel [simp]:
  "kyma_Meta (set_conditions cs k) = kyma_Meta k"
  "kyma_Spec (set_conditions cs k) = kyma_Spec k"
  "kyma_conditions (set_conditions cs k) = cs"
  "kyma_modules (set_conditions cs k) = kyma_modules k"
  "kst_State (kyma_Status (set_conditions cs k)) = kst_State (kyma_Status k)"
  by (simp_all add: set_conditions_def)

lemma set_modules_sel [simp]:
  "kyma_Meta (set_modules ms k) = kyma_Meta k"
  "kyma_Spec (set_modules ms k) = kyma_Spec k"
  "kyma_conditions (set_modules ms k) = kyma_conditions k"
  "kyma_modules (set_modules ms k) = ms"
  "kst_State (kyma_Status (set_modules ms k)) = kst_State (kyma_Status k)"
  by (simp_all add: set_modules_def)

section \<open>Module statuses\<close>

definition GetModuleStatusMap :: "Kyma \<Rightarrow> (string \<rightharpoonup> ModuleStatus)" where
  "GetModuleStatusMap k = map_by ms_Name (kyma_modules k)"

definition GetModuleStatus :: "KymaStatus \<Rightarrow> string \<Rightarrow> ModuleStatus option" where
  "GetModuleStatus st name = find (\<lambda>m. ms_Name m = name) (kst_Modules st)"

text \<open>
  The map from a module name to its (last) status and to whether the spec still names it. The
  statuses that no longer exist are read off by ranging over this map: Go visits its keys in an
  unspecified order, which is the argument \<open>order\<close>.
\<close>

definition moduleStatusExists :: "Kyma \<Rightarrow> (string \<rightharpoonup> ModuleStatus \<times> bool)" where
  "moduleStatusExists k =
     (\<lambda>n. map_option (\<lambda>m. (m, n \<in> mod_Name ` set (ks_Modules (kyma_Spec k)))) (GetModuleStatusMap k n))"

definition GetNoLongerExistingModuleStatus :: "string list \<Rightarrow> Kyma \<Rightarrow> ModuleStatus list" where
  "GetNoLongerExistingModuleStatus order k =
     List.map_filter (\<lambda>n. case moduleStatusExists k n of
         Some (m, ex) \<Rightarrow> if ex then None else Some m
       | None \<Rightarrow> None) order"

definition is_key_order :: "string list \<Rightarrow> Kyma \<Rightarrow> bool" where
  "is_key_order order k \<longleftrightarrow> distinct order \<and> set order = ms_Name ` set (kyma_modules k)"

section \<open>Conditions\<close>

definition DeprecatedConditionTypeReady :: string where "DeprecatedConditionTypeReady = ''Ready''"
definition ConditionTypeModules :: string where "ConditionTypeModules = ''Modules''"
definition ConditionTypeModuleCatalog :: string where "ConditionTypeModuleCatalog = ''ModuleCatalog''"
definition ConditionTypeCRDsSync :: string where "ConditionTypeCRDsSync = ''CRDsSync''"
definition ConditionTypeSKRWebhook :: string where "ConditionTypeSKRWebhook = ''SKRWebhook''"
definition ConditionTypeSKRImagePullSecretSync :: string where
  "ConditionTypeSKRImagePullSecretSync = ''SKRImagePullSecretSync''"
definition KymaConditionReason :: string where "KymaConditionReason = ''Ready''"

lemmas condition_type_defs =
  ConditionTypeModules_def ConditionTypeModuleCatalog_def ConditionTypeCRDsSync_def
  ConditionTypeSKRWebhook_def ConditionTypeSKRImagePullSecretSync_def

record conditionMessages =
  trueMessage :: string
  falseMessage :: string
  unknownMessage :: string

definition defaultConditionMessage :: string where
  "defaultConditionMessage =
     ''no detailed message available as condition or status is unknown to API''"

definition conditionMessagesByType :: "string \<rightharpoonup> conditionMessages" where
  "conditionMessagesByType = [
     ConditionTypeModules \<mapsto> \<lparr>trueMessage = ''all modules are in ready state'',
        falseMessage = ''not all modules are in ready state'',
        unknownMessage = ''modules state is unknown''\<rparr>,
     ConditionTypeModuleCatalog \<mapsto> \<lparr>trueMessage = ''module templates are synchronized'',
        falseMessage = ''module templates are out of sync and need to be resynchronized'',
        unknownMessage = ''module templates synchronization state is unknown''\<rparr>,
     ConditionTypeCRDsSync \<mapsto> \<lparr>trueMessage = ''CRDs are synchronized to the SKR'',
        falseMessage = ''CRDs are not synchronized to the SKR'',
        unknownMessage = ''CRDs synchronization state is unknown''\<rparr>,
     ConditionTypeSKRWebhook \<mapsto> \<lparr>trueMessage = ''skrwebhook is synchronized'',
        falseMessage = ''skrwebhook is out of sync and needs to be resynchronized'',
        unknownMessage = []\<rparr>,
     ConditionTypeSKRImagePullSecretSync \<mapsto>
       \<lparr>trueMessage = ''skr image pull secret is synchronized'',
        falseMessage = ''skr image pull secret is out of sync and needs to be resynchronized'',
        unknownMessage = []\<rparr>]"

definition GenerateMessage :: "string \<Rightarrow> ConditionStatus \<Rightarrow> string" where
  "GenerateMessage t st =
     (case conditionMessagesByType t of
        None \<Rightarrow> defaultConditionMessage
      | Some ms \<Rightarrow>
          (case st of
             ConditionTrue \<Rightarrow> trueMessage ms
           | ConditionUnknown \<Rightarrow>
               (if unknownMessage ms \<noteq> [] then unknownMessage ms else falseMessage ms)
           | ConditionFalse \<Rightarrow> falseMessage ms))"

definition GetRequiredConditionTypes :: "bool \<Rightarrow> bool \<Rightarrow> string list" where
  "GetRequiredConditionTypes watcherEnabled skrImagePullSecretSyncEnabled =
     [ConditionTypeCRDsSync] @ [ConditionTypeModules] @ [ConditionTypeModuleCatalog]
     @ (if watcherEnabled then [ConditionTypeSKRWebhook] else [])
     @ (if skrImagePullSecretSyncEnabled then [ConditionTypeSKRImagePullSecretSync] else [])"

text \<open>The new condition carries no transition time: the library fills it in.\<close>

definition kyma_condition :: "Kyma \<Rightarrow> string \<Rightarrow> ConditionStatus \<Rightarrow> Condition" where
  "kyma_condition k t st =
     \<lparr>cond_Type = t, cond_Status = st, cond_Reason = KymaConditionReason,
      cond_Message = GenerateMessage t st,
      cond_ObservedGeneration = om_Generation (kyma_Meta k),
      cond_LastTransitionTime = 0\<rparr>"

definition UpdateCondition :: "klib \<Rightarrow> string \<Rightarrow> ConditionStatus \<Rightarrow> Kyma \<Rightarrow> Kyma" where
  "UpdateCondition lib t st k =
     set_conditions (SetStatusCondition lib (kyma_conditions k) (kyma_condition k t st)) k"

definition ContainsCondition :: "Kyma \<Rightarrow> string \<Rightarrow> ConditionStatus list \<Rightarrow> bool" where
  "ContainsCondition k t sts =
     list_ex (\<lambda>c. cond_Type c = t \<and> (sts = [] \<or> cond_Status c \<in> set sts)) (kyma_conditions k)"

definition InitConditions :: "klib \<Rightarrow> bool \<Rightarrow> bool \<Rightarrow> Kyma \<Rightarrow> Kyma" where
  "InitConditions lib watcherEnabled skrImagePullSecretEnabled k =
     fold (\<lambda>t. UpdateCondition lib t ConditionUnknown)
       (GetRequiredConditionTypes watcherEnabled skrImagePullSecretEnabled)
       (set_conditions [] k)"

section \<open>States\<close>

definition DetermineState :: "Kyma \<Rightarrow> State" where
  "DetermineState k =
     (let states = ms_State ` set (kyma_modules k) in
      if StateError \<in> states then StateError
      else if StateWarning \<in> states then StateWarning
      else if StateProcessing \<in> states then StateProcessing
      else if \<exists>c \<in> set (kyma_conditions k). cond_Status c \<noteq> ConditionTrue then StateProcessing
      else StateReady)"

definition AllModulesReady :: "Kyma \<Rightarrow> bool" where
  "AllModulesReady k =
     (\<forall>m \<in> set (kyma_modules k). ms_State m = StateReady \<or> ms_State m = StateUnmanaged)"

section \<open>Labels and finalizers\<close>

definition label_enabled :: "labels \<Rightarrow> string \<Rightarrow> bool" where
  "label_enabled m l = (case m l of None \<Rightarrow> False | Some v \<Rightarrow> IsEnabled v)"

definition Kyma_SkipReconciliation :: "Kyma \<Rightarrow> bool" where
  "Kyma_SkipReconciliation k = label_enabled (kyma_labels k) SkipReconcileLabel"

definition Kyma_IsInternal :: "Kyma \<Rightarrow> bool" where
  "Kyma_IsInternal k = label_enabled (kyma_labels k) InternalLabel"

definition Kyma_IsBeta :: "Kyma \<Rightarrow> bool" where
  "Kyma_IsBeta k = label_enabled (kyma_labels k) BetaLabel"

definition foregroundDeletion :: string where "foregroundDeletion = ''foregroundDeletion''"

definition EnsureLabelsAndFinalizers :: "klib \<Rightarrow> Kyma \<Rightarrow> Kyma \<times> bool" where
  "EnsureLabelsAndFinalizers lib k =
     (let m = kyma_Meta k in
      if ContainsFinalizer m foregroundDeletion then (k, False)
      else
        (let (m1, upd1) =
           (if om_DeletionTimestamp m = None \<and> \<not> ContainsFinalizer m KymaFinalizer
            then (m\<lparr>om_Finalizers := fst (AddFinalizer lib (om_Finalizers m) KymaFinalizer)\<rparr>, True)
            else (m, False));
             (m2, upd2) =
           (if om_Labels m1 ManagedBy = None
            then (m1\<lparr>om_Labels := (om_Labels m1)(ManagedBy \<mapsto> OperatorName)\<rparr>, True)
            else (m1, upd1))
         in (k\<lparr>kyma_Meta := m2\<rparr>, upd2)))"

definition Kyma_NamespacedName :: "Kyma \<Rightarrow> NamespacedName" where
  "Kyma_NamespacedName k = (om_Namespace (kyma_Meta k), om_Name (kyma_Meta k))"

definition GetGlobalAccount :: "Kyma \<Rightarrow> string" where
  "GetGlobalAccount k = label_get (kyma_labels k) GlobalAccountIDLabel"
definition GetRegion :: "Kyma \<Rightarrow> string" where
  "GetRegion k = label_get (kyma_labels k) RegionLabel"
definition GetPlatformRegion :: "Kyma \<Rightarrow> string" where
  "GetPlatformRegion k = label_get (kyma_labels k) PlatformRegionLabel"
definition GetPlan :: "Kyma \<Rightarrow> string" where
  "GetPlan k = label_get (kyma_labels k) PlanLabel"
definition GetRuntimeID :: "Kyma \<Rightarrow> string" where
  "GetRuntimeID k = label_get (kyma_labels k) RuntimeIDLabel"

section \<open>Writing the status (\<^verbatim>\<open>pkg/status/kyma_helper.go\<close>)\<close>

definition SetActiveChannel :: "Kyma \<Rightarrow> Kyma" where
  "SetActiveChannel k =
     k\<lparr>kyma_Status := (kyma_Status k)\<lparr>kst_ActiveChannel := ks_Channel (kyma_Spec k)\<rparr>\<rparr>"

text \<open>
  \<open>patch\<close> is the answer of the API server to the status patch, on success with the object as it
  is stored, which replaces the object in memory. The last component of the result tells whether
  the status metrics were recorded, which happens after a successful patch only.
\<close>

definition status_object :: "int \<Rightarrow> Kyma \<Rightarrow> State \<Rightarrow> string \<Rightarrow> Kyma" where
  "status_object now k newState message =
     (let k1 = k\<lparr>kyma_Status := (kyma_Status k)\<lparr>kst_State := newState\<rparr>,
                 kyma_Meta := (kyma_Meta k)\<lparr>om_ManagedFields := []\<rparr>\<rparr>;
          k2 = (case newState of
                  StateReady \<Rightarrow> SetActiveChannel k1
                | StateWarning \<Rightarrow> SetActiveChannel k1
                | _ \<Rightarrow> k1)
      in k2\<lparr>kyma_Status := (kyma_Status k2)\<lparr>kst_LastOperation :=
                 \<lparr>lo_Operation = message, lo_LastUpdateTime = now\<rparr>\<rparr>\<rparr>)"

definition UpdateStatusForExistingModules ::
  "(Kyma \<Rightarrow> goerror + Kyma) \<Rightarrow> int \<Rightarrow> Kyma \<Rightarrow> State \<Rightarrow> string \<Rightarrow> Kyma \<times> goerror option \<times> bool" where
  "UpdateStatusForExistingModules patch now k newState message =
     (let k3 = status_object now k newState message in
      case patch k3 of
        Inl e \<Rightarrow> (k3, Some (wrapErr ''status could not be updated: '' e), False)
      | Inr k4 \<Rightarrow> (k4, None, True))"

lemma status_object_sel [simp]:
  "kst_State (kyma_Status (status_object now k st msg)) = st"
  "kyma_conditions (status_object now k st msg) = kyma_conditions k"
  "kyma_modules (status_object now k st msg) = kyma_modules k"
  "kyma_Spec (status_object now k st msg) = kyma_Spec k"
  "kst_ActiveChannel (kyma_Status (status_object now k StateReady msg)) = ks_Channel (kyma_Spec k)"
  by (auto simp: status_object_def SetActiveChannel_def Let_def split: State.splits)

section \<open>Facts about conditions\<close>

lemma UpdateCondition_sel [simp]:
  "kyma_Meta (UpdateCondition lib t st k) = kyma_Meta k"
  "kyma_Spec (UpdateCondition lib t st k) = kyma_Spec k"
  "kyma_modules (UpdateCondition lib t st k) = kyma_modules k"
  "kst_State (kyma_Status (UpdateCondition lib t st k)) = kst_State (kyma_Status k)"
  by (simp_all add: UpdateCondition_def)

lemma UpdateCondition_distinct:
  assumes "SetStatusCondition_spec lib" and "distinct (map cond_Type (kyma_conditions k))"
  shows "distinct (map cond_Type (kyma_conditions (UpdateCondition lib t st k)))"
  using SetStatusCondition_distinct [OF assms] by (simp add: UpdateCondition_def)

lemma UpdateCondition_core:
  assumes "SetStatusCondition_spec lib" and "distinct (map cond_Type (kyma_conditions k))"
  shows "cond_core ` set (kyma_conditions (UpdateCondition lib t st k)) =
     insert (cond_core (kyma_condition k t st))
       (cond_core ` {d \<in> set (kyma_conditions k). cond_Type d \<noteq> t})"
  using SetStatusCondition_core [OF assms, of "kyma_condition k t st"]
  by (simp add: UpdateCondition_def kyma_condition_def)

text \<open>The status of the condition that was written, and of every other one.\<close>

definition condition_statuses :: "Kyma \<Rightarrow> (string \<times> ConditionStatus) set" where
  "condition_statuses k = (\<lambda>c. (cond_Type c, cond_Status c)) ` set (kyma_conditions k)"

lemma condition_statuses_core:
  "condition_statuses k = (\<lambda>x. (fst x, fst (snd x))) ` cond_core ` set (kyma_conditions k)"
  by (simp add: condition_statuses_def image_image cond_core_def)

lemma UpdateCondition_statuses:
  assumes "SetStatusCondition_spec lib" and "distinct (map cond_Type (kyma_conditions k))"
  shows "condition_statuses (UpdateCondition lib t st k) =
     insert (t, st) {p \<in> condition_statuses k. fst p \<noteq> t}"
proof -
  have "condition_statuses (UpdateCondition lib t st k) =
     (\<lambda>x. (fst x, fst (snd x))) ` insert (cond_core (kyma_condition k t st))
       (cond_core ` {d \<in> set (kyma_conditions k). cond_Type d \<noteq> t})"
    by (simp only: condition_statuses_core UpdateCondition_core [OF assms])
  also have "\<dots> = insert (t, st) {p \<in> condition_statuses k. fst p \<noteq> t}"
    by (auto simp: condition_statuses_def cond_core_def kyma_condition_def image_iff)
  finally show ?thesis .
qed

lemma GetRequiredConditionTypes_distinct: "distinct (GetRequiredConditionTypes w s)"
  by (simp add: GetRequiredConditionTypes_def condition_type_defs)

lemma fold_UpdateCondition:
  assumes "SetStatusCondition_spec lib" and "distinct ts"
    and "distinct (map cond_Type (kyma_conditions k))"
    and "set ts \<inter> cond_Type ` set (kyma_conditions k) = {}"
  shows "map cond_core (kyma_conditions (fold (\<lambda>t. UpdateCondition lib t st) ts k)) =
     map cond_core (kyma_conditions k) @ map (\<lambda>t. cond_core (kyma_condition k t st)) ts"
  using assms
proof (induction ts arbitrary: k)
  case Nil
  then show ?case by simp
next
  case (Cons t ts)
  let ?k = "UpdateCondition lib t st k"
  have new: "map cond_core (kyma_conditions ?k) =
      map cond_core (kyma_conditions k) @ [cond_core (kyma_condition k t st)]"
    using Cons.prems by (auto simp: UpdateCondition_def SetStatusCondition_spec_def kyma_condition_def)
  have types: "map cond_Type (kyma_conditions ?k) = map cond_Type (kyma_conditions k) @ [t]"
    using arg_cong [OF new, of "map fst"] by (simp add: comp_def kyma_condition_def)
  have core: "kyma_condition ?k = kyma_condition k"
    by (intro ext) (simp add: kyma_condition_def)
  have dist: "distinct (map cond_Type (kyma_conditions ?k))"
    using Cons.prems types by auto
  have "set (map cond_Type (kyma_conditions ?k)) = cond_Type ` set (kyma_conditions k) \<union> {t}"
    by (simp only: types) auto
  then have disj: "set ts \<inter> cond_Type ` set (kyma_conditions ?k) = {}"
    using Cons.prems by auto
  show ?case
    using Cons.IH [of ?k] Cons.prems dist disj new by (simp add: core)
qed

lemma InitConditions_core:
  assumes "SetStatusCondition_spec lib"
  shows "map cond_core (kyma_conditions (InitConditions lib w s k)) =
     map (\<lambda>t. cond_core (kyma_condition k t ConditionUnknown)) (GetRequiredConditionTypes w s)"
proof -
  have "kyma_condition (set_conditions [] k) = kyma_condition k"
    by (intro ext) (simp add: kyma_condition_def)
  then show ?thesis
    using fold_UpdateCondition [OF assms GetRequiredConditionTypes_distinct, of "set_conditions [] k"]
    by (simp add: InitConditions_def)
qed

lemma InitConditions_sel [simp]:
  "kyma_Meta (InitConditions lib w s k) = kyma_Meta k"
  "kyma_Spec (InitConditions lib w s k) = kyma_Spec k"
  "kyma_modules (InitConditions lib w s k) = kyma_modules k"
  "kst_State (kyma_Status (InitConditions lib w s k)) = kst_State (kyma_Status k)"
proof -
  have *: "kyma_Meta (fold (\<lambda>t. UpdateCondition lib t st) ts k') = kyma_Meta k'
    \<and> kyma_Spec (fold (\<lambda>t. UpdateCondition lib t st) ts k') = kyma_Spec k'
    \<and> kyma_modules (fold (\<lambda>t. UpdateCondition lib t st) ts k') = kyma_modules k'
    \<and> kst_State (kyma_Status (fold (\<lambda>t. UpdateCondition lib t st) ts k')) = kst_State (kyma_Status k')"
    for ts st k'
    by (induction ts arbitrary: k') simp_all
  show "kyma_Meta (InitConditions lib w s k) = kyma_Meta k"
    "kyma_Spec (InitConditions lib w s k) = kyma_Spec k"
    "kyma_modules (InitConditions lib w s k) = kyma_modules k"
    "kst_State (kyma_Status (InitConditions lib w s k)) = kst_State (kyma_Status k)"
    by (simp_all add: InitConditions_def *)
qed

lemma InitConditions_distinct:
  assumes "SetStatusCondition_spec lib"
  shows "distinct (map cond_Type (kyma_conditions (InitConditions lib w s k)))"
proof -
  have "map cond_Type (kyma_conditions (InitConditions lib w s k)) =
      map fst (map cond_core (kyma_conditions (InitConditions lib w s k)))"
    by (simp add: comp_def)
  also have "\<dots> = GetRequiredConditionTypes w s"
    by (simp only: InitConditions_core [OF assms]) (simp add: comp_def kyma_condition_def)
  finally show ?thesis by (simp add: GetRequiredConditionTypes_distinct)
qed

section \<open>Facts about states, labels and module statuses\<close>

lemma DetermineState_Error: "DetermineState k = StateError \<longleftrightarrow> StateError \<in> ms_State ` set (kyma_modules k)"
  by (simp add: DetermineState_def Let_def)

lemma DetermineState_Ready:
  "DetermineState k = StateReady \<longleftrightarrow>
     (\<forall>m \<in> set (kyma_modules k). ms_State m \<notin> {StateError, StateWarning, StateProcessing})
     \<and> (\<forall>c \<in> set (kyma_conditions k). cond_Status c = ConditionTrue)"
  by (simp add: DetermineState_def Let_def ball_notin3 del: insert_iff)

lemma DetermineState_range:
  "DetermineState k \<in> {StateError, StateWarning, StateProcessing, StateReady}"
  by (simp add: DetermineState_def Let_def)

lemma conditions_true_statuses:
  "(\<forall>c \<in> set (kyma_conditions k). cond_Status c = ConditionTrue) \<longleftrightarrow>
     (\<forall>p \<in> condition_statuses k. snd p = ConditionTrue)"
  by (auto simp: condition_statuses_def)

lemma GetNoLongerExisting_set:
  assumes "is_key_order order k"
  shows "set (GetNoLongerExistingModuleStatus order k) =
     {m. GetModuleStatusMap k (ms_Name m) = Some m
         \<and> ms_Name m \<notin> mod_Name ` set (ks_Modules (kyma_Spec k))}"
proof -
  have eq: "set (GetNoLongerExistingModuleStatus order k) =
     {m. \<exists>n \<in> set order. GetModuleStatusMap k n = Some m
         \<and> n \<notin> mod_Name ` set (ks_Modules (kyma_Spec k))}"
    by (auto simp: GetNoLongerExistingModuleStatus_def set_map_filter_iff moduleStatusExists_def
        split: option.splits prod.splits if_splits)
  have key: "n \<in> set order \<and> ms_Name m = n" if "GetModuleStatusMap k n = Some m" for n m
    using assms map_by_Some [of ms_Name "kyma_modules k" n m] that
    by (auto simp: is_key_order_def GetModuleStatusMap_def)
  show ?thesis unfolding eq using key by blast
qed

lemma EnsureLabelsAndFinalizers_idem:
  assumes "Finalizer_spec lib" and "EnsureLabelsAndFinalizers lib k = (k', u)"
  shows "EnsureLabelsAndFinalizers lib k' = (k', False)"
  using assms
  by (auto simp: EnsureLabelsAndFinalizers_def Finalizer_spec_def ContainsFinalizer_def Let_def
      foregroundDeletion_def KymaFinalizer_def OperatorGroup_def split: if_splits)

lemma EnsureLabelsAndFinalizers_post:
  assumes "Finalizer_spec lib" and "EnsureLabelsAndFinalizers lib k = (k', u)"
    and "\<not> ContainsFinalizer (kyma_Meta k) foregroundDeletion"
  shows "om_Labels (kyma_Meta k') ManagedBy \<noteq> None"
    and "om_DeletionTimestamp (kyma_Meta k) = None \<Longrightarrow> ContainsFinalizer (kyma_Meta k') KymaFinalizer"
  using assms
  by (auto simp: EnsureLabelsAndFinalizers_def Finalizer_spec_def ContainsFinalizer_def Let_def
      split: if_splits)

text \<open>The flag is raised exactly when the object changed.\<close>

lemma EnsureLabelsAndFinalizers_flag:
  assumes "Finalizer_spec lib" and "EnsureLabelsAndFinalizers lib k = (k', u)"
  shows "u \<longleftrightarrow> k' \<noteq> k"
proof -
  have "\<not> u \<Longrightarrow> k' = k"
    using assms(2) by (auto simp: EnsureLabelsAndFinalizers_def Let_def split: if_splits)
  moreover have "u \<Longrightarrow> om_Labels (kyma_Meta k') ManagedBy \<noteq> om_Labels (kyma_Meta k) ManagedBy
      \<or> set (om_Finalizers (kyma_Meta k')) \<noteq> set (om_Finalizers (kyma_Meta k))"
    using assms by (auto simp: EnsureLabelsAndFinalizers_def Finalizer_spec_def
        ContainsFinalizer_def Let_def split: if_splits)
  ultimately show ?thesis by blast
qed

section \<open>Properties\<close>

text \<open>Labels and finalizers are ensured once. The function that adds them is idempotent, its flag tells
  exactly whether it changed the Kyma, and a Kyma that is not deleted in the foreground has the label that it is
  managed afterwards and, unless it is marked for deletion, the finalizer. So the update that the flag
  triggers is made at most once, and everything that needs the finalizer runs with it in place.\<close>

theorem EnsureLabelsAndFinalizers_correct:
  assumes "Finalizer_spec lib" and "EnsureLabelsAndFinalizers lib k = (k', u)"
    and "\<not> ContainsFinalizer (kyma_Meta k) foregroundDeletion"
  shows "EnsureLabelsAndFinalizers lib k' = (k', False) \<and> (u \<longleftrightarrow> k' \<noteq> k)
    \<and> om_Labels (kyma_Meta k') ManagedBy \<noteq> None
    \<and> (om_DeletionTimestamp (kyma_Meta k) = None \<longrightarrow> ContainsFinalizer (kyma_Meta k') KymaFinalizer)"
  using EnsureLabelsAndFinalizers_idem [OF assms(1,2)] EnsureLabelsAndFinalizers_flag [OF assms(1,2)]
    EnsureLabelsAndFinalizers_post [OF assms] by blast

definition ex_bare_kyma :: Kyma where
  "ex_bare_kyma =
     \<lparr>kyma_Meta = \<lparr>om_Name = ''kyma'', om_Namespace = ''kcp-system'', om_Labels = Map.empty,
        om_Annotations = Map.empty, om_Finalizers = [], om_DeletionTimestamp = None,
        om_Generation = 1, om_OwnerReferences = [], om_ManagedFields = []\<rparr>,
      kyma_Spec = \<lparr>ks_Channel = ''regular'', ks_SkipMaintenanceWindows = False, ks_Modules = []\<rparr>,
      kyma_Status = \<lparr>kst_LastOperation = \<lparr>lo_Operation = [], lo_LastUpdateTime = 0\<rparr>, kst_State = StateEmpty,
        kst_Conditions = [], kst_Modules = [], kst_ActiveChannel = []\<rparr>\<rparr>"

theorem EnsureLabelsAndFinalizers_correct_witness:
  "snd (EnsureLabelsAndFinalizers ref_klib ex_bare_kyma)
   \<and> ContainsFinalizer (kyma_Meta (fst (EnsureLabelsAndFinalizers ref_klib ex_bare_kyma))) KymaFinalizer
   \<and> snd (EnsureLabelsAndFinalizers ref_klib (fst (EnsureLabelsAndFinalizers ref_klib ex_bare_kyma))) = False"
proof -
  let ?r = "EnsureLabelsAndFinalizers ref_klib ex_bare_kyma"
  have lib: "Finalizer_spec ref_klib" using ref_klib_ok by (simp add: klib_ok_def)
  have r: "?r = (fst ?r, snd ?r)" by simp
  have f: "\<not> ContainsFinalizer (kyma_Meta ex_bare_kyma) foregroundDeletion"
    by (simp add: ContainsFinalizer_def ex_bare_kyma_def)
  have "om_DeletionTimestamp (kyma_Meta ex_bare_kyma) = None" by (simp add: ex_bare_kyma_def)
  moreover have "snd ?r" by code_simp
  ultimately show ?thesis
    using EnsureLabelsAndFinalizers_correct [OF lib r f] by simp
qed

end
