(* ===== verification/ModuleTypes.thy ===== *)
theory ModuleTypes
  imports KymaTypes
begin

text \<open>
  The resources that describe what can be installed
  (\<^verbatim>\<open>api/v1beta2/moduletemplate_types.go\<close>, \<^verbatim>\<open>modulereleasemeta_types.go\<close>), the
  identity of an OCM component (\<^verbatim>\<open>internal/descriptor/types/ocmidentity\<close>), and the match of
  a restricted module against a Kyma (\<^verbatim>\<open>internal/service/restrictedmodule\<close>).

  A default custom resource (\<^verbatim>\<open>*unstructured.Unstructured\<close>) keeps its kind, name,
  namespace and an opaque body. Turning a \<^verbatim>\<open>metav1.LabelSelector\<close> into a selector is
  library code and a parameter.
\<close>

record Unstructured =
  un_GVK :: GVK
  un_Name :: string
  un_Namespace :: string
  un_Generation :: int
  un_Body :: string

record Manager =
  mgr_GVK :: GVK
  mgr_Namespace :: string
  mgr_Name :: string

record ModuleTemplate =
  mt_GVK :: GVK
  mt_Meta :: ObjectMeta
  mt_HasLabels :: bool   \<comment> \<open>the label map is not nil\<close>
  mt_Version :: string
  mt_ModuleName :: string
  mt_Mandatory :: bool
  mt_Data :: "Unstructured option"
  mt_Manager :: "Manager option"
  mt_RequiresDowntime :: bool

definition MT_IsInternal :: "ModuleTemplate \<Rightarrow> bool" where
  "MT_IsInternal m = (case om_Labels (mt_Meta m) InternalLabel of
     Some v \<Rightarrow> toLower v = EnableLabelValue | None \<Rightarrow> False)"

definition MT_IsBeta :: "ModuleTemplate \<Rightarrow> bool" where
  "MT_IsBeta m = (case om_Labels (mt_Meta m) BetaLabel of
     Some v \<Rightarrow> toLower v = EnableLabelValue | None \<Rightarrow> False)"

definition MT_IsMandatory :: "ModuleTemplate \<Rightarrow> bool" where
  "MT_IsMandatory m = mt_Mandatory m"

definition SyncEnabled :: "ModuleTemplate \<Rightarrow> bool \<Rightarrow> bool \<Rightarrow> bool" where
  "SyncEnabled m betaEnabled internalEnabled =
     (if MT_IsBeta m \<and> \<not> betaEnabled then False
      else if MT_IsInternal m \<and> \<not> internalEnabled then False
      else if MT_IsMandatory m then False
      else True)"

definition CreateModuleTemplateName :: "string \<Rightarrow> string \<Rightarrow> string" where
  "CreateModuleTemplateName moduleName version = moduleName @ ''-'' @ version"

record LabelSelector =
  sel_MatchLabels :: "(string \<times> string) list"
  sel_MatchExpressions :: "string list"

record ChannelVersionAssignment =
  cva_Channel :: string
  cva_Version :: string

record ModuleReleaseMeta =
  mrm_Meta :: ObjectMeta
  mrm_ModuleName :: string
  mrm_OcmComponentName :: string
  mrm_Channels :: "ChannelVersionAssignment list"
  mrm_Mandatory :: "string option"   \<comment> \<open>the version of \<open>spec.mandatory\<close>, when set\<close>
  mrm_Beta :: bool
  mrm_Internal :: bool
  mrm_KymaSelector :: "LabelSelector option"

definition MRM_IsMandatory :: "ModuleReleaseMeta \<Rightarrow> bool" where
  "MRM_IsMandatory m = (mrm_Mandatory m \<noteq> None)"

definition GetAllChannels :: "ModuleReleaseMeta \<Rightarrow> string list" where
  "GetAllChannels m = map cva_Channel (mrm_Channels m)"

section \<open>Component identities\<close>

type_synonym ComponentId = "string \<times> string"

definition ErrValueNotProvided :: goerror where
  "ErrValueNotProvided = Sentinel ''ErrValueNotProvided'' ''value not provided''"

definition NewComponentId :: "string \<Rightarrow> string \<Rightarrow> goerror + ComponentId" where
  "NewComponentId name version =
     (if name = [] then Inl (wrapErr ''invalid component name: '' ErrValueNotProvided)
      else if version = [] then Inl (wrapErr ''invalid component version: '' ErrValueNotProvided)
      else Inr (name, version))"

section \<open>Restricted modules\<close>

definition ErrSelectorParse :: goerror where
  "ErrSelectorParse =
     Sentinel ''ErrSelectorParse'' ''failed to parse kymaSelector on ModuleReleaseMeta''"

definition RestrictedModuleMatch ::
  "(LabelSelector \<Rightarrow> goerror + (labels \<Rightarrow> bool)) \<Rightarrow> ModuleReleaseMeta option \<Rightarrow> Kyma option
     \<Rightarrow> goerror + bool" where
  "RestrictedModuleMatch asSelector mrm kyma =
     (case (mrm, kyma) of
        (Some m, Some k) \<Rightarrow>
          (case mrm_KymaSelector m of
             None \<Rightarrow> Inr False
           | Some sel \<Rightarrow>
               if sel_MatchLabels sel = [] \<and> sel_MatchExpressions sel = [] then Inr False
               else (case asSelector sel of
                       Inl e \<Rightarrow> Inl (Errorf [Wrap ErrSelectorParse, Lit '': '', Wrap e])
                     | Inr matches \<Rightarrow> Inr (matches (kyma_labels k))))
      | _ \<Rightarrow> Inr False)"

lemma SyncEnabled_iff:
  "SyncEnabled m beta internal \<longleftrightarrow>
     (MT_IsBeta m \<longrightarrow> beta) \<and> (MT_IsInternal m \<longrightarrow> internal) \<and> \<not> mt_Mandatory m"
  by (auto simp: SyncEnabled_def MT_IsMandatory_def)

lemma RestrictedModuleMatch_True:
  "RestrictedModuleMatch asSelector (Some m) (Some k) = Inr True \<longleftrightarrow>
     (\<exists>sel matches. mrm_KymaSelector m = Some sel
        \<and> (sel_MatchLabels sel \<noteq> [] \<or> sel_MatchExpressions sel \<noteq> [])
        \<and> asSelector sel = Inr matches \<and> matches (kyma_labels k))"
  by (auto simp: RestrictedModuleMatch_def split: option.splits sum.splits if_splits)

lemma NewComponentId_Inr:
  "NewComponentId n v = Inr c \<longleftrightarrow> n \<noteq> [] \<and> v \<noteq> [] \<and> c = (n, v)"
  by (auto simp: NewComponentId_def)

end
