(* ===== verification/MaintenanceWindows.thy ===== *)
theory MaintenanceWindows
  imports KymaTypes
begin

text \<open>
  Maintenance windows: the policy resolver (\<^verbatim>\<open>maintenancewindows/resolver/maintwindow.go\<close>)
  and the check the module lookup makes against it
  (\<^verbatim>\<open>internal/maintenancewindows/maintenance_window.go\<close>).

  A \<^verbatim>\<open>time.Time\<close> is an instant (nanoseconds since the Unix epoch) with the offset of its
  zone in seconds; zones are fixed offsets, which is what the RFC 3339 and time-only formats of a
  policy file denote. The calendar date of a time is the number of days since 1970-01-01 in its
  zone: the triple of year, month and day that the source moves from one time to another is in
  bijection with it. A compiled regular expression is the predicate it decides; compiling a
  pattern, and decoding the JSON of a policy, are parameters.

  The facts: a resolved window satisfies what the options ask; a window that is given by weekdays
  begins on one of these days, lasts at most a day and is found within a week whenever one of its
  days is a weekday; the rules are searched in order; an upgrade needs a window exactly when the
  module is installed in another version, wants downtime and the Kyma does not skip windows.
\<close>

section \<open>Time\<close>

record gotime =
  t_inst :: int
  t_off :: int

definition t_Before :: "gotime \<Rightarrow> gotime \<Rightarrow> bool" where
  "t_Before a b = (t_inst a < t_inst b)"

definition t_After :: "gotime \<Rightarrow> gotime \<Rightarrow> bool" where
  "t_After a b = (t_inst b < t_inst a)"

definition t_Equal :: "gotime \<Rightarrow> gotime \<Rightarrow> bool" where
  "t_Equal a b = (t_inst a = t_inst b)"

definition t_Add :: "gotime \<Rightarrow> duration \<Rightarrow> gotime" where
  "t_Add t d = t\<lparr>t_inst := t_inst t + d\<rparr>"

text \<open>Seconds of the local clock, the local date as a day number, and the clock reading.\<close>

definition t_local :: "gotime \<Rightarrow> int" where
  "t_local t = t_inst t div 1000000000 + t_off t"

definition t_date :: "gotime \<Rightarrow> int" where
  "t_date t = t_local t div 86400"

definition t_Hour :: "gotime \<Rightarrow> int" where
  "t_Hour t = t_local t mod 86400 div 3600"

definition t_Minute :: "gotime \<Rightarrow> int" where
  "t_Minute t = t_local t mod 3600 div 60"

definition t_Second :: "gotime \<Rightarrow> int" where
  "t_Second t = t_local t mod 60"

text \<open>\<^verbatim>\<open>time.Date(y, m, d, hour, min, sec, 0, loc)\<close> on a day number.\<close>

definition t_Date :: "int \<Rightarrow> int \<Rightarrow> int \<Rightarrow> int \<Rightarrow> int \<Rightarrow> gotime" where
  "t_Date day h m s off =
     \<lparr>t_inst = (day * 86400 + h * 3600 + m * 60 + s - off) * 1000000000, t_off = off\<rparr>"

text \<open>The first three letters of \<^verbatim>\<open>Weekday().String()\<close>; day 0 was a Thursday.\<close>

definition weekdays :: "string list" where
  "weekdays = [''Sun'', ''Mon'', ''Tue'', ''Wed'', ''Thu'', ''Fri'', ''Sat'']"

definition t_Weekday3 :: "gotime \<Rightarrow> string" where
  "t_Weekday3 t = weekdays ! nat ((t_date t + 4) mod 7)"

definition time24Hours :: duration where "time24Hours = 24 * hour"

lemma time24Hours_eq: "time24Hours = 86400 * 1000000000"
  by (simp add: time24Hours_def hour_def minute_def second_def)

section \<open>Policies\<close>

record ResolvedWindow =
  rw_Begin :: gotime
  rw_End :: gotime

record resolveOptions =
  ro_time :: gotime
  ro_ongoing :: bool
  ro_minDuration :: duration
  ro_firstMatchOnly :: bool
  ro_fallbackDefault :: bool

datatype resolve_opt =
  TimeStamp gotime | OngoingWindow bool | MinWindowSize duration | FirstMatchOnly bool
| FallbackDefault bool | UnknownOption string

record Regexp =
  rx_Str :: string
  rx_Regexp :: "(string \<Rightarrow> bool) option"

record MaintenanceWindow =
  mw_Days :: "string list"
  mw_Begin :: gotime
  mw_End :: gotime

record MaintenancePolicyMatch =
  pm_GlobalAccountID :: "Regexp option"
  pm_Plan :: "Regexp option"
  pm_Region :: "Regexp option"
  pm_PlatformRegion :: "Regexp option"

record MaintenancePolicyRule =
  pr_Match :: MaintenancePolicyMatch
  pr_Windows :: "MaintenanceWindow list"

record MaintenanceWindowPolicy =
  wp_Rules :: "MaintenancePolicyRule list"
  wp_Default :: MaintenanceWindow

record Runtime =
  rt_GlobalAccountID :: string
  rt_Plan :: string
  rt_Region :: string
  rt_PlatformRegion :: string

definition ErrPolicyNotExists :: goerror where
  "ErrPolicyNotExists = Sentinel ''ErrPolicyNotExists'' ''maintenance policy doesn't exist''"
definition ErrUnknownOption :: goerror where
  "ErrUnknownOption = Sentinel ''ErrUnknownOption'' ''unknown option''"
definition ErrNoWindowInPolicies :: goerror where
  "ErrNoWindowInPolicies =
     Sentinel ''ErrNoWindowInPolicies'' ''matched policies did not provide a window''"
definition ErrNoWindowFound :: goerror where
  "ErrNoWindowFound =
     Sentinel ''ErrNoWindowFound'' ''matches and defaults also failed to provide a window''"
definition ErrNoMaintenanceWindowPolicyConfigured :: goerror where
  "ErrNoMaintenanceWindowPolicyConfigured =
     Sentinel ''ErrNoMaintenanceWindowPolicyConfigured'' ''no maintenance window policy configured''"

section \<open>Windows\<close>

definition windowWithin :: "resolveOptions \<Rightarrow> gotime \<Rightarrow> gotime \<Rightarrow> ResolvedWindow option" where
  "windowWithin opts begin fin =
     (if \<not> ro_ongoing opts then
        (if t_Before (ro_time opts) begin then Some \<lparr>rw_Begin = begin, rw_End = fin\<rparr> else None)
      else
        (if t_Before (t_Add (ro_time opts) (ro_minDuration opts)) fin
         then Some \<lparr>rw_Begin = begin, rw_End = fin\<rparr> else None))"

text \<open>The loop of \<^verbatim>\<open>NextWindow\<close>: at most the given number of days, one day at a time.\<close>

fun next_day_window :: "nat \<Rightarrow> resolveOptions \<Rightarrow> string list \<Rightarrow> gotime \<Rightarrow> gotime \<Rightarrow> ResolvedWindow option" where
  "next_day_window 0 opts days begin fin = None"
| "next_day_window (Suc n) opts days begin fin =
     (if t_Weekday3 begin \<notin> set days
      then next_day_window n opts days (t_Add begin time24Hours) (t_Add fin time24Hours)
      else (case windowWithin opts begin fin of
              Some rw \<Rightarrow> Some rw
            | None \<Rightarrow> next_day_window n opts days (t_Add begin time24Hours) (t_Add fin time24Hours)))"

definition today_begin :: "resolveOptions \<Rightarrow> MaintenanceWindow \<Rightarrow> gotime" where
  "today_begin opts mw =
     (let b = mw_Begin mw in
      t_Date (t_date (ro_time opts)) (t_Hour b) (t_Minute b) (t_Second b) (t_off b))"

definition today_end :: "resolveOptions \<Rightarrow> MaintenanceWindow \<Rightarrow> gotime" where
  "today_end opts mw =
     (let e = mw_End mw;
          begin = today_begin opts mw;
          fin = t_Date (t_date (ro_time opts)) (t_Hour e) (t_Minute e) (t_Second e) (t_off e)
      in if t_Before fin begin \<or> t_Equal fin begin then t_Add fin time24Hours else fin)"

definition NextWindow :: "resolveOptions \<Rightarrow> MaintenanceWindow \<Rightarrow> ResolvedWindow option" where
  "NextWindow opts mw =
     (if mw_Days mw = [] then windowWithin opts (mw_Begin mw) (mw_End mw)
      else next_day_window 8 opts (mw_Days mw) (today_begin opts mw) (today_end opts mw))"

fun LookupAvailable :: "resolveOptions \<Rightarrow> MaintenanceWindow list \<Rightarrow> ResolvedWindow option" where
  "LookupAvailable opts [] = None"
| "LookupAvailable opts (mw # mws) =
     (case NextWindow opts mw of Some rw \<Rightarrow> Some rw | None \<Rightarrow> LookupAvailable opts mws)"

section \<open>Matching and resolving\<close>

definition field_matches :: "Regexp option \<Rightarrow> string \<Rightarrow> bool" where
  "field_matches rx v =
     (case rx of None \<Rightarrow> False
      | Some r \<Rightarrow> (case rx_Regexp r of None \<Rightarrow> False | Some p \<Rightarrow> v \<noteq> [] \<and> p v))"

definition Match :: "MaintenancePolicyMatch \<Rightarrow> Runtime \<Rightarrow> bool" where
  "Match m rt =
     (field_matches (pm_GlobalAccountID m) (rt_GlobalAccountID rt)
      \<or> field_matches (pm_Plan m) (rt_Plan rt)
      \<or> field_matches (pm_Region m) (rt_Region rt)
      \<or> field_matches (pm_PlatformRegion m) (rt_PlatformRegion rt))"

fun apply_opts :: "nat \<Rightarrow> resolve_opt list \<Rightarrow> resolveOptions \<Rightarrow> goerror + resolveOptions" where
  "apply_opts idx [] ro = Inr ro"
| "apply_opts idx (TimeStamp t # os) ro = apply_opts (Suc idx) os (ro\<lparr>ro_time := t\<rparr>)"
| "apply_opts idx (OngoingWindow b # os) ro = apply_opts (Suc idx) os (ro\<lparr>ro_ongoing := b\<rparr>)"
| "apply_opts idx (MinWindowSize d # os) ro = apply_opts (Suc idx) os (ro\<lparr>ro_minDuration := d\<rparr>)"
| "apply_opts idx (FirstMatchOnly b # os) ro = apply_opts (Suc idx) os (ro\<lparr>ro_firstMatchOnly := b\<rparr>)"
| "apply_opts idx (FallbackDefault b # os) ro = apply_opts (Suc idx) os (ro\<lparr>ro_fallbackDefault := b\<rparr>)"
| "apply_opts idx (UnknownOption s # os) ro = Inl (Errorf [Wrap ErrUnknownOption, Lit s])"

text \<open>The loop over the rules. The flag is the value the variable \<open>matched\<close> has after it.\<close>

fun resolve_rules ::
  "resolveOptions \<Rightarrow> Runtime \<Rightarrow> MaintenancePolicyRule list \<Rightarrow> bool \<Rightarrow> ResolvedWindow option \<times> bool" where
  "resolve_rules opts rt [] matched = (None, matched)"
| "resolve_rules opts rt (r # rs) matched =
     (if \<not> Match (pr_Match r) rt then resolve_rules opts rt rs False
      else (case LookupAvailable opts (pr_Windows r) of
              Some w \<Rightarrow> (Some w, True)
            | None \<Rightarrow> if ro_firstMatchOnly opts then (None, True)
                      else resolve_rules opts rt rs True))"

definition default_options :: "gotime \<Rightarrow> resolveOptions" where
  "default_options now =
     \<lparr>ro_time = now, ro_ongoing = False, ro_minDuration = hour, ro_firstMatchOnly = True,
      ro_fallbackDefault = True\<rparr>"

definition Resolve ::
  "gotime \<Rightarrow> MaintenanceWindowPolicy \<Rightarrow> Runtime \<Rightarrow> resolve_opt list \<Rightarrow> goerror + ResolvedWindow" where
  "Resolve now mwp rt opts =
     (case apply_opts 0 opts (default_options now) of
        Inl e \<Rightarrow> Inl e
      | Inr options \<Rightarrow>
          (case resolve_rules options rt (wp_Rules mwp) False of
             (Some w, _) \<Rightarrow> Inr w
           | (None, matched) \<Rightarrow>
               if matched \<and> \<not> ro_fallbackDefault options then Inl ErrNoWindowInPolicies
               else (case NextWindow options (wp_Default mwp) of
                       Some rw \<Rightarrow> Inr rw
                     | None \<Rightarrow> Inl ErrNoWindowFound)))"

text \<open>\<open>parse\<close> stands for \<^verbatim>\<open>NewMaintenanceWindowPolicyFromJSON\<close> on the bytes of a file.\<close>

definition GetMaintenancePolicy ::
  "('b \<Rightarrow> goerror + MaintenanceWindowPolicy) \<Rightarrow> (string \<rightharpoonup> 'b) \<Rightarrow> string
     \<Rightarrow> goerror + MaintenanceWindowPolicy option" where
  "GetMaintenancePolicy parse pool name =
     (if name = [] then Inr None
      else (case pool (name @ ''.json'') of
              None \<Rightarrow> Inl (wrapPost ErrPolicyNotExists ('': '' @ name))
            | Some d \<Rightarrow> (case parse d of Inl e \<Rightarrow> Inl e | Inr p \<Rightarrow> Inr (Some p))))"

section \<open>Is a window required, is one active\<close>

text \<open>The two fields of a ModuleTemplate spec that matter here are passed on their own, with the
  module's name.\<close>

definition IsRequired :: "bool \<Rightarrow> string \<Rightarrow> string \<Rightarrow> Kyma \<Rightarrow> bool" where
  "IsRequired requiresDowntime moduleName version k =
     (if \<not> requiresDowntime then False
      else if ks_SkipMaintenanceWindows (kyma_Spec k) then False
      else (case GetModuleStatus (kyma_Status k) moduleName of
              None \<Rightarrow> False
            | Some ms \<Rightarrow> ms_Version ms \<noteq> version))"

definition kyma_runtime :: "Kyma \<Rightarrow> Runtime" where
  "kyma_runtime k =
     \<lparr>rt_GlobalAccountID = GetGlobalAccount k, rt_Plan = GetPlan k, rt_Region = GetRegion k,
      rt_PlatformRegion = GetPlatformRegion k\<rparr>"

text \<open>\<open>now\<close> is the clock when the policy is resolved, \<open>now2\<close> the clock when the window is
  compared with it.\<close>

definition IsActive ::
  "gotime \<Rightarrow> gotime \<Rightarrow> MaintenanceWindowPolicy option \<Rightarrow> duration \<Rightarrow> Kyma \<Rightarrow> goerror + bool" where
  "IsActive now now2 policy minDuration k =
     (case policy of
        None \<Rightarrow> Inl ErrNoMaintenanceWindowPolicyConfigured
      | Some p \<Rightarrow>
          (case Resolve now p (kyma_runtime k) [OngoingWindow True, MinWindowSize minDuration] of
             Inl e \<Rightarrow> Inl e
           | Inr w \<Rightarrow> Inr (t_After now2 (rw_Begin w) \<and> t_Before now2 (rw_End w))))"

section \<open>Arithmetic of days and clocks\<close>

definition day_shift :: "nat \<Rightarrow> gotime \<Rightarrow> gotime" where
  "day_shift i t = t_Add t (int i * time24Hours)"

lemma t_Add_sel [simp]: "t_inst (t_Add t d) = t_inst t + d" "t_off (t_Add t d) = t_off t"
  by (simp_all add: t_Add_def)

lemma day_shift_0 [simp]: "day_shift 0 t = t"
  by (simp add: day_shift_def t_Add_def)

lemma day_shift_Suc: "day_shift i (t_Add t time24Hours) = day_shift (Suc i) t"
  by (simp add: day_shift_def t_Add_def algebra_simps)

lemma day_shift_inst [simp]: "t_inst (day_shift i t) = t_inst t + int i * time24Hours"
  by (simp add: day_shift_def)

lemma t_local_day_shift: "t_local (day_shift i t) = t_local t + int i * 86400"
proof -
  have "(t_inst t + (int i * 86400) * 1000000000) div 1000000000
      = int i * 86400 + t_inst t div 1000000000"
    by (rule div_mult_self1) simp
  then show ?thesis
    by (simp add: t_local_def day_shift_def time24Hours_eq mult.assoc)
qed

lemma t_date_day_shift [simp]: "t_date (day_shift i t) = t_date t + int i"
  by (simp add: t_date_def t_local_day_shift)

lemma clock_reading: "t_Hour t * 3600 + t_Minute t * 60 + t_Second t = t_local t mod 86400"
proof -
  let ?x = "t_local t"
  have "?x mod 86400 mod 3600 = ?x mod 3600" by (rule mod_mod_cancel) simp
  then have h: "?x mod 86400 div 3600 * 3600 + ?x mod 3600 = ?x mod 86400"
    using div_mult_mod_eq [of "?x mod 86400" 3600] by simp
  have "?x mod 3600 mod 60 = ?x mod 60" by (rule mod_mod_cancel) simp
  then have "?x mod 3600 div 60 * 60 + ?x mod 60 = ?x mod 3600"
    using div_mult_mod_eq [of "?x mod 3600" 60] by simp
  with h show ?thesis by (simp add: t_Hour_def t_Minute_def t_Second_def)
qed

lemma t_Date_sel:
  "t_off (t_Date day h m s off) = off"
  "t_local (t_Date day h m s off) = day * 86400 + h * 3600 + m * 60 + s"
  by (simp_all add: t_Date_def t_local_def)

lemma t_date_t_Date:
  "t_date (t_Date day (t_Hour t) (t_Minute t) (t_Second t) off) = day"
proof -
  have "t_local (t_Date day (t_Hour t) (t_Minute t) (t_Second t) off) = t_local t mod 86400 + day * 86400"
    using clock_reading [of t] by (simp add: t_Date_sel)
  then show ?thesis by (simp add: t_date_def)
qed

lemma t_inst_t_Date:
  "t_inst (t_Date day (t_Hour t) (t_Minute t) (t_Second t) off)
     = (day * 86400 + t_local t mod 86400 - off) * 1000000000"
  using clock_reading [of t] by (simp add: t_Date_def)

lemma today_begin_date [simp]: "t_date (today_begin opts mw) = t_date (ro_time opts)"
  by (simp add: today_begin_def Let_def t_date_t_Date)

lemma today_begin_recent:
  assumes "t_off (mw_Begin mw) = t_off (ro_time opts)"
  shows "t_inst (ro_time opts) < t_inst (today_begin opts mw) + time24Hours"
proof -
  let ?t = "ro_time opts"
  have b: "t_inst (today_begin opts mw)
      = (t_date ?t * 86400 + t_local (mw_Begin mw) mod 86400 - t_off ?t) * 1000000000"
    using assms by (simp add: today_begin_def Let_def t_inst_t_Date)
  have "t_local ?t = t_date ?t * 86400 + t_local ?t mod 86400"
    by (simp add: t_date_def)
  moreover have "t_local ?t mod 86400 < 86400" by simp
  ultimately have "t_inst ?t div 1000000000 < t_date ?t * 86400 + 86400 - t_off ?t"
    by (simp add: t_local_def)
  then have "t_inst ?t < (t_date ?t * 86400 + 86400 - t_off ?t) * 1000000000"
    by (simp add: div_less_iff_less_mult)
  moreover have "0 \<le> t_local (mw_Begin mw) mod 86400" by simp
  ultimately show ?thesis unfolding b time24Hours_eq by (simp add: algebra_simps)
qed

lemma today_window_length:
  assumes "t_off (mw_End mw) = t_off (mw_Begin mw)"
  shows "0 < t_inst (today_end opts mw) - t_inst (today_begin opts mw)"
    and "t_inst (today_end opts mw) - t_inst (today_begin opts mw) \<le> time24Hours"
proof -
  have m: "0 \<le> t_local t mod 86400" "t_local t mod 86400 < 86400" for t by simp_all
  show "0 < t_inst (today_end opts mw) - t_inst (today_begin opts mw)"
    and "t_inst (today_end opts mw) - t_inst (today_begin opts mw) \<le> time24Hours"
    using assms m [of "mw_Begin mw"] m [of "mw_End mw"]
    by (auto simp: today_end_def today_begin_def Let_def t_Before_def t_Equal_def t_inst_t_Date
        time24Hours_eq)
qed

lemma weekday_ahead:
  assumes "d \<in> set weekdays"
  shows "\<exists>i. 1 \<le> i \<and> i \<le> 7 \<and> t_Weekday3 (day_shift i t) = d"
proof -
  obtain w where "w < length weekdays" and wd: "weekdays ! w = d"
    using assms unfolding in_set_conv_nth by blast
  then have w: "w < 7" by (simp add: weekdays_def)
  define i where "i = nat ((int w - t_date t - 5) mod 7 + 1)"
  have i: "int i = (int w - t_date t - 5) mod 7 + 1"
    by (simp add: i_def)
  have "(t_date t + 5 + (int w - t_date t - 5) mod 7) mod 7 = (t_date t + 5 + (int w - t_date t - 5)) mod 7"
    by (rule mod_add_right_eq)
  also have "\<dots> = int w" using w by simp
  finally have "(t_date t + ((int w - t_date t - 5) mod 7 + 1) + 4) mod 7 = int w"
    by (simp add: algebra_simps)
  then have "(t_date (day_shift i t) + 4) mod 7 = int w"
    by (simp add: i)
  then have "t_Weekday3 (day_shift i t) = d"
    using wd by (simp add: t_Weekday3_def)
  moreover have "1 \<le> i \<and> i \<le> 7"
  proof -
    have "0 \<le> (int w - t_date t - 5) mod 7" "(int w - t_date t - 5) mod 7 < 7" by simp_all
    then show ?thesis using i by linarith
  qed
  ultimately show ?thesis by blast
qed

section \<open>The search for a window\<close>

lemma windowWithin_Some:
  "windowWithin opts b e = Some w \<longleftrightarrow>
     w = \<lparr>rw_Begin = b, rw_End = e\<rparr>
     \<and> (if ro_ongoing opts then t_inst (ro_time opts) + ro_minDuration opts < t_inst e
         else t_inst (ro_time opts) < t_inst b)"
  by (auto simp: windowWithin_def t_Before_def)

text \<open>The candidate windows of the loop: the first one shifted by a number of days.\<close>

definition candidate :: "resolveOptions \<Rightarrow> string list \<Rightarrow> gotime \<Rightarrow> gotime \<Rightarrow> nat \<Rightarrow> ResolvedWindow option" where
  "candidate opts days b e i =
     (if t_Weekday3 (day_shift i b) \<in> set days
      then windowWithin opts (day_shift i b) (day_shift i e) else None)"

lemma candidate_Add:
  "candidate opts days (t_Add b time24Hours) (t_Add e time24Hours) i = candidate opts days b e (Suc i)"
  by (simp add: candidate_def day_shift_Suc)

lemma next_day_window_first:
  "next_day_window n opts days b e =
     (case find (\<lambda>i. candidate opts days b e i \<noteq> None) [0..<n] of
        None \<Rightarrow> None | Some i \<Rightarrow> candidate opts days b e i)"
proof (induction n arbitrary: b e)
  case 0
  then show ?case by simp
next
  case (Suc n)
  have shift: "find P [Suc 0..<Suc n] = map_option Suc (find (\<lambda>i. P (Suc i)) [0..<n])" for P
    by (simp add: map_Suc_upt [symmetric] find_map_comp del: upt_Suc)
  have "[0..<Suc n] = 0 # [Suc 0..<Suc n]" by (simp add: upt_conv_Cons del: upt_Suc)
  then show ?case
    by (auto simp: Suc.IH shift candidate_Add candidate_def [of opts days b e 0] simp del: upt_Suc
        split: option.splits)
qed

lemma next_day_window_Some:
  assumes "next_day_window n opts days b e = Some w"
  obtains i where "i < n" "candidate opts days b e i = Some w"
    "\<And>j. j < i \<Longrightarrow> candidate opts days b e j = None"
proof -
  obtain i where i: "find (\<lambda>i. candidate opts days b e i \<noteq> None) [0..<n] = Some i"
    "candidate opts days b e i = Some w"
    using assms by (auto simp: next_day_window_first split: option.splits)
  from i(1) have "i < n" "\<forall>j < i. candidate opts days b e j = None"
    by (auto simp: find_Some_iff)
  with i(2) show thesis using that by blast
qed

lemma next_day_window_None:
  "next_day_window n opts days b e = None \<longleftrightarrow> (\<forall>i < n. candidate opts days b e i = None)"
  by (auto simp: next_day_window_first find_None_iff find_Some_iff split: option.splits)

lemma NextWindow_options:
  assumes "NextWindow opts mw = Some w"
  shows "if ro_ongoing opts then t_inst (ro_time opts) + ro_minDuration opts < t_inst (rw_End w)
     else t_inst (ro_time opts) < t_inst (rw_Begin w)"
proof (cases "mw_Days mw = []")
  case True
  with assms show ?thesis by (auto simp: NextWindow_def windowWithin_Some)
next
  case False
  with assms obtain i where "candidate opts (mw_Days mw) (today_begin opts mw) (today_end opts mw) i = Some w"
    by (auto simp: NextWindow_def elim: next_day_window_Some)
  then show ?thesis by (auto simp: candidate_def windowWithin_Some split: if_splits)
qed

lemma LookupAvailable_Some:
  "LookupAvailable opts mws = Some w \<Longrightarrow> \<exists>mw \<in> set mws. NextWindow opts mw = Some w"
  by (induction mws) (auto split: option.splits)

lemma LookupAvailable_None:
  "LookupAvailable opts mws = None \<longleftrightarrow> (\<forall>mw \<in> set mws. NextWindow opts mw = None)"
  by (induction mws) (auto split: option.splits)

section \<open>Properties\<close>

text \<open>A window given by weekdays that the search returns begins on one of these days, on the
  date of the resolving time or one of the seven dates after it, satisfies the options (it lies in
  the future, or ends late enough when ongoing windows count), and no earlier date offered a
  window.\<close>

theorem NextWindow_weekday:
  assumes "NextWindow opts mw = Some w" and "mw_Days mw \<noteq> []"
  shows "t_Weekday3 (rw_Begin w) \<in> set (mw_Days mw)
    \<and> t_date (ro_time opts) \<le> t_date (rw_Begin w)
    \<and> t_date (rw_Begin w) \<le> t_date (ro_time opts) + 7
    \<and> (if ro_ongoing opts then t_inst (ro_time opts) + ro_minDuration opts < t_inst (rw_End w)
        else t_inst (ro_time opts) < t_inst (rw_Begin w))
    \<and> (\<forall>i. t_date (ro_time opts) + int i < t_date (rw_Begin w) \<longrightarrow>
          candidate opts (mw_Days mw) (today_begin opts mw) (today_end opts mw) i = None)"
proof -
  obtain i where i: "i < 8"
    "candidate opts (mw_Days mw) (today_begin opts mw) (today_end opts mw) i = Some w"
    "\<And>j. j < i \<Longrightarrow> candidate opts (mw_Days mw) (today_begin opts mw) (today_end opts mw) j = None"
    using assms by (auto simp: NextWindow_def elim: next_day_window_Some)
  then have w: "rw_Begin w = day_shift i (today_begin opts mw)"
    "t_Weekday3 (rw_Begin w) \<in> set (mw_Days mw)"
    by (auto simp: candidate_def windowWithin_Some split: if_splits)
  then have "t_date (rw_Begin w) = t_date (ro_time opts) + int i" by simp
  then show ?thesis using NextWindow_options [OF assms(1)] w(2) i by auto
qed

definition example_window :: MaintenanceWindow where
  "example_window =
     \<lparr>mw_Days = [''Sat''], mw_Begin = \<lparr>t_inst = 72000 * 1000000000, t_off = 0\<rparr>,
      mw_End = \<lparr>t_inst = 14400 * 1000000000, t_off = 0\<rparr>\<rparr>"

definition example_options :: resolveOptions where
  "example_options = default_options \<lparr>t_inst = 0, t_off = 0\<rparr>"

text \<open>From Thursday, 1 January 1970: the Saturday of that week, 20:00 to 04:00.\<close>

lemma NextWindow_example:
  "NextWindow example_options example_window =
     Some \<lparr>rw_Begin = \<lparr>t_inst = (2 * 86400 + 72000) * 1000000000, t_off = 0\<rparr>,
           rw_End = \<lparr>t_inst = (3 * 86400 + 14400) * 1000000000, t_off = 0\<rparr>\<rparr>"
  by code_simp

theorem NextWindow_weekday_witness:
  "t_Weekday3 \<lparr>t_inst = (2 * 86400 + 72000) * 1000000000, t_off = 0\<rparr> \<in> set (mw_Days example_window)"
  using NextWindow_weekday [OF NextWindow_example] by (simp add: example_window_def)

text \<open>C25. The search succeeds: a window whose days include a weekday, given in the zone of the
  resolving time, is always found within the eight days the loop looks at, provided that (when
  ongoing windows count) the window is at least as long as the minimum asked for.\<close>

theorem NextWindow_found:
  assumes "d \<in> set (mw_Days mw)" and "d \<in> set weekdays"
    and "t_off (mw_Begin mw) = t_off (ro_time opts)" and "t_off (mw_End mw) = t_off (mw_Begin mw)"
    and "ro_ongoing opts \<Longrightarrow>
      ro_minDuration opts \<le> t_inst (today_end opts mw) - t_inst (today_begin opts mw)"
  shows "\<exists>w. NextWindow opts mw = Some w"
proof -
  let ?b = "today_begin opts mw" and ?e = "today_end opts mw"
  obtain i where i: "1 \<le> i" "i \<le> 7" "t_Weekday3 (day_shift i ?b) = d"
    using weekday_ahead [OF assms(2)] by blast
  have i8: "i < 8" using i(2) by simp
  have "time24Hours \<le> int i * time24Hours"
    using i(1) by (simp add: time24Hours_eq)
  then have now: "t_inst (ro_time opts) < t_inst (day_shift i ?b)"
    using today_begin_recent [OF assms(3)] by simp
  then have "candidate opts (mw_Days mw) ?b ?e i \<noteq> None"
    using assms(1,5) i(3) by (auto simp: candidate_def windowWithin_def t_Before_def)
  then have "next_day_window 8 opts (mw_Days mw) ?b ?e \<noteq> None"
    using i8 by (metis next_day_window_None)
  moreover have "mw_Days mw \<noteq> []" using assms(1) by auto
  ultimately show ?thesis by (auto simp: NextWindow_def)
qed

theorem NextWindow_found_witness: "\<exists>w. NextWindow example_options example_window = Some w"
  by (rule NextWindow_found [of "''Sat''"])
    (simp_all add: example_window_def example_options_def default_options_def weekdays_def)

lemma resolve_rules_Some:
  "resolve_rules opts rt rs m = (Some w, m') \<Longrightarrow>
     \<exists>r \<in> set rs. Match (pr_Match r) rt \<and> (\<exists>mw \<in> set (pr_Windows r). NextWindow opts mw = Some w)"
  by (induction rs arbitrary: m)
    (auto split: if_splits option.splits dest!: LookupAvailable_Some)

lemma Resolve_source:
  assumes "Resolve now mwp rt opts = Inr w"
  obtains options mw where "apply_opts 0 opts (default_options now) = Inr options"
    "mw = wp_Default mwp \<or> (\<exists>r \<in> set (wp_Rules mwp). Match (pr_Match r) rt \<and> mw \<in> set (pr_Windows r))"
    "NextWindow options mw = Some w"
proof -
  obtain options where o: "apply_opts 0 opts (default_options now) = Inr options"
    using assms by (auto simp: Resolve_def split: sum.splits)
  obtain rw m where r: "resolve_rules options rt (wp_Rules mwp) False = (rw, m)" by fastforce
  show thesis
  proof (cases rw)
    case None
    then have "NextWindow options (wp_Default mwp) = Some w"
      using assms o r by (auto simp: Resolve_def split: if_splits option.splits)
    with o show thesis using that by blast
  next
    case (Some w')
    then have "w' = w" using assms o r by (simp add: Resolve_def)
    with Some r resolve_rules_Some o show thesis using that by blast
  qed
qed

text \<open>When the check says that a window is active, there is a configured policy with a window, of
  a rule that matches the Kyma's runtime or the default one, such that the current time lies
  strictly inside it and at least the minimum duration of it was left when it was
  resolved.\<close>

theorem IsActive_sound:
  assumes "IsActive now now2 policy minDuration k = Inr True"
  shows "\<exists>p w mw options. policy = Some p
    \<and> (mw = wp_Default p
        \<or> (\<exists>r \<in> set (wp_Rules p). Match (pr_Match r) (kyma_runtime k) \<and> mw \<in> set (pr_Windows r)))
    \<and> ro_time options = now \<and> ro_ongoing options \<and> NextWindow options mw = Some w
    \<and> t_inst now + minDuration < t_inst (rw_End w)
    \<and> t_inst (rw_Begin w) < t_inst now2 \<and> t_inst now2 < t_inst (rw_End w)"
proof -
  obtain p w where pw: "policy = Some p"
    "Resolve now p (kyma_runtime k) [OngoingWindow True, MinWindowSize minDuration] = Inr w"
    "t_After now2 (rw_Begin w) \<and> t_Before now2 (rw_End w)"
    using assms by (auto simp: IsActive_def split: option.splits sum.splits)
  obtain options mw where om:
    "apply_opts 0 [OngoingWindow True, MinWindowSize minDuration] (default_options now) = Inr options"
    "mw = wp_Default p
      \<or> (\<exists>r \<in> set (wp_Rules p). Match (pr_Match r) (kyma_runtime k) \<and> mw \<in> set (pr_Windows r))"
    "NextWindow options mw = Some w"
    using Resolve_source [OF pw(2)] by blast
  have "ro_time options = now" "ro_ongoing options" "ro_minDuration options = minDuration"
    using om(1) by (auto simp: default_options_def)
  with NextWindow_options [OF om(3)] pw om(2,3) show ?thesis
    by (auto simp: t_After_def t_Before_def)
qed

definition example_policy :: MaintenanceWindowPolicy where
  "example_policy = \<lparr>wp_Rules = [], wp_Default = example_window\<rparr>"

definition example_meta :: ObjectMeta where
  "example_meta = \<lparr>om_Name = ''kyma'', om_Namespace = ''kcp-system'', om_Labels = Map.empty,
     om_Annotations = Map.empty, om_Finalizers = [], om_DeletionTimestamp = None, om_Generation = 1,
     om_OwnerReferences = [], om_ManagedFields = []\<rparr>"

definition example_kyma :: Kyma where
  "example_kyma = \<lparr>kyma_Meta = example_meta,
     kyma_Spec = \<lparr>ks_Channel = ''regular'', ks_SkipMaintenanceWindows = False, ks_Modules = []\<rparr>,
     kyma_Status = \<lparr>kst_LastOperation = \<lparr>lo_Operation = [], lo_LastUpdateTime = 0\<rparr>,
        kst_State = StateEmpty, kst_Conditions = [], kst_Modules = [], kst_ActiveChannel = []\<rparr>\<rparr>"

text \<open>Saturday, 3 January 1970 at the given second of the day.\<close>

definition saturday :: "int \<Rightarrow> gotime" where
  "saturday s = \<lparr>t_inst = (2 * 86400 + s) * 1000000000, t_off = 0\<rparr>"

lemma IsActive_example:
  "IsActive (saturday 75600) (saturday 75601) (Some example_policy) hour example_kyma = Inr True"
  by code_simp

theorem IsActive_sound_witness:
  "\<exists>p w mw options. Some example_policy = Some p
    \<and> (mw = wp_Default p
        \<or> (\<exists>r \<in> set (wp_Rules p). Match (pr_Match r) (kyma_runtime example_kyma) \<and> mw \<in> set (pr_Windows r)))
    \<and> ro_time options = saturday 75600 \<and> ro_ongoing options \<and> NextWindow options mw = Some w
    \<and> t_inst (saturday 75600) + hour < t_inst (rw_End w)
    \<and> t_inst (rw_Begin w) < t_inst (saturday 75601) \<and> t_inst (saturday 75601) < t_inst (rw_End w)"
  by (rule IsActive_sound [OF IsActive_example])

text \<open>An ongoing window that began on the previous date is not seen: the search starts on the date
  of the resolving time, so half an hour after midnight on Sunday the window from Saturday 20:00 to
  Sunday 04:00 is reported as not active, although it was active half an hour before midnight and
  lasts three and a half more hours.\<close>

theorem IsActive_midnight:
  "IsActive (saturday 84600) (saturday 84600) (Some example_policy) hour example_kyma = Inr True
   \<and> IsActive (saturday 88200) (saturday 88200) (Some example_policy) hour example_kyma = Inr False
   \<and> (\<exists>w. NextWindow (default_options (saturday 0)) example_window = Some w
        \<and> t_inst (rw_Begin w) < t_inst (saturday 88200)
        \<and> t_inst (saturday 88200) + hour < t_inst (rw_End w))"
proof (intro conjI)
  show "IsActive (saturday 84600) (saturday 84600) (Some example_policy) hour example_kyma = Inr True"
    by code_simp
  show "IsActive (saturday 88200) (saturday 88200) (Some example_policy) hour example_kyma = Inr False"
    by code_simp
  have "NextWindow (default_options (saturday 0)) example_window =
      Some \<lparr>rw_Begin = saturday 72000, rw_End = saturday 100800\<rparr>"
    by code_simp
  then show "\<exists>w. NextWindow (default_options (saturday 0)) example_window = Some w
        \<and> t_inst (rw_Begin w) < t_inst (saturday 88200)
        \<and> t_inst (saturday 88200) + hour < t_inst (rw_End w)"
    by (simp add: saturday_def hour_def minute_def second_def)
qed

text \<open>An upgrade must wait for a maintenance window exactly when the new version asks for downtime,
  the Kyma does not skip maintenance windows, and the module is installed in another version. A
  module that is not installed never waits.\<close>

theorem IsRequired_iff:
  "IsRequired downtime name version k \<longleftrightarrow>
     downtime \<and> \<not> ks_SkipMaintenanceWindows (kyma_Spec k)
     \<and> (\<exists>ms. find (\<lambda>m. ms_Name m = name) (kyma_modules k) = Some ms \<and> ms_Version ms \<noteq> version)"
  by (auto simp: IsRequired_def GetModuleStatus_def split: option.splits)

section \<open>Fallback to the default window\<close>

lemma resolve_rules_no_window:
  assumes "\<not> ro_firstMatchOnly opts"
    and "\<forall>r \<in> set rs. Match (pr_Match r) rt \<longrightarrow> LookupAvailable opts (pr_Windows r) = None"
  shows "resolve_rules opts rt rs m =
     (None, if rs = [] then m else Match (pr_Match (last rs)) rt)"
  using assms by (induction rs arbitrary: m) auto

text \<open>With \<open>FirstMatchOnly\<close> and \<open>FallbackDefault\<close> both off, whether the default window
  is used after matching rules failed to provide a window depends on the last rule of the policy
  alone: the default is used when that rule does not match, even if an earlier one did.\<close>

theorem Resolve_fallback_last_rule:
  assumes "wp_Rules mwp = rs @ [r]"
    and "\<forall>r' \<in> set (wp_Rules mwp). Match (pr_Match r') rt \<longrightarrow>
      LookupAvailable ((default_options now)\<lparr>ro_firstMatchOnly := False, ro_fallbackDefault := False\<rparr>)
        (pr_Windows r') = None"
  shows "Resolve now mwp rt [FirstMatchOnly False, FallbackDefault False] =
     (if Match (pr_Match r) rt then Inl ErrNoWindowInPolicies
      else (case NextWindow ((default_options now)\<lparr>ro_firstMatchOnly := False, ro_fallbackDefault := False\<rparr>)
              (wp_Default mwp) of Some w \<Rightarrow> Inr w | None \<Rightarrow> Inl ErrNoWindowFound))"
proof -
  let ?o = "(default_options now)\<lparr>ro_firstMatchOnly := False, ro_fallbackDefault := False\<rparr>"
  have "resolve_rules ?o rt (wp_Rules mwp) False = (None, Match (pr_Match r) rt)"
    using resolve_rules_no_window [of ?o "wp_Rules mwp" rt False] assms by simp
  then show ?thesis by (simp add: Resolve_def)
qed

definition match_plan :: "(string \<Rightarrow> bool) \<Rightarrow> MaintenancePolicyMatch" where
  "match_plan p = \<lparr>pm_GlobalAccountID = None, pm_Plan = Some \<lparr>rx_Str = [], rx_Regexp = Some p\<rparr>,
     pm_Region = None, pm_PlatformRegion = None\<rparr>"

definition fallback_policy :: MaintenanceWindowPolicy where
  "fallback_policy = \<lparr>wp_Rules =
       [\<lparr>pr_Match = match_plan (\<lambda>s. True), pr_Windows = []\<rparr>,
        \<lparr>pr_Match = match_plan (\<lambda>s. False), pr_Windows = []\<rparr>],
     wp_Default = example_window\<rparr>"

definition example_runtime :: Runtime where
  "example_runtime = \<lparr>rt_GlobalAccountID = [], rt_Plan = ''trial'', rt_Region = [], rt_PlatformRegion = []\<rparr>"

text \<open>The first rule matches and has no window, and still the default window is returned.\<close>

theorem Resolve_fallback_last_rule_witness:
  "Match (pr_Match (hd (wp_Rules fallback_policy))) example_runtime
   \<and> Resolve (saturday 0) fallback_policy example_runtime [FirstMatchOnly False, FallbackDefault False]
       = Inr \<lparr>rw_Begin = saturday 72000, rw_End = saturday 100800\<rparr>"
proof
  show m: "Match (pr_Match (hd (wp_Rules fallback_policy))) example_runtime"
    by (simp add: fallback_policy_def match_plan_def Match_def field_matches_def example_runtime_def)
  have w: "NextWindow ((default_options (saturday 0))\<lparr>ro_firstMatchOnly := False, ro_fallbackDefault := False\<rparr>)
      example_window = Some \<lparr>rw_Begin = saturday 72000, rw_End = saturday 100800\<rparr>"
    by code_simp
  have rules: "wp_Rules fallback_policy =
      [\<lparr>pr_Match = match_plan (\<lambda>s. True), pr_Windows = []\<rparr>]
        @ [\<lparr>pr_Match = match_plan (\<lambda>s. False), pr_Windows = []\<rparr>]"
    and default: "wp_Default fallback_policy = example_window"
    by (simp_all add: fallback_policy_def)
  show "Resolve (saturday 0) fallback_policy example_runtime [FirstMatchOnly False, FallbackDefault False]
       = Inr \<lparr>rw_Begin = saturday 72000, rw_End = saturday 100800\<rparr>"
    using Resolve_fallback_last_rule [OF rules, of example_runtime "saturday 0"] w
    by (simp add: rules default match_plan_def Match_def field_matches_def example_runtime_def)
qed

end
