(* ===== verification/TemplateLookup.thy ===== *)
theory TemplateLookup
  imports ModuleTypes MaintenanceWindows
begin

text \<open>
  The choice of the ModuleTemplate for every module of a Kyma (\<^verbatim>\<open>pkg/templatelookup\<close>).

  The answers of the API server, the descriptor cache and the libraries (semantic versions, label
  selectors) are collected in a record \<open>lookup_env\<close>, an argument of the operations. A nil
  pointer that would be dereferenced shows up as the error \<open>nilDereference\<close>.

  The interface \<^verbatim>\<open>ModuleLookup\<close> of the source is the locale \<open>module_lookup\<close>: the law a
  strategy must satisfy is that a result without an error carries a template. The plain lookup and
  the maintenance window decorator around it are interpretations. The lemmas of the locale are
  about \<open>GetRegularTemplates\<close> over any such strategy: no nil template is ever used, the
  result has an entry for exactly the modules of spec and status, and an entry without an error
  passed every admission check and is not a downgrade.
\<close>

section \<open>Module information (\<^verbatim>\<open>moduleinfo.go\<close>)\<close>

definition ErrInvalidModuleInSpec :: goerror where
  "ErrInvalidModuleInSpec =
     Sentinel ''ErrInvalidModuleInSpec'' ''invalid configuration in Kyma spec.modules''"
definition ErrInvalidModuleInStatus :: goerror where
  "ErrInvalidModuleInStatus =
     Sentinel ''ErrInvalidModuleInStatus'' ''invalid module entry in Kyma status''"

record ModuleInfo =
  mi_Module :: Module
  mi_Enabled :: bool
  mi_ValidationError :: "goerror option"
  mi_Unmanaged :: bool

abbreviation mi_Name :: "ModuleInfo \<Rightarrow> string" where
  "mi_Name mi \<equiv> mod_Name (mi_Module mi)"

definition configuredWithVersionInSpec :: "ModuleInfo \<Rightarrow> bool" where
  "configuredWithVersionInSpec a =
     (mi_Enabled a \<and> mod_Version (mi_Module a) \<noteq> [] \<and> mod_Channel (mi_Module a) = [])"

definition installedwithVersionInStatus :: "ModuleInfo \<Rightarrow> bool" where
  "installedwithVersionInStatus a =
     (\<not> mi_Enabled a \<and> Channel_Equals NoneChannel (mod_Channel (mi_Module a))
      \<and> mod_Version (mi_Module a) \<noteq> [])"

definition IsInstalledByVersion :: "ModuleInfo \<Rightarrow> bool" where
  "IsInstalledByVersion a = (configuredWithVersionInSpec a \<or> installedwithVersionInStatus a)"

definition determineModuleValidity :: "ModuleStatus \<Rightarrow> goerror option" where
  "determineModuleValidity ms =
     (case ms_Template ms of
        None \<Rightarrow> Some (Errorf [Wrap ErrInvalidModuleInStatus,
                  Lit ('' for module '' @ ms_Name ms @ '': ModuleTemplate reference is missing'')])
      | Some _ \<Rightarrow> None)"

definition spec_module_info :: "Module \<Rightarrow> ModuleInfo" where
  "spec_module_info m =
     \<lparr>mi_Module = m, mi_Enabled = True,
      mi_ValidationError =
        (if Channel_Equals NoneChannel (mod_Channel m)
         then Some (Errorf [Wrap ErrInvalidModuleInSpec,
                Lit ('' for module '' @ mod_Name m @ '': Channel \"none\" is not allowed'')])
         else if mod_Version m \<noteq> [] \<and> mod_Channel m \<noteq> []
         then Some (Errorf [Wrap ErrInvalidModuleInSpec,
                Lit ('' for module '' @ mod_Name m @ '': Version and channel are mutually exclusive options'')])
         else None),
      mi_Unmanaged = (\<not> mod_Managed m)\<rparr>"

definition status_module_info :: "ModuleStatus \<Rightarrow> ModuleInfo" where
  "status_module_info ms =
     \<lparr>mi_Module = \<lparr>mod_CustomResourcePolicy = OtherPolicy [], mod_Name = ms_Name ms,
        mod_ControllerName = [], mod_Channel = ms_Channel ms, mod_Version = ms_Version ms,
        mod_Managed = False\<rparr>,
      mi_Enabled = False, mi_ValidationError = determineModuleValidity ms, mi_Unmanaged = False\<rparr>"

definition FetchModuleInfo :: "Kyma \<Rightarrow> ModuleInfo list" where
  "FetchModuleInfo k =
     map spec_module_info (ks_Modules (kyma_Spec k))
     @ map status_module_info
         (filter (\<lambda>ms. ms_Name ms \<notin> mod_Name ` set (ks_Modules (kyma_Spec k))) (kyma_modules k))"

section \<open>Versions of a module (\<^verbatim>\<open>modulereleasemeta.go\<close>)\<close>

definition ErrChannelNotFound :: goerror where
  "ErrChannelNotFound = Sentinel ''ErrChannelNotFound'' ''no versions found for channel''"
definition ErrNoChannelsFound :: goerror where
  "ErrNoChannelsFound = Sentinel ''ErrNoChannelsFound'' ''no channels found for module''"
definition ErrNoMandatoryFound :: goerror where
  "ErrNoMandatoryFound = Sentinel ''ErrNoMandatoryFound'' ''no mandatory version found for module''"

record semver =
  sv_Major :: nat
  sv_Minor :: nat
  sv_Patch :: nat
  sv_Rest :: string   \<comment> \<open>pre-release and build metadata\<close>

record lookup_env =
  le_getMRM :: "string \<Rightarrow> string \<Rightarrow> goerror + ModuleReleaseMeta"
  le_getTemplate :: "string \<Rightarrow> string \<Rightarrow> goerror + ModuleTemplate"
  le_addDescriptor :: "ComponentId \<Rightarrow> goerror option"
  le_newVersion :: "string \<Rightarrow> semver option"
  le_lessThan :: "semver \<Rightarrow> semver \<Rightarrow> bool"
  le_asSelector :: "LabelSelector \<Rightarrow> goerror + (labels \<Rightarrow> bool)"
  le_restrictedModules :: "string list"

text \<open>Name first, then namespace, as the arguments of the client's \<^verbatim>\<open>Get\<close>.\<close>

definition GetModuleReleaseMeta :: "lookup_env \<Rightarrow> string \<Rightarrow> string \<Rightarrow> goerror + ModuleReleaseMeta" where
  "GetModuleReleaseMeta env moduleName namespace =
     (case le_getMRM env moduleName namespace of
        Inl e \<Rightarrow> Inl (wrapErr (''failed to fetch ModuleReleaseMeta for '' @ moduleName @ '': '') e)
      | Inr m \<Rightarrow> Inr m)"

definition GetChannelVersionForModule :: "ModuleReleaseMeta \<Rightarrow> string \<Rightarrow> goerror + string" where
  "GetChannelVersionForModule mrm desiredChannel =
     (if mrm_Channels mrm = []
      then Inl (wrapPost ErrNoChannelsFound ('': '' @ om_Name (mrm_Meta mrm)))
      else (case find (\<lambda>c. cva_Channel c = desiredChannel) (mrm_Channels mrm) of
              Some c \<Rightarrow> Inr (cva_Version c)
            | None \<Rightarrow> Inl (wrapPost ErrChannelNotFound
                         ('': '' @ desiredChannel @ '' in module '' @ om_Name (mrm_Meta mrm)))))"

definition GetMandatoryVersionForModule :: "ModuleReleaseMeta \<Rightarrow> goerror + string" where
  "GetMandatoryVersionForModule mrm =
     (case mrm_Mandatory mrm of
        None \<Rightarrow> Inl (wrapPost ErrNoMandatoryFound ('': '' @ om_Name (mrm_Meta mrm)))
      | Some v \<Rightarrow> Inr v)"

section \<open>Looking one template up (\<^verbatim>\<open>moduletemplateinfolookup\<close>)\<close>

record ModuleTemplateInfo =
  mti_Template :: "ModuleTemplate option"
  mti_Err :: "goerror option"
  mti_DesiredChannel :: string
  mti_ComponentId :: "ComponentId option"

definition empty_info :: ModuleTemplateInfo where
  "empty_info = \<lparr>mti_Template = None, mti_Err = None, mti_DesiredChannel = [], mti_ComponentId = None\<rparr>"

definition ErrModuleReleaseMetaRequired :: goerror where
  "ErrModuleReleaseMetaRequired =
     Sentinel ''ErrModuleReleaseMetaRequired'' ''module release meta is required''"

definition getDesiredChannel :: "string \<Rightarrow> string \<Rightarrow> string" where
  "getDesiredChannel moduleChannel globalChannel =
     (if moduleChannel \<noteq> [] then moduleChannel
      else if globalChannel \<noteq> [] then globalChannel
      else DefaultChannel)"

definition getTemplateByVersion ::
  "lookup_env \<Rightarrow> string \<Rightarrow> string \<Rightarrow> string \<Rightarrow> goerror + ModuleTemplate" where
  "getTemplateByVersion env moduleName moduleVersion namespace =
     (case le_getTemplate env (CreateModuleTemplateName moduleName moduleVersion) namespace of
        Inl e \<Rightarrow> Inl (wrapErr ''failed to get module template: '' e)
      | Inr t \<Rightarrow> Inr t)"

type_synonym module_lookup_fn =
  "ModuleInfo \<Rightarrow> Kyma \<Rightarrow> ModuleReleaseMeta option \<Rightarrow> ModuleTemplateInfo"

definition Lookup :: "lookup_env \<Rightarrow> module_lookup_fn" where
  "Lookup env mi k mrm =
     (case mrm of
        None \<Rightarrow> empty_info\<lparr>mti_Err := Some ErrModuleReleaseMetaRequired\<rparr>
      | Some m \<Rightarrow>
          (let info = empty_info\<lparr>mti_DesiredChannel :=
                 getDesiredChannel (mod_Channel (mi_Module mi)) (ks_Channel (kyma_Spec k))\<rparr>;
               resolved = (if mrm_Mandatory m \<noteq> None then GetMandatoryVersionForModule m
                           else GetChannelVersionForModule m (mti_DesiredChannel info))
           in case resolved of
                Inl e \<Rightarrow> info\<lparr>mti_Err := Some e\<rparr>
              | Inr version \<Rightarrow>
                  (case NewComponentId (mrm_OcmComponentName m) version of
                     Inl e \<Rightarrow> info\<lparr>mti_Err := Some e\<rparr>
                   | Inr ocmId \<Rightarrow>
                       (case getTemplateByVersion env (mi_Name mi) version (om_Namespace (kyma_Meta k)) of
                          Inl e \<Rightarrow> info\<lparr>mti_ComponentId := Some ocmId, mti_Err := Some e\<rparr>
                        | Inr t \<Rightarrow> info\<lparr>mti_ComponentId := Some ocmId, mti_Template := Some t\<rparr>))))"

definition ErrWaitingForNextMaintenanceWindow :: goerror where
  "ErrWaitingForNextMaintenanceWindow = Sentinel ''ErrWaitingForNextMaintenanceWindow''
     ''waiting for next maintenance window to update module version''"
definition ErrFailedToDetermineIfMaintenanceWindowIsActive :: goerror where
  "ErrFailedToDetermineIfMaintenanceWindowIsActive =
     Sentinel ''ErrFailedToDetermineIfMaintenanceWindowIsActive''
       ''failed to determine if maintenance window is active''"

definition WithMaintenanceWindow_Lookup ::
  "(ModuleTemplate \<Rightarrow> Kyma \<Rightarrow> bool) \<Rightarrow> (Kyma \<Rightarrow> goerror + bool) \<Rightarrow> module_lookup_fn \<Rightarrow> module_lookup_fn" where
  "WithMaintenanceWindow_Lookup isRequired isActive lookup mi k mrm =
     (let info = lookup mi k mrm in
      case mti_Template info of
        None \<Rightarrow> info
      | Some t \<Rightarrow>
          if mti_Err info \<noteq> None then info
          else if \<not> isRequired t k then info
          else (case isActive k of
                  Inl e \<Rightarrow> info\<lparr>mti_Err := Some (Errorf
                      [Wrap ErrFailedToDetermineIfMaintenanceWindowIsActive, Lit '': '', Wrap e]),
                      mti_Template := None\<rparr>
                | Inr active \<Rightarrow>
                    if \<not> active
                    then info\<lparr>mti_Err := Some ErrWaitingForNextMaintenanceWindow, mti_Template := None\<rparr>
                    else info))"

section \<open>All templates of a Kyma (\<^verbatim>\<open>regular.go\<close>)\<close>

definition ErrTemplateNotAllowed :: goerror where
  "ErrTemplateNotAllowed = Sentinel ''ErrTemplateNotAllowed'' ''module template not allowed''"
definition ErrTemplateUpdateNotAllowed :: goerror where
  "ErrTemplateUpdateNotAllowed =
     Sentinel ''ErrTemplateUpdateNotAllowed'' ''module template update not allowed''"
definition ErrNoModuleReleaseMeta :: goerror where
  "ErrNoModuleReleaseMeta = Sentinel ''ErrNoModuleReleaseMeta'' ''no ModuleReleaseMeta found''"
definition ErrNoIdentity :: goerror where
  "ErrNoIdentity = Sentinel ''ErrNoIdentity'' ''component identity is nil''"
definition ErrMandatoryModuleCannotBeEnabled :: goerror where
  "ErrMandatoryModuleCannotBeEnabled =
     Sentinel ''ErrMandatoryModuleCannotBeEnabled'' ''mandatory module cannot be enabled''"

definition GetOCMIdentity :: "ModuleTemplateInfo \<Rightarrow> goerror + ComponentId" where
  "GetOCMIdentity m =
     (case mti_ComponentId m of
        None \<Rightarrow> Inl (wrapPost ErrNoIdentity ('' for module template ''
                 @ (case mti_Template m of None \<Rightarrow> [] | Some t \<Rightarrow> om_Name (mt_Meta t))))
      | Some c \<Rightarrow> Inr c)"

definition validateTemplateMode ::
  "lookup_env \<Rightarrow> ModuleTemplateInfo \<Rightarrow> Kyma \<Rightarrow> ModuleReleaseMeta option \<Rightarrow> ModuleTemplateInfo" where
  "validateTemplateMode env template k mrm =
     (case mti_Template template of
        None \<Rightarrow> template\<lparr>mti_Err := Some nilDereference\<rparr>
      | Some t \<Rightarrow>
          if MT_IsInternal t \<and> \<not> Kyma_IsInternal k
          then template\<lparr>mti_Err := Some (wrapPost ErrTemplateNotAllowed '': internal module'')\<rparr>
          else if MT_IsBeta t \<and> \<not> Kyma_IsBeta k
          then template\<lparr>mti_Err := Some (wrapPost ErrTemplateNotAllowed '': beta module'')\<rparr>
          else if mt_Mandatory t
          then template\<lparr>mti_Err := Some (wrapPost ErrMandatoryModuleCannotBeEnabled
                  ('': \"'' @ om_Name (mt_Meta t) @ ''\"''))\<rparr>
          else (case mrm of
                  None \<Rightarrow> template
                | Some m \<Rightarrow>
                    (case (mrm_ModuleName m \<in> set (le_restrictedModules env), mrm_KymaSelector m \<noteq> None) of
                       (False, False) \<Rightarrow> template
                     | (False, True) \<Rightarrow> template\<lparr>mti_Err := Some (wrapPost ErrTemplateNotAllowed
                           '': module has kymaSelector but is not in restricted modules list'')\<rparr>
                     | (True, False) \<Rightarrow> template\<lparr>mti_Err := Some ErrTemplateNotAllowed\<rparr>
                     | (True, True) \<Rightarrow>
                         (case RestrictedModuleMatch (le_asSelector env) (Some m) (Some k) of
                            Inl e \<Rightarrow> template\<lparr>mti_Err :=
                               Some (Errorf [Wrap ErrTemplateNotAllowed, Lit '': '', Wrap e])\<rparr>
                          | Inr matched \<Rightarrow>
                              if \<not> matched
                              then template\<lparr>mti_Err := Some (wrapPost ErrTemplateNotAllowed
                                     '': restricted module not allowed for this Kyma'')\<rparr>
                              else template))))"

definition ValidateTemplateMode ::
  "lookup_env \<Rightarrow> ModuleTemplateInfo \<Rightarrow> Kyma \<Rightarrow> ModuleReleaseMeta option \<Rightarrow> ModuleTemplateInfo" where
  "ValidateTemplateMode env template k mrm =
     (if mti_Err template \<noteq> None then template else validateTemplateMode env template k mrm)"

definition moduleMatch :: "ModuleStatus \<Rightarrow> string \<Rightarrow> bool" where
  "moduleMatch ms moduleName = (ms_Name ms = moduleName)"

text \<open>\<open>None\<close> where the reparsed version would be a nil pointer.\<close>

definition filterVersion :: "lookup_env \<Rightarrow> semver \<Rightarrow> semver option" where
  "filterVersion env v =
     le_newVersion env (decimal (sv_Major v) @ ''.'' @ decimal (sv_Minor v) @ ''.'' @ decimal (sv_Patch v))"

definition isValidVersionChange :: "lookup_env \<Rightarrow> semver \<Rightarrow> semver \<Rightarrow> bool option" where
  "isValidVersionChange env newVersion oldVersion =
     (case (filterVersion env newVersion, filterVersion env oldVersion) of
        (Some n, Some old) \<Rightarrow> Some (\<not> le_lessThan env n old)
      | _ \<Rightarrow> None)"

definition markInvalidSkewUpdate ::
  "lookup_env \<Rightarrow> ModuleTemplateInfo \<Rightarrow> ModuleStatus \<Rightarrow> string \<Rightarrow> ModuleTemplateInfo" where
  "markInvalidSkewUpdate env info ms templateVersion =
     (if ms_Template ms = None then info
      else if mti_Err info \<noteq> None then info
      else (case le_newVersion env templateVersion of
              None \<Rightarrow> info\<lparr>mti_Err := Some (wrapPost ErrTemplateUpdateNotAllowed
                 '': could not handle channel skew as descriptor from template contains invalid version'')\<rparr>
            | Some versionInTemplate \<Rightarrow>
                (case le_newVersion env (ms_Version ms) of
                   None \<Rightarrow> info\<lparr>mti_Err := Some (wrapPost ErrTemplateUpdateNotAllowed
                      '': could not handle channel skew as Modules contains invalid version'')\<rparr>
                 | Some versionInStatus \<Rightarrow>
                     (case isValidVersionChange env versionInTemplate versionInStatus of
                        None \<Rightarrow> info\<lparr>mti_Err := Some nilDereference\<rparr>
                      | Some True \<Rightarrow> info
                      | Some False \<Rightarrow> info\<lparr>mti_Err := Some (wrapPost ErrTemplateUpdateNotAllowed
                           ('': ignore channel skew (from '' @ ms_Channel ms @ '' to ''
                            @ mti_DesiredChannel info @ ''), as a higher version of the module was previously installed''))\<rparr>))))"

text \<open>The loop over the module statuses with the module's name.\<close>

definition skew_checks ::
  "lookup_env \<Rightarrow> string \<Rightarrow> string \<Rightarrow> ModuleStatus list \<Rightarrow> ModuleTemplateInfo \<Rightarrow> ModuleTemplateInfo" where
  "skew_checks env name version mss info =
     fold (\<lambda>ms i. if moduleMatch ms name then markInvalidSkewUpdate env i ms version else i) mss info"

text \<open>The body of the loop: the entry for one module.\<close>

definition regular_template :: "lookup_env \<Rightarrow> module_lookup_fn \<Rightarrow> Kyma \<Rightarrow> ModuleInfo \<Rightarrow> ModuleTemplateInfo" where
  "regular_template env lookup k mi =
     (case mi_ValidationError mi of
        Some e \<Rightarrow> empty_info\<lparr>mti_Err := Some e\<rparr>
      | None \<Rightarrow>
          (case GetModuleReleaseMeta env (mi_Name mi) (om_Namespace (kyma_Meta k)) of
             Inl e \<Rightarrow>
               (case client_IgnoreNotFound e of
                  Some e' \<Rightarrow> empty_info\<lparr>mti_Err := Some e\<rparr>
                | None \<Rightarrow> empty_info\<lparr>mti_Err := Some (wrapPost ErrNoModuleReleaseMeta
                     (''  for module \"'' @ mi_Name mi @ ''\" in namespace \"''
                      @ om_Namespace (kyma_Meta k) @ ''\"''))\<rparr>)
           | Inr mrm \<Rightarrow>
               if mi_Enabled mi \<and> MRM_IsMandatory mrm
               then empty_info\<lparr>mti_Err := Some (wrapPost ErrMandatoryModuleCannotBeEnabled
                      ('': \"'' @ mi_Name mi @ ''\"''))\<rparr>
               else
                 (let info = ValidateTemplateMode env (lookup mi k (Some mrm)) k (Some mrm) in
                  if mti_Err info \<noteq> None then info
                  else (case mti_Template info of
                          None \<Rightarrow> info\<lparr>mti_Err := Some nilDereference\<rparr>
                        | Some t \<Rightarrow>
                            (case NewComponentId (mrm_OcmComponentName mrm) (mt_Version t) of
                               Inl e \<Rightarrow> info\<lparr>mti_Err :=
                                  Some (wrapErr ''failed to create OCM Component Identity: '' e)\<rparr>
                             | Inr ocmId \<Rightarrow>
                                 (case le_addDescriptor env ocmId of
                                    Some e \<Rightarrow> info\<lparr>mti_Err := Some (wrapErr ''failed to get descriptor: '' e)\<rparr>
                                  | None \<Rightarrow>
                                      skew_checks env (mi_Name mi) (snd ocmId) (kyma_modules k) info))))))"

definition GetRegularTemplates ::
  "lookup_env \<Rightarrow> module_lookup_fn \<Rightarrow> Kyma \<Rightarrow> (string \<rightharpoonup> ModuleTemplateInfo)" where
  "GetRegularTemplates env lookup k =
     fold (\<lambda>mi templates.
        (case templates (mi_Name mi) of
           Some _ \<Rightarrow> templates
         | None \<Rightarrow> templates(mi_Name mi \<mapsto> regular_template env lookup k mi)))
       (FetchModuleInfo k) Map.empty"

section \<open>Admission and version checks\<close>

lemma ValidateTemplateMode_template:
  "mti_Template (ValidateTemplateMode env i k mrm) = mti_Template i"
  by (auto simp: ValidateTemplateMode_def validateTemplateMode_def
      split: option.splits sum.splits if_splits prod.splits bool.splits)

lemma ValidateTemplateMode_admits:
  assumes "mti_Err (ValidateTemplateMode env i k (Some mrm)) = None" and "mti_Template i = Some t"
  shows "ValidateTemplateMode env i k (Some mrm) = i"
    and "MT_IsInternal t \<Longrightarrow> Kyma_IsInternal k"
    and "MT_IsBeta t \<Longrightarrow> Kyma_IsBeta k"
    and "\<not> mt_Mandatory t"
    and "mrm_ModuleName mrm \<in> set (le_restrictedModules env) \<longleftrightarrow> mrm_KymaSelector mrm \<noteq> None"
    and "mrm_KymaSelector mrm \<noteq> None \<Longrightarrow>
      RestrictedModuleMatch (le_asSelector env) (Some mrm) (Some k) = Inr True"
  using assms
  by (auto simp: ValidateTemplateMode_def validateTemplateMode_def
      split: option.splits sum.splits if_splits prod.splits bool.splits)

text \<open>
  What the semantic version library documents, as far as the sources rely on it: the numbers of a
  version are 64 bit, three such numbers with dots parse to a version with these numbers and
  nothing else, and such versions are compared number by number.
\<close>

definition semver_ok :: "lookup_env \<Rightarrow> bool" where
  "semver_ok env \<longleftrightarrow>
     (\<forall>s v. le_newVersion env s = Some v \<longrightarrow> sv_Major v < 2 ^ 64 \<and> sv_Minor v < 2 ^ 64 \<and> sv_Patch v < 2 ^ 64)
     \<and> (\<forall>a b c. a < 2 ^ 64 \<and> b < 2 ^ 64 \<and> c < 2 ^ 64 \<longrightarrow>
          le_newVersion env (decimal a @ ''.'' @ decimal b @ ''.'' @ decimal c)
            = Some \<lparr>sv_Major = a, sv_Minor = b, sv_Patch = c, sv_Rest = []\<rparr>)
     \<and> (\<forall>v w. sv_Rest v = [] \<and> sv_Rest w = [] \<longrightarrow>
          le_lessThan env v w =
            (sv_Major v < sv_Major w \<or> sv_Major v = sv_Major w \<and>
              (sv_Minor v < sv_Minor w \<or> sv_Minor v = sv_Minor w \<and> sv_Patch v < sv_Patch w)))"

text \<open>The order of releases: the three numbers, lexicographically.\<close>

definition release_le :: "semver \<Rightarrow> semver \<Rightarrow> bool" where
  "release_le v w =
     (sv_Major v < sv_Major w \<or> sv_Major v = sv_Major w \<and>
       (sv_Minor v < sv_Minor w \<or> sv_Minor v = sv_Minor w \<and> sv_Patch v \<le> sv_Patch w))"

lemma isValidVersionChange_release:
  assumes "semver_ok env" and "le_newVersion env s = Some v" and "le_newVersion env s' = Some w"
  shows "isValidVersionChange env v w = Some (release_le w v)"
proof -
  have bound: "\<And>x u. le_newVersion env x = Some u \<Longrightarrow> sv_Major u < 2 ^ 64 \<and> sv_Minor u < 2 ^ 64 \<and> sv_Patch u < 2 ^ 64"
    and parse: "\<And>a b c. a < 2 ^ 64 \<and> b < 2 ^ 64 \<and> c < 2 ^ 64 \<Longrightarrow>
          le_newVersion env (decimal a @ ''.'' @ decimal b @ ''.'' @ decimal c)
            = Some \<lparr>sv_Major = a, sv_Minor = b, sv_Patch = c, sv_Rest = []\<rparr>"
    and less: "\<And>v w. sv_Rest v = [] \<and> sv_Rest w = [] \<Longrightarrow>
          le_lessThan env v w =
            (sv_Major v < sv_Major w \<or> sv_Major v = sv_Major w \<and>
              (sv_Minor v < sv_Minor w \<or> sv_Minor v = sv_Minor w \<and> sv_Patch v < sv_Patch w))"
    using assms(1) unfolding semver_ok_def by blast+
  have f: "filterVersion env u = Some \<lparr>sv_Major = sv_Major u, sv_Minor = sv_Minor u,
      sv_Patch = sv_Patch u, sv_Rest = []\<rparr>" if "le_newVersion env x = Some u" for x u
    unfolding filterVersion_def using parse [OF bound [OF that]] .
  show ?thesis
    by (auto simp: isValidVersionChange_def f [OF assms(2)] f [OF assms(3)] less release_le_def)
qed

lemma markInvalidSkewUpdate_Ok:
  assumes "semver_ok env" and "mti_Err (markInvalidSkewUpdate env i ms version) = None"
  shows "markInvalidSkewUpdate env i ms version = i" and "mti_Err i = None"
    and "ms_Template ms \<noteq> None \<Longrightarrow>
      \<exists>new old. le_newVersion env version = Some new \<and> le_newVersion env (ms_Version ms) = Some old
        \<and> release_le old new"
  using assms(2) isValidVersionChange_release [OF assms(1)]
  by (auto simp: markInvalidSkewUpdate_def split: option.splits if_splits bool.splits)

lemma markInvalidSkewUpdate_no_nil:
  assumes "semver_ok env" and "mti_Err i \<noteq> Some nilDereference"
  shows "mti_Err (markInvalidSkewUpdate env i ms version) \<noteq> Some nilDereference"
  using assms(2) isValidVersionChange_release [OF assms(1)]
  by (auto simp: markInvalidSkewUpdate_def nilDereference_def split: option.splits if_splits bool.splits)

lemma skew_checks_Cons:
  "skew_checks env name version (ms # mss) i =
     skew_checks env name version mss (if moduleMatch ms name then markInvalidSkewUpdate env i ms version else i)"
  "skew_checks env name version [] i = i"
  by (simp_all add: skew_checks_def)

lemma skew_checks_Ok:
  assumes "semver_ok env" and "mti_Err (skew_checks env name version mss i) = None"
  shows "skew_checks env name version mss i = i \<and> mti_Err i = None
    \<and> (\<forall>ms \<in> set mss. ms_Name ms = name \<and> ms_Template ms \<noteq> None \<longrightarrow>
        (\<exists>new old. le_newVersion env version = Some new \<and> le_newVersion env (ms_Version ms) = Some old
          \<and> release_le old new))"
  using assms(2)
proof (induction mss arbitrary: i)
  case Nil
  then show ?case by (simp add: skew_checks_Cons)
next
  case (Cons ms mss)
  let ?j = "if moduleMatch ms name then markInvalidSkewUpdate env i ms version else i"
  have IH: "skew_checks env name version mss ?j = ?j" "mti_Err ?j = None"
    "\<forall>ms \<in> set mss. ms_Name ms = name \<and> ms_Template ms \<noteq> None \<longrightarrow>
        (\<exists>new old. le_newVersion env version = Some new \<and> le_newVersion env (ms_Version ms) = Some old
          \<and> release_le old new)"
    using Cons.IH [of ?j] Cons.prems by (simp_all add: skew_checks_Cons)
  show ?case
  proof (cases "moduleMatch ms name")
    case True
    then have "mti_Err (markInvalidSkewUpdate env i ms version) = None" using IH(2) by simp
    from markInvalidSkewUpdate_Ok [OF assms(1) this] True IH show ?thesis
      by (auto simp: moduleMatch_def skew_checks_Cons)
  next
    case False
    with IH show ?thesis by (auto simp: moduleMatch_def skew_checks_Cons)
  qed
qed

lemma skew_checks_no_nil:
  assumes "semver_ok env" and "mti_Err i \<noteq> Some nilDereference"
  shows "mti_Err (skew_checks env name version mss i) \<noteq> Some nilDereference"
  using assms(2) by (induction mss arbitrary: i) (simp_all add: skew_checks_Cons markInvalidSkewUpdate_no_nil [OF assms(1)])

section \<open>The lookup interface\<close>

text \<open>What the loop relies on: a strategy that reports no error returns a template.\<close>

locale module_lookup =
  fixes lookup :: module_lookup_fn
  assumes template_or_error: "mti_Err (lookup mi k mrm) = None \<Longrightarrow> mti_Template (lookup mi k mrm) \<noteq> None"
    and no_nil_error: "mti_Err (lookup mi k mrm) \<noteq> Some nilDereference"
begin

lemma decorated_template:
  assumes "mti_Err (WithMaintenanceWindow_Lookup req act lookup mi k mrm) = None"
  shows "mti_Template (WithMaintenanceWindow_Lookup req act lookup mi k mrm) \<noteq> None"
  using assms template_or_error [of mi k mrm]
  by (auto simp: WithMaintenanceWindow_Lookup_def Let_def split: option.splits sum.splits if_splits)

lemma decorated_no_nil:
  "mti_Err (WithMaintenanceWindow_Lookup req act lookup mi k mrm) \<noteq> Some nilDereference"
  using no_nil_error [of mi k mrm]
  by (auto simp: WithMaintenanceWindow_Lookup_def Let_def nilDereference_def
      ErrWaitingForNextMaintenanceWindow_def split: option.splits sum.splits if_splits)

lemma regular_template_Ok:
  assumes "mti_Err (regular_template env lookup k mi) = None"
  obtains mrm t where "mi_ValidationError mi = None"
    "le_getMRM env (mi_Name mi) (om_Namespace (kyma_Meta k)) = Inr mrm"
    "\<not> (mi_Enabled mi \<and> MRM_IsMandatory mrm)"
    "mti_Err (ValidateTemplateMode env (lookup mi k (Some mrm)) k (Some mrm)) = None"
    "mti_Template (ValidateTemplateMode env (lookup mi k (Some mrm)) k (Some mrm)) = Some t"
    "mrm_OcmComponentName mrm \<noteq> []" "mt_Version t \<noteq> []"
    "le_addDescriptor env (mrm_OcmComponentName mrm, mt_Version t) = None"
    "regular_template env lookup k mi =
       skew_checks env (mi_Name mi) (mt_Version t) (kyma_modules k)
         (ValidateTemplateMode env (lookup mi k (Some mrm)) k (Some mrm))"
  using assms
  by (auto simp: regular_template_def GetModuleReleaseMeta_def Let_def NewComponentId_def
      split: option.splits sum.splits if_splits)

lemma ValidateTemplateMode_no_nil:
  "mti_Err (ValidateTemplateMode env (lookup mi k mrm) k mrm') \<noteq> Some nilDereference"
proof (cases "mti_Err (lookup mi k mrm)")
  case None
  then obtain t where "mti_Template (lookup mi k mrm) = Some t"
    using template_or_error by blast
  with None show ?thesis
    by (auto simp: ValidateTemplateMode_def validateTemplateMode_def nilDereference_def
        ErrTemplateNotAllowed_def split: option.splits sum.splits if_splits prod.splits bool.splits)
next
  case (Some e)
  then show ?thesis using no_nil_error [of mi k mrm] by (simp add: ValidateTemplateMode_def)
qed

text \<open>The guarantees for a module whose entry carries no error.\<close>

lemma regular_template_admitted:
  assumes "semver_ok env" and "mti_Err (regular_template env lookup k mi) = None"
  shows "\<exists>mrm t. regular_template env lookup k mi = lookup mi k (Some mrm)
    \<and> mti_Err (lookup mi k (Some mrm)) = None
    \<and> mti_Template (lookup mi k (Some mrm)) = Some t
    \<and> le_getMRM env (mi_Name mi) (om_Namespace (kyma_Meta k)) = Inr mrm
    \<and> (MT_IsInternal t \<longrightarrow> Kyma_IsInternal k) \<and> (MT_IsBeta t \<longrightarrow> Kyma_IsBeta k) \<and> \<not> mt_Mandatory t
    \<and> (mi_Enabled mi \<longrightarrow> mrm_Mandatory mrm = None)
    \<and> (mrm_ModuleName mrm \<in> set (le_restrictedModules env) \<longleftrightarrow> mrm_KymaSelector mrm \<noteq> None)
    \<and> (mrm_KymaSelector mrm \<noteq> None \<longrightarrow>
        RestrictedModuleMatch (le_asSelector env) (Some mrm) (Some k) = Inr True)
    \<and> (\<forall>ms \<in> set (kyma_modules k). ms_Name ms = mi_Name mi \<and> ms_Template ms \<noteq> None \<longrightarrow>
        (\<exists>new old. le_newVersion env (mt_Version t) = Some new
          \<and> le_newVersion env (ms_Version ms) = Some old \<and> release_le old new))"
proof -
  from regular_template_Ok [OF assms(2)] obtain mrm t where *:
    "le_getMRM env (mi_Name mi) (om_Namespace (kyma_Meta k)) = Inr mrm"
    "\<not> (mi_Enabled mi \<and> MRM_IsMandatory mrm)"
    "mti_Err (ValidateTemplateMode env (lookup mi k (Some mrm)) k (Some mrm)) = None"
    "mti_Template (ValidateTemplateMode env (lookup mi k (Some mrm)) k (Some mrm)) = Some t"
    "regular_template env lookup k mi =
       skew_checks env (mi_Name mi) (mt_Version t) (kyma_modules k)
         (ValidateTemplateMode env (lookup mi k (Some mrm)) k (Some mrm))"
    by metis
  have t: "mti_Template (lookup mi k (Some mrm)) = Some t"
    using *(4) by (simp add: ValidateTemplateMode_template)
  note admitted = ValidateTemplateMode_admits [OF *(3) t]
  let ?l = "lookup mi k (Some mrm)"
  have rt: "regular_template env lookup k mi =
      skew_checks env (mi_Name mi) (mt_Version t) (kyma_modules k) ?l"
    using *(5) admitted(1) by simp
  then have err: "mti_Err (skew_checks env (mi_Name mi) (mt_Version t) (kyma_modules k) ?l) = None"
    using assms(2) by simp
  show ?thesis
    using skew_checks_Ok [OF assms(1) err] rt *(1,2) t admitted(2-6)
    by (intro exI [of _ mrm] exI [of _ t]) (simp add: MRM_IsMandatory_def)
qed

lemma regular_template_no_nil:
  assumes "semver_ok env" and "mi_ValidationError mi \<noteq> Some nilDereference"
  shows "mti_Err (regular_template env lookup k mi) \<noteq> Some nilDereference"
proof (cases "\<exists>mrm. mi_ValidationError mi = None
    \<and> le_getMRM env (mi_Name mi) (om_Namespace (kyma_Meta k)) = Inr mrm
    \<and> \<not> (mi_Enabled mi \<and> MRM_IsMandatory mrm)")
  case False
  then show ?thesis
    using assms(2) by (auto simp: regular_template_def GetModuleReleaseMeta_def nilDereference_def
        client_IgnoreNotFound_def split: option.splits sum.splits if_splits)
next
  case True
  then obtain mrm where mrm: "mi_ValidationError mi = None"
    "le_getMRM env (mi_Name mi) (om_Namespace (kyma_Meta k)) = Inr mrm"
    "\<not> (mi_Enabled mi \<and> MRM_IsMandatory mrm)" by blast
  let ?i = "ValidateTemplateMode env (lookup mi k (Some mrm)) k (Some mrm)"
  have some: "mti_Err ?i = None \<Longrightarrow> mti_Template ?i \<noteq> None"
    using template_or_error [of mi k "Some mrm"]
    by (auto simp: ValidateTemplateMode_template) (auto simp: ValidateTemplateMode_def split: if_splits)
  have "mti_Err ?i \<noteq> Some nilDereference" by (rule ValidateTemplateMode_no_nil)
  then show ?thesis
    using mrm some skew_checks_no_nil [OF assms(1)]
    by (auto simp: regular_template_def GetModuleReleaseMeta_def Let_def
        split: option.splits sum.splits) (auto simp: nilDereference_def)
qed

end

interpretation plain: module_lookup "Lookup env" for env
proof unfold_locales
  show "mti_Err (Lookup env mi k mrm) = None \<Longrightarrow> mti_Template (Lookup env mi k mrm) \<noteq> None" for mi k mrm
    by (auto simp: Lookup_def Let_def split: option.splits sum.splits if_splits)
  show "mti_Err (Lookup env mi k mrm) \<noteq> Some nilDereference" for mi k mrm
    by (auto simp: Lookup_def Let_def nilDereference_def ErrModuleReleaseMetaRequired_def
        GetMandatoryVersionForModule_def GetChannelVersionForModule_def NewComponentId_def
        getTemplateByVersion_def empty_info_def split: option.splits sum.splits if_splits)
qed

interpretation windowed: module_lookup "WithMaintenanceWindow_Lookup req act (Lookup env)" for req act env
  by unfold_locales (simp_all add: plain.decorated_template plain.decorated_no_nil)

section \<open>Properties\<close>

lemma module_info_Name [simp]:
  "mi_Name (spec_module_info m) = mod_Name m" "mi_Name (status_module_info ms) = ms_Name ms"
  by (simp_all add: spec_module_info_def status_module_info_def)

lemma FetchModuleInfo_names:
  "mi_Name ` set (FetchModuleInfo k) =
     mod_Name ` set (ks_Modules (kyma_Spec k)) \<union> ms_Name ` set (kyma_modules k)"
  by (auto simp: FetchModuleInfo_def image_Un image_image)

lemma FetchModuleInfo_valid_error:
  "mi \<in> set (FetchModuleInfo k) \<Longrightarrow> mi_ValidationError mi \<noteq> Some nilDereference"
  by (auto simp: FetchModuleInfo_def spec_module_info_def status_module_info_def
      determineModuleValidity_def nilDereference_def split: option.splits if_splits)

lemma GetRegularTemplates_find:
  "GetRegularTemplates env lookup k n =
     map_option (regular_template env lookup k) (find (\<lambda>mi. mi_Name mi = n) (FetchModuleInfo k))"
  by (simp add: GetRegularTemplates_def fold_first_wins)

lemma GetRegularTemplates_Some:
  assumes "GetRegularTemplates env lookup k n = Some info"
  obtains mi where "mi \<in> set (FetchModuleInfo k)" "mi_Name mi = n" "info = regular_template env lookup k mi"
  using assms that find_Some_in by (fastforce simp: GetRegularTemplates_find)

section \<open>A reference environment\<close>

text \<open>A version parser and an ordering that behave as documented, for evaluation.\<close>

definition digit_val :: "char \<Rightarrow> nat" where
  "digit_val c = of_char c - 48"

definition parse_nat :: "string \<Rightarrow> nat" where
  "parse_nat s = foldl (\<lambda>n c. n * 10 + digit_val c) 0 s"

definition split_dot :: "string \<Rightarrow> string \<times> string" where
  "split_dot s = (takeWhile (\<lambda>c. c \<noteq> CHR ''.'') s, drop 1 (dropWhile (\<lambda>c. c \<noteq> CHR ''.'') s))"

definition ref_newVersion :: "string \<Rightarrow> semver option" where
  "ref_newVersion s =
     (let (a, r) = split_dot s; (b, c) = split_dot r in
      if int (parse_nat a) < 2 ^ 64 \<and> int (parse_nat b) < 2 ^ 64 \<and> int (parse_nat c) < 2 ^ 64
      then Some \<lparr>sv_Major = parse_nat a, sv_Minor = parse_nat b, sv_Patch = parse_nat c, sv_Rest = []\<rparr>
      else None)"

lemma digit_val_char: "d < 10 \<Longrightarrow> digit_val (char_of (48 + d)) = d"
  by (simp add: digit_val_def)

lemma digit_not_dot:
  assumes "(d::nat) < 10"
  shows "char_of (48 + d) \<noteq> CHR ''.''"
proof
  assume eq: "char_of (48 + d) = CHR ''.''"
  have "of_char (char_of (48 + d) :: char) = (48 + d :: nat)" using assms by simp
  then show False using eq by simp
qed

lemma parse_decimal: "parse_nat (decimal n) = n"
proof (induction n rule: decimal.induct)
  case (1 n)
  show ?case
  proof (cases "n < 10")
    case True
    then show ?thesis by (simp add: decimal.simps [of n] parse_nat_def digit_val_char)
  next
    case False
    then have "parse_nat (decimal n) = parse_nat (decimal (n div 10)) * 10 + n mod 10"
      by (simp add: decimal.simps [of n] parse_nat_def digit_val_char)
    then show ?thesis using 1 False by simp
  qed
qed

lemma decimal_no_dot: "c \<in> set (decimal n) \<Longrightarrow> c \<noteq> CHR ''.''"
proof (induction n rule: decimal.induct)
  case (1 n)
  have "n mod 10 < 10" by simp
  then show ?case
    using 1 digit_not_dot [of n] digit_not_dot [of "n mod 10"]
    by (cases "n < 10") (auto simp: decimal.simps [of n])
qed

lemma split_dot_decimal: "split_dot (decimal n @ ''.'' @ r) = (decimal n, r)"
proof -
  have all: "\<forall>c \<in> set (decimal n). c \<noteq> CHR ''.''" using decimal_no_dot by blast
  then show ?thesis by (simp add: split_dot_def takeWhile_append2 dropWhile_append2)
qed

lemma ref_newVersion_decimal:
  assumes "a < 2 ^ 64" and "b < 2 ^ 64" and "c < 2 ^ 64"
  shows "ref_newVersion (decimal a @ ''.'' @ decimal b @ ''.'' @ decimal c)
     = Some \<lparr>sv_Major = a, sv_Minor = b, sv_Patch = c, sv_Rest = []\<rparr>"
  using assms split_dot_decimal [of a "decimal b @ ''.'' @ decimal c"] split_dot_decimal [of b "decimal c"]
  by (simp add: ref_newVersion_def parse_decimal)

definition ref_env ::
  "(string \<Rightarrow> string \<Rightarrow> goerror + ModuleReleaseMeta) \<Rightarrow> (string \<Rightarrow> string \<Rightarrow> goerror + ModuleTemplate)
     \<Rightarrow> lookup_env" where
  "ref_env getMRM getMT =
     \<lparr>le_getMRM = getMRM, le_getTemplate = getMT, le_addDescriptor = (\<lambda>c. None),
      le_newVersion = ref_newVersion,
      le_lessThan = (\<lambda>v w. sv_Major v < sv_Major w \<or> sv_Major v = sv_Major w \<and>
         (sv_Minor v < sv_Minor w \<or> sv_Minor v = sv_Minor w \<and> sv_Patch v < sv_Patch w)),
      le_asSelector = (\<lambda>sel. Inr (\<lambda>ls. list_all (\<lambda>(key, v). ls key = Some v) (sel_MatchLabels sel))),
      le_restrictedModules = []\<rparr>"

lemma ref_env_semver_ok: "semver_ok (ref_env getMRM getMT)"
  using ref_newVersion_decimal
  by (auto simp: semver_ok_def ref_env_def) (auto simp: ref_newVersion_def Let_def split: prod.splits if_splits)

section \<open>Claims\<close>

text \<open>Whatever lookup strategy is used, the result has an entry for exactly the modules named in
  the spec or the status of the Kyma.\<close>

theorem GetRegularTemplates_dom:
  "dom (GetRegularTemplates env lookup k) =
     mod_Name ` set (ks_Modules (kyma_Spec k)) \<union> ms_Name ` set (kyma_modules k)"
proof -
  have "n \<in> dom (GetRegularTemplates env lookup k) \<longleftrightarrow> n \<in> mi_Name ` set (FetchModuleInfo k)" for n
    using find_None_keys [of mi_Name n "FetchModuleInfo k"]
    by (simp add: domIff GetRegularTemplates_find)
  then show ?thesis unfolding FetchModuleInfo_names [symmetric] by blast
qed

text \<open>C3. With the lookup the controller uses (the maintenance window decorator around the plain
  lookup), a template that is handed out without an error passed every admission check: internal
  and beta templates only for internal and beta Kymas, no mandatory module, a restricted module
  only for a Kyma its selector matches; and it is not a downgrade: for every installed status of the
  module both versions parse and the release in the status is not newer.\<close>

theorem GetRegularTemplates_admitted:
  assumes "semver_ok env"
    and "GetRegularTemplates env (WithMaintenanceWindow_Lookup req act (Lookup env)) k n = Some info"
    and "mti_Err info = None"
  shows "\<exists>mrm t. mti_Template info = Some t
    \<and> le_getMRM env n (om_Namespace (kyma_Meta k)) = Inr mrm
    \<and> (MT_IsInternal t \<longrightarrow> Kyma_IsInternal k) \<and> (MT_IsBeta t \<longrightarrow> Kyma_IsBeta k) \<and> \<not> mt_Mandatory t
    \<and> (mrm_ModuleName mrm \<in> set (le_restrictedModules env) \<longleftrightarrow> mrm_KymaSelector mrm \<noteq> None)
    \<and> (mrm_KymaSelector mrm \<noteq> None \<longrightarrow>
        RestrictedModuleMatch (le_asSelector env) (Some mrm) (Some k) = Inr True)
    \<and> (\<forall>ms \<in> set (kyma_modules k). ms_Name ms = n \<and> ms_Template ms \<noteq> None \<longrightarrow>
        (\<exists>new old. le_newVersion env (mt_Version t) = Some new
          \<and> le_newVersion env (ms_Version ms) = Some old \<and> release_le old new))"
proof -
  obtain mi where mi: "mi_Name mi = n"
    "info = regular_template env (WithMaintenanceWindow_Lookup req act (Lookup env)) k mi"
    using GetRegularTemplates_Some [OF assms(2)] by metis
  have err: "mti_Err (regular_template env (WithMaintenanceWindow_Lookup req act (Lookup env)) k mi) = None"
    using assms(3) mi(2) by simp
  show ?thesis
    using windowed.regular_template_admitted [OF assms(1) err] unfolding mi
    by (elim exE conjE, intro exI conjI) (assumption | simp)+
qed

text \<open>C4. An upgrade that needs a maintenance window is handed out only while one is active: an entry
  without an error whose template requires a window implies that the window check said so.\<close>

theorem GetRegularTemplates_window:
  assumes "semver_ok env"
    and "GetRegularTemplates env
      (WithMaintenanceWindow_Lookup
        (\<lambda>t. IsRequired (mt_RequiresDowntime t) (mt_ModuleName t) (mt_Version t))
        (IsActive now now2 policy minDuration) (Lookup env)) k n = Some info"
    and "mti_Err info = None" and "mti_Template info = Some t"
  shows "\<not> IsRequired (mt_RequiresDowntime t) (mt_ModuleName t) (mt_Version t) k
    \<or> IsActive now now2 policy minDuration k = Inr True"
proof -
  let ?req = "\<lambda>t. IsRequired (mt_RequiresDowntime t) (mt_ModuleName t) (mt_Version t)"
  let ?look = "WithMaintenanceWindow_Lookup ?req (IsActive now now2 policy minDuration) (Lookup env)"
  obtain mi where mi: "info = regular_template env ?look k mi"
    using GetRegularTemplates_Some [OF assms(2)] by metis
  then have err: "mti_Err (regular_template env ?look k mi) = None" using assms(3) by simp
  obtain mrm where "info = ?look mi k (Some mrm)"
    using windowed.regular_template_admitted [OF assms(1) err] unfolding mi by blast
  then show ?thesis
    using assms(3,4)
    by (auto simp: WithMaintenanceWindow_Lookup_def Let_def split: option.splits if_splits sum.splits)
qed

text \<open>No nil template is dereferenced while the templates are collected, whether or not the
  maintenance window decorator is in place.\<close>

theorem GetRegularTemplates_no_nil:
  assumes "semver_ok env"
    and "GetRegularTemplates env (Lookup env) k n = Some info
      \<or> GetRegularTemplates env (WithMaintenanceWindow_Lookup req act (Lookup env)) k n = Some info"
  shows "mti_Err info \<noteq> Some nilDereference"
proof -
  have "mti_Err (regular_template env (Lookup env) k mi) \<noteq> Some nilDereference"
    "mti_Err (regular_template env (WithMaintenanceWindow_Lookup req act (Lookup env)) k mi) \<noteq> Some nilDereference"
    if "mi \<in> set (FetchModuleInfo k)" for mi
    using plain.regular_template_no_nil [OF assms(1) FetchModuleInfo_valid_error [OF that]]
      windowed.regular_template_no_nil [OF assms(1) FetchModuleInfo_valid_error [OF that]] by blast+
  then show ?thesis using assms(2) by (metis GetRegularTemplates_Some)
qed

text \<open>The channel of a module decides its version: the lookup takes the first assignment of the
  module's own channel, or the Kyma's channel when the module sets none, or the default channel,
  and asks for the template named after the module and this version.\<close>

theorem Lookup_channel:
  assumes "mrm_Mandatory mrm = None" and "mti_Err (Lookup env mi k (Some mrm)) = None"
  shows "\<exists>c t. find (\<lambda>c. cva_Channel c =
        (if mod_Channel (mi_Module mi) \<noteq> [] then mod_Channel (mi_Module mi)
         else if ks_Channel (kyma_Spec k) \<noteq> [] then ks_Channel (kyma_Spec k) else DefaultChannel))
        (mrm_Channels mrm) = Some c
    \<and> le_getTemplate env (mi_Name mi @ ''-'' @ cva_Version c) (om_Namespace (kyma_Meta k)) = Inr t
    \<and> mti_Template (Lookup env mi k (Some mrm)) = Some t
    \<and> mti_ComponentId (Lookup env mi k (Some mrm)) = Some (mrm_OcmComponentName mrm, cva_Version c)"
proof -
  let ?ch = "getDesiredChannel (mod_Channel (mi_Module mi)) (ks_Channel (kyma_Spec k))"
  from assms obtain v where v: "GetChannelVersionForModule mrm ?ch = Inr v"
    by (auto simp: Lookup_def Let_def empty_info_def split: sum.splits)
  from v obtain c where c: "find (\<lambda>c. cva_Channel c = ?ch) (mrm_Channels mrm) = Some c" "v = cva_Version c"
    by (auto simp: GetChannelVersionForModule_def split: option.splits if_splits)
  from assms v obtain cid where cid: "NewComponentId (mrm_OcmComponentName mrm) v = Inr cid"
    by (auto simp: Lookup_def Let_def empty_info_def split: sum.splits)
  from assms v cid obtain t where t: "getTemplateByVersion env (mi_Name mi) v (om_Namespace (kyma_Meta k)) = Inr t"
    by (auto simp: Lookup_def Let_def empty_info_def split: sum.splits)
  have "Lookup env mi k (Some mrm) = empty_info\<lparr>mti_DesiredChannel := ?ch, mti_ComponentId := Some cid,
      mti_Template := Some t\<rparr>"
    using assms(1) v cid t by (simp add: Lookup_def Let_def empty_info_def)
  then have "mti_Template (Lookup env mi k (Some mrm)) = Some t
      \<and> mti_ComponentId (Lookup env mi k (Some mrm)) = Some cid" by simp
  moreover have "le_getTemplate env (mi_Name mi @ ''-'' @ cva_Version c) (om_Namespace (kyma_Meta k)) = Inr t"
    using t c(2) by (auto simp: getTemplateByVersion_def CreateModuleTemplateName_def split: sum.splits)
  moreover have "cid = (mrm_OcmComponentName mrm, cva_Version c)"
    using cid c(2) by (simp add: NewComponentId_Inr)
  ultimately show ?thesis
    using c(1) unfolding getDesiredChannel_def by blast
qed

section \<open>Witnesses\<close>

definition ex_module :: Module where
  "ex_module = \<lparr>mod_CustomResourcePolicy = CreateAndDelete, mod_Name = ''istio'',
     mod_ControllerName = [], mod_Channel = [], mod_Version = [], mod_Managed = True\<rparr>"

definition ex_tracking :: TrackingObject where
  "ex_tracking = \<lparr>to_APIVersion = ''v1'', to_Kind = ''k'', to_Name = ''n'', to_Namespace = ''ns'',
     to_Generation = 1\<rparr>"

definition ex_status :: ModuleStatus where
  "ex_status = \<lparr>ms_Name = ''istio'', ms_FQDN = [], ms_OCMComponentName = [], ms_Channel = ''regular'',
     ms_Version = ''1.2.0'', ms_Message = [], ms_State = StateReady, ms_Manifest = None,
     ms_Resource = None, ms_Template = Some ex_tracking, ms_Maintenance = False\<rparr>"

definition ex_kyma :: Kyma where
  "ex_kyma = set_modules [ex_status]
     (example_kyma\<lparr>kyma_Spec := (kyma_Spec example_kyma)\<lparr>ks_Modules := [ex_module]\<rparr>\<rparr>)"

definition ex_mrm :: ModuleReleaseMeta where
  "ex_mrm = \<lparr>mrm_Meta = example_meta, mrm_ModuleName = ''istio'',
     mrm_OcmComponentName = ''kyma-project.io/istio'',
     mrm_Channels = [\<lparr>cva_Channel = ''regular'', cva_Version = ''1.10.0''\<rparr>],
     mrm_Mandatory = None, mrm_Beta = False, mrm_Internal = False, mrm_KymaSelector = None\<rparr>"

definition ex_template :: ModuleTemplate where
  "ex_template = \<lparr>mt_GVK = \<lparr>gvk_Group = [], gvk_Version = [], gvk_Kind = []\<rparr>,
     mt_Meta = example_meta, mt_HasLabels = False, mt_Version = ''1.10.0'', mt_ModuleName = ''istio'',
     mt_Mandatory = False, mt_Data = None, mt_Manager = None, mt_RequiresDowntime = True\<rparr>"

definition ex_env :: lookup_env where
  "ex_env = ref_env (\<lambda>n ns. Inr ex_mrm) (\<lambda>n ns. Inr ex_template)"

definition ex_lookup :: module_lookup_fn where
  "ex_lookup = WithMaintenanceWindow_Lookup
     (\<lambda>t. IsRequired (mt_RequiresDowntime t) (mt_ModuleName t) (mt_Version t))
     (IsActive (saturday 75600) (saturday 75600) (Some example_policy) hour) (Lookup ex_env)"

definition ex_result :: "ModuleTemplateInfo option" where
  "ex_result = GetRegularTemplates ex_env ex_lookup ex_kyma ''istio''"

lemma ex_result_eval:
  "map_option (\<lambda>i. (mti_Err i, map_option (\<lambda>t. (mt_RequiresDowntime t, mt_ModuleName t, mt_Version t)) (mti_Template i)))
     ex_result = Some (None, Some (True, ''istio'', ''1.10.0''))"
  by code_simp

lemma ex_result_info:
  "\<exists>info t. ex_result = Some info \<and> mti_Err info = None \<and> mti_Template info = Some t
     \<and> mt_RequiresDowntime t \<and> mt_ModuleName t = ''istio'' \<and> mt_Version t = ''1.10.0''"
  using ex_result_eval by auto

lemma ex_env_ok: "semver_ok ex_env"
  by (simp add: ex_env_def ref_env_semver_ok)

theorem GetRegularTemplates_admitted_witness:
  "\<exists>info. ex_result = Some info \<and> mti_Err info = None
    \<and> (\<exists>t. mti_Template info = Some t \<and> \<not> mt_Mandatory t)"
proof -
  obtain info where i: "ex_result = Some info" "mti_Err info = None" using ex_result_info by metis
  show ?thesis
    using GetRegularTemplates_admitted [OF ex_env_ok i(1) [unfolded ex_result_def ex_lookup_def] i(2)] i
    by auto
qed

theorem GetRegularTemplates_window_witness:
  "IsRequired True ''istio'' ''1.10.0'' ex_kyma
    \<and> IsActive (saturday 75600) (saturday 75600) (Some example_policy) hour ex_kyma = Inr True"
proof -
  obtain info t where i: "ex_result = Some info" "mti_Err info = None" "mti_Template info = Some t"
    "mt_RequiresDowntime t" "mt_ModuleName t = ''istio''" "mt_Version t = ''1.10.0''"
    using ex_result_info by metis
  have "IsRequired True ''istio'' ''1.10.0'' ex_kyma" by code_simp
  then show ?thesis
    using GetRegularTemplates_window [OF ex_env_ok i(1) [unfolded ex_result_def ex_lookup_def] i(2,3)] i
    by simp
qed

theorem GetRegularTemplates_no_nil_witness:
  "\<exists>info. ex_result = Some info \<and> mti_Err info \<noteq> Some nilDereference"
proof -
  obtain info where i: "ex_result = Some info" using ex_result_info by metis
  then show ?thesis
    using GetRegularTemplates_no_nil [OF ex_env_ok disjI2 [OF i [unfolded ex_result_def ex_lookup_def]]]
    by blast
qed

theorem Lookup_channel_witness:
  "\<exists>c. find (\<lambda>c. cva_Channel c = ''regular'') (mrm_Channels ex_mrm) = Some c
    \<and> mti_ComponentId (Lookup ex_env (spec_module_info ex_module) ex_kyma (Some ex_mrm))
        = Some (''kyma-project.io/istio'', cva_Version c)"
proof -
  have "mrm_Mandatory ex_mrm = None"
    "mti_Err (Lookup ex_env (spec_module_info ex_module) ex_kyma (Some ex_mrm)) = None"
    "mod_Channel (mi_Module (spec_module_info ex_module)) = []" "ks_Channel (kyma_Spec ex_kyma) = ''regular''"
    "mrm_OcmComponentName ex_mrm = ''kyma-project.io/istio''"
    by code_simp+
  with Lookup_channel [of ex_mrm ex_env "spec_module_info ex_module" ex_kyma] show ?thesis by auto
qed

end
