(* ===== verification/Util.thy ===== *)
theory Util
  imports ApiTypes
begin

text \<open>
  The helpers every controller shares: classification of errors (\<^verbatim>\<open>pkg/util/error.go\<close>),
  requeue intervals (\<^verbatim>\<open>pkg/queue\<close>) and slices and maps
  (\<^verbatim>\<open>internal/util/collections\<close>). The loop of \<open>FilterInPlace\<close> overwrites the slice it
  reads; it is proved to compute the filter. The jitter of the intervals is floating point
  arithmetic on a random number and is a function argument.
\<close>

section \<open>Errors\<close>

definition ErrSkrCertificateNotReady :: goerror where
  "ErrSkrCertificateNotReady = Sentinel ''ErrSkrCertificateNotReady'' ''SKR certificate not ready''"

definition ErrClientUnauthorized :: goerror where
  "ErrClientUnauthorized = Sentinel ''ErrClientUnauthorized'' ''ServerSideApply is unauthorized''"
definition ErrClientTLSCertExpired :: goerror where
  "ErrClientTLSCertExpired =
     Sentinel ''ErrClientTLSCertExpired'' ''SKR access secret certificate is expired''"
definition msgTLSCertificateExpired :: string where
  "msgTLSCertificateExpired = ''expired certificate''"
definition msgUnauthorized :: string where "msgUnauthorized = '': Unauthorized''"

text \<open>
  \<^verbatim>\<open>IsNotRegisteredError\<close> looks at the error itself, the other library predicates at the
  first error of their kind that it wraps.
\<close>

fun not_registered :: "goerror \<Rightarrow> bool" where
  "not_registered (Ext x) = ext_not_registered x"
| "not_registered e = False"

definition no_match :: "goerror \<Rightarrow> bool" where
  "no_match e = list_ex ext_no_match (ext_leaves e)"

definition fallback_messages :: "string list" where
  "fallback_messages = [''failed to get restmapping'', ''could not find the requested resource'']"

definition IsNotFound :: "goerror option \<Rightarrow> bool" where
  "IsNotFound err =
     (case err of
        None \<Rightarrow> False
      | Some e \<Rightarrow>
          if not_registered e \<or> no_match e \<or> reasonForError e = Some ReasonNotFound then True
          else if errors_As ext_group_not_found (ext_leaves e) = Some True then True
          else list_ex (containsStr (error_text e)) fallback_messages)"

definition IgnoreNotFound :: "goerror option \<Rightarrow> goerror option" where
  "IgnoreNotFound err = (if IsNotFound err then None else err)"

definition isNoSuchHostError :: "goerror \<Rightarrow> bool" where
  "isNoSuchHostError e = (errors_As ext_dns_not_found (ext_leaves e) = Some True)"

definition trimmed :: "string \<Rightarrow> string" where
  "trimmed m = trimRight m [CHR 0x20, CHR 0x0A]"

definition IsUnauthorizedError :: "string \<Rightarrow> bool" where
  "IsUnauthorizedError m = hasSuffix (trimmed m) msgUnauthorized"

definition IsTLSCertExpiredError :: "string \<Rightarrow> bool" where
  "IsTLSCertExpiredError m = hasSuffix (trimmed m) msgTLSCertificateExpired"

definition isRawCertRelatedError :: "goerror \<Rightarrow> bool" where
  "isRawCertRelatedError e = (IsUnauthorizedError (error_text e) \<or> IsTLSCertExpiredError (error_text e))"

definition IsConnectionRelatedError :: "goerror option \<Rightarrow> bool" where
  "IsConnectionRelatedError err =
     (case err of
        None \<Rightarrow> False
      | Some e \<Rightarrow>
          list_ex ext_conn_refused (ext_leaves e)
          \<or> reasonForError e = Some ReasonUnauthorized
          \<or> reasonForError e = Some ReasonForbidden
          \<or> isNoSuchHostError e
          \<or> errors_Is e ErrClientTLSCertExpired
          \<or> errors_Is e ErrClientUnauthorized
          \<or> isRawCertRelatedError e)"

definition NestedErrorMessage :: "goerror option \<Rightarrow> string" where
  "NestedErrorMessage err =
     (case err of
        None \<Rightarrow> []
      | Some e \<Rightarrow> (case errors_Unwrap e of None \<Rightarrow> [] | Some w \<Rightarrow> error_text w))"

section \<open>Requeue intervals\<close>

record RequeueIntervals =
  ri_Success :: duration
  ri_Busy :: duration
  ri_Warning :: duration
  ri_Error :: duration
  ri_Jitter :: "(duration \<Rightarrow> duration) option"

definition DetermineRequeueInterval :: "State \<Rightarrow> RequeueIntervals \<Rightarrow> duration" where
  "DetermineRequeueInterval state intervals =
     (let interval = (case state of
          StateError \<Rightarrow> ri_Error intervals
        | StateDeleting \<Rightarrow> ri_Busy intervals
        | StateProcessing \<Rightarrow> ri_Busy intervals
        | StateWarning \<Rightarrow> ri_Warning intervals
        | _ \<Rightarrow> ri_Success intervals)
      in case ri_Jitter intervals of Some apply_jitter \<Rightarrow> apply_jitter interval | None \<Rightarrow> interval)"

text \<open>All intervals are positive, and the jitter keeps them so.\<close>

definition intervals_ok :: "RequeueIntervals \<Rightarrow> bool" where
  "intervals_ok r \<longleftrightarrow> 0 < ri_Success r \<and> 0 < ri_Busy r \<and> 0 < ri_Warning r \<and> 0 < ri_Error r
     \<and> (\<forall>j. ri_Jitter r = Some j \<longrightarrow> (\<forall>d. 0 < d \<longrightarrow> 0 < j d))"

lemma DetermineRequeueInterval_positive:
  "intervals_ok r \<Longrightarrow> 0 < DetermineRequeueInterval st r"
  by (cases "ri_Jitter r"; cases st) (auto simp: intervals_ok_def DetermineRequeueInterval_def)

section \<open>Slices and maps\<close>

text \<open>
  \<open>MergeMaps\<close>: the second map is visited in some order, given as a list of its entries.
\<close>

definition MergeMaps :: "labels \<Rightarrow> (string \<times> string) list \<Rightarrow> labels \<times> bool" where
  "MergeMaps map1 entries =
     fold (\<lambda>(k, v) (m, changed). if label_get m k \<noteq> v then (m(k \<mapsto> v), True) else (m, changed))
       entries (map1, False)"

definition MergeMapsSilent :: "labels \<Rightarrow> (string \<times> string) list \<Rightarrow> labels" where
  "MergeMapsSilent m entries = fst (MergeMaps m entries)"

text \<open>
  \<open>NotExistingIn\<close> of \<open>DiffCalc\<close>: the elements of the first slice whose identity does not
  occur in the second.
\<close>

definition presentInSecond :: "('e \<Rightarrow> string) \<Rightarrow> 'e list \<Rightarrow> (string \<rightharpoonup> unit)" where
  "presentInSecond identity snd_list = fold (\<lambda>e m. m(identity e \<mapsto> ())) snd_list Map.empty"

definition NotExistingIn :: "('e \<Rightarrow> string) \<Rightarrow> 'e list \<Rightarrow> 'e list \<Rightarrow> 'e list" where
  "NotExistingIn identity first snd_list =
     fold (\<lambda>e acc. if presentInSecond identity snd_list (identity e) = None then acc @ [e] else acc) first []"

text \<open>The loop of \<open>FilterInPlace\<close> at index \<open>i\<close>, with \<open>kept\<close> elements kept so far.\<close>

function filter_loop :: "('e \<Rightarrow> bool) \<Rightarrow> 'e list \<Rightarrow> nat \<Rightarrow> nat \<Rightarrow> 'e list \<times> nat" where
  "filter_loop pred xs i kept =
     (if i < length xs
      then (if pred (xs ! i) then filter_loop pred (xs[kept := xs ! i]) (Suc i) (Suc kept)
            else filter_loop pred xs (Suc i) kept)
      else (xs, kept))"
  by pat_completeness auto

termination
  by (relation "measure (\<lambda>(pred, xs, i, kept). length xs - i)") auto

declare filter_loop.simps [simp del]

definition FilterInPlace :: "('e \<Rightarrow> bool) \<Rightarrow> 'e list \<Rightarrow> 'e list" where
  "FilterInPlace pred xs = (case filter_loop pred xs 0 0 of (ys, kept) \<Rightarrow> take kept ys)"

section \<open>Properties\<close>

lemma IsNotFound_None [simp]: "\<not> IsNotFound None"
  by (simp add: IsNotFound_def)

lemma IsConnectionRelatedError_None [simp]: "\<not> IsConnectionRelatedError None"
  by (simp add: IsConnectionRelatedError_def)

lemma filter_loop_invariant:
  assumes "kept \<le> i" and "i \<le> length xs"
  shows "let (ys, l) = filter_loop pred xs i kept in
     l \<le> length ys \<and> take l ys = take kept xs @ filter pred (drop i xs)"
  using assms
proof (induction pred xs i kept rule: filter_loop.induct)
  case (1 pred xs i kept)
  show ?case
  proof (cases "i < length xs")
    case False
    then show ?thesis using 1 by (simp add: filter_loop.simps)
  next
    case True
    then have drop: "drop i xs = xs ! i # drop (Suc i) xs" by (simp add: Cons_nth_drop_Suc)
    have kept: "kept < length xs" using True 1 by simp
    show ?thesis
    proof (cases "pred (xs ! i)")
      case True
      have "drop (Suc i) (xs[kept := xs ! i]) = drop (Suc i) xs" using 1 by simp
      moreover have "take (Suc kept) (xs[kept := xs ! i]) = take kept xs @ [xs ! i]"
        using kept by (simp add: take_Suc_conv_app_nth)
      ultimately show ?thesis
        using 1 True \<open>i < length xs\<close> drop
        by (simp add: filter_loop.simps [of pred xs i] case_prod_beta)
    next
      case False
      then show ?thesis
        using 1 \<open>i < length xs\<close> drop by (simp add: filter_loop.simps [of pred xs i] case_prod_beta)
    qed
  qed
qed

lemma presentInSecond_dom: "dom (presentInSecond identity snd_list) = identity ` set snd_list"
proof -
  have "dom (fold (\<lambda>e m. m(identity e \<mapsto> ())) snd_list m0) = dom m0 \<union> identity ` set snd_list" for m0
    by (induction snd_list arbitrary: m0) auto
  then show ?thesis by (simp add: presentInSecond_def)
qed

lemma fold_snoc_filter: "fold (\<lambda>e acc. if P e then acc @ [e] else acc) xs acc = acc @ filter P xs"
  by (induction xs arbitrary: acc) auto

lemma NotExistingIn_filter:
  "NotExistingIn identity first snd_list = filter (\<lambda>e. identity e \<notin> identity ` set snd_list) first"
proof -
  have "presentInSecond identity snd_list n = None \<longleftrightarrow> n \<notin> identity ` set snd_list" for n
    by (metis presentInSecond_dom domIff)
  then show ?thesis by (simp add: NotExistingIn_def fold_snoc_filter)
qed

text \<open>Filtering in place: the loop that overwrites the slice it reads returns exactly the elements
  that satisfy the predicate, in their order.\<close>

theorem FilterInPlace_filter: "FilterInPlace pred xs = filter pred xs"
  using filter_loop_invariant [of 0 0 xs pred] by (simp add: FilterInPlace_def case_prod_beta Let_def)

text \<open>Merging maps loses an empty value: a key that the first map does not have and the second
  maps to the empty string is not added, although every other entry of the second map is, and the
  change flag is not raised.\<close>

theorem MergeMaps_empty_value:
  "MergeMaps Map.empty [(''a'', ''x''), (''b'', [])] = ([''a'' \<mapsto> ''x''], True)
   \<and> snd (MergeMaps Map.empty [(''b'', [])]) = False"
  by (simp add: MergeMaps_def label_get_def)

end
