(* ===== verification/ManifestTypes.thy ===== *)
theory ManifestTypes
  imports ModuleTypes Util "HOL-Library.Word"
begin

text \<open>
  The Manifest custom resource (\<^verbatim>\<open>api/v1beta2/manifest_types.go\<close>), the status type it
  shares with other resources (\<^verbatim>\<open>api/shared/status.go\<close>, \<^verbatim>\<open>resource.go\<close>) and the module
  structure that the Kyma controller builds for every module
  (\<^verbatim>\<open>pkg/module/common/module.go\<close>): its default metadata and the name of its Manifest. The
  name contains a 32 bit FNV-1 hash, which is computed on machine words.
\<close>

section \<open>Status\<close>

record Resource =
  res_GVK :: GVK
  res_Name :: string
  res_Namespace :: string

definition Resource_ID :: "Resource \<Rightarrow> string" where
  "Resource_ID r = joinWith ''/''
     [res_Namespace r, res_Name r, gvk_Group (res_GVK r), gvk_Version (res_GVK r), gvk_Kind (res_GVK r)]"

definition Resource_ToUnstructured :: "Resource \<Rightarrow> Unstructured" where
  "Resource_ToUnstructured r =
     \<lparr>un_GVK = res_GVK r, un_Name = res_Name r, un_Namespace = res_Namespace r, un_Generation = 0,
      un_Body = []\<rparr>"

record Status =
  st_LastOperation :: LastOperation
  st_State :: State
  st_Conditions :: "Condition list"
  st_Synced :: "Resource list"

definition WithState :: "State \<Rightarrow> Status \<Rightarrow> Status" where
  "WithState state s = s\<lparr>st_State := state\<rparr>"

definition WithOperation :: "int \<Rightarrow> string \<Rightarrow> Status \<Rightarrow> Status" where
  "WithOperation now operation s =
     s\<lparr>st_LastOperation := \<lparr>lo_Operation = operation, lo_LastUpdateTime = now\<rparr>\<rparr>"

definition WithErr :: "int \<Rightarrow> goerror \<Rightarrow> Status \<Rightarrow> Status" where
  "WithErr now err s =
     s\<lparr>st_LastOperation := \<lparr>lo_Operation = error_text err, lo_LastUpdateTime = now\<rparr>\<rparr>"

section \<open>Manifest\<close>

definition ConfigLayer :: string where "ConfigLayer = ''config''"
definition DefaultCRLayer :: string where "DefaultCRLayer = ''default-cr''"
definition RawManifestLayer :: string where "RawManifestLayer = ''raw-manifest''"
definition OciRefType :: string where "OciRefType = ''oci-ref''"
definition OciDirType :: string where "OciDirType = ''oci-dir''"

definition ErrLabelNotFound :: goerror where
  "ErrLabelNotFound = Sentinel ''ErrLabelNotFound'' ''label is not found''"

record ImageSpec =
  is_Repo :: string
  is_Name :: string
  is_Ref :: string
  is_Type :: string

text \<open>
  The raw bytes of \<open>source\<close> are the JSON of an image specification; the model keeps the
  specification they encode. \<open>None\<close> stands for no bytes.
\<close>

record InstallInfo =
  ii_Source :: "ImageSpec option"
  ii_Name :: string

record ManifestSpec =
  msp_CustomResourcePolicy :: CustomResourcePolicy
  msp_Remote :: bool
  msp_Version :: string
  msp_Config :: "ImageSpec option"
  msp_Install :: InstallInfo
  msp_Resource :: "Unstructured option"
  msp_LocalizedImages :: "string list"
  msp_Manager :: "Manager option"

record Manifest =
  man_GVK :: GVK
  man_Meta :: ObjectMeta
  man_Spec :: ManifestSpec
  man_Status :: Status

abbreviation man_labels :: "Manifest \<Rightarrow> labels" where
  "man_labels m \<equiv> om_Labels (man_Meta m)"

abbreviation man_Name :: "Manifest \<Rightarrow> string" where
  "man_Name m \<equiv> om_Name (man_Meta m)"

definition IsUnmanaged :: "Manifest \<Rightarrow> bool" where
  "IsUnmanaged m = (label_get (om_Annotations (man_Meta m)) UnmanagedAnnotation = EnableLabelValue)"

definition IsMandatoryModule :: "Manifest \<Rightarrow> bool" where
  "IsMandatoryModule m = (label_get (man_labels m) MandatoryLabel = EnableLabelValue)"

definition Manifest_SkipReconciliation :: "Manifest \<Rightarrow> bool" where
  "Manifest_SkipReconciliation m = (label_get (man_labels m) SkipReconcileLabel = EnableLabelValue)"

definition GetKymaName :: "Manifest \<Rightarrow> goerror + string" where
  "GetKymaName m = (case man_labels m KymaNameLabel of
     None \<Rightarrow> Inl (wrapErr ''KymaName label not found '' ErrLabelNotFound) | Some n \<Rightarrow> Inr n)"

definition GetModuleName :: "Manifest \<Rightarrow> goerror + string" where
  "GetModuleName m = (case man_labels m ModuleNameLabel of
     None \<Rightarrow> Inl (wrapErr ''ModuleName label not found '' ErrLabelNotFound) | Some n \<Rightarrow> Inr n)"

definition GetChannel :: "Manifest \<Rightarrow> string \<times> bool" where
  "GetChannel m = (case man_labels m ChannelLabel of None \<Rightarrow> ([], False) | Some c \<Rightarrow> (c, True))"

definition IsSameChannel :: "Manifest \<Rightarrow> Manifest \<Rightarrow> bool" where
  "IsSameChannel m other =
     (case GetChannel m of
        (channel, found) \<Rightarrow>
          if \<not> found then False
          else (case GetChannel other of
                  (otherChannel, found') \<Rightarrow> if \<not> found' then False else channel = otherChannel))"

definition GenerateCacheKey :: "Manifest \<Rightarrow> string \<times> bool" where
  "GenerateCacheKey m =
     (case GetKymaName m of
        Inl e \<Rightarrow> ([], False)
      | Inr n \<Rightarrow> (joinWith ''|'' [n, om_Namespace (man_Meta m)], True))"

definition ShouldCreateDefaultModuleCR :: "Manifest \<Rightarrow> bool" where
  "ShouldCreateDefaultModuleCR m =
     (msp_CustomResourcePolicy (man_Spec m) = CreateAndDelete \<and> msp_Resource (man_Spec m) \<noteq> None)"

lemma IsSameChannel_iff:
  "IsSameChannel m other \<longleftrightarrow>
     (\<exists>c. man_labels m ChannelLabel = Some c \<and> man_labels other ChannelLabel = Some c)"
  by (auto simp: IsSameChannel_def GetChannel_def split: option.splits)

section \<open>Names of Manifests\<close>

text \<open>\<^verbatim>\<open>fnv.New32\<close>: multiply by the prime, then exclusive or with the byte, modulo \<open>2^32\<close>.\<close>

unbundle bit_operations_syntax

definition fnv32 :: "string \<Rightarrow> 32 word" where
  "fnv32 s = foldl (\<lambda>h c. (h * 16777619) XOR of_nat (of_char c)) 2166136261 s"

text \<open>\<^verbatim>\<open>strings.CutLast(s, "/")\<close>: what follows the last slash, the whole string without one.\<close>

definition after_last_slash :: "string \<Rightarrow> string" where
  "after_last_slash s = rev (takeWhile (\<lambda>c. c \<noteq> CHR ''/'') (rev s))"

definition maxModuleNameLength :: nat where "maxModuleNameLength = 63"

definition CreateModuleName :: "string \<Rightarrow> string \<Rightarrow> string \<Rightarrow> string" where
  "CreateModuleName compName prefix moduleName =
     (let name = prefix @ ''-'' @ after_last_slash compName @ ''-''
            @ decimal_int (uint (fnv32 (compName @ moduleName)))
      in if length name \<ge> maxModuleNameLength
         then trimRight (take (maxModuleNameLength - 1) name) ''-''
         else name)"

section \<open>Properties\<close>

lemma trimRight_prefix: "\<exists>r. s = trimRight s cs @ r"
proof -
  have "rev s = takeWhile (\<lambda>c. c \<in> set cs) (rev s) @ dropWhile (\<lambda>c. c \<in> set cs) (rev s)" by simp
  then have "s = rev (dropWhile (\<lambda>c. c \<in> set cs) (rev s)) @ rev (takeWhile (\<lambda>c. c \<in> set cs) (rev s))"
    by (metis rev_append rev_rev_ident)
  then show ?thesis unfolding trimRight_def by blast
qed

lemma trimRight_last: "trimRight s cs = [] \<or> last (trimRight s cs) \<notin> set cs"
proof (cases "dropWhile (\<lambda>c. c \<in> set cs) (rev s) = []")
  case False
  then show ?thesis using hd_dropWhile [OF False] by (simp add: trimRight_def last_rev)
qed (simp add: trimRight_def)

lemma CreateModuleName_length: "length (CreateModuleName c p n) \<le> 62"
proof -
  let ?full = "p @ ''-'' @ after_last_slash c @ ''-'' @ decimal_int (uint (fnv32 (c @ n)))"
  obtain r where "take 62 ?full = trimRight (take 62 ?full) ''-'' @ r" using trimRight_prefix by blast
  then have "length (trimRight (take 62 ?full) ''-'') \<le> length (take 62 ?full)"
    by (metis length_append le_add1)
  then show ?thesis by (auto simp: CreateModuleName_def Let_def maxModuleNameLength_def)
qed

text \<open>Names of Manifests are bounded: whatever the component, the Kyma and the module are called, the
  name has at most 62 characters, so it is a valid label value, and a name that had to be cut does
  not end in a dash.\<close>

theorem CreateModuleName_bounds:
  "length (CreateModuleName cn prefix mn) \<le> 62
   \<and> (let full = prefix @ ''-'' @ after_last_slash cn @ ''-'' @ decimal_int (uint (fnv32 (cn @ mn)));
          name = CreateModuleName cn prefix mn
      in (\<exists>rest. full = name @ rest)
         \<and> (name \<noteq> full \<longrightarrow> name = [] \<or> last name \<noteq> CHR ''-''))"
proof -
  let ?full = "prefix @ ''-'' @ after_last_slash cn @ ''-'' @ decimal_int (uint (fnv32 (cn @ mn)))"
  obtain r where r: "take 62 ?full = trimRight (take 62 ?full) ''-'' @ r" using trimRight_prefix by blast
  have pre: "\<exists>rest. ?full = trimRight (take 62 ?full) ''-'' @ rest"
    using r by (metis append_take_drop_id append_assoc)
  show ?thesis
    using CreateModuleName_length pre trimRight_last [of "take 62 ?full" "''-''"]
    by (auto simp: CreateModuleName_def Let_def maxModuleNameLength_def)
qed

lemma CreateModuleName_example:
  "CreateModuleName ''simple-component'' ''default-id'' ''module1'' = ''default-id-simple-component-3590401810''"
  by code_simp

theorem CreateModuleName_bounds_witness:
  "length ''default-id-simple-component-3590401810'' \<le> 62"
  using CreateModuleName_bounds [of "''simple-component''" "''default-id''" "''module1''"]
  unfolding CreateModuleName_example by blast

text \<open>The hash does not keep long names apart: when the component name is long, the name is cut before
  the hash, and two modules of the same component get the same Manifest name.\<close>

theorem CreateModuleName_collision:
  "CreateModuleName ''example.org/this-is-a-very-long-component-name-that-exceeds-the-maximum-length''
       ''default-id'' ''module1''
   = CreateModuleName ''example.org/this-is-a-very-long-component-name-that-exceeds-the-maximum-length''
       ''default-id'' ''module2''
   \<and> fnv32 (''example.org/this-is-a-very-long-component-name-that-exceeds-the-maximum-length'' @ ''module1'')
     \<noteq> fnv32 (''example.org/this-is-a-very-long-component-name-that-exceeds-the-maximum-length'' @ ''module2'')"
proof
  show "CreateModuleName ''example.org/this-is-a-very-long-component-name-that-exceeds-the-maximum-length''
       ''default-id'' ''module1''
   = CreateModuleName ''example.org/this-is-a-very-long-component-name-that-exceeds-the-maximum-length''
       ''default-id'' ''module2''"
    by code_simp
  show "fnv32 (''example.org/this-is-a-very-long-component-name-that-exceeds-the-maximum-length'' @ ''module1'')
     \<noteq> fnv32 (''example.org/this-is-a-very-long-component-name-that-exceeds-the-maximum-length'' @ ''module2'')"
    by code_simp
qed

end
