(* ===== verification/ModuleParser.thy ===== *)
theory ModuleParser
  imports TemplateLookup ManifestTypes
begin

text \<open>
  From a ModuleTemplate to a Manifest: the layers of a component descriptor
  (\<^verbatim>\<open>internal/manifest/img\<close>), the cached descriptor provider
  (\<^verbatim>\<open>internal/descriptor/provider\<close>), the module structure (\<^verbatim>\<open>pkg/module/common\<close>) and the
  parser that builds one module per entry of the Kyma
  (\<^verbatim>\<open>internal/service/manifest/parser/template_to_module.go\<close>).

  The Open Component Model library, which decodes the access specification of a resource and the
  repository context of a descriptor, is a record \<open>ocm_env\<close> of answers. Its access type names
  are the constructors of \<open>access_type\<close>. SHA-256 is computed on 32 bit words.
\<close>

section \<open>SHA-256 of a component name\<close>

text \<open>
  The round constants are the first 32 bits of the fractional parts of the cube roots of the first
  64 primes, the initial hash value those of the square roots of the first eight.
\<close>

definition int_root :: "nat \<Rightarrow> int \<Rightarrow> int" where
  "int_root k n = fold (\<lambda>i x. if (x + 2 ^ i) ^ k \<le> n then x + 2 ^ i else x) (rev [0..<36]) 0"

definition sha_primes :: "int list" where
  "sha_primes = filter (\<lambda>n. list_all (\<lambda>d. n mod d \<noteq> 0) [2..n - 1]) [2..311]"

definition sha_K :: "32 word list" where
  "sha_K = map (\<lambda>p. word_of_int (int_root 3 (p * 2 ^ 96))) sha_primes"

definition sha_H0 :: "32 word list" where
  "sha_H0 = map (\<lambda>p. word_of_int (int_root 2 (p * 2 ^ 64))) (take 8 sha_primes)"

definition rotr32 :: "nat \<Rightarrow> 32 word \<Rightarrow> 32 word" where
  "rotr32 n w = drop_bit n w OR push_bit (32 - n) w"

definition sha_pad :: "int list \<Rightarrow> int list" where
  "sha_pad bs =
     (let l = length bs; z = (119 - l mod 64) mod 64
      in bs @ [128] @ replicate z 0 @ map (\<lambda>i. (int l * 8) div 256 ^ i mod 256) [7, 6, 5, 4, 3, 2, 1, 0])"

fun be_words :: "int list \<Rightarrow> 32 word list" where
  "be_words (a # b # c # d # r) =
     (push_bit 24 (of_int a) OR push_bit 16 (of_int b) OR push_bit 8 (of_int c) OR of_int d) # be_words r"
| "be_words _ = []"

text \<open>One more word of the message schedule; the most recent words come first.\<close>

definition sha_extend :: "32 word list \<Rightarrow> 32 word list" where
  "sha_extend ws =
     (let w15 = ws ! 14; w2 = ws ! 1;
          s0 = rotr32 7 w15 XOR rotr32 18 w15 XOR drop_bit 3 w15;
          s1 = rotr32 17 w2 XOR rotr32 19 w2 XOR drop_bit 10 w2
      in (ws ! 15 + s0 + ws ! 6 + s1) # ws)"

definition sha_schedule :: "32 word list \<Rightarrow> 32 word list" where
  "sha_schedule block = rev ((sha_extend ^^ 48) (rev block))"

fun sha_round :: "32 word \<times> 32 word \<Rightarrow> 32 word list \<Rightarrow> 32 word list" where
  "sha_round (k, w) [a, b, c, d, e, f, g, h] =
     (let s1 = rotr32 6 e XOR rotr32 11 e XOR rotr32 25 e;
          ch = (e AND f) XOR (NOT e AND g);
          t1 = h + s1 + ch + k + w;
          s0 = rotr32 2 a XOR rotr32 13 a XOR rotr32 22 a;
          maj = (a AND b) XOR (a AND c) XOR (b AND c)
      in [t1 + s0 + maj, a, b, c, d + t1, e, f, g])"
| "sha_round _ hs = hs"

definition sha_block :: "32 word list \<Rightarrow> 32 word list \<Rightarrow> 32 word list" where
  "sha_block block hs = map2 (+) hs (fold sha_round (zip sha_K (sha_schedule block)) hs)"

function sha_blocks :: "32 word list \<Rightarrow> 32 word list \<Rightarrow> 32 word list" where
  "sha_blocks ws hs = (if length ws < 16 then hs else sha_blocks (drop 16 ws) (sha_block (take 16 ws) hs))"
  by pat_completeness auto

termination
  by (relation "measure (\<lambda>(ws, hs). length ws)") auto

declare sha_blocks.simps [simp del]

definition hex_digit :: "nat \<Rightarrow> char" where
  "hex_digit n = (if n < 10 then char_of (48 + n) else char_of (87 + n))"

definition hex_word :: "32 word \<Rightarrow> string" where
  "hex_word w = map (\<lambda>i. hex_digit (unat (drop_bit (4 * i) w AND 15))) [7, 6, 5, 4, 3, 2, 1, 0]"

definition sha256sum :: "string \<Rightarrow> string" where
  "sha256sum s = concat (map hex_word (sha_blocks (be_words (sha_pad (map of_char s))) sha_H0))"

section \<open>Layers of a component descriptor (\<^verbatim>\<open>img\<close>)\<close>

definition ErrAccessTypeNotSupported :: goerror where
  "ErrAccessTypeNotSupported = Sentinel ''ErrAccessTypeNotSupported'' ''access type not supported''"
definition ErrComponentNameMappingNotSupported :: goerror where
  "ErrComponentNameMappingNotSupported =
     Sentinel ''ErrComponentNameMappingNotSupported'' ''componentNameMapping not supported''"
definition ErrTypeAssert :: goerror where
  "ErrTypeAssert = Sentinel ''ErrTypeAssert'' ''type assertion failed''"

datatype access_type =
  localblob_TypeV1 | localociblob_TypeV1 | localociblob_Type | localblob_Type
| ociartifact_Type | ociartifact_TypeV1 | ociartifact_LegacyTypeV1 | ociartifact_LegacyType
| other_access_type string

datatype access_spec =
  LocalBlobSpec string string   \<comment> \<open>media type and local reference\<close>
| OciArtifactSpec string        \<comment> \<open>image reference\<close>
| OtherSpec

record desc_resource =
  dr_Name :: string
  dr_AccessType :: access_type
  dr_Access :: string   \<comment> \<open>the undecoded access specification\<close>

record Descriptor =
  desc_Name :: string
  desc_Version :: string
  desc_Resources :: "desc_resource list"

datatype name_mapping = OCIRegistryURLPathMapping | OCIRegistryDigestMapping | OtherMapping string

record RepositorySpec =
  repo_Name :: string
  repo_SubPath :: string
  repo_ComponentNameMapping :: name_mapping

text \<open>
  The effective repository context of a descriptor (\<open>None\<close> when it has none) and its conversion
  (\<open>Inr None\<close> when it is not an OCI registry), the access specification of a resource, and two
  constants of the library.
\<close>

record ocm_env =
  oe_repository :: "Descriptor \<Rightarrow> (goerror + RepositorySpec option) option"
  oe_accessSpec :: "desc_resource \<Rightarrow> goerror + access_spec"
  oe_MIME_TAR :: string
  oe_ComponentDescriptorNamespace :: string

type_synonym OCI = ImageSpec

record Layer =
  ly_Name :: string
  ly_Oci :: OCI

definition getOCIRef :: "ocm_env \<Rightarrow> RepositorySpec \<Rightarrow> Descriptor \<Rightarrow> string \<Rightarrow> string \<Rightarrow> goerror + OCI" where
  "getOCIRef oe repo d mediaType localReference =
     (let typ = (if mediaType = oe_MIME_TAR oe then OciDirType else OciRefType);
          ref = (if localReference = [] then desc_Version d else localReference);
          baseURL = (if repo_SubPath repo \<noteq> [] then repo_Name repo @ ''/'' @ repo_SubPath repo
                     else repo_Name repo)
      in case repo_ComponentNameMapping repo of
           OCIRegistryURLPathMapping \<Rightarrow>
             Inr \<lparr>is_Repo = baseURL @ ''/'' @ oe_ComponentDescriptorNamespace oe,
                  is_Name = desc_Name d, is_Ref = ref, is_Type = typ\<rparr>
         | OCIRegistryDigestMapping \<Rightarrow>
             Inr \<lparr>is_Repo = baseURL @ ''/'', is_Name = sha256sum (desc_Name d), is_Ref = ref, is_Type = typ\<rparr>
         | OtherMapping m \<Rightarrow>
             Inl (wrapErr (''error while parsing componentNameMapping '' @ m @ '': '')
                    ErrComponentNameMappingNotSupported))"

text \<open>The name of an access type in the error message is opaque.\<close>

definition access_type_name :: "access_type \<Rightarrow> string" where
  "access_type_name t = (case t of other_access_type n \<Rightarrow> n | _ \<Rightarrow> [])"

fun parseLayersByName ::
  "ocm_env \<Rightarrow> RepositorySpec \<Rightarrow> Descriptor \<Rightarrow> desc_resource list \<Rightarrow> Layer list \<Rightarrow> goerror + Layer list" where
  "parseLayersByName oe repo d [] layers = Inr layers"
| "parseLayersByName oe repo d (r # rs) layers =
     (case oe_accessSpec oe r of
        Inl e \<Rightarrow> Inl (wrapErr ''failed to create spec for acccess: '' e)
      | Inr spec \<Rightarrow>
          if dr_AccessType r \<in> {localblob_TypeV1, localociblob_TypeV1, localociblob_Type, localblob_Type}
          then (case spec of
                  LocalBlobSpec mediaType ref \<Rightarrow>
                    (case getOCIRef oe repo d mediaType ref of
                       Inl e \<Rightarrow> Inl (wrapErr ''building the digest url: '' e)
                     | Inr oci \<Rightarrow>
                         parseLayersByName oe repo d rs (layers @ [\<lparr>ly_Name = dr_Name r, ly_Oci = oci\<rparr>]))
                | _ \<Rightarrow> Inl ErrTypeAssert)
          else if dr_AccessType r
            \<in> {ociartifact_Type, ociartifact_TypeV1, ociartifact_LegacyTypeV1, ociartifact_LegacyType}
          then parseLayersByName oe repo d rs layers
          else Inl (wrapErr (''error while parsing access type '' @ access_type_name (dr_AccessType r) @ '': '')
                      ErrAccessTypeNotSupported))"

definition parseDescriptor :: "ocm_env \<Rightarrow> goerror + RepositorySpec option \<Rightarrow> Descriptor \<Rightarrow> goerror + Layer list" where
  "parseDescriptor oe ctx d =
     (case ctx of
        Inl e \<Rightarrow> Inl (wrapErr ''error while decoding the repository context into an OCI registry: '' e)
      | Inr None \<Rightarrow> Inl ErrTypeAssert
      | Inr (Some repo) \<Rightarrow> parseLayersByName oe repo d (desc_Resources d) [])"

definition img_Parse :: "ocm_env \<Rightarrow> Descriptor \<Rightarrow> goerror + Layer list" where
  "img_Parse oe d =
     (case oe_repository oe d of None \<Rightarrow> Inr [] | Some ctx \<Rightarrow> parseDescriptor oe ctx d)"

definition ConvertToImageSpec :: "string \<Rightarrow> Layer \<Rightarrow> ImageSpec" where
  "ConvertToImageSpec ociRegistry l = (ly_Oci l)\<lparr>is_Repo := ociRegistry\<rparr>"

section \<open>Cached descriptors (\<^verbatim>\<open>provider\<close>)\<close>

definition ErrNameOrVersionEmpty :: goerror where
  "ErrNameOrVersionEmpty = Sentinel ''ErrNameOrVersionEmpty'' ''component name or version is empty''"

type_synonym DescriptorKey = string
type_synonym DescriptorCache = "DescriptorKey \<rightharpoonup> Descriptor"

definition GenerateDescriptorKey :: "ComponentId \<Rightarrow> DescriptorKey" where
  "GenerateDescriptorKey c = fst c @ '':'' @ snd c"

text \<open>\<open>service\<close> is the answer of the descriptor service for the identity.\<close>

definition provider_Add ::
  "(ComponentId \<Rightarrow> goerror + Descriptor) \<Rightarrow> ComponentId \<Rightarrow> DescriptorCache \<Rightarrow> DescriptorCache \<times> goerror option" where
  "provider_Add service c cache =
     (if fst c = [] \<or> snd c = []
      then (cache, Some (wrapErr ''cannot get descriptor for component: '' ErrNameOrVersionEmpty))
      else (case cache (GenerateDescriptorKey c) of
              Some d \<Rightarrow> (cache, None)
            | None \<Rightarrow>
                (case service c of
                   Inl e \<Rightarrow> (cache, Some (wrapErr ''error finding ComponentDescriptor: '' e))
                 | Inr d \<Rightarrow> (cache(GenerateDescriptorKey c \<mapsto> d), None))))"

definition GetDescriptor ::
  "(ComponentId \<Rightarrow> goerror + Descriptor) \<Rightarrow> DescriptorCache \<Rightarrow> ComponentId \<Rightarrow> goerror + Descriptor" where
  "GetDescriptor service cache c =
     (if fst c = [] \<or> snd c = []
      then Inl (wrapErr ''cannot get descriptor for component: '' ErrNameOrVersionEmpty)
      else (case cache (GenerateDescriptorKey c) of
              Some d \<Rightarrow> Inr d
            | None \<Rightarrow>
                (case service c of
                   Inl e \<Rightarrow> Inl (wrapErr ''error finding ComponentDescriptor: '' e)
                 | Inr d \<Rightarrow> Inr d)))"

definition GetDescriptorWithIdentity ::
  "(ComponentId \<Rightarrow> goerror + Descriptor) \<Rightarrow> DescriptorCache \<Rightarrow> ModuleTemplateInfo \<Rightarrow> goerror + Descriptor" where
  "GetDescriptorWithIdentity service cache info =
     (case GetOCMIdentity info of
        Inl e \<Rightarrow> Inl (wrapErr ''failed to get component identity from provider: '' e)
      | Inr c \<Rightarrow> GetDescriptor service cache c)"

section \<open>Modules (\<^verbatim>\<open>pkg/module/common\<close>)\<close>

record KModule =
  km_ModuleName :: string
  km_OCMComponentName :: string
  km_TemplateInfo :: "ModuleTemplateInfo option"
  km_Manifest :: "Manifest option"
  km_Enabled :: bool
  km_IsUnmanaged :: bool

text \<open>The labels and annotations of a Manifest, given the template that is not nil.\<close>

definition default_labels :: "Kyma \<Rightarrow> KModule \<Rightarrow> ModuleTemplateInfo \<Rightarrow> ModuleTemplate \<Rightarrow> labels \<Rightarrow> labels" where
  "default_labels k m info t lbls =
     (let l1 = lbls(KymaNameLabel \<mapsto> om_Name (kyma_Meta k));
          l2 = (if \<not> mt_HasLabels t then l1
                else l1(ControllerNameLabel \<mapsto> label_get (om_Labels (mt_Meta t)) ControllerNameLabel));
          l3 = l2(ModuleNameLabel \<mapsto> km_ModuleName m);
          l4 = (if \<not> MT_IsMandatory t then l3(ChannelLabel \<mapsto> mti_DesiredChannel info) else l3);
          l5 = l4(ManagedBy \<mapsto> OperatorName)
      in if mt_Mandatory t then l5(MandatoryLabel \<mapsto> EnableLabelValue) else l5)"

definition default_annotations :: "KModule \<Rightarrow> labels \<Rightarrow> labels" where
  "default_annotations m anns =
     (let a = anns(FQDNAnnotation \<mapsto> km_OCMComponentName m,
                   OCMComponentNameAnnotation \<mapsto> km_OCMComponentName m)
      in if km_IsUnmanaged m then a(UnmanagedAnnotation \<mapsto> EnableLabelValue) else a)"

definition ApplyDefaultMetaToManifest ::
  "Kyma \<Rightarrow> KModule \<Rightarrow> ModuleTemplateInfo \<Rightarrow> ModuleTemplate \<Rightarrow> Manifest \<Rightarrow> Manifest" where
  "ApplyDefaultMetaToManifest k m info t man =
     man\<lparr>man_Meta := (man_Meta man)
        \<lparr>om_Labels := default_labels k m info t (man_labels man),
         om_Annotations := default_annotations m (om_Annotations (man_Meta man))\<rparr>\<rparr>"

section \<open>The parser\<close>

record parser_env =
  pe_ocm :: ocm_env
  pe_service :: "ComponentId \<Rightarrow> goerror + Descriptor"
  pe_cache :: DescriptorCache
  pe_remoteSyncNamespace :: string
  pe_ociRegistry :: string

definition empty_manifest :: Manifest where
  "empty_manifest =
     \<lparr>man_GVK = \<lparr>gvk_Group = [], gvk_Version = [], gvk_Kind = []\<rparr>,
      man_Meta = \<lparr>om_Name = [], om_Namespace = [], om_Labels = Map.empty, om_Annotations = Map.empty,
        om_Finalizers = [], om_DeletionTimestamp = None, om_Generation = 0, om_OwnerReferences = [], om_ManagedFields = []\<rparr>,
      man_Spec = \<lparr>msp_CustomResourcePolicy = OtherPolicy [], msp_Remote = False, msp_Version = [],
        msp_Config = None, msp_Install = \<lparr>ii_Source = None, ii_Name = []\<rparr>, msp_Resource = None,
        msp_LocalizedImages = [], msp_Manager = None\<rparr>,
      man_Status = \<lparr>st_LastOperation = \<lparr>lo_Operation = [], lo_LastUpdateTime = 0\<rparr>,
        st_State = StateEmpty, st_Conditions = [], st_Synced = []\<rparr>\<rparr>"

definition update_spec :: "(ManifestSpec \<Rightarrow> ManifestSpec) \<Rightarrow> Manifest \<Rightarrow> Manifest" where
  "update_spec f m = m\<lparr>man_Spec := f (man_Spec m)\<rparr>"

text \<open>
  The layers of a descriptor always hold an OCI reference, so the type assertions of the code
  succeed and inserting a layer does not fail.
\<close>

definition insertLayerIntoManifest :: "string \<Rightarrow> Layer \<Rightarrow> Manifest \<Rightarrow> Manifest" where
  "insertLayerIntoManifest ociRegistry l m =
     (if ly_Name l = DefaultCRLayer then m
      else if ly_Name l = ConfigLayer
      then update_spec (\<lambda>s. s\<lparr>msp_Config := Some (ConvertToImageSpec ociRegistry l)\<rparr>) m
      else if ly_Name l = RawManifestLayer
      then update_spec (\<lambda>s. s\<lparr>msp_Install :=
             \<lparr>ii_Source = Some ((ly_Oci l)\<lparr>is_Repo := ociRegistry\<rparr>), ii_Name = ly_Name l\<rparr>\<rparr>) m
      else m)"

definition translateLayersAndMergeIntoManifest :: "string \<Rightarrow> Layer list \<Rightarrow> Manifest \<Rightarrow> Manifest" where
  "translateLayersAndMergeIntoManifest ociRegistry layers m = fold (insertLayerIntoManifest ociRegistry) layers m"

definition getLocalizedImagesFromDescriptor :: "ocm_env \<Rightarrow> Descriptor \<Rightarrow> string list" where
  "getLocalizedImagesFromDescriptor oe d =
     List.map_filter (\<lambda>r. case oe_accessSpec oe r of
         Inr (OciArtifactSpec ref) \<Rightarrow> if dr_AccessType r = ociartifact_Type \<and> ref \<noteq> [] then Some ref else None
       | _ \<Rightarrow> None) (desc_Resources d)"

definition newManifestFromTemplate ::
  "parser_env \<Rightarrow> Module \<Rightarrow> ModuleTemplate \<Rightarrow> Descriptor \<Rightarrow> goerror + Manifest" where
  "newManifestFromTemplate env m t d =
     (let m0 = update_spec (\<lambda>s. s\<lparr>msp_CustomResourcePolicy := mod_CustomResourcePolicy m,
                  msp_Resource := mt_Data t\<rparr>) empty_manifest
      in case img_Parse (pe_ocm env) d of
           Inl e \<Rightarrow> Inl (wrapErr ''could not parse descriptor: '' e)
         | Inr layers \<Rightarrow>
             (let m1 = translateLayersAndMergeIntoManifest (pe_ociRegistry env) layers m0;
                  m2 = update_spec (\<lambda>s. s\<lparr>msp_Version := desc_Version d\<rparr>) m1;
                  images = getLocalizedImagesFromDescriptor (pe_ocm env) d;
                  m3 = (if images \<noteq> [] then update_spec (\<lambda>s. s\<lparr>msp_LocalizedImages := images\<rparr>) m2 else m2)
              in Inr (update_spec (\<lambda>s. s\<lparr>msp_Manager := mt_Manager t\<rparr>) m3)))"

definition setNameAndNamespaceIfEmpty :: "string \<Rightarrow> string \<Rightarrow> ModuleTemplate \<Rightarrow> ModuleTemplate" where
  "setNameAndNamespaceIfEmpty name namespace t =
     (case mt_Data t of
        None \<Rightarrow> t
      | Some d \<Rightarrow>
          (let d1 = (if un_Name d = [] then d\<lparr>un_Name := name\<rparr> else d);
               d2 = (if un_Namespace d1 = [] then d1\<lparr>un_Namespace := namespace\<rparr> else d1)
           in t\<lparr>mt_Data := Some d2\<rparr>))"

definition plain_module :: "ModuleInfo \<Rightarrow> ModuleTemplateInfo option \<Rightarrow> KModule" where
  "plain_module mi info =
     \<lparr>km_ModuleName = mi_Name mi, km_OCMComponentName = [], km_TemplateInfo = info, km_Manifest = None,
      km_Enabled = mi_Enabled mi, km_IsUnmanaged = mi_Unmanaged mi\<rparr>"

text \<open>
  One module with its information. A template that is nil although a descriptor was found would be
  dereferenced; then the entry carries \<open>nilDereference\<close>.
\<close>

definition moduleWithInformation :: "parser_env \<Rightarrow> Kyma \<Rightarrow> ModuleInfo \<Rightarrow> ModuleTemplateInfo \<Rightarrow> KModule" where
  "moduleWithInformation env k mi info =
     (if (\<exists>e \<in> set_option (mti_Err info). \<not> errors_Is e ErrTemplateNotAllowed)
      then plain_module mi (Some info)
      else (case GetDescriptorWithIdentity (pe_service env) (pe_cache env) info of
              Inl e \<Rightarrow> plain_module mi (Some (info\<lparr>mti_Err := Some e\<rparr>))
            | Inr d \<Rightarrow>
                (case mti_Template info of
                   None \<Rightarrow> plain_module mi (Some (info\<lparr>mti_Err := Some nilDereference\<rparr>))
                 | Some t \<Rightarrow>
                     (let name = CreateModuleName (desc_Name d) (om_Name (kyma_Meta k)) (mi_Name mi);
                          t' = setNameAndNamespaceIfEmpty name (pe_remoteSyncNamespace env) t;
                          info' = info\<lparr>mti_Template := Some t'\<rparr>
                      in case newManifestFromTemplate env (mi_Module mi) t' d of
                           Inl e \<Rightarrow> plain_module mi (Some (info'\<lparr>mti_Err := Some e\<rparr>))
                         | Inr man \<Rightarrow>
                             (plain_module mi (Some info'))
                               \<lparr>km_OCMComponentName := desc_Name d,
                                km_Manifest := Some (man\<lparr>man_Meta := (man_Meta man)
                                  \<lparr>om_Name := name, om_Namespace := om_Namespace (kyma_Meta k)\<rparr>\<rparr>)\<rparr>))))"

definition GenerateModulesFromTemplates ::
  "parser_env \<Rightarrow> Kyma \<Rightarrow> (string \<rightharpoonup> ModuleTemplateInfo) \<Rightarrow> KModule list" where
  "GenerateModulesFromTemplates env k templates =
     map (\<lambda>mi. case templates (mi_Name mi) of
           None \<Rightarrow> plain_module mi (Some (empty_info\<lparr>mti_Err := Some nilDereference\<rparr>))
         | Some info \<Rightarrow> moduleWithInformation env k mi info) (FetchModuleInfo k)"

section \<open>Properties\<close>

text \<open>
  Errors that come from outside do not carry the sentinel of this package that marks a template as
  not allowed.
\<close>

definition foreign :: "goerror \<Rightarrow> bool" where
  "foreign e \<longleftrightarrow> \<not> errors_Is e ErrTemplateNotAllowed"

definition lookup_env_foreign :: "lookup_env \<Rightarrow> bool" where
  "lookup_env_foreign env \<longleftrightarrow>
     (\<forall>n ns e. le_getMRM env n ns = Inl e \<longrightarrow> foreign e)
     \<and> (\<forall>n ns e. le_getTemplate env n ns = Inl e \<longrightarrow> foreign e)"

definition parser_env_foreign :: "parser_env \<Rightarrow> bool" where
  "parser_env_foreign env \<longleftrightarrow>
     (\<forall>c e. pe_service env c = Inl e \<longrightarrow> foreign e)
     \<and> (\<forall>d e. oe_repository (pe_ocm env) d = Some (Inl e) \<longrightarrow> foreign e)
     \<and> (\<forall>r e. oe_accessSpec (pe_ocm env) r = Inl e \<longrightarrow> foreign e)"

lemma foreign_wrap [simp]:
  "foreign (wrapErr pre e) = foreign e" "foreign (wrapPost e post) = foreign e"
  by (simp_all add: foreign_def ErrTemplateNotAllowed_def)

lemma foreign_sentinels [simp]:
  "foreign ErrInvalidModuleInSpec" "foreign ErrInvalidModuleInStatus" "foreign ErrNoModuleReleaseMeta"
  "foreign ErrMandatoryModuleCannotBeEnabled" "foreign ErrModuleReleaseMetaRequired"
  "foreign ErrNoMandatoryFound" "foreign ErrNoChannelsFound" "foreign ErrChannelNotFound"
  "foreign ErrValueNotProvided" "foreign ErrWaitingForNextMaintenanceWindow" "foreign nilDereference"
  "foreign ErrTypeAssert" "foreign ErrAccessTypeNotSupported" "foreign ErrComponentNameMappingNotSupported"
  "foreign ErrNameOrVersionEmpty" "foreign ErrNoIdentity"
  by (simp_all add: foreign_def ErrTemplateNotAllowed_def ErrInvalidModuleInSpec_def
      ErrInvalidModuleInStatus_def ErrNoModuleReleaseMeta_def ErrMandatoryModuleCannotBeEnabled_def
      ErrModuleReleaseMetaRequired_def ErrNoMandatoryFound_def ErrNoChannelsFound_def
      ErrChannelNotFound_def ErrValueNotProvided_def ErrWaitingForNextMaintenanceWindow_def
      nilDereference_def ErrTypeAssert_def ErrAccessTypeNotSupported_def
      ErrComponentNameMappingNotSupported_def ErrNameOrVersionEmpty_def ErrNoIdentity_def)

lemma foreign_window [simp]:
  "foreign (Errorf [Wrap ErrFailedToDetermineIfMaintenanceWindowIsActive, Lit s, Wrap e]) = foreign e"
  by (simp add: foreign_def ErrFailedToDetermineIfMaintenanceWindowIsActive_def ErrTemplateNotAllowed_def)

lemma Lookup_foreign:
  assumes "lookup_env_foreign env" and "mti_Err (Lookup env mi k mrm) = Some e"
  shows "foreign e"
  using assms
  by (auto simp: Lookup_def Let_def lookup_env_foreign_def GetMandatoryVersionForModule_def
      GetChannelVersionForModule_def NewComponentId_def getTemplateByVersion_def empty_info_def
      split: option.splits sum.splits if_splits)

lemma windowed_foreign:
  assumes "lookup_env_foreign env" and "\<forall>e. act k = Inl e \<longrightarrow> foreign e"
    and "mti_Err (WithMaintenanceWindow_Lookup req act (Lookup env) mi k mrm) = Some e"
  shows "foreign e"
  using assms Lookup_foreign [OF assms(1)]
  by (auto simp: WithMaintenanceWindow_Lookup_def Let_def split: option.splits sum.splits if_splits)

lemma Validate_not_allowed:
  assumes "\<And>e. mti_Err i = Some e \<Longrightarrow> foreign e"
    and "mti_Err (ValidateTemplateMode env i k mrm) = Some e" and "\<not> foreign e"
  shows "mti_Template i \<noteq> None"
proof
  assume "mti_Template i = None"
  then show False
    using assms by (cases "mti_Err i") (auto simp: ValidateTemplateMode_def validateTemplateMode_def)
qed

lemma skew_checks_template:
  "mti_Template (skew_checks env n v mss i) = mti_Template i"
proof (induction mss arbitrary: i)
  case (Cons ms mss)
  have "mti_Template (markInvalidSkewUpdate env j ms v) = mti_Template j" for j
    by (auto simp: markInvalidSkewUpdate_def split: option.splits bool.splits)
  then show ?case using Cons by (simp add: skew_checks_Cons)
qed (simp add: skew_checks_Cons)

text \<open>An entry that is marked as not allowed carries a template.\<close>

lemma regular_template_not_allowed:
  assumes env: "lookup_env_foreign env" and act: "\<forall>e. act k = Inl e \<longrightarrow> foreign e"
    and mi: "mi \<in> set (FetchModuleInfo k)"
    and err: "mti_Err (regular_template env (WithMaintenanceWindow_Lookup req act (Lookup env)) k mi) = Some e"
    and "\<not> foreign e"
  shows "mti_Template (regular_template env (WithMaintenanceWindow_Lookup req act (Lookup env)) k mi) \<noteq> None"
proof -
  let ?l = "WithMaintenanceWindow_Lookup req act (Lookup env)"
  have vf: "foreign v" if "mi_ValidationError mi = Some v" for v
    using mi that by (auto simp: FetchModuleInfo_def spec_module_info_def status_module_info_def
        determineModuleValidity_def split: if_splits option.splits)
  have v: "mi_ValidationError mi = None"
    using vf err assms(5) by (cases "mi_ValidationError mi") (auto simp: regular_template_def)
  have "\<exists>mrm. le_getMRM env (mi_Name mi) (om_Namespace (kyma_Meta k)) = Inr mrm
      \<and> \<not> (mi_Enabled mi \<and> MRM_IsMandatory mrm)"
    using err v env assms(5)
    by (auto simp: regular_template_def GetModuleReleaseMeta_def lookup_env_foreign_def empty_info_def
        split: sum.splits option.splits if_splits)
  then obtain mrm where mrm: "le_getMRM env (mi_Name mi) (om_Namespace (kyma_Meta k)) = Inr mrm"
    "\<not> (mi_Enabled mi \<and> MRM_IsMandatory mrm)" by blast
  let ?i = "ValidateTemplateMode env (?l mi k (Some mrm)) k (Some mrm)"
  show ?thesis
  proof (cases "mti_Err ?i")
    case (Some e')
    then have "e' = e" "regular_template env ?l k mi = ?i"
      using err v mrm by (auto simp: regular_template_def GetModuleReleaseMeta_def Let_def)
    then show ?thesis
      using Validate_not_allowed [of "?l mi k (Some mrm)" env k "Some mrm" e] Some assms(5)
        windowed_foreign [of env act k, OF env act]
      by (simp add: ValidateTemplateMode_template)
  next
    case None
    then have "mti_Err (?l mi k (Some mrm)) = None"
      by (auto simp: ValidateTemplateMode_def split: if_splits)
    then have "mti_Template ?i \<noteq> None"
      unfolding ValidateTemplateMode_template by (rule windowed.template_or_error)
    then show ?thesis
      using v mrm None
      by (auto simp: regular_template_def GetModuleReleaseMeta_def Let_def skew_checks_template
          split: option.splits sum.splits)
  qed
qed

lemma parseLayers_foreign:
  assumes "\<forall>r e. oe_accessSpec oe r = Inl e \<longrightarrow> foreign e"
    and "parseLayersByName oe repo d rs layers = Inl e"
  shows "foreign e"
  using assms
proof (induction oe repo d rs layers rule: parseLayersByName.induct)
  case (2 oe repo d r rs layers)
  then show ?case
    by (auto simp: getOCIRef_def Let_def split: sum.splits if_splits access_spec.splits name_mapping.splits)
qed simp


lemma newManifest_foreign:
  assumes "parser_env_foreign env" and "newManifestFromTemplate env m t d = Inl e"
  shows "foreign e"
proof -
  obtain e' where e': "img_Parse (pe_ocm env) d = Inl e'" "e = wrapErr ''could not parse descriptor: '' e'"
    using assms(2) by (auto simp: newManifestFromTemplate_def Let_def split: sum.splits)
  then have "foreign e'"
    using assms(1) parseLayers_foreign [of "pe_ocm env"]
    by (auto simp: img_Parse_def parseDescriptor_def parser_env_foreign_def split: option.splits sum.splits)
  then show ?thesis using e' by simp
qed

lemma GetDescriptor_foreign:
  assumes "parser_env_foreign env"
    and "GetDescriptorWithIdentity (pe_service env) (pe_cache env) info = Inl e"
  shows "foreign e" and "e \<noteq> nilDereference"
  using assms
  by (auto simp: GetDescriptorWithIdentity_def GetOCMIdentity_def GetDescriptor_def parser_env_foreign_def
      nilDereference_def split: option.splits sum.splits if_splits)

text \<open>What the parser guarantees for an entry whose template, if needed, is there.\<close>

definition module_ok :: "Kyma \<Rightarrow> KModule \<Rightarrow> bool" where
  "module_ok k m \<longleftrightarrow>
     (\<exists>info. km_TemplateInfo m = Some info \<and> mti_Err info \<noteq> Some nilDereference
        \<and> ((\<forall>e. mti_Err info = Some e \<longrightarrow> errors_Is e ErrTemplateNotAllowed) \<longrightarrow>
             mti_Template info \<noteq> None
             \<and> (\<exists>man. km_Manifest m = Some man \<and> length (man_Name man) \<le> 62
                  \<and> om_Namespace (man_Meta man) = om_Namespace (kyma_Meta k))))"

lemma moduleWithInformation_ok:
  assumes env: "parser_env_foreign env" and nil: "mti_Err info \<noteq> Some nilDereference"
    and t: "(\<forall>e. mti_Err info = Some e \<longrightarrow> \<not> foreign e) \<Longrightarrow> mti_Template info \<noteq> None"
  shows "module_ok k (moduleWithInformation env k mi info)"
proof (cases "\<exists>e. mti_Err info = Some e \<and> foreign e")
  case True
  then obtain e where e: "mti_Err info = Some e" "foreign e" by blast
  then have "moduleWithInformation env k mi info = plain_module mi (Some info)"
    by (simp add: moduleWithInformation_def foreign_def)
  then show ?thesis using e nil by (auto simp: module_ok_def plain_module_def foreign_def)
next
  case False
  then obtain t0 where t0: "mti_Template info = Some t0" using t by blast
  show ?thesis
  proof (cases "GetDescriptorWithIdentity (pe_service env) (pe_cache env) info")
    case (Inl e)
    then have "moduleWithInformation env k mi info = plain_module mi (Some (info\<lparr>mti_Err := Some e\<rparr>))"
      using False by (auto simp: moduleWithInformation_def foreign_def)
    then show ?thesis
      using GetDescriptor_foreign [OF env Inl] by (simp add: module_ok_def plain_module_def foreign_def)
  next
    case (Inr d)
    let ?name = "CreateModuleName (desc_Name d) (om_Name (kyma_Meta k)) (mi_Name mi)"
    let ?t = "setNameAndNamespaceIfEmpty ?name (pe_remoteSyncNamespace env) t0"
    show ?thesis
    proof (cases "newManifestFromTemplate env (mi_Module mi) ?t d")
      case (Inl e)
      then have "foreign e" "e \<noteq> nilDereference"
        using newManifest_foreign [OF env Inl]
        by (auto simp: newManifestFromTemplate_def Let_def nilDereference_def split: sum.splits)
      moreover have "moduleWithInformation env k mi info =
          plain_module mi (Some (info\<lparr>mti_Template := Some ?t, mti_Err := Some e\<rparr>))"
        using False Inr t0 Inl by (auto simp: moduleWithInformation_def foreign_def Let_def)
      ultimately show ?thesis by (simp add: module_ok_def plain_module_def foreign_def)
    next
      case man: (Inr man)
      have "moduleWithInformation env k mi info =
          (plain_module mi (Some (info\<lparr>mti_Template := Some ?t\<rparr>)))
            \<lparr>km_OCMComponentName := desc_Name d,
             km_Manifest := Some (man\<lparr>man_Meta := (man_Meta man)
               \<lparr>om_Name := ?name, om_Namespace := om_Namespace (kyma_Meta k)\<rparr>\<rparr>)\<rparr>"
        using False Inr t0 man by (auto simp: moduleWithInformation_def foreign_def Let_def)
      then show ?thesis
        using nil CreateModuleName_length by (simp add: module_ok_def plain_module_def)
    qed
  qed
qed

text \<open>C26. From templates to modules without a nil pointer: for the templates that the lookup chose, every
  module the parser builds carries its template information; unless the module is in an error
  other than "not allowed", it also carries a template and a Manifest, with a bounded name in the
  namespace of the Kyma, so that the runner may update or delete it.\<close>

theorem GenerateModules_ok:
  assumes "semver_ok lenv" and "lookup_env_foreign lenv" and "parser_env_foreign env"
    and "\<forall>e. act k = Inl e \<longrightarrow> foreign e"
  shows "\<forall>m \<in> set (GenerateModulesFromTemplates env k
      (GetRegularTemplates lenv (WithMaintenanceWindow_Lookup req act (Lookup lenv)) k)). module_ok k m"
proof
  let ?l = "WithMaintenanceWindow_Lookup req act (Lookup lenv)"
  fix m assume "m \<in> set (GenerateModulesFromTemplates env k (GetRegularTemplates lenv ?l k))"
  then obtain mi where mi: "mi \<in> set (FetchModuleInfo k)"
    "m = (case GetRegularTemplates lenv ?l k (mi_Name mi) of
           None \<Rightarrow> plain_module mi (Some (empty_info\<lparr>mti_Err := Some nilDereference\<rparr>))
         | Some info \<Rightarrow> moduleWithInformation env k mi info)"
    by (auto simp: GenerateModulesFromTemplates_def)
  obtain info where info: "GetRegularTemplates lenv ?l k (mi_Name mi) = Some info"
    using mi(1) find_None_keys [of mi_Name "mi_Name mi" "FetchModuleInfo k"]
    by (cases "find (\<lambda>x. mi_Name x = mi_Name mi) (FetchModuleInfo k)")
      (auto simp: GetRegularTemplates_find)
  then obtain mi' where mi': "mi' \<in> set (FetchModuleInfo k)" "info = regular_template lenv ?l k mi'"
    by (rule GetRegularTemplates_Some)
  have nil: "mti_Err info \<noteq> Some nilDereference"
    using windowed.regular_template_no_nil [OF assms(1) FetchModuleInfo_valid_error [OF mi'(1)]] mi'(2)
    by blast
  have "mti_Template info \<noteq> None" if *: "\<forall>e. mti_Err info = Some e \<longrightarrow> \<not> foreign e"
  proof (cases "mti_Err info")
    case None
    have err: "mti_Err (regular_template lenv ?l k mi') = None" using None mi'(2) by simp
    show ?thesis
      using windowed.regular_template_admitted [OF assms(1) err] mi'(2) by auto
  next
    case (Some e)
    have err: "mti_Err (regular_template lenv ?l k mi') = Some e" using Some mi'(2) by simp
    have "\<not> foreign e" using * Some by blast
    from regular_template_not_allowed [of lenv act k, OF assms(2,4) mi'(1) err this] show ?thesis using mi'(2) by simp
  qed
  then show "module_ok k m"
    using moduleWithInformation_ok [OF assms(3) nil] mi(2) info by simp
qed

definition ex_descriptor :: Descriptor where
  "ex_descriptor = \<lparr>desc_Name = ''kyma-project.io/istio'', desc_Version = ''1.10.0'',
     desc_Resources = [\<lparr>dr_Name = ''raw-manifest'', dr_AccessType = localblob_Type, dr_Access = []\<rparr>]\<rparr>"

definition ex_ocm :: ocm_env where
  "ex_ocm = \<lparr>oe_repository = (\<lambda>d. Some (Inr (Some \<lparr>repo_Name = ''registry.io'', repo_SubPath = ''kyma'',
       repo_ComponentNameMapping = OCIRegistryURLPathMapping\<rparr>))),
     oe_accessSpec = (\<lambda>r. Inr (LocalBlobSpec ''application/x-tar'' ''sha256:abc'')),
     oe_MIME_TAR = ''application/x-tar'', oe_ComponentDescriptorNamespace = ''component-descriptors''\<rparr>"

definition ex_parser :: parser_env where
  "ex_parser = \<lparr>pe_ocm = ex_ocm, pe_service = (\<lambda>c. Inr ex_descriptor), pe_cache = Map.empty,
     pe_remoteSyncNamespace = ''kyma-system'', pe_ociRegistry = ''mirror.io''\<rparr>"

lemma ex_env_foreign: "lookup_env_foreign ex_env" "parser_env_foreign ex_parser"
  by (simp_all add: lookup_env_foreign_def parser_env_foreign_def ex_env_def ref_env_def ex_parser_def ex_ocm_def)

definition ex_modules :: "KModule list" where
  "ex_modules = GenerateModulesFromTemplates ex_parser ex_kyma (GetRegularTemplates ex_env ex_lookup ex_kyma)"

theorem GenerateModules_ok_witness: "length ex_modules = 1 \<and> module_ok ex_kyma (hd ex_modules)"
proof -
  have len: "length ex_modules = 1"
    by (simp add: ex_modules_def GenerateModulesFromTemplates_def FetchModuleInfo_def ex_kyma_def ex_status_def
        ex_module_def)
  have "IsActive (saturday 75600) (saturday 75600) (Some example_policy) hour ex_kyma = Inr True" by code_simp
  then have "\<forall>e. IsActive (saturday 75600) (saturday 75600) (Some example_policy) hour ex_kyma = Inl e \<longrightarrow> foreign e"
    by simp
  from GenerateModules_ok [OF ex_env_ok ex_env_foreign, of "IsActive (saturday 75600) (saturday 75600)
      (Some example_policy) hour", OF this]
  have "\<forall>m \<in> set ex_modules. module_ok ex_kyma m" unfolding ex_modules_def ex_lookup_def by blast
  moreover have "hd ex_modules \<in> set ex_modules" using len by (intro hd_in_set) auto
  ultimately show ?thesis using len by blast
qed

end
