(* ===== verification/ModuleSync.thy ===== *)
theory ModuleSync
  imports ModuleParser "HOL-Library.Multiset"
begin

text \<open>
  Bringing the Manifests of a Kyma in line with its modules (\<^verbatim>\<open>pkg/module/sync/runner.go\<close>).
  One goroutine per module updates, applies or deletes the module's Manifest; the answers of the
  API server are the record \<open>sync_env\<close>, and what is written is a list of \<open>sync_op\<close>s. The
  goroutines touch only their own module, so a run is described by the order in which they finish:
  the operations and the errors are collected in this order.
\<close>

section \<open>State and environment\<close>

datatype sync_op =
  ApplyManifest Manifest
| UpdateManifest Manifest
| DeleteManifest Manifest

text \<open>
  \<open>se_convert\<close> is \<^verbatim>\<open>ConvertToVersion\<close> of the scheme (\<open>Inr None\<close> when the result is
  not a Manifest). A write that succeeds returns the object as the server stored it.
\<close>

record sync_env =
  se_convert :: "Manifest \<Rightarrow> goerror + Manifest option"
  se_get :: "string \<Rightarrow> string \<Rightarrow> goerror + Manifest"
  se_patch :: "Manifest \<Rightarrow> goerror + Manifest"
  se_update :: "Manifest \<Rightarrow> goerror + Manifest"
  se_delete :: "Manifest \<Rightarrow> goerror option"
  se_setControllerReference :: "Kyma \<Rightarrow> Manifest \<Rightarrow> goerror + Manifest"

definition ErrManifestSSAFailed :: goerror where
  "ErrManifestSSAFailed = Sentinel ''ErrManifestSSAFailed'' ''server-side apply of manifest failed''"

section \<open>Operations\<close>

definition getManifestStatus :: "Manifest \<Rightarrow> Manifest option \<Rightarrow> Status" where
  "getManifestStatus m inCluster = (case inCluster of Some c \<Rightarrow> man_Status c | None \<Rightarrow> man_Status m)"

definition getManifest :: "sync_env \<Rightarrow> string \<Rightarrow> string \<Rightarrow> goerror + Manifest option" where
  "getManifest env name namespace =
     (case se_get env name namespace of
        Inl e \<Rightarrow> if IsNotFound (Some e) then Inr None
                 else Inl (wrapErr (''error get manifest '' @ namespace @ ''/'' @ name @ '': '') e)
      | Inr m \<Rightarrow> Inr (Some m))"

definition object_key :: "Manifest \<Rightarrow> string" where
  "object_key m = om_Namespace (man_Meta m) @ ''/'' @ man_Name m"

definition patchManifest :: "sync_env \<Rightarrow> Manifest \<Rightarrow> goerror + Manifest" where
  "patchManifest env m =
     (case se_patch env m of
        Inl e \<Rightarrow> Inl (wrapErr (''error applying manifest '' @ object_key m @ '': '') e)
      | Inr m' \<Rightarrow> Inr m')"

definition NeedToUpdate :: "Manifest option \<Rightarrow> Manifest \<Rightarrow> ModuleStatus option \<Rightarrow> KModule \<Rightarrow> ModuleTemplate \<Rightarrow> bool" where
  "NeedToUpdate inCluster new status m t =
     (case inCluster of
        None \<Rightarrow> \<not> km_IsUnmanaged m
      | Some c \<Rightarrow>
          if IsUnmanaged c then \<not> km_IsUnmanaged m
          else if km_IsUnmanaged m then True
          else
            (let diffInSpec = (msp_Version (man_Spec new) \<noteq> msp_Version (man_Spec c) \<or> \<not> IsSameChannel new c)
             in case status of
                  None \<Rightarrow> diffInSpec
                | Some s \<Rightarrow>
                    if IsMandatoryModule c then diffInSpec
                    else (case ms_Template s of None \<Rightarrow> False | Some r \<Rightarrow> to_Generation r \<noteq> om_Generation (mt_Meta t))
                         \<or> diffInSpec))"

text \<open>
  The new Manifest and the one in the cluster after the write, with the operations that reached the
  server. For a disabled module only the spec of an existing Manifest is updated, and not finding
  it is no error.
\<close>

definition doUpdateWithStrategy ::
  "sync_env \<Rightarrow> KModule \<Rightarrow> ModuleTemplate \<Rightarrow> Manifest option \<Rightarrow> Manifest \<Rightarrow> ModuleStatus option
     \<Rightarrow> sync_op list \<times> (goerror + Manifest \<times> Manifest option)" where
  "doUpdateWithStrategy env m t inCluster new status =
     (if \<not> NeedToUpdate inCluster new status m t then ([], Inr (new, inCluster))
      else if km_Enabled m
      then (case patchManifest env new of
              Inl e \<Rightarrow> ([], Inl e)
            | Inr new' \<Rightarrow> ([ApplyManifest new], Inr (new', inCluster)))
      else (case inCluster of
              None \<Rightarrow> ([], Inr (new, None))
            | Some c \<Rightarrow>
                (let c1 = c\<lparr>man_Spec := man_Spec new\<rparr> in
                 case se_update env c1 of
                   Inr c2 \<Rightarrow> ([UpdateManifest c1], Inr (new, Some c2))
                 | Inl e \<Rightarrow>
                     (let e' = wrapErr (''error update manifest '' @ object_key new @ '': '') e in
                      if IsNotFound (Some e') then ([], Inr (new, Some c1)) else ([], Inl e')))))"

definition setupModule ::
  "sync_env \<Rightarrow> Kyma \<Rightarrow> KModule \<Rightarrow> ModuleTemplateInfo \<Rightarrow> ModuleTemplate \<Rightarrow> Manifest \<Rightarrow> goerror + Manifest" where
  "setupModule env k m info t man =
     (let man1 = ApplyDefaultMetaToManifest k m info t man in
      if om_OwnerReferences (man_Meta man1) = []
      then (case se_setControllerReference env k man1 of
              Inl e \<Rightarrow> Inl (wrapErr (''error setting owner reference on component CR of type: '' @ man_Name man1
                         @ '' for resource '' @ om_Name (kyma_Meta k) @ '' '') e)
            | Inr man2 \<Rightarrow> Inr man2)
      else Inr man1)"

definition updateManifest ::
  "sync_env \<Rightarrow> Kyma \<Rightarrow> KModule \<Rightarrow> ModuleTemplateInfo \<Rightarrow> sync_op list \<times> (goerror + KModule)" where
  "updateManifest env k m info =
     (case (mti_Template info, km_Manifest m) of
        (Some t, Some man) \<Rightarrow>
          (case setupModule env k m info t man of
             Inl e \<Rightarrow> ([], Inl e)
           | Inr man1 \<Rightarrow>
               (case se_convert env man1 of
                  Inl e \<Rightarrow> ([], Inl (wrapErr ''failed to convert object to version: '' e))
                | Inr None \<Rightarrow> ([], Inl ErrTypeAssert)
                | Inr (Some new) \<Rightarrow>
                    (case getManifest env (man_Name new) (om_Namespace (man_Meta new)) of
                       Inl e \<Rightarrow> ([], Inl e)
                     | Inr inCluster \<Rightarrow>
                         (case doUpdateWithStrategy env m t inCluster new (GetModuleStatusMap k (km_ModuleName m)) of
                            (ops, Inl e) \<Rightarrow> (ops, Inl e)
                          | (ops, Inr (new', inCluster')) \<Rightarrow>
                              (ops, Inr (m\<lparr>km_Manifest :=
                                 Some (new'\<lparr>man_Status := getManifestStatus new' inCluster'\<rparr>)\<rparr>))))))
      | _ \<Rightarrow> ([], Inl nilDereference))"

text \<open>
  Deleting a Manifest wraps the answer of the server whatever it is: \<^verbatim>\<open>fmt.Errorf\<close> with a nil
  error is an error whose text shows the nil.
\<close>

definition deleteManifest :: "sync_env \<Rightarrow> KModule \<Rightarrow> sync_op list \<times> goerror option" where
  "deleteManifest env m =
     (case km_Manifest m of
        None \<Rightarrow> ([], Some nilDereference)
      | Some man \<Rightarrow>
          (case se_delete env man of
             Some e \<Rightarrow> if IsNotFound (Some e) then ([], None)
                       else ([], Some (wrapErr ''failed to delete manifest: '' e))
           | None \<Rightarrow> ([DeleteManifest man],
                       Some (Errorf [Lit ''failed to delete manifest: '', Lit ''%!w(<nil>)'']))))"

text \<open>The goroutine of one module: the module afterwards, what was written, and the error.\<close>

definition reconcile_module :: "sync_env \<Rightarrow> Kyma \<Rightarrow> KModule \<Rightarrow> KModule \<times> sync_op list \<times> goerror option" where
  "reconcile_module env k m =
     (case km_TemplateInfo m of
        None \<Rightarrow> (m, [], None)
      | Some info \<Rightarrow>
          (case mti_Err info of
             Some e \<Rightarrow>
               if errors_Is e ErrTemplateNotAllowed
               then (case deleteManifest env m of (ops, r) \<Rightarrow> (m, ops, r))
               else (m, [], None)
           | None \<Rightarrow>
               (case updateManifest env k m info of
                  (ops, Inl e) \<Rightarrow>
                    (m, ops, Some (wrapErr (''could not update module ''
                        @ (case km_Manifest m of None \<Rightarrow> [] | Some man \<Rightarrow> man_Name man) @ '': '') e))
                | (ops, Inr m') \<Rightarrow> (m', ops, None))))"

text \<open>
  All modules; \<open>order\<close> lists the indices of the modules as their goroutines finish.
\<close>

definition ReconcileManifests ::
  "sync_env \<Rightarrow> Kyma \<Rightarrow> nat list \<Rightarrow> KModule list \<Rightarrow> KModule list \<times> sync_op list \<times> goerror option" where
  "ReconcileManifests env k order modules =
     (let runs = map (reconcile_module env k) modules;
          ops = concat (map (\<lambda>i. fst (snd (runs ! i))) order);
          errs = concat (map (\<lambda>i. case snd (snd (runs ! i)) of None \<Rightarrow> [] | Some e \<Rightarrow> [e]) order)
      in (map fst runs, ops,
          if errs = [] then None
          else Some (errors_JoinAll (errs @ [wrapPost ErrManifestSSAFailed ('' for Kyma '' @ om_Name (kyma_Meta k))]))))"

definition is_completion_order :: "nat list \<Rightarrow> 'a list \<Rightarrow> bool" where
  "is_completion_order order xs \<longleftrightarrow> distinct order \<and> set order = {..<length xs}"

section \<open>Facts\<close>

text \<open>
  What the scheme and the controller library document: a conversion keeps metadata, spec and
  status, and setting the controller reference changes the owner references only.
\<close>

definition sync_lib_ok :: "sync_env \<Rightarrow> bool" where
  "sync_lib_ok env \<longleftrightarrow>
     (\<forall>m r. se_convert env m = Inr (Some r) \<longrightarrow>
        man_Meta r = man_Meta m \<and> man_Spec r = man_Spec m \<and> man_Status r = man_Status m)
     \<and> (\<forall>k m r. se_setControllerReference env k m = Inr r \<longrightarrow>
        (\<exists>refs. r = m\<lparr>man_Meta := (man_Meta m)\<lparr>om_OwnerReferences := refs\<rparr>\<rparr>))"

lemma completion_order_mset:
  "is_completion_order order xs \<Longrightarrow> mset order = mset [0..<length xs]"
  using set_eq_iff_mset_eq_distinct [of order "[0..<length xs]"]
  by (simp add: is_completion_order_def atLeast0LessThan)

lemma mset_concat_order:
  assumes "mset o1 = mset o2"
  shows "mset (concat (map f o1)) = mset (concat (map f o2))"
proof -
  have "mset (concat (map f xs)) = sum_mset (image_mset (\<lambda>i. mset (f i)) (mset xs))" for xs
    by (induction xs) simp_all
  then show ?thesis by (simp add: assms)
qed

lemma concat_errs_Nil:
  "concat (map (\<lambda>i. case g i of None \<Rightarrow> [] | Some e \<Rightarrow> [e]) order) = [] \<longleftrightarrow> (\<forall>i \<in> set order. g i = None)"
  by (auto split: option.splits)

lemma ReconcileManifests_None:
  assumes "is_completion_order order modules"
  shows "snd (snd (ReconcileManifests env k order modules)) = None \<longleftrightarrow>
     (\<forall>m \<in> set modules. snd (snd (reconcile_module env k m)) = None)"
proof -
  let ?g = "\<lambda>i. snd (snd (map (reconcile_module env k) modules ! i))"
  have "snd (snd (ReconcileManifests env k order modules)) = None \<longleftrightarrow> (\<forall>i \<in> set order. ?g i = None)"
    unfolding concat_errs_Nil [symmetric] by (simp add: ReconcileManifests_def Let_def)
  also have "\<dots> \<longleftrightarrow> (\<forall>i < length modules. snd (snd (reconcile_module env k (modules ! i))) = None)"
    using assms by (auto simp: is_completion_order_def)
  also have "\<dots> \<longleftrightarrow> (\<forall>m \<in> set modules. snd (snd (reconcile_module env k m)) = None)"
    by (metis in_set_conv_nth)
  finally show ?thesis .
qed

lemma UN_nth: "(\<Union>i \<in> {..<length xs}. f (xs ! i)) = (\<Union>x \<in> set xs. f x)"
proof -
  have "set xs = (\<lambda>i. xs ! i) ` {..<length xs}" by (auto simp: set_conv_nth)
  then show ?thesis by simp
qed

lemma ReconcileManifests_ops_set:
  assumes "is_completion_order order modules"
  shows "set (fst (snd (ReconcileManifests env k order modules))) =
     (\<Union>m \<in> set modules. set (fst (snd (reconcile_module env k m))))"
proof -
  have "set (fst (snd (ReconcileManifests env k order modules))) =
     (\<Union>i \<in> set order. set (fst (snd (map (reconcile_module env k) modules ! i))))"
    by (simp add: ReconcileManifests_def Let_def)
  also have "\<dots> = (\<Union>i \<in> {..<length modules}. set (fst (snd (reconcile_module env k (modules ! i)))))"
    using assms by (auto simp: is_completion_order_def)
  also have "\<dots> = (\<Union>m \<in> set modules. set (fst (snd (reconcile_module env k m))))"
    by (rule UN_nth)
  finally show ?thesis .
qed

lemma setupModule_labels:
  assumes "sync_lib_ok env" and "setupModule env k m info t man = Inr man'"
  shows "om_Labels (man_Meta man') = default_labels k m info t (man_labels man)"
    and "om_Annotations (man_Meta man') = default_annotations m (om_Annotations (man_Meta man))"
    and "man_Spec man' = man_Spec man" and "man_Name man' = man_Name man"
proof -
  let ?man1 = "ApplyDefaultMetaToManifest k m info t man"
  obtain refs where "man' = ?man1\<lparr>man_Meta := (man_Meta ?man1)\<lparr>om_OwnerReferences := refs\<rparr>\<rparr>"
  proof (cases "om_OwnerReferences (man_Meta ?man1) = []")
    case True
    then have "se_setControllerReference env k ?man1 = Inr man'"
      using assms(2) by (auto simp: setupModule_def Let_def split: sum.splits)
    then show ?thesis using assms(1) that unfolding sync_lib_ok_def by blast
  next
    case False
    then have "man' = ?man1" using assms(2) by (simp add: setupModule_def Let_def)
    then show ?thesis using that [of "om_OwnerReferences (man_Meta ?man1)"] by simp
  qed
  then show "om_Labels (man_Meta man') = default_labels k m info t (man_labels man)"
    "om_Annotations (man_Meta man') = default_annotations m (om_Annotations (man_Meta man))"
    "man_Spec man' = man_Spec man" "man_Name man' = man_Name man"
    by (simp_all add: ApplyDefaultMetaToManifest_def)
qed

lemma doUpdate_ops:
  assumes "doUpdateWithStrategy env m t inCluster new status = (ops, r)" and "op \<in> set ops"
  shows "NeedToUpdate inCluster new status m t \<and>
     (op = ApplyManifest new \<and> km_Enabled m
      \<or> (\<exists>c. inCluster = Some c \<and> op = UpdateManifest (c\<lparr>man_Spec := man_Spec new\<rparr>) \<and> \<not> km_Enabled m))"
  using assms
  by (auto simp: doUpdateWithStrategy_def Let_def split: if_splits sum.splits option.splits)

lemma updateManifest_ops:
  assumes "sync_lib_ok env" and "updateManifest env k m info = (ops, r)" and "op \<in> set ops"
  obtains t man new inCluster where "mti_Template info = Some t" "km_Manifest m = Some man"
    "getManifest env (man_Name new) (om_Namespace (man_Meta new)) = Inr inCluster"
    "NeedToUpdate inCluster new (GetModuleStatusMap k (km_ModuleName m)) m t"
    "man_labels new = default_labels k m info t (man_labels man)"
    "man_Spec new = man_Spec man" "man_Name new = man_Name man"
    "op = ApplyManifest new \<and> km_Enabled m
     \<or> (\<exists>c. inCluster = Some c \<and> op = UpdateManifest (c\<lparr>man_Spec := man_Spec new\<rparr>) \<and> \<not> km_Enabled m)"
proof -
  from assms(2,3) obtain t man where tm: "mti_Template info = Some t" "km_Manifest m = Some man"
    by (auto simp: updateManifest_def split: option.splits)
  from assms(2,3) tm obtain man1 where su: "setupModule env k m info t man = Inr man1"
    by (auto simp: updateManifest_def split: sum.splits)
  from assms(2,3) tm su obtain new where conv: "se_convert env man1 = Inr (Some new)"
    by (auto simp: updateManifest_def split: sum.splits option.splits)
  from assms(2,3) tm su conv obtain inCluster where
    get: "getManifest env (man_Name new) (om_Namespace (man_Meta new)) = Inr inCluster"
    by (auto simp: updateManifest_def split: sum.splits)
  have "\<exists>r'. doUpdateWithStrategy env m t inCluster new (GetModuleStatusMap k (km_ModuleName m)) = (ops, r')"
    using assms(2) tm su conv get by (auto simp: updateManifest_def split: sum.splits prod.splits)
  then have upd: "NeedToUpdate inCluster new (GetModuleStatusMap k (km_ModuleName m)) m t \<and>
     (op = ApplyManifest new \<and> km_Enabled m
      \<or> (\<exists>c. inCluster = Some c \<and> op = UpdateManifest (c\<lparr>man_Spec := man_Spec new\<rparr>) \<and> \<not> km_Enabled m))"
    using doUpdate_ops assms(3) by blast
  have "man_Meta new = man_Meta man1" "man_Spec new = man_Spec man1"
    using assms(1) conv by (auto simp: sync_lib_ok_def)
  then show ?thesis
    using that [OF tm get] upd setupModule_labels [OF assms(1) su] by simp
qed



text \<open>Deleting the Manifest of a module whose template is not allowed any more is reported as a
  failure when it succeeds: the whole run returns an error, although the deletion reached the
  server.\<close>

theorem deleteManifest_success_is_error:
  assumes "km_TemplateInfo m = Some info" and "mti_Err info = Some e" and "errors_Is e ErrTemplateNotAllowed"
    and "km_Manifest m = Some man" and "se_delete env man = None"
  shows "fst (snd (ReconcileManifests env k [0] [m])) = [DeleteManifest man]
    \<and> (\<exists>err. snd (snd (ReconcileManifests env k [0] [m])) = Some err \<and> errors_Is err ErrManifestSSAFailed)"
  using assms
  by (simp add: ReconcileManifests_def reconcile_module_def deleteManifest_def ErrManifestSSAFailed_def
      errors_Is_JoinAll)

text \<open>A mandatory module is applied again in every run: its Manifest has no channel label, two
  Manifests without the label do not count as having the same channel, and so an enabled managed
  mandatory module always needs an update, even when the cluster already has the same version.\<close>

theorem NeedToUpdate_mandatory_always:
  assumes "\<not> km_IsUnmanaged m" and "mt_Mandatory t" and "man_labels man ChannelLabel = None"
    and "man_labels new = default_labels k m info t (man_labels man)"
  shows "NeedToUpdate inCluster new status m t"
proof -
  have "man_labels new ChannelLabel = None"
    using assms(2-4) by (simp add: default_labels_def Let_def MT_IsMandatory_def ChannelLabel_def
        KymaNameLabel_def ControllerNameLabel_def ModuleNameLabel_def ManagedBy_def MandatoryLabel_def)
  then have "\<not> IsSameChannel new c" for c by (simp add: IsSameChannel_iff)
  then show ?thesis using assms(1) by (auto simp: NeedToUpdate_def Let_def split: option.splits)
qed

text \<open>The runner comes to rest: once the cluster has the Manifest that was applied for a module that
  is not mandatory, and the module status records the generation of its template, a further run
  does not write the Manifest again, whether the module is managed or unmanaged.\<close>

theorem NeedToUpdate_quiescent:
  assumes "\<not> mt_Mandatory t" and "\<not> IsMandatoryModule stored"
    and "man_labels new = default_labels k m info t (man_labels man)"
    and "om_Annotations (man_Meta new) = default_annotations m (om_Annotations (man_Meta man))"
    and "om_Annotations (man_Meta man) UnmanagedAnnotation = None"
    and "msp_Version (man_Spec stored) = msp_Version (man_Spec new)"
    and "man_labels stored = man_labels new" and "om_Annotations (man_Meta stored) = om_Annotations (man_Meta new)"
    and "ms_Template status = Some r" and "to_Generation r = om_Generation (mt_Meta t)"
  shows "\<not> NeedToUpdate (Some stored) new (Some status) m t"
proof -
  have "IsSameChannel new stored"
    unfolding IsSameChannel_iff assms(3,7) using assms(1)
    by (simp add: default_labels_def Let_def MT_IsMandatory_def ChannelLabel_def ManagedBy_def OperatorGroup_def)
  moreover have "IsUnmanaged stored \<longleftrightarrow> km_IsUnmanaged m"
    unfolding IsUnmanaged_def assms(4,8) using assms(5)
    by (simp add: default_annotations_def Let_def label_get_def FQDNAnnotation_def EnableLabelValue_def
        OCMComponentNameAnnotation_def UnmanagedAnnotation_def OperatorGroup_def)
  ultimately show ?thesis
    using assms(2,6,9,10) by (simp add: NeedToUpdate_def Let_def)
qed

section \<open>Witnesses\<close>

definition ex_sync :: sync_env where
  "ex_sync = \<lparr>se_convert = (\<lambda>m. Inr (Some m)), se_get = (\<lambda>n ns. Inl notFoundErr), se_patch = Inr,
     se_update = Inr, se_delete = (\<lambda>m. None),
     se_setControllerReference = (\<lambda>k m. Inr (m\<lparr>man_Meta := (man_Meta m)
        \<lparr>om_OwnerReferences := [om_Name (kyma_Meta k)]\<rparr>\<rparr>))\<rparr>"

lemma ex_sync_ok: "sync_lib_ok ex_sync"
  by (auto simp: sync_lib_ok_def ex_sync_def)

definition ex_module_info :: ModuleTemplateInfo where
  "ex_module_info = \<lparr>mti_Template = Some ex_template, mti_Err = None, mti_DesiredChannel = ''regular'',
     mti_ComponentId = Some (''kyma-project.io/istio'', ''1.10.0'')\<rparr>"

definition ex_kmodule :: KModule where
  "ex_kmodule = \<lparr>km_ModuleName = ''istio'', km_OCMComponentName = ''kyma-project.io/istio'',
     km_TemplateInfo = Some ex_module_info, km_Manifest = Some empty_manifest, km_Enabled = True,
     km_IsUnmanaged = False\<rparr>"

definition ex_denied :: KModule where
  "ex_denied = ex_kmodule\<lparr>km_TemplateInfo := Some (ex_module_info\<lparr>mti_Err := Some ErrTemplateNotAllowed\<rparr>)\<rparr>"

lemma ex_sync_run:
  "fst (snd (reconcile_module ex_sync ex_kyma ex_kmodule)) =
     [ApplyManifest ((ApplyDefaultMetaToManifest ex_kyma ex_kmodule ex_module_info ex_template empty_manifest)
        \<lparr>man_Meta := (man_Meta (ApplyDefaultMetaToManifest ex_kyma ex_kmodule ex_module_info ex_template empty_manifest))
          \<lparr>om_OwnerReferences := [om_Name (kyma_Meta ex_kyma)]\<rparr>\<rparr>)]"
  by (simp add: reconcile_module_def ex_kmodule_def ex_module_info_def updateManifest_def setupModule_def
      ex_sync_def ApplyDefaultMetaToManifest_def empty_manifest_def getManifest_def IsNotFound_def
      notFoundErr_def reasonForError_def doUpdateWithStrategy_def NeedToUpdate_def patchManifest_def Let_def)



theorem deleteManifest_success_is_error_witness:
  "fst (snd (ReconcileManifests ex_sync ex_kyma [0] [ex_denied])) = [DeleteManifest empty_manifest]
    \<and> snd (snd (ReconcileManifests ex_sync ex_kyma [0] [ex_denied])) \<noteq> None"
  using deleteManifest_success_is_error [of ex_denied "ex_module_info\<lparr>mti_Err := Some ErrTemplateNotAllowed\<rparr>"
      ErrTemplateNotAllowed empty_manifest ex_sync ex_kyma]
  by (auto simp: ex_denied_def ex_kmodule_def ex_sync_def)

theorem NeedToUpdate_mandatory_always_witness:
  "NeedToUpdate (Some empty_manifest)
     (ApplyDefaultMetaToManifest ex_kyma ex_kmodule ex_module_info (ex_template\<lparr>mt_Mandatory := True\<rparr>) empty_manifest)
     None ex_kmodule (ex_template\<lparr>mt_Mandatory := True\<rparr>)"
  by (rule NeedToUpdate_mandatory_always [of ex_kmodule "ex_template\<lparr>mt_Mandatory := True\<rparr>" empty_manifest _ ex_kyma ex_module_info])
    (simp_all add: ex_kmodule_def ApplyDefaultMetaToManifest_def empty_manifest_def)

theorem NeedToUpdate_quiescent_witness:
  "\<not> NeedToUpdate
      (Some (ApplyDefaultMetaToManifest ex_kyma ex_kmodule ex_module_info ex_template empty_manifest))
      (ApplyDefaultMetaToManifest ex_kyma ex_kmodule ex_module_info ex_template empty_manifest)
      (Some ex_status) ex_kmodule ex_template"
proof (rule NeedToUpdate_quiescent [where k = ex_kyma and info = ex_module_info and man = empty_manifest and r = ex_tracking])
  show "\<not> IsMandatoryModule (ApplyDefaultMetaToManifest ex_kyma ex_kmodule ex_module_info ex_template empty_manifest)"
    by code_simp
qed (simp_all add: ex_template_def ex_status_def ex_tracking_def example_meta_def
    ApplyDefaultMetaToManifest_def empty_manifest_def)

end
