(* ===== verification/StatusHandler.thy ===== *)
theory StatusHandler
  imports ModuleSync
begin

text \<open>
  The module statuses of a Kyma (\<^verbatim>\<open>internal/service/kyma/status/modules\<close>): the generators of
  a status from a module or from an error, and the handler that writes them into
  \<^verbatim>\<open>kyma.Status.Modules\<close>.

  The handler works through pointers into the backing array of that slice while it also appends to
  the slice. The model therefore has the arrays: a slice is an array identifier with a length and a
  capacity, a pointer is an array and an index, and appending beyond the capacity copies into a
  new array. It turns out that a status written through an old pointer after such a copy is lost.
\<close>

section \<open>Generating a status\<close>

definition ErrModuleNeedsTemplateInfo :: goerror where
  "ErrModuleNeedsTemplateInfo = Sentinel ''ErrModuleNeedsTemplateInfo'' ''module needs a template info''"
definition ErrModuleNeedsTemplateErrorOrTemplate :: goerror where
  "ErrModuleNeedsTemplateErrorOrTemplate = Sentinel ''ErrModuleNeedsTemplateErrorOrTemplate''
     ''module needs either a TemplateError or a ModuleTemplate''"
definition ErrModuleNeedsManifest :: goerror where
  "ErrModuleNeedsManifest =
     Sentinel ''ErrModuleNeedsManifest'' ''module needs either manifest or template error''"
definition ErrNoTemplatesInListResult :: goerror where
  "ErrNoTemplatesInListResult = Sentinel ''ErrNoTemplatesInListResult'' ''no templates were found''"

definition errorIsWaitingForMaintenanceWindow :: "goerror \<Rightarrow> bool" where
  "errorIsWaitingForMaintenanceWindow e = errors_Is e ErrWaitingForNextMaintenanceWindow"
definition errorIsMaintenanceWindowUnknown :: "goerror \<Rightarrow> bool" where
  "errorIsMaintenanceWindowUnknown e = errors_Is e ErrFailedToDetermineIfMaintenanceWindowIsActive"
definition errorIsForbiddenTemplateUpdate :: "goerror \<Rightarrow> bool" where
  "errorIsForbiddenTemplateUpdate e =
     (errors_Is e ErrTemplateUpdateNotAllowed \<or> errors_Is e ErrNoModuleReleaseMeta)"
definition errorIsTemplateNotFound :: "goerror \<Rightarrow> bool" where
  "errorIsTemplateNotFound e = errors_Is e ErrNoTemplatesInListResult"
definition errorIsMandatoryModuleEnabled :: "goerror \<Rightarrow> bool" where
  "errorIsMandatoryModuleEnabled e = errors_Is e ErrMandatoryModuleCannotBeEnabled"

definition newDefaultErrorStatus :: "string \<Rightarrow> string \<Rightarrow> string \<Rightarrow> goerror \<Rightarrow> ModuleStatus" where
  "newDefaultErrorStatus moduleName desiredChannel componentName e =
     \<lparr>ms_Name = moduleName, ms_FQDN = componentName, ms_OCMComponentName = componentName,
      ms_Channel = desiredChannel, ms_Version = [], ms_Message = error_text e, ms_State = StateError,
      ms_Manifest = None, ms_Resource = None, ms_Template = None, ms_Maintenance = False\<rparr>"

text \<open>The error is not nil here: the only caller passes the template error it just checked.\<close>

definition GenerateModuleStatusFromError ::
  "goerror \<Rightarrow> string \<Rightarrow> string \<Rightarrow> string \<Rightarrow> ModuleStatus option \<Rightarrow> ModuleStatus" where
  "GenerateModuleStatusFromError e moduleName desiredChannel ocmComponentName status =
     (let fallback = (let s = newDefaultErrorStatus moduleName desiredChannel ocmComponentName e in
                      if errorIsTemplateNotFound e \<or> errorIsMandatoryModuleEnabled e
                      then s\<lparr>ms_State := StateWarning\<rparr> else s)
      in case status of
           None \<Rightarrow> fallback
         | Some s \<Rightarrow>
             if errorIsWaitingForMaintenanceWindow e
             then s\<lparr>ms_Message := error_text e, ms_Maintenance := True\<rparr>
             else if errorIsMaintenanceWindowUnknown e
             then s\<lparr>ms_Message := error_text e, ms_State := StateError\<rparr>
             else if errorIsForbiddenTemplateUpdate e
             then s\<lparr>ms_Message := error_text e, ms_State := StateWarning\<rparr>
             else fallback)"

text \<open>\<open>apiVersionKind\<close> is \<^verbatim>\<open>GroupVersionKind.ToAPIVersionAndKind\<close> of the API machinery.\<close>

definition tracking :: "(GVK \<Rightarrow> string \<times> string) \<Rightarrow> GVK \<Rightarrow> string \<Rightarrow> string \<Rightarrow> int \<Rightarrow> TrackingObject" where
  "tracking apiVersionKind gvk name namespace generation =
     \<lparr>to_APIVersion = fst (apiVersionKind gvk), to_Kind = snd (apiVersionKind gvk), to_Name = name,
      to_Namespace = namespace, to_Generation = generation\<rparr>"

definition resource_tracking ::
  "(GVK \<Rightarrow> string \<times> string) \<Rightarrow> ModuleTemplate \<Rightarrow> Manifest \<Rightarrow> TrackingObject option" where
  "resource_tracking apiVersionKind t man =
     (case msp_Resource (man_Spec man) of
        None \<Rightarrow> None
      | Some r \<Rightarrow>
          if msp_CustomResourcePolicy (man_Spec man) = CreateAndDelete
          then (let tr = tracking apiVersionKind (un_GVK r) (un_Name r) (un_Namespace r) (un_Generation r)
                in Some (if label_get (om_Annotations (mt_Meta t)) IsClusterScopedAnnotation = EnableLabelValue
                         then tr\<lparr>to_Namespace := []\<rparr> else tr))
          else None)"

definition GenerateModuleStatus ::
  "(GVK \<Rightarrow> string \<times> string) \<Rightarrow> KModule \<Rightarrow> ModuleStatus option \<Rightarrow> goerror + ModuleStatus" where
  "GenerateModuleStatus apiVersionKind m currentStatus =
     (case km_TemplateInfo m of
        None \<Rightarrow> Inl ErrModuleNeedsTemplateInfo
      | Some info \<Rightarrow>
          (case mti_Err info of
             Some e \<Rightarrow> Inr (GenerateModuleStatusFromError e (km_ModuleName m) (mti_DesiredChannel info)
                          (km_OCMComponentName m) currentStatus)
           | None \<Rightarrow>
               (case mti_Template info of
                  None \<Rightarrow> Inl ErrModuleNeedsTemplateErrorOrTemplate
                | Some t \<Rightarrow>
                    (case km_Manifest m of
                       None \<Rightarrow> Inl ErrModuleNeedsManifest
                     | Some man \<Rightarrow>
                         (let s = \<lparr>ms_Name = km_ModuleName m, ms_FQDN = km_OCMComponentName m,
                             ms_OCMComponentName = km_OCMComponentName m,
                             ms_Channel = mti_DesiredChannel info, ms_Version = msp_Version (man_Spec man),
                             ms_Message = [], ms_State = st_State (man_Status man),
                             ms_Manifest = Some (tracking apiVersionKind (man_GVK man) (man_Name man)
                               (om_Namespace (man_Meta man)) (om_Generation (man_Meta man))),
                             ms_Resource = resource_tracking apiVersionKind t man,
                             ms_Template = Some (tracking apiVersionKind (mt_GVK t) (om_Name (mt_Meta t))
                               (om_Namespace (mt_Meta t)) (om_Generation (mt_Meta t))),
                             ms_Maintenance = False\<rparr>
                          in Inr (if km_IsUnmanaged m
                                  then s\<lparr>ms_State := StateUnmanaged, ms_Manifest := None,
                                         ms_Template := None, ms_Resource := None\<rparr>
                                  else s))))))"

text \<open>The status that the handler writes: an error of the generator becomes an Error status.\<close>

definition handler_status :: "(GVK \<Rightarrow> string \<times> string) \<Rightarrow> KModule \<Rightarrow> ModuleStatus option \<Rightarrow> ModuleStatus" where
  "handler_status apiVersionKind m currentStatus =
     (case GenerateModuleStatus apiVersionKind m currentStatus of
        Inr s \<Rightarrow> s
      | Inl e \<Rightarrow> \<lparr>ms_Name = km_ModuleName m, ms_FQDN = km_OCMComponentName m,
                  ms_OCMComponentName = km_OCMComponentName m, ms_Channel = [], ms_Version = [],
                  ms_Message = error_text e, ms_State = StateError, ms_Manifest = None,
                  ms_Resource = None, ms_Template = None, ms_Maintenance = False\<rparr>)"

section \<open>Slices\<close>

record slice_store =
  ss_arrays :: "ModuleStatus list list"   \<comment> \<open>the backing arrays, used part only\<close>
  ss_cur :: nat                           \<comment> \<open>the array of the slice\<close>
  ss_cap :: nat                           \<comment> \<open>its capacity\<close>

type_synonym status_ptr = "nat \<times> nat"

definition slice :: "slice_store \<Rightarrow> ModuleStatus list" where
  "slice st = ss_arrays st ! ss_cur st"

definition deref :: "slice_store \<Rightarrow> status_ptr \<Rightarrow> ModuleStatus" where
  "deref st p = ss_arrays st ! fst p ! snd p"

definition store :: "status_ptr \<Rightarrow> ModuleStatus \<Rightarrow> slice_store \<Rightarrow> slice_store" where
  "store p s st = st\<lparr>ss_arrays := (ss_arrays st)[fst p := (ss_arrays st ! fst p)[snd p := s]]\<rparr>"

text \<open>\<^verbatim>\<open>append\<close>: in place while the capacity lasts, else into a new array that \<open>grow\<close> sizes.\<close>

definition slice_append :: "(nat \<Rightarrow> nat) \<Rightarrow> ModuleStatus \<Rightarrow> slice_store \<Rightarrow> slice_store" where
  "slice_append grow s st =
     (if length (slice st) < ss_cap st
      then st\<lparr>ss_arrays := (ss_arrays st)[ss_cur st := slice st @ [s]]\<rparr>
      else \<lparr>ss_arrays = ss_arrays st @ [slice st @ [s]], ss_cur = length (ss_arrays st),
            ss_cap = max (length (slice st) + 1) (grow (ss_cap st))\<rparr>)"

text \<open>\<^verbatim>\<open>GetModuleStatusMap\<close> as pointers into the current array: the last entry of a name.\<close>

definition ptr_map :: "slice_store \<Rightarrow> (string \<rightharpoonup> status_ptr)" where
  "ptr_map st =
     map_of (rev (map (\<lambda>(i, s). (ms_Name s, (ss_cur st, i))) (List.enumerate 0 (slice st))))"

section \<open>The handler\<close>

definition update_one ::
  "(GVK \<Rightarrow> string \<times> string) \<Rightarrow> (nat \<Rightarrow> nat) \<Rightarrow> (string \<rightharpoonup> status_ptr) \<Rightarrow> KModule \<Rightarrow> slice_store \<Rightarrow> slice_store" where
  "update_one apiVersionKind grow ptrs m st =
     (case ptrs (km_ModuleName m) of
        Some p \<Rightarrow> store p (handler_status apiVersionKind m (Some (deref st p))) st
      | None \<Rightarrow> slice_append grow (handler_status apiVersionKind m None) st)"

definition update_all ::
  "(GVK \<Rightarrow> string \<times> string) \<Rightarrow> (nat \<Rightarrow> nat) \<Rightarrow> KModule list \<Rightarrow> slice_store \<Rightarrow> slice_store" where
  "update_all apiVersionKind grow modules st =
     fold (update_one apiVersionKind grow (ptr_map st)) modules st"

text \<open>
  The second half: statuses of modules that the spec no longer names are dropped when they have no
  Manifest or it is gone, and take over the state of the Manifest otherwise. A read that fails for
  another reason leaves the fetched object without a state. The list is rebuilt from a map, in the
  order \<open>order\<close> in which the map is ranged over. The names of the modules whose metrics are
  removed are returned with it.
\<close>

definition remaining_status ::
  "(TrackingObject \<Rightarrow> goerror + State) \<Rightarrow> Kyma \<Rightarrow> ModuleStatus \<Rightarrow> ModuleStatus option" where
  "remaining_status getModule k s =
     (if ms_Name s \<in> mod_Name ` set (ks_Modules (kyma_Spec k)) then Some s
      else (case ms_Manifest s of
              None \<Rightarrow> None
            | Some tr \<Rightarrow>
                (case getModule tr of
                   Inl e \<Rightarrow>
                     if IsNotFound (Some (wrapErr ''failed to get module by name-namespace: '' e)) then None
                     else Some (s\<lparr>ms_State := StateEmpty\<rparr>)
                 | Inr state \<Rightarrow> Some (s\<lparr>ms_State := state\<rparr>))))"

definition DeleteNoLongerExistingModuleStatus ::
  "(TrackingObject \<Rightarrow> goerror + State) \<Rightarrow> string list \<Rightarrow> Kyma \<Rightarrow> Kyma \<times> string list" where
  "DeleteNoLongerExistingModuleStatus getModule order k =
     (let statuses = List.map_filter (GetModuleStatusMap k) order in
      (set_modules (List.map_filter (remaining_status getModule k) statuses) k,
       map ms_Name (filter (\<lambda>s. remaining_status getModule k s = None) statuses)))"

definition UpdateModuleStatuses ::
  "(GVK \<Rightarrow> string \<times> string) \<Rightarrow> (nat \<Rightarrow> nat) \<Rightarrow> nat \<Rightarrow> (TrackingObject \<Rightarrow> goerror + State)
     \<Rightarrow> (Kyma \<Rightarrow> string list) \<Rightarrow> KModule list \<Rightarrow> Kyma \<Rightarrow> Kyma \<times> string list" where
  "UpdateModuleStatuses apiVersionKind grow cap getModule order modules k =
     (let st = \<lparr>ss_arrays = [kyma_modules k], ss_cur = 0, ss_cap = cap\<rparr>;
          k1 = set_modules (slice (update_all apiVersionKind grow modules st)) k
      in DeleteNoLongerExistingModuleStatus getModule (order k1) k1)"

section \<open>Facts\<close>

lemma FromError_name:
  "(\<And>s. c = Some s \<Longrightarrow> ms_Name s = n) \<Longrightarrow> ms_Name (GenerateModuleStatusFromError e n ch ocm c) = n"
  by (cases c) (simp_all add: GenerateModuleStatusFromError_def newDefaultErrorStatus_def Let_def)

lemma GenerateModuleStatus_name:
  assumes "\<And>s. c = Some s \<Longrightarrow> ms_Name s = km_ModuleName m" and "GenerateModuleStatus akv m c = Inr r"
  shows "ms_Name r = km_ModuleName m"
proof -
  obtain info where info: "km_TemplateInfo m = Some info"
    using assms(2) by (cases "km_TemplateInfo m") (simp_all add: GenerateModuleStatus_def)
  show ?thesis
  proof (cases "mti_Err info")
    case (Some e)
    then have "r = GenerateModuleStatusFromError e (km_ModuleName m) (mti_DesiredChannel info) (km_OCMComponentName m) c"
      using assms(2) info by (simp add: GenerateModuleStatus_def)
    then show ?thesis using FromError_name [of c "km_ModuleName m"] assms(1) by simp
  next
    case None
    then show ?thesis using assms(2) info
      by (cases "mti_Template info"; cases "km_Manifest m"; cases "km_IsUnmanaged m")
        (auto simp: GenerateModuleStatus_def Let_def)
  qed
qed

lemma handler_status_name:
  assumes "\<And>s. c = Some s \<Longrightarrow> ms_Name s = km_ModuleName m"
  shows "ms_Name (handler_status akv m c) = km_ModuleName m"
  using GenerateModuleStatus_name [OF assms]
  by (cases "GenerateModuleStatus akv m c") (simp_all add: handler_status_def)

text \<open>The pointer of a name in a slice of distinct names is its index.\<close>

lemma ptr_map_distinct:
  assumes "distinct (map ms_Name (slice st))" and "i < length (slice st)"
  shows "ptr_map st (ms_Name (slice st ! i)) = Some (ss_cur st, i)"
proof -
  let ?kv = "map (\<lambda>(i, s). (ms_Name s, (ss_cur st, i))) (List.enumerate 0 (slice st))"
  have "map fst ?kv = map ms_Name (slice st)"
    by (simp add: comp_def case_prod_beta flip: map_map [of ms_Name snd, unfolded comp_def])
  then have d: "distinct (map fst (rev ?kv))" using assms(1) by (simp add: rev_map [symmetric])
  have "(ms_Name (slice st ! i), (ss_cur st, i)) \<in> set (rev ?kv)"
    using assms(2) by (force simp: set_conv_nth [of "List.enumerate 0 (slice st)"] nth_enumerate_eq)
  then show ?thesis unfolding ptr_map_def using d map_of_is_SomeI by fastforce
qed

lemma ptr_map_dom: "dom (ptr_map st) = ms_Name ` set (slice st)"
proof -
  have "dom (ptr_map st) = ms_Name ` snd ` set (List.enumerate 0 (slice st))"
    unfolding ptr_map_def dom_map_of_conv_image_fst set_rev set_map image_image
    by (simp add: case_prod_beta)
  also have "snd ` set (List.enumerate 0 (slice st)) = set (slice st)"
    by (metis map_snd_enumerate set_map)
  finally show ?thesis .
qed

text \<open>Modules that are all new: the slice grows by their statuses, whatever the capacity is.\<close>

lemma slice_append_slice:
  "ss_cur st < length (ss_arrays st) \<Longrightarrow> slice (slice_append grow s st) = slice st @ [s]"
  "ss_cur st < length (ss_arrays st) \<Longrightarrow>
     ss_cur (slice_append grow s st) < length (ss_arrays (slice_append grow s st))"
  by (auto simp: slice_append_def slice_def)

lemma update_new:
  assumes "\<forall>m \<in> set modules. ptrs (km_ModuleName m) = None" and "ss_cur st < length (ss_arrays st)"
  shows "slice (fold (update_one akv grow ptrs) modules st) =
     slice st @ map (\<lambda>m. handler_status akv m None) modules"
  using assms
proof (induction modules arbitrary: st)
  case (Cons m ms)
  then show ?case
    by (simp add: update_one_def slice_append_slice)
qed simp

text \<open>Modules that all have a status: each status is replaced in place.\<close>

definition replaced :: "(GVK \<Rightarrow> string \<times> string) \<Rightarrow> KModule list \<Rightarrow> ModuleStatus \<Rightarrow> ModuleStatus" where
  "replaced akv modules s =
     (case find (\<lambda>m. km_ModuleName m = ms_Name s) modules of
        Some m \<Rightarrow> handler_status akv m (Some s) | None \<Rightarrow> s)"

lemma store_slice:
  assumes "ss_cur st < length (ss_arrays st)"
  shows "slice (store (ss_cur st, i) s st) = (slice st)[i := s]"
    "ss_cur (store p s st) = ss_cur st" "length (ss_arrays (store p s st)) = length (ss_arrays st)"
  using assms by (simp_all add: slice_def store_def)

lemma replaced_Cons_update:
  assumes "distinct (map ms_Name xs)" and "i < length xs" and "ms_Name (xs ! i) = km_ModuleName m"
    and "km_ModuleName m \<notin> km_ModuleName ` set ms"
  shows "map (replaced akv ms) (xs[i := handler_status akv m (Some (xs ! i))]) = map (replaced akv (m # ms)) xs"
proof (rule nth_equalityI)
  fix j assume "j < length (map (replaced akv ms) (xs[i := handler_status akv m (Some (xs ! i))]))"
  then have j: "j < length xs" by simp
  have name: "ms_Name (handler_status akv m (Some (xs ! i))) = km_ModuleName m"
    using assms(3) by (intro handler_status_name) auto
  have none: "find (\<lambda>m'. km_ModuleName m' = km_ModuleName m) ms = None"
    using assms(4) by (simp add: find_None_keys)
  show "map (replaced akv ms) (xs[i := handler_status akv m (Some (xs ! i))]) ! j =
      map (replaced akv (m # ms)) xs ! j"
  proof (cases "j = i")
    case True
    then show ?thesis using j assms(3) name none by (simp add: replaced_def)
  next
    case False
    then have "ms_Name (xs ! j) \<noteq> km_ModuleName m"
      using assms(1-3) j by (metis distinct_conv_nth length_map nth_map)
    then show ?thesis using False j by (simp add: replaced_def)
  qed
qed simp

lemma update_existing:
  assumes "distinct (map km_ModuleName modules)" and "ss_cur st < length (ss_arrays st)"
    and "distinct (map ms_Name (slice st))"
    and "\<forall>m \<in> set modules. \<exists>i < length (slice st). ms_Name (slice st ! i) = km_ModuleName m
        \<and> ptrs (km_ModuleName m) = Some (ss_cur st, i)"
  shows "slice (fold (update_one akv grow ptrs) modules st) = map (replaced akv modules) (slice st)
    \<and> ss_cur (fold (update_one akv grow ptrs) modules st) < length (ss_arrays (fold (update_one akv grow ptrs) modules st))"
  using assms
proof (induction modules arbitrary: st)
  case Nil
  then show ?case by (simp add: replaced_def map_idI)
next
  case (Cons m ms)
  from Cons.prems(4) obtain i where i: "i < length (slice st)" "ms_Name (slice st ! i) = km_ModuleName m"
    "ptrs (km_ModuleName m) = Some (ss_cur st, i)" by auto
  let ?s = "handler_status akv m (Some (slice st ! i))"
  let ?st = "update_one akv grow ptrs m st"
  have st: "?st = store (ss_cur st, i) ?s st" using i(3) by (simp add: update_one_def deref_def slice_def)
  then have sl: "slice ?st = (slice st)[i := ?s]" "ss_cur ?st = ss_cur st"
    "length (ss_arrays ?st) = length (ss_arrays st)"
    using store_slice [OF Cons.prems(2)] by simp_all
  have name: "ms_Name ?s = ms_Name (slice st ! i)" using i(2) by (metis handler_status_name option.inject)
  have names: "map ms_Name (slice ?st) = map ms_Name (slice st)"
    unfolding sl map_update name using i(1) by (simp add: list_update_same_conv)
  have "\<forall>m' \<in> set ms. \<exists>j < length (slice ?st). ms_Name (slice ?st ! j) = km_ModuleName m'
        \<and> ptrs (km_ModuleName m') = Some (ss_cur ?st, j)"
  proof
    fix m' assume "m' \<in> set ms"
    then obtain j where j: "j < length (slice st)" "ms_Name (slice st ! j) = km_ModuleName m'"
      "ptrs (km_ModuleName m') = Some (ss_cur st, j)" using Cons.prems(4) by auto
    have "ms_Name (slice ?st ! j) = ms_Name (slice st ! j)"
      using names j(1) sl(1) by (metis length_list_update nth_map)
    then show "\<exists>j < length (slice ?st). ms_Name (slice ?st ! j) = km_ModuleName m'
        \<and> ptrs (km_ModuleName m') = Some (ss_cur ?st, j)"
      using j sl by auto
  qed
  with Cons.IH [of ?st] Cons.prems names sl
  have IH: "slice (fold (update_one akv grow ptrs) ms ?st) = map (replaced akv ms) (slice ?st)
    \<and> ss_cur (fold (update_one akv grow ptrs) ms ?st) < length (ss_arrays (fold (update_one akv grow ptrs) ms ?st))"
    by simp
  have "map (replaced akv ms) (slice ?st) = map (replaced akv (m # ms)) (slice st)"
    unfolding sl using replaced_Cons_update [OF Cons.prems(3) i(1,2)] Cons.prems(1) by simp
  with IH show ?case by simp
qed

text \<open>Module statuses are written as intended when the modules that already have a status come before
  the new ones: every existing status is replaced by the one generated for its module from it, and
  the statuses of the new modules are appended, whatever the capacity of the slice is.\<close>

theorem update_all_in_order:
  assumes "distinct (map km_ModuleName (existing @ new))" and "distinct (map ms_Name statuses)"
    and "km_ModuleName ` set existing \<subseteq> ms_Name ` set statuses"
    and "km_ModuleName ` set new \<inter> ms_Name ` set statuses = {}"
  shows "slice (update_all akv grow (existing @ new) \<lparr>ss_arrays = [statuses], ss_cur = 0, ss_cap = cap\<rparr>) =
     map (replaced akv existing) statuses @ map (\<lambda>m. handler_status akv m None) new"
proof -
  let ?st = "\<lparr>ss_arrays = [statuses], ss_cur = 0, ss_cap = cap\<rparr>"
  have sl: "slice ?st = statuses" by (simp add: slice_def)
  have "\<exists>i < length (slice ?st). ms_Name (slice ?st ! i) = km_ModuleName m
        \<and> ptr_map ?st (km_ModuleName m) = Some (ss_cur ?st, i)" if "m \<in> set existing" for m
  proof -
    have "km_ModuleName m \<in> set (map ms_Name statuses)" using assms(3) that by auto
    then obtain i where "i < length statuses" "ms_Name (statuses ! i) = km_ModuleName m"
      by (metis in_set_conv_nth length_map nth_map)
    then show ?thesis using ptr_map_distinct [of ?st i] assms(2) sl by auto
  qed
  then have 1: "slice (fold (update_one akv grow (ptr_map ?st)) existing ?st) = map (replaced akv existing) statuses
      \<and> ss_cur (fold (update_one akv grow (ptr_map ?st)) existing ?st)
         < length (ss_arrays (fold (update_one akv grow (ptr_map ?st)) existing ?st))"
    using update_existing [of existing ?st "ptr_map ?st" akv grow] assms(1,2) sl by simp
  have "\<forall>m \<in> set new. ptr_map ?st (km_ModuleName m) = None"
    using assms(4) ptr_map_dom [of ?st] sl by (metis (no_types, lifting) disjoint_iff domIff imageI)
  with 1 show ?thesis
    using update_new [of new "ptr_map ?st" "fold (update_one akv grow (ptr_map ?st)) existing ?st" akv grow]
    by (simp add: update_all_def)
qed

text \<open>A status update is lost: when a new module comes before one that already has a status, and the
  slice is full as after decoding or copying the object, appending the status of the new module
  moves the slice to a new array; the status of the other module is then written to the old array,
  and the Kyma keeps the stale status.\<close>

theorem update_all_lost_update:
  assumes "ms_Name s = km_ModuleName m" and "km_ModuleName new \<noteq> km_ModuleName m"
  shows "slice (update_all akv grow [new, m] \<lparr>ss_arrays = [[s]], ss_cur = 0, ss_cap = 1\<rparr>) =
     [s, handler_status akv new None]"
  using assms
  by (simp add: update_all_def update_one_def ptr_map_def slice_def slice_append_def store_def)

text \<open>A module that waits for its maintenance window is left alone: the run writes nothing for it and
  reports no error, and its status keeps state, version, channel and references, changing the
  message and the maintenance flag only.\<close>

theorem waiting_for_window_keeps_module:
  assumes "km_TemplateInfo m = Some info" and "mti_Err info = Some ErrWaitingForNextMaintenanceWindow"
  shows "reconcile_module env k m = (m, [], None)
    \<and> handler_status akv m (Some s) =
        s\<lparr>ms_Message := error_text ErrWaitingForNextMaintenanceWindow, ms_Maintenance := True\<rparr>"
proof -
  have "\<not> errors_Is ErrWaitingForNextMaintenanceWindow ErrTemplateNotAllowed"
    by (simp add: ErrWaitingForNextMaintenanceWindow_def ErrTemplateNotAllowed_def)
  then show ?thesis
    using assms by (simp add: reconcile_module_def handler_status_def GenerateModuleStatus_def
        GenerateModuleStatusFromError_def errorIsWaitingForMaintenanceWindow_def Let_def)
qed

lemma remaining_status_name: "remaining_status g k s = Some r \<Longrightarrow> ms_Name r = ms_Name s"
  by (auto simp: remaining_status_def split: if_splits option.splits sum.splits)

lemma statuses_in_order:
  assumes "is_key_order order k"
  shows "set (List.map_filter (GetModuleStatusMap k) order) = ran (GetModuleStatusMap k)"
proof -
  have "dom (GetModuleStatusMap k) = set order"
    using assms dom_map_by [of ms_Name "kyma_modules k"] by (simp add: is_key_order_def GetModuleStatusMap_def)
  then show ?thesis unfolding set_map_filter_iff ran_def by blast
qed

text \<open>Which statuses survive: after the cleanup a Kyma has exactly the statuses of the modules its spec
  names, unchanged, and the statuses of removed modules whose Manifest still exists (or could not
  be read), with the state of that Manifest. The status of a removed module goes away exactly when
  it has no Manifest or the Manifest is not found.\<close>

theorem DeleteNoLongerExistingModuleStatus_set:
  assumes "is_key_order order k" and "distinct (map ms_Name (kyma_modules k))"
  shows "set (kyma_modules (fst (DeleteNoLongerExistingModuleStatus getModule order k))) =
     {s \<in> set (kyma_modules k). ms_Name s \<in> mod_Name ` set (ks_Modules (kyma_Spec k))}
     \<union> {r. \<exists>s \<in> set (kyma_modules k). \<exists>tr. ms_Name s \<notin> mod_Name ` set (ks_Modules (kyma_Spec k))
            \<and> ms_Manifest s = Some tr
            \<and> (case getModule tr of
                 Inl e \<Rightarrow> \<not> IsNotFound (Some (wrapErr ''failed to get module by name-namespace: '' e))
                   \<and> r = s\<lparr>ms_State := StateEmpty\<rparr>
               | Inr state \<Rightarrow> r = s\<lparr>ms_State := state\<rparr>)}"
    (is "_ = ?A \<union> ?B")
proof -
  have ran: "ran (GetModuleStatusMap k) = set (kyma_modules k)"
  proof
    show "ran (GetModuleStatusMap k) \<subseteq> set (kyma_modules k)"
      using map_by_Some [of ms_Name "kyma_modules k"] by (auto simp: ran_def GetModuleStatusMap_def)
    show "set (kyma_modules k) \<subseteq> ran (GetModuleStatusMap k)"
      using map_by_distinct [OF assms(2)] by (auto simp: ran_def GetModuleStatusMap_def)
  qed
  have "set (kyma_modules (fst (DeleteNoLongerExistingModuleStatus getModule order k))) =
      {r. \<exists>s \<in> set (kyma_modules k). remaining_status getModule k s = Some r}"
    unfolding DeleteNoLongerExistingModuleStatus_def Let_def fst_conv set_modules_sel
      set_map_filter_iff [of "remaining_status getModule k"] statuses_in_order [OF assms(1)] ran ..
  moreover have "remaining_status getModule k s = Some r \<longleftrightarrow>
      s = r \<and> ms_Name s \<in> mod_Name ` set (ks_Modules (kyma_Spec k))
      \<or> (\<exists>tr. ms_Name s \<notin> mod_Name ` set (ks_Modules (kyma_Spec k)) \<and> ms_Manifest s = Some tr
            \<and> (case getModule tr of
                 Inl e \<Rightarrow> \<not> IsNotFound (Some (wrapErr ''failed to get module by name-namespace: '' e))
                   \<and> r = s\<lparr>ms_State := StateEmpty\<rparr>
               | Inr state \<Rightarrow> r = s\<lparr>ms_State := state\<rparr>))" for s r
    by (cases "ms_Manifest s") (auto simp: remaining_status_def split: sum.splits if_splits)
  ultimately show ?thesis by (simp only:) blast
qed

section \<open>Witnesses\<close>

definition no_kind :: "GVK \<Rightarrow> string \<times> string" where
  "no_kind g = (gvk_Group g @ ''/'' @ gvk_Version g, gvk_Kind g)"

definition ex_new_module :: KModule where
  "ex_new_module = ex_kmodule\<lparr>km_ModuleName := ''serverless''\<rparr>"

theorem update_all_in_order_witness:
  "slice (update_all no_kind (\<lambda>n. 2 * n) ([ex_kmodule] @ [ex_new_module])
      \<lparr>ss_arrays = [[ex_status]], ss_cur = 0, ss_cap = 1\<rparr>) =
   map (replaced no_kind [ex_kmodule]) [ex_status] @ map (\<lambda>m. handler_status no_kind m None) [ex_new_module]"
  by (rule update_all_in_order) (simp_all add: ex_kmodule_def ex_new_module_def ex_status_def)

theorem update_all_lost_update_witness:
  "slice (update_all no_kind (\<lambda>n. 2 * n) [ex_new_module, ex_kmodule]
      \<lparr>ss_arrays = [[ex_status]], ss_cur = 0, ss_cap = 1\<rparr>) = [ex_status, handler_status no_kind ex_new_module None]
   \<and> ms_Version (handler_status no_kind ex_kmodule (Some ex_status)) \<noteq> ms_Version ex_status"
proof -
  have "ms_Version (handler_status no_kind ex_kmodule (Some ex_status)) \<noteq> ms_Version ex_status" by code_simp
  then show ?thesis
    using update_all_lost_update [of ex_status ex_kmodule ex_new_module no_kind "\<lambda>n. 2 * n"]
    by (simp add: ex_kmodule_def ex_new_module_def ex_status_def)
qed

theorem waiting_for_window_keeps_module_witness:
  "handler_status no_kind
     (ex_kmodule\<lparr>km_TemplateInfo := Some (ex_module_info\<lparr>mti_Err := Some ErrWaitingForNextMaintenanceWindow\<rparr>)\<rparr>)
     (Some ex_status) =
   ex_status\<lparr>ms_Message := ''waiting for next maintenance window to update module version'', ms_Maintenance := True\<rparr>"
  using waiting_for_window_keeps_module [of "ex_kmodule\<lparr>km_TemplateInfo :=
      Some (ex_module_info\<lparr>mti_Err := Some ErrWaitingForNextMaintenanceWindow\<rparr>)\<rparr>"
      "ex_module_info\<lparr>mti_Err := Some ErrWaitingForNextMaintenanceWindow\<rparr>"
      ex_sync ex_kyma no_kind ex_status]
  by (simp add: ErrWaitingForNextMaintenanceWindow_def)

theorem DeleteNoLongerExistingModuleStatus_set_witness:
  "set (kyma_modules (fst (DeleteNoLongerExistingModuleStatus (\<lambda>tr. Inl notFoundErr) [''istio''] ex_kyma))) = {ex_status}"
proof -
  have "is_key_order [''istio''] ex_kyma" "distinct (map ms_Name (kyma_modules ex_kyma))"
    by (simp_all add: is_key_order_def ex_kyma_def ex_status_def)
  moreover have "kyma_modules ex_kyma = [ex_status]" "''istio'' \<in> mod_Name ` set (ks_Modules (kyma_Spec ex_kyma))"
    "ms_Name ex_status = ''istio''"
    by (simp_all add: ex_kyma_def ex_module_def ex_status_def)
  ultimately show ?thesis
    using DeleteNoLongerExistingModuleStatus_set [of "[''istio'']" ex_kyma "\<lambda>tr. Inl notFoundErr"] by auto
qed

end
