(* ===== verification/KymaDeletion.thy ===== *)
theory KymaDeletion
  imports ManifestTypes
begin

text \<open>
  The deletion of a Kyma (\<^verbatim>\<open>internal/service/kyma/deletion\<close>): twelve use cases in a fixed
  order, of which every reconciliation executes the first that is applicable, and the repositories
  they use (\<^verbatim>\<open>internal/repository\<close>).

  The clusters are a state of an arbitrary type \<open>'w\<close>; what the API servers answer and how they
  change it is a record \<open>dclient\<close> of functions. The interface \<^verbatim>\<open>UseCase\<close> is the locale
  \<open>use_cases\<close>, whose law is that a use case reports its own name; its lemmas are about the
  loop that picks the step. It is interpreted on the list of use cases that
  \<^verbatim>\<open>cmd/composition\<close> builds.

  The main facts: the finalizer of the Kyma is dropped only when nothing is left to clean up, and
  when the clusters do what they are asked, twelve rounds are enough to drop it.
\<close>

section \<open>Results\<close>

record Result =
  res_UseCase :: string
  res_Err :: "goerror option"

definition uc_SetKcpKymaStateDeleting :: string where
  "uc_SetKcpKymaStateDeleting = ''SetKcpKymaStateDeleting''"
definition uc_SetSkrKymaStateDeleting :: string where
  "uc_SetSkrKymaStateDeleting = ''SetSkrKymaStateDeleting''"
definition uc_DeleteSkrKyma :: string where "uc_DeleteSkrKyma = ''DeleteSkrKyma''"
definition uc_DeleteWatcherCertificateSetup :: string where
  "uc_DeleteWatcherCertificateSetup = ''DeleteCertificateSetup''"
definition uc_DeleteSkrWebhookResources :: string where
  "uc_DeleteSkrWebhookResources = ''DeleteSkrWebhookResources''"
definition uc_DeleteSkrModuleTemplateCrd :: string where
  "uc_DeleteSkrModuleTemplateCrd = ''DeleteSkrModuleTemplateCrd''"
definition uc_DeleteSkrModuleReleaseMetaCrd :: string where
  "uc_DeleteSkrModuleReleaseMetaCrd = ''DeleteSkrModuleReleaseMetaCrd''"
definition uc_DeleteSkrKymaCrd :: string where "uc_DeleteSkrKymaCrd = ''DeleteSkrKymaCrd''"
definition uc_DeleteManifests :: string where "uc_DeleteManifests = ''DeleteManifests''"
definition uc_DeleteMetrics :: string where "uc_DeleteMetrics = ''DeleteMetrics''"
definition uc_EnsureManifestDeletion :: string where "uc_EnsureManifestDeletion = ''EnsureManifestDeletion''"
definition uc_DropKymaFinalizer :: string where "uc_DropKymaFinalizer = ''DropKymaFinalizer''"

lemmas uc_defs =
  uc_SetKcpKymaStateDeleting_def uc_SetSkrKymaStateDeleting_def uc_DeleteSkrKyma_def
  uc_DeleteWatcherCertificateSetup_def uc_DeleteSkrWebhookResources_def
  uc_DeleteSkrModuleTemplateCrd_def uc_DeleteSkrModuleReleaseMetaCrd_def uc_DeleteSkrKymaCrd_def
  uc_DeleteManifests_def uc_DeleteMetrics_def uc_EnsureManifestDeletion_def uc_DropKymaFinalizer_def

definition ErrSkrClientNotFound :: goerror where
  "ErrSkrClientNotFound = Sentinel ''ErrSkrClientNotFound'' ''SKR client not in cache''"
definition ErrNoUseCaseApplicable :: goerror where
  "ErrNoUseCaseApplicable = Sentinel ''ErrNoUseCaseApplicable'' ''no use case applicable for kyma deletion''"
definition ErrUnableToDetermineUsecaseApplicability :: goerror where
  "ErrUnableToDetermineUsecaseApplicability = Sentinel ''ErrUnableToDetermineUsecaseApplicability''
     ''unable to determine usecase applicability''"
definition ErrUseCasesOutOfOrder :: goerror where
  "ErrUseCasesOutOfOrder =
     Sentinel ''ErrUseCasesOutOfOrder'' ''deletion use cases are not in the expected order''"

section \<open>The clusters\<close>

text \<open>
  The calls of the Kubernetes clients, on the control plane and on the remote cluster (SKR). A read
  that finds the object answers \<open>Inr\<close> or \<open>None\<close>, any other answer is an error.
\<close>

record 'w dclient =
  dc_listManifests :: "'w \<Rightarrow> string \<Rightarrow> string \<Rightarrow> goerror + Manifest list"
  dc_deleteAllManifests :: "string \<Rightarrow> string \<Rightarrow> 'w \<Rightarrow> 'w \<times> goerror option"
  dc_patchKymaStatus :: "Kyma \<Rightarrow> 'w \<Rightarrow> 'w \<times> goerror option"
  dc_getKyma :: "'w \<Rightarrow> string \<Rightarrow> string \<Rightarrow> goerror + Kyma"
  dc_patchFinalizers :: "string \<Rightarrow> string \<Rightarrow> string list \<Rightarrow> 'w \<Rightarrow> 'w \<times> goerror option"
  dc_getSecret :: "'w \<Rightarrow> string \<Rightarrow> string \<Rightarrow> goerror option"
  dc_deleteSecret :: "string \<Rightarrow> string \<Rightarrow> 'w \<Rightarrow> 'w \<times> goerror option"
  dc_certExists :: "'w \<Rightarrow> string \<Rightarrow> goerror + bool"
  dc_deleteCert :: "string \<Rightarrow> 'w \<Rightarrow> 'w \<times> goerror option"
  dc_skrClientCached :: "'w \<Rightarrow> NamespacedName \<Rightarrow> bool"
  dc_getSkrKyma :: "'w \<Rightarrow> goerror + KymaStatus"
  dc_applySkrState :: "State \<Rightarrow> string \<Rightarrow> 'w \<Rightarrow> 'w \<times> goerror option"
  dc_deleteSkrKyma :: "'w \<Rightarrow> 'w \<times> goerror option"
  dc_getSkrCrd :: "'w \<Rightarrow> string \<Rightarrow> goerror option"
  dc_deleteSkrCrd :: "string \<Rightarrow> 'w \<Rightarrow> 'w \<times> goerror option"
  dc_getSkrResource :: "'w \<Rightarrow> string \<Rightarrow> goerror option"
  dc_deleteSkrResource :: "string \<Rightarrow> 'w \<Rightarrow> 'w \<times> goerror option"
  dc_hasMetrics :: "'w \<Rightarrow> string \<Rightarrow> goerror + bool"
  dc_cleanupMetrics :: "string \<Rightarrow> 'w \<Rightarrow> 'w"

section \<open>Repositories\<close>

definition skrClientRetriever :: "'w dclient \<Rightarrow> 'w \<Rightarrow> NamespacedName \<Rightarrow> goerror option" where
  "skrClientRetriever c w n =
     (if dc_skrClientCached c w n then None
      else Some (wrapPost ErrSkrClientNotFound ('': Kyma '' @ fst n @ ''/'' @ snd n)))"

definition ExistForKyma :: "'w dclient \<Rightarrow> string \<Rightarrow> 'w \<Rightarrow> string \<Rightarrow> goerror + bool" where
  "ExistForKyma c ns w kymaName =
     (case dc_listManifests c w ns kymaName of
        Inl e \<Rightarrow> Inl (wrapErr (''failed to list Manifests for kyma '' @ kymaName @ '': '') e)
      | Inr ms \<Rightarrow> Inr (ms \<noteq> []))"

definition ExistForKymaWithoutDeletionTimestamp :: "'w dclient \<Rightarrow> string \<Rightarrow> 'w \<Rightarrow> string \<Rightarrow> goerror + bool" where
  "ExistForKymaWithoutDeletionTimestamp c ns w kymaName =
     (case dc_listManifests c w ns kymaName of
        Inl e \<Rightarrow> Inl (wrapErr (''failed to list Manifests for kyma '' @ kymaName @ '': '') e)
      | Inr ms \<Rightarrow> Inr (list_ex (\<lambda>m. om_DeletionTimestamp (man_Meta m) = None) ms))"

definition DeleteAllForKyma :: "'w dclient \<Rightarrow> string \<Rightarrow> string \<Rightarrow> 'w \<Rightarrow> 'w \<times> goerror option" where
  "DeleteAllForKyma c ns kymaName w =
     (case dc_deleteAllManifests c ns kymaName w of
        (w', Some e) \<Rightarrow> (w', Some (wrapErr (''failed to delete all manifests for kyma '' @ kymaName @ '': '') e))
      | (w', None) \<Rightarrow> (w', None))"

definition lastOperationDeleting :: string where
  "lastOperationDeleting = ''waiting for modules to be deleted''"

definition updateKymaStatus ::
  "'w dclient \<Rightarrow> int \<Rightarrow> State \<Rightarrow> string \<Rightarrow> Kyma \<Rightarrow> 'w \<Rightarrow> 'w \<times> goerror option" where
  "updateKymaStatus c now newState message k w =
     (let k1 = k\<lparr>kyma_Status := (kyma_Status k)\<lparr>kst_State := newState\<rparr>\<rparr>;
          k2 = (if newState = StateReady \<or> newState = StateWarning then SetActiveChannel k1 else k1);
          k3 = k2\<lparr>kyma_Status := (kyma_Status k2)\<lparr>kst_LastOperation :=
                 \<lparr>lo_Operation = message, lo_LastUpdateTime = now\<rparr>\<rparr>\<rparr>
      in case dc_patchKymaStatus c k3 w of
           (w', Some e) \<Rightarrow> (w', Some (wrapErr ''status could not be updated: '' e))
         | (w', None) \<Rightarrow> (w', None))"

definition UpdateStatusDeleting :: "'w dclient \<Rightarrow> int \<Rightarrow> Kyma \<Rightarrow> 'w \<Rightarrow> 'w \<times> goerror option" where
  "UpdateStatusDeleting c now k w = updateKymaStatus c now StateDeleting lastOperationDeleting k w"

definition kymaRepo_Get :: "'w dclient \<Rightarrow> string \<Rightarrow> 'w \<Rightarrow> string \<Rightarrow> goerror + Kyma" where
  "kymaRepo_Get c ns w kymaName =
     (case dc_getKyma c w kymaName ns of
        Inl e \<Rightarrow> Inl (wrapErr (''failed to get Kyma '' @ kymaName @ '' in namespace '' @ ns @ '': '') e)
      | Inr k \<Rightarrow> Inr k)"

definition DropFinalizer :: "'w dclient \<Rightarrow> klib \<Rightarrow> string \<Rightarrow> string \<Rightarrow> string \<Rightarrow> 'w \<Rightarrow> 'w \<times> goerror option" where
  "DropFinalizer c lib ns kymaName finalizer w =
     (case kymaRepo_Get c ns w kymaName of
        Inl e \<Rightarrow> (w, IgnoreNotFound (Some (wrapErr ''failed to get current finalizers: '' e)))
      | Inr k \<Rightarrow>
          (case RemoveFinalizer lib (om_Finalizers (kyma_Meta k)) finalizer of
             (remaining, removed) \<Rightarrow>
               if \<not> removed then (w, None)
               else (case dc_patchFinalizers c kymaName ns remaining w of (w', e) \<Rightarrow> (w', IgnoreNotFound e))))"

definition secretRepo_Exists :: "'w dclient \<Rightarrow> string \<Rightarrow> 'w \<Rightarrow> string \<Rightarrow> bool \<times> goerror option" where
  "secretRepo_Exists c ns w name =
     (let err = map_option (wrapErr (''failed to get secret '' @ name @ ''-'' @ ns @ '': '')) (dc_getSecret c w name ns)
      in (\<not> IsNotFound err, IgnoreNotFound err))"

definition secretRepo_Delete :: "'w dclient \<Rightarrow> string \<Rightarrow> string \<Rightarrow> 'w \<Rightarrow> 'w \<times> goerror option" where
  "secretRepo_Delete c ns name w =
     (case dc_deleteSecret c name ns w of
        (w', None) \<Rightarrow> (w', None)
      | (w', Some e) \<Rightarrow>
          (w', if client_IgnoreNotFound e \<noteq> None
               then Some (wrapErr (''failed to delete secret '' @ name @ ''-'' @ ns @ '': '') e) else None))"

definition skrStatusRepo_Get :: "'w dclient \<Rightarrow> 'w \<Rightarrow> NamespacedName \<Rightarrow> goerror + KymaStatus" where
  "skrStatusRepo_Get c w n =
     (case skrClientRetriever c w n of
        Some e \<Rightarrow> Inl e
      | None \<Rightarrow>
          (case dc_getSkrKyma c w of
             Inl e \<Rightarrow> Inl (wrapErr ''failed to get Kyma CR from SKR: '' e)
           | Inr st \<Rightarrow> Inr st))"

definition errStatusPatchFailed :: goerror where
  "errStatusPatchFailed = Sentinel ''errStatusPatchFailed'' ''status patch failed''"

definition SetStateDeleting :: "'w dclient \<Rightarrow> NamespacedName \<Rightarrow> 'w \<Rightarrow> 'w \<times> goerror option" where
  "SetStateDeleting c n w =
     (case skrClientRetriever c w n of
        Some e \<Rightarrow> (w, Some e)
      | None \<Rightarrow>
          (case dc_applySkrState c StateDeleting ''.status.State set to Deleting'' w of
             (w', Some e) \<Rightarrow> (w', Some (errors_Join errStatusPatchFailed e))
           | (w', None) \<Rightarrow> (w', None)))"

text \<open>The pattern of the existence checks: not found is no error, any other error is returned.\<close>

definition exists_result :: "goerror option \<Rightarrow> bool \<times> goerror option" where
  "exists_result err = (\<not> IsNotFound err, IgnoreNotFound err)"

definition skrKymaRepo_Exists :: "'w dclient \<Rightarrow> 'w \<Rightarrow> NamespacedName \<Rightarrow> bool \<times> goerror option" where
  "skrKymaRepo_Exists c w n =
     (case skrClientRetriever c w n of
        Some e \<Rightarrow> (False, Some e)
      | None \<Rightarrow> exists_result (case dc_getSkrKyma c w of Inl e \<Rightarrow> Some e | Inr _ \<Rightarrow> None))"

definition skrKymaRepo_Delete :: "'w dclient \<Rightarrow> NamespacedName \<Rightarrow> 'w \<Rightarrow> 'w \<times> goerror option" where
  "skrKymaRepo_Delete c n w =
     (case skrClientRetriever c w n of
        Some e \<Rightarrow> (w, Some e)
      | None \<Rightarrow> (case dc_deleteSkrKyma c w of (w', e) \<Rightarrow> (w', IgnoreNotFound e)))"

definition crdRepo_Exists :: "'w dclient \<Rightarrow> string \<Rightarrow> 'w \<Rightarrow> NamespacedName \<Rightarrow> bool \<times> goerror option" where
  "crdRepo_Exists c crd w n =
     (case skrClientRetriever c w n of
        Some e \<Rightarrow> (False, Some e)
      | None \<Rightarrow> exists_result (dc_getSkrCrd c w crd))"

definition crdRepo_Delete :: "'w dclient \<Rightarrow> string \<Rightarrow> NamespacedName \<Rightarrow> 'w \<Rightarrow> 'w \<times> goerror option" where
  "crdRepo_Delete c crd n w =
     (case skrClientRetriever c w n of
        Some e \<Rightarrow> (w, Some e)
      | None \<Rightarrow> (case dc_deleteSkrCrd c crd w of (w', e) \<Rightarrow> (w', IgnoreNotFound e)))"

text \<open>
  The resources of the webhook are checked by concurrent goroutines. The first that finds its
  resource, or fails, decides and cancels the others; the list is the order in which they get
  their turn.
\<close>

fun check_resources :: "'w dclient \<Rightarrow> 'w \<Rightarrow> string list \<Rightarrow> goerror + bool" where
  "check_resources c w [] = Inr False"
| "check_resources c w (r # rs) =
     (case dc_getSkrResource c w r of
        None \<Rightarrow> Inr True
      | Some e \<Rightarrow>
          if reasonForError e = Some ReasonNotFound then check_resources c w rs
          else Inl (wrapErr ''failed to check resource: '' (wrapErr (''resource name '' @ r @ '': '') e)))"

definition ResourcesExist :: "'w dclient \<Rightarrow> string list \<Rightarrow> 'w \<Rightarrow> NamespacedName \<Rightarrow> goerror + bool" where
  "ResourcesExist c resources w n =
     (case skrClientRetriever c w n of Some e \<Rightarrow> Inl e | None \<Rightarrow> check_resources c w resources)"

definition delete_resource :: "'w dclient \<Rightarrow> string \<Rightarrow> 'w \<Rightarrow> 'w \<times> goerror option" where
  "delete_resource c r w =
     (case dc_deleteSkrResource c r w of
        (w', None) \<Rightarrow> (w', None)
      | (w', Some e) \<Rightarrow> (w', if IsNotFound (Some e) then None
                              else Some (wrapErr (''failed to delete resource '' @ r @ '': '') e)))"

definition DeleteWebhookResources ::
  "'w dclient \<Rightarrow> string list \<Rightarrow> NamespacedName \<Rightarrow> 'w \<Rightarrow> 'w \<times> goerror option" where
  "DeleteWebhookResources c resources n w =
     (case skrClientRetriever c w n of
        Some e \<Rightarrow> (w, Some e)
      | None \<Rightarrow>
          (case run_group (delete_resource c) resources w of
             (w', Some e) \<Rightarrow> (w', Some (wrapErr ''failed to delete webhook resources: '' e))
           | (w', None) \<Rightarrow> (w', None)))"

section \<open>Use cases\<close>

record 'w use_case =
  uc_Name :: string
  uc_IsApplicable :: "Kyma \<Rightarrow> 'w \<Rightarrow> goerror + bool"
  uc_Execute :: "Kyma \<Rightarrow> 'w \<Rightarrow> 'w \<times> Result"

record deletion_config =
  cfg_ManifestNamespace :: string
  cfg_SecretNamespace :: string
  cfg_KymaNamespace :: string
  cfg_WebhookResources :: "string list"

text \<open>\<^verbatim>\<open>Execute\<close> of a use case that returns an error under its own name.\<close>

definition executed :: "string \<Rightarrow> 'w \<times> goerror option \<Rightarrow> 'w \<times> Result" where
  "executed name r = (fst r, \<lparr>res_UseCase = name, res_Err = snd r\<rparr>)"

definition marked_deleted :: "Kyma \<Rightarrow> bool" where
  "marked_deleted k = (om_DeletionTimestamp (kyma_Meta k) \<noteq> None)"

definition in_state_deleting :: "Kyma \<Rightarrow> bool" where
  "in_state_deleting k = (kst_State (kyma_Status k) = StateDeleting)"

definition SetKymaStatusDeletingUseCase :: "'w dclient \<Rightarrow> int \<Rightarrow> 'w use_case" where
  "SetKymaStatusDeletingUseCase c now =
     \<lparr>uc_Name = uc_SetKcpKymaStateDeleting,
      uc_IsApplicable = (\<lambda>k w. Inr (marked_deleted k \<and> \<not> in_state_deleting k)),
      uc_Execute = (\<lambda>k w. executed uc_SetKcpKymaStateDeleting (UpdateStatusDeleting c now k w))\<rparr>"

definition SetSkrKymaStateDeleting :: "'w dclient \<Rightarrow> 'w use_case" where
  "SetSkrKymaStateDeleting c =
     \<lparr>uc_Name = uc_SetSkrKymaStateDeleting,
      uc_IsApplicable = (\<lambda>k w.
        if \<not> marked_deleted k then Inr False
        else (case skrStatusRepo_Get c w (Kyma_NamespacedName k) of
                Inl e \<Rightarrow> if errors_Is e ErrSkrClientNotFound \<or> IsNotFound (Some e) then Inr False else Inl e
              | Inr st \<Rightarrow> Inr (kst_State st \<noteq> StateDeleting))),
      uc_Execute = (\<lambda>k w. executed uc_SetSkrKymaStateDeleting (SetStateDeleting c (Kyma_NamespacedName k) w))\<rparr>"

definition DeleteManifests :: "'w dclient \<Rightarrow> deletion_config \<Rightarrow> 'w use_case" where
  "DeleteManifests c cfg =
     \<lparr>uc_Name = uc_DeleteManifests,
      uc_IsApplicable = (\<lambda>k w.
        ExistForKymaWithoutDeletionTimestamp c (cfg_ManifestNamespace cfg) w (om_Name (kyma_Meta k))),
      uc_Execute = (\<lambda>k w. executed uc_DeleteManifests
        (DeleteAllForKyma c (cfg_ManifestNamespace cfg) (om_Name (kyma_Meta k)) w))\<rparr>"

definition SkrCertificate :: "string \<Rightarrow> string" where
  "SkrCertificate kymaName = kymaName @ ''-webhook-tls''"

definition errFailedToDetermineWatcherCleanupApplicability :: goerror where
  "errFailedToDetermineWatcherCleanupApplicability =
     Sentinel ''errFailedToDetermineWatcherCleanupApplicability''
       ''failed to determine applicability for removing SKR certificate''"
definition errFailedToDeleteWatcherSkrCertificate :: goerror where
  "errFailedToDeleteWatcherSkrCertificate =
     Sentinel ''errFailedToDeleteWatcherSkrCertificate'' ''failed to delete SKR certificate''"
definition errFailedToDeleteWatcherSkrSecret :: goerror where
  "errFailedToDeleteWatcherSkrSecret =
     Sentinel ''errFailedToDeleteWatcherSkrSecret'' ''failed to delete SKR secret''"

definition cert_applicable :: "'w dclient \<Rightarrow> deletion_config \<Rightarrow> Kyma \<Rightarrow> 'w \<Rightarrow> goerror + bool" where
  "cert_applicable c cfg k w =
     (if \<not> marked_deleted k \<or> \<not> in_state_deleting k then Inr False
      else (let certName = SkrCertificate (om_Name (kyma_Meta k)) in
        case dc_certExists c w certName of
          Inl e \<Rightarrow> Inl (errors_Join errFailedToDetermineWatcherCleanupApplicability e)
        | Inr True \<Rightarrow> Inr True
        | Inr False \<Rightarrow>
            (case secretRepo_Exists c (cfg_SecretNamespace cfg) w certName of
               (ex, Some e) \<Rightarrow> Inl (errors_Join errFailedToDetermineWatcherCleanupApplicability e)
             | (ex, None) \<Rightarrow> Inr ex)))"

definition cert_execute :: "'w dclient \<Rightarrow> deletion_config \<Rightarrow> Kyma \<Rightarrow> 'w \<Rightarrow> 'w \<times> goerror option" where
  "cert_execute c cfg k w =
     (let certName = SkrCertificate (om_Name (kyma_Meta k)) in
      on_err (dc_deleteCert c certName w)
        (\<lambda>w e. (w, Some (errors_Join errFailedToDeleteWatcherSkrCertificate e)))
        (\<lambda>w. on_err (secretRepo_Delete c (cfg_SecretNamespace cfg) certName w)
           (\<lambda>w e. (w, Some (errors_Join errFailedToDeleteWatcherSkrSecret e)))
           (\<lambda>w. (w, None))))"

definition DeleteWatcherCertificateSetup :: "'w dclient \<Rightarrow> deletion_config \<Rightarrow> 'w use_case" where
  "DeleteWatcherCertificateSetup c cfg =
     \<lparr>uc_Name = uc_DeleteWatcherCertificateSetup,
      uc_IsApplicable = cert_applicable c cfg,
      uc_Execute = (\<lambda>k w. executed uc_DeleteWatcherCertificateSetup (cert_execute c cfg k w))\<rparr>"

definition errFailedToDetermineApplicability :: goerror where
  "errFailedToDetermineApplicability = Sentinel ''errFailedToDetermineApplicability''
     ''failed to determine applicability for removing SKR webhook resources''"
definition errFailedToRemoveSkrWebhookResources :: goerror where
  "errFailedToRemoveSkrWebhookResources =
     Sentinel ''errFailedToRemoveSkrWebhookResources'' ''failed to remove SKR webhook resources''"

definition webhook_applicable :: "'w dclient \<Rightarrow> deletion_config \<Rightarrow> Kyma \<Rightarrow> 'w \<Rightarrow> goerror + bool" where
  "webhook_applicable c cfg k w =
     (if \<not> marked_deleted k \<or> \<not> in_state_deleting k then Inr False
      else (case ResourcesExist c (cfg_WebhookResources cfg) w (Kyma_NamespacedName k) of
              Inl e \<Rightarrow> if errors_Is e ErrSkrClientNotFound then Inr False
                       else Inl (errors_Join errFailedToDetermineApplicability e)
            | Inr ex \<Rightarrow> Inr ex))"

definition webhook_execute :: "'w dclient \<Rightarrow> deletion_config \<Rightarrow> Kyma \<Rightarrow> 'w \<Rightarrow> 'w \<times> goerror option" where
  "webhook_execute c cfg k w =
     on_err (DeleteWebhookResources c (cfg_WebhookResources cfg) (Kyma_NamespacedName k) w)
       (\<lambda>w e. (w, Some (errors_Join errFailedToRemoveSkrWebhookResources e)))
       (\<lambda>w. (w, None))"

definition DeleteSkrWebhookResources :: "'w dclient \<Rightarrow> deletion_config \<Rightarrow> 'w use_case" where
  "DeleteSkrWebhookResources c cfg =
     \<lparr>uc_Name = uc_DeleteSkrWebhookResources,
      uc_IsApplicable = webhook_applicable c cfg,
      uc_Execute = (\<lambda>k w. executed uc_DeleteSkrWebhookResources (webhook_execute c cfg k w))\<rparr>"

text \<open>The applicability of the use cases that look at an object of the SKR.\<close>

definition skr_applicable :: "Kyma \<Rightarrow> bool \<times> goerror option \<Rightarrow> goerror + bool" where
  "skr_applicable k r =
     (if \<not> marked_deleted k then Inr False
      else (case r of
              (ex, Some e) \<Rightarrow> if errors_Is e ErrSkrClientNotFound then Inr False else Inl e
            | (ex, None) \<Rightarrow> Inr ex))"

definition DeleteSkrCrd :: "'w dclient \<Rightarrow> string \<Rightarrow> string \<Rightarrow> 'w use_case" where
  "DeleteSkrCrd c crd name =
     \<lparr>uc_Name = name,
      uc_IsApplicable = (\<lambda>k w. skr_applicable k (crdRepo_Exists c crd w (Kyma_NamespacedName k))),
      uc_Execute = (\<lambda>k w. executed name (crdRepo_Delete c crd (Kyma_NamespacedName k) w))\<rparr>"

definition DeleteSkrKyma :: "'w dclient \<Rightarrow> 'w use_case" where
  "DeleteSkrKyma c =
     \<lparr>uc_Name = uc_DeleteSkrKyma,
      uc_IsApplicable = (\<lambda>k w. skr_applicable k (skrKymaRepo_Exists c w (Kyma_NamespacedName k))),
      uc_Execute = (\<lambda>k w. executed uc_DeleteSkrKyma (skrKymaRepo_Delete c (Kyma_NamespacedName k) w))\<rparr>"

definition DeleteMetrics :: "'w dclient \<Rightarrow> 'w use_case" where
  "DeleteMetrics c =
     \<lparr>uc_Name = uc_DeleteMetrics,
      uc_IsApplicable = (\<lambda>k w. dc_hasMetrics c w (om_Name (kyma_Meta k))),
      uc_Execute = (\<lambda>k w. executed uc_DeleteMetrics (dc_cleanupMetrics c (om_Name (kyma_Meta k)) w, None))\<rparr>"

definition EnsureManifestDeletion :: "'w dclient \<Rightarrow> deletion_config \<Rightarrow> 'w use_case" where
  "EnsureManifestDeletion c cfg =
     \<lparr>uc_Name = uc_EnsureManifestDeletion,
      uc_IsApplicable = (\<lambda>k w. ExistForKyma c (cfg_ManifestNamespace cfg) w (om_Name (kyma_Meta k))),
      uc_Execute = (\<lambda>k w. executed uc_EnsureManifestDeletion (w, None))\<rparr>"

definition DropKymaFinalizer :: "'w dclient \<Rightarrow> klib \<Rightarrow> deletion_config \<Rightarrow> 'w use_case" where
  "DropKymaFinalizer c lib cfg =
     \<lparr>uc_Name = uc_DropKymaFinalizer,
      uc_IsApplicable = (\<lambda>k w. Inr (ContainsFinalizer (kyma_Meta k) KymaFinalizer)),
      uc_Execute = (\<lambda>k w. executed uc_DropKymaFinalizer
        (DropFinalizer c lib (cfg_KymaNamespace cfg) (om_Name (kyma_Meta k)) KymaFinalizer w))\<rparr>"

section \<open>The service\<close>

definition crd_name :: "string \<Rightarrow> string" where
  "crd_name plural = plural @ ''.'' @ OperatorGroup"

definition deletionSteps :: "'w dclient \<Rightarrow> klib \<Rightarrow> deletion_config \<Rightarrow> int \<Rightarrow> 'w use_case list" where
  "deletionSteps c lib cfg now =
     [SetKymaStatusDeletingUseCase c now,
      SetSkrKymaStateDeleting c,
      DeleteManifests c cfg,
      DeleteWatcherCertificateSetup c cfg,
      DeleteSkrWebhookResources c cfg,
      DeleteSkrCrd c (crd_name ''moduletemplates'') uc_DeleteSkrModuleTemplateCrd,
      DeleteSkrCrd c (crd_name ''modulereleasemetas'') uc_DeleteSkrModuleReleaseMetaCrd,
      DeleteSkrKyma c,
      DeleteSkrCrd c (crd_name ''kymas'') uc_DeleteSkrKymaCrd,
      DeleteMetrics c,
      EnsureManifestDeletion c cfg,
      DropKymaFinalizer c lib cfg]"

definition expectedUseCaseOrder :: "string list" where
  "expectedUseCaseOrder =
     [uc_SetKcpKymaStateDeleting, uc_SetSkrKymaStateDeleting, uc_DeleteManifests,
      uc_DeleteWatcherCertificateSetup, uc_DeleteSkrWebhookResources, uc_DeleteSkrModuleTemplateCrd,
      uc_DeleteSkrModuleReleaseMetaCrd, uc_DeleteSkrKyma, uc_DeleteSkrKymaCrd, uc_DeleteMetrics,
      uc_EnsureManifestDeletion, uc_DropKymaFinalizer]"

definition misplaced :: "'w use_case list \<Rightarrow> nat list" where
  "misplaced steps = filter (\<lambda>i. uc_Name (steps ! i) \<noteq> expectedUseCaseOrder ! i) [0..<length expectedUseCaseOrder]"

definition enforceUseCaseOrder :: "'w use_case list \<Rightarrow> goerror option" where
  "enforceUseCaseOrder steps =
     (if misplaced steps = [] then None
      else Some (errors_JoinAll (ErrUseCasesOutOfOrder # map (\<lambda>i. Errorf [Lit (''expected use case ''
             @ expectedUseCaseOrder ! i @ '' at position '' @ decimal i @ '' but found '' @ uc_Name (steps ! i))])
             (misplaced steps))))"

fun Delete :: "'w use_case list \<Rightarrow> Kyma \<Rightarrow> 'w \<Rightarrow> 'w \<times> Result" where
  "Delete [] k w = (w, \<lparr>res_UseCase = [], res_Err = Some ErrNoUseCaseApplicable\<rparr>)"
| "Delete (u # us) k w =
     (case uc_IsApplicable u k w of
        Inl e \<Rightarrow> (w, \<lparr>res_UseCase = uc_Name u,
                      res_Err = Some (errors_Join ErrUnableToDetermineUsecaseApplicability e)\<rparr>)
      | Inr True \<Rightarrow> uc_Execute u k w
      | Inr False \<Rightarrow> Delete us k w)"

section \<open>The interface of a use case\<close>

locale use_cases =
  fixes steps :: "'w use_case list"
  assumes named: "u \<in> set steps \<Longrightarrow> res_UseCase (snd (uc_Execute u k w)) = uc_Name u"
    and name_nonempty: "u \<in> set steps \<Longrightarrow> uc_Name u \<noteq> []"
    and distinct_names: "distinct (map uc_Name steps)"
begin

lemma Delete_sublist:
  assumes "set us \<subseteq> set steps"
  shows "res_UseCase (snd (Delete us k w)) \<in> insert [] (uc_Name ` set us)"
  using assms named by (induction us) (auto split: sum.splits bool.splits)

text \<open>The step that is executed is applicable, and no step before it is.\<close>

lemma Delete_picks:
  assumes "steps = pre @ u # post" and "res_UseCase (snd (Delete steps k w)) = uc_Name u"
    and "\<forall>e. uc_IsApplicable u k w \<noteq> Inl e"
  shows "uc_IsApplicable u k w = Inr True \<and> Delete steps k w = uc_Execute u k w
    \<and> (\<forall>v \<in> set pre. uc_IsApplicable v k w = Inr False)"
proof -
  have sub: "set (pre @ u # post) \<subseteq> set steps" and nodup: "distinct (map uc_Name (pre @ u # post))"
    using assms(1) distinct_names by auto
  have "res_UseCase (snd (Delete (pre @ u # post) k w)) = uc_Name u"
    using assms(1,2) by simp
  from this sub nodup have "uc_IsApplicable u k w = Inr True \<and> Delete (pre @ u # post) k w = uc_Execute u k w
    \<and> (\<forall>v \<in> set pre. uc_IsApplicable v k w = Inr False)"
  proof (induction pre)
    case Nil
    show ?case
    proof (cases "uc_IsApplicable u k w")
      case (Inl e)
      then show ?thesis using assms(3) by blast
    next
      case (Inr b)
      have "res_UseCase (snd (Delete post k w)) \<noteq> uc_Name u"
        using Delete_sublist [of post k w] Nil.prems name_nonempty [of u] by force
      then show ?thesis using Nil.prems Inr by (cases b) auto
    qed
  next
    case (Cons v pre)
    have neq: "uc_Name v \<noteq> uc_Name u" using Cons.prems by auto
    have "res_UseCase (snd (uc_Execute v k w)) = uc_Name v" using Cons.prems named by simp
    then have "uc_IsApplicable v k w = Inr False"
      using neq Cons.prems by (cases "uc_IsApplicable v k w") (auto split: bool.splits)
    then show ?case using Cons by simp
  qed
  then show ?thesis using assms(1) by simp
qed

end

interpretation kyma_deletion: use_cases "deletionSteps c lib cfg now" for c lib cfg now
  by unfold_locales
    (auto simp: deletionSteps_def executed_def SetKymaStatusDeletingUseCase_def SetSkrKymaStateDeleting_def
      DeleteManifests_def DeleteWatcherCertificateSetup_def DeleteSkrWebhookResources_def DeleteSkrCrd_def
      DeleteSkrKyma_def DeleteMetrics_def EnsureManifestDeletion_def DropKymaFinalizer_def uc_defs)

section \<open>Safety\<close>

text \<open>The errors of the SKR's API server are not the sentinel of a client that is not in the cache.\<close>

definition server_errors :: "'w dclient \<Rightarrow> bool" where
  "server_errors c \<longleftrightarrow>
     (\<forall>w crd e. dc_getSkrCrd c w crd = Some e \<longrightarrow> \<not> errors_Is e ErrSkrClientNotFound)
     \<and> (\<forall>w r e. dc_getSkrResource c w r = Some e \<longrightarrow> \<not> errors_Is e ErrSkrClientNotFound)
     \<and> (\<forall>w e. dc_getSkrKyma c w = Inl e \<longrightarrow> \<not> errors_Is e ErrSkrClientNotFound)"

lemma skr_applicable_False:
  assumes "server_errors c" and "marked_deleted k" and "skr_applicable k (crdRepo_Exists c crd w (Kyma_NamespacedName k)) = Inr False"
    and "dc_skrClientCached c w (Kyma_NamespacedName k)"
  shows "IsNotFound (dc_getSkrCrd c w crd)"
  using assms
  by (cases "dc_getSkrCrd c w crd")
    (auto simp: skr_applicable_def crdRepo_Exists_def skrClientRetriever_def exists_result_def
      IgnoreNotFound_def server_errors_def split: if_splits)

lemma skr_kyma_applicable_False:
  assumes "server_errors c" and "marked_deleted k"
    and "skr_applicable k (skrKymaRepo_Exists c w (Kyma_NamespacedName k)) = Inr False"
    and "dc_skrClientCached c w (Kyma_NamespacedName k)"
  shows "\<exists>e. dc_getSkrKyma c w = Inl e \<and> IsNotFound (Some e)"
  using assms
  by (cases "dc_getSkrKyma c w")
    (auto simp: skr_applicable_def skrKymaRepo_Exists_def skrClientRetriever_def exists_result_def
      IgnoreNotFound_def server_errors_def split: if_splits)

lemma check_resources_False:
  "check_resources c w rs = Inr False \<Longrightarrow> r \<in> set rs \<Longrightarrow>
     \<exists>e. dc_getSkrResource c w r = Some e \<and> reasonForError e = Some ReasonNotFound"
  by (induction rs) (auto split: option.splits if_splits)

text \<open>
  Nothing is left to clean up: on the control plane the Kyma is in state Deleting, it has no
  Manifests, certificate, certificate secret or metrics; and on the SKR, when it can be reached,
  there is no webhook resource that reports its existence, no CRD and no Kyma.
\<close>

definition nothing_left :: "'w dclient \<Rightarrow> deletion_config \<Rightarrow> Kyma \<Rightarrow> 'w \<Rightarrow> bool" where
  "nothing_left c cfg k w \<longleftrightarrow>
     in_state_deleting k
     \<and> dc_listManifests c w (cfg_ManifestNamespace cfg) (om_Name (kyma_Meta k)) = Inr []
     \<and> dc_certExists c w (SkrCertificate (om_Name (kyma_Meta k))) = Inr False
     \<and> (\<exists>e. dc_getSecret c w (SkrCertificate (om_Name (kyma_Meta k))) (cfg_SecretNamespace cfg) = Some e)
     \<and> dc_hasMetrics c w (om_Name (kyma_Meta k)) = Inr False
     \<and> (dc_skrClientCached c w (Kyma_NamespacedName k) \<longrightarrow>
          (\<forall>crd \<in> {crd_name ''moduletemplates'', crd_name ''modulereleasemetas'', crd_name ''kymas''}.
              IsNotFound (dc_getSkrCrd c w crd))
          \<and> (\<exists>e. dc_getSkrKyma c w = Inl e \<and> IsNotFound (Some e))
          \<and> (\<forall>r \<in> set (cfg_WebhookResources cfg). \<exists>e. dc_getSkrResource c w r = Some e
               \<and> reasonForError e = Some ReasonNotFound))"

lemmas use_case_defs =
  SetKymaStatusDeletingUseCase_def SetSkrKymaStateDeleting_def DeleteManifests_def
  DeleteWatcherCertificateSetup_def DeleteSkrWebhookResources_def DeleteSkrCrd_def DeleteSkrKyma_def
  DeleteMetrics_def EnsureManifestDeletion_def DropKymaFinalizer_def

lemma steps_before_drop:
  "deletionSteps c lib cfg now =
     [SetKymaStatusDeletingUseCase c now, SetSkrKymaStateDeleting c, DeleteManifests c cfg,
      DeleteWatcherCertificateSetup c cfg, DeleteSkrWebhookResources c cfg,
      DeleteSkrCrd c (crd_name ''moduletemplates'') uc_DeleteSkrModuleTemplateCrd,
      DeleteSkrCrd c (crd_name ''modulereleasemetas'') uc_DeleteSkrModuleReleaseMetaCrd,
      DeleteSkrKyma c, DeleteSkrCrd c (crd_name ''kymas'') uc_DeleteSkrKymaCrd, DeleteMetrics c,
      EnsureManifestDeletion c cfg] @ DropKymaFinalizer c lib cfg # []"
  by (simp add: deletionSteps_def)

lemma cert_not_applicable:
  assumes "cert_applicable c cfg k w = Inr False" and "marked_deleted k" and "in_state_deleting k"
  shows "dc_certExists c w (SkrCertificate (om_Name (kyma_Meta k))) = Inr False
    \<and> (\<exists>e. dc_getSecret c w (SkrCertificate (om_Name (kyma_Meta k))) (cfg_SecretNamespace cfg) = Some e)"
  using assms
  by (cases "dc_certExists c w (SkrCertificate (om_Name (kyma_Meta k)))";
      cases "dc_getSecret c w (SkrCertificate (om_Name (kyma_Meta k))) (cfg_SecretNamespace cfg)")
    (auto simp: cert_applicable_def secretRepo_Exists_def Let_def IgnoreNotFound_def split: bool.splits)

lemma check_resources_error:
  assumes "\<forall>r e. dc_getSkrResource c w r = Some e \<longrightarrow> \<not> errors_Is e ErrSkrClientNotFound"
  shows "check_resources c w rs = Inl e \<Longrightarrow> \<not> errors_Is e ErrSkrClientNotFound"
proof (induction rs)
  case (Cons r rs)
  then show ?case
    using assms by (cases "dc_getSkrResource c w r") (auto simp: ErrSkrClientNotFound_def split: if_splits)
qed simp

lemma webhook_not_applicable:
  assumes "server_errors c" and "webhook_applicable c cfg k w = Inr False" and "marked_deleted k"
    and "in_state_deleting k" and "dc_skrClientCached c w (Kyma_NamespacedName k)"
    and "r \<in> set (cfg_WebhookResources cfg)"
  shows "\<exists>e. dc_getSkrResource c w r = Some e \<and> reasonForError e = Some ReasonNotFound"
proof -
  have "check_resources c w (cfg_WebhookResources cfg) = Inr False"
    using assms(1-5) check_resources_error [of c w "cfg_WebhookResources cfg"]
    by (cases "check_resources c w (cfg_WebhookResources cfg)")
      (auto simp: webhook_applicable_def ResourcesExist_def skrClientRetriever_def server_errors_def split: if_splits)
  then show ?thesis using check_resources_False assms(6) by metis
qed


section \<open>Clusters that do what they are asked\<close>

text \<open>
  The part of the two clusters that the deletion is about, and what the calls do to it when they
  succeed: an object that is deleted is gone, a Manifest that is deleted gets a deletion timestamp
  until the manifest controller has cleaned up after it.
\<close>

record cluster =
  cl_Kyma :: Kyma
  cl_Manifests :: "Manifest list"
  cl_Secrets :: "(string \<times> string) list"
  cl_Certs :: "string list"
  cl_SkrCached :: bool
  cl_SkrKyma :: "KymaStatus option"
  cl_SkrCrds :: "string list"
  cl_SkrResources :: "string list"
  cl_Metrics :: "string list"

definition of_kyma :: "string \<Rightarrow> string \<Rightarrow> Manifest \<Rightarrow> bool" where
  "of_kyma ns kymaName m = (om_Namespace (man_Meta m) = ns \<and> man_labels m KymaNameLabel = Some kymaName)"

definition mark_deleted :: "Manifest \<Rightarrow> Manifest" where
  "mark_deleted m = (if om_DeletionTimestamp (man_Meta m) = None
     then m\<lparr>man_Meta := (man_Meta m)\<lparr>om_DeletionTimestamp := Some 0\<rparr>\<rparr> else m)"

definition found :: "bool \<Rightarrow> goerror option" where
  "found b = (if b then None else Some notFoundErr)"

definition ref_dclient :: "cluster dclient" where
  "ref_dclient =
     \<lparr>dc_listManifests = (\<lambda>w ns n. Inr (filter (of_kyma ns n) (cl_Manifests w))),
      dc_deleteAllManifests = (\<lambda>ns n w. (w\<lparr>cl_Manifests :=
         map (\<lambda>m. if of_kyma ns n m then mark_deleted m else m) (cl_Manifests w)\<rparr>, None)),
      dc_patchKymaStatus = (\<lambda>k w. (w\<lparr>cl_Kyma := (cl_Kyma w)\<lparr>kyma_Status := kyma_Status k\<rparr>\<rparr>, None)),
      dc_getKyma = (\<lambda>w n ns. if (ns, n) = Kyma_NamespacedName (cl_Kyma w) then Inr (cl_Kyma w) else Inl notFoundErr),
      dc_patchFinalizers = (\<lambda>n ns fs w. (w\<lparr>cl_Kyma := (cl_Kyma w)
         \<lparr>kyma_Meta := (kyma_Meta (cl_Kyma w))\<lparr>om_Finalizers := fs\<rparr>\<rparr>\<rparr>, None)),
      dc_getSecret = (\<lambda>w n ns. found ((n, ns) \<in> set (cl_Secrets w))),
      dc_deleteSecret = (\<lambda>n ns w. (w\<lparr>cl_Secrets := filter (\<lambda>x. x \<noteq> (n, ns)) (cl_Secrets w)\<rparr>, None)),
      dc_certExists = (\<lambda>w n. Inr (n \<in> set (cl_Certs w))),
      dc_deleteCert = (\<lambda>n w. (w\<lparr>cl_Certs := filter (\<lambda>x. x \<noteq> n) (cl_Certs w)\<rparr>, None)),
      dc_skrClientCached = (\<lambda>w n. cl_SkrCached w),
      dc_getSkrKyma = (\<lambda>w. case cl_SkrKyma w of None \<Rightarrow> Inl notFoundErr | Some st \<Rightarrow> Inr st),
      dc_applySkrState = (\<lambda>s op w. (w\<lparr>cl_SkrKyma := map_option (\<lambda>st. st\<lparr>kst_State := s\<rparr>) (cl_SkrKyma w)\<rparr>, None)),
      dc_deleteSkrKyma = (\<lambda>w. (w\<lparr>cl_SkrKyma := None\<rparr>, None)),
      dc_getSkrCrd = (\<lambda>w crd. found (crd \<in> set (cl_SkrCrds w))),
      dc_deleteSkrCrd = (\<lambda>crd w. (w\<lparr>cl_SkrCrds := filter (\<lambda>x. x \<noteq> crd) (cl_SkrCrds w)\<rparr>, None)),
      dc_getSkrResource = (\<lambda>w r. found (r \<in> set (cl_SkrResources w))),
      dc_deleteSkrResource = (\<lambda>r w. (w\<lparr>cl_SkrResources := filter (\<lambda>x. x \<noteq> r) (cl_SkrResources w)\<rparr>, None)),
      dc_hasMetrics = (\<lambda>w n. Inr (n \<in> set (cl_Metrics w))),
      dc_cleanupMetrics = (\<lambda>n w. w\<lparr>cl_Metrics := filter (\<lambda>x. x \<noteq> n) (cl_Metrics w)\<rparr>)\<rparr>"

text \<open>
  Clients that behave like this on a view \<open>view\<close> of their state: every read answers as the view
  says, every write succeeds and changes the view accordingly.
\<close>

definition implements :: "'w dclient \<Rightarrow> ('w \<Rightarrow> cluster) \<Rightarrow> bool" where
  "implements c view \<longleftrightarrow>
     (\<forall>w. dc_listManifests c w = dc_listManifests ref_dclient (view w)
        \<and> dc_getKyma c w = dc_getKyma ref_dclient (view w)
        \<and> dc_getSecret c w = dc_getSecret ref_dclient (view w)
        \<and> dc_certExists c w = dc_certExists ref_dclient (view w)
        \<and> dc_skrClientCached c w = dc_skrClientCached ref_dclient (view w)
        \<and> dc_getSkrKyma c w = dc_getSkrKyma ref_dclient (view w)
        \<and> dc_getSkrCrd c w = dc_getSkrCrd ref_dclient (view w)
        \<and> dc_getSkrResource c w = dc_getSkrResource ref_dclient (view w)
        \<and> dc_hasMetrics c w = dc_hasMetrics ref_dclient (view w)
        \<and> (\<forall>ns n. map_prod view id (dc_deleteAllManifests c ns n w) = dc_deleteAllManifests ref_dclient ns n (view w))
        \<and> (\<forall>k. map_prod view id (dc_patchKymaStatus c k w) = dc_patchKymaStatus ref_dclient k (view w))
        \<and> (\<forall>n ns fs. map_prod view id (dc_patchFinalizers c n ns fs w) = dc_patchFinalizers ref_dclient n ns fs (view w))
        \<and> (\<forall>n ns. map_prod view id (dc_deleteSecret c n ns w) = dc_deleteSecret ref_dclient n ns (view w))
        \<and> (\<forall>n. map_prod view id (dc_deleteCert c n w) = dc_deleteCert ref_dclient n (view w))
        \<and> (\<forall>s m. map_prod view id (dc_applySkrState c s m w) = dc_applySkrState ref_dclient s m (view w))
        \<and> map_prod view id (dc_deleteSkrKyma c w) = dc_deleteSkrKyma ref_dclient (view w)
        \<and> (\<forall>crd. map_prod view id (dc_deleteSkrCrd c crd w) = dc_deleteSkrCrd ref_dclient crd (view w))
        \<and> (\<forall>r. map_prod view id (dc_deleteSkrResource c r w) = dc_deleteSkrResource ref_dclient r (view w))
        \<and> (\<forall>n. view (dc_cleanupMetrics c n w) = dc_cleanupMetrics ref_dclient n (view w)))"

lemma ref_implements: "implements ref_dclient id"
  by (simp add: implements_def map_prod.id)

lemma map_prod_eqD: "map_prod view id x = (cl, None) \<Longrightarrow> \<exists>w. x = (w, None) \<and> view w = cl"
  by (cases x) auto

text \<open>With such clients every use case acts on the view as it does with the reference clients.\<close>

definition simulates :: "('w \<Rightarrow> cluster) \<Rightarrow> 'w use_case \<Rightarrow> cluster use_case \<Rightarrow> bool" where
  "simulates view u u' \<longleftrightarrow> uc_Name u = uc_Name u'
     \<and> (\<forall>k w. uc_IsApplicable u k w = uc_IsApplicable u' k (view w))
     \<and> (\<forall>k w. map_prod view id (uc_Execute u k w) = uc_Execute u' k (view w))"

lemma simulates_Delete:
  assumes "list_all2 (simulates view) us us'"
  shows "map_prod view id (Delete us k w) = Delete us' k (view w)"
  using assms
proof (induction us us' rule: list_all2_induct)
  case (Cons u us u' us')
  then show ?case
    by (cases "uc_IsApplicable u k w") (auto simp: simulates_def id_def split: bool.splits)
qed simp


lemma implementsD:
  assumes "implements c view"
  shows "dc_listManifests c w = dc_listManifests ref_dclient (view w)"
    "dc_getKyma c w = dc_getKyma ref_dclient (view w)"
    "dc_getSecret c w = dc_getSecret ref_dclient (view w)"
    "dc_certExists c w = dc_certExists ref_dclient (view w)"
    "dc_skrClientCached c w = dc_skrClientCached ref_dclient (view w)"
    "dc_getSkrKyma c w = dc_getSkrKyma ref_dclient (view w)"
    "dc_getSkrCrd c w = dc_getSkrCrd ref_dclient (view w)"
    "dc_getSkrResource c w = dc_getSkrResource ref_dclient (view w)"
    "dc_hasMetrics c w = dc_hasMetrics ref_dclient (view w)"
    "dc_deleteAllManifests ref_dclient ns n (view w) = map_prod view id (dc_deleteAllManifests c ns n w)"
    "dc_patchKymaStatus ref_dclient k (view w) = map_prod view id (dc_patchKymaStatus c k w)"
    "dc_patchFinalizers ref_dclient n ns fs (view w) = map_prod view id (dc_patchFinalizers c n ns fs w)"
    "dc_deleteSecret ref_dclient n ns (view w) = map_prod view id (dc_deleteSecret c n ns w)"
    "dc_deleteCert ref_dclient n (view w) = map_prod view id (dc_deleteCert c n w)"
    "dc_applySkrState ref_dclient st m (view w) = map_prod view id (dc_applySkrState c st m w)"
    "dc_deleteSkrKyma ref_dclient (view w) = map_prod view id (dc_deleteSkrKyma c w)"
    "dc_deleteSkrCrd ref_dclient crd (view w) = map_prod view id (dc_deleteSkrCrd c crd w)"
    "dc_deleteSkrResource ref_dclient r (view w) = map_prod view id (dc_deleteSkrResource c r w)"
    "dc_cleanupMetrics ref_dclient n (view w) = view (dc_cleanupMetrics c n w)"
  using assms unfolding implements_def by simp_all

lemma skrClientRetriever_sim:
  assumes "implements c view"
  shows "skrClientRetriever c w n = skrClientRetriever ref_dclient (view w) n"
  by (simp add: skrClientRetriever_def implementsD [OF assms])

lemma executed_sim: "map_prod view id (executed n r) = executed n (map_prod view id r)"
  by (simp add: executed_def)

lemma check_resources_sim:
  assumes "implements c view"
  shows "check_resources c w rs = check_resources ref_dclient (view w) rs"
  by (induction rs) (simp_all add: implementsD [OF assms] split: option.splits)

lemma run_group_sim:
  assumes "\<And>x w. x \<in> set xs \<Longrightarrow> map_prod view id (f x w) = g x (view w)"
  shows "map_prod view id (run_group f xs w) = run_group g xs (view w)"
  using assms
proof (induction xs arbitrary: w)
  case (Cons x xs)
  obtain w' r where f: "f x w = (w', r)" by (cases "f x w")
  then have "g x (view w) = (view w', r)" using Cons.prems [of x w] by simp
  then show ?case using Cons f by (simp add: id_def split: prod.splits) (metis (no_types, lifting) fst_conv fst_map_prod snd_conv snd_map_prod map_prod_simp)
qed simp

lemma delete_resource_sim:
  assumes "implements c view"
  shows "map_prod view id (delete_resource c r w) = delete_resource ref_dclient r (view w)"
  by (simp add: delete_resource_def implementsD(18) [OF assms, of r w] split: prod.splits option.splits)

lemma secretRepo_Delete_sim:
  assumes "implements c view"
  shows "map_prod view id (secretRepo_Delete c ns n w) = secretRepo_Delete ref_dclient ns n (view w)"
  by (simp add: secretRepo_Delete_def implementsD(13) [OF assms] split: prod.splits option.splits)

lemma on_err_sim:
  assumes "y = map_prod view id x" and "\<And>w e. f (bad w e) = bad' (view w) e" and "\<And>w. f (ok w) = ok' (view w)"
  shows "f (on_err x bad ok) = on_err y bad' ok'"
  using assms by (cases x; cases "snd x") auto

lemma cert_execute_sim:
  assumes "implements c view"
  shows "map_prod view id (cert_execute c cfg k w) = cert_execute ref_dclient cfg k (view w)"
  unfolding cert_execute_def Let_def
  by (intro on_err_sim) (simp_all add: implementsD(14) [OF assms] secretRepo_Delete_sim [OF assms])

lemma webhook_execute_sim:
  assumes "implements c view"
  shows "map_prod view id (webhook_execute c cfg k w) = webhook_execute ref_dclient cfg k (view w)"
proof -
  have "map_prod view id (run_group (delete_resource c) rs w) = run_group (delete_resource ref_dclient) rs (view w)" for rs w
    by (rule run_group_sim) (simp add: delete_resource_sim [OF assms])
  then have "DeleteWebhookResources ref_dclient rs n (view w) = map_prod view id (DeleteWebhookResources c rs n w)" for rs n w
    by (auto simp: DeleteWebhookResources_def skrClientRetriever_sim [OF assms, symmetric]
        simp flip: \<open>\<And>rs w. _ = run_group (delete_resource ref_dclient) rs (view w)\<close>
        split: option.splits prod.splits)
  then show ?thesis unfolding webhook_execute_def by (intro on_err_sim) simp_all
qed

lemma cert_applicable_sim:
  assumes "implements c view"
  shows "cert_applicable c cfg k w = cert_applicable ref_dclient cfg k (view w)"
proof -
  have "secretRepo_Exists c ns w n = secretRepo_Exists ref_dclient ns (view w) n" for ns n
    by (simp add: secretRepo_Exists_def implementsD(3) [OF assms])
  then show ?thesis by (simp only: cert_applicable_def implementsD(4) [OF assms, of w])
qed

lemma webhook_applicable_sim:
  assumes "implements c view"
  shows "webhook_applicable c cfg k w = webhook_applicable ref_dclient cfg k (view w)"
proof -
  have "ResourcesExist c rs w n = ResourcesExist ref_dclient rs (view w) n" for rs n
    by (simp only: ResourcesExist_def skrClientRetriever_sim [OF assms] check_resources_sim [OF assms])
  then show ?thesis by (simp only: webhook_applicable_def)
qed

lemma deletionSteps_sim:
  assumes "implements c view"
  shows "list_all2 (simulates view) (deletionSteps c lib cfg now) (deletionSteps ref_dclient lib cfg now)"
proof -
  note i = implementsD [OF assms]
  have "simulates view (SetKymaStatusDeletingUseCase c now) (SetKymaStatusDeletingUseCase ref_dclient now)"
    by (auto simp: simulates_def SetKymaStatusDeletingUseCase_def executed_sim UpdateStatusDeleting_def
        updateKymaStatus_def Let_def i(11) split: prod.splits option.splits)
  moreover have "simulates view (SetSkrKymaStateDeleting c) (SetSkrKymaStateDeleting ref_dclient)"
    by (auto simp: simulates_def SetSkrKymaStateDeleting_def executed_sim skrStatusRepo_Get_def SetStateDeleting_def
        skrClientRetriever_sim [OF assms] i(6,15) split: prod.splits option.splits)
  moreover have "simulates view (DeleteManifests c cfg) (DeleteManifests ref_dclient cfg)"
    by (auto simp: simulates_def DeleteManifests_def executed_sim ExistForKymaWithoutDeletionTimestamp_def
        DeleteAllForKyma_def i(1,10) split: prod.splits option.splits)
  moreover have "simulates view (DeleteWatcherCertificateSetup c cfg) (DeleteWatcherCertificateSetup ref_dclient cfg)"
    by (simp add: simulates_def DeleteWatcherCertificateSetup_def executed_sim cert_execute_sim [OF assms]
        cert_applicable_sim [OF assms])
  moreover have "simulates view (DeleteSkrWebhookResources c cfg) (DeleteSkrWebhookResources ref_dclient cfg)"
    by (simp add: simulates_def DeleteSkrWebhookResources_def executed_sim webhook_execute_sim [OF assms]
        webhook_applicable_sim [OF assms])
  moreover have "simulates view (DeleteSkrCrd c crd n) (DeleteSkrCrd ref_dclient crd n)" for crd n
    by (auto simp: simulates_def DeleteSkrCrd_def executed_sim crdRepo_Exists_def crdRepo_Delete_def
        skrClientRetriever_sim [OF assms] i(7,17) split: prod.splits option.splits)
  moreover have "simulates view (DeleteSkrKyma c) (DeleteSkrKyma ref_dclient)"
    by (auto simp: simulates_def DeleteSkrKyma_def executed_sim skrKymaRepo_Exists_def skrKymaRepo_Delete_def
        skrClientRetriever_sim [OF assms] i(6,16) split: prod.splits option.splits)
  moreover have "simulates view (DeleteMetrics c) (DeleteMetrics ref_dclient)"
    by (simp add: simulates_def DeleteMetrics_def executed_sim i(9,19))
  moreover have "simulates view (EnsureManifestDeletion c cfg) (EnsureManifestDeletion ref_dclient cfg)"
    by (simp add: simulates_def EnsureManifestDeletion_def executed_sim ExistForKyma_def i(1))
  moreover have "simulates view (DropKymaFinalizer c lib cfg) (DropKymaFinalizer ref_dclient lib cfg)"
    by (auto simp: simulates_def DropKymaFinalizer_def executed_sim DropFinalizer_def kymaRepo_Get_def i(2,12)
        split: prod.splits sum.splits)
  ultimately show ?thesis unfolding deletionSteps_def by simp
qed

section \<open>Progress\<close>

text \<open>The manifest controller has finished with the Manifests that are marked for deletion.\<close>

definition settle :: "cluster \<Rightarrow> cluster" where
  "settle w = w\<lparr>cl_Manifests := filter (\<lambda>m. om_DeletionTimestamp (man_Meta m) = None) (cl_Manifests w)\<rparr>"

text \<open>What keeps a use case applicable.\<close>

definition todo :: "deletion_config \<Rightarrow> cluster \<Rightarrow> bool list" where
  "todo cfg w =
     (let k = cl_Kyma w; n = om_Name (kyma_Meta k) in
      [\<not> in_state_deleting k,
       cl_SkrCached w \<and> (case cl_SkrKyma w of None \<Rightarrow> False | Some st \<Rightarrow> kst_State st \<noteq> StateDeleting),
       list_ex (\<lambda>m. of_kyma (cfg_ManifestNamespace cfg) n m \<and> om_DeletionTimestamp (man_Meta m) = None) (cl_Manifests w),
       SkrCertificate n \<in> set (cl_Certs w) \<or> (SkrCertificate n, cfg_SecretNamespace cfg) \<in> set (cl_Secrets w),
       cl_SkrCached w \<and> list_ex (\<lambda>r. r \<in> set (cl_SkrResources w)) (cfg_WebhookResources cfg),
       cl_SkrCached w \<and> crd_name ''moduletemplates'' \<in> set (cl_SkrCrds w),
       cl_SkrCached w \<and> crd_name ''modulereleasemetas'' \<in> set (cl_SkrCrds w),
       cl_SkrCached w \<and> cl_SkrKyma w \<noteq> None,
       cl_SkrCached w \<and> crd_name ''kymas'' \<in> set (cl_SkrCrds w),
       n \<in> set (cl_Metrics w)])"

definition pending :: "deletion_config \<Rightarrow> cluster \<Rightarrow> nat" where
  "pending cfg w = length (filter id (todo cfg w))"

lemma Delete_Cons:
  "uc_IsApplicable u k w = Inr b \<Longrightarrow> Delete (u # us) k w = (if b then uc_Execute u k w else Delete us k w)"
  by simp

lemma IsNotFound_found [simp]: "IsNotFound (found b) = (\<not> b)"
  by (simp add: found_def IsNotFound_def notFoundErr_def reasonForError_def)

lemma IsNotFound_wrapped [simp]: "IsNotFound (Some (wrapErr s notFoundErr))"
  by (simp add: IsNotFound_def notFoundErr_def reasonForError_def)

lemma notFound_reason [simp]: "reasonForError notFoundErr = Some ReasonNotFound"
  by (simp add: notFoundErr_def reasonForError_def)

lemma check_resources_ref:
  "check_resources ref_dclient w rs = Inr (list_ex (\<lambda>r. r \<in> set (cl_SkrResources w)) rs)"
  by (induction rs) (simp_all add: ref_dclient_def found_def)

lemma IgnoreNotFound_found: "IgnoreNotFound (found b) = None"
  by (simp add: IgnoreNotFound_def) (simp add: found_def)

text \<open>The reference clients answer the applicability of every use case with its entry in \<open>todo\<close>.\<close>

lemma ref_applicable:
  fixes w defines "k \<equiv> cl_Kyma w"
  assumes "marked_deleted k"
  shows "uc_IsApplicable (SetKymaStatusDeletingUseCase ref_dclient now) k w = Inr (todo cfg w ! 0)"
    and "uc_IsApplicable (SetSkrKymaStateDeleting ref_dclient) k w = Inr (todo cfg w ! 1)"
    and "uc_IsApplicable (DeleteManifests ref_dclient cfg) k w = Inr (todo cfg w ! 2)"
    and "in_state_deleting k \<Longrightarrow> uc_IsApplicable (DeleteWatcherCertificateSetup ref_dclient cfg) k w = Inr (todo cfg w ! 3)"
    and "in_state_deleting k \<Longrightarrow> uc_IsApplicable (DeleteSkrWebhookResources ref_dclient cfg) k w = Inr (todo cfg w ! 4)"
    and "uc_IsApplicable (DeleteSkrCrd ref_dclient (crd_name ''moduletemplates'') x) k w = Inr (todo cfg w ! 5)"
    and "uc_IsApplicable (DeleteSkrCrd ref_dclient (crd_name ''modulereleasemetas'') x) k w = Inr (todo cfg w ! 6)"
    and "uc_IsApplicable (DeleteSkrKyma ref_dclient) k w = Inr (todo cfg w ! 7)"
    and "uc_IsApplicable (DeleteSkrCrd ref_dclient (crd_name ''kymas'') x) k w = Inr (todo cfg w ! 8)"
    and "uc_IsApplicable (DeleteMetrics ref_dclient) k w = Inr (todo cfg w ! 9)"
proof -
  have sentinel: "errors_Is (wrapPost ErrSkrClientNotFound s) ErrSkrClientNotFound" for s
    by (simp add: ErrSkrClientNotFound_def)
  have not_sentinel: "\<not> errors_Is (wrapErr s notFoundErr) ErrSkrClientNotFound" for s
    by (simp add: ErrSkrClientNotFound_def notFoundErr_def)
  show "uc_IsApplicable (SetKymaStatusDeletingUseCase ref_dclient now) k w = Inr (todo cfg w ! 0)"
    using assms by (simp add: SetKymaStatusDeletingUseCase_def todo_def Let_def)
  show "uc_IsApplicable (SetSkrKymaStateDeleting ref_dclient) k w = Inr (todo cfg w ! 1)"
    using assms by (auto simp: SetSkrKymaStateDeleting_def todo_def Let_def skrStatusRepo_Get_def
        skrClientRetriever_def ref_dclient_def sentinel split: option.splits)
  show "uc_IsApplicable (DeleteManifests ref_dclient cfg) k w = Inr (todo cfg w ! 2)"
    using assms by (auto simp: DeleteManifests_def todo_def Let_def ExistForKymaWithoutDeletionTimestamp_def
        ref_dclient_def list_ex_iff)
  show "in_state_deleting k \<Longrightarrow> uc_IsApplicable (DeleteWatcherCertificateSetup ref_dclient cfg) k w = Inr (todo cfg w ! 3)"
    using assms by (auto simp: DeleteWatcherCertificateSetup_def todo_def Let_def cert_applicable_def
        secretRepo_Exists_def ref_dclient_def found_def IgnoreNotFound_def split: bool.splits)
  show "in_state_deleting k \<Longrightarrow> uc_IsApplicable (DeleteSkrWebhookResources ref_dclient cfg) k w = Inr (todo cfg w ! 4)"
    using assms by (simp add: DeleteSkrWebhookResources_def todo_def Let_def webhook_applicable_def
        ResourcesExist_def skrClientRetriever_def check_resources_ref sentinel) (simp add: ref_dclient_def sentinel)
  have crd: "uc_IsApplicable (DeleteSkrCrd ref_dclient crd x) k w = Inr (cl_SkrCached w \<and> crd \<in> set (cl_SkrCrds w))" for crd x
    using assms by (simp add: DeleteSkrCrd_def skr_applicable_def crdRepo_Exists_def exists_result_def
        skrClientRetriever_def ref_dclient_def sentinel IgnoreNotFound_found)
  show "uc_IsApplicable (DeleteSkrCrd ref_dclient (crd_name ''moduletemplates'') x) k w = Inr (todo cfg w ! 5)"
    "uc_IsApplicable (DeleteSkrCrd ref_dclient (crd_name ''modulereleasemetas'') x) k w = Inr (todo cfg w ! 6)"
    "uc_IsApplicable (DeleteSkrCrd ref_dclient (crd_name ''kymas'') x) k w = Inr (todo cfg w ! 8)"
    by (simp_all add: crd todo_def Let_def)
  show "uc_IsApplicable (DeleteSkrKyma ref_dclient) k w = Inr (todo cfg w ! 7)"
    using assms by (cases "cl_SkrKyma w") (simp_all add: DeleteSkrKyma_def skr_applicable_def skrKymaRepo_Exists_def
        exists_result_def skrClientRetriever_def ref_dclient_def sentinel IgnoreNotFound_def todo_def Let_def
        IsNotFound_def)
  show "uc_IsApplicable (DeleteMetrics ref_dclient) k w = Inr (todo cfg w ! 9)"
    using assms by (simp add: DeleteMetrics_def todo_def Let_def ref_dclient_def)
qed


lemma run_group_delete_ref:
  "run_group (delete_resource ref_dclient) rs w =
     (w\<lparr>cl_SkrResources := filter (\<lambda>x. x \<notin> set rs) (cl_SkrResources w)\<rparr>, None)"
proof (induction rs arbitrary: w)
  case (Cons r rs)
  then show ?case by (simp add: delete_resource_def ref_dclient_def conj_commute)
qed simp

text \<open>What the reference clients do for every use case.\<close>

lemma ref_execute:
  fixes w defines "k \<equiv> cl_Kyma w" and "n \<equiv> om_Name (kyma_Meta (cl_Kyma w))"
  shows "\<exists>lo. fst (uc_Execute (SetKymaStatusDeletingUseCase ref_dclient now) k w) =
      w\<lparr>cl_Kyma := k\<lparr>kyma_Status := (kyma_Status k)\<lparr>kst_State := StateDeleting, kst_LastOperation := lo\<rparr>\<rparr>\<rparr>"
    and "todo cfg w ! 1 \<Longrightarrow> fst (uc_Execute (SetSkrKymaStateDeleting ref_dclient) k w) =
      w\<lparr>cl_SkrKyma := map_option (\<lambda>st. st\<lparr>kst_State := StateDeleting\<rparr>) (cl_SkrKyma w)\<rparr>"
    and "fst (uc_Execute (DeleteManifests ref_dclient cfg) k w) =
      w\<lparr>cl_Manifests := map (\<lambda>m. if of_kyma (cfg_ManifestNamespace cfg) n m then mark_deleted m else m) (cl_Manifests w)\<rparr>"
    and "fst (uc_Execute (DeleteWatcherCertificateSetup ref_dclient cfg) k w) =
      w\<lparr>cl_Certs := filter (\<lambda>x. x \<noteq> SkrCertificate n) (cl_Certs w),
        cl_Secrets := filter (\<lambda>x. x \<noteq> (SkrCertificate n, cfg_SecretNamespace cfg)) (cl_Secrets w)\<rparr>"
    and "cl_SkrCached w \<Longrightarrow> fst (uc_Execute (DeleteSkrWebhookResources ref_dclient cfg) k w) =
      w\<lparr>cl_SkrResources := filter (\<lambda>x. x \<notin> set (cfg_WebhookResources cfg)) (cl_SkrResources w)\<rparr>"
    and "cl_SkrCached w \<Longrightarrow> fst (uc_Execute (DeleteSkrCrd ref_dclient crd x) k w) =
      w\<lparr>cl_SkrCrds := filter (\<lambda>x. x \<noteq> crd) (cl_SkrCrds w)\<rparr>"
    and "cl_SkrCached w \<Longrightarrow> fst (uc_Execute (DeleteSkrKyma ref_dclient) k w) = w\<lparr>cl_SkrKyma := None\<rparr>"
    and "fst (uc_Execute (DeleteMetrics ref_dclient) k w) = w\<lparr>cl_Metrics := filter (\<lambda>x. x \<noteq> n) (cl_Metrics w)\<rparr>"
    and "uc_Execute (EnsureManifestDeletion ref_dclient cfg) k w =
      (w, \<lparr>res_UseCase = uc_EnsureManifestDeletion, res_Err = None\<rparr>)"
  unfolding k_def n_def
  by (auto simp: SetKymaStatusDeletingUseCase_def SetSkrKymaStateDeleting_def DeleteManifests_def
      DeleteWatcherCertificateSetup_def DeleteSkrWebhookResources_def DeleteSkrCrd_def DeleteSkrKyma_def
      DeleteMetrics_def EnsureManifestDeletion_def executed_def UpdateStatusDeleting_def updateKymaStatus_def
      SetStateDeleting_def DeleteAllForKyma_def cert_execute_def secretRepo_Delete_def webhook_execute_def
      DeleteWebhookResources_def run_group_delete_ref crdRepo_Delete_def skrKymaRepo_Delete_def
      skrClientRetriever_def todo_def Let_def, auto simp: ref_dclient_def)


lemma filter_id_less:
  assumes "list_all2 (\<lambda>y x. y \<longrightarrow> x) ys xs" and "i < length xs" and "xs ! i" and "\<not> ys ! i"
  shows "length (filter id ys) < length (filter id xs)"
proof -
  have len: "length ys = length xs" using assms(1) by (rule list_all2_lengthD)
  have "{j. j < length ys \<and> id (ys ! j)} \<subset> {j. j < length xs \<and> id (xs ! j)}"
  proof
    show "{j. j < length ys \<and> id (ys ! j)} \<subseteq> {j. j < length xs \<and> id (xs ! j)}"
      using assms(1) len by (auto simp: list_all2_conv_all_nth)
    show "{j. j < length ys \<and> id (ys ! j)} \<noteq> {j. j < length xs \<and> id (xs ! j)}"
      using assms(2-4) by auto
  qed
  then have "card {j. j < length ys \<and> id (ys ! j)} < card {j. j < length xs \<and> id (xs ! j)}"
    by (rule psubset_card_mono [rotated]) simp
  then show ?thesis by (simp only: length_filter_conv_card)
qed

definition same_meta :: "cluster \<Rightarrow> cluster \<Rightarrow> bool" where
  "same_meta w w' \<longleftrightarrow> kyma_Meta (cl_Kyma w') = kyma_Meta (cl_Kyma w)"

text \<open>Every use case but the last makes its own entry false and none true.\<close>

definition step_done :: "deletion_config \<Rightarrow> nat \<Rightarrow> cluster \<Rightarrow> cluster \<Rightarrow> bool" where
  "step_done cfg i w w' \<longleftrightarrow>
     list_all2 (\<lambda>y x. y \<longrightarrow> x) (todo cfg w') (todo cfg w) \<and> \<not> todo cfg w' ! i \<and> same_meta w w'"

lemma step_done_less: "step_done cfg i w w' \<Longrightarrow> i < 10 \<Longrightarrow> todo cfg w ! i \<Longrightarrow> pending cfg w' < pending cfg w"
  unfolding step_done_def pending_def by (rule filter_id_less [where i = i]) (simp_all add: todo_def Let_def)

lemma ref_step_done:
  fixes w defines "k \<equiv> cl_Kyma w"
  shows "step_done cfg 0 w (fst (uc_Execute (SetKymaStatusDeletingUseCase ref_dclient now) k w))"
    and "todo cfg w ! 1 \<Longrightarrow> step_done cfg 1 w (fst (uc_Execute (SetSkrKymaStateDeleting ref_dclient) k w))"
    and "step_done cfg 2 w (fst (uc_Execute (DeleteManifests ref_dclient cfg) k w))"
    and "step_done cfg 3 w (fst (uc_Execute (DeleteWatcherCertificateSetup ref_dclient cfg) k w))"
    and "todo cfg w ! 4 \<Longrightarrow> step_done cfg 4 w (fst (uc_Execute (DeleteSkrWebhookResources ref_dclient cfg) k w))"
    and "todo cfg w ! 5 \<Longrightarrow> step_done cfg 5 w (fst (uc_Execute (DeleteSkrCrd ref_dclient (crd_name ''moduletemplates'') x) k w))"
    and "todo cfg w ! 6 \<Longrightarrow> step_done cfg 6 w (fst (uc_Execute (DeleteSkrCrd ref_dclient (crd_name ''modulereleasemetas'') x) k w))"
    and "todo cfg w ! 7 \<Longrightarrow> step_done cfg 7 w (fst (uc_Execute (DeleteSkrKyma ref_dclient) k w))"
    and "todo cfg w ! 8 \<Longrightarrow> step_done cfg 8 w (fst (uc_Execute (DeleteSkrCrd ref_dclient (crd_name ''kymas'') x) k w))"
    and "step_done cfg 9 w (fst (uc_Execute (DeleteMetrics ref_dclient) k w))"
proof -
  note defs = step_done_def todo_def Let_def same_meta_def
  obtain lo where "fst (uc_Execute (SetKymaStatusDeletingUseCase ref_dclient now) k w) =
      w\<lparr>cl_Kyma := k\<lparr>kyma_Status := (kyma_Status k)\<lparr>kst_State := StateDeleting, kst_LastOperation := lo\<rparr>\<rparr>\<rparr>"
    unfolding k_def using ref_execute(1) by blast
  then show "step_done cfg 0 w (fst (uc_Execute (SetKymaStatusDeletingUseCase ref_dclient now) k w))"
    by (simp add: defs k_def in_state_deleting_def)
  show "step_done cfg 1 w (fst (uc_Execute (SetSkrKymaStateDeleting ref_dclient) k w))" if "todo cfg w ! 1"
    unfolding k_def ref_execute(2) [OF that] by (cases "cl_SkrKyma w") (simp_all add: defs)
  show "step_done cfg 2 w (fst (uc_Execute (DeleteManifests ref_dclient cfg) k w))"
    unfolding k_def ref_execute(3)
    by (auto simp: defs list_ex_iff mark_deleted_def of_kyma_def split: if_splits)
  show "step_done cfg 3 w (fst (uc_Execute (DeleteWatcherCertificateSetup ref_dclient cfg) k w))"
    unfolding k_def ref_execute(4) by (simp add: defs)
  show "step_done cfg 4 w (fst (uc_Execute (DeleteSkrWebhookResources ref_dclient cfg) k w))" if "todo cfg w ! 4"
  proof -
    have "cl_SkrCached w" using that by (simp add: todo_def Let_def)
    then show ?thesis unfolding k_def ref_execute(5) [OF \<open>cl_SkrCached w\<close>] by (auto simp: defs list_ex_iff)
  qed
  have crd: "cl_SkrCached w \<Longrightarrow> fst (uc_Execute (DeleteSkrCrd ref_dclient crd x) k w) =
      w\<lparr>cl_SkrCrds := filter (\<lambda>x. x \<noteq> crd) (cl_SkrCrds w)\<rparr>" for crd x
    unfolding k_def by (rule ref_execute(6))
  show "step_done cfg 5 w (fst (uc_Execute (DeleteSkrCrd ref_dclient (crd_name ''moduletemplates'') x) k w))" if "todo cfg w ! 5"
    using that by (auto simp: crd defs)
  show "step_done cfg 6 w (fst (uc_Execute (DeleteSkrCrd ref_dclient (crd_name ''modulereleasemetas'') x) k w))" if "todo cfg w ! 6"
    using that by (auto simp: crd defs)
  show "step_done cfg 8 w (fst (uc_Execute (DeleteSkrCrd ref_dclient (crd_name ''kymas'') x) k w))" if "todo cfg w ! 8"
    using that by (auto simp: crd defs)
  show "step_done cfg 7 w (fst (uc_Execute (DeleteSkrKyma ref_dclient) k w))" if "todo cfg w ! 7"
  proof -
    have "cl_SkrCached w" using that by (simp add: todo_def Let_def)
    then show ?thesis unfolding k_def ref_execute(7) [OF \<open>cl_SkrCached w\<close>] by (auto simp: defs)
  qed
  show "step_done cfg 9 w (fst (uc_Execute (DeleteMetrics ref_dclient) k w))"
    unfolding k_def ref_execute(8) by (simp add: defs)
qed


lemma Delete_first:
  assumes "\<forall>u \<in> set us. \<exists>b. uc_IsApplicable u k w = Inr b"
  shows "Delete (us @ rest) k w =
     (case find (\<lambda>u. uc_IsApplicable u k w = Inr True) us of
        Some u \<Rightarrow> uc_Execute u k w | None \<Rightarrow> Delete rest k w)"
  using assms by (induction us) (auto split: bool.splits)

definition cleanup_steps :: "'w dclient \<Rightarrow> deletion_config \<Rightarrow> int \<Rightarrow> 'w use_case list" where
  "cleanup_steps c cfg now = take 10 (deletionSteps c (ref_klib) cfg now)"

lemma deletionSteps_split:
  "deletionSteps c lib cfg now = cleanup_steps c cfg now @ [EnsureManifestDeletion c cfg, DropKymaFinalizer c lib cfg]"
  by (simp add: deletionSteps_def cleanup_steps_def)

lemma cleanup_steps_set:
  "set (cleanup_steps c cfg now) =
     {SetKymaStatusDeletingUseCase c now, SetSkrKymaStateDeleting c, DeleteManifests c cfg,
      DeleteWatcherCertificateSetup c cfg, DeleteSkrWebhookResources c cfg,
      DeleteSkrCrd c (crd_name ''moduletemplates'') uc_DeleteSkrModuleTemplateCrd,
      DeleteSkrCrd c (crd_name ''modulereleasemetas'') uc_DeleteSkrModuleReleaseMetaCrd,
      DeleteSkrKyma c, DeleteSkrCrd c (crd_name ''kymas'') uc_DeleteSkrKymaCrd, DeleteMetrics c}"
  by (simp add: cleanup_steps_def deletionSteps_def)

lemma not_deleting_not_applicable:
  "\<not> in_state_deleting k \<Longrightarrow> uc_IsApplicable (DeleteWatcherCertificateSetup c cfg) k w = Inr False"
  "\<not> in_state_deleting k \<Longrightarrow> uc_IsApplicable (DeleteSkrWebhookResources c cfg) k w = Inr False"
  by (simp_all add: DeleteWatcherCertificateSetup_def cert_applicable_def DeleteSkrWebhookResources_def
      webhook_applicable_def)

text \<open>A cleanup step is applicable exactly for something that is to do, and then does it.\<close>

definition step_ok :: "deletion_config \<Rightarrow> cluster \<Rightarrow> cluster use_case \<Rightarrow> bool" where
  "step_ok cfg w u \<longleftrightarrow>
     (\<exists>b. uc_IsApplicable u (cl_Kyma w) w = Inr b \<and>
        (b \<longrightarrow> (\<exists>i < 10. todo cfg w ! i \<and> step_done cfg i w (fst (uc_Execute u (cl_Kyma w) w)))))"

lemma step_okI:
  assumes "uc_IsApplicable u (cl_Kyma w) w = Inr (todo cfg w ! i)" and "i < 10"
    and "todo cfg w ! i \<Longrightarrow> step_done cfg i w (fst (uc_Execute u (cl_Kyma w) w))"
  shows "step_ok cfg w u"
  using assms unfolding step_ok_def by blast

lemma step_okI': "uc_IsApplicable u (cl_Kyma w) w = Inr False \<Longrightarrow> step_ok cfg w u"
  unfolding step_ok_def by blast

lemma cleanup_steps_ok:
  assumes "marked_deleted (cl_Kyma w)" and "u \<in> set (cleanup_steps ref_dclient cfg now)"
  shows "step_ok cfg w u"
proof -
  note app = ref_applicable [OF assms(1)]
  have "step_ok cfg w (SetKymaStatusDeletingUseCase ref_dclient now)"
    by (rule step_okI [OF app(1)]) (simp_all add: ref_step_done)
  moreover have "step_ok cfg w (SetSkrKymaStateDeleting ref_dclient)"
    by (rule step_okI [OF app(2)]) (simp, rule ref_step_done(2))
  moreover have "step_ok cfg w (DeleteManifests ref_dclient cfg)"
    by (rule step_okI [OF app(3)]) (simp, rule ref_step_done(3))
  moreover have "step_ok cfg w (DeleteWatcherCertificateSetup ref_dclient cfg)"
  proof (cases "in_state_deleting (cl_Kyma w)")
    case True
    show ?thesis by (rule step_okI [OF app(4) [OF True]]) (simp, rule ref_step_done(4))
  qed (rule step_okI', simp add: not_deleting_not_applicable)
  moreover have "step_ok cfg w (DeleteSkrWebhookResources ref_dclient cfg)"
  proof (cases "in_state_deleting (cl_Kyma w)")
    case True
    show ?thesis by (rule step_okI [OF app(5) [OF True]]) (simp, rule ref_step_done(5))
  qed (rule step_okI', simp add: not_deleting_not_applicable)
  moreover have "step_ok cfg w (DeleteSkrCrd ref_dclient (crd_name ''moduletemplates'') x)" for x
    by (rule step_okI [OF app(6)]) (simp, rule ref_step_done(6))
  moreover have "step_ok cfg w (DeleteSkrCrd ref_dclient (crd_name ''modulereleasemetas'') x)" for x
    by (rule step_okI [OF app(7)]) (simp, rule ref_step_done(7))
  moreover have "step_ok cfg w (DeleteSkrKyma ref_dclient)"
    by (rule step_okI [OF app(8)]) (simp, rule ref_step_done(8))
  moreover have "step_ok cfg w (DeleteSkrCrd ref_dclient (crd_name ''kymas'') x)" for x
    by (rule step_okI [OF app(9)]) (simp, rule ref_step_done(9))
  moreover have "step_ok cfg w (DeleteMetrics ref_dclient)"
    by (rule step_okI [OF app(10)]) (simp, rule ref_step_done(10))
  ultimately show ?thesis
    using assms(2) unfolding cleanup_steps_set insert_iff empty_iff by (elim disjE) (simp_all only:)
qed

lemma nothing_applicable_todo:
  assumes "marked_deleted (cl_Kyma w)"
    and "\<forall>u \<in> set (cleanup_steps ref_dclient cfg now). uc_IsApplicable u (cl_Kyma w) w \<noteq> Inr True"
  shows "pending cfg w = 0"
proof -
  note app = ref_applicable [OF assms(1)]
  have no: "\<not> b" if "u \<in> set (cleanup_steps ref_dclient cfg now)" "uc_IsApplicable u (cl_Kyma w) w = Inr b" for u b
    using assms(2) that by (cases b) auto
  have t0: "\<not> todo cfg w ! 0" by (rule no [OF _ app(1) [where now = now]]) (simp add: cleanup_steps_set)
  then have del: "in_state_deleting (cl_Kyma w)" by (simp add: todo_def Let_def)
  have "\<not> todo cfg w ! 1" by (rule no [OF _ app(2)]) (simp add: cleanup_steps_set)
  moreover have "\<not> todo cfg w ! 2" by (rule no [OF _ app(3)]) (simp add: cleanup_steps_set)
  moreover have "\<not> todo cfg w ! 3" by (rule no [OF _ app(4) [OF del]]) (simp add: cleanup_steps_set)
  moreover have "\<not> todo cfg w ! 4" by (rule no [OF _ app(5) [OF del]]) (simp add: cleanup_steps_set)
  moreover have "\<not> todo cfg w ! 5"
    by (rule no [OF _ app(6) [where x = uc_DeleteSkrModuleTemplateCrd]]) (simp add: cleanup_steps_set)
  moreover have "\<not> todo cfg w ! 6"
    by (rule no [OF _ app(7) [where x = uc_DeleteSkrModuleReleaseMetaCrd]]) (simp add: cleanup_steps_set)
  moreover have "\<not> todo cfg w ! 7" by (rule no [OF _ app(8)]) (simp add: cleanup_steps_set)
  moreover have "\<not> todo cfg w ! 8"
    by (rule no [OF _ app(9) [where x = uc_DeleteSkrKymaCrd]]) (simp add: cleanup_steps_set)
  moreover have "\<not> todo cfg w ! 9" by (rule no [OF _ app(10)]) (simp add: cleanup_steps_set)
  ultimately show ?thesis using t0 by (simp add: pending_def todo_def Let_def)
qed

lemma pending_0D: "pending cfg w = 0 \<Longrightarrow> i < 10 \<Longrightarrow> \<not> todo cfg w ! i"
proof -
  assume "pending cfg w = 0" "i < 10"
  moreover have "length (todo cfg w) = 10" by (simp add: todo_def Let_def)
  ultimately show ?thesis by (metis filter_empty_conv id_apply length_0_conv nth_mem pending_def)
qed

definition same_identity :: "cluster \<Rightarrow> cluster \<Rightarrow> bool" where
  "same_identity w w' \<longleftrightarrow>
     om_DeletionTimestamp (kyma_Meta (cl_Kyma w')) = om_DeletionTimestamp (kyma_Meta (cl_Kyma w))
     \<and> om_Namespace (kyma_Meta (cl_Kyma w')) = om_Namespace (kyma_Meta (cl_Kyma w))"

definition finalizer_gone :: "cluster \<Rightarrow> bool" where
  "finalizer_gone w = (\<not> ContainsFinalizer (kyma_Meta (cl_Kyma w)) KymaFinalizer)"

lemma ref_drop:
  fixes w lib cfg
  defines "w' \<equiv> fst (Delete [EnsureManifestDeletion ref_dclient cfg, DropKymaFinalizer ref_dclient lib cfg] (cl_Kyma w) w)"
  assumes "Finalizer_spec lib" and "om_Namespace (kyma_Meta (cl_Kyma w)) = cfg_KymaNamespace cfg"
    and "\<forall>m \<in> set (cl_Manifests w). om_DeletionTimestamp (man_Meta m) = None" and "pending cfg w = 0"
  shows "finalizer_gone w' \<and> same_identity w w'"
proof -
  let ?k = "cl_Kyma w"
  have "\<not> todo cfg w ! 2" using pending_0D [OF assms(5)] by simp
  then have "filter (of_kyma (cfg_ManifestNamespace cfg) (om_Name (kyma_Meta ?k))) (cl_Manifests w) = []"
    using assms(4) by (auto simp: todo_def Let_def list_ex_iff filter_empty_conv)
  then have ensure: "uc_IsApplicable (EnsureManifestDeletion ref_dclient cfg) ?k w = Inr False"
    by (simp add: EnsureManifestDeletion_def ExistForKyma_def ref_dclient_def)
  have get: "kymaRepo_Get ref_dclient (cfg_KymaNamespace cfg) w (om_Name (kyma_Meta ?k)) = Inr ?k"
    using assms(3) by (simp add: kymaRepo_Get_def ref_dclient_def Kyma_NamespacedName_def)
  have spec: "set (fst (RemoveFinalizer lib fs f)) = set fs - {f}" "snd (RemoveFinalizer lib fs f) = (f \<in> set fs)" for fs f
    using assms(2) by (simp_all add: Finalizer_spec_def)
  let ?fs = "om_Finalizers (kyma_Meta ?k)"
  show ?thesis
  proof (cases "KymaFinalizer \<in> set ?fs")
    case False
    then have "uc_IsApplicable (DropKymaFinalizer ref_dclient lib cfg) ?k w = Inr False"
      by (simp add: DropKymaFinalizer_def ContainsFinalizer_def)
    then show ?thesis unfolding w'_def using ensure False
      by (simp add: finalizer_gone_def same_identity_def ContainsFinalizer_def)
  next
    case True
    then have "uc_IsApplicable (DropKymaFinalizer ref_dclient lib cfg) ?k w = Inr True"
      by (simp add: DropKymaFinalizer_def ContainsFinalizer_def)
    then have del: "Delete [EnsureManifestDeletion ref_dclient cfg, DropKymaFinalizer ref_dclient lib cfg] ?k w =
        uc_Execute (DropKymaFinalizer ref_dclient lib cfg) ?k w"
      using ensure by simp
    obtain rest where rest: "RemoveFinalizer lib ?fs KymaFinalizer = (rest, True)"
      using spec(2) [of ?fs KymaFinalizer] True by (cases "RemoveFinalizer lib ?fs KymaFinalizer") simp
    then have "set rest = set ?fs - {KymaFinalizer}" using spec(1) [of ?fs KymaFinalizer] by simp
    moreover have "fst (DropFinalizer ref_dclient lib (cfg_KymaNamespace cfg) (om_Name (kyma_Meta ?k)) KymaFinalizer w) =
        w\<lparr>cl_Kyma := ?k\<lparr>kyma_Meta := (kyma_Meta ?k)\<lparr>om_Finalizers := rest\<rparr>\<rparr>\<rparr>"
      unfolding DropFinalizer_def get by (simp add: rest ref_dclient_def)
    ultimately show ?thesis unfolding w'_def del
      by (simp add: DropKymaFinalizer_def executed_def finalizer_gone_def same_identity_def ContainsFinalizer_def)
  qed
qed


text \<open>One round: the manifest controller does its work, then the Kyma is reconciled once.\<close>

definition deletion_round ::
  "'w dclient \<Rightarrow> klib \<Rightarrow> deletion_config \<Rightarrow> int \<Rightarrow> ('w \<Rightarrow> cluster) \<Rightarrow> ('w \<Rightarrow> 'w) \<Rightarrow> 'w \<Rightarrow> 'w" where
  "deletion_round c lib cfg now view gc w =
     fst (Delete (deletionSteps c lib cfg now) (cl_Kyma (view (gc w))) (gc w))"

lemma deletion_round_sim:
  assumes "implements c view" and "\<And>w. view (gc w) = settle (view w)"
  shows "view (deletion_round c lib cfg now view gc w) = deletion_round ref_dclient lib cfg now (\<lambda>x. x) settle (view w)"
proof -
  have "map_prod view id (Delete (deletionSteps c lib cfg now) k w') =
      Delete (deletionSteps ref_dclient lib cfg now) k (view w')" for k w'
    by (rule simulates_Delete [OF deletionSteps_sim [OF assms(1)]])
  then have "view (fst (Delete (deletionSteps c lib cfg now) k w')) =
      fst (Delete (deletionSteps ref_dclient lib cfg now) k (view w'))" for k w'
    by (metis fst_map_prod)
  then show ?thesis by (simp add: deletion_round_def assms(2))
qed

lemma rounds_sim:
  assumes "implements c view" and "\<And>w. view (gc w) = settle (view w)"
  shows "view ((deletion_round c lib cfg now view gc ^^ n) w) =
    (deletion_round ref_dclient lib cfg now (\<lambda>x. x) settle ^^ n) (view w)"
  by (induction n) (simp_all add: deletion_round_sim [OF assms])

lemma settle_pending: "pending cfg (settle w) \<le> pending cfg w"
proof -
  have "list_all2 (\<lambda>y x. y \<longrightarrow> x) (todo cfg (settle w)) (todo cfg w)"
    by (auto simp: todo_def settle_def Let_def list_ex_iff)
  then have "length (filter id (todo cfg (settle w))) \<le> length (filter id (todo cfg w))"
    by (induction rule: list_all2_induct) auto
  then show ?thesis by (simp add: pending_def)
qed

lemma settle_Kyma [simp]: "cl_Kyma (settle w) = cl_Kyma w"
  by (simp add: settle_def)

text \<open>A round either does something that was to do, or drops the finalizer.\<close>

lemma ref_round:
  fixes w lib cfg now
  defines "w' \<equiv> deletion_round ref_dclient lib cfg now (\<lambda>x. x) settle w"
  assumes "Finalizer_spec lib" and "marked_deleted (cl_Kyma w)"
    and "om_Namespace (kyma_Meta (cl_Kyma w)) = cfg_KymaNamespace cfg"
  shows "same_identity w w' \<and> (finalizer_gone w' \<or> pending cfg w' < pending cfg w \<and> same_meta w w')"
proof -
  let ?w = "settle w" and ?k = "cl_Kyma w"
  let ?us = "cleanup_steps ref_dclient cfg now" and ?rest = "[EnsureManifestDeletion ref_dclient cfg, DropKymaFinalizer ref_dclient lib cfg]"
  have marked: "marked_deleted (cl_Kyma ?w)" using assms(3) by simp
  have ok: "step_ok cfg ?w u" if "u \<in> set ?us" for u by (rule cleanup_steps_ok [OF marked that])
  have w': "w' = fst (Delete (?us @ ?rest) (cl_Kyma ?w) ?w)"
    by (simp add: w'_def deletion_round_def deletionSteps_split)
  have decided: "\<forall>u \<in> set ?us. \<exists>b. uc_IsApplicable u (cl_Kyma ?w) ?w = Inr b"
    using ok unfolding step_ok_def by blast
  show ?thesis
  proof (cases "find (\<lambda>u. uc_IsApplicable u (cl_Kyma ?w) ?w = Inr True) ?us")
    case None
    then have "w' = fst (Delete ?rest (cl_Kyma ?w) ?w)" using w' Delete_first [OF decided] by simp
    moreover have "pending cfg ?w = 0"
      by (rule nothing_applicable_todo [OF marked]) (use None in \<open>simp add: find_None_iff_all\<close>)
    moreover have "\<forall>m \<in> set (cl_Manifests ?w). om_DeletionTimestamp (man_Meta m) = None"
      by (simp add: settle_def)
    ultimately have "finalizer_gone w' \<and> same_identity ?w w'"
      using ref_drop [of lib ?w cfg] assms(2,4) by simp
    then show ?thesis by (simp add: same_identity_def)
  next
    case (Some u)
    then have u: "u \<in> set ?us" "uc_IsApplicable u (cl_Kyma ?w) ?w = Inr True"
      using find_Some_in by fastforce+
    have "w' = fst (uc_Execute u (cl_Kyma ?w) ?w)" using w' Delete_first [OF decided] Some by simp
    then obtain i where "i < 10" "todo cfg ?w ! i" and step: "step_done cfg i ?w w'"
      using ok [OF u(1)] u(2) unfolding step_ok_def by auto
    then have "pending cfg w' < pending cfg ?w" using step_done_less by blast
    moreover have "same_meta w w'" using step by (simp add: step_done_def same_meta_def)
    ultimately show ?thesis using settle_pending [of cfg w] by (simp add: same_meta_def same_identity_def)
  qed
qed

lemma same_meta_gone: "same_meta w w' \<Longrightarrow> finalizer_gone w' = finalizer_gone w"
  by (simp add: same_meta_def finalizer_gone_def)

lemma ref_rounds:
  assumes "Finalizer_spec lib" and "marked_deleted (cl_Kyma w)"
    and "om_Namespace (kyma_Meta (cl_Kyma w)) = cfg_KymaNamespace cfg"
    and "finalizer_gone w \<or> pending cfg w < n"
  shows "finalizer_gone ((deletion_round ref_dclient lib cfg now (\<lambda>x. x) settle ^^ n) w)"
  using assms(2-4)
proof (induction n arbitrary: w)
  case (Suc n)
  let ?w' = "deletion_round ref_dclient lib cfg now (\<lambda>x. x) settle w"
  note round = ref_round [OF assms(1) Suc.prems(1,2), of now]
  then have "marked_deleted (cl_Kyma ?w')" "om_Namespace (kyma_Meta (cl_Kyma ?w')) = cfg_KymaNamespace cfg"
    using Suc.prems by (simp_all add: same_identity_def marked_deleted_def)
  moreover have "finalizer_gone ?w' \<or> pending cfg ?w' < n"
    using round Suc.prems(3) same_meta_gone by fastforce
  ultimately show ?case using Suc.IH [of ?w'] by (simp add: funpow_swap1)
qed simp

lemma pending_le: "pending cfg w \<le> 10"
proof -
  have "length (todo cfg w) = 10" by (simp add: todo_def Let_def)
  then show ?thesis unfolding pending_def by (metis length_filter_le)
qed

text \<open>C2. A deletion ends: when the API servers answer the reads truthfully and carry out the writes, and the
  manifest controller finishes with the Manifests that are marked for deletion between two
  reconciliations of the Kyma, eleven reconciliations of a Kyma that is marked for deletion are
  enough for its finalizer to be removed, however much there is to clean up at the beginning.\<close>

theorem Delete_terminates:
  assumes "implements c view" and "\<And>w. view (gc w) = settle (view w)" and "Finalizer_spec lib"
    and "marked_deleted (cl_Kyma (view w))"
    and "om_Namespace (kyma_Meta (cl_Kyma (view w))) = cfg_KymaNamespace cfg"
  shows "finalizer_gone (view ((deletion_round c lib cfg now view gc ^^ 11) w))"
proof -
  have "pending cfg (view w) < 11" using pending_le [of cfg "view w"] by simp
  then show ?thesis
    unfolding rounds_sim [OF assms(1,2)] using ref_rounds [OF assms(3-5), of 11 now] by blast
qed


text \<open>A Kyma that is marked for deletion, with something left of every kind.\<close>

definition ex_deleted_kyma :: Kyma where
  "ex_deleted_kyma =
     \<lparr>kyma_Meta = \<lparr>om_Name = ''kyma'', om_Namespace = ''kcp-system'', om_Labels = Map.empty,
        om_Annotations = Map.empty, om_Finalizers = [KymaFinalizer], om_DeletionTimestamp = Some 7,
        om_Generation = 1, om_OwnerReferences = [], om_ManagedFields = []\<rparr>,
      kyma_Spec = \<lparr>ks_Channel = ''regular'', ks_SkipMaintenanceWindows = False, ks_Modules = []\<rparr>,
      kyma_Status = \<lparr>kst_LastOperation = \<lparr>lo_Operation = [], lo_LastUpdateTime = 0\<rparr>, kst_State = StateReady,
        kst_Conditions = [], kst_Modules = [], kst_ActiveChannel = ''regular''\<rparr>\<rparr>"

definition ex_deletion_config :: deletion_config where
  "ex_deletion_config = \<lparr>cfg_ManifestNamespace = ''kcp-system'', cfg_SecretNamespace = ''istio-system'',
     cfg_KymaNamespace = ''kcp-system'', cfg_WebhookResources = [''skr-webhook'']\<rparr>"

definition ex_cluster :: cluster where
  "ex_cluster = \<lparr>cl_Kyma = ex_deleted_kyma, cl_Manifests = [], cl_Secrets = [(''kyma-webhook-tls'', ''istio-system'')],
     cl_Certs = [''kyma-webhook-tls''], cl_SkrCached = True, cl_SkrKyma = Some (kyma_Status ex_deleted_kyma),
     cl_SkrCrds = [crd_name ''kymas''], cl_SkrResources = [''skr-webhook''], cl_Metrics = [''kyma'']\<rparr>"

definition ex_clean_cluster :: cluster where
  "ex_clean_cluster = ex_cluster\<lparr>cl_Kyma := ex_deleted_kyma\<lparr>kyma_Status := (kyma_Status ex_deleted_kyma)
       \<lparr>kst_State := StateDeleting\<rparr>\<rparr>,
     cl_Secrets := [], cl_Certs := [], cl_SkrKyma := None, cl_SkrCrds := [], cl_SkrResources := [], cl_Metrics := []\<rparr>"

lemma ref_server_errors: "server_errors ref_dclient"
  by (auto simp: server_errors_def ref_dclient_def found_def notFoundErr_def ErrSkrClientNotFound_def
      split: if_splits option.splits)


theorem Delete_terminates_witness:
  "\<not> finalizer_gone ex_cluster \<and>
   finalizer_gone ((deletion_round ref_dclient ref_klib ex_deletion_config 0 id settle ^^ 11) ex_cluster)"
proof -
  have "marked_deleted (cl_Kyma (id ex_cluster))" "\<not> finalizer_gone ex_cluster"
    "om_Namespace (kyma_Meta (cl_Kyma (id ex_cluster))) = cfg_KymaNamespace ex_deletion_config"
    by (simp_all add: marked_deleted_def ex_cluster_def ex_deleted_kyma_def ex_deletion_config_def
        finalizer_gone_def ContainsFinalizer_def)
  moreover have "Finalizer_spec ref_klib" using ref_klib_ok by (simp add: klib_ok_def)
  moreover have "id (settle w) = settle (id w)" for w by simp
  ultimately show ?thesis
    using Delete_terminates [OF ref_implements, of settle ref_klib ex_cluster ex_deletion_config 0] by auto
qed

text \<open>The start-up check of the use cases: a list of at least twelve use cases is accepted exactly when
  its first twelve names are the expected ones in the expected order, any other list is
  rejected with an error that is \<^verbatim>\<open>ErrUseCasesOutOfOrder\<close>; the list that the composition builds
  is accepted.\<close>

theorem enforceUseCaseOrder_correct:
  fixes steps :: "'w use_case list"
  assumes "12 \<le> length steps"
  shows "(enforceUseCaseOrder steps = None \<longleftrightarrow> map uc_Name (take 12 steps) = expectedUseCaseOrder)
    \<and> (\<forall>e. enforceUseCaseOrder steps = Some e \<longrightarrow> errors_Is e ErrUseCasesOutOfOrder)
    \<and> enforceUseCaseOrder (deletionSteps c lib cfg now) = None"
proof -
  have len: "length expectedUseCaseOrder = 12" by (simp add: expectedUseCaseOrder_def)
  have "misplaced steps = [] \<longleftrightarrow> (\<forall>i < 12. uc_Name (steps ! i) = expectedUseCaseOrder ! i)"
    by (auto simp: misplaced_def len filter_empty_conv)
  also have "\<dots> \<longleftrightarrow> map uc_Name (take 12 steps) = expectedUseCaseOrder"
    using assms len by (auto simp: list_eq_iff_nth_eq)
  finally have "enforceUseCaseOrder steps = None \<longleftrightarrow> map uc_Name (take 12 steps) = expectedUseCaseOrder"
    by (simp add: enforceUseCaseOrder_def)
  moreover have "errors_Is e ErrUseCasesOutOfOrder" if "enforceUseCaseOrder steps = Some e" for e
    using that by (auto simp: enforceUseCaseOrder_def ErrUseCasesOutOfOrder_def err_simps split: if_splits)
  moreover have "misplaced (deletionSteps c lib cfg now) = []"
    by (simp add: misplaced_def expectedUseCaseOrder_def deletionSteps_def use_case_defs upt_rec)
  ultimately show ?thesis by (simp add: enforceUseCaseOrder_def)
qed

theorem enforceUseCaseOrder_correct_witness:
  "enforceUseCaseOrder (rev (deletionSteps ref_dclient ref_klib ex_deletion_config 0)) \<noteq> None"
proof -
  let ?us = "rev (deletionSteps ref_dclient ref_klib ex_deletion_config 0)"
  have "map uc_Name (take 12 ?us) \<noteq> expectedUseCaseOrder"
    by (simp add: deletionSteps_def use_case_defs expectedUseCaseOrder_def uc_defs)
  moreover have "12 \<le> length ?us" by (simp add: deletionSteps_def)
  ultimately show ?thesis using enforceUseCaseOrder_correct by blast
qed

end
