(* ===== verification/Remote.thy ===== *)
theory Remote
  imports ModuleSync KymaDeletion
begin

text \<open>
  The remote cluster (SKR) of a Kyma: the access secret and the cached client
  (\<^verbatim>\<open>internal/service/accessmanager\<close>, \<^verbatim>\<open>internal/remote/skr_context_provider.go\<close>), the
  operations on the remote Kyma (\<^verbatim>\<open>internal/remote/skr_context.go\<close>), the module catalog that
  is copied to the SKR (\<^verbatim>\<open>remote_catalog.go\<close> and the syncers) and the synchronisation of CRDs
  and of the image pull secret (\<^verbatim>\<open>internal/service/skrsync\<close>).

  Every call to an API server appends an \<open>effect\<close> to the history, and the answer of the server
  is an arbitrary function of the history before the call: two calls may be answered differently.
\<close>

section \<open>Calls\<close>

record RemoteSecret =
  sec_Meta :: ObjectMeta
  sec_Data :: labels

datatype effect =
  ListAccessSecrets string
| AddSkrClient NamespacedName
| InvalidateCache NamespacedName
| GetRemoteKyma
| CreateRemoteKyma Kyma
| UpdateRemoteKyma Kyma
| DeleteRemoteKyma Kyma
| ApplyRemoteKymaMeta string string labels labels
| UpdateRemoteKymaStatus Kyma
| ApplyRemoteNamespace string labels
| ListKcpTemplates
| ListKcpMetas
| ListRemoteTemplates
| PatchRemoteTemplate ModuleTemplate
| DeleteRemoteTemplate ModuleTemplate
| ListRemoteMetas
| PatchRemoteMeta ModuleReleaseMeta
| DeleteRemoteMeta ModuleReleaseMeta
| ReadCrd string
| ApplyRemoteCrd NamespacedName string
| GetSecret string
| PatchRemoteSecret RemoteSecret
| GetKyma NamespacedName
| UpdateKyma Kyma
| PatchKymaStatus Kyma
| SyncManifests "sync_op list"
| DeleteTracked TrackingObject
| ListManifests string
| DeleteManifestObject Manifest
| RemoveModuleMetrics "string list"
| CleanupMetrics string
| ReconcileWebhook NamespacedName
| GetDeployment
| ListPods
| RemoveWebhook NamespacedName
| RemoveSkrCertificate string
| ListModules NamespacedName
| RunDeletion Result

type_synonym history = "effect list"

text \<open>A call: the server answers on the basis of what has happened before.\<close>

definition ask :: "effect \<Rightarrow> (history \<Rightarrow> 'a) \<Rightarrow> history \<Rightarrow> history \<times> 'a" where
  "ask ef answer s = (s @ [ef], answer s)"

lemma ask_sel [simp]: "fst (ask ef f s) = s @ [ef]" "snd (ask ef f s) = f s"
  by (simp_all add: ask_def)

text \<open>\<^verbatim>\<open>errors.Join\<close> drops nil errors and is nil when all are.\<close>

definition joinOpts :: "goerror option list \<Rightarrow> goerror option" where
  "joinOpts es = (case List.map_filter id es of [] \<Rightarrow> None | xs \<Rightarrow> Some (errors_JoinAll xs))"

text \<open>Goroutines that each make one call; \<open>xs\<close> is in the order in which they do.\<close>

fun run_each :: "('a \<Rightarrow> history \<Rightarrow> history \<times> goerror option) \<Rightarrow> 'a list \<Rightarrow> history \<Rightarrow> history \<times> goerror list" where
  "run_each f [] s = (s, [])"
| "run_each f (x # xs) s =
     (case f x s of (s1, r) \<Rightarrow>
        (case run_each f xs s1 of (s2, errs) \<Rightarrow> (s2, (case r of None \<Rightarrow> errs | Some e \<Rightarrow> e # errs))))"

lemma run_each_history:
  assumes "\<And>x s. fst (f x s) = s @ [g x]"
  shows "fst (run_each f xs s) = s @ map g xs"
proof (induction xs arbitrary: s)
  case (Cons x xs)
  obtain r where "f x s = (s @ [g x], r)" using assms [of x s] by (cases "f x s") simp
  then show ?case using Cons [of "s @ [g x]"] by (simp add: case_prod_beta)
qed simp

section \<open>The client of the SKR\<close>

record 'a kind_client =
  kc_list :: "history \<Rightarrow> goerror + 'a list"
  kc_patch :: "history \<Rightarrow> 'a \<Rightarrow> goerror option"
  kc_delete :: "history \<Rightarrow> 'a \<Rightarrow> goerror option"

text \<open>A pod with the reasons why its containers wait, for those that do.\<close>

record pod =
  pod_Namespace :: string
  pod_Name :: string
  pod_Waiting :: "string option list"

record skr_client =
  sk_getKyma :: "history \<Rightarrow> goerror + Kyma"
  sk_createKyma :: "history \<Rightarrow> Kyma \<Rightarrow> goerror + Kyma"
  sk_updateKyma :: "history \<Rightarrow> Kyma \<Rightarrow> goerror option"
  sk_deleteKyma :: "history \<Rightarrow> Kyma \<Rightarrow> goerror option"
  sk_applyNamespace :: "history \<Rightarrow> goerror option"
  sk_applyKymaMeta :: "history \<Rightarrow> Kyma \<Rightarrow> goerror option"
  sk_updateStatus :: "history \<Rightarrow> Kyma \<Rightarrow> goerror option"
  sk_templates :: "ModuleTemplate kind_client"
  sk_metas :: "ModuleReleaseMeta kind_client"
  sk_patchSecret :: "history \<Rightarrow> RemoteSecret \<Rightarrow> goerror option"
  sk_readyReplicas :: "history \<Rightarrow> goerror + int"   \<comment> \<open>of the deployment of the webhook\<close>
  sk_pods :: "history \<Rightarrow> goerror + pod list"

section \<open>Access to the SKR\<close>

definition ErrMoreThanOneSecretFound :: goerror where
  "ErrMoreThanOneSecretFound = Sentinel ''ErrMoreThanOneSecretFound'' ''more than one secret found''"
definition ErrAccessSecretNotFound :: goerror where
  "ErrAccessSecretNotFound = Sentinel ''ErrAccessSecretNotFound'' ''access secret not found''"
definition kubeConfigKey :: string where "kubeConfigKey = ''config''"
definition ErrSkrClientContextNotFound :: goerror where
  "ErrSkrClientContextNotFound = Sentinel ''ErrSkrClientContextNotFound'' ''skr client context not found''"

text \<open>
  \<open>pv_restConfig\<close> parses a kubeconfig and \<open>pv_newClient\<close> makes a client of it (library code);
  \<open>pv_cache\<close> is what the client cache, whose entries expire, holds.
\<close>

record 'cfg provider_env =
  pv_listSecrets :: "history \<Rightarrow> string \<Rightarrow> goerror + RemoteSecret list"
  pv_restConfig :: "string \<Rightarrow> goerror + 'cfg"
  pv_newClient :: "history \<Rightarrow> 'cfg \<Rightarrow> goerror option"
  pv_cache :: "history \<Rightarrow> NamespacedName \<Rightarrow> skr_client option"

definition GetAccessSecretByKyma :: "'cfg provider_env \<Rightarrow> string \<Rightarrow> history \<Rightarrow> history \<times> (goerror + RemoteSecret)" where
  "GetAccessSecretByKyma env kymaName s =
     (case ask (ListAccessSecrets kymaName) (\<lambda>h. pv_listSecrets env h kymaName) s of
        (s1, Inl e) \<Rightarrow> (s1, Inl (wrapErr (''failed to list secrets with label '' @ KymaNameLabel @ ''='' @ kymaName @ '': '')
                          (errors_Join e ErrAccessSecretNotFound)))
      | (s1, Inr []) \<Rightarrow> (s1, Inl (wrapErr (''failed to find the secret with label '' @ KymaNameLabel @ ''='' @ kymaName @ '': '')
                          ErrAccessSecretNotFound))
      | (s1, Inr [sec]) \<Rightarrow> (s1, Inr sec)
      | (s1, Inr (sec # _)) \<Rightarrow> (s1, Inl (wrapErr ''could not safely identify the rest config source: '' ErrMoreThanOneSecretFound)))"

definition GetAccessRestConfigByKyma :: "'cfg provider_env \<Rightarrow> string \<Rightarrow> history \<Rightarrow> history \<times> (goerror + 'cfg)" where
  "GetAccessRestConfigByKyma env kymaName s =
     (case GetAccessSecretByKyma env kymaName s of
        (s1, Inl e) \<Rightarrow> (s1, Inl (wrapErr ''failed to get access secret by kyma: '' e))
      | (s1, Inr sec) \<Rightarrow>
          (s1, case pv_restConfig env (label_get (sec_Data sec) kubeConfigKey) of
                 Inl e \<Rightarrow> Inl (wrapErr ''failed to create rest config from kubeconfig: '' e)
               | Inr cfg \<Rightarrow> Inr cfg))"

definition provider_Init :: "'cfg provider_env \<Rightarrow> NamespacedName \<Rightarrow> history \<Rightarrow> history \<times> goerror option" where
  "provider_Init env kyma s =
     (if pv_cache env s kyma \<noteq> None then (s, None)
      else (case GetAccessRestConfigByKyma env (snd kyma) s of
              (s1, Inl e) \<Rightarrow> (s1, Some (wrapErr ''failed to create rest config from kubeconfig: '' e))
            | (s1, Inr cfg) \<Rightarrow>
                (case pv_newClient env s1 cfg of
                   Some e \<Rightarrow> (s1, Some (wrapErr ''failed to create lookup client: '' e))
                 | None \<Rightarrow> (s1 @ [AddSkrClient kyma], None))))"

definition provider_Get :: "'cfg provider_env \<Rightarrow> NamespacedName \<Rightarrow> history \<Rightarrow> goerror + skr_client" where
  "provider_Get env kyma s =
     (case pv_cache env s kyma of None \<Rightarrow> Inl ErrSkrClientContextNotFound | Some c \<Rightarrow> Inr c)"

definition provider_InvalidateCache :: "NamespacedName \<Rightarrow> history \<Rightarrow> history" where
  "provider_InvalidateCache kyma s = s @ [InvalidateCache kyma]"

section \<open>The remote Kyma\<close>

definition ErrNotFoundAndKCPKymaUnderDeleting :: goerror where
  "ErrNotFoundAndKCPKymaUnderDeleting =
     Sentinel ''ErrNotFoundAndKCPKymaUnderDeleting'' ''not found and kcp kyma under deleting''"

definition empty_meta :: "string \<Rightarrow> string \<Rightarrow> ObjectMeta" where
  "empty_meta name namespace =
     \<lparr>om_Name = name, om_Namespace = namespace, om_Labels = Map.empty, om_Annotations = Map.empty,
      om_Finalizers = [], om_DeletionTimestamp = None, om_Generation = 0, om_OwnerReferences = [],
      om_ManagedFields = []\<rparr>"

definition named_kyma :: "string \<Rightarrow> string \<Rightarrow> Kyma" where
  "named_kyma name namespace =
     \<lparr>kyma_Meta = empty_meta name namespace,
      kyma_Spec = \<lparr>ks_Channel = [], ks_SkipMaintenanceWindows = False, ks_Modules = []\<rparr>,
      kyma_Status = \<lparr>kst_LastOperation = \<lparr>lo_Operation = [], lo_LastUpdateTime = 0\<rparr>, kst_State = StateEmpty,
        kst_Conditions = [], kst_Modules = [], kst_ActiveChannel = []\<rparr>\<rparr>"

text \<open>The remote Kyma, or the error and an object that has only a name.\<close>

definition getRemoteKyma :: "skr_client \<Rightarrow> history \<Rightarrow> history \<times> Kyma \<times> goerror option" where
  "getRemoteKyma c s =
     (case ask GetRemoteKyma (sk_getKyma c) s of
        (s1, Inl e) \<Rightarrow> (s1, named_kyma DefaultRemoteKymaName DefaultRemoteNamespace,
                         Some (wrapErr ''failed to get remote kyma: '' e))
      | (s1, Inr k) \<Rightarrow> (s1, k, None))"

definition CreateOrFetchKyma :: "skr_client \<Rightarrow> Kyma \<Rightarrow> history \<Rightarrow> history \<times> (goerror + Kyma)" where
  "CreateOrFetchKyma c k s =
     (case getRemoteKyma c s of
        (s1, rk, err) \<Rightarrow>
          if IsNotFound err then
            (if om_DeletionTimestamp (kyma_Meta k) \<noteq> None then (s1, Inl ErrNotFoundAndKCPKymaUnderDeleting)
             else (let rk1 = rk\<lparr>kyma_Spec := kyma_Spec k\<rparr> in
                   case ask (CreateRemoteKyma rk1) (\<lambda>h. sk_createKyma c h rk1) s1 of
                     (s2, Inl e) \<Rightarrow> (s2, Inl (wrapErr ''failed to create remote kyma: '' e))
                   | (s2, Inr rk2) \<Rightarrow> (s2, Inr rk2)))
          else (case err of
                  Some e \<Rightarrow> (s1, Inl (wrapErr ''failed to fetch remote kyma: '' e))
                | None \<Rightarrow> (s1, Inr rk)))"

definition namespace_labels :: labels where
  "namespace_labels = [ManagedBy \<mapsto> ManagedByLabelValue, IstioInjectionLabel \<mapsto> EnabledValue,
     WardenLabel \<mapsto> EnabledValue]"

definition CreateKymaNamespace :: "skr_client \<Rightarrow> history \<Rightarrow> history \<times> goerror option" where
  "CreateKymaNamespace c s =
     (case ask (ApplyRemoteNamespace DefaultRemoteNamespace namespace_labels) (sk_applyNamespace c) s of
        (s1, Some e) \<Rightarrow> (s1, Some (wrapErr ''failed to ensure remote namespace exists: '' e))
      | (s1, None) \<Rightarrow> (s1, None))"

definition skr_DeleteKyma :: "skr_client \<Rightarrow> history \<Rightarrow> history \<times> goerror option" where
  "skr_DeleteKyma c s =
     (case getRemoteKyma c s of
        (s1, rk, Some e) \<Rightarrow> (s1, Some e)
      | (s1, rk, None) \<Rightarrow>
          (case ask (DeleteRemoteKyma rk) (\<lambda>h. sk_deleteKyma c h rk) s1 of
             (s2, Some e) \<Rightarrow> (s2, Some (wrapErr ''failed to delete remote kyma: '' e))
           | (s2, None) \<Rightarrow> (s2, None)))"

text \<open>
  Removing all finalizers ranges over the slice that the library shrinks at the same time: the
  loop reads the elements from the array it captured, and the library may overwrite this array.
  \<open>remove array finalizers f\<close> returns both after the call.
\<close>

type_synonym slice_remove = "string list \<Rightarrow> string list \<Rightarrow> string \<Rightarrow> string list \<times> string list"

definition removeAllFinalizers :: "slice_remove \<Rightarrow> string list \<Rightarrow> string list" where
  "removeAllFinalizers remove fs =
     snd (fold (\<lambda>i (arr, cur). remove arr cur (arr ! i)) [0..<length fs] (fs, fs))"

definition RemoveFinalizersFromKyma :: "slice_remove \<Rightarrow> skr_client \<Rightarrow> history \<Rightarrow> history \<times> goerror option" where
  "RemoveFinalizersFromKyma remove c s =
     (case getRemoteKyma c s of
        (s1, rk, Some e) \<Rightarrow> (s1, Some e)
      | (s1, rk, None) \<Rightarrow>
          (let rk1 = rk\<lparr>kyma_Meta := (kyma_Meta rk)
                 \<lparr>om_Finalizers := removeAllFinalizers remove (om_Finalizers (kyma_Meta rk))\<rparr>\<rparr> in
           case ask (UpdateRemoteKyma rk1) (\<lambda>h. sk_updateKyma c h rk1) s1 of
             (s2, Some e) \<Rightarrow> (s2, Some (wrapErr ''failed to update remote kyma when removing finalizers: '' e))
           | (s2, None) \<Rightarrow> (s2, None)))"

definition label_entry :: "string \<Rightarrow> Kyma \<Rightarrow> (string \<times> string) list" where
  "label_entry l k = (case kyma_labels k l of Some v \<Rightarrow> [(l, v)] | None \<Rightarrow> [])"

definition set_labels :: "labels \<Rightarrow> Kyma \<Rightarrow> Kyma" where
  "set_labels ls k = k\<lparr>kyma_Meta := (kyma_Meta k)\<lparr>om_Labels := ls\<rparr>\<rparr>"

definition set_annotations :: "labels \<Rightarrow> Kyma \<Rightarrow> Kyma" where
  "set_annotations ls k = k\<lparr>kyma_Meta := (kyma_Meta k)\<lparr>om_Annotations := ls\<rparr>\<rparr>"

definition syncBTPRelatedLabels :: "Kyma \<Rightarrow> Kyma \<Rightarrow> Kyma \<times> bool" where
  "syncBTPRelatedLabels kcp skr =
     (case MergeMaps (kyma_labels skr) (label_entry GlobalAccountIDLabel kcp @ label_entry SubAccountIDLabel kcp) of
        (ls, changed) \<Rightarrow> (set_labels ls skr, changed))"

definition syncWatcherLabelsAnnotations :: "Kyma \<Rightarrow> Kyma \<Rightarrow> Kyma \<times> bool" where
  "syncWatcherLabelsAnnotations kcp skr =
     (case MergeMaps (kyma_labels skr) ([(WatchedByLabel, WatchedByLabelValue), (ManagedBy, ManagedByLabelValue)]
              @ label_entry RuntimeIDLabel kcp) of
        (ls, labelsChanged) \<Rightarrow>
          (case MergeMaps (om_Annotations (kyma_Meta skr))
                  [(OwnedByAnnotation, om_Namespace (kyma_Meta kcp) @ ''/'' @ om_Name (kyma_Meta kcp))] of
             (as, annotationsChanged) \<Rightarrow>
               (set_annotations as (set_labels ls skr), labelsChanged \<or> annotationsChanged)))"

definition SynchronizeKymaMetadata :: "skr_client \<Rightarrow> Kyma \<Rightarrow> Kyma \<Rightarrow> history \<Rightarrow> history \<times> Kyma \<times> goerror option" where
  "SynchronizeKymaMetadata c kcp skr s =
     (if om_DeletionTimestamp (kyma_Meta skr) \<noteq> None then (s, skr, None)
      else (case syncWatcherLabelsAnnotations kcp skr of (skr1, watcherChanged) \<Rightarrow>
            (case syncBTPRelatedLabels kcp skr1 of (skr2, btpChanged) \<Rightarrow>
               if \<not> watcherChanged \<and> \<not> btpChanged then (s, skr2, None)
               else (case ask (ApplyRemoteKymaMeta (om_Name (kyma_Meta skr2)) (om_Namespace (kyma_Meta skr2))
                             (kyma_labels skr2) (om_Annotations (kyma_Meta skr2)))
                           (\<lambda>h. sk_applyKymaMeta c h skr2) s of
                       (s1, Some e) \<Rightarrow> (s1, skr2, Some (wrapErr ''failed to synchronise Kyma metadata to SKR: '' e))
                     | (s1, None) \<Rightarrow> (s1, skr2, None)))))"

definition useRemoteNamespaceForModuleTemplates :: "ModuleStatus \<Rightarrow> ModuleStatus" where
  "useRemoteNamespaceForModuleTemplates m =
     m\<lparr>ms_Template := map_option (\<lambda>t. t\<lparr>to_Namespace := DefaultRemoteNamespace\<rparr>) (ms_Template m)\<rparr>"

definition removeManifestReference :: "ModuleStatus \<Rightarrow> ModuleStatus" where
  "removeManifestReference m = m\<lparr>ms_Manifest := None\<rparr>"

definition syncStatus :: "KymaStatus \<Rightarrow> KymaStatus" where
  "syncStatus kcp =
     kcp\<lparr>kst_Modules := map removeManifestReference (map useRemoteNamespaceForModuleTemplates (kst_Modules kcp))\<rparr>"

definition SynchronizeKymaStatus :: "skr_client \<Rightarrow> Kyma \<Rightarrow> Kyma \<Rightarrow> history \<Rightarrow> history \<times> goerror option" where
  "SynchronizeKymaStatus c kcp skr s =
     (if om_DeletionTimestamp (kyma_Meta skr) \<noteq> None then (s, None)
      else (let skr1 = skr\<lparr>kyma_Status := syncStatus (kyma_Status kcp)\<rparr> in
            case ask (UpdateRemoteKymaStatus skr1) (\<lambda>h. sk_updateStatus c h skr1) s of
              (s1, Some e) \<Rightarrow> (s1, Some (wrapErr ''failed to synchronise Kyma status to SKR: '' e))
            | (s1, None) \<Rightarrow> (s1, None)))"

definition ReplaceSpec :: "Kyma \<Rightarrow> Kyma \<Rightarrow> Kyma" where
  "ReplaceSpec kcp remote =
     kcp\<lparr>kyma_Spec := (kyma_Spec kcp)\<lparr>ks_Modules := ks_Modules (kyma_Spec remote),
                                       ks_Channel := ks_Channel (kyma_Spec remote)\<rparr>\<rparr>"

section \<open>The catalog\<close>

definition ModuleCatalogSync :: string where "ModuleCatalogSync = ''catalog-sync''"

record catalog_env =
  ce_listTemplates :: "history \<Rightarrow> goerror + ModuleTemplate list"
  ce_listMetas :: "history \<Rightarrow> goerror + ModuleReleaseMeta list"
  ce_asSelector :: "LabelSelector \<Rightarrow> goerror + (labels \<Rightarrow> bool)"
  ce_restrictedModules :: "string list"
  ce_namespace :: string

definition formatModuleName :: "string \<Rightarrow> string \<Rightarrow> string" where
  "formatModuleName moduleName version = moduleName @ ''-'' @ version"

definition isRestrictedModule :: "catalog_env \<Rightarrow> string \<Rightarrow> bool" where
  "isRestrictedModule env name = (name \<in> set (ce_restrictedModules env))"

definition IsAllowedModuleVersion :: "Kyma \<Rightarrow> ModuleTemplate list \<Rightarrow> string \<Rightarrow> string \<Rightarrow> bool" where
  "IsAllowedModuleVersion k templates moduleName version =
     list_ex (\<lambda>t. formatModuleName moduleName version = om_Name (mt_Meta t)
                \<and> SyncEnabled t (Kyma_IsBeta k) (Kyma_IsInternal k)) templates"

text \<open>The body of the loop over the release metas: what is synced of one, if anything.\<close>

definition meta_to_sync :: "catalog_env \<Rightarrow> Kyma \<Rightarrow> ModuleTemplate list \<Rightarrow> ModuleReleaseMeta \<Rightarrow> ModuleReleaseMeta option" where
  "meta_to_sync env k templates m =
     (if mrm_Mandatory m \<noteq> None then None
      else if (if isRestrictedModule env (mrm_ModuleName m)
               then (case RestrictedModuleMatch (ce_asSelector env) (Some m) (Some k) of
                       Inl e \<Rightarrow> True | Inr matched \<Rightarrow> \<not> matched)
               else mrm_KymaSelector m \<noteq> None) then None
      else (let allowedChannels =
                  filter (\<lambda>c. IsAllowedModuleVersion k templates (mrm_ModuleName m) (cva_Version c)) (mrm_Channels m)
            in if allowedChannels \<noteq> [] then Some (m\<lparr>mrm_Channels := allowedChannels\<rparr>) else None))"

definition GetModuleReleaseMetasToSync ::
  "catalog_env \<Rightarrow> Kyma \<Rightarrow> ModuleTemplate list \<Rightarrow> history \<Rightarrow> history \<times> (goerror + ModuleReleaseMeta list)" where
  "GetModuleReleaseMetasToSync env k templates s =
     (case ask ListKcpMetas (ce_listMetas env) s of
        (s1, Inl e) \<Rightarrow> (s1, Inl (wrapErr ''failed to list ModuleReleaseMetas: '' e))
      | (s1, Inr metas) \<Rightarrow> (s1, Inr (List.map_filter (meta_to_sync env k templates) metas)))"

definition moduleTemplatesToSync :: "ModuleReleaseMeta list \<Rightarrow> (string \<rightharpoonup> bool)" where
  "moduleTemplatesToSync metas =
     fold (\<lambda>m acc. fold (\<lambda>c acc. acc(formatModuleName (mrm_ModuleName m) (cva_Version c) \<mapsto> True))
             (mrm_Channels m) acc) metas Map.empty"

definition FilterAllowedModuleTemplates ::
  "ModuleTemplate list \<Rightarrow> ModuleReleaseMeta list \<Rightarrow> Kyma \<Rightarrow> ModuleTemplate list" where
  "FilterAllowedModuleTemplates templates metas k =
     filter (\<lambda>t. SyncEnabled t (Kyma_IsBeta k) (Kyma_IsInternal k)
               \<and> moduleTemplatesToSync metas (formatModuleName (mt_ModuleName t) (mt_Version t)) \<noteq> None) templates"

definition GetModuleTemplatesToSync ::
  "ModuleReleaseMeta list \<Rightarrow> Kyma \<Rightarrow> ModuleTemplate list \<Rightarrow> goerror + ModuleTemplate list" where
  "GetModuleTemplatesToSync metas k templates = Inr (FilterAllowedModuleTemplates templates metas k)"

subsection \<open>The syncers\<close>

text \<open>
  The syncers of ModuleTemplates and of ModuleReleaseMetas are the same code for two types. What
  they need of a type is its metadata, and how a call on it is recorded.
\<close>

record 'a sync_kind =
  kd_meta :: "'a \<Rightarrow> ObjectMeta"
  kd_setMeta :: "ObjectMeta \<Rightarrow> 'a \<Rightarrow> 'a"
  kd_listed :: effect
  kd_patched :: "'a \<Rightarrow> effect"
  kd_deleted :: "'a \<Rightarrow> effect"
  kd_name :: string
  kd_listName :: string
  kd_errApply :: goerror
  kd_errCleanup :: goerror

definition prepareForSSA :: "'a sync_kind \<Rightarrow> string \<Rightarrow> 'a \<Rightarrow> 'a" where
  "prepareForSSA kd namespace x =
     (let m = kd_meta kd x;
          m1 = m\<lparr>om_ManagedFields := [], om_Labels := fst (MergeMaps (om_Labels m) [(ManagedBy, ManagedByLabelValue)])\<rparr>;
          m2 = (if namespace \<noteq> [] then m1\<lparr>om_Namespace := namespace\<rparr> else m1)
      in kd_setMeta kd m2 x)"

definition isManagedByKcp :: "'a sync_kind \<Rightarrow> 'a \<Rightarrow> bool" where
  "isManagedByKcp kd x = list_ex (\<lambda>mgr. mgr = ModuleCatalogSync) (om_ManagedFields (kd_meta kd x))"

definition kd_identity :: "'a sync_kind \<Rightarrow> 'a \<Rightarrow> string" where
  "kd_identity kd x = om_Namespace (kd_meta kd x) @ om_Name (kd_meta kd x)"

definition patchDiff :: "'a sync_kind \<Rightarrow> 'a kind_client \<Rightarrow> 'a \<Rightarrow> history \<Rightarrow> history \<times> goerror option" where
  "patchDiff kd c x s =
     (case ask (kd_patched kd x) (\<lambda>h. kc_patch c h x) s of
        (s1, Some e) \<Rightarrow> (s1, Some (wrapErr (''could not apply '' @ kd_name kd @ '' diff: '') e))
      | (s1, None) \<Rightarrow> (s1, None))"

definition deleteDiff :: "'a sync_kind \<Rightarrow> 'a kind_client \<Rightarrow> 'a \<Rightarrow> history \<Rightarrow> history \<times> goerror option" where
  "deleteDiff kd c x s =
     (case ask (kd_deleted kd x) (\<lambda>h. kc_delete c h x) s of
        (s1, Some e) \<Rightarrow> (s1, Some (wrapErr (''could not delete '' @ kd_name kd @ '': '') e))
      | (s1, None) \<Rightarrow> (s1, None))"

definition joined :: "goerror \<Rightarrow> history \<times> goerror list \<Rightarrow> history \<times> goerror option" where
  "joined sentinel r = (fst r, if snd r = [] then None else Some (errors_JoinAll (snd r @ [sentinel])))"

text \<open>\<open>order\<close> arranges the objects in the order in which their goroutines reach the server.\<close>

definition SyncConcurrently ::
  "'a sync_kind \<Rightarrow> 'a kind_client \<Rightarrow> string \<Rightarrow> ('a list \<Rightarrow> 'a list) \<Rightarrow> 'a list \<Rightarrow> history \<Rightarrow> history \<times> goerror option" where
  "SyncConcurrently kd c namespace order xs s =
     joined (kd_errApply kd) (run_each (patchDiff kd c) (order (map (prepareForSSA kd namespace) xs)) s)"

definition DeleteConcurrently ::
  "'a sync_kind \<Rightarrow> 'a kind_client \<Rightarrow> ('a list \<Rightarrow> 'a list) \<Rightarrow> 'a list \<Rightarrow> history \<Rightarrow> history \<times> goerror option" where
  "DeleteConcurrently kd c order xs s = joined (kd_errCleanup kd) (run_each (deleteDiff kd c) (order xs) s)"

text \<open>The objects to delete are compared with the objects that were applied, in the remote namespace.\<close>

definition SyncToSKR ::
  "'a sync_kind \<Rightarrow> 'a kind_client \<Rightarrow> string \<Rightarrow> ('a list \<Rightarrow> 'a list) \<Rightarrow> 'a list \<Rightarrow> history \<Rightarrow> history \<times> goerror option" where
  "SyncToSKR kd c namespace order xs s =
     on_err (SyncConcurrently kd c namespace order xs s)
       (\<lambda>s e. (s, Some e))
       (\<lambda>s. case ask (kd_listed kd) (kc_list c) s of
          (s1, Inl e) \<Rightarrow> if no_match e then (s1, None)
                          else (s1, Some (wrapErr (''failed to list '' @ kd_name kd @ ''s from runtime: '') e))
        | (s1, Inr runtime) \<Rightarrow>
            DeleteConcurrently kd c order
              (FilterInPlace (isManagedByKcp kd)
                 (NotExistingIn (kd_identity kd) runtime (map (prepareForSSA kd namespace) xs))) s1)"

definition DeleteAllManaged :: "'a sync_kind \<Rightarrow> 'a kind_client \<Rightarrow> history \<Rightarrow> history \<times> goerror option" where
  "DeleteAllManaged kd c s =
     (case ask (kd_listed kd) (kc_list c) s of
        (s1, Inl e) \<Rightarrow> if IsNotFound (Some e) then (s1, None)
                        else (s1, Some (wrapErr (''failed to list '' @ kd_listName kd @ '' from skr: '') e))
      | (s1, Inr xs) \<Rightarrow>
          try_each (\<lambda>x s. if isManagedByKcp kd x
             then (case ask (kd_deleted kd x) (\<lambda>h. kc_delete c h x) s of
                     (s2, Some e) \<Rightarrow> if IsNotFound (Some e) then (s2, None)
                                      else (s2, Some (wrapErr (''failed to delete '' @ kd_name kd @ '' from skr: '') e))
                   | (s2, None) \<Rightarrow> (s2, None))
             else (s, None)) xs s1)"

definition moduleTemplateSyncer :: "ModuleTemplate sync_kind" where
  "moduleTemplateSyncer =
     \<lparr>kd_meta = mt_Meta, kd_setMeta = (\<lambda>m t. t\<lparr>mt_Meta := m\<rparr>), kd_listed = ListRemoteTemplates,
      kd_patched = PatchRemoteTemplate, kd_deleted = DeleteRemoteTemplate, kd_name = ''ModuleTemplate'',
      kd_listName = ''ModuleTemplates'',
      kd_errApply = Sentinel ''errCatModuleTemplatesApply'' ''catalog sync: Could not apply ModuleTemplates'',
      kd_errCleanup = Sentinel ''errModuleTemplateCleanup'' ''catalog sync: Failed to delete obsolete ModuleTemplates''\<rparr>"

definition moduleReleaseMetaSyncer :: "ModuleReleaseMeta sync_kind" where
  "moduleReleaseMetaSyncer =
     \<lparr>kd_meta = mrm_Meta, kd_setMeta = (\<lambda>m t. t\<lparr>mrm_Meta := m\<rparr>), kd_listed = ListRemoteMetas,
      kd_patched = PatchRemoteMeta, kd_deleted = DeleteRemoteMeta, kd_name = ''ModuleReleaseMeta'',
      kd_listName = ''ModuleReleaseMeta'',
      kd_errApply = Sentinel ''errCatModuleReleaseMetaApply'' ''catalog sync: Could not apply ModuleReleaseMetas'',
      kd_errCleanup = Sentinel ''errModuleReleaseMetaCleanup'' ''catalog sync: Failed to delete ModuleReleaseMeta''\<rparr>"

definition SyncMetasToSKR ::
  "ModuleReleaseMeta kind_client \<Rightarrow> string \<Rightarrow> (ModuleReleaseMeta list \<Rightarrow> ModuleReleaseMeta list)
     \<Rightarrow> ModuleReleaseMeta list \<Rightarrow> history \<Rightarrow> history \<times> goerror option" where
  "SyncMetasToSKR = SyncToSKR moduleReleaseMetaSyncer"

text \<open>The orders in which the goroutines for the two kinds run.\<close>

record sync_orders =
  so_templates :: "ModuleTemplate list \<Rightarrow> ModuleTemplate list"
  so_metas :: "ModuleReleaseMeta list \<Rightarrow> ModuleReleaseMeta list"

definition catalog_sync ::
  "catalog_env \<Rightarrow> 'cfg provider_env \<Rightarrow> sync_orders \<Rightarrow> NamespacedName \<Rightarrow> ModuleTemplate list
     \<Rightarrow> ModuleReleaseMeta list \<Rightarrow> history \<Rightarrow> history \<times> goerror option" where
  "catalog_sync env penv ord kyma templates metas s =
     (case provider_Get penv kyma s of
        Inl e \<Rightarrow> (s, Some (wrapErr ''failed to get SKR context: '' e))
      | Inr c \<Rightarrow>
          (case SyncToSKR moduleTemplateSyncer (sk_templates c) (ce_namespace env) (so_templates ord) templates s of
             (s1, mtErr) \<Rightarrow>
               (case SyncMetasToSKR (sk_metas c) (ce_namespace env) (so_metas ord) metas s1 of
                  (s2, mrmErr) \<Rightarrow> (s2, joinOpts [mtErr, mrmErr]))))"

definition SyncModuleCatalog ::
  "catalog_env \<Rightarrow> 'cfg provider_env \<Rightarrow> sync_orders \<Rightarrow> Kyma \<Rightarrow> history \<Rightarrow> history \<times> goerror option" where
  "SyncModuleCatalog env penv ord k s =
     (case ask ListKcpTemplates (ce_listTemplates env) s of
        (s1, Inl e) \<Rightarrow> (s1, Some (wrapErr ''failed to list ModuleTemplates: '' e))
      | (s1, Inr templates) \<Rightarrow>
          (case GetModuleReleaseMetasToSync env k templates s1 of
             (s2, Inl e) \<Rightarrow> (s2, Some e)
           | (s2, Inr metas) \<Rightarrow>
               (case GetModuleTemplatesToSync metas k templates of
                  Inl e \<Rightarrow> (s2, Some e)
                | Inr ts \<Rightarrow> catalog_sync env penv ord (Kyma_NamespacedName k) ts metas s2)))"

definition catalog_Delete :: "'cfg provider_env \<Rightarrow> NamespacedName \<Rightarrow> history \<Rightarrow> history \<times> goerror option" where
  "catalog_Delete penv kyma s =
     (case provider_Get penv kyma s of
        Inl e \<Rightarrow> (s, Some (wrapErr ''failed to get SKR context: '' e))
      | Inr c \<Rightarrow> DeleteAllManaged moduleTemplateSyncer (sk_templates c) s)"

section \<open>CRDs and image pull secret\<close>

definition ErrCrdSync :: goerror where
  "ErrCrdSync = Sentinel ''ErrCrdSync'' ''failed to sync CRDs to SKR''"
definition ErrImagePullSecretNotConfigured :: goerror where
  "ErrImagePullSecretNotConfigured =
     Sentinel ''ErrImagePullSecretNotConfigured'' ''image pull secret not configured in service''"
definition ErrImagePullSecretNotFound :: goerror where
  "ErrImagePullSecretNotFound = Sentinel ''ErrImagePullSecretNotFound'' ''image pull secret not found''"
definition ErrFailedToSyncImagePullSecret :: goerror where
  "ErrFailedToSyncImagePullSecret =
     Sentinel ''ErrFailedToSyncImagePullSecret'' ''failed to sync image pull secret to SKR''"

definition quoted :: "string \<Rightarrow> string" where
  "quoted n = [CHR 0x22] @ n @ [CHR 0x22]"

text \<open>A CRD entry: the kind and its plural.\<close>

record skrsync_env =
  ss_crdEntries :: "(string \<times> string) list"
  ss_readCrd :: "history \<Rightarrow> string \<Rightarrow> goerror option"
  ss_applyCrd :: "history \<Rightarrow> NamespacedName \<Rightarrow> string \<Rightarrow> goerror option"
  ss_getSecret :: "history \<Rightarrow> string \<Rightarrow> goerror + RemoteSecret"
  ss_secretName :: string

definition applyOne :: "skrsync_env \<Rightarrow> NamespacedName \<Rightarrow> string \<times> string \<Rightarrow> history \<Rightarrow> history \<times> goerror option" where
  "applyOne env kyma entry s =
     (let name = crd_name (snd entry) in
      case ask (ReadCrd name) (\<lambda>h. ss_readCrd env h name) s of
        (s1, Some e) \<Rightarrow> (s1, Some (wrapErr (''could not read KCP CRD '' @ quoted name @ '': '') e))
      | (s1, None) \<Rightarrow>
          (case ask (ApplyRemoteCrd kyma name) (\<lambda>h. ss_applyCrd env h kyma name) s1 of
             (s2, Some e) \<Rightarrow> (s2, Some (wrapErr (''could not apply '' @ fst entry @ '' CRD to SKR: '') e))
           | (s2, None) \<Rightarrow> (s2, None)))"

definition SyncCRDs :: "skrsync_env \<Rightarrow> Kyma \<Rightarrow> history \<Rightarrow> history \<times> goerror option" where
  "SyncCRDs env k s =
     (case run_each (applyOne env (Kyma_NamespacedName k)) (ss_crdEntries env) s of
        (s1, []) \<Rightarrow> (s1, None)
      | (s1, errs) \<Rightarrow> (s1, Some (errors_JoinAll (ErrCrdSync # errs))))"

definition clearClusterSpecificMetadata :: "RemoteSecret \<Rightarrow> RemoteSecret" where
  "clearClusterSpecificMetadata sec =
     sec\<lparr>sec_Meta := (sec_Meta sec)\<lparr>om_ManagedFields := [], om_Generation := 0\<rparr>\<rparr>"

definition SyncImagePullSecret ::
  "skrsync_env \<Rightarrow> 'cfg provider_env \<Rightarrow> NamespacedName \<Rightarrow> history \<Rightarrow> history \<times> goerror option" where
  "SyncImagePullSecret env penv kyma s =
     (if ss_secretName env = [] then (s, Some ErrImagePullSecretNotConfigured)
      else (case ask (GetSecret (ss_secretName env)) (\<lambda>h. ss_getSecret env h (ss_secretName env)) s of
              (s1, Inl e) \<Rightarrow> (s1, Some (errors_Join ErrImagePullSecretNotFound e))
            | (s1, Inr sec) \<Rightarrow>
                (case provider_Get penv kyma s1 of
                   Inl e \<Rightarrow> (s1, Some e)
                 | Inr c \<Rightarrow>
                     (let remote = clearClusterSpecificMetadata
                            (sec\<lparr>sec_Meta := (sec_Meta sec)\<lparr>om_Namespace := DefaultRemoteNamespace\<rparr>\<rparr>) in
                      case ask (PatchRemoteSecret remote) (\<lambda>h. sk_patchSecret c h remote) s1 of
                        (s2, Some e) \<Rightarrow> (s2, Some (errors_Join ErrFailedToSyncImagePullSecret e))
                      | (s2, None) \<Rightarrow> (s2, None)))))"

section \<open>The interface of a synced kind\<close>

text \<open>
  A kind of object that can be synced: its metadata can be written and read back, and the recorded
  calls tell patches from deletions.
\<close>

locale syncable =
  fixes kd :: "'a sync_kind"
  assumes meta_setMeta: "kd_meta kd (kd_setMeta kd m x) = m"
    and patched_inject: "kd_patched kd x = kd_patched kd y \<Longrightarrow> x = y"
    and deleted_inject: "kd_deleted kd x = kd_deleted kd y \<Longrightarrow> x = y"
    and patched_not_deleted: "kd_patched kd x \<noteq> kd_deleted kd y"
    and listed_not_deleted: "kd_listed kd \<noteq> kd_deleted kd y"
begin

lemma run_patches: "fst (run_each (patchDiff kd c) xs s) = s @ map (kd_patched kd) xs"
  by (rule run_each_history) (simp add: patchDiff_def ask_def split: option.splits)

lemma run_deletes: "fst (run_each (deleteDiff kd c) xs s) = s @ map (kd_deleted kd) xs"
  by (rule run_each_history) (simp add: deleteDiff_def ask_def split: option.splits)

lemma prepared_meta:
  "kd_meta kd (prepareForSSA kd ns x) = (kd_meta kd x)
     \<lparr>om_ManagedFields := [], om_Labels := fst (MergeMaps (om_Labels (kd_meta kd x)) [(ManagedBy, ManagedByLabelValue)]),
      om_Namespace := (if ns \<noteq> [] then ns else om_Namespace (kd_meta kd x))\<rparr>"
  by (simp add: prepareForSSA_def Let_def meta_setMeta)

lemma prepared:
  "om_Labels (kd_meta kd (prepareForSSA kd ns x)) ManagedBy = Some ManagedByLabelValue"
  "om_ManagedFields (kd_meta kd (prepareForSSA kd ns x)) = []"
  "ns \<noteq> [] \<Longrightarrow> om_Namespace (kd_meta kd (prepareForSSA kd ns x)) = ns"
  "om_Name (kd_meta kd (prepareForSSA kd ns x)) = om_Name (kd_meta kd x)"
  by (auto simp: prepared_meta MergeMaps_def label_get_def ManagedByLabelValue_def split: option.splits)

text \<open>The objects that a sync deletes when the SKR lists \<open>runtime\<close>.\<close>

lemma obsolete:
  "FilterInPlace (isManagedByKcp kd) (NotExistingIn (kd_identity kd) runtime ys) =
     filter (\<lambda>x. ModuleCatalogSync \<in> set (om_ManagedFields (kd_meta kd x)) \<and> kd_identity kd x \<notin> kd_identity kd ` set ys) runtime"
proof -
  have "FilterInPlace P zs = filter P zs" for P and zs :: "'a list"
    using filter_loop_invariant [of 0 0 zs P] by (simp add: FilterInPlace_def case_prod_beta Let_def)
  moreover have "isManagedByKcp kd x \<longleftrightarrow> ModuleCatalogSync \<in> set (om_ManagedFields (kd_meta kd x))" for x
    by (auto simp: isManagedByKcp_def list_ex_iff)
  ultimately show ?thesis by (simp add: NotExistingIn_filter conj_commute)
qed

text \<open>What a sync writes, in full.\<close>

lemma SyncToSKR_history:
  fixes s ns xs order
  defines "ys \<equiv> map (prepareForSSA kd ns) xs"
  defines "s1 \<equiv> s @ map (kd_patched kd) (order ys)"
  shows "fst (SyncToSKR kd c ns order xs s) =
    (if snd (SyncConcurrently kd c ns order xs s) \<noteq> None then s1
     else (case kc_list c s1 of
             Inl e \<Rightarrow> s1 @ [kd_listed kd]
           | Inr runtime \<Rightarrow> s1 @ [kd_listed kd] @ map (kd_deleted kd) (order
               (filter (\<lambda>x. ModuleCatalogSync \<in> set (om_ManagedFields (kd_meta kd x)) \<and> kd_identity kd x \<notin> kd_identity kd ` set ys) runtime))))"
proof -
  have s1: "fst (SyncConcurrently kd c ns order xs s) = s1"
    by (simp add: SyncConcurrently_def joined_def run_patches s1_def ys_def)
  then obtain r where sync: "SyncConcurrently kd c ns order xs s = (s1, r)"
    by (cases "SyncConcurrently kd c ns order xs s") simp
  show ?thesis
    unfolding SyncToSKR_def sync obsolete ys_def [symmetric]
    by (cases r; cases "kc_list c s1")
      (simp_all add: ask_def DeleteConcurrently_def joined_def run_deletes)
qed

lemma SyncToSKR_writes:
  assumes "\<And>ys. mset (order ys) = mset ys"
    and "fst (SyncToSKR kd c ns order xs s) = s @ w"
  shows "x \<in> set xs \<Longrightarrow> kd_patched kd (prepareForSSA kd ns x) \<in> set w"
    and "kd_deleted kd d \<in> set w \<Longrightarrow>
       snd (SyncConcurrently kd c ns order xs s) = None
       \<and> ModuleCatalogSync \<in> set (om_ManagedFields (kd_meta kd d))
       \<and> (\<forall>x \<in> set xs. kd_identity kd d \<noteq> kd_identity kd (prepareForSSA kd ns x))
       \<and> (\<exists>h runtime. kc_list c h = Inr runtime \<and> d \<in> set runtime)"
proof -
  let ?ys = "map (prepareForSSA kd ns) xs"
  have same: "set (order zs) = set zs" for zs using assms(1) by (metis set_mset_mset)
  have w: "w = map (kd_patched kd) (order ?ys) @
    (if snd (SyncConcurrently kd c ns order xs s) \<noteq> None then []
     else (case kc_list c (s @ map (kd_patched kd) (order ?ys)) of
             Inl e \<Rightarrow> [kd_listed kd]
           | Inr runtime \<Rightarrow> [kd_listed kd] @ map (kd_deleted kd) (order
               (filter (\<lambda>x. ModuleCatalogSync \<in> set (om_ManagedFields (kd_meta kd x))
                  \<and> kd_identity kd x \<notin> kd_identity kd ` set ?ys) runtime))))"
    using assms(2) unfolding SyncToSKR_history by (auto split: if_splits sum.splits)
  show "kd_patched kd (prepareForSSA kd ns x) \<in> set w" if "x \<in> set xs"
    using that unfolding w set_append set_map same by blast
  assume d: "kd_deleted kd d \<in> set w"
  have notpatch: "kd_deleted kd d \<notin> set (map (kd_patched kd) (order ?ys))"
    using patched_not_deleted by (metis (no_types, lifting) imageE list.set_map)
  with d have ok: "snd (SyncConcurrently kd c ns order xs s) = None"
    unfolding w by (auto split: if_splits)
  from d notpatch ok obtain runtime where
    rt: "kc_list c (s @ map (kd_patched kd) (order ?ys)) = Inr runtime"
    and "kd_deleted kd d \<in> kd_deleted kd ` set (order
           (filter (\<lambda>x. ModuleCatalogSync \<in> set (om_ManagedFields (kd_meta kd x))
                  \<and> kd_identity kd x \<notin> kd_identity kd ` set ?ys) runtime))"
    unfolding w using listed_not_deleted [of d]
    by (cases "kc_list c (s @ map (kd_patched kd) (order ?ys))") auto
  then have "d \<in> set (filter (\<lambda>x. ModuleCatalogSync \<in> set (om_ManagedFields (kd_meta kd x))
                  \<and> kd_identity kd x \<notin> kd_identity kd ` set ?ys) runtime)"
    unfolding same using deleted_inject by blast
  then show "snd (SyncConcurrently kd c ns order xs s) = None
       \<and> ModuleCatalogSync \<in> set (om_ManagedFields (kd_meta kd d))
       \<and> (\<forall>x \<in> set xs. kd_identity kd d \<noteq> kd_identity kd (prepareForSSA kd ns x))
       \<and> (\<exists>h runtime. kc_list c h = Inr runtime \<and> d \<in> set runtime)"
    using ok rt by auto
qed

end

interpretation template_kind: syncable moduleTemplateSyncer
  by unfold_locales (simp_all add: moduleTemplateSyncer_def)

interpretation meta_kind: syncable moduleReleaseMetaSyncer
  by unfold_locales (simp_all add: moduleReleaseMetaSyncer_def)

section \<open>Properties\<close>

lemma moduleTemplatesToSync_dom:
  "moduleTemplatesToSync metas n \<noteq> None \<longleftrightarrow>
     (\<exists>m \<in> set metas. \<exists>c \<in> set (mrm_Channels m). n = formatModuleName (mrm_ModuleName m) (cva_Version c))"
proof -
  have inner: "dom (fold (\<lambda>c acc. acc(f c \<mapsto> True)) cs acc) = dom acc \<union> f ` set cs" for f and cs :: "'c list" and acc
    by (induction cs arbitrary: acc) auto
  have "dom (fold (\<lambda>m acc. fold (\<lambda>c acc. acc(formatModuleName (mrm_ModuleName m) (cva_Version c) \<mapsto> True))
             (mrm_Channels m) acc) metas acc) =
      dom acc \<union> (\<Union>m \<in> set metas. (\<lambda>c. formatModuleName (mrm_ModuleName m) (cva_Version c)) ` set (mrm_Channels m))" for acc
    by (induction metas arbitrary: acc) (auto simp: inner)
  then have "dom (moduleTemplatesToSync metas) =
      (\<Union>m \<in> set metas. (\<lambda>c. formatModuleName (mrm_ModuleName m) (cva_Version c)) ` set (mrm_Channels m))"
    by (simp add: moduleTemplatesToSync_def)
  then have "n \<in> dom (moduleTemplatesToSync metas) \<longleftrightarrow>
      (\<exists>m \<in> set metas. n \<in> (\<lambda>c. formatModuleName (mrm_ModuleName m) (cva_Version c)) ` set (mrm_Channels m))"
    by (simp only: UN_iff)
  then show ?thesis unfolding image_iff domIff .
qed

lemma meta_to_sync_Some:
  "meta_to_sync env k templates m = Some m' \<longleftrightarrow>
     mrm_Mandatory m = None
     \<and> (if isRestrictedModule env (mrm_ModuleName m)
        then RestrictedModuleMatch (ce_asSelector env) (Some m) (Some k) = Inr True
        else mrm_KymaSelector m = None)
     \<and> mrm_Channels m' \<noteq> []
     \<and> m' = m\<lparr>mrm_Channels := filter (\<lambda>c. IsAllowedModuleVersion k templates (mrm_ModuleName m) (cva_Version c)) (mrm_Channels m)\<rparr>"
  by (cases "RestrictedModuleMatch (ce_asSelector env) (Some m) (Some k)")
    (auto simp: meta_to_sync_def Let_def)


text \<open>C6. What a sync of the ModuleTemplates writes to the SKR: every template of the catalog is applied, in the
  remote namespace and labelled as managed by Kyma. A template is deleted only when all templates
  were applied without error, the SKR lists it, its fields are managed by the catalog sync (so it
  was not created by a user), and it is none of the templates just applied.\<close>

theorem SyncToSKR_safe:
  assumes "\<And>ys. mset (order ys) = mset ys"
    and "fst (SyncToSKR moduleTemplateSyncer c ns order xs s) = s @ written" and "ns \<noteq> []"
  shows "(\<forall>x \<in> set xs. \<exists>p. PatchRemoteTemplate p \<in> set written \<and> om_Name (mt_Meta p) = om_Name (mt_Meta x)
            \<and> om_Namespace (mt_Meta p) = ns \<and> om_Labels (mt_Meta p) ManagedBy = Some ManagedByLabelValue)
    \<and> (\<forall>d. DeleteRemoteTemplate d \<in> set written \<longrightarrow>
         snd (SyncConcurrently moduleTemplateSyncer c ns order xs s) = None
         \<and> ModuleCatalogSync \<in> set (om_ManagedFields (mt_Meta d))
         \<and> (\<forall>x \<in> set xs. \<not> (om_Namespace (mt_Meta d) = ns \<and> om_Name (mt_Meta d) = om_Name (mt_Meta x)))
         \<and> (\<exists>h runtime. kc_list c h = Inr runtime \<and> d \<in> set runtime))"
proof -
  have sel: "kd_patched moduleTemplateSyncer = PatchRemoteTemplate"
    "kd_deleted moduleTemplateSyncer = DeleteRemoteTemplate" "kd_meta moduleTemplateSyncer = mt_Meta"
    by (simp_all add: moduleTemplateSyncer_def)
  note writes = template_kind.SyncToSKR_writes [where order = order and c = c and ns = ns and xs = xs and s = s and w = written,
      OF assms(1,2), unfolded sel]
  note prep = template_kind.prepared [where ns = ns, unfolded sel]
  have ident: "kd_identity moduleTemplateSyncer d = kd_identity moduleTemplateSyncer (prepareForSSA moduleTemplateSyncer ns x)"
    if "om_Namespace (mt_Meta d) = ns" "om_Name (mt_Meta d) = om_Name (mt_Meta x)" for d x
    using that prep(3,4) [of x] assms(3) by (simp add: kd_identity_def sel)
  show ?thesis
  proof (intro conjI ballI allI impI)
    fix x assume "x \<in> set xs"
    then show "\<exists>p. PatchRemoteTemplate p \<in> set written \<and> om_Name (mt_Meta p) = om_Name (mt_Meta x)
            \<and> om_Namespace (mt_Meta p) = ns \<and> om_Labels (mt_Meta p) ManagedBy = Some ManagedByLabelValue"
      using writes(1) [of x] prep assms(3) by blast
  next
    fix d assume "DeleteRemoteTemplate d \<in> set written"
    note del = writes(2) [OF this]
    show "snd (SyncConcurrently moduleTemplateSyncer c ns order xs s) = None"
      "ModuleCatalogSync \<in> set (om_ManagedFields (mt_Meta d))"
      "\<exists>h runtime. kc_list c h = Inr runtime \<and> d \<in> set runtime"
      using del by blast+
    show "\<not> (om_Namespace (mt_Meta d) = ns \<and> om_Name (mt_Meta d) = om_Name (mt_Meta x))" if "x \<in> set xs" for x
      using del that ident by blast
  qed
qed

subsection \<open>Metadata\<close>

definition merged :: "(string \<times> string) list \<Rightarrow> labels \<Rightarrow> bool" where
  "merged entries m \<longleftrightarrow> (\<forall>(k, v) \<in> set entries. label_get m k = v)"

definition merge_entry :: "string \<times> string \<Rightarrow> labels \<times> bool \<Rightarrow> labels \<times> bool" where
  "merge_entry e r = (if label_get (fst r) (fst e) \<noteq> snd e then ((fst r)(fst e \<mapsto> snd e), True) else r)"

lemma MergeMaps_fold: "MergeMaps m entries = fold merge_entry entries (m, False)"
  unfolding MergeMaps_def by (rule fold_cong) (auto simp: fun_eq_iff merge_entry_def)

lemma merge_entry_flag:
  "fold merge_entry es (m, True) = (fst (fold merge_entry es (m, False)), True)"
proof (induction es arbitrary: m)
  case (Cons e es)
  show ?case
    using Cons by (simp add: merge_entry_def)
qed simp

lemma MergeMaps_step:
  "MergeMaps m ((k, v) # es) =
     (if label_get m k \<noteq> v then (fst (MergeMaps (m(k \<mapsto> v)) es), True) else MergeMaps m es)"
  by (simp add: MergeMaps_fold merge_entry_def merge_entry_flag)

lemma MergeMaps_other: "k \<notin> fst ` set entries \<Longrightarrow> fst (MergeMaps m entries) k = m k"
proof (induction entries arbitrary: m)
  case (Cons e es)
  then show ?case by (cases e) (simp add: MergeMaps_step)
qed (simp add: MergeMaps_def)

lemma MergeMaps_merged:
  "distinct (map fst entries) \<Longrightarrow> merged entries (fst (MergeMaps m entries))"
proof (induction entries arbitrary: m)
  case (Cons e es)
  obtain k v where e: "e = (k, v)" by (cases e)
  have keep: "label_get (fst (MergeMaps m' es)) k = label_get m' k" for m'
    using Cons.prems MergeMaps_other [of k es m'] by (simp add: e label_get_def)
  show ?case using Cons keep by (auto simp: merged_def e MergeMaps_step)
qed (simp add: merged_def)

lemma merged_cong:
  assumes "merged entries m" and "\<forall>l \<in> fst ` set entries. m' l = m l"
  shows "merged entries m'"
  unfolding merged_def
proof (rule ballI)
  fix e assume e: "e \<in> set entries"
  then have "label_get m' (fst e) = label_get m (fst e)" using assms(2) by (simp add: label_get_def)
  then show "case e of (k, v) \<Rightarrow> label_get m' k = v" using assms(1) e by (cases e) (auto simp: merged_def)
qed

lemma MergeMaps_unchanged: "merged entries m \<Longrightarrow> MergeMaps m entries = (m, False)"
  by (induction entries) (auto simp: merged_def MergeMaps_step MergeMaps_def)

definition watcher_entries :: "Kyma \<Rightarrow> (string \<times> string) list" where
  "watcher_entries kcp = [(WatchedByLabel, WatchedByLabelValue), (ManagedBy, ManagedByLabelValue)] @ label_entry RuntimeIDLabel kcp"

definition btp_entries :: "Kyma \<Rightarrow> (string \<times> string) list" where
  "btp_entries kcp = label_entry GlobalAccountIDLabel kcp @ label_entry SubAccountIDLabel kcp"

definition owner_entries :: "Kyma \<Rightarrow> (string \<times> string) list" where
  "owner_entries kcp = [(OwnedByAnnotation, om_Namespace (kyma_Meta kcp) @ ''/'' @ om_Name (kyma_Meta kcp))]"

lemmas label_defs = WatchedByLabel_def ManagedBy_def RuntimeIDLabel_def GlobalAccountIDLabel_def
  SubAccountIDLabel_def OperatorGroup_def KymaGroup_def

lemma label_entry_keys: "fst ` set (label_entry l k) \<subseteq> {l}"
  by (auto simp: label_entry_def split: option.splits)

lemma entries_distinct: "distinct (map fst (watcher_entries k))" "distinct (map fst (btp_entries k))"
  by (auto simp: watcher_entries_def btp_entries_def label_entry_def label_defs split: option.splits)

lemma entries_disjoint: "fst ` set (watcher_entries k) \<inter> fst ` set (btp_entries k) = {}"
  by (auto simp: watcher_entries_def btp_entries_def label_entry_def label_defs split: option.splits)

text \<open>The Kyma as it is synchronised.\<close>

definition synchronised :: "Kyma \<Rightarrow> Kyma \<Rightarrow> bool" where
  "synchronised kcp skr \<longleftrightarrow> merged (watcher_entries kcp) (kyma_labels skr) \<and> merged (btp_entries kcp) (kyma_labels skr)
     \<and> merged (owner_entries kcp) (om_Annotations (kyma_Meta skr))"

lemma set_labels_sel [simp]:
  "kyma_labels (set_labels ls k) = ls" "om_Annotations (kyma_Meta (set_labels ls k)) = om_Annotations (kyma_Meta k)"
  "om_DeletionTimestamp (kyma_Meta (set_labels ls k)) = om_DeletionTimestamp (kyma_Meta k)"
  "kyma_labels (set_annotations ls k) = kyma_labels k" "om_Annotations (kyma_Meta (set_annotations ls k)) = ls"
  "om_DeletionTimestamp (kyma_Meta (set_annotations ls k)) = om_DeletionTimestamp (kyma_Meta k)"
  "set_annotations (om_Annotations (kyma_Meta k)) k = k"
  "set_labels (kyma_labels k) k = k"
  by (simp_all add: set_labels_def set_annotations_def)

lemma sync_labels_synchronised:
  fixes kcp skr
  defines "skr2 \<equiv> fst (syncBTPRelatedLabels kcp (fst (syncWatcherLabelsAnnotations kcp skr)))"
  shows "synchronised kcp skr2"
proof -
  let ?w = "fst (MergeMaps (kyma_labels skr) (watcher_entries kcp))"
  let ?a = "fst (MergeMaps (om_Annotations (kyma_Meta skr)) (owner_entries kcp))"
  have skr2: "skr2 = set_labels (fst (MergeMaps ?w (btp_entries kcp))) (set_annotations ?a (set_labels ?w skr))"
    by (simp add: skr2_def syncBTPRelatedLabels_def syncWatcherLabelsAnnotations_def case_prod_beta
        btp_entries_def watcher_entries_def owner_entries_def)
  have "merged (watcher_entries kcp) (fst (MergeMaps ?w (btp_entries kcp)))"
  proof -
    have "fst (MergeMaps ?w (btp_entries kcp)) l = ?w l" if "l \<in> fst ` set (watcher_entries kcp)" for l
      using that entries_disjoint MergeMaps_other by blast
    then show ?thesis
      by (intro merged_cong [OF MergeMaps_merged [OF entries_distinct(1), of kcp "kyma_labels skr"]]) blast
  qed
  moreover have "merged (btp_entries kcp) (fst (MergeMaps ?w (btp_entries kcp)))"
    by (rule MergeMaps_merged [OF entries_distinct(2)])
  moreover have "merged (owner_entries kcp) ?a"
    by (rule MergeMaps_merged) (simp add: owner_entries_def)
  ultimately show ?thesis by (simp add: synchronised_def skr2)
qed

lemma synchronised_stable:
  assumes "synchronised kcp skr"
  shows "SynchronizeKymaMetadata c kcp skr s = (s, skr, None)"
proof -
  have "MergeMaps (kyma_labels skr) (watcher_entries kcp) = (kyma_labels skr, False)"
    "MergeMaps (kyma_labels skr) (btp_entries kcp) = (kyma_labels skr, False)"
    "MergeMaps (om_Annotations (kyma_Meta skr)) (owner_entries kcp) = (om_Annotations (kyma_Meta skr), False)"
    using assms by (simp_all add: synchronised_def MergeMaps_unchanged)
  then have "syncWatcherLabelsAnnotations kcp skr = (skr, False)" "syncBTPRelatedLabels kcp skr = (skr, False)"
    by (simp_all add: syncWatcherLabelsAnnotations_def syncBTPRelatedLabels_def watcher_entries_def
        btp_entries_def owner_entries_def)
  then show ?thesis by (simp add: SynchronizeKymaMetadata_def)
qed

text \<open>Synchronising the metadata of the remote Kyma converges: once it has run, a second run with the Kyma
  it produced finds all labels and annotations in place and makes no further call, whatever the
  labels of the two Kymas are.\<close>

theorem SynchronizeKymaMetadata_idempotent:
  "SynchronizeKymaMetadata c kcp (fst (snd (SynchronizeKymaMetadata c kcp skr s))) s2 =
     (s2, fst (snd (SynchronizeKymaMetadata c kcp skr s)), None)"
proof (cases "om_DeletionTimestamp (kyma_Meta skr) = None")
  case False
  then show ?thesis by (simp add: SynchronizeKymaMetadata_def)
next
  case True
  have "fst (snd (SynchronizeKymaMetadata c kcp skr s)) =
      fst (syncBTPRelatedLabels kcp (fst (syncWatcherLabelsAnnotations kcp skr)))"
    using True by (simp add: SynchronizeKymaMetadata_def case_prod_beta ask_def split: option.splits)
  then show ?thesis using synchronised_stable [OF sync_labels_synchronised] by simp
qed

subsection \<open>Finalizers of the remote Kyma\<close>

text \<open>A library that allocates the shorter slice, and one that compacts the slice in place.\<close>

definition remove_copying :: slice_remove where
  "remove_copying arr cur f = (arr, filter (\<lambda>g. g \<noteq> f) cur)"

definition remove_in_place :: slice_remove where
  "remove_in_place arr cur f = (let kept = filter (\<lambda>g. g \<noteq> f) cur in (kept @ drop (length kept) arr, kept))"

lemma removeAll_copying: "removeAllFinalizers remove_copying fs = []"
proof -
  have "fold (\<lambda>i (arr, cur). remove_copying arr cur (arr ! i)) is (fs, cur) =
      (fs, filter (\<lambda>g. g \<notin> (\<lambda>i. fs ! i) ` set is) cur)" for "is" cur
    by (induction "is" arbitrary: cur) (auto simp: remove_copying_def conj_commute intro!: filter_cong)
  moreover have "(\<lambda>i. fs ! i) ` {0..<length fs} = set fs" by (auto simp: set_conv_nth)
  ultimately show ?thesis by (simp add: removeAllFinalizers_def)
qed

text \<open>Removing all finalizers of the remote Kyma depends on the library: the loop ranges over the slice of
  finalizers that the library shortens. With a library that allocates the shorter slice all
  finalizers are removed; with one that compacts the slice in place an element is moved to an
  index the loop has passed, and of three finalizers the middle one stays.\<close>

theorem removeAllFinalizers_aliasing:
  "removeAllFinalizers remove_copying fs = []
   \<and> removeAllFinalizers remove_in_place [''a'', ''b'', ''c''] = [''b'']"
  using removeAll_copying by (simp add: removeAllFinalizers_def remove_in_place_def upt_rec)

subsection \<open>Examples\<close>

text \<open>A control plane and an SKR that know one template, which the SKR has in an older version.\<close>

definition ex_named :: "string \<Rightarrow> ObjectMeta" where
  "ex_named n = example_meta\<lparr>om_Name := n, om_Namespace := DefaultRemoteNamespace, om_ManagedFields := [ModuleCatalogSync]\<rparr>"

definition ex_new_template :: ModuleTemplate where
  "ex_new_template = ex_template\<lparr>mt_Meta := ex_named ''istio-1.1.0'', mt_ModuleName := ''istio'', mt_Version := ''1.1.0''\<rparr>"

definition ex_old_template :: ModuleTemplate where
  "ex_old_template = ex_template\<lparr>mt_Meta := ex_named ''istio-1.0.0'', mt_ModuleName := ''istio'', mt_Version := ''1.0.0''\<rparr>"

definition ex_catalog_env :: catalog_env where
  "ex_catalog_env = \<lparr>ce_listTemplates = (\<lambda>h. Inr [ex_new_template]), ce_listMetas = (\<lambda>h. Inr []),
     ce_asSelector = (\<lambda>sel. Inr (\<lambda>l. True)), ce_restrictedModules = [], ce_namespace = DefaultRemoteNamespace\<rparr>"

definition ex_channel_meta :: ModuleReleaseMeta where
  "ex_channel_meta = ex_mrm\<lparr>mrm_Channels := [\<lparr>cva_Channel = ''fast'', cva_Version = ''1.1.0''\<rparr>], mrm_KymaSelector := None,
     mrm_Mandatory := None\<rparr>"

definition ex_template_client :: "ModuleTemplate kind_client" where
  "ex_template_client = \<lparr>kc_list = (\<lambda>h. Inr [ex_new_template, ex_old_template]), kc_patch = (\<lambda>h x. None),
     kc_delete = (\<lambda>h x. None)\<rparr>"

lemma ex_metas:
  "List.map_filter (meta_to_sync ex_catalog_env ex_kyma [ex_new_template]) [ex_channel_meta] = [ex_channel_meta]"
proof -
  have "IsAllowedModuleVersion ex_kyma [ex_new_template] ''istio'' ''1.1.0''" by code_simp
  then show ?thesis
    by (simp add: List.map_filter_simps meta_to_sync_def ex_channel_meta_def ex_mrm_def isRestrictedModule_def
        ex_catalog_env_def)
qed


theorem SyncToSKR_safe_witness:
  "\<exists>written. fst (SyncToSKR moduleTemplateSyncer ex_template_client DefaultRemoteNamespace id [ex_new_template] []) = written
    \<and> DeleteRemoteTemplate ex_old_template \<in> set written
    \<and> ModuleCatalogSync \<in> set (om_ManagedFields (mt_Meta ex_old_template))"
proof -
  let ?w = "fst (SyncToSKR moduleTemplateSyncer ex_template_client DefaultRemoteNamespace id [ex_new_template] [])"
  have fresh: "kd_identity moduleTemplateSyncer ex_old_template \<notin>
      kd_identity moduleTemplateSyncer ` set (map (prepareForSSA moduleTemplateSyncer DefaultRemoteNamespace) [ex_new_template])"
    by code_simp
  have ok: "snd (SyncConcurrently moduleTemplateSyncer ex_template_client DefaultRemoteNamespace id [ex_new_template] []) = None"
    by (simp add: SyncConcurrently_def joined_def patchDiff_def ask_def ex_template_client_def)
  have del: "DeleteRemoteTemplate ex_old_template \<in> set ?w"
    unfolding template_kind.SyncToSKR_history using ok fresh
    by (simp add: ex_template_client_def moduleTemplateSyncer_def ex_old_template_def ex_named_def)
  have "ModuleCatalogSync \<in> set (om_ManagedFields (mt_Meta ex_old_template))"
    using SyncToSKR_safe [of id ex_template_client DefaultRemoteNamespace "[ex_new_template]" "[]" ?w] del
    by (simp add: DefaultRemoteNamespace_def)
  then show ?thesis using del by blast
qed

end
