(* ===== verification/KymaController.thy ===== *)
theory KymaController
  imports Remote StatusHandler
begin

text \<open>
  The reconciler of the Kyma (\<^verbatim>\<open>internal/controller/kyma/controller.go\<close>). The state it works
  on is the Kyma in memory and the history of the calls made so far; a step returns both, with the
  result of the reconciliation or the error. The controller composes the template lookup, the
  parser, the manifest runner, the status handler, the catalog and the deletion service of the
  other theories. The webhook manager, an interface in the source, is a record of functions.

  The three goroutines of the processing state run in an order that is an argument; each of them
  writes conditions of its own, so the order decides only which error is reported.
\<close>

section \<open>Environment\<close>

type_synonym kstate = "Kyma \<times> history"

record webhook_manager =
  wm_Reconcile :: "history \<Rightarrow> Kyma \<Rightarrow> goerror option"
  wm_Remove :: "history \<Rightarrow> Kyma \<Rightarrow> goerror option"
  wm_RemoveSkrCertificate :: "history \<Rightarrow> string \<Rightarrow> goerror option"

record 'cfg kenv =
  ke_provider :: "'cfg provider_env"
  ke_skrsync :: skrsync_env
  ke_catalog :: catalog_env
  ke_orders :: sync_orders
  ke_lib :: klib
  ke_remove :: slice_remove
  ke_getKyma :: "history \<Rightarrow> NamespacedName \<Rightarrow> goerror + Kyma"
  ke_updateKyma :: "history \<Rightarrow> Kyma \<Rightarrow> goerror option"
  ke_patchStatus :: "history \<Rightarrow> Kyma \<Rightarrow> goerror + Kyma"
  ke_deleteTracked :: "history \<Rightarrow> TrackingObject \<Rightarrow> goerror option"
  ke_listManifests :: "history \<Rightarrow> string \<Rightarrow> goerror + Manifest list"
  ke_deleteManifest :: "history \<Rightarrow> Manifest \<Rightarrow> goerror option"
  ke_webhook :: "webhook_manager option"
  ke_dclient :: "history dclient"
  ke_deletion :: deletion_config
  ke_lookup :: "history \<Rightarrow> lookup_env"
  ke_moduleLookup :: "history \<Rightarrow> module_lookup_fn"
  ke_parser :: "history \<Rightarrow> parser_env"
  ke_sync :: "history \<Rightarrow> sync_env"
  ke_syncOrder :: "KModule list \<Rightarrow> nat list"
  ke_apiVersionKind :: "GVK \<Rightarrow> string \<times> string"
  ke_grow :: "nat \<Rightarrow> nat"
  ke_statusCap :: "Kyma \<Rightarrow> nat"
  ke_getModule :: "history \<Rightarrow> TrackingObject \<Rightarrow> goerror + State"
  ke_keyOrder :: "Kyma \<Rightarrow> string list"
  ke_SkrImagePullSecretName :: string
  ke_intervals :: RequeueIntervals
  ke_rateLimit :: "history \<Rightarrow> duration"
  ke_now :: "history \<Rightarrow> int"

definition ErrManifestsStillExist :: goerror where
  "ErrManifestsStillExist = Sentinel ''ErrManifestsStillExist'' ''manifests still exist''"
definition ErrInvalidKymaSpec :: goerror where
  "ErrInvalidKymaSpec = Sentinel ''ErrInvalidKymaSpec'' ''invalid kyma spec''"
definition ErrKymaInErrorState :: goerror where
  "ErrKymaInErrorState = Sentinel ''ErrKymaInErrorState'' ''kyma in error state''"
definition ErrSkrWebhookDeploymentNotReady :: goerror where
  "ErrSkrWebhookDeploymentNotReady = Sentinel ''ErrSkrWebhookDeploymentNotReady'' ''SKR webhook deployment not ready''"
definition ErrSkrWebhookDeploymentInBackoff :: goerror where
  "ErrSkrWebhookDeploymentInBackoff =
     Sentinel ''ErrSkrWebhookDeploymentInBackoff'' ''SKR webhook deployment in backoff state''"

definition WatcherEnabled :: "'cfg kenv \<Rightarrow> bool" where
  "WatcherEnabled env = (ke_webhook env \<noteq> None)"

definition SkrImagePullSecretSyncEnabled :: "'cfg kenv \<Rightarrow> bool" where
  "SkrImagePullSecretSyncEnabled env = (ke_SkrImagePullSecretName env \<noteq> [])"

section \<open>Status\<close>

text \<open>The status patch of the helper, recorded in the history.\<close>

definition patch_status :: "'cfg kenv \<Rightarrow> State \<Rightarrow> string \<Rightarrow> kstate \<Rightarrow> kstate \<times> goerror option" where
  "patch_status env st message ks =
     (case ks of (k, s) \<Rightarrow>
        (case UpdateStatusForExistingModules (ke_patchStatus env s) (ke_now env s) k st message of
           (k', err, recorded) \<Rightarrow> ((k', s @ [PatchKymaStatus (status_object (ke_now env s) k st message)]), err)))"

definition updateStatus :: "'cfg kenv \<Rightarrow> State \<Rightarrow> string \<Rightarrow> kstate \<Rightarrow> kstate \<times> goerror option" where
  "updateStatus env st message ks =
     (case patch_status env st message ks of
        (ks', Some e) \<Rightarrow> (ks', Some (wrapErr (''error while updating status to '' @ state_text st @ '' because of ''
                            @ message @ '': '') e))
      | (ks', None) \<Rightarrow> (ks', None))"

definition updateStatusWithError :: "'cfg kenv \<Rightarrow> goerror \<Rightarrow> kstate \<Rightarrow> kstate \<times> goerror" where
  "updateStatusWithError env err ks =
     (case patch_status env StateError (error_text err) ks of
        (ks', Some statusErr) \<Rightarrow> (ks', wrapErr (''error while updating status to '' @ state_text StateError @ '': '')
                                    (errors_Join err statusErr))
      | (ks', None) \<Rightarrow> (ks', err))"

definition setModuleStatusesToError :: "string \<Rightarrow> Kyma \<Rightarrow> Kyma" where
  "setModuleStatusesToError message k =
     set_modules (map (\<lambda>m. if message \<noteq> [] then m\<lparr>ms_State := StateError, ms_Message := message\<rparr>
                           else m\<lparr>ms_State := StateError\<rparr>) (kyma_modules k)) k"

section \<open>Results\<close>

type_synonym kresult = "kstate \<times> ctrl_result \<times> goerror option"

definition failed :: "'cfg kenv \<Rightarrow> goerror \<Rightarrow> kstate \<Rightarrow> kresult" where
  "failed env err ks = (case updateStatusWithError env err ks of (ks', e) \<Rightarrow> (ks', no_requeue, Some e))"

text \<open>A step of the history that leaves the Kyma alone.\<close>

definition on_history :: "(history \<Rightarrow> history \<times> 'a) \<Rightarrow> kstate \<Rightarrow> kstate \<times> 'a" where
  "on_history f ks = (case f (snd ks) of (s', a) \<Rightarrow> ((fst ks, s'), a))"

definition on_kyma :: "(Kyma \<Rightarrow> Kyma) \<Rightarrow> kstate \<Rightarrow> kstate" where
  "on_kyma f ks = (f (fst ks), snd ks)"

section \<open>Modules\<close>

definition kyma_deleteManifest :: "'cfg kenv \<Rightarrow> TrackingObject \<Rightarrow> history \<Rightarrow> history \<times> goerror option" where
  "kyma_deleteManifest env tr s =
     (case ask (DeleteTracked tr) (\<lambda>h. ke_deleteTracked env h tr) s of
        (s1, Some e) \<Rightarrow> (s1, Some (wrapErr ''failed delete manifest crd: '' e))
      | (s1, None) \<Rightarrow> (s1, None))"

text \<open>The loop keeps the error of the last deletion only.\<close>

definition DeleteNoLongerExistingModules :: "'cfg kenv \<Rightarrow> Kyma \<Rightarrow> history \<Rightarrow> history \<times> goerror option" where
  "DeleteNoLongerExistingModules env k s =
     (let (s', err) = fold (\<lambda>m (s, err). case ms_Manifest m of
                None \<Rightarrow> (s, err)
              | Some tr \<Rightarrow> kyma_deleteManifest env tr s)
            (GetNoLongerExistingModuleStatus (ke_keyOrder env k) k) (s, None)
      in (s', case err of
                None \<Rightarrow> None
              | Some e \<Rightarrow> if client_IgnoreNotFound e \<noteq> None then Some (wrapErr ''error deleting module '' e) else None))"

definition reconcileManifests :: "'cfg kenv \<Rightarrow> kstate \<Rightarrow> kstate \<times> goerror option" where
  "reconcileManifests env ks =
     (case ks of (k, s0) \<Rightarrow>
       (let s = s0 @ [ListModules (Kyma_NamespacedName k)];
            templates = GetRegularTemplates (ke_lookup env s0) (ke_moduleLookup env s0) k;
            modules = GenerateModulesFromTemplates (ke_parser env s) k templates
        in case ReconcileManifests (ke_sync env s) k (ke_syncOrder env modules) modules of
             (modules', ops, err) \<Rightarrow>
               (let s1 = s @ [SyncManifests ops] in
                case err of
                  Some e \<Rightarrow> ((k, s1), Some (wrapErr ''sync failed: '' e))
                | None \<Rightarrow>
                    (case UpdateModuleStatuses (ke_apiVersionKind env) (ke_grow env) (ke_statusCap env k)
                            (ke_getModule env s1) (ke_keyOrder env) modules' k of
                       (k2, gone) \<Rightarrow>
                         (let s2 = s1 @ [RemoveModuleMetrics gone] in
                          case DeleteNoLongerExistingModules env k2 s2 of
                            (s3, Some e) \<Rightarrow> ((k2, s3), Some (wrapErr
                               ''error while syncing conditions during deleting non exists modules: '' e))
                          | (s3, None) \<Rightarrow> ((k2, s3), None))))))"

section \<open>The remote Kyma\<close>

definition ValidateDefaultChannel :: "Kyma \<Rightarrow> goerror option" where
  "ValidateDefaultChannel k =
     (if Channel_Equals NoneChannel (ks_Channel (kyma_Spec k))
      then Some (wrapPost ErrInvalidKymaSpec '': value \"none\" is not allowed in spec.channel'')
      else None)"

definition deleteRemoteKyma :: "'cfg kenv \<Rightarrow> Kyma \<Rightarrow> history \<Rightarrow> history \<times> goerror option" where
  "deleteRemoteKyma env k s =
     (case provider_Get (ke_provider env) (Kyma_NamespacedName k) s of
        Inl e \<Rightarrow> (s, Some (wrapErr ''failed to get skrContext: '' e))
      | Inr c \<Rightarrow>
          (case skr_DeleteKyma c s of
             (s1, None) \<Rightarrow> (s1, None)
           | (s1, Some e) \<Rightarrow>
               (s1, if client_IgnoreNotFound e \<noteq> None
                    then Some (wrapErr ''error occurred while trying to delete remotely synced kyma: '' e) else None)))"

definition fetchRemoteKyma :: "'cfg kenv \<Rightarrow> Kyma \<Rightarrow> history \<Rightarrow> history \<times> (goerror + Kyma)" where
  "fetchRemoteKyma env k s =
     (case provider_Get (ke_provider env) (Kyma_NamespacedName k) s of
        Inl e \<Rightarrow> (s, Inl (wrapErr ''failed to get syncContext: '' e))
      | Inr c \<Rightarrow>
          (case CreateOrFetchKyma c k s of
             (s1, Inr rk) \<Rightarrow> (s1, Inr rk)
           | (s1, Inl e) \<Rightarrow>
               (s1, Inl (if errors_Is e ErrNotFoundAndKCPKymaUnderDeleting then e
                         else wrapErr ''could not create or fetch remote kyma: '' e))))"

definition syncStatusToRemote :: "'cfg kenv \<Rightarrow> Kyma \<Rightarrow> history \<Rightarrow> history \<times> goerror option" where
  "syncStatusToRemote env k s =
     (case fetchRemoteKyma env k s of
        (s1, Inl e) \<Rightarrow> (s1, if errors_Is e ErrNotFoundAndKCPKymaUnderDeleting then None else Some e)
      | (s1, Inr rk) \<Rightarrow>
          (case provider_Get (ke_provider env) (Kyma_NamespacedName k) s1 of
             Inl e \<Rightarrow> (s1, Some (wrapErr ''failed to get skrContext: '' e))
           | Inr c \<Rightarrow>
               (case SynchronizeKymaMetadata c k rk s1 of
                  (s2, rk2, Some e) \<Rightarrow> (s2, Some (wrapErr ''failed to sync SKR Kyma CR Metadata: '' e))
                | (s2, rk2, None) \<Rightarrow>
                    (case SynchronizeKymaStatus c k rk2 s2 of
                       (s3, Some e) \<Rightarrow> (s3, Some (wrapErr ''failed to sync SKR Kyma CR Status: '' e))
                     | (s3, None) \<Rightarrow> (s3, None)))))"

definition replaceSpecFromRemote :: "'cfg kenv \<Rightarrow> kstate \<Rightarrow> kstate \<times> goerror option" where
  "replaceSpecFromRemote env ks =
     (case ks of (k, s) \<Rightarrow>
        (case fetchRemoteKyma env k s of
           (s1, Inl e) \<Rightarrow> ((k, s1), if errors_Is e ErrNotFoundAndKCPKymaUnderDeleting then None else Some e)
         | (s1, Inr rk) \<Rightarrow> (let k1 = ReplaceSpec k rk in ((k1, s1), ValidateDefaultChannel k1))))"

section \<open>The processing state\<close>

text \<open>The readiness of the deployment of the webhook, on the SKR.\<close>

definition backoff_reasons :: "string list" where
  "backoff_reasons = [''CrashLoopBackOff'', ''ImagePullBackOff'']"

definition AssertDeploymentReady :: "skr_client \<Rightarrow> history \<Rightarrow> history \<times> goerror option" where
  "AssertDeploymentReady c s =
     (case ask GetDeployment (sk_readyReplicas c) s of
        (s1, Inl e) \<Rightarrow> (s1, Some (wrapErr ''failed to get skr-webhook deployment: '' e))
      | (s1, Inr ready) \<Rightarrow>
          (case ask ListPods (sk_pods c) s1 of
             (s2, Inl e) \<Rightarrow> (s2, Some (wrapErr ''failed to list pods: '' e))
           | (s2, Inr pods) \<Rightarrow>
               if ready \<noteq> 0 then (s2, None)
               else (case List.map_filter (\<lambda>(p, w). if w \<in> set backoff_reasons then Some (p, w) else None)
                            (concat (map (\<lambda>p. map (\<lambda>w. (p, w)) (List.map_filter id (pod_Waiting p))) pods)) of
                       (p, reason) # _ \<Rightarrow>
                         (s2, Some (wrapPost ErrSkrWebhookDeploymentInBackoff
                            ('': pod '' @ pod_Namespace p @ ''/'' @ pod_Name p @ '' in backoff state ('' @ reason @ '')'')))
                     | [] \<Rightarrow>
                         (s2, Some (wrapPost ErrSkrWebhookDeploymentNotReady
                            ('': deployment '' @ DefaultRemoteNamespace @ ''/skr-webhook is not in Ready state''))))))"

definition checkSKRWebhookReadiness :: "klib \<Rightarrow> skr_client \<Rightarrow> kstate \<Rightarrow> kstate \<times> goerror option" where
  "checkSKRWebhookReadiness lib c ks =
     (case on_history (AssertDeploymentReady c) ks of
        (ks1, Some e) \<Rightarrow>
          (on_kyma (UpdateCondition lib ConditionTypeSKRWebhook ConditionFalse) ks1,
           if errors_Is e ErrSkrWebhookDeploymentInBackoff then Some e else None)
      | (ks1, None) \<Rightarrow> (on_kyma (UpdateCondition lib ConditionTypeSKRWebhook ConditionTrue) ks1, None))"

definition status_of :: "bool \<Rightarrow> ConditionStatus" where
  "status_of b = (if b then ConditionTrue else ConditionFalse)"

definition modules_task :: "'cfg kenv \<Rightarrow> kstate \<Rightarrow> kstate \<times> goerror option" where
  "modules_task env ks =
     (case reconcileManifests env ks of
        (ks1, Some e) \<Rightarrow> (ks1, Some (wrapErr ''could not reconciling manifest: '' e))
      | (ks1, None) \<Rightarrow>
          (on_kyma (UpdateCondition (ke_lib env) ConditionTypeModules (status_of (AllModulesReady (fst ks1)))) ks1, None))"

definition catalog_task :: "'cfg kenv \<Rightarrow> kstate \<Rightarrow> kstate \<times> goerror option" where
  "catalog_task env ks =
     (case on_history (SyncModuleCatalog (ke_catalog env) (ke_provider env) (ke_orders env) (fst ks)) ks of
        (ks1, Some e) \<Rightarrow>
          (on_kyma (UpdateCondition (ke_lib env) ConditionTypeModuleCatalog ConditionFalse) ks1,
           Some (wrapErr ''failed to synchronize remote module catalog: '' e))
      | (ks1, None) \<Rightarrow> (on_kyma (UpdateCondition (ke_lib env) ConditionTypeModuleCatalog ConditionTrue) ks1, None))"

text \<open>The client that the readiness check gets is nil when the cache has lost it meanwhile.\<close>

definition webhook_task :: "'cfg kenv \<Rightarrow> webhook_manager \<Rightarrow> kstate \<Rightarrow> kstate \<times> goerror option" where
  "webhook_task env wm ks =
     (case on_history (ask (ReconcileWebhook (Kyma_NamespacedName (fst ks))) (\<lambda>h. wm_Reconcile wm h (fst ks))) ks of
        (ks1, Some e) \<Rightarrow>
          (on_kyma (UpdateCondition (ke_lib env) ConditionTypeSKRWebhook ConditionFalse) ks1,
           if errors_Is e ErrSkrCertificateNotReady then None else Some e)
      | (ks1, None) \<Rightarrow>
          (case provider_Get (ke_provider env) (Kyma_NamespacedName (fst ks1)) (snd ks1) of
             Inl e \<Rightarrow> (ks1, Some nilDereference)
           | Inr c \<Rightarrow> checkSKRWebhookReadiness (ke_lib env) c ks1))"

datatype task = ModulesTask | CatalogTask | WebhookTask

definition run_task :: "'cfg kenv \<Rightarrow> task \<Rightarrow> kstate \<Rightarrow> kstate \<times> goerror option" where
  "run_task env t ks =
     (case t of
        ModulesTask \<Rightarrow> modules_task env ks
      | CatalogTask \<Rightarrow> catalog_task env ks
      | WebhookTask \<Rightarrow> (case ke_webhook env of Some wm \<Rightarrow> webhook_task env wm ks | None \<Rightarrow> (ks, None)))"

definition tasks :: "'cfg kenv \<Rightarrow> task list" where
  "tasks env = [ModulesTask, CatalogTask] @ (if WatcherEnabled env then [WebhookTask] else [])"

text \<open>\<open>order\<close> is a permutation of the tasks.\<close>

definition handleProcessingState :: "'cfg kenv \<Rightarrow> task list \<Rightarrow> kstate \<Rightarrow> kresult" where
  "handleProcessingState env order ks =
     on_err (run_group (run_task env) order ks)
       (\<lambda>ks e. failed env e ks)
       (\<lambda>ks. let state = DetermineState (fst ks);
                 interval = DetermineRequeueInterval state (ke_intervals env)
             in if state = StateReady
                then (case updateStatus env state ''kyma is ready'' ks of (ks1, err) \<Rightarrow> (ks1, requeue interval, err))
                else on_err (updateStatus env state ''waiting for all modules to become ready'' ks)
                       (\<lambda>ks e. (ks, no_requeue, Some e))
                       (\<lambda>ks. (ks, requeue interval, None)))"

definition handleInitialState :: "'cfg kenv \<Rightarrow> kstate \<Rightarrow> kresult" where
  "handleInitialState env ks =
     on_err (updateStatus env StateProcessing ''started processing'' ks)
       (\<lambda>ks e. (ks, no_requeue, Some e))
       (\<lambda>ks. (ks, requeue (ke_rateLimit env (snd ks)), None))"

section \<open>The deleting state\<close>

definition getRelatedManifestCRs :: "'cfg kenv \<Rightarrow> Kyma \<Rightarrow> history \<Rightarrow> history \<times> (goerror + Manifest list)" where
  "getRelatedManifestCRs env k s =
     (case ask (ListManifests (om_Name (kyma_Meta k))) (\<lambda>h. ke_listManifests env h (om_Name (kyma_Meta k))) s of
        (s1, Inl e) \<Rightarrow> (s1, if client_IgnoreNotFound e \<noteq> None
                             then Inl (wrapErr ''failed to get related manifests, '' e) else Inr [])
      | (s1, Inr ms) \<Rightarrow> (s1, Inr ms))"

definition deleteManifests :: "'cfg kenv \<Rightarrow> Manifest list \<Rightarrow> history \<Rightarrow> history \<times> goerror option" where
  "deleteManifests env ms s =
     try_each (\<lambda>m s. case ask (DeleteManifestObject m) (\<lambda>h. ke_deleteManifest env h m) s of
           (s1, None) \<Rightarrow> (s1, None)
         | (s1, Some e) \<Rightarrow> (s1, if client_IgnoreNotFound e \<noteq> None
                                 then Some (wrapErr ''error while trying to delete manifest: '' e) else None)) ms s"

definition cleanupManifestCRs :: "'cfg kenv \<Rightarrow> Kyma \<Rightarrow> history \<Rightarrow> history \<times> goerror option" where
  "cleanupManifestCRs env k s =
     (case getRelatedManifestCRs env k s of
        (s1, Inl e) \<Rightarrow> (s1, Some (wrapErr ''error while trying to get manifests: '' e))
      | (s1, Inr ms) \<Rightarrow>
          if ms = [] then (s1, None)
          else (case deleteManifests env ms s1 of
                  (s2, Some e) \<Rightarrow> (s2, Some (wrapErr ''error while trying to delete manifests: '' e))
                | (s2, None) \<Rightarrow> (s2, Some ErrManifestsStillExist)))"

definition updateKyma :: "'cfg kenv \<Rightarrow> Kyma \<Rightarrow> history \<Rightarrow> history \<times> goerror option" where
  "updateKyma env k s =
     (case ask (UpdateKyma k) (\<lambda>h. ke_updateKyma env h k) s of
        (s1, Some e) \<Rightarrow> (s1, Some (wrapErr ''error while updating kyma during deletion: '' e))
      | (s1, None) \<Rightarrow> (s1, None))"

definition drop_finalizer :: "klib \<Rightarrow> Kyma \<Rightarrow> Kyma" where
  "drop_finalizer lib k =
     k\<lparr>kyma_Meta := (kyma_Meta k)\<lparr>om_Finalizers := fst (RemoveFinalizer lib (om_Finalizers (kyma_Meta k)) KymaFinalizer)\<rparr>\<rparr>"

definition finish_deletion :: "'cfg kenv \<Rightarrow> skr_client \<Rightarrow> kstate \<Rightarrow> kresult" where
  "finish_deletion env c ks =
     (case on_history (RemoveFinalizersFromKyma (ke_remove env) c)
             (fst ks, provider_InvalidateCache (Kyma_NamespacedName (fst ks)) (snd ks)) of
        (ks1, err) \<Rightarrow>
          if (case err of None \<Rightarrow> False | Some e \<Rightarrow> client_IgnoreNotFound e \<noteq> None)
          then failed env (the err) ks1
          else on_err (on_history (cleanupManifestCRs env (fst ks1)) ks1)
                 (\<lambda>ks e. (ks, no_requeue, Some e))
                 (\<lambda>ks. let k = drop_finalizer (ke_lib env) (fst ks) in
                    on_err (on_history (updateKyma env k) (k, snd ks @ [CleanupMetrics (om_Name (kyma_Meta k))]))
                      (\<lambda>ks e. (ks, no_requeue, Some e))
                      (\<lambda>ks. (ks, requeue (ke_rateLimit env (snd ks)), None))))"

definition handleDeletingState :: "'cfg kenv \<Rightarrow> kstate \<Rightarrow> kresult" where
  "handleDeletingState env ks =
     on_err (case ke_webhook env of
               None \<Rightarrow> (ks, None)
             | Some wm \<Rightarrow> on_history (ask (RemoveWebhook (Kyma_NamespacedName (fst ks))) (\<lambda>h. wm_Remove wm h (fst ks))) ks)
       (\<lambda>ks e. (ks, no_requeue, Some e))
       (\<lambda>ks. on_err (on_history (catalog_Delete (ke_provider env) (Kyma_NamespacedName (fst ks))) ks)
          (\<lambda>ks e. failed env (wrapErr ''failed to delete remote module catalog: '' e) ks)
          (\<lambda>ks. case provider_Get (ke_provider env) (Kyma_NamespacedName (fst ks)) (snd ks) of
             Inl e \<Rightarrow> (ks, no_requeue, Some (wrapErr ''failed to get skrContext: '' e))
           | Inr c \<Rightarrow> finish_deletion env c ks))"

section \<open>The reconciliation\<close>

definition processKymaState :: "'cfg kenv \<Rightarrow> task list \<Rightarrow> kstate \<Rightarrow> kresult" where
  "processKymaState env order ks =
     (case kst_State (kyma_Status (fst ks)) of
        StateEmpty \<Rightarrow> handleInitialState env ks
      | StateProcessing \<Rightarrow> handleProcessingState env order ks
      | StateDeleting \<Rightarrow> handleDeletingState env ks
      | StateError \<Rightarrow> handleProcessingState env order ks
      | StateReady \<Rightarrow> handleProcessingState env order ks
      | StateWarning \<Rightarrow> handleProcessingState env order ks
      | StateUnmanaged \<Rightarrow> (ks, no_requeue, None)
      | StateOther x \<Rightarrow> (ks, no_requeue, None))"

text \<open>
  The end of the reconciliation, after the specification has been taken over: process the state,
  and bring the status to the SKR.
\<close>

definition process_and_sync :: "'cfg kenv \<Rightarrow> task list \<Rightarrow> kstate \<Rightarrow> kresult" where
  "process_and_sync env order ks =
     (case processKymaState env order ks of
        (ks1, res, Some e) \<Rightarrow> (ks1, no_requeue, Some e)
      | (ks1, res, None) \<Rightarrow>
          on_err (on_history (syncStatusToRemote env (fst ks1)) ks1)
            (\<lambda>ks e. failed env (wrapErr ''could not synchronize remote kyma status: '' e) ks)
            (\<lambda>ks. if kst_State (kyma_Status (fst ks)) = StateError then (ks, no_requeue, Some ErrKymaInErrorState)
                  else (ks, res, None)))"

definition take_over_spec :: "'cfg kenv \<Rightarrow> task list \<Rightarrow> kstate \<Rightarrow> kresult" where
  "take_over_spec env order ks =
     on_err (replaceSpecFromRemote env ks)
       (\<lambda>ks e. failed env (wrapErr ''could not replace control plane kyma spec with remote kyma spec: '' e) ks)
       (process_and_sync env order)"

definition sync_pull_secret :: "'cfg kenv \<Rightarrow> task list \<Rightarrow> kstate \<Rightarrow> kresult" where
  "sync_pull_secret env order ks =
     (if SkrImagePullSecretSyncEnabled env
      then on_err (on_history (SyncImagePullSecret (ke_skrsync env) (ke_provider env) (Kyma_NamespacedName (fst ks))) ks)
             (\<lambda>ks e. failed env (wrapErr ''could not sync image pull secret: '' e)
                (on_kyma (UpdateCondition (ke_lib env) ConditionTypeSKRImagePullSecretSync ConditionFalse) ks))
             (\<lambda>ks. take_over_spec env order
                (on_kyma (UpdateCondition (ke_lib env) ConditionTypeSKRImagePullSecretSync ConditionTrue) ks))
      else take_over_spec env order ks)"

definition sync_crds :: "'cfg kenv \<Rightarrow> task list \<Rightarrow> kstate \<Rightarrow> kresult" where
  "sync_crds env order ks =
     on_err (on_history (SyncCRDs (ke_skrsync env) (fst ks)) ks)
       (\<lambda>ks e. failed env (wrapErr ''could not sync CRDs: '' e)
          (on_kyma (UpdateCondition (ke_lib env) ConditionTypeCRDsSync ConditionFalse) ks))
       (\<lambda>ks. sync_pull_secret env order
          (on_kyma (UpdateCondition (ke_lib env) ConditionTypeCRDsSync ConditionTrue) ks))"

definition ensure_finalizers :: "'cfg kenv \<Rightarrow> task list \<Rightarrow> kstate \<Rightarrow> kresult" where
  "ensure_finalizers env order ks =
     (case EnsureLabelsAndFinalizers (ke_lib env) (fst ks) of
        (k1, False) \<Rightarrow> sync_crds env order (k1, snd ks)
      | (k1, True) \<Rightarrow>
          on_err (on_history (ask (UpdateKyma k1) (\<lambda>h. ke_updateKyma env h k1)) (k1, snd ks))
            (\<lambda>ks e. failed env (wrapErr ''failed to update kyma after finalizer check: '' e) ks)
            (\<lambda>ks. (ks, requeue (ke_rateLimit env (snd ks)), None)))"

definition kyma_reconcile :: "'cfg kenv \<Rightarrow> task list \<Rightarrow> kstate \<Rightarrow> kresult" where
  "kyma_reconcile env order ks =
     (if marked_deleted (fst ks) \<and> kst_State (kyma_Status (fst ks)) \<noteq> StateDeleting
      then on_err (on_history (deleteRemoteKyma env (fst ks)) ks)
             (\<lambda>ks e. failed env e ks)
             (\<lambda>ks. on_err (updateStatus env StateDeleting lastOperationDeleting ks)
                (\<lambda>ks e. failed env (wrapErr ''could not update kyma status after triggering deletion: '' e) ks)
                (\<lambda>ks. (ks, requeue (ke_rateLimit env (snd ks)), None)))
      else ensure_finalizers env order ks)"

definition requeued_use_cases :: "string list" where
  "requeued_use_cases =
     [uc_SetKcpKymaStateDeleting, uc_SetSkrKymaStateDeleting, uc_DeleteManifests, uc_DeleteWatcherCertificateSetup,
      uc_DeleteSkrWebhookResources, uc_DeleteSkrModuleTemplateCrd, uc_DeleteSkrModuleReleaseMetaCrd, uc_DeleteSkrKyma,
      uc_DeleteSkrKymaCrd, uc_DeleteMetrics, uc_EnsureManifestDeletion]"

definition processDeletion :: "'cfg kenv \<Rightarrow> kstate \<Rightarrow> kresult" where
  "processDeletion env ks =
     (case Delete (deletionSteps (ke_dclient env) (ke_lib env) (ke_deletion env) (ke_now env (snd ks))) (fst ks) (snd ks) of
        (s1, res) \<Rightarrow>
          (let s2 = (if IsConnectionRelatedError (res_Err res)
                     then provider_InvalidateCache (Kyma_NamespacedName (fst ks)) s1 else s1) @ [RunDeletion res]
           in ((fst ks, s2), if res_UseCase res \<in> set requeued_use_cases then requeue Prelude.second else no_requeue,
               res_Err res)))"

text \<open>After the client of the SKR has been initialised.\<close>

definition with_context :: "'cfg kenv \<Rightarrow> task list \<Rightarrow> kstate \<Rightarrow> kresult" where
  "with_context env order ks =
     (case provider_Get (ke_provider env) (Kyma_NamespacedName (fst ks)) (snd ks) of
        Inl e \<Rightarrow> failed env e (on_kyma (setModuleStatusesToError (error_text e)) ks)
      | Inr c \<Rightarrow>
          on_err (on_history (CreateKymaNamespace c) ks)
            (\<lambda>ks e.
               (let ks1 = (fst ks, provider_InvalidateCache (Kyma_NamespacedName (fst ks)) (snd ks)) in
                if reasonForError e = Some ReasonUnauthorized then failed env e ks1
                else failed env e (on_kyma (setModuleStatusesToError (NestedErrorMessage (Some e))) ks1)))
            (kyma_reconcile env order))"

definition init_context :: "'cfg kenv \<Rightarrow> task list \<Rightarrow> kstate \<Rightarrow> kresult" where
  "init_context env order ks =
     (case on_history (provider_Init (ke_provider env) (Kyma_NamespacedName (fst ks))) ks of
        (ks1, err) \<Rightarrow>
          if (case err of None \<Rightarrow> False | Some e \<Rightarrow> \<not> errors_Is e ErrAccessSecretNotFound)
          then failed env (the err) (on_kyma (setModuleStatusesToError (error_text (the err))) ks1)
          else if marked_deleted (fst ks1) then processDeletion env ks1
          else with_context env order ks1)"

definition deleteOrphanedCertificate :: "'cfg kenv \<Rightarrow> string \<Rightarrow> history \<Rightarrow> history \<times> goerror option" where
  "deleteOrphanedCertificate env kymaName s =
     (case ke_webhook env of
        None \<Rightarrow> (s, None)
      | Some wm \<Rightarrow> ask (RemoveSkrCertificate kymaName) (\<lambda>h. wm_RemoveSkrCertificate wm h kymaName) s)"

text \<open>
  The whole reconciliation of the request \<open>name\<close>: the Kyma at the end, when there is one, the
  history, and the result.
\<close>

definition Reconcile ::
  "'cfg kenv \<Rightarrow> task list \<Rightarrow> NamespacedName \<Rightarrow> (Kyma option \<times> history) \<times> ctrl_result \<times> goerror option" where
  "Reconcile env order name =
     (case ask (GetKyma name) (\<lambda>h. ke_getKyma env h name) [] of
        (s, Inl e) \<Rightarrow>
          if IsNotFound (Some e)
          then (case deleteOrphanedCertificate env (snd name) s of (s1, err) \<Rightarrow> ((None, s1), no_requeue, err))
          else ((None, s), no_requeue, Some (wrapErr ''KymaController: '' e))
      | (s, Inr k0) \<Rightarrow>
          (let k = InitConditions (ke_lib env) (WatcherEnabled env) (SkrImagePullSecretSyncEnabled env) k0 in
           if Kyma_SkipReconciliation k \<and> \<not> marked_deleted k
           then ((Some k, s), requeue (ri_Success (ke_intervals env)), None)
           else (case init_context env order (k, s) of ((k1, s1), res, err) \<Rightarrow> ((Some k1, s1), res, err))))"

section \<open>Events from the SKR (\<^verbatim>\<open>skr_event_handler.go\<close>)\<close>

definition ErrConvertingWatcherEvent :: goerror where
  "ErrConvertingWatcherEvent = Sentinel ''ErrConvertingWatcherEvent'' ''failed to convert event object''"
definition ErrExtractingRuntimeID :: goerror where
  "ErrExtractingRuntimeID = Sentinel ''ErrExtractingRuntimeID'' ''failed to extract runtime ID from event data''"

text \<open>The object of an event, if it is unstructured: its fields, of which strings can be told.\<close>

datatype event_value = EventString string | EventOther

type_synonym event_object = "(string \<rightharpoonup> event_value) option"

definition ExtractRuntimeIDFromMap :: "(string \<rightharpoonup> event_value) \<Rightarrow> string option" where
  "ExtractRuntimeIDFromMap m =
     (case m ''runtime-id'' of Some (EventString v) \<Rightarrow> Some v | _ \<Rightarrow> None)"

definition GetRuntimeIDFromEvent :: "event_object \<Rightarrow> goerror + string" where
  "GetRuntimeIDFromEvent ev =
     (case ev of
        None \<Rightarrow> Inl ErrConvertingWatcherEvent
      | Some m \<Rightarrow> (case ExtractRuntimeIDFromMap m of None \<Rightarrow> Inl ErrExtractingRuntimeID | Some v \<Rightarrow> Inr v))"

definition kyma_LookupErr :: goerror where
  "kyma_LookupErr = Sentinel ''ErrLookup'' ''error looking up Kyma''"
definition kyma_ErrNotFound :: goerror where
  "kyma_ErrNotFound = Sentinel ''ErrNotFound'' ''no instances found''"
definition kyma_ErrMultipleFound :: goerror where
  "kyma_ErrMultipleFound = Sentinel ''ErrMultipleFound'' ''multiple Kyma instances found''"

definition byRuntimeID :: "(string \<Rightarrow> string \<Rightarrow> goerror + Kyma list) \<Rightarrow> string \<Rightarrow> goerror + Kyma" where
  "byRuntimeID lookupByLabel runtimeID =
     (case lookupByLabel RuntimeIDLabel runtimeID of
        Inl e \<Rightarrow> Inl e
      | Inr [] \<Rightarrow> Inl kyma_ErrNotFound
      | Inr [k] \<Rightarrow> Inr k
      | Inr (k # _) \<Rightarrow> Inl kyma_ErrMultipleFound)"

definition ByRuntimeID :: "(string \<Rightarrow> string \<Rightarrow> goerror + Kyma list) \<Rightarrow> string \<Rightarrow> goerror + Kyma" where
  "ByRuntimeID lookupByLabel runtimeID =
     (case byRuntimeID lookupByLabel runtimeID of
        Inl e \<Rightarrow> Inl (Errorf [Wrap kyma_LookupErr, Lit ('' with runtimeID='' @ runtimeID @ '': ''), Wrap e])
      | Inr k \<Rightarrow> Inr k)"

text \<open>The request that an event adds to the queue, if any.\<close>

definition skr_event_request :: "(string \<Rightarrow> goerror + string) \<Rightarrow> event_object \<Rightarrow> NamespacedName option" where
  "skr_event_request nameByRuntimeID ev =
     (case GetRuntimeIDFromEvent ev of
        Inl e \<Rightarrow> None
      | Inr rid \<Rightarrow> (case nameByRuntimeID rid of
                      Inl e \<Rightarrow> None
                    | Inr n \<Rightarrow> Some (DefaultControlPlaneNamespace, n)))"

end
