(* ===== verification/KymaReconcile.thy ===== *)
theory KymaReconcile
  imports KymaController
begin

text \<open>
  What a reconciliation of the Kyma writes. A call is quiet if it does not write the Kyma of the
  control plane; the collection \<open>quiet\<close> holds the operations that make only quiet calls. On top
  of it, each stage of the reconciler keeps an invariant of the Kyma in memory (its conditions are the
  required ones) and of the status patches made so far, and gives a result that brings the Kyma back.
  The properties follow for the whole reconciliation, for every answer of the servers.
\<close>

section \<open>Quiet operations\<close>

named_theorems quiet \<open>operations that do not write the Kyma of the control plane\<close>

fun writes_kyma :: "effect \<Rightarrow> bool" where
  "writes_kyma (UpdateKyma k) = True"
| "writes_kyma (PatchKymaStatus k) = True"
| "writes_kyma _ = False"

definition kyma_writes :: "history \<Rightarrow> effect list" where
  "kyma_writes s = filter writes_kyma s"

lemma kyma_writes_append [simp]: "kyma_writes (s @ t) = kyma_writes s @ kyma_writes t"
  by (simp add: kyma_writes_def)

lemma kyma_writes_Nil [simp]: "kyma_writes [] = []"
  by (simp add: kyma_writes_def)

lemma kyma_writes_Cons [simp]: "kyma_writes (ef # s) = (if writes_kyma ef then ef # kyma_writes s else kyma_writes s)"
  by (simp add: kyma_writes_def)

lemma kyma_writes_map [simp]: "(\<And>x. \<not> writes_kyma (f x)) \<Longrightarrow> kyma_writes (map f xs) = []"
  by (simp add: kyma_writes_def filter_empty_conv)

lemma run_each_quiet:
  assumes "\<And>x s. kyma_writes (fst (f x s)) = kyma_writes s"
  shows "kyma_writes (fst (run_each f xs s)) = kyma_writes s"
  using assms by (induction xs arbitrary: s) (auto split: prod.splits simp: prod_eq_iff)

lemma try_each_quiet:
  assumes "\<And>x s. kyma_writes (fst (f x s)) = kyma_writes s"
  shows "kyma_writes (fst (try_each f xs s)) = kyma_writes s"
  by (rule try_each_invariant [where P = "\<lambda>s'. kyma_writes s' = kyma_writes s"]) (simp_all add: assms)

lemma provider_Init_quiet [quiet]: "kyma_writes (fst (provider_Init env n s)) = kyma_writes s"
  by (auto simp: provider_Init_def GetAccessRestConfigByKyma_def GetAccessSecretByKyma_def ask_def
      split: prod.splits sum.splits list.splits option.splits)

lemma InvalidateCache_quiet [quiet]: "kyma_writes (provider_InvalidateCache n s) = kyma_writes s"
  by (simp add: provider_InvalidateCache_def)

lemma CreateKymaNamespace_quiet [quiet]: "kyma_writes (fst (CreateKymaNamespace c s)) = kyma_writes s"
  by (simp add: CreateKymaNamespace_def ask_def split: option.splits)

lemma skr_DeleteKyma_quiet [quiet]: "kyma_writes (fst (skr_DeleteKyma c s)) = kyma_writes s"
  by (simp add: skr_DeleteKyma_def getRemoteKyma_def ask_def split: option.splits sum.splits)

lemma CreateOrFetchKyma_quiet [quiet]: "kyma_writes (fst (CreateOrFetchKyma c k s)) = kyma_writes s"
  by (simp add: CreateOrFetchKyma_def getRemoteKyma_def ask_def Let_def split: option.splits sum.splits)

lemma RemoveFinalizers_quiet [quiet]: "kyma_writes (fst (RemoveFinalizersFromKyma r c s)) = kyma_writes s"
  by (simp add: RemoveFinalizersFromKyma_def getRemoteKyma_def ask_def Let_def split: option.splits sum.splits)

lemma SynchronizeKymaMetadata_quiet [quiet]: "kyma_writes (fst (SynchronizeKymaMetadata c k rk s)) = kyma_writes s"
  by (simp add: SynchronizeKymaMetadata_def ask_def split: option.splits prod.splits)

lemma SynchronizeKymaStatus_quiet [quiet]: "kyma_writes (fst (SynchronizeKymaStatus c k rk s)) = kyma_writes s"
  by (simp add: SynchronizeKymaStatus_def ask_def Let_def split: option.splits prod.splits)

text \<open>A synced kind whose calls go to the SKR.\<close>

definition remote_kind :: "'a sync_kind \<Rightarrow> bool" where
  "remote_kind kd \<longleftrightarrow> (\<forall>x. \<not> writes_kyma (kd_patched kd x) \<and> \<not> writes_kyma (kd_deleted kd x)) \<and> \<not> writes_kyma (kd_listed kd)"

lemma remote_kinds [simp]: "remote_kind moduleTemplateSyncer" "remote_kind moduleReleaseMetaSyncer"
  by (simp_all add: remote_kind_def moduleTemplateSyncer_def moduleReleaseMetaSyncer_def)

lemma SyncConcurrently_quiet:
  "remote_kind kd \<Longrightarrow> kyma_writes (fst (SyncConcurrently kd c ns ord xs s)) = kyma_writes s"
  by (simp add: SyncConcurrently_def joined_def run_each_quiet patchDiff_def ask_def remote_kind_def
      split: option.split)

lemma DeleteConcurrently_quiet:
  "remote_kind kd \<Longrightarrow> kyma_writes (fst (DeleteConcurrently kd c ord xs s)) = kyma_writes s"
  by (simp add: DeleteConcurrently_def joined_def run_each_quiet deleteDiff_def ask_def remote_kind_def
      split: option.split)

lemma on_err_quiet:
  assumes "kyma_writes (fst x) = w" and "\<And>s e. kyma_writes s = w \<Longrightarrow> kyma_writes (fst (bad s e)) = w"
    and "\<And>s. kyma_writes s = w \<Longrightarrow> kyma_writes (fst (ok s)) = w"
  shows "kyma_writes (fst (on_err x bad ok)) = w"
  by (rule on_err_invariant [where P = "\<lambda>s. kyma_writes s = w"]) (use assms in simp_all)

lemma SyncToSKR_quiet:
  assumes "remote_kind kd"
  shows "kyma_writes (fst (SyncToSKR kd c ns ord xs s)) = kyma_writes s"
  unfolding SyncToSKR_def
  by (rule on_err_quiet)
    (use assms in \<open>simp_all add: SyncConcurrently_quiet DeleteConcurrently_quiet ask_def remote_kind_def
       split: sum.split\<close>)

lemma SyncModuleCatalog_quiet [quiet]: "kyma_writes (fst (SyncModuleCatalog env penv ord k s)) = kyma_writes s"
proof -
  have sync: "kyma_writes (fst (catalog_sync env penv ord n ts ms s)) = kyma_writes s" for n ts ms s
    using SyncToSKR_quiet [OF remote_kinds(1)] SyncToSKR_quiet [OF remote_kinds(2)]
    by (simp add: catalog_sync_def SyncMetasToSKR_def split: sum.split prod.split) (metis fst_conv)
  show ?thesis
    by (simp add: SyncModuleCatalog_def GetModuleReleaseMetasToSync_def GetModuleTemplatesToSync_def ask_def sync
        split: sum.split)
qed

lemma catalog_Delete_quiet [quiet]: "kyma_writes (fst (catalog_Delete penv n s)) = kyma_writes s"
proof -
  have "kyma_writes (fst (DeleteAllManaged moduleTemplateSyncer c s)) = kyma_writes s" for c
    using remote_kinds(1)
    by (auto simp: DeleteAllManaged_def ask_def remote_kind_def intro!: trans [OF try_each_quiet] split: sum.split option.split)
  then show ?thesis by (simp add: catalog_Delete_def split: sum.split)
qed

lemma SyncCRDs_quiet [quiet]: "kyma_writes (fst (SyncCRDs env k s)) = kyma_writes s"
proof -
  have "kyma_writes (fst (run_each (applyOne env n) xs s)) = kyma_writes s" for n xs
    by (rule run_each_quiet) (simp add: applyOne_def ask_def Let_def split: option.split)
  then show ?thesis
    by (simp add: SyncCRDs_def split: prod.split list.split) (metis fst_conv)
qed

lemma SyncImagePullSecret_quiet [quiet]: "kyma_writes (fst (SyncImagePullSecret env penv n s)) = kyma_writes s"
  by (simp add: SyncImagePullSecret_def ask_def Let_def split: sum.split option.split)

lemma AssertDeploymentReady_quiet [quiet]: "kyma_writes (fst (AssertDeploymentReady c s)) = kyma_writes s"
  by (simp add: AssertDeploymentReady_def ask_def split: sum.split list.split)
section \<open>What a reconciliation writes\<close>

lemma on_history_sel [simp]:
  "fst (fst (on_history f ks)) = fst ks" "snd (fst (on_history f ks)) = fst (f (snd ks))"
  "snd (on_history f ks) = snd (f (snd ks))"
  by (simp_all add: on_history_def case_prod_beta)

lemma on_kyma_sel [simp]: "fst (on_kyma f ks) = f (fst ks)" "snd (on_kyma f ks) = snd ks"
  by (simp_all add: on_kyma_def)

lemma fetchRemoteKyma_quiet [quiet]: "kyma_writes (fst (fetchRemoteKyma env k s)) = kyma_writes s"
proof (cases "provider_Get (ke_provider env) (Kyma_NamespacedName k) s")
  case (Inr c)
  then show ?thesis using CreateOrFetchKyma_quiet [of c k s]
    by (cases "CreateOrFetchKyma c k s") (simp add: fetchRemoteKyma_def split: sum.split)
qed (simp add: fetchRemoteKyma_def)

lemma syncStatusToRemote_quiet [quiet]: "kyma_writes (fst (syncStatusToRemote env k s)) = kyma_writes s"
proof (cases "fetchRemoteKyma env k s")
  case (Pair s1 r)
  have s1: "kyma_writes s1 = kyma_writes s" using fetchRemoteKyma_quiet [of env k s] Pair by simp
  show ?thesis
  proof (cases r)
    case (Inl e)
    then show ?thesis using Pair s1 by (simp add: syncStatusToRemote_def)
  next
    case r: (Inr rk)
    show ?thesis
    proof (cases "provider_Get (ke_provider env) (Kyma_NamespacedName k) s1")
      case (Inl e)
      then show ?thesis using Pair s1 r by (simp add: syncStatusToRemote_def)
    next
      case (Inr c)
      obtain s2 rk2 e2 where m: "SynchronizeKymaMetadata c k rk s1 = (s2, rk2, e2)" by (metis prod_cases3)
      obtain s3 e3 where t: "SynchronizeKymaStatus c k rk2 s2 = (s3, e3)" by fastforce
      have "kyma_writes s2 = kyma_writes s" using SynchronizeKymaMetadata_quiet [of c k rk s1] m s1 by simp
      moreover have "kyma_writes s3 = kyma_writes s2" using SynchronizeKymaStatus_quiet [of c k rk2 s2] t by simp
      ultimately show ?thesis using Pair r Inr m t by (simp add: syncStatusToRemote_def split: option.split)
    qed
  qed
qed

lemma kyma_deleteManifest_quiet [quiet]: "kyma_writes (fst (kyma_deleteManifest env tr s)) = kyma_writes s"
  by (simp add: kyma_deleteManifest_def ask_def split: option.split)

lemma deleteManifests_quiet [quiet]: "kyma_writes (fst (deleteManifests env ms s)) = kyma_writes s"
  unfolding deleteManifests_def by (rule try_each_quiet) (simp add: ask_def split: option.split)

lemma getRelatedManifestCRs_quiet [quiet]: "kyma_writes (fst (getRelatedManifestCRs env k s)) = kyma_writes s"
  by (simp add: getRelatedManifestCRs_def ask_def split: sum.split)

lemma cleanupManifestCRs_quiet [quiet]: "kyma_writes (fst (cleanupManifestCRs env k s)) = kyma_writes s"
proof (cases "getRelatedManifestCRs env k s")
  case (Pair s1 r)
  have s1: "kyma_writes s1 = kyma_writes s" using getRelatedManifestCRs_quiet [of env k s] Pair by simp
  show ?thesis
  proof (cases r)
    case (Inr ms)
    obtain s2 e where d: "deleteManifests env ms s1 = (s2, e)" by fastforce
    have "kyma_writes s2 = kyma_writes s" using deleteManifests_quiet [of env ms s1] d s1 by simp
    then show ?thesis using Pair Inr d s1 by (simp add: cleanupManifestCRs_def split: option.split)
  qed (use Pair s1 in \<open>simp add: cleanupManifestCRs_def\<close>)
qed

text \<open>
  The transitions of the state of a Kyma that is not being deleted: from no state to Processing,
  among the four states of a processed Kyma, and from every state to Error.
\<close>

inductive kyma_transition :: "State \<Rightarrow> State \<Rightarrow> bool" where
  started: "kyma_transition StateEmpty StateProcessing"
| processed: "kyma_transition st st'"
    if "st \<in> {StateProcessing, StateError, StateReady, StateWarning}"
      "st' \<in> {StateProcessing, StateError, StateReady, StateWarning}"
| broken: "kyma_transition st StateError"

inductive_simps kyma_transition_Ready: "kyma_transition st StateReady"

text \<open>A Kyma that deserves to be called Ready: every required condition is True, no other condition is
  there, and no module is in a state that forbids it.\<close>

definition deserves_ready :: "'cfg kenv \<Rightarrow> Kyma \<Rightarrow> bool" where
  "deserves_ready env k \<longleftrightarrow>
     condition_statuses k = (\<lambda>t. (t, ConditionTrue)) `
       set (GetRequiredConditionTypes (WatcherEnabled env) (SkrImagePullSecretSyncEnabled env))
     \<and> (\<forall>m \<in> set (kyma_modules k). ms_State m \<notin> {StateError, StateWarning, StateProcessing})"

text \<open>Status patches of a Kyma that was read with the state \<open>st\<close>.\<close>

definition patches_ok :: "'cfg kenv \<Rightarrow> State \<Rightarrow> history \<Rightarrow> bool" where
  "patches_ok env st s \<longleftrightarrow>
     (\<forall>k. PatchKymaStatus k \<in> set (kyma_writes s) \<longrightarrow>
        kyma_transition st (kst_State (kyma_Status k))
        \<and> (kst_State (kyma_Status k) = StateReady \<longrightarrow> deserves_ready env k))"

text \<open>The Kyma during a reconciliation, up to the status patch.\<close>

definition in_progress :: "'cfg kenv \<Rightarrow> State \<Rightarrow> kstate \<Rightarrow> bool" where
  "in_progress env st ks \<longleftrightarrow>
     kst_State (kyma_Status (fst ks)) = st
     \<and> distinct (map cond_Type (kyma_conditions (fst ks)))
     \<and> fst ` condition_statuses (fst ks) = set (GetRequiredConditionTypes (WatcherEnabled env) (SkrImagePullSecretSyncEnabled env))
     \<and> patches_ok env st (snd ks)"

lemma patches_ok_quiet: "kyma_writes s' = kyma_writes s \<Longrightarrow> patches_ok env st s' = patches_ok env st s"
  by (simp add: patches_ok_def)

lemma in_progress_quiet:
  assumes "in_progress env st ks" and "fst ks' = fst ks" and "kyma_writes (snd ks') = kyma_writes (snd ks)"
  shows "in_progress env st ks'"
  using assms patches_ok_quiet [OF assms(3), of env st] by (simp add: in_progress_def)

lemma in_progress_condition:
  assumes "SetStatusCondition_spec lib" and "in_progress env st ks"
    and "t \<in> set (GetRequiredConditionTypes (WatcherEnabled env) (SkrImagePullSecretSyncEnabled env))"
  shows "in_progress env st (on_kyma (UpdateCondition lib t v) ks)"
proof -
  have d: "distinct (map cond_Type (kyma_conditions (fst ks)))" using assms(2) by (simp add: in_progress_def)
  have "fst ` condition_statuses (UpdateCondition lib t v (fst ks)) = insert t (fst ` condition_statuses (fst ks))"
    by (auto simp: UpdateCondition_statuses [OF assms(1) d] image_iff)
  then show ?thesis
    using assms UpdateCondition_distinct [OF assms(1) d] by (auto simp: in_progress_def)
qed

lemma patch_status_ok:
  assumes "patches_ok env st (snd ks)" and "kyma_transition st st'"
    and "st' = StateReady \<Longrightarrow> deserves_ready env (fst ks)"
  shows "patches_ok env st (snd (fst (patch_status env st' msg ks)))"
proof -
  have "snd (fst (patch_status env st' msg ks)) =
      snd ks @ [PatchKymaStatus (status_object (ke_now env (snd ks)) (fst ks) st' msg)]"
    by (simp add: patch_status_def split: prod.split)
  then show ?thesis using assms
    by (auto simp: patches_ok_def deserves_ready_def condition_statuses_def)
qed

lemma updateStatus_ok:
  assumes "patches_ok env st (snd ks)" and "kyma_transition st st'"
    and "st' = StateReady \<Longrightarrow> deserves_ready env (fst ks)"
  shows "patches_ok env st (snd (fst (updateStatus env st' msg ks)))"
  using patch_status_ok [OF assms, of msg] by (auto simp: updateStatus_def split: prod.split option.split)

text \<open>
  A Kyma whose state the reconciler knows is looked at again: the result is an error, or asks for a
  requeue, if the configured intervals and the rate limiter give positive durations.
\<close>

definition positive_intervals :: "'cfg kenv \<Rightarrow> bool" where
  "positive_intervals env \<longleftrightarrow> intervals_ok (ke_intervals env) \<and> (\<forall>s. 0 < ke_rateLimit env s)"

definition managed_states :: "State set" where
  "managed_states = {StateEmpty, StateProcessing, StateDeleting, StateError, StateReady, StateWarning}"

definition comes_back :: "'cfg kenv \<Rightarrow> State \<Rightarrow> reconcile_result \<Rightarrow> bool" where
  "comes_back env st r \<longleftrightarrow>
     (positive_intervals env \<and> st \<in> managed_states \<longrightarrow> snd r \<noteq> None \<or> 0 < RequeueAfter (fst r))"

lemma comes_back_simps [simp]:
  "comes_back env st (res, Some e)"
  "comes_back env st (requeue (ke_rateLimit env s), None)"
  "comes_back env st (requeue (DetermineRequeueInterval x (ke_intervals env)), err)"
  by (simp_all add: comes_back_def requeue_def positive_intervals_def DetermineRequeueInterval_positive)

definition result_ok :: "'cfg kenv \<Rightarrow> State \<Rightarrow> kresult \<Rightarrow> bool" where
  "result_ok env st r \<longleftrightarrow> patches_ok env st (snd (fst r)) \<and> comes_back env st (snd r)"

lemma result_okI [simp]: "result_ok env st (ks, r) = (patches_ok env st (snd ks) \<and> comes_back env st r)"
  by (simp add: result_ok_def)

lemma failed_ok:
  assumes "patches_ok env st (snd ks)"
  shows "result_ok env st (failed env e ks)"
  using patch_status_ok [OF assms kyma_transition.broken, of "error_text e"]
  by (auto simp: failed_def updateStatusWithError_def split: prod.split option.split)

lemma required_types [simp]:
  "ConditionTypeCRDsSync \<in> set (GetRequiredConditionTypes w p)"
  "ConditionTypeModules \<in> set (GetRequiredConditionTypes w p)"
  "ConditionTypeModuleCatalog \<in> set (GetRequiredConditionTypes w p)"
  "ConditionTypeSKRWebhook \<in> set (GetRequiredConditionTypes True p)"
  "ConditionTypeSKRImagePullSecretSync \<in> set (GetRequiredConditionTypes w True)"
  by (simp_all add: GetRequiredConditionTypes_def)

subsection \<open>The three goroutines\<close>

lemma UpdateModuleStatuses_sel [keep_simps]:
  "kyma_conditions (fst (UpdateModuleStatuses avk g c gm ord ms k)) = kyma_conditions k"
  "kst_State (kyma_Status (fst (UpdateModuleStatuses avk g c gm ord ms k))) = kst_State (kyma_Status k)"
  "kyma_Meta (fst (UpdateModuleStatuses avk g c gm ord ms k)) = kyma_Meta k"
  by (simp_all add: UpdateModuleStatuses_def DeleteNoLongerExistingModuleStatus_def Let_def)

lemma kyma_deleteManifest_eq:
  "kyma_deleteManifest env tr s =
     (s @ [DeleteTracked tr], map_option (wrapErr ''failed delete manifest crd: '') (ke_deleteTracked env s tr))"
  by (simp add: kyma_deleteManifest_def ask_def split: option.split)

text \<open>The loop over the statuses: all Manifests are deleted, and the last answer is kept.\<close>

lemma delete_fold:
  "fold (\<lambda>m (s, err). case ms_Manifest m of None \<Rightarrow> (s, err) | Some tr \<Rightarrow> kyma_deleteManifest env tr s) ms (s, err) =
     (let trs = List.map_filter ms_Manifest ms in
      (s @ map DeleteTracked trs,
       if trs = [] then err
       else map_option (wrapErr ''failed delete manifest crd: '')
              (ke_deleteTracked env (s @ map DeleteTracked (butlast trs)) (List.last trs))))"
proof (induction ms arbitrary: s err)
  case (Cons m ms)
  then show ?case
    by (cases "ms_Manifest m") (simp_all add: List.map_filter_simps kyma_deleteManifest_eq Let_def)
qed (simp add: List.map_filter_simps)

lemma DeleteNoLongerExistingModules_history:
  "fst (DeleteNoLongerExistingModules env k s) =
     s @ map DeleteTracked (List.map_filter ms_Manifest (GetNoLongerExistingModuleStatus (ke_keyOrder env k) k))"
  by (simp add: DeleteNoLongerExistingModules_def delete_fold Let_def)

text \<open>The fields of the Kyma that the reconciliation of its Manifests keeps, and what it writes.\<close>

lemma reconcileManifests_keeps:
  assumes "reconcileManifests env ks = (ks', err)"
  shows "kyma_conditions (fst ks') = kyma_conditions (fst ks)
    \<and> kst_State (kyma_Status (fst ks')) = kst_State (kyma_Status (fst ks))
    \<and> kyma_writes (snd ks') = kyma_writes (snd ks)"
proof -
  obtain k s0 where ks: "ks = (k, s0)" by fastforce
  let ?s = "s0 @ [ListModules (Kyma_NamespacedName k)]"
  let ?ms = "GenerateModulesFromTemplates (ke_parser env ?s) k
    (GetRegularTemplates (ke_lookup env s0) (ke_moduleLookup env s0) k)"
  obtain ms ops e where r: "ReconcileManifests (ke_sync env ?s) k (ke_syncOrder env ?ms) ?ms = (ms, ops, e)"
    by (metis prod_cases3)
  let ?s1 = "?s @ [SyncManifests ops]"
  obtain k2 gone where u: "UpdateModuleStatuses (ke_apiVersionKind env) (ke_grow env) (ke_statusCap env k)
      (ke_getModule env ?s1) (ke_keyOrder env) ms k = (k2, gone)" by fastforce
  obtain s3 e3 where d: "DeleteNoLongerExistingModules env k2 (?s1 @ [RemoveModuleMetrics gone]) = (s3, e3)" by fastforce
  have k2: "kyma_conditions k2 = kyma_conditions k" "kst_State (kyma_Status k2) = kst_State (kyma_Status k)"
    using arg_cong [OF u, of fst] by (metis UpdateModuleStatuses_sel fst_conv)+
  have s3: "kyma_writes s3 = kyma_writes s0"
    using arg_cong [OF d, of fst] by (simp add: DeleteNoLongerExistingModules_history)
      (metis (no_types, lifting) DeleteNoLongerExistingModules_history append_Nil2 kyma_writes_Cons kyma_writes_Nil kyma_writes_append kyma_writes_map writes_kyma.simps)
  show ?thesis using assms r u d k2 s3
    by (auto simp: reconcileManifests_def ks Let_def split: option.splits)
qed

lemma modules_task_progress:
  assumes "SetStatusCondition_spec (ke_lib env)" and "in_progress env st ks"
  shows "in_progress env st (fst (modules_task env ks))"
proof (cases "reconcileManifests env ks")
  case (Pair ks1 err)
  have "in_progress env st ks1"
    using reconcileManifests_keeps [OF Pair] assms(2) patches_ok_quiet [of "snd ks1" "snd ks" env st]
    by (simp add: in_progress_def condition_statuses_def)
  then show ?thesis using Pair in_progress_condition [OF assms(1), of env st]
    by (simp add: modules_task_def split: option.split)
qed

lemma on_history_progress:
  assumes "in_progress env st ks" and "\<And>s. kyma_writes (fst (f s)) = kyma_writes s"
  shows "in_progress env st (fst (on_history f ks))"
  by (rule in_progress_quiet [OF assms(1)]) (simp_all add: assms(2))

lemma catalog_task_progress:
  assumes "SetStatusCondition_spec (ke_lib env)" and "in_progress env st ks"
  shows "in_progress env st (fst (catalog_task env ks))"
proof -
  let ?f = "SyncModuleCatalog (ke_catalog env) (ke_provider env) (ke_orders env) (fst ks)"
  have "in_progress env st (fst (on_history ?f ks))" using assms(2) by (rule on_history_progress) (rule quiet)
  then show ?thesis using in_progress_condition [OF assms(1), of env st]
    by (cases "on_history ?f ks") (simp add: catalog_task_def split: option.split)
qed

lemma checkSKRWebhookReadiness_progress:
  assumes "SetStatusCondition_spec (ke_lib env)" and "in_progress env st ks" and "WatcherEnabled env"
  shows "in_progress env st (fst (checkSKRWebhookReadiness (ke_lib env) c ks))"
proof -
  have "in_progress env st (fst (on_history (AssertDeploymentReady c) ks))"
    using assms(2) by (rule on_history_progress) (rule quiet)
  then show ?thesis using in_progress_condition [OF assms(1), of env st] assms(3)
    by (cases "on_history (AssertDeploymentReady c) ks") (simp add: checkSKRWebhookReadiness_def split: option.split)
qed

lemma webhook_task_progress:
  assumes "SetStatusCondition_spec (ke_lib env)" and "in_progress env st ks" and "WatcherEnabled env"
  shows "in_progress env st (fst (webhook_task env wm ks))"
proof -
  let ?f = "ask (ReconcileWebhook (Kyma_NamespacedName (fst ks))) (\<lambda>h. wm_Reconcile wm h (fst ks))"
  have "in_progress env st (fst (on_history ?f ks))" using assms(2) by (rule on_history_progress) simp
  then show ?thesis using in_progress_condition [OF assms(1), of env st] checkSKRWebhookReadiness_progress [OF assms(1), of st] assms(3)
    by (cases "on_history ?f ks") (simp add: webhook_task_def split: option.split sum.split)
qed

lemma run_task_progress:
  assumes "SetStatusCondition_spec (ke_lib env)" and "in_progress env st ks"
  shows "in_progress env st (fst (run_task env t ks))"
  using modules_task_progress [OF assms] catalog_task_progress [OF assms] webhook_task_progress [OF assms] assms(2)
  by (simp add: run_task_def WatcherEnabled_def split: task.split option.split)

lemma run_group_invariant:
  assumes "\<And>x s. P s \<Longrightarrow> P (fst (f x s))" and "P s"
  shows "P (fst (run_group f xs s))"
  using assms(2)
proof (induction xs arbitrary: s)
  case (Cons x xs)
  obtain s1 r where f: "f x s = (s1, r)" by fastforce
  have "P s1" using assms(1) [OF Cons.prems, of x] f by simp
  then show ?case using Cons.IH [of s1] f by (simp add: case_prod_beta)
qed simp

subsection \<open>The states\<close>

lemma in_progress_Ready:
  assumes "in_progress env st ks" and "DetermineState (fst ks) = StateReady"
  shows "deserves_ready env (fst ks)"
proof -
  let ?T = "set (GetRequiredConditionTypes (WatcherEnabled env) (SkrImagePullSecretSyncEnabled env))"
  have m: "\<forall>m \<in> set (kyma_modules (fst ks)). ms_State m \<notin> {StateError, StateWarning, StateProcessing}"
    and c: "\<forall>p \<in> condition_statuses (fst ks). snd p = ConditionTrue"
    using assms(2) unfolding DetermineState_Ready conditions_true_statuses by (rule conjunct1, rule conjunct2)
  have "condition_statuses (fst ks) = (\<lambda>t. (t, ConditionTrue)) ` (fst ` condition_statuses (fst ks))"
    using c by (force simp: image_iff)
  moreover have "fst ` condition_statuses (fst ks) = ?T" using assms(1) by (simp add: in_progress_def)
  ultimately have "condition_statuses (fst ks) = (\<lambda>t. (t, ConditionTrue)) ` ?T" by simp
  then show ?thesis using m unfolding deserves_ready_def by blast
qed

lemma progress_patches: "in_progress env st ks \<Longrightarrow> patches_ok env st (snd ks)"
  by (simp add: in_progress_def)

lemma on_err_result:
  assumes "P (fst x)" and "\<And>ks. P ks \<Longrightarrow> result_ok env st (ok ks)" and "\<And>ks e. P ks \<Longrightarrow> result_ok env st (bad ks e)"
  shows "result_ok env st (on_err x bad ok)"
  using assms by (rule on_err_invariant)

lemma handleProcessingState_ok:
  assumes lib: "SetStatusCondition_spec (ke_lib env)" and start: "in_progress env st ks"
    and st: "st \<in> {StateProcessing, StateError, StateReady, StateWarning}"
  shows "result_ok env st (handleProcessingState env order ks)"
  unfolding handleProcessingState_def
proof (rule on_err_result [where P = "in_progress env st"])
  show "in_progress env st (fst (run_group (run_task env) order ks))"
    by (rule run_group_invariant) (use run_task_progress [OF lib] start in auto)
next
  fix ks assume ks: "in_progress env st ks"
  let ?s = "DetermineState (fst ks)"
  have t: "kyma_transition st ?s"
    by (rule kyma_transition.processed [OF st]) (use DetermineState_range [of "fst ks"] in blast)
  have u: "patches_ok env st (snd (fst (updateStatus env ?s msg ks)))" for msg
    by (rule updateStatus_ok [OF progress_patches [OF ks] t]) (rule in_progress_Ready [OF ks])
  show "result_ok env st (let state = ?s; interval = DetermineRequeueInterval state (ke_intervals env)
       in if state = StateReady
          then case updateStatus env state ''kyma is ready'' ks of (ks1, err) \<Rightarrow> (ks1, requeue interval, err)
          else on_err (updateStatus env state ''waiting for all modules to become ready'' ks)
                 (\<lambda>ks e. (ks, no_requeue, Some e)) (\<lambda>ks. (ks, requeue interval, None)))"
    using u [of "''kyma is ready''"] u [of "''waiting for all modules to become ready''"]
    by (auto simp: Let_def split: prod.split intro!: on_err_result [where P = "\<lambda>ks. patches_ok env st (snd ks)"])
next
  fix ks e assume "in_progress env st ks"
  then show "result_ok env st (failed env e ks)" by (intro failed_ok progress_patches)
qed

lemma handleInitialState_ok:
  assumes "in_progress env StateEmpty ks"
  shows "result_ok env StateEmpty (handleInitialState env ks)"
  unfolding handleInitialState_def
  by (rule on_err_result [where P = "\<lambda>ks. patches_ok env StateEmpty (snd ks)"])
    (use updateStatus_ok [OF progress_patches [OF assms] kyma_transition.started] in auto)

abbreviation unpatched :: "'cfg kenv \<Rightarrow> State \<Rightarrow> kstate \<Rightarrow> bool" where
  "unpatched env st ks \<equiv> patches_ok env st (snd ks)"

lemma on_history_patches:
  assumes "unpatched env st ks" and "\<And>s. kyma_writes (fst (f s)) = kyma_writes s"
  shows "unpatched env st (fst (on_history f ks))"
  using assms patches_ok_quiet [of "fst (f (snd ks))" "snd ks" env st] by simp

lemma updateKyma_history [simp]: "fst (updateKyma env k s) = s @ [UpdateKyma k]"
  by (simp add: updateKyma_def ask_def split: option.split)

lemma finish_deletion_ok:
  assumes "unpatched env st ks"
  shows "result_ok env st (finish_deletion env c ks)"
proof -
  let ?n = "Kyma_NamespacedName (fst ks)"
  let ?ks = "(fst ks, provider_InvalidateCache ?n (snd ks))"
  obtain ks1 err where r: "on_history (RemoveFinalizersFromKyma (ke_remove env) c) ?ks = (ks1, err)" by fastforce
  have "unpatched env st ?ks" using assms patches_ok_quiet [OF InvalidateCache_quiet [of ?n "snd ks"], of env st] by simp
  then have ks1: "unpatched env st ks1"
    using on_history_patches [of env st ?ks "RemoveFinalizersFromKyma (ke_remove env) c"] r
    by (simp add: RemoveFinalizers_quiet)
  have drop: "result_ok env st (on_err (on_history (updateKyma env k) (k, snd ks2 @ [CleanupMetrics n]))
      (\<lambda>ks e. (ks, no_requeue, Some e)) (\<lambda>ks. (ks, requeue (ke_rateLimit env (snd ks)), None)))"
    if "unpatched env st ks2" for ks2 k n
  proof (rule on_err_result [where P = "unpatched env st"])
    have "patches_ok env st (snd ks2 @ [CleanupMetrics n])"
      using that patches_ok_quiet [of "snd ks2 @ [CleanupMetrics n]" "snd ks2" env st] by simp
    then show "unpatched env st (fst (on_history (updateKyma env k) (k, snd ks2 @ [CleanupMetrics n])))"
      by (simp add: patches_ok_def)
  qed simp_all
  have "result_ok env st (on_err (on_history (cleanupManifestCRs env (fst ks1)) ks1)
       (\<lambda>ks e. (ks, no_requeue, Some e))
       (\<lambda>ks. let k = drop_finalizer (ke_lib env) (fst ks) in
          on_err (on_history (updateKyma env k) (k, snd ks @ [CleanupMetrics (om_Name (kyma_Meta k))]))
            (\<lambda>ks e. (ks, no_requeue, Some e))
            (\<lambda>ks. (ks, requeue (ke_rateLimit env (snd ks)), None))))"
    unfolding Let_def
    by (rule on_err_result [where P = "unpatched env st"], rule on_history_patches [OF ks1 cleanupManifestCRs_quiet])
      (rule drop, simp_all)
  then show ?thesis using failed_ok [OF ks1] r by (simp add: finish_deletion_def)
qed

lemma handleDeletingState_ok:
  assumes "unpatched env st ks"
  shows "result_ok env st (handleDeletingState env ks)"
  unfolding handleDeletingState_def
proof (rule on_err_result [where P = "unpatched env st"])
  show "unpatched env st (fst (case ke_webhook env of None \<Rightarrow> (ks, None)
      | Some wm \<Rightarrow> on_history (ask (RemoveWebhook (Kyma_NamespacedName (fst ks))) (\<lambda>h. wm_Remove wm h (fst ks))) ks))"
    using assms patches_ok_quiet [of "snd ks @ [RemoveWebhook (Kyma_NamespacedName (fst ks))]" "snd ks" env st]
    by (simp split: option.split)
next
  fix ks assume ks: "unpatched env st ks"
  show "result_ok env st (on_err (on_history (catalog_Delete (ke_provider env) (Kyma_NamespacedName (fst ks))) ks)
          (\<lambda>ks e. failed env (wrapErr ''failed to delete remote module catalog: '' e) ks)
          (\<lambda>ks. case provider_Get (ke_provider env) (Kyma_NamespacedName (fst ks)) (snd ks) of
             Inl e \<Rightarrow> (ks, no_requeue, Some (wrapErr ''failed to get skrContext: '' e))
           | Inr c \<Rightarrow> finish_deletion env c ks))"
    by (rule on_err_result [where P = "unpatched env st"], rule on_history_patches [OF ks catalog_Delete_quiet])
      (simp_all add: finish_deletion_ok failed_ok split: sum.split)
qed simp

lemma processKymaState_ok:
  assumes "SetStatusCondition_spec (ke_lib env)" and "in_progress env st ks"
  shows "result_ok env st (processKymaState env order ks)"
proof -
  have st: "kst_State (kyma_Status (fst ks)) = st" using assms(2) by (simp add: in_progress_def)
  show ?thesis
    using handleProcessingState_ok [OF assms, of order] handleInitialState_ok [of env ks]
      handleDeletingState_ok [OF progress_patches [OF assms(2)]] assms(2)
    by (cases st) (simp_all add: processKymaState_def st progress_patches comes_back_def managed_states_def)
qed

lemma process_and_sync_ok:
  assumes "SetStatusCondition_spec (ke_lib env)" and "in_progress env st ks"
  shows "result_ok env st (process_and_sync env order ks)"
proof -
  obtain ks1 res err where p: "processKymaState env order ks = (ks1, res, err)" by (metis prod_cases3)
  have ks1: "unpatched env st ks1" and "comes_back env st (res, err)"
    using processKymaState_ok [OF assms, of order] p by simp_all
  show ?thesis
  proof (cases err)
    case None
    then have cb: "comes_back env st (res, None)" using \<open>comes_back env st (res, err)\<close> by simp
    have "result_ok env st (on_err (on_history (syncStatusToRemote env (fst ks1)) ks1)
            (\<lambda>ks e. failed env (wrapErr ''could not synchronize remote kyma status: '' e) ks)
            (\<lambda>ks. if kst_State (kyma_Status (fst ks)) = StateError then (ks, no_requeue, Some ErrKymaInErrorState)
                  else (ks, res, None)))"
      by (rule on_err_result [where P = "unpatched env st"], rule on_history_patches [OF ks1 syncStatusToRemote_quiet])
        (simp_all add: failed_ok cb)
    then show ?thesis using p None by (simp add: process_and_sync_def)
  qed (use p ks1 in \<open>simp add: process_and_sync_def\<close>)
qed

subsection \<open>The stages before\<close>

lemma replaceSpec_progress:
  assumes "in_progress env st ks"
  shows "in_progress env st (fst (replaceSpecFromRemote env ks))"
proof -
  obtain k s where ks: "ks = (k, s)" by fastforce
  obtain s1 r where f: "fetchRemoteKyma env k s = (s1, r)" by fastforce
  have s1: "kyma_writes s1 = kyma_writes s" using fetchRemoteKyma_quiet [of env k s] f by simp
  then show ?thesis using assms f patches_ok_quiet [OF s1, of env st]
    by (simp add: ks replaceSpecFromRemote_def in_progress_def ReplaceSpec_def Let_def condition_statuses_def split: sum.split)
qed

lemma take_over_spec_ok:
  assumes "SetStatusCondition_spec (ke_lib env)" and "in_progress env st ks"
  shows "result_ok env st (take_over_spec env order ks)"
  unfolding take_over_spec_def
  by (rule on_err_result [where P = "in_progress env st"], rule replaceSpec_progress [OF assms(2)])
    (simp_all add: process_and_sync_ok [OF assms(1)] failed_ok progress_patches)

lemma sync_pull_secret_ok:
  assumes lib: "SetStatusCondition_spec (ke_lib env)" and "in_progress env st ks"
  shows "result_ok env st (sync_pull_secret env order ks)"
proof (cases "SkrImagePullSecretSyncEnabled env")
  case True
  have c: "in_progress env st (on_kyma (UpdateCondition (ke_lib env) ConditionTypeSKRImagePullSecretSync v) ks)"
    if "in_progress env st ks" for v ks
    by (rule in_progress_condition [OF lib that]) (simp add: True)
  show ?thesis
    unfolding sync_pull_secret_def if_P [OF True]
    by (rule on_err_result [where P = "in_progress env st"], rule on_history_progress [OF assms(2) SyncImagePullSecret_quiet])
      (blast intro: take_over_spec_ok [OF lib] failed_ok progress_patches c)+
qed (simp add: sync_pull_secret_def take_over_spec_ok [OF assms])

lemma sync_crds_ok:
  assumes lib: "SetStatusCondition_spec (ke_lib env)" and "in_progress env st ks"
  shows "result_ok env st (sync_crds env order ks)"
proof -
  have c: "in_progress env st (on_kyma (UpdateCondition (ke_lib env) ConditionTypeCRDsSync v) ks)"
    if "in_progress env st ks" for v ks
    by (rule in_progress_condition [OF lib that]) simp
  show ?thesis
    unfolding sync_crds_def
    by (rule on_err_result [where P = "in_progress env st"], rule on_history_progress [OF assms(2) SyncCRDs_quiet])
      (blast intro: sync_pull_secret_ok [OF lib] failed_ok progress_patches c)+
qed

lemma EnsureLabels_sel:
  "kyma_Status (fst (EnsureLabelsAndFinalizers lib k)) = kyma_Status k"
  by (simp add: EnsureLabelsAndFinalizers_def Let_def)

lemma ensure_finalizers_ok:
  assumes lib: "SetStatusCondition_spec (ke_lib env)" and "in_progress env st ks"
  shows "result_ok env st (ensure_finalizers env order ks)"
proof -
  obtain k1 u where e: "EnsureLabelsAndFinalizers (ke_lib env) (fst ks) = (k1, u)" by fastforce
  have k1: "in_progress env st (k1, snd ks)"
    using assms(2) arg_cong [OF e, of fst] EnsureLabels_sel [of "ke_lib env" "fst ks"]
    by (simp add: in_progress_def condition_statuses_def)
  have "unpatched env st (fst (on_history (ask (UpdateKyma k1) (\<lambda>h. ke_updateKyma env h k1)) (k1, snd ks)))"
    using progress_patches [OF k1] by (simp add: patches_ok_def)
  then have "result_ok env st (on_err (on_history (ask (UpdateKyma k1) (\<lambda>h. ke_updateKyma env h k1)) (k1, snd ks))
            (\<lambda>ks e. failed env (wrapErr ''failed to update kyma after finalizer check: '' e) ks)
            (\<lambda>ks. (ks, requeue (ke_rateLimit env (snd ks)), None)))"
    by (rule on_err_result [where P = "unpatched env st"]) (simp_all add: failed_ok)
  then show ?thesis using sync_crds_ok [OF lib k1, of order] e by (cases u) (simp_all add: ensure_finalizers_def)
qed

lemma setModuleStatuses_unpatched [simp]: "unpatched env st (on_kyma f ks) = unpatched env st ks"
  by simp

lemma invalidated_unpatched:
  "patches_ok env st (provider_InvalidateCache n s) = patches_ok env st s"
  by (rule patches_ok_quiet [OF InvalidateCache_quiet])

lemma with_context_ok:
  assumes lib: "SetStatusCondition_spec (ke_lib env)" and "in_progress env st ks" and "\<not> marked_deleted (fst ks)"
  shows "result_ok env st (with_context env order ks)"
proof (cases "provider_Get (ke_provider env) (Kyma_NamespacedName (fst ks)) (snd ks)")
  case (Inl e)
  then show ?thesis using assms(2) by (simp add: with_context_def failed_ok progress_patches)
next
  case (Inr c)
  have "result_ok env st (on_err (on_history (CreateKymaNamespace c) ks)
     (\<lambda>ks e. let ks1 = (fst ks, provider_InvalidateCache (Kyma_NamespacedName (fst ks)) (snd ks)) in
                if reasonForError e = Some ReasonUnauthorized then failed env e ks1
                else failed env e (on_kyma (setModuleStatusesToError (NestedErrorMessage (Some e))) ks1))
     (kyma_reconcile env order))"
  proof (rule on_err_result [where P = "\<lambda>ks'. in_progress env st ks' \<and> fst ks' = fst ks"])
    show "in_progress env st (fst (on_history (CreateKymaNamespace c) ks)) \<and> fst (fst (on_history (CreateKymaNamespace c) ks)) = fst ks"
      using on_history_progress [OF assms(2), of "CreateKymaNamespace c"] CreateKymaNamespace_quiet by simp
  next
    fix ks' assume "in_progress env st ks' \<and> fst ks' = fst ks"
    then show "result_ok env st (kyma_reconcile env order ks')"
      using ensure_finalizers_ok [OF lib] assms(3) by (simp add: kyma_reconcile_def)
  qed (simp add: Let_def failed_ok invalidated_unpatched progress_patches)
  then show ?thesis using Inr by (simp add: with_context_def)
qed

lemma init_context_ok:
  assumes lib: "SetStatusCondition_spec (ke_lib env)" and "in_progress env st ks" and "\<not> marked_deleted (fst ks)"
  shows "result_ok env st (init_context env order ks)"
proof -
  let ?f = "provider_Init (ke_provider env) (Kyma_NamespacedName (fst ks))"
  obtain ks1 err where r: "on_history ?f ks = (ks1, err)" by fastforce
  have "in_progress env st (fst (on_history ?f ks))" by (rule on_history_progress [OF assms(2) provider_Init_quiet])
  moreover have "fst (fst (on_history ?f ks)) = fst ks" by simp
  ultimately have "in_progress env st ks1" and "fst ks1 = fst ks" using r by simp_all
  then show ?thesis using with_context_ok [OF lib, of st ks1 order] assms(3) r
    by (simp add: init_context_def failed_ok progress_patches)
qed

lemma InitConditions_progress:
  assumes "SetStatusCondition_spec lib" and "kyma_writes s = []"
  shows "in_progress env (kst_State (kyma_Status k))
     (InitConditions lib (WatcherEnabled env) (SkrImagePullSecretSyncEnabled env) k, s)"
proof -
  let ?k = "InitConditions lib (WatcherEnabled env) (SkrImagePullSecretSyncEnabled env) k"
  have "fst ` condition_statuses ?k = fst ` set (map cond_core (kyma_conditions ?k))"
    by (simp add: condition_statuses_core image_image)
  also have "\<dots> = set (GetRequiredConditionTypes (WatcherEnabled env) (SkrImagePullSecretSyncEnabled env))"
    by (simp only: InitConditions_core [OF assms(1)]) (simp add: image_image kyma_condition_def cond_core_def)
  finally show ?thesis using assms(2) InitConditions_distinct [OF assms(1)]
    by (simp add: in_progress_def patches_ok_def)
qed

lemma Reconcile_result:
  assumes "SetStatusCondition_spec (ke_lib env)" and "ke_getKyma env [] name = Inr k0" and "\<not> marked_deleted k0"
    and "Reconcile env order name = ((k, s), res, err)"
  shows "patches_ok env (kst_State (kyma_Status k0)) s"
    and "comes_back env (kst_State (kyma_Status k0)) (res, err)"
proof -
  let ?k = "InitConditions (ke_lib env) (WatcherEnabled env) (SkrImagePullSecretSyncEnabled env) k0"
  let ?st = "kst_State (kyma_Status k0)"
  have p: "in_progress env ?st (?k, [GetKyma name])" by (rule InitConditions_progress [OF assms(1)]) simp
  have d: "\<not> marked_deleted ?k" using assms(3) by (simp add: marked_deleted_def)
  have "result_ok env ?st (init_context env order (?k, [GetKyma name]))"
    using init_context_ok [OF assms(1) p] d by simp
  moreover have "comes_back env ?st (requeue (ri_Success (ke_intervals env)), None)"
    using DetermineRequeueInterval_positive by (simp add: comes_back_def requeue_def positive_intervals_def intervals_ok_def)
  moreover have "ask (GetKyma name) (\<lambda>h. ke_getKyma env h name) [] = ([GetKyma name], Inr k0)"
    using assms(2) by (simp add: ask_def)
  ultimately have "patches_ok env ?st s \<and> comes_back env ?st (res, err)"
    using assms(4) d progress_patches [OF p]
    by (auto simp: Reconcile_def Let_def split: if_splits prod.splits)
  then show "patches_ok env ?st s" and "comes_back env ?st (res, err)" by simp_all
qed

section \<open>The finalizer in the deleting state\<close>

text \<open>Every update of the Kyma in a result comes after the list of its Manifests was found empty, and drops
  the finalizer.\<close>

definition listed_empty :: "'cfg kenv \<Rightarrow> string \<Rightarrow> history \<Rightarrow> bool" where
  "listed_empty env n s \<longleftrightarrow> (\<exists>h t. s = h @ ListManifests n # t
     \<and> (ke_listManifests env h n = Inr []
        \<or> (\<exists>e. ke_listManifests env h n = Inl e \<and> reasonForError e = Some ReasonNotFound)))"

definition updates_guarded :: "'cfg kenv \<Rightarrow> string \<Rightarrow> kresult \<Rightarrow> bool" where
  "updates_guarded env n r \<longleftrightarrow> (\<forall>x. UpdateKyma x \<in> set (snd (fst r)) \<longrightarrow>
     listed_empty env n (snd (fst r)) \<and> \<not> ContainsFinalizer (kyma_Meta x) KymaFinalizer)"

definition not_updated :: "string \<Rightarrow> kstate \<Rightarrow> bool" where
  "not_updated n ks \<longleftrightarrow> om_Name (kyma_Meta (fst ks)) = n \<and> (\<forall>x. UpdateKyma x \<notin> set (kyma_writes (snd ks)))"

lemma not_updated_guarded: "not_updated n ks \<Longrightarrow> updates_guarded env n (ks, r)"
  by (auto simp: not_updated_def updates_guarded_def kyma_writes_def)

lemma not_updated_history:
  assumes "not_updated n ks" and "\<And>s. kyma_writes (fst (f s)) = kyma_writes s"
  shows "not_updated n (fst (on_history f ks))"
  using assms by (simp add: not_updated_def)

lemma failed_guarded: "not_updated n ks \<Longrightarrow> updates_guarded env n (failed env e ks)"
  by (auto simp: failed_def updateStatusWithError_def patch_status_def not_updated_def updates_guarded_def
      kyma_writes_def split: prod.split option.split)

lemma cleanup_None:
  assumes "cleanupManifestCRs env k s = (s', None)"
  shows "listed_empty env (om_Name (kyma_Meta k)) s'"
proof -
  let ?n = "om_Name (kyma_Meta k)"
  have "s' = s @ [ListManifests ?n] \<and> (ke_listManifests env s ?n = Inr []
      \<or> (\<exists>e. ke_listManifests env s ?n = Inl e \<and> reasonForError e = Some ReasonNotFound))"
    using assms
    by (auto simp: cleanupManifestCRs_def getRelatedManifestCRs_def ask_def client_IgnoreNotFound_def
        split: sum.splits if_splits prod.splits option.splits)
  then show ?thesis unfolding listed_empty_def by blast
qed

lemma listed_empty_append: "listed_empty env n s \<Longrightarrow> listed_empty env n (s @ t)"
  unfolding listed_empty_def by (metis append.assoc append_Cons)

lemma drop_finalizer_gone:
  assumes "Finalizer_spec lib"
  shows "\<not> ContainsFinalizer (kyma_Meta (drop_finalizer lib k)) KymaFinalizer"
  using assms by (auto simp: drop_finalizer_def ContainsFinalizer_def Finalizer_spec_def)

lemma finish_deletion_guarded:
  assumes "Finalizer_spec (ke_lib env)" and "not_updated n ks"
  shows "updates_guarded env n (finish_deletion env c ks)"
proof -
  let ?ks = "(fst ks, provider_InvalidateCache (Kyma_NamespacedName (fst ks)) (snd ks))"
  obtain ks1 err where r: "on_history (RemoveFinalizersFromKyma (ke_remove env) c) ?ks = (ks1, err)" by fastforce
  have "not_updated n ?ks" using assms(2) by (simp add: not_updated_def quiet)
  from not_updated_history [OF this, of "RemoveFinalizersFromKyma (ke_remove env) c"]
  have ks1: "not_updated n ks1" using r by (simp add: quiet)
  obtain ks2 e2 where c: "on_history (cleanupManifestCRs env (fst ks1)) ks1 = (ks2, e2)" by fastforce
  have ks2: "not_updated n ks2" using not_updated_history [OF ks1, of "cleanupManifestCRs env (fst ks1)"] c by (simp add: quiet)
  have listed: "listed_empty env n (snd ks2)" if "e2 = None"
  proof -
    have "cleanupManifestCRs env (fst ks1) (snd ks1) = (snd ks2, None)"
      using c that by (auto simp: on_history_def split: prod.splits)
    then show ?thesis using cleanup_None [of env "fst ks1" "snd ks1" "snd ks2"] ks1 by (simp add: not_updated_def)
  qed
  let ?k = "drop_finalizer (ke_lib env) (fst ks2)"
  let ?u = "on_history (updateKyma env ?k) (?k, snd ks2 @ [CleanupMetrics (om_Name (kyma_Meta ?k))])"
  have upd: "updates_guarded env n (fst ?u, r)" if "e2 = None" for r
    using ks2 listed_empty_append [OF listed [OF that]] drop_finalizer_gone [OF assms(1)]
    by (auto simp: updates_guarded_def not_updated_def kyma_writes_def)
  have "updates_guarded env n (on_err (ks2, e2) (\<lambda>ks e. (ks, no_requeue, Some e))
       (\<lambda>ks. let k = drop_finalizer (ke_lib env) (fst ks) in
          on_err (on_history (updateKyma env k) (k, snd ks @ [CleanupMetrics (om_Name (kyma_Meta k))]))
            (\<lambda>ks e. (ks, no_requeue, Some e))
            (\<lambda>ks. (ks, requeue (ke_rateLimit env (snd ks)), None))))"
  proof (cases e2)
    case None
    show ?thesis unfolding None on_err.simps Let_def
      by (rule on_err_invariant [where P = "\<lambda>ks. ks = fst ?u"]) (use upd None in simp_all)
  qed (simp add: not_updated_guarded [OF ks2])
  then show ?thesis using failed_guarded [OF ks1, of env] r c by (simp add: finish_deletion_def)
qed

lemma handleDeletingState_guarded:
  assumes "Finalizer_spec (ke_lib env)" and "not_updated n ks"
  shows "updates_guarded env n (handleDeletingState env ks)"
  unfolding handleDeletingState_def
proof (rule on_err_invariant [where P = "not_updated n"])
  show "not_updated n (fst (case ke_webhook env of None \<Rightarrow> (ks, None)
      | Some wm \<Rightarrow> on_history (ask (RemoveWebhook (Kyma_NamespacedName (fst ks))) (\<lambda>h. wm_Remove wm h (fst ks))) ks))"
    using assms(2) by (simp add: not_updated_def split: option.split)
next
  fix ks assume ks: "not_updated n ks"
  show "updates_guarded env n (on_err (on_history (catalog_Delete (ke_provider env) (Kyma_NamespacedName (fst ks))) ks)
          (\<lambda>ks e. failed env (wrapErr ''failed to delete remote module catalog: '' e) ks)
          (\<lambda>ks. case provider_Get (ke_provider env) (Kyma_NamespacedName (fst ks)) (snd ks) of
             Inl e \<Rightarrow> (ks, no_requeue, Some (wrapErr ''failed to get skrContext: '' e))
           | Inr c \<Rightarrow> finish_deletion env c ks))"
    by (rule on_err_invariant [where P = "not_updated n"], rule not_updated_history [OF ks catalog_Delete_quiet])
      (simp_all add: finish_deletion_guarded [OF assms(1)] failed_guarded not_updated_guarded split: sum.split)
qed (simp add: not_updated_guarded)

section \<open>Properties\<close>


text \<open>C9. The reconciler refines the state machine of the Kyma: every status written for a Kyma that is not
  being deleted is a transition from the state the Kyma was read with, from no state to Processing, among
  Processing, Ready, Warning and Error, or to Error.\<close>

theorem Reconcile_refines_transitions:
  assumes "SetStatusCondition_spec (ke_lib env)" and "ke_getKyma env [] name = Inr k0" and "\<not> marked_deleted k0"
    and "Reconcile env order name = ((k, s), res, err)" and "PatchKymaStatus k' \<in> set s"
  shows "kyma_transition (kst_State (kyma_Status k0)) (kst_State (kyma_Status k'))"
  using Reconcile_result(1) [OF assms(1-4)] assms(5) by (simp add: patches_ok_def kyma_writes_def)

text \<open>C11. No Kyma is forgotten. If the requeue intervals and the delays of the rate limiter are positive, the
  reconciliation of a Kyma that is not being deleted and whose state is one the reconciler knows ends with an
  error, which requeues it, or with a positive requeue interval.\<close>

theorem Reconcile_comes_back:
  assumes "SetStatusCondition_spec (ke_lib env)" and "ke_getKyma env [] name = Inr k0" and "\<not> marked_deleted k0"
    and "Reconcile env order name = ((k, s), res, err)"
    and "positive_intervals env" and "kst_State (kyma_Status k0) \<in> managed_states"
  shows "err \<noteq> None \<or> 0 < RequeueAfter res"
  using Reconcile_result(2) [OF assms(1-4)] assms(5,6) by (simp add: comes_back_def)

text \<open>C10. In the deleting state the Kyma is updated, and its finalizer thereby dropped, only after its Manifests
  were listed and none was there: every update in the calls that the handler makes has lost the finalizer and
  is preceded by a list of the Manifests of this Kyma that was answered with the empty list or with "not
  found".\<close>

theorem handleDeletingState_safe:
  assumes "Finalizer_spec (ke_lib env)" and "kyma_writes (snd ks) = []"
    and "handleDeletingState env ks = ((k, s), r)" and "UpdateKyma x \<in> set s"
  shows "listed_empty env (om_Name (kyma_Meta (fst ks))) s \<and> \<not> ContainsFinalizer (kyma_Meta x) KymaFinalizer"
proof -
  have "not_updated (om_Name (kyma_Meta (fst ks))) ks" using assms(2) by (simp add: not_updated_def)
  from handleDeletingState_guarded [OF assms(1) this] show ?thesis
    using assms(3,4) by (simp add: updates_guarded_def)
qed

text \<open>The Manifests of the modules that are no longer in the spec are deleted one after the other, each exactly
  once and in the order of the statuses, whatever the answers are; the error that is reported is the one of
  the last deletion, if it failed for another reason than "not found". The errors of all others are lost.\<close>

theorem DeleteNoLongerExistingModules_exact:
  "DeleteNoLongerExistingModules env k s =
     (let trs = List.map_filter ms_Manifest (GetNoLongerExistingModuleStatus (ke_keyOrder env k) k) in
      (s @ map DeleteTracked trs,
       if trs = [] then None
       else (case ke_deleteTracked env (s @ map DeleteTracked (butlast trs)) (List.last trs) of
               None \<Rightarrow> None
             | Some e \<Rightarrow> if reasonForError e = Some ReasonNotFound then None
                         else Some (wrapErr ''error deleting module '' (wrapErr ''failed delete manifest crd: '' e)))))"
  by (simp add: DeleteNoLongerExistingModules_def delete_fold Let_def client_IgnoreNotFound_def err_simps
      split: option.split)

section \<open>Witnesses\<close>

definition idle_dclient :: "'w dclient" where
  "idle_dclient =
     \<lparr>dc_listManifests = (\<lambda>w ns n. Inr []), dc_deleteAllManifests = (\<lambda>ns n w. (w, None)),
      dc_patchKymaStatus = (\<lambda>k w. (w, None)), dc_getKyma = (\<lambda>w n ns. Inl notFoundErr),
      dc_patchFinalizers = (\<lambda>n ns fs w. (w, None)), dc_getSecret = (\<lambda>w n ns. Some notFoundErr),
      dc_deleteSecret = (\<lambda>n ns w. (w, None)), dc_certExists = (\<lambda>w n. Inr False), dc_deleteCert = (\<lambda>n w. (w, None)),
      dc_skrClientCached = (\<lambda>w n. True), dc_getSkrKyma = (\<lambda>w. Inl notFoundErr),
      dc_applySkrState = (\<lambda>s op w. (w, None)), dc_deleteSkrKyma = (\<lambda>w. (w, None)),
      dc_getSkrCrd = (\<lambda>w crd. Some notFoundErr), dc_deleteSkrCrd = (\<lambda>crd w. (w, None)),
      dc_getSkrResource = (\<lambda>w r. Some notFoundErr), dc_deleteSkrResource = (\<lambda>r w. (w, None)),
      dc_hasMetrics = (\<lambda>w n. Inr False), dc_cleanupMetrics = (\<lambda>n w. w)\<rparr>"

definition ex_live_kyma :: Kyma where
  "ex_live_kyma = ex_deleted_kyma\<lparr>kyma_Meta := (kyma_Meta ex_deleted_kyma)
     \<lparr>om_DeletionTimestamp := None, om_Labels := [ManagedBy \<mapsto> OperatorName]\<rparr>\<rparr>"

definition ex_metas_client :: "ModuleReleaseMeta kind_client" where
  "ex_metas_client = \<lparr>kc_list = (\<lambda>h. Inr []), kc_patch = (\<lambda>h x. None), kc_delete = (\<lambda>h x. None)\<rparr>"

definition ex_skr_client :: skr_client where
  "ex_skr_client =
     \<lparr>sk_getKyma = (\<lambda>h. Inr ex_live_kyma), sk_createKyma = (\<lambda>h k. Inr k), sk_updateKyma = (\<lambda>h k. None),
      sk_deleteKyma = (\<lambda>h k. None), sk_applyNamespace = (\<lambda>h. None), sk_applyKymaMeta = (\<lambda>h k. None),
      sk_updateStatus = (\<lambda>h k. None), sk_templates = ex_template_client, sk_metas = ex_metas_client,
      sk_patchSecret = (\<lambda>h x. None), sk_readyReplicas = (\<lambda>h. Inr 1), sk_pods = (\<lambda>h. Inr [])\<rparr>"

text \<open>A control plane with one Kyma without modules, a reachable SKR and no watcher.\<close>

definition ex_kenv :: "unit kenv" where
  "ex_kenv =
     \<lparr>ke_provider = \<lparr>pv_listSecrets = (\<lambda>h n. Inr []), pv_restConfig = (\<lambda>x. Inr ()), pv_newClient = (\<lambda>h x. None),
        pv_cache = (\<lambda>h n. Some ex_skr_client)\<rparr>,
      ke_skrsync = \<lparr>ss_crdEntries = [(''Kyma'', ''kymas'')], ss_readCrd = (\<lambda>h n. None), ss_applyCrd = (\<lambda>h n c. None),
        ss_getSecret = (\<lambda>h n. Inl notFoundErr), ss_secretName = []\<rparr>,
      ke_catalog = ex_catalog_env, ke_orders = \<lparr>so_templates = rev, so_metas = rev\<rparr>, ke_lib = ref_klib,
      ke_remove = remove_copying, ke_getKyma = (\<lambda>h n. Inr ex_live_kyma), ke_updateKyma = (\<lambda>h k. None),
      ke_patchStatus = (\<lambda>h k. Inr k), ke_deleteTracked = (\<lambda>h t. Some notFoundErr), ke_listManifests = (\<lambda>h n. Inr []),
      ke_deleteManifest = (\<lambda>h m. None), ke_webhook = None, ke_dclient = idle_dclient, ke_deletion = ex_deletion_config,
      ke_lookup = (\<lambda>h. ex_env), ke_moduleLookup = (\<lambda>h. ex_lookup), ke_parser = (\<lambda>h. ex_parser), ke_sync = (\<lambda>h. ex_sync),
      ke_syncOrder = (\<lambda>ms. [0..<length ms]), ke_apiVersionKind = no_kind, ke_grow = (\<lambda>n. 2 * n), ke_statusCap = (\<lambda>k. 0),
      ke_getModule = (\<lambda>h t. Inl notFoundErr), ke_keyOrder = (\<lambda>k. remdups (map ms_Name (kyma_modules k))),
      ke_SkrImagePullSecretName = [],
      ke_intervals = \<lparr>ri_Success = 60, ri_Busy = 5, ri_Warning = 30, ri_Error = 2, ri_Jitter = None\<rparr>,
      ke_rateLimit = (\<lambda>h. 1), ke_now = (\<lambda>h. 9)\<rparr>"

fun patched_state :: "effect \<Rightarrow> State option" where
  "patched_state (PatchKymaStatus k) = Some (kst_State (kyma_Status k))"
| "patched_state _ = None"

definition ex_run :: "(Kyma option \<times> history) \<times> ctrl_result \<times> goerror option" where
  "ex_run = Reconcile ex_kenv [CatalogTask, ModulesTask] (''kcp-system'', ''kyma'')"

lemma ex_run_states: "List.map_filter patched_state (snd (fst ex_run)) = [StateReady] \<and> snd (snd ex_run) = None"
  by code_simp

lemma ex_kenv_sel [simp]:
  "SetStatusCondition_spec (ke_lib ex_kenv)" "Finalizer_spec (ke_lib ex_kenv)"
  "ke_getKyma ex_kenv [] n = Inr ex_live_kyma" "\<not> marked_deleted ex_live_kyma"
  "positive_intervals ex_kenv" "kst_State (kyma_Status ex_live_kyma) = StateReady"
  using ref_klib_ok
  by (simp_all add: ex_kenv_def klib_ok_def ex_live_kyma_def ex_deleted_kyma_def marked_deleted_def positive_intervals_def
      intervals_ok_def)

lemma ex_run_eq: "Reconcile ex_kenv [CatalogTask, ModulesTask] (''kcp-system'', ''kyma'') =
   ((fst (fst ex_run), snd (fst ex_run)), fst (snd ex_run), snd (snd ex_run))"
  by (simp add: ex_run_def)

lemma ex_run_patched: "\<exists>k. PatchKymaStatus k \<in> set (snd (fst ex_run)) \<and> kst_State (kyma_Status k) = StateReady"
proof -
  have "StateReady \<in> set (List.map_filter patched_state (snd (fst ex_run)))" using ex_run_states by simp
  then obtain ef where ef: "ef \<in> set (snd (fst ex_run))" "patched_state ef = Some StateReady"
    by (auto simp: set_map_filter_iff)
  obtain k where "ef = PatchKymaStatus k" "kst_State (kyma_Status k) = StateReady"
    using ef(2) by (cases ef) auto
  then show ?thesis using ef(1) by blast
qed


theorem Reconcile_refines_transitions_witness:
  "\<exists>k. PatchKymaStatus k \<in> set (snd (fst ex_run)) \<and> kyma_transition StateReady (kst_State (kyma_Status k))"
  using ex_run_patched Reconcile_refines_transitions [OF ex_kenv_sel(1,3,4) ex_run_eq] by (metis ex_kenv_sel(6))

theorem Reconcile_comes_back_witness: "snd (snd ex_run) = None \<and> 0 < RequeueAfter (fst (snd ex_run))"
  using ex_run_states Reconcile_comes_back [OF ex_kenv_sel(1,3,4) ex_run_eq ex_kenv_sel(5)]
  by (simp add: managed_states_def)

fun is_update :: "effect \<Rightarrow> bool" where
  "is_update (UpdateKyma k) = True"
| "is_update _ = False"

definition ex_deleting_run :: kresult where
  "ex_deleting_run = handleDeletingState ex_kenv (ex_live_kyma, [])"

lemma ex_deleting_updates: "list_ex is_update (snd (fst ex_deleting_run))"
  by code_simp

theorem handleDeletingState_safe_witness:
  "\<exists>x. UpdateKyma x \<in> set (snd (fst ex_deleting_run)) \<and> listed_empty ex_kenv ''kyma'' (snd (fst ex_deleting_run))
     \<and> \<not> ContainsFinalizer (kyma_Meta x) KymaFinalizer"
proof -
  obtain ef where ef: "ef \<in> set (snd (fst ex_deleting_run))" "is_update ef"
    using ex_deleting_updates by (auto simp: list_ex_iff)
  obtain x where "ef = UpdateKyma x" using ef(2) by (cases ef) simp_all
  then have x: "UpdateKyma x \<in> set (snd (fst ex_deleting_run))" using ef(1) by simp
  have run: "handleDeletingState ex_kenv (ex_live_kyma, []) =
      ((fst (fst ex_deleting_run), snd (fst ex_deleting_run)), snd ex_deleting_run)"
    by (simp add: ex_deleting_run_def)
  have n: "om_Name (kyma_Meta ex_live_kyma) = ''kyma''" by (simp add: ex_live_kyma_def ex_deleted_kyma_def)
  show ?thesis using handleDeletingState_safe [OF ex_kenv_sel(2) _ run x] x n by auto
qed

end
