(* ===== verification/ManifestOps.thy ===== *)
theory ManifestOps
  imports Remote
begin

text \<open>
  The operations that the reconciler of the Manifest is made of: finalizers, conditions and states
  (\<^verbatim>\<open>internal/manifest/finalizer\<close>, \<^verbatim>\<open>internal/manifest/status\<close>), the client of the
  Manifest (\<^verbatim>\<open>manifestclient\<close>), the module custom resources (\<^verbatim>\<open>modulecr\<close>), deletion and
  server-side apply of the resources of a module (\<^verbatim>\<open>internal/pkg/resources\<close>,
  \<^verbatim>\<open>skrresources\<close>), removal of the managed-by label, detection of orphans, the state of a
  manager (\<^verbatim>\<open>statecheck\<close>) and the resolution of the installation layer
  (\<^verbatim>\<open>internal/service/manifest\<close>).

  As in the theory of the remote cluster, every call appends an effect to the history and is
  answered by an arbitrary function of the history before it.
\<close>

section \<open>Calls\<close>

datatype meffect =
  GetManifest NamespacedName
| PatchManifestStatus Manifest
| ApplyManifestSpec Manifest
| UpdateManifestObject Manifest
| DeleteManifestCR Manifest
| ApplyCRFinalizers NamespacedName "string list"
| UpdateCRFinalizer Manifest
| GetParentKyma string
| ResolveClient
| AddClient string
| DeleteClient string
| ResolveSpec
| RenderResources
| EvictRenderCache
| ListModuleCRs GVK
| GetModuleCR Unstructured
| CreateModuleCR Unstructured
| DeleteModuleCR Unstructured
| DeleteResource Resource
| ApplyResource Unstructured
| GetResource Resource
| UpdateResource Resource labels
| ListPodsOf string
| GetObject Unstructured
| CleanupManifestMetrics string

type_synonym mhistory = "meffect list"
type_synonym mstate = "Manifest \<times> mhistory"

definition call :: "meffect \<Rightarrow> (mhistory \<Rightarrow> 'a) \<Rightarrow> mhistory \<Rightarrow> mhistory \<times> 'a" where
  "call ef answer s = (s @ [ef], answer s)"

lemma call_sel [simp]: "fst (call ef f s) = s @ [ef]" "snd (call ef f s) = f s"
  by (simp_all add: call_def)

text \<open>
  A workload that an object converts to: the conditions of a deployment (type, status, reason), or
  a stateful set with its namespace, the replicas it asks for, if any, and the ready ones.
\<close>

datatype workload =
  DeploymentObject "(string \<times> bool \<times> string) list"
| StatefulSetObject string "int option" int

text \<open>A container of a pod: started, if known, and ready.\<close>

type_synonym container_status = "bool option \<times> bool"

text \<open>The client of the SKR; a REST mapping is a kind with a version and whether it is cluster-scoped.\<close>

record mskr =
  sc_mappings :: "mhistory \<Rightarrow> string \<times> string \<Rightarrow> goerror + (GVK \<times> bool) list"
  sc_list :: "mhistory \<Rightarrow> GVK \<Rightarrow> goerror + Unstructured list"
  sc_get :: "mhistory \<Rightarrow> Unstructured \<Rightarrow> goerror option"
  sc_create :: "mhistory \<Rightarrow> Unstructured \<Rightarrow> goerror option"
  sc_deleteCR :: "mhistory \<Rightarrow> Unstructured \<Rightarrow> goerror option"
  sc_delete :: "mhistory \<Rightarrow> Resource \<Rightarrow> goerror option"
  sc_apply :: "mhistory \<Rightarrow> Unstructured \<Rightarrow> goerror option"
  sc_labels :: "mhistory \<Rightarrow> Resource \<Rightarrow> goerror + labels"
  sc_update :: "mhistory \<Rightarrow> Resource \<Rightarrow> labels \<Rightarrow> goerror option"
  sc_workload :: "Unstructured \<Rightarrow> workload option"
  sc_pods :: "mhistory \<Rightarrow> string \<Rightarrow> goerror + container_status list list"

text \<open>
  The environment: the clients of the control plane, the library, the clock, and the orders in which
  goroutines reach the server. \<open>me_created\<close> is the creation time of a Manifest.
\<close>

record menv =
  me_lib :: klib
  me_remove :: slice_remove
  me_getManifest :: "mhistory \<Rightarrow> NamespacedName \<Rightarrow> goerror + Manifest"
  me_patchStatus :: "mhistory \<Rightarrow> Manifest \<Rightarrow> goerror + Manifest"
  me_ssaSpec :: "mhistory \<Rightarrow> Manifest \<Rightarrow> goerror option"
  me_update :: "mhistory \<Rightarrow> Manifest \<Rightarrow> goerror option"
  me_delete :: "mhistory \<Rightarrow> Manifest \<Rightarrow> goerror option"
  me_applyFinalizers :: "mhistory \<Rightarrow> NamespacedName \<Rightarrow> string list \<Rightarrow> goerror option"
  me_getKyma :: "mhistory \<Rightarrow> string \<Rightarrow> goerror + Kyma"
  me_cached :: "mhistory \<Rightarrow> string \<Rightarrow> mskr option"
  me_resolveClient :: "mhistory \<Rightarrow> Manifest \<Rightarrow> goerror + mskr"
  me_keyChain :: "mhistory \<Rightarrow> goerror option"
  me_path :: "mhistory \<Rightarrow> ImageSpec \<Rightarrow> goerror + string"
  me_orderApply :: "Unstructured list \<Rightarrow> Unstructured list"
  me_orderDelete :: "Resource list \<Rightarrow> Resource list"
  me_intervals :: RequeueIntervals
  me_rateLimit :: "mhistory \<Rightarrow> duration"
  me_now :: "mhistory \<Rightarrow> int"
  me_created :: "Manifest \<Rightarrow> int"

abbreviation man_deleted :: "Manifest \<Rightarrow> bool" where
  "man_deleted m \<equiv> om_DeletionTimestamp (man_Meta m) \<noteq> None"

definition set_status :: "Status \<Rightarrow> Manifest \<Rightarrow> Manifest" where
  "set_status st m = m\<lparr>man_Status := st\<rparr>"

definition set_finalizers :: "string list \<Rightarrow> Manifest \<Rightarrow> Manifest" where
  "set_finalizers fs m = m\<lparr>man_Meta := (man_Meta m)\<lparr>om_Finalizers := fs\<rparr>\<rparr>"

definition man_key :: "Manifest \<Rightarrow> NamespacedName" where
  "man_key m = (om_Namespace (man_Meta m), om_Name (man_Meta m))"

lemma set_status_sel [simp]:
  "man_Meta (set_status st m) = man_Meta m" "man_Spec (set_status st m) = man_Spec m"
  "man_Status (set_status st m) = st"
  by (simp_all add: set_status_def)

lemma set_finalizers_sel [simp]:
  "man_Spec (set_finalizers fs m) = man_Spec m" "man_Status (set_finalizers fs m) = man_Status m"
  "om_Finalizers (man_Meta (set_finalizers fs m)) = fs"
  "om_DeletionTimestamp (man_Meta (set_finalizers fs m)) = om_DeletionTimestamp (man_Meta m)"
  "om_Annotations (man_Meta (set_finalizers fs m)) = om_Annotations (man_Meta m)"
  "om_Labels (man_Meta (set_finalizers fs m)) = om_Labels (man_Meta m)"
  by (simp_all add: set_finalizers_def)

section \<open>Finalizers (\<^verbatim>\<open>internal/manifest/finalizer\<close>)\<close>

definition ErrRequeueRequired :: goerror where
  "ErrRequeueRequired = Sentinel ''ErrRequeueRequired'' ''requeue required''"
definition DefaultFinalizer :: string where
  "DefaultFinalizer = ''declarative.kyma-project.io/finalizer''"
definition CustomResourceManagerFinalizer :: string where
  "CustomResourceManagerFinalizer = ''resource.kyma-project.io/finalizer''"
definition LabelRemovalFinalizer :: string where
  "LabelRemovalFinalizer = ''label-removal-finalizer''"

definition RemoveRequiredFinalizers :: "klib \<Rightarrow> Manifest \<Rightarrow> Manifest \<times> bool" where
  "RemoveRequiredFinalizers lib m =
     (case RemoveFinalizer lib (om_Finalizers (man_Meta m)) DefaultFinalizer of
        (fs1, removed1) \<Rightarrow>
          (case RemoveFinalizer lib fs1 LabelRemovalFinalizer of
             (fs2, removed2) \<Rightarrow> (set_finalizers fs2 m, removed1 \<or> removed2)))"

text \<open>The loop ranges over the slice that the library shrinks; a removal changes the list.\<close>

definition RemoveAllFinalizers :: "slice_remove \<Rightarrow> Manifest \<Rightarrow> Manifest \<times> bool" where
  "RemoveAllFinalizers remove m =
     (let fs = om_Finalizers (man_Meta m); fs' = removeAllFinalizers remove fs
      in (set_finalizers fs' m, fs' \<noteq> fs))"

definition FinalizersUpdateRequired :: "klib \<Rightarrow> Manifest \<Rightarrow> Manifest \<times> bool" where
  "FinalizersUpdateRequired lib m =
     (case AddFinalizer lib (om_Finalizers (man_Meta m)) DefaultFinalizer of
        (fs1, added1) \<Rightarrow>
          (case AddFinalizer lib fs1 LabelRemovalFinalizer of
             (fs2, added2) \<Rightarrow> (set_finalizers fs2 m, added1 \<or> added2)))"

definition no_module_cr :: "Manifest \<Rightarrow> bool" where
  "no_module_cr m \<longleftrightarrow> msp_Resource (man_Spec m) = None \<or> msp_CustomResourcePolicy (man_Spec m) = IgnorePolicy"

definition EnsureCRFinalizer :: "menv \<Rightarrow> Manifest \<Rightarrow> mhistory \<Rightarrow> mhistory \<times> goerror option" where
  "EnsureCRFinalizer env m s =
     (if no_module_cr m then (s, None)
      else if man_deleted m then (s, None)
      else if CustomResourceManagerFinalizer \<notin> set (om_Finalizers (man_Meta m))
      then (let fs = om_Finalizers (man_Meta m) @ [CustomResourceManagerFinalizer] in
            case call (ApplyCRFinalizers (man_key m) fs) (\<lambda>h. me_applyFinalizers env h (man_key m) fs) s of
              (s1, Some e) \<Rightarrow> (s1, Some (wrapErr ''failed to patch resource: '' e))
            | (s1, None) \<Rightarrow> (s1, Some ErrRequeueRequired))
      else (s, None))"

definition RemoveCRFinalizer :: "menv \<Rightarrow> Manifest \<Rightarrow> mhistory \<Rightarrow> mhistory \<times> goerror option" where
  "RemoveCRFinalizer env m s =
     (if no_module_cr m then (s, None)
      else (case call (GetManifest (man_key m)) (\<lambda>h. me_getManifest env h (man_key m)) s of
              (s1, Inl e) \<Rightarrow> if IsNotFound (Some e) then (s1, None) else (s1, Some (wrapErr ''deleteCR: '' e))
            | (s1, Inr onCluster) \<Rightarrow>
                (case RemoveFinalizer (me_lib env) (om_Finalizers (man_Meta onCluster)) CustomResourceManagerFinalizer of
                   (fs, removed) \<Rightarrow>
                     if removed
                     then (let onCluster' = set_finalizers fs onCluster in
                           case call (UpdateCRFinalizer onCluster') (\<lambda>h. me_update env h onCluster') s1 of
                             (s2, Some e) \<Rightarrow> (s2, Some (wrapErr ''failed to update resource: '' e))
                           | (s2, None) \<Rightarrow> (s2, Some ErrRequeueRequired))
                     else (s1, None))))"

section \<open>Conditions and states (\<^verbatim>\<open>internal/manifest/status\<close>)\<close>

definition ConditionTypeResources :: string where "ConditionTypeResources = ''Resources''"
definition ConditionTypeModuleCR :: string where "ConditionTypeModuleCR = ''ModuleCR''"
definition ConditionTypeInstallation :: string where "ConditionTypeInstallation = ''Installation''"

definition manifest_condition :: "Manifest \<Rightarrow> string \<Rightarrow> string \<Rightarrow> string \<Rightarrow> Condition" where
  "manifest_condition m t reason message =
     \<lparr>cond_Type = t, cond_Status = ConditionFalse, cond_Reason = reason, cond_Message = message,
      cond_ObservedGeneration = om_Generation (man_Meta m), cond_LastTransitionTime = 0\<rparr>"

definition getDefaultInstallationCondition :: "Manifest \<Rightarrow> Condition" where
  "getDefaultInstallationCondition m = manifest_condition m ConditionTypeInstallation ''Ready'' ''installation is not ready''"

definition getDefaultResourcesCondition :: "Manifest \<Rightarrow> Condition" where
  "getDefaultResourcesCondition m = manifest_condition m ConditionTypeResources ''ResourcesAvailable'' ''resources not parsed''"

definition getDefaultModuleCRCreatedCondition :: "Manifest \<Rightarrow> Condition" where
  "getDefaultModuleCRCreatedCondition m =
     manifest_condition m ConditionTypeModuleCR ''ModuleCRCreated'' ''module CR has not been created to SKR''"

definition getDefaultConditions :: "Manifest \<Rightarrow> Condition list" where
  "getDefaultConditions m =
     [getDefaultResourcesCondition m, getDefaultInstallationCondition m]
     @ (if ShouldCreateDefaultModuleCR m then [getDefaultModuleCRCreatedCondition m] else [])"

definition InitializeStatusConditions :: "klib \<Rightarrow> Manifest \<Rightarrow> Manifest" where
  "InitializeStatusConditions lib m =
     set_status ((man_Status m)\<lparr>st_Conditions :=
        fold (\<lambda>c cs. if FindStatusCondition cs (cond_Type c) = None then SetStatusCondition lib cs c else cs)
          (getDefaultConditions m) (st_Conditions (man_Status m))\<rparr>) m"

definition ErrObjectHasEmptyState :: goerror where
  "ErrObjectHasEmptyState = Sentinel ''ErrObjectHasEmptyState'' ''object has an empty state''"

definition Initialize :: "klib \<Rightarrow> int \<Rightarrow> Manifest \<Rightarrow> Manifest \<times> goerror option" where
  "Initialize lib now m =
     (let m1 = InitializeStatusConditions lib m; st = man_Status m1 in
      if st_State st = StateEmpty
      then (set_status (WithErr now ErrObjectHasEmptyState (WithState StateProcessing st)) m1, Some ErrObjectHasEmptyState)
      else (m1, None))"

definition IsModuleCRInstallConditionTrue :: "Status \<Rightarrow> bool" where
  "IsModuleCRInstallConditionTrue st =
     (case FindStatusCondition (st_Conditions st) ConditionTypeModuleCR of
        None \<Rightarrow> False | Some c \<Rightarrow> cond_Status c = ConditionTrue)"

text \<open>
  The condition that is found is a pointer into the slice: it is changed in place before the library
  sets it. The statuses that share the slice see the change, and the library finds the condition as it
  should become.
\<close>

fun write_condition :: "string \<Rightarrow> Condition \<Rightarrow> Condition list \<Rightarrow> Condition list" where
  "write_condition t c [] = []"
| "write_condition t c (d # ds) = (if cond_Type d = t then c # ds else d # write_condition t c ds)"

definition setConditionToTrue :: "klib \<Rightarrow> int \<Rightarrow> string \<Rightarrow> string \<Rightarrow> Manifest \<Rightarrow> Manifest" where
  "setConditionToTrue lib now t message m =
     (let st = man_Status m in
      case FindStatusCondition (st_Conditions st) t of
        None \<Rightarrow> m
      | Some c \<Rightarrow>
          if cond_Status c = ConditionTrue then m
          else (let c' = c\<lparr>cond_Status := ConditionTrue, cond_ObservedGeneration := om_Generation (man_Meta m),
                           cond_Message := message\<rparr>;
                    cs = SetStatusCondition lib (write_condition t c' (st_Conditions st)) c'
                in set_status (WithOperation now message (st\<lparr>st_Conditions := cs\<rparr>)) m))"

definition SetResourcesConditionTrue :: "klib \<Rightarrow> int \<Rightarrow> Manifest \<Rightarrow> Manifest" where
  "SetResourcesConditionTrue lib now = setConditionToTrue lib now ConditionTypeResources ''resources are parsed and ready for use''"

definition SetInstallationConditionTrue :: "klib \<Rightarrow> int \<Rightarrow> Manifest \<Rightarrow> Manifest" where
  "SetInstallationConditionTrue lib now =
     setConditionToTrue lib now ConditionTypeInstallation ''installation is ready and resources can be used''"

definition SetModuleCRInstallConditionTrue :: "klib \<Rightarrow> int \<Rightarrow> Manifest \<Rightarrow> Manifest" where
  "SetModuleCRInstallConditionTrue lib now = setConditionToTrue lib now ConditionTypeModuleCR ''module CR was created''"

definition ResourcesAreReadyMsg :: string where "ResourcesAreReadyMsg = ''resources are ready''"
definition WaitingForResourcesMsg :: string where "WaitingForResourcesMsg = ''waiting for resources to become ready''"

text \<open>The status read at the beginning shares its conditions with the Manifest.\<close>

definition RequireManifestStateUpdateAfterSyncResource ::
  "klib \<Rightarrow> int \<Rightarrow> State \<Rightarrow> Manifest \<Rightarrow> Manifest \<times> bool" where
  "RequireManifestStateUpdateAfterSyncResource lib now newState m =
     (let st = man_Status m in
      if newState = st_State st then (m, False)
      else if newState = StateProcessing \<or> newState = StateError
      then (set_status (WithOperation now WaitingForResourcesMsg (WithState newState st)) m, True)
      else (let m1 = SetInstallationConditionTrue lib now m in
            (set_status (WithOperation now ResourcesAreReadyMsg
               (WithState newState (st\<lparr>st_Conditions := st_Conditions (man_Status m1)\<rparr>))) m1, True)))"

section \<open>The client of the Manifest (\<^verbatim>\<open>manifestclient\<close>)\<close>

definition HasStatusDiff :: "Status \<Rightarrow> Status \<Rightarrow> bool" where
  "HasStatusDiff a b = (st_State a \<noteq> st_State b
     \<or> lo_Operation (st_LastOperation a) \<noteq> lo_Operation (st_LastOperation b))"

definition resetNonPatchableField :: "Manifest \<Rightarrow> Manifest" where
  "resetNonPatchableField m = m\<lparr>man_Meta := (man_Meta m)\<lparr>om_ManagedFields := []\<rparr>\<rparr>"

definition client_UpdateManifest :: "menv \<Rightarrow> Manifest \<Rightarrow> mhistory \<Rightarrow> mhistory \<times> goerror option" where
  "client_UpdateManifest env m s =
     (case call (UpdateManifestObject m) (\<lambda>h. me_update env h m) s of
        (s1, Some e) \<Rightarrow> (s1, Some (wrapErr ''failed to update object: '' e))
      | (s1, None) \<Rightarrow> (s1, None))"

definition PatchStatusIfDiffExist :: "menv \<Rightarrow> Status \<Rightarrow> mstate \<Rightarrow> mstate \<times> goerror option" where
  "PatchStatusIfDiffExist env previous ms =
     (case ms of (m, s) \<Rightarrow>
        if HasStatusDiff (man_Status m) previous
        then (let m1 = resetNonPatchableField m in
              case call (PatchManifestStatus m1) (\<lambda>h. me_patchStatus env h m1) s of
                (s1, Inl e) \<Rightarrow> ((m1, s1), Some (wrapErr ''failed to patch status: '' e))
              | (s1, Inr m2) \<Rightarrow> ((m2, s1), None))
        else ((m, s), None))"

definition SsaSpec :: "menv \<Rightarrow> Manifest \<Rightarrow> mhistory \<Rightarrow> mhistory \<times> goerror option" where
  "SsaSpec env m s =
     (let m1 = resetNonPatchableField m in
      case call (ApplyManifestSpec m1) (\<lambda>h. me_ssaSpec env h m1) s of
        (s1, Some e) \<Rightarrow> (s1, Some (wrapErr ''failed to patch object: '' e))
      | (s1, None) \<Rightarrow> (s1, None))"

section \<open>Module custom resources (\<^verbatim>\<open>modulecr\<close>)\<close>

definition ErrWaitingForModuleCRsDeletion :: goerror where
  "ErrWaitingForModuleCRsDeletion =
     Sentinel ''ErrWaitingForModuleCRsDeletion'' ''waiting for module CRs deletion''"

definition group_kind :: "Unstructured \<Rightarrow> string \<times> string" where
  "group_kind u = (gvk_Group (un_GVK u), gvk_Kind (un_GVK u))"

text \<open>A list that fails is skipped, whatever the reason.\<close>

fun list_mappings :: "mskr \<Rightarrow> (GVK \<times> bool) list \<Rightarrow> mhistory \<Rightarrow> mhistory \<times> Unstructured list" where
  "list_mappings c [] s = (s, [])"
| "list_mappings c (mp # mps) s =
     (case call (ListModuleCRs (fst mp)) (\<lambda>h. sc_list c h (fst mp)) s of
        (s1, r) \<Rightarrow>
          (case list_mappings c mps s1 of
             (s2, rest) \<Rightarrow> (s2, (case r of Inl e \<Rightarrow> [] | Inr items \<Rightarrow> items) @ rest)))"

definition listResourcesByGroupKindInAllNamespaces ::
  "mskr \<Rightarrow> string \<times> string \<Rightarrow> mhistory \<Rightarrow> mhistory \<times> (goerror + Unstructured list)" where
  "listResourcesByGroupKindInAllNamespaces c gk s =
     (case sc_mappings c s gk of
        Inl e \<Rightarrow> (s, Inl (wrapErr (''failed to get REST mappings for '' @ fst gk @ ''.'' @ snd gk @ '': '') e))
      | Inr mps \<Rightarrow> (case list_mappings c mps s of (s1, items) \<Rightarrow> (s1, Inr items)))"

definition isClusterScoped :: "mskr \<Rightarrow> mhistory \<Rightarrow> string \<times> string \<Rightarrow> bool" where
  "isClusterScoped c s gk =
     (case sc_mappings c s gk of Inl e \<Rightarrow> False | Inr mps \<Rightarrow> list_ex snd mps)"

definition isResourceTheDefaultCR :: "mskr \<Rightarrow> mhistory \<Rightarrow> Unstructured \<Rightarrow> Unstructured \<Rightarrow> bool" where
  "isResourceTheDefaultCR c s res defaultCR =
     (let namespacesMatch =
            (if un_Namespace res = [] \<or> isClusterScoped c s (group_kind res) then True
             else un_Namespace res = un_Namespace defaultCR)
      in un_Name res = un_Name defaultCR \<and> namespacesMatch
         \<and> gvk_Group (un_GVK res) = gvk_Group (un_GVK defaultCR)
         \<and> gvk_Kind (un_GVK res) = gvk_Kind (un_GVK defaultCR))"

definition filterOutDefaultCRs :: "mskr \<Rightarrow> mhistory \<Rightarrow> Unstructured list \<Rightarrow> Unstructured \<Rightarrow> Unstructured list" where
  "filterOutDefaultCRs c s items defaultCR = filter (\<lambda>r. \<not> isResourceTheDefaultCR c s r defaultCR) items"

definition noDefaultModuleCRExists :: "mskr \<Rightarrow> mhistory \<Rightarrow> Unstructured list \<Rightarrow> Unstructured \<Rightarrow> bool" where
  "noDefaultModuleCRExists c s items defaultCR = (\<not> list_ex (\<lambda>r. isResourceTheDefaultCR c s r defaultCR) items)"

definition GetAllModuleCRsExcludingDefaultCR ::
  "mskr \<Rightarrow> Manifest \<Rightarrow> mhistory \<Rightarrow> mhistory \<times> (goerror + Unstructured list)" where
  "GetAllModuleCRsExcludingDefaultCR c m s =
     (case msp_Resource (man_Spec m) of
        None \<Rightarrow> (s, Inr [])
      | Some defaultCR \<Rightarrow>
          (case listResourcesByGroupKindInAllNamespaces c (group_kind defaultCR) s of
             (s1, Inl e) \<Rightarrow> (s1, Inl (wrapErr ''failed to list Module CRs by group kind: '' e))
           | (s1, Inr items) \<Rightarrow>
               (s1, Inr (if msp_CustomResourcePolicy (man_Spec m) = IgnorePolicy then items
                         else filterOutDefaultCRs c s1 items defaultCR))))"

definition CheckModuleCRsDeletion :: "mskr \<Rightarrow> Manifest \<Rightarrow> mhistory \<Rightarrow> mhistory \<times> goerror option" where
  "CheckModuleCRsDeletion c m s =
     (case GetAllModuleCRsExcludingDefaultCR c m s of
        (s1, Inl e) \<Rightarrow> if IsNotFound (Some e) then (s1, None) else (s1, Some (wrapErr ''failed to fetch module CRs, '' e))
      | (s1, Inr crs) \<Rightarrow> if crs = [] then (s1, None) else (s1, Some ErrWaitingForModuleCRsDeletion))"

definition CheckDefaultCRDeletion :: "mskr \<Rightarrow> Manifest \<Rightarrow> mhistory \<Rightarrow> mhistory \<times> (goerror + bool)" where
  "CheckDefaultCRDeletion c m s =
     (if no_module_cr m then (s, Inr True)
      else (let defaultCR = the (msp_Resource (man_Spec m)) in
            case listResourcesByGroupKindInAllNamespaces c (group_kind defaultCR) s of
              (s1, Inl e) \<Rightarrow>
                if IsNotFound (Some e) then (s1, Inr True)
                else (s1, Inl (wrapErr ''failed to list Module CRs by group kind: '' e))
            | (s1, Inr items) \<Rightarrow> (s1, Inr (noDefaultModuleCRExists c s1 items defaultCR))))"

definition deleteCR :: "mskr \<Rightarrow> Manifest \<Rightarrow> mhistory \<Rightarrow> mhistory \<times> (goerror + bool)" where
  "deleteCR c m s =
     (if no_module_cr m then (s, Inr False)
      else (let defaultCR = the (msp_Resource (man_Spec m)) in
            case listResourcesByGroupKindInAllNamespaces c (group_kind defaultCR) s of
              (s1, Inl e) \<Rightarrow>
                if IsNotFound (Some e) then (s1, Inr True)
                else (s1, Inl (wrapErr ''failed to list Module CRs by group kind: '' e))
            | (s1, Inr items) \<Rightarrow>
                (case find (\<lambda>r. isResourceTheDefaultCR c s1 r defaultCR) items of
                   None \<Rightarrow> (s1, Inr True)
                 | Some r \<Rightarrow>
                     (case call (DeleteModuleCR r) (\<lambda>h. sc_deleteCR c h r) s1 of
                        (s2, None) \<Rightarrow> (s2, Inr False)
                      | (s2, Some e) \<Rightarrow>
                          if IsNotFound (Some e) then (s2, Inr True)
                          else (s2, Inl (wrapErr ''failed to delete resource: '' e))))))"

definition RemoveDefaultModuleCR :: "menv \<Rightarrow> mskr \<Rightarrow> mstate \<Rightarrow> mstate \<times> goerror option" where
  "RemoveDefaultModuleCR env c ms =
     (case ms of (m, s) \<Rightarrow>
       (case deleteCR c m s of
          (s1, Inl e) \<Rightarrow> ((set_status (WithErr (me_now env s1) e (man_Status m)) m, s1), Some e)
        | (s1, Inr deleted) \<Rightarrow>
            if deleted
            then (case RemoveCRFinalizer env m s1 of
                    (s2, Some e) \<Rightarrow> ((set_status (WithErr (me_now env s2) e (man_Status m)) m, s2), Some e)
                  | (s2, None) \<Rightarrow> ((m, s2), None))
            else ((m, s1), None)))"

definition SyncDefaultModuleCR :: "mskr \<Rightarrow> Manifest \<Rightarrow> mhistory \<Rightarrow> mhistory \<times> goerror option" where
  "SyncDefaultModuleCR c m s =
     (if \<not> ShouldCreateDefaultModuleCR m then (s, None)
      else (let res = the (msp_Resource (man_Spec m)) in
            case call (GetModuleCR res) (\<lambda>h. sc_get c h res) s of
              (s1, err) \<Rightarrow>
                if IsNotFound err
                then (if man_deleted m then (s1, None)
                      else (case call (CreateModuleCR res) (\<lambda>h. sc_create c h res) s1 of
                              (s2, Some e) \<Rightarrow>
                                if reasonForError e = Some ReasonAlreadyExists then (s2, None)
                                else (s2, Some (wrapErr ''failed to create resource: '' e))
                            | (s2, None) \<Rightarrow> (s2, None)))
                else (s1, None)))"

section \<open>Deleting resources (\<^verbatim>\<open>internal/pkg/resources\<close>)\<close>

definition ErrDeletionNotFinished :: goerror where
  "ErrDeletionNotFinished = Sentinel ''ErrDeletionNotFinished'' ''deletion is not yet finished''"

definition operator_kinds :: "string list" where
  "operator_kinds = [''CustomResourceDefinition'', ''Namespace'', ''ServiceAccount'', ''Role'', ''ClusterRole'',
     ''RoleBinding'', ''ClusterRoleBinding'', ''Service'', ''Deployment'']"

definition IsOperatorRelatedResources :: "string \<Rightarrow> bool" where
  "IsOperatorRelatedResources kind = (kind \<in> set operator_kinds)"

definition SplitResources :: "Resource list \<Rightarrow> Resource list \<times> Resource list" where
  "SplitResources rs =
     (filter (\<lambda>r. IsOperatorRelatedResources (gvk_Kind (res_GVK r))) rs,
      filter (\<lambda>r. \<not> IsOperatorRelatedResources (gvk_Kind (res_GVK r))) rs)"

text \<open>The answers to the deletions, in the order in which they are made.\<close>

fun delete_each :: "mskr \<Rightarrow> Resource list \<Rightarrow> mhistory \<Rightarrow> mhistory \<times> goerror option list" where
  "delete_each c [] s = (s, [])"
| "delete_each c (r # rs) s =
     (case call (DeleteResource r) (\<lambda>h. sc_delete c h r) s of
        (s1, e) \<Rightarrow> (case delete_each c rs s1 of (s2, es) \<Rightarrow> (s2, e # es)))"

definition cleanup_Run :: "menv \<Rightarrow> mskr \<Rightarrow> Resource list \<Rightarrow> mhistory \<Rightarrow> mhistory \<times> goerror option" where
  "cleanup_Run env c rs s =
     (case delete_each c (me_orderDelete env rs) s of
        (s1, answers) \<Rightarrow>
          (let remaining = filter (\<lambda>a. \<not> IsNotFound a) answers; errs = List.map_filter id remaining in
           (s1, if errs \<noteq> [] then Some (errors_JoinAll errs)
                else if remaining \<noteq> [] then Some ErrDeletionNotFinished
                else None)))"

definition cleanupResources :: "menv \<Rightarrow> mskr \<Rightarrow> Status \<Rightarrow> Resource list \<Rightarrow> mstate \<Rightarrow> mstate \<times> goerror option" where
  "cleanupResources env c st rs ms =
     (case cleanup_Run env c rs (snd ms) of
        (s1, None) \<Rightarrow> ((fst ms, s1), None)
      | (s1, Some e) \<Rightarrow>
          ((set_status (WithErr (me_now env s1) e
              (WithState (if errors_Is e ErrDeletionNotFinished then StateWarning else StateError) st)) (fst ms), s1),
           Some e))"

definition DeleteDiffResources :: "menv \<Rightarrow> mskr \<Rightarrow> Resource list \<Rightarrow> mstate \<Rightarrow> mstate \<times> goerror option" where
  "DeleteDiffResources env c rs ms =
     (let st = man_Status (fst ms) in
      case SplitResources rs of
        (operatorRelated, operatorManaged) \<Rightarrow>
          on_err (cleanupResources env c st operatorManaged ms)
            (\<lambda>ms e. (ms, Some e))
            (cleanupResources env c st operatorRelated))"

section \<open>Applying resources (\<^verbatim>\<open>skrresources\<close>)\<close>

definition ErrModuleResourcesSSAFailed :: goerror where
  "ErrModuleResourcesSSAFailed =
     Sentinel ''ErrModuleResourcesSSAFailed'' ''server-side apply of module resources failed''"
definition ErrWarningResourceSyncStateDiff :: goerror where
  "ErrWarningResourceSyncStateDiff =
     Sentinel ''ErrWarningResourceSyncStateDiff'' ''resource syncTarget state diff detected''"

definition supressLongClientErrors :: "goerror \<Rightarrow> goerror" where
  "supressLongClientErrors e =
     (if IsUnauthorizedError (error_text e) then ErrClientUnauthorized
      else if IsTLSCertExpiredError (error_text e) then ErrClientTLSCertExpired
      else e)"

definition serverSideApplyObject :: "mskr \<Rightarrow> Unstructured \<Rightarrow> mhistory \<Rightarrow> mhistory \<times> goerror option" where
  "serverSideApplyObject c u s =
     (case call (ApplyResource u) (\<lambda>h. sc_apply c h u) s of
        (s1, None) \<Rightarrow> (s1, None)
      | (s1, Some e) \<Rightarrow> (s1, Some (wrapErr (''patch for '' @ un_Namespace u @ ''/'' @ un_Name u @ '' failed: '')
                                   (supressLongClientErrors e))))"

fun apply_each :: "mskr \<Rightarrow> Unstructured list \<Rightarrow> mhistory \<Rightarrow> mhistory \<times> goerror list" where
  "apply_each c [] s = (s, [])"
| "apply_each c (u # us) s =
     (case serverSideApplyObject c u s of
        (s1, r) \<Rightarrow> (case apply_each c us s1 of (s2, es) \<Rightarrow> (s2, (case r of None \<Rightarrow> es | Some e \<Rightarrow> e # es))))"

definition allErrorsAre :: "goerror list \<Rightarrow> goerror \<Rightarrow> bool" where
  "allErrorsAre errs target =
     (errs \<noteq> [] \<and> length (filter (\<lambda>e. errors_Is e target) errs) = length errs)"

definition ssa_Run :: "menv \<Rightarrow> mskr \<Rightarrow> Unstructured list \<Rightarrow> mhistory \<Rightarrow> mhistory \<times> goerror option" where
  "ssa_Run env c us s =
     (case apply_each c (me_orderApply env us) s of
        (s1, errs) \<Rightarrow>
          (s1, if errs = [] then None
               else if allErrorsAre errs ErrClientUnauthorized
               then Some (errors_Join ErrClientUnauthorized ErrModuleResourcesSSAFailed)
               else if allErrorsAre errs ErrClientTLSCertExpired
               then Some (errors_Join ErrClientTLSCertExpired ErrModuleResourcesSSAFailed)
               else Some (errors_JoinAll (sort_key error_text errs @ [ErrModuleResourcesSSAFailed]))))"

definition object_resource :: "Unstructured \<Rightarrow> Resource" where
  "object_resource u = \<lparr>res_GVK = un_GVK u, res_Name = un_Name u, res_Namespace = un_Namespace u\<rparr>"

definition objectsToResources :: "Unstructured list \<Rightarrow> Resource list" where
  "objectsToResources us = map object_resource us"

text \<open>The map of the identifiers that were there and have not been seen again.\<close>

definition HasDiff :: "Resource list \<Rightarrow> Resource list \<Rightarrow> bool" where
  "HasDiff old new =
     (if length old \<noteq> length new then True
      else (let m0 = fold (\<lambda>r m. m(Resource_ID r \<mapsto> True)) old Map.empty;
                m1 = fold (\<lambda>r m. if m (Resource_ID r) = Some True then m(Resource_ID r \<mapsto> False) else m) new m0
            in list_ex (\<lambda>r. m1 (Resource_ID r) = Some True) old))"

definition SyncResources :: "menv \<Rightarrow> mskr \<Rightarrow> Unstructured list \<Rightarrow> mstate \<Rightarrow> mstate \<times> goerror option" where
  "SyncResources env c target ms =
     (case ms of (m, s) \<Rightarrow>
       (let st = man_Status m in
        case ssa_Run env c target s of
          (s1, Some e) \<Rightarrow> ((set_status (WithErr (me_now env s1) e (WithState StateError st)) m, s1), Some e)
        | (s1, None) \<Rightarrow>
            (let newSynced = objectsToResources target; st1 = st\<lparr>st_Synced := newSynced\<rparr>;
                 op = error_text ErrWarningResourceSyncStateDiff in
             if HasDiff (st_Synced st) newSynced
             then (((if \<not> man_deleted m
                     then set_status (WithOperation (me_now env s1) op (WithState StateProcessing st1)) m
                     else if st_State st1 \<noteq> StateWarning
                     then set_status (WithOperation (me_now env s1) op (WithState StateDeleting st1)) m
                     else m), s1), Some ErrWarningResourceSyncStateDiff)
             else ((m, s1), None))))"

section \<open>The managed-by label (\<^verbatim>\<open>labelsremoval\<close>)\<close>

definition removeManagedLabel :: "labels \<Rightarrow> labels \<times> bool" where
  "removeManagedLabel ls = (ls(ManagedBy := None), ls ManagedBy \<noteq> None)"

definition removeFromSyncedResources :: "mskr \<Rightarrow> Manifest \<Rightarrow> mhistory \<Rightarrow> mhistory \<times> goerror option" where
  "removeFromSyncedResources c m s =
     try_each (\<lambda>r s. case call (GetResource r) (\<lambda>h. sc_labels c h r) s of
          (s1, Inl e) \<Rightarrow> (s1, Some (wrapErr ''failed to get resource, '' e))
        | (s1, Inr ls) \<Rightarrow>
            (case removeManagedLabel ls of
               (ls', True) \<Rightarrow>
                 (case call (UpdateResource r ls') (\<lambda>h. sc_update c h r ls') s1 of
                    (s2, Some e) \<Rightarrow> (s2, Some (wrapErr ''failed to update object: '' e))
                  | (s2, None) \<Rightarrow> (s2, None))
             | (ls', False) \<Rightarrow> (s1, None)))
       (st_Synced (man_Status m)) s"

definition RemoveManagedByLabel :: "menv \<Rightarrow> mskr \<Rightarrow> mstate \<Rightarrow> mstate \<times> goerror option" where
  "RemoveManagedByLabel env c ms =
     (case removeFromSyncedResources c (fst ms) (snd ms) of
        (s1, Some e) \<Rightarrow> ((fst ms, s1), Some (wrapErr (''failed to remove '' @ ManagedBy
                            @ '' label from one or more resources: '') e))
      | (s1, None) \<Rightarrow>
          (let m1 = set_finalizers (fst (RemoveFinalizer (me_lib env) (om_Finalizers (man_Meta (fst ms)))
                      LabelRemovalFinalizer)) (fst ms)
           in case client_UpdateManifest env m1 s1 of (s2, err) \<Rightarrow> ((m1, s2), err)))"

section \<open>Orphans (\<^verbatim>\<open>internal/service/manifest/orphan\<close>)\<close>

definition ErrOrphanedManifest :: goerror where
  "ErrOrphanedManifest = Sentinel ''ErrOrphanedManifest'' ''orphaned manifest detected''"
definition orphanedManifestTolerance :: duration where
  "orphanedManifestTolerance = 5 * minute"

definition getParentKyma :: "menv \<Rightarrow> Manifest \<Rightarrow> mhistory \<Rightarrow> mhistory \<times> (goerror + Kyma)" where
  "getParentKyma env m s =
     (case GetKymaName m of
        Inl e \<Rightarrow> (s, Inl (wrapErr ''cannot get parent Kyma name: '' e))
      | Inr kymaName \<Rightarrow>
          (case call (GetParentKyma kymaName) (\<lambda>h. me_getKyma env h kymaName) s of
             (s1, Inl e) \<Rightarrow>
               (s1, Inl (if IsNotFound (Some e) then wrapPost ErrOrphanedManifest '': parent Kyma does not exist''
                         else wrapErr ''cannot fetch parent Kyma object: '' e))
           | (s1, Inr k) \<Rightarrow> (s1, Inr k)))"

definition isManifestReferencedInKymaStatus :: "Kyma \<Rightarrow> string \<Rightarrow> bool" where
  "isManifestReferencedInKymaStatus k name =
     list_ex (\<lambda>ms. case ms_Manifest ms of None \<Rightarrow> False | Some tr \<Rightarrow> to_Name tr = name) (kyma_modules k)"

definition DetectOrphanedManifest :: "menv \<Rightarrow> Manifest \<Rightarrow> mhistory \<Rightarrow> mhistory \<times> goerror option" where
  "DetectOrphanedManifest env m s =
     (if man_deleted m then (s, None)
      else (case getParentKyma env m s of
              (s1, Inl e) \<Rightarrow> (s1, Some (wrapErr (''error during orphaned manifest detection for manifest ''
                                @ man_Name m @ '': '') e))
            | (s1, Inr k) \<Rightarrow>
                if \<not> isManifestReferencedInKymaStatus k (man_Name m) \<and> \<not> IsMandatoryModule m
                   \<and> \<not> (me_created env m + orphanedManifestTolerance > me_now env s1)
                then (s1, Some (wrapPost ErrOrphanedManifest '': manifest is not referenced in Kyma status''))
                else (s1, None)))"

section \<open>The state of the manager (\<^verbatim>\<open>statecheck\<close>)\<close>

definition progressing_reasons :: "string list" where
  "progressing_reasons = [''FoundNewReplicaSet'', ''NewReplicaSetCreated'', ''ReplicaSetUpdated'']"

definition condition_of :: "(string \<times> bool \<times> string) list \<Rightarrow> string \<Rightarrow> (bool \<times> string) option" where
  "condition_of cs t = map_option snd (find (\<lambda>c. fst c = t) cs)"

definition determineDeploymentState :: "(bool \<times> string) option \<Rightarrow> (bool \<times> string) option \<Rightarrow> State" where
  "determineDeploymentState progressing available =
     (let isAvailable = (case available of None \<Rightarrow> False | Some (b, _) \<Rightarrow> b) in
      case progressing of
        Some (True, reason) \<Rightarrow>
          if isAvailable
          then (if reason = ''NewReplicaSetAvailable'' then StateReady
                else if reason \<in> set progressing_reasons then StateProcessing else StateError)
          else (if reason = ''NewReplicaSetAvailable'' \<or> reason \<in> set progressing_reasons then StateProcessing
                else StateError)
      | _ \<Rightarrow> StateError)"

text \<open>The loops return in the first iteration: the first container of the first pod that has one decides.\<close>

definition GetPodsState :: "container_status list list \<Rightarrow> State" where
  "GetPodsState pods =
     (case concat pods of
        [] \<Rightarrow> StateError
      | (None, ready) # _ \<Rightarrow> StateError
      | (Some True, ready) # _ \<Rightarrow> if ready then StateReady else StateProcessing
      | (Some False, ready) # _ \<Rightarrow> StateError)"

definition statefulSet_GetState ::
  "mskr \<Rightarrow> string \<Rightarrow> int option \<Rightarrow> int \<Rightarrow> mhistory \<Rightarrow> mhistory \<times> (goerror + State)" where
  "statefulSet_GetState c ns replicas readyReplicas s =
     (if replicas = Some readyReplicas then (s, Inr StateReady)
      else (case call (ListPodsOf ns) (\<lambda>h. sc_pods c h ns) s of
              (s1, Inl e) \<Rightarrow> (s1, Inl (wrapErr ''failed to list pods: '' e))
            | (s1, Inr pods) \<Rightarrow> (s1, Inr (GetPodsState pods))))"

definition findManager :: "mskr \<Rightarrow> Unstructured list \<Rightarrow> workload option" where
  "findManager c us = (case List.map_filter (sc_workload c) us of [] \<Rightarrow> None | w # _ \<Rightarrow> Some w)"

type_synonym state_check = "mskr \<Rightarrow> Unstructured list \<Rightarrow> mhistory \<Rightarrow> mhistory \<times> (goerror + State)"

definition ManagerStateCheck :: state_check where
  "ManagerStateCheck c us s =
     (case findManager c us of
        None \<Rightarrow> (s, Inr StateReady)
      | Some (StatefulSetObject ns replicas ready) \<Rightarrow> statefulSet_GetState c ns replicas ready s
      | Some (DeploymentObject conds) \<Rightarrow>
          (s, Inr (determineDeploymentState (condition_of conds ''Progressing'') (condition_of conds ''Available''))))"

text \<open>The check that only looks whether the resources can be read.\<close>

fun ExistsStateCheck :: state_check where
  "ExistsStateCheck c [] s = (s, Inr StateReady)"
| "ExistsStateCheck c (u # us) s =
     (case call (GetObject u) (\<lambda>h. sc_get c h u) s of
        (s1, Some e) \<Rightarrow>
          if client_IgnoreNotFound e \<noteq> None then (s1, Inl (wrapErr ''failed to fetch object by key: '' e))
          else ExistsStateCheck c us s1
      | (s1, None) \<Rightarrow> ExistsStateCheck c us s1)"

section \<open>The installation layer (\<^verbatim>\<open>internal/service/manifest/spec\<close>)\<close>

record Spec =
  sp_ManifestName :: string
  sp_Path :: string
  sp_OCIRef :: string

definition ErrRenderModeInvalid :: goerror where
  "ErrRenderModeInvalid = Sentinel ''ErrRenderModeInvalid'' ''render mode is invalid''"

text \<open>No bytes decode to an empty specification.\<close>

definition decoded :: "ImageSpec option \<Rightarrow> ImageSpec" where
  "decoded src = (case src of Some i \<Rightarrow> i | None \<Rightarrow> \<lparr>is_Repo = [], is_Name = [], is_Ref = [], is_Type = []\<rparr>)"

definition GetSpec :: "menv \<Rightarrow> Manifest \<Rightarrow> mhistory \<Rightarrow> mhistory \<times> (goerror + Spec)" where
  "GetSpec env m s =
     (let image = decoded (ii_Source (msp_Install (man_Spec m))) in
      if is_Type image \<noteq> OciRefType \<and> is_Type image \<noteq> OciDirType
      then (s, Inl (Errorf [Lit (''could not determine render mode for '' @ fst (man_key m) @ ''/'' @ snd (man_key m) @ '': ''),
                            Wrap ErrRenderModeInvalid]))
      else (case me_keyChain env s of
              Some e \<Rightarrow> (s, Inl (wrapErr ''failed to fetch keyChain: '' e))
            | None \<Rightarrow>
                (case call ResolveSpec (\<lambda>h. me_path env h image) s of
                   (s1, Inl e) \<Rightarrow> (s1, Inl (wrapErr ''failed to extract raw manifest from layer digest: '' e))
                 | (s1, Inr path) \<Rightarrow>
                     (s1, Inr \<lparr>sp_ManifestName = ii_Name (msp_Install (man_Spec m)), sp_Path = path,
                               sp_OCIRef = is_Ref image\<rparr>))))"

section \<open>Differences (\<^verbatim>\<open>internal/controller/manifest/resource_list.go\<close>)\<close>

definition Difference :: "Resource list \<Rightarrow> Unstructured list \<Rightarrow> Resource list" where
  "Difference rs target =
     (let ids = set (map (\<lambda>u. Resource_ID (object_resource u)) target)
      in filter (\<lambda>r. Resource_ID r \<notin> ids) rs)"

fun pruneResource :: "Resource list \<Rightarrow> string \<Rightarrow> string \<Rightarrow> Resource list" where
  "pruneResource [] kind name = []"
| "pruneResource (r # rs) kind name =
     (if gvk_Kind (res_GVK r) = kind \<and> res_Name r = name then rs else r # pruneResource rs kind name)"

end
