(* ===== verification/ManifestController.thy ===== *)
theory ManifestController
  imports ManifestOps
begin

text \<open>
  The reconciler of the Manifest (\<^verbatim>\<open>internal/controller/manifest/controller.go\<close>): the
  installation and the deletion of the resources of a module on the SKR. A step that may end the
  reconciliation returns the result on the left, or on the right what the next step needs. The
  rendering of the resources and the check of the manager are interfaces in the source, and fields of
  the environment here.
\<close>

section \<open>Environment\<close>

record mctl =
  mc_env :: menv
  mc_render :: "mhistory \<Rightarrow> mskr \<Rightarrow> Manifest \<Rightarrow> Spec \<Rightarrow> goerror + Unstructured list"
  mc_stateCheck :: state_check

type_synonym mresult = "mstate \<times> ctrl_result \<times> goerror option"

definition errManagerInErrorState :: goerror where
  "errManagerInErrorState = Sentinel ''errManagerInErrorState'' ''manager is in error state''"
definition errStateRequireUpdate :: goerror where
  "errStateRequireUpdate = Sentinel ''errStateRequireUpdate'' ''manifest state requires update''"
definition errResourceSyncDiffInSameOCILayer :: goerror where
  "errResourceSyncDiffInSameOCILayer = Sentinel ''errResourceSyncDiffInSameOCILayer''
     ''resource syncTarget diff detected but in same oci layer, prevent sync resource to be deleted''"
definition ErrInjectDataFromKCP :: goerror where
  "ErrInjectDataFromKCP = Sentinel ''ErrInjectDataFromKCP'' ''inject-data-from-kcp transform failed''"
definition SyncedOCIRefAnnotation :: string where "SyncedOCIRefAnnotation = ''sync-oci-ref''"

text \<open>Read or write the status of the Manifest in memory.\<close>

definition with_status :: "mctl \<Rightarrow> (int \<Rightarrow> Status \<Rightarrow> Status) \<Rightarrow> mstate \<Rightarrow> mstate" where
  "with_status env f ms = (set_status (f (me_now (mc_env env) (snd ms)) (man_Status (fst ms))) (fst ms), snd ms)"

definition error_status :: "goerror \<Rightarrow> int \<Rightarrow> Status \<Rightarrow> Status" where
  "error_status e now st = WithErr now e (WithState StateError st)"

definition on_mhistory :: "(mhistory \<Rightarrow> mhistory \<times> 'a) \<Rightarrow> mstate \<Rightarrow> mstate \<times> 'a" where
  "on_mhistory f ms = (case f (snd ms) of (s', a) \<Rightarrow> ((fst ms, s'), a))"

section \<open>The end of a reconciliation\<close>

definition evictSKRClientCache :: "mstate \<Rightarrow> mstate" where
  "evictSKRClientCache ms =
     (case GenerateCacheKey (fst ms) of
        (key, True) \<Rightarrow> (fst ms, snd ms @ [DeleteClient key])
      | (key, False) \<Rightarrow> ms)"

definition finishReconcile :: "mctl \<Rightarrow> Status \<Rightarrow> goerror option \<Rightarrow> mstate \<Rightarrow> mresult" where
  "finishReconcile env previous originalErr ms =
     on_err (PatchStatusIfDiffExist (mc_env env) previous ms)
       (\<lambda>ms e. (ms, no_requeue, Some e))
       (\<lambda>ms. if IsConnectionRelatedError originalErr then (evictSKRClientCache ms, no_requeue, originalErr)
             else (case originalErr of
                     Some e \<Rightarrow> (ms, no_requeue, Some e)
                   | None \<Rightarrow> (ms, requeue (DetermineRequeueInterval (st_State (man_Status (fst ms)))
                                     (me_intervals (mc_env env))), None)))"

definition rate_limited :: "mctl \<Rightarrow> mstate \<Rightarrow> mresult" where
  "rate_limited env ms = (ms, requeue (me_rateLimit (mc_env env) (snd ms)), None)"

definition manifest_ssaSpec :: "mctl \<Rightarrow> mstate \<Rightarrow> mresult" where
  "manifest_ssaSpec env ms =
     on_err (on_mhistory (SsaSpec (mc_env env) (fst ms)) ms) (\<lambda>ms e. (ms, no_requeue, Some e)) (rate_limited env)"

definition manifest_update :: "mctl \<Rightarrow> mstate \<Rightarrow> mresult" where
  "manifest_update env ms =
     on_err (on_mhistory (client_UpdateManifest (mc_env env) (fst ms)) ms) (\<lambda>ms e. (ms, no_requeue, Some e)) (rate_limited env)"

definition cleanupMetrics :: "mstate \<Rightarrow> mstate \<times> goerror option" where
  "cleanupMetrics ms =
     (case GetKymaName (fst ms) of
        Inl e \<Rightarrow> (ms, Some (wrapErr ''failed to get kyma name: '' e))
      | Inr kymaName \<Rightarrow>
          (case GetModuleName (fst ms) of
             Inl e \<Rightarrow> (ms, Some (wrapErr ''failed to get module name: '' e))
           | Inr moduleName \<Rightarrow> ((fst ms, snd ms @ [CleanupManifestMetrics (man_Name (fst ms))]), None)))"

definition secret_gone :: "goerror option \<Rightarrow> bool" where
  "secret_gone err = (case err of None \<Rightarrow> False | Some e \<Rightarrow> errors_Is e ErrAccessSecretNotFound)"

definition show_strings :: "string list \<Rightarrow> string" where
  "show_strings xs = ''['' @ joinWith '' '' xs @ '']''"

definition cleanupManifest :: "mctl \<Rightarrow> Status \<Rightarrow> goerror option \<Rightarrow> mstate \<Rightarrow> mresult" where
  "cleanupManifest env previous originalErr ms =
     on_err (cleanupMetrics ms)
       (\<lambda>ms e. (ms, no_requeue, Some e))
       (\<lambda>ms.
          (case (if secret_gone originalErr \<or> IsUnmanaged (fst ms)
                 then RemoveAllFinalizers (me_remove (mc_env env)) (fst ms)
                 else RemoveRequiredFinalizers (me_lib (mc_env env)) (fst ms)) of
             (m1, True) \<Rightarrow> manifest_update env (m1, snd ms)
           | (m1, False) \<Rightarrow>
               finishReconcile env previous originalErr
                 (if st_State (man_Status m1) \<noteq> StateWarning
                  then with_status env (\<lambda>now st. WithOperation now (''waiting as other finalizers are present: ''
                         @ show_strings (om_Finalizers (man_Meta m1))) (WithState StateDeleting st)) (m1, snd ms)
                  else (m1, snd ms))))"

section \<open>Access to the SKR\<close>

definition getTargetClient :: "mctl \<Rightarrow> mstate \<Rightarrow> mstate \<times> (goerror + mskr)" where
  "getTargetClient env ms =
     (case GenerateCacheKey (fst ms) of
        (key, keyed) \<Rightarrow>
          (case (if keyed then me_cached (mc_env env) (snd ms) key else None) of
             Some c \<Rightarrow> (ms, Inr c)
           | None \<Rightarrow>
               (case on_mhistory (call ResolveClient (\<lambda>h. me_resolveClient (mc_env env) h (fst ms))) ms of
                  (ms1, Inl e) \<Rightarrow> (ms1, Inl e)
                | (ms1, Inr c) \<Rightarrow> ((fst ms1, snd ms1 @ [AddClient key]), Inr c))))"

section \<open>Steps of both pipelines\<close>

definition syncedOCIRef :: "Manifest \<Rightarrow> string option" where
  "syncedOCIRef m = om_Annotations (man_Meta m) SyncedOCIRefAnnotation"

definition ociRefNotChanged :: "Manifest \<Rightarrow> string \<Rightarrow> bool" where
  "ociRefNotChanged m ref = (syncedOCIRef m = Some ref)"

definition requireUpdateSyncedOCIRefAnnotation :: "Manifest \<Rightarrow> string \<Rightarrow> bool" where
  "requireUpdateSyncedOCIRefAnnotation m ref = (case syncedOCIRef m of None \<Rightarrow> False | Some r \<Rightarrow> r \<noteq> ref)"

definition notContainsSyncedOCIRefAnnotation :: "Manifest \<Rightarrow> bool" where
  "notContainsSyncedOCIRefAnnotation m = (syncedOCIRef m = None)"

definition updateSyncedOCIRefAnnotation :: "string \<Rightarrow> Manifest \<Rightarrow> Manifest" where
  "updateSyncedOCIRefAnnotation ref m =
     m\<lparr>man_Meta := (man_Meta m)\<lparr>om_Annotations := (om_Annotations (man_Meta m))(SyncedOCIRefAnnotation \<mapsto> ref)\<rparr>\<rparr>"

definition manifestNotInDeletingAndOciRefNotChangedButDiffDetected :: "Resource list \<Rightarrow> Manifest \<Rightarrow> Spec \<Rightarrow> bool" where
  "manifestNotInDeletingAndOciRefNotChangedButDiffDetected diff m sp =
     (diff \<noteq> [] \<and> ociRefNotChanged m (sp_OCIRef sp) \<and> \<not> man_deleted m)"

definition pruneDiff ::
  "mctl \<Rightarrow> mskr \<Rightarrow> Resource list \<Rightarrow> Unstructured list \<Rightarrow> Spec \<Rightarrow> mstate \<Rightarrow> mstate \<times> goerror option" where
  "pruneDiff env c current target sp ms =
     (let diff = pruneResource (Difference current target) ''Namespace'' DefaultRemoteNamespace in
      if diff = [] then (ms, None)
      else if manifestNotInDeletingAndOciRefNotChangedButDiffDetected diff (fst ms) sp
      then (case with_status env (\<lambda>now st. WithOperation now (error_text errResourceSyncDiffInSameOCILayer)
                    (WithState StateWarning st)) ms of
              (m1, s1) \<Rightarrow> ((m1, s1 @ [EvictRenderCache]), Some errResourceSyncDiffInSameOCILayer))
      else (case DeleteDiffResources (mc_env env) c diff ms of
              (ms1, Some e) \<Rightarrow> (with_status env (\<lambda>now. WithErr now e) ms1, Some e)
            | (ms1, None) \<Rightarrow> (ms1, None)))"

section \<open>Installation\<close>

definition handleLabelsRemovalFinalizer :: "mctl \<Rightarrow> mskr \<Rightarrow> mstate \<Rightarrow> mresult" where
  "handleLabelsRemovalFinalizer env c ms =
     on_err (RemoveManagedByLabel (mc_env env) c ms) (\<lambda>ms e. (ms, no_requeue, Some e)) (rate_limited env)"

definition handleUnmanagedManifest :: "mctl \<Rightarrow> mskr \<Rightarrow> mstate \<Rightarrow> mresult" where
  "handleUnmanagedManifest env c ms =
     (if ContainsFinalizer (man_Meta (fst ms)) LabelRemovalFinalizer then handleLabelsRemovalFinalizer env c ms
      else on_err (on_mhistory (call (DeleteManifestCR (fst ms)) (\<lambda>h. me_delete (mc_env env) h (fst ms))) ms)
             (\<lambda>ms e. (ms, no_requeue, Some (wrapErr ''manifestController: '' e)))
             (\<lambda>ms. (ms, requeue (ri_Success (me_intervals (mc_env env))), None)))"

definition prepareReconcile :: "mctl \<Rightarrow> Status \<Rightarrow> mstate \<Rightarrow> mresult + mskr \<times> mstate" where
  "prepareReconcile env previous ms =
     (case Initialize (me_lib (mc_env env)) (me_now (mc_env env) (snd ms)) (fst ms) of
        (m1, Some e) \<Rightarrow> Inl (finishReconcile env previous (Some e) (m1, snd ms))
      | (m1, None) \<Rightarrow>
          (case getTargetClient env (m1, snd ms) of
             (ms2, Inl e) \<Rightarrow> Inl (finishReconcile env previous (Some e) (with_status env (error_status e) ms2))
           | (ms2, Inr c) \<Rightarrow>
               if IsUnmanaged (fst ms2) then Inl (handleUnmanagedManifest env c ms2)
               else (case on_mhistory (DetectOrphanedManifest (mc_env env) (fst ms2)) ms2 of
                       (ms3, Some e) \<Rightarrow>
                         if errors_Is e ErrOrphanedManifest
                         then Inl (finishReconcile env (man_Status (fst ms3)) (Some e) (with_status env (error_status e) ms3))
                         else Inl (ms3, no_requeue, Some (wrapErr ''manifestController: '' e))
                     | (ms3, None) \<Rightarrow>
                         (case FinalizersUpdateRequired (me_lib (mc_env env)) (fst ms3) of
                            (m4, True) \<Rightarrow> Inl (manifest_ssaSpec env (m4, snd ms3))
                          | (m4, False) \<Rightarrow> Inr (c, (m4, snd ms3))))))"

definition resolveAndTrackSpec :: "mctl \<Rightarrow> Status \<Rightarrow> mstate \<Rightarrow> mresult + Spec \<times> mstate" where
  "resolveAndTrackSpec env previous ms =
     (case on_mhistory (GetSpec (mc_env env) (fst ms)) ms of
        (ms1, Inl e) \<Rightarrow> Inl (finishReconcile env previous (Some e) (with_status env (error_status e) ms1))
      | (ms1, Inr sp) \<Rightarrow>
          if notContainsSyncedOCIRefAnnotation (fst ms1)
          then Inl (manifest_update env (updateSyncedOCIRefAnnotation (sp_OCIRef sp) (fst ms1), snd ms1))
          else Inr (sp, ms1))"

definition renderResourcesForInstall ::
  "mctl \<Rightarrow> mskr \<Rightarrow> Spec \<Rightarrow> mstate \<Rightarrow> mstate \<times> (goerror + Unstructured list \<times> Resource list)" where
  "renderResourcesForInstall env c sp ms =
     (let current = st_Synced (man_Status (fst ms)) in
      case on_mhistory (call RenderResources (\<lambda>h. mc_render env h c (fst ms) sp)) ms of
        (ms1, Inl e) \<Rightarrow> (ms1, Inl e)
      | (ms1, Inr target) \<Rightarrow>
          ((SetResourcesConditionTrue (me_lib (mc_env env)) (me_now (mc_env env) (snd ms1)) (fst ms1), snd ms1),
           Inr (target, current)))"

text \<open>\<open>None\<close>: go on.\<close>

definition pruneAndSync ::
  "mctl \<Rightarrow> mskr \<Rightarrow> Status \<Rightarrow> Resource list \<Rightarrow> Unstructured list \<Rightarrow> Spec \<Rightarrow> mstate \<Rightarrow> mresult + mstate" where
  "pruneAndSync env c previous current target sp ms =
     on_err (pruneDiff env c current target sp ms)
       (\<lambda>ms e. Inl (if errors_Is e ErrDeletionNotFinished then rate_limited env ms
                     else finishReconcile env previous (Some e) ms))
       (\<lambda>ms. on_err (SyncResources (mc_env env) c target ms)
          (\<lambda>ms e. Inl (finishReconcile env previous (Some e) ms))
          (\<lambda>ms. Inr ms))"

definition syncDefaultModuleCR :: "mctl \<Rightarrow> mskr \<Rightarrow> mstate \<Rightarrow> mstate \<times> goerror option" where
  "syncDefaultModuleCR env c ms =
     (if ShouldCreateDefaultModuleCR (fst ms) \<and> \<not> IsModuleCRInstallConditionTrue (man_Status (fst ms))
      then (case on_mhistory (SyncDefaultModuleCR c (fst ms)) ms of
              (ms1, Some e) \<Rightarrow> (with_status env (error_status e) ms1, Some e)
            | (ms1, None) \<Rightarrow>
                ((SetModuleCRInstallConditionTrue (me_lib (mc_env env)) (me_now (mc_env env) (snd ms1)) (fst ms1), snd ms1),
                 None))
      else (ms, None))"

definition checkManagerState :: "mctl \<Rightarrow> mskr \<Rightarrow> Unstructured list \<Rightarrow> mhistory \<Rightarrow> mhistory \<times> (goerror + State)" where
  "checkManagerState env c target s =
     (case mc_stateCheck env c target s of
        (s1, Inl e) \<Rightarrow> (s1, Inl e)
      | (s1, Inr st) \<Rightarrow> (s1, if st = StateError then Inl errManagerInErrorState else Inr st))"

definition state_changed :: "State \<Rightarrow> State \<Rightarrow> goerror" where
  "state_changed old new = Errorf [Wrap errStateRequireUpdate, Lit ('': from '' @ state_text old @ '' to '' @ state_text new)]"

definition updateManifestStateAfterSync ::
  "mctl \<Rightarrow> mskr \<Rightarrow> Unstructured list \<Rightarrow> mstate \<Rightarrow> mstate \<times> goerror option" where
  "updateManifestStateAfterSync env c target ms =
     (case on_mhistory (checkManagerState env c target) ms of
        (ms1, Inl e) \<Rightarrow> (with_status env (error_status e) ms1, Some e)
      | (ms1, Inr st) \<Rightarrow>
          (case RequireManifestStateUpdateAfterSyncResource (me_lib (mc_env env)) (me_now (mc_env env) (snd ms1)) st (fst ms1) of
             (m2, True) \<Rightarrow> ((m2, snd ms1), Some (state_changed (st_State (man_Status (fst ms1))) st))
           | (m2, False) \<Rightarrow> ((m2, snd ms1), None)))"

text \<open>The last steps: record the layer that was synced, or finish.\<close>

definition track_layer :: "mctl \<Rightarrow> Spec \<Rightarrow> (mstate \<Rightarrow> mresult) \<Rightarrow> mstate \<Rightarrow> mresult" where
  "track_layer env sp finish ms =
     (if requireUpdateSyncedOCIRefAnnotation (fst ms) (sp_OCIRef sp)
      then manifest_update env (updateSyncedOCIRefAnnotation (sp_OCIRef sp) (fst ms), snd ms)
      else finish ms)"

definition after_sync :: "mctl \<Rightarrow> mskr \<Rightarrow> Status \<Rightarrow> Unstructured list \<Rightarrow> Spec \<Rightarrow> mstate \<Rightarrow> mresult" where
  "after_sync env c previous target sp ms =
     on_err (syncDefaultModuleCR env c ms)
       (\<lambda>ms e. finishReconcile env previous (Some e) ms)
       (\<lambda>ms. on_err (on_mhistory (EnsureCRFinalizer (mc_env env) (fst ms)) ms)
          (\<lambda>ms e. if errors_Is e ErrRequeueRequired then rate_limited env ms
                  else finishReconcile env previous (Some e) ms)
          (\<lambda>ms. on_err (updateManifestStateAfterSync env c target ms)
             (\<lambda>ms e. finishReconcile env previous (Some e) ms)
             (track_layer env sp (finishReconcile env previous None))))"

definition install_resources :: "mctl \<Rightarrow> mskr \<Rightarrow> Status \<Rightarrow> Spec \<Rightarrow> mstate \<Rightarrow> mresult" where
  "install_resources env c previous sp ms =
     (case renderResourcesForInstall env c sp ms of
        (ms1, Inl e) \<Rightarrow>
          finishReconcile env previous (Some e)
            (if errors_Is e ErrInjectDataFromKCP then with_status env (error_status e) ms1 else ms1)
      | (ms1, Inr (target, current)) \<Rightarrow>
          (case pruneAndSync env c previous current target sp ms1 of
             Inl r \<Rightarrow> r
           | Inr ms2 \<Rightarrow> after_sync env c previous target sp ms2))"

definition manifest_install :: "mctl \<Rightarrow> mstate \<Rightarrow> mresult" where
  "manifest_install env ms =
     (let previous = man_Status (fst ms) in
      case prepareReconcile env previous ms of
        Inl r \<Rightarrow> r
      | Inr (c, ms1) \<Rightarrow>
          (case resolveAndTrackSpec env previous ms1 of
             Inl r \<Rightarrow> r
           | Inr (sp, ms2) \<Rightarrow> install_resources env c previous sp ms2))"

section \<open>Deletion\<close>

definition prepareDeleteReconcile :: "mctl \<Rightarrow> Status \<Rightarrow> mstate \<Rightarrow> mresult + mskr \<times> mstate" where
  "prepareDeleteReconcile env previous ms =
     (case Initialize (me_lib (mc_env env)) (me_now (mc_env env) (snd ms)) (fst ms) of
        (m1, Some e) \<Rightarrow> Inl (finishReconcile env previous (Some e) (m1, snd ms))
      | (m1, None) \<Rightarrow>
          (case getTargetClient env (m1, snd ms) of
             (ms2, Inl e) \<Rightarrow>
               if errors_Is e ErrAccessSecretNotFound then Inl (cleanupManifest env previous (Some e) ms2)
               else Inl (finishReconcile env previous (Some e) (with_status env (error_status e) ms2))
           | (ms2, Inr c) \<Rightarrow>
               if IsUnmanaged (fst ms2) then Inl (cleanupManifest env previous None ms2)
               else Inr (c, ms2)))"

definition resolveAndTrackSpecForDelete :: "mctl \<Rightarrow> Status \<Rightarrow> mstate \<Rightarrow> mresult + Spec \<times> mstate" where
  "resolveAndTrackSpecForDelete env previous ms =
     (case on_mhistory (GetSpec (mc_env env) (fst ms)) ms of
        (ms1, Inl e) \<Rightarrow> Inl (cleanupManifest env previous (Some e) (with_status env (error_status e) ms1))
      | (ms1, Inr sp) \<Rightarrow>
          if notContainsSyncedOCIRefAnnotation (fst ms1)
          then Inl (manifest_update env (updateSyncedOCIRefAnnotation (sp_OCIRef sp) (fst ms1), snd ms1))
          else Inr (sp, ms1))"

definition ensureModuleCRsAllDeleted :: "mskr \<Rightarrow> Manifest \<Rightarrow> mhistory \<Rightarrow> mhistory \<times> (goerror + bool)" where
  "ensureModuleCRsAllDeleted c m s =
     (case CheckModuleCRsDeletion c m s of
        (s1, Some e) \<Rightarrow> (s1, Inl e)
      | (s1, None) \<Rightarrow> CheckDefaultCRDeletion c m s1)"

definition renderResourcesForDelete ::
  "mctl \<Rightarrow> mskr \<Rightarrow> Spec \<Rightarrow> mstate \<Rightarrow> mstate \<times> (goerror + Unstructured list \<times> Resource list)" where
  "renderResourcesForDelete env c sp ms =
     (let current = st_Synced (man_Status (fst ms)) in
      case on_mhistory (ensureModuleCRsAllDeleted c (fst ms)) ms of
        (ms1, Inr True) \<Rightarrow> (ms1, Inr ([], current))
      | (ms1, Inl e) \<Rightarrow>
          if errors_Is e ErrWaitingForModuleCRsDeletion
          then (with_status env (\<lambda>now st. WithOperation now ''waiting for module crs deletion''
                   (WithState StateDeleting st)) ms1, Inl e)
          else (with_status env (error_status e) ms1, Inl e)
      | (ms1, Inr False) \<Rightarrow>
          (case on_mhistory (call RenderResources (\<lambda>h. mc_render env h c (fst ms1) sp)) ms1 of
             (ms2, Inl e) \<Rightarrow> (ms2, Inl e)
           | (ms2, Inr target) \<Rightarrow>
               ((SetResourcesConditionTrue (me_lib (mc_env env)) (me_now (mc_env env) (snd ms2)) (fst ms2), snd ms2),
                Inr (target, current))))"

definition manifestUnderDeletingButNoSyncedResources :: "Manifest \<Rightarrow> Resource list \<Rightarrow> bool" where
  "manifestUnderDeletingButNoSyncedResources m current = (man_deleted m \<and> current = [])"

definition updateDeletingState :: "mctl \<Rightarrow> mstate \<Rightarrow> mstate \<times> goerror option" where
  "updateDeletingState env ms =
     (case RequireManifestStateUpdateAfterSyncResource (me_lib (mc_env env)) (me_now (mc_env env) (snd ms)) StateDeleting (fst ms) of
        (m1, True) \<Rightarrow> ((m1, snd ms), Some (state_changed (st_State (man_Status (fst ms))) StateDeleting))
      | (m1, False) \<Rightarrow> ((m1, snd ms), None))"

definition finish_delete :: "mctl \<Rightarrow> mskr \<Rightarrow> Status \<Rightarrow> Unstructured list \<Rightarrow> Spec \<Rightarrow> mstate \<Rightarrow> mresult" where
  "finish_delete env c previous target sp ms =
     on_err (RemoveDefaultModuleCR (mc_env env) c ms)
       (\<lambda>ms e. if errors_Is e ErrRequeueRequired then rate_limited env ms
               else finishReconcile env previous (Some e) ms)
       (\<lambda>ms. on_err (SyncResources (mc_env env) c target ms)
          (\<lambda>ms e. finishReconcile env previous (Some e) ms)
          (\<lambda>ms. on_err (updateDeletingState env ms)
             (\<lambda>ms e. finishReconcile env previous (Some e) ms)
             (track_layer env sp (cleanupManifest env previous None))))"

definition delete_resources :: "mctl \<Rightarrow> mskr \<Rightarrow> Status \<Rightarrow> Spec \<Rightarrow> mstate \<Rightarrow> mresult" where
  "delete_resources env c previous sp ms =
     (case renderResourcesForDelete env c sp ms of
        (ms1, Inl e) \<Rightarrow> finishReconcile env previous (Some e) ms1
      | (ms1, Inr (target, current)) \<Rightarrow>
          on_err (pruneDiff env c current target sp
                    (if manifestUnderDeletingButNoSyncedResources (fst ms1) current then evictSKRClientCache ms1 else ms1))
            (\<lambda>ms e. if errors_Is e ErrDeletionNotFinished then rate_limited env ms
                    else finishReconcile env previous (Some e) ms)
            (finish_delete env c previous target sp))"

definition manifest_delete :: "mctl \<Rightarrow> mstate \<Rightarrow> mresult" where
  "manifest_delete env ms =
     (let previous = man_Status (fst ms) in
      case prepareDeleteReconcile env previous ms of
        Inl r \<Rightarrow> r
      | Inr (c, ms1) \<Rightarrow>
          (case resolveAndTrackSpecForDelete env previous ms1 of
             Inl r \<Rightarrow> r
           | Inr (sp, ms2) \<Rightarrow> delete_resources env c previous sp ms2))"

section \<open>Reconciliation\<close>

definition Manifest_Reconcile ::
  "mctl \<Rightarrow> NamespacedName \<Rightarrow> (Manifest option \<times> mhistory) \<times> ctrl_result \<times> goerror option" where
  "Manifest_Reconcile env name =
     (case call (GetManifest name) (\<lambda>h. me_getManifest (mc_env env) h name) [] of
        (s, Inl e) \<Rightarrow>
          if IsNotFound (Some e) then ((None, s), no_requeue, None)
          else ((None, s), no_requeue, Some (wrapErr ''manifestController: '' e))
      | (s, Inr m) \<Rightarrow>
          if Manifest_SkipReconciliation m then ((Some m, s), requeue (ri_Success (me_intervals (mc_env env))), None)
          else (case (if \<not> man_deleted m then manifest_install env (m, s) else manifest_delete env (m, s)) of
                  ((m1, s1), r) \<Rightarrow> ((Some m1, s1), r)))"

end
