(* ===== verification/ManifestReconcile.thy ===== *)
theory ManifestReconcile
  imports ManifestController
begin

text \<open>
  What the reconciler of the Manifest guarantees: resources are deleted during an installation only
  if the layer changed and dropped them, the finalizer is kept while synced resources are left, and no
  Manifest is forgotten. Then two error paths of the source: a deletion that never ends, and module
  resources that cannot be listed and count as deleted. A locale collects what the reconciler expects
  of a state check; both checks of the source interpret it.
\<close>

section \<open>What the operations call\<close>

text \<open>
  Two kinds of calls matter: deletions of resources of the module, and updates of the Manifest, which
  drop its finalizers. Most operations make neither; the collection \<open>calls_kept\<close> says so.
\<close>

fun is_deletion :: "meffect \<Rightarrow> bool" where
  "is_deletion (DeleteResource r) = True"
| "is_deletion _ = False"

fun is_manifest_update :: "meffect \<Rightarrow> bool" where
  "is_manifest_update (UpdateManifestObject m) = True"
| "is_manifest_update _ = False"

definition deletions :: "mhistory \<Rightarrow> mhistory" where
  "deletions s = filter is_deletion s"

definition updates :: "mhistory \<Rightarrow> mhistory" where
  "updates s = filter is_manifest_update s"

definition critical :: "mhistory \<Rightarrow> mhistory" where
  "critical s = filter (\<lambda>ef. is_deletion ef \<or> is_manifest_update ef) s"

lemma critical_simps [simp]:
  "critical [] = []" "critical (s @ t) = critical s @ critical t"
  "critical (ef # s) = (if is_deletion ef \<or> is_manifest_update ef then ef # critical s else critical s)"
  by (simp_all add: critical_def)

lemma calls_simps [simp]:
  "deletions [] = []" "deletions (s @ t) = deletions s @ deletions t"
  "deletions (ef # s) = (if is_deletion ef then ef # deletions s else deletions s)"
  "updates [] = []" "updates (s @ t) = updates s @ updates t"
  "updates (ef # s) = (if is_manifest_update ef then ef # updates s else updates s)"
  by (simp_all add: deletions_def updates_def)

lemma critical_kept:
  assumes "critical s' = critical s"
  shows "deletions s' = deletions s" and "updates s' = updates s"
proof -
  have "deletions x = filter is_deletion (critical x)" "updates x = filter is_manifest_update (critical x)" for x
    by (auto simp: deletions_def updates_def critical_def intro!: filter_cong)
  then show "deletions s' = deletions s" and "updates s' = updates s" using assms by simp_all
qed

named_theorems calls_kept \<open>operations that make no critical call\<close>

lemma on_mhistory_sel [simp]:
  "fst (fst (on_mhistory f ms)) = fst ms" "snd (fst (on_mhistory f ms)) = fst (f (snd ms))"
  "snd (on_mhistory f ms) = snd (f (snd ms))"
  by (simp_all add: on_mhistory_def case_prod_beta)

lemma with_status_sel [simp]:
  "snd (with_status env f ms) = snd ms" "man_Meta (fst (with_status env f ms)) = man_Meta (fst ms)"
  "man_Spec (fst (with_status env f ms)) = man_Spec (fst ms)"
  by (simp_all add: with_status_def)

lemma PatchStatus_kept [calls_kept]: "critical (snd (fst (PatchStatusIfDiffExist env st ms))) = critical (snd ms)"
  by (auto simp: PatchStatusIfDiffExist_def call_def Let_def split: prod.split sum.split)

lemma evict_kept [calls_kept]: "critical (snd (evictSKRClientCache ms)) = critical (snd ms)"
  by (auto simp: evictSKRClientCache_def split: prod.split bool.split)

lemma evict_fst [simp]: "fst (evictSKRClientCache ms) = fst ms"
  by (auto simp: evictSKRClientCache_def split: prod.split bool.split)

lemma finishReconcile_kept [calls_kept]: "critical (snd (fst (finishReconcile env st e ms))) = critical (snd ms)"
  unfolding finishReconcile_def
  by (rule on_err_invariant [where P = "\<lambda>ms'. critical (snd ms') = critical (snd ms)"])
    (simp_all add: calls_kept split: option.split)

lemma getTargetClient_kept [calls_kept]: "critical (snd (fst (getTargetClient env ms))) = critical (snd ms)"
  by (auto simp: getTargetClient_def on_mhistory_def call_def split: prod.splits option.splits sum.splits if_splits)

lemma getTargetClient_fst [simp]: "fst (fst (getTargetClient env ms)) = fst ms"
  by (auto simp: getTargetClient_def on_mhistory_def call_def split: prod.splits option.splits sum.splits if_splits)

lemma DetectOrphaned_kept [calls_kept]: "critical (fst (DetectOrphanedManifest env m s)) = critical s"
  by (auto simp: DetectOrphanedManifest_def getParentKyma_def call_def split: prod.splits sum.splits)

lemma GetSpec_kept [calls_kept]: "critical (fst (GetSpec env m s)) = critical s"
  by (auto simp: GetSpec_def call_def Let_def split: prod.splits sum.splits option.splits)

lemma SsaSpec_kept [calls_kept]: "critical (fst (SsaSpec env m s)) = critical s"
  by (auto simp: SsaSpec_def call_def Let_def split: option.splits)

lemma UpdateManifest_history [simp]: "fst (client_UpdateManifest env m s) = s @ [UpdateManifestObject m]"
  by (auto simp: client_UpdateManifest_def call_def split: option.splits)

lemma list_mappings_kept [calls_kept]: "critical (fst (list_mappings c mps s)) = critical s"
  by (induction c mps s rule: list_mappings.induct) (auto simp: call_def split: prod.splits)

lemma list_all_kept [calls_kept]: "critical (fst (listResourcesByGroupKindInAllNamespaces c gk s)) = critical s"
  using list_mappings_kept [of c]
  by (auto simp: listResourcesByGroupKindInAllNamespaces_def split: sum.splits prod.splits) (metis fst_conv)+

lemma list_all_eq:
  "listResourcesByGroupKindInAllNamespaces c gk s = (s1, r) \<Longrightarrow> critical s1 = critical s"
  using list_all_kept [of c gk s] by simp

lemma CheckModuleCRs_kept [calls_kept]: "critical (fst (CheckModuleCRsDeletion c m s)) = critical s"
  by (auto simp: CheckModuleCRsDeletion_def GetAllModuleCRsExcludingDefaultCR_def dest: list_all_eq
      split: sum.splits prod.splits option.splits)

lemma CheckDefaultCR_kept [calls_kept]: "critical (fst (CheckDefaultCRDeletion c m s)) = critical s"
  by (auto simp: CheckDefaultCRDeletion_def Let_def dest: list_all_eq split: sum.splits prod.splits)

lemma ensureModuleCRs_kept [calls_kept]: "critical (fst (ensureModuleCRsAllDeleted c m s)) = critical s"
proof (cases "CheckModuleCRsDeletion c m s")
  case (Pair s1 e)
  then have "critical s1 = critical s" using CheckModuleCRs_kept [of c m s] by simp
  then show ?thesis using Pair CheckDefaultCR_kept [of c m s1] by (simp add: ensureModuleCRsAllDeleted_def split: option.split)
qed

lemma deleteCR_kept [calls_kept]: "critical (fst (deleteCR c m s)) = critical s"
  by (auto simp: deleteCR_def Let_def call_def dest: list_all_eq split: sum.splits prod.splits option.splits)

lemma RemoveCRFinalizer_kept [calls_kept]: "critical (fst (RemoveCRFinalizer env m s)) = critical s"
  by (auto simp: RemoveCRFinalizer_def call_def Let_def split: sum.splits prod.splits option.splits)

lemma EnsureCRFinalizer_kept [calls_kept]: "critical (fst (EnsureCRFinalizer env m s)) = critical s"
  by (auto simp: EnsureCRFinalizer_def call_def Let_def split: option.splits)

lemma RemoveDefaultModuleCR_kept [calls_kept]: "critical (snd (fst (RemoveDefaultModuleCR env c ms))) = critical (snd ms)"
proof -
  obtain m s where ms: "ms = (m, s)" by fastforce
  obtain s1 r where d: "deleteCR c m s = (s1, r)" by fastforce
  obtain s2 e where f: "RemoveCRFinalizer env m s1 = (s2, e)" by fastforce
  have "critical s1 = critical s" using deleteCR_kept [of c m s] d by simp
  moreover have "critical s2 = critical s1" using RemoveCRFinalizer_kept [of env m s1] f by simp
  ultimately show ?thesis using ms d f by (simp add: RemoveDefaultModuleCR_def split: sum.split option.split)
qed

lemma SyncDefaultModuleCR_kept [calls_kept]: "critical (fst (SyncDefaultModuleCR c m s)) = critical s"
  by (auto simp: SyncDefaultModuleCR_def call_def Let_def split: option.splits)

lemma apply_each_kept: "critical (fst (apply_each c us s)) = critical s"
  by (induction c us s rule: apply_each.induct)
    (auto simp: serverSideApplyObject_def call_def split: prod.splits option.splits)

lemma ssa_Run_kept: "critical (fst (ssa_Run env c us s)) = critical s"
  using apply_each_kept [of c "me_orderApply env us" s] by (cases "apply_each c (me_orderApply env us) s") (simp add: ssa_Run_def)

lemma SyncResources_kept [calls_kept]: "critical (snd (fst (SyncResources env c us ms))) = critical (snd ms)"
proof -
  obtain m s where ms: "ms = (m, s)" by fastforce
  obtain s1 e where "ssa_Run env c us s = (s1, e)" by fastforce
  then show ?thesis using ssa_Run_kept [of env c us s] ms by (simp add: SyncResources_def Let_def split: option.split)
qed

section \<open>The same object\<close>

text \<open>A Manifest in memory that differs from the one that was read in its state, conditions and finalizers only.\<close>

definition same_object :: "Manifest \<Rightarrow> Manifest \<Rightarrow> bool" where
  "same_object m m' \<longleftrightarrow> man_Spec m' = man_Spec m \<and> st_Synced (man_Status m') = st_Synced (man_Status m)
     \<and> (man_Meta m')\<lparr>om_Finalizers := []\<rparr> = (man_Meta m)\<lparr>om_Finalizers := []\<rparr>"

lemma meta_eq_fields:
  assumes "(x::ObjectMeta)\<lparr>om_Finalizers := []\<rparr> = y\<lparr>om_Finalizers := []\<rparr>"
  shows "om_Annotations x = om_Annotations y" "om_DeletionTimestamp x = om_DeletionTimestamp y"
    "om_Labels x = om_Labels y" "om_Name x = om_Name y" "om_Namespace x = om_Namespace y"
  using arg_cong [OF assms, of om_Annotations] arg_cong [OF assms, of om_DeletionTimestamp]
    arg_cong [OF assms, of om_Labels] arg_cong [OF assms, of om_Name] arg_cong [OF assms, of om_Namespace] by simp_all

lemma same_object_sel:
  assumes "same_object m m'"
  shows "man_deleted m' = man_deleted m" "syncedOCIRef m' = syncedOCIRef m" "IsUnmanaged m' = IsUnmanaged m"
    "GenerateCacheKey m' = GenerateCacheKey m" "man_Spec m' = man_Spec m"
    "st_Synced (man_Status m') = st_Synced (man_Status m)" "GetSpec env m' = GetSpec env m"
proof -
  have spec: "man_Spec m' = man_Spec m" and synced: "st_Synced (man_Status m') = st_Synced (man_Status m)"
    and meta: "(man_Meta m')\<lparr>om_Finalizers := []\<rparr> = (man_Meta m)\<lparr>om_Finalizers := []\<rparr>"
    using assms by (simp_all add: same_object_def)
  note fields = meta_eq_fields [OF meta]
  show "man_deleted m' = man_deleted m" "syncedOCIRef m' = syncedOCIRef m" "IsUnmanaged m' = IsUnmanaged m"
    "man_Spec m' = man_Spec m" "st_Synced (man_Status m') = st_Synced (man_Status m)"
    "GenerateCacheKey m' = GenerateCacheKey m"
    by (simp_all only: syncedOCIRef_def IsUnmanaged_def GenerateCacheKey_def GetKymaName_def fields spec synced)
  have key: "man_key m' = man_key m" by (simp only: man_key_def fields)
  show "GetSpec env m' = GetSpec env m" by (rule ext) (simp only: GetSpec_def key spec)
qed

lemma same_object_refl [simp]: "same_object m m"
  by (simp add: same_object_def)

lemma same_object_trans: "same_object m1 m2 \<Longrightarrow> same_object m2 m3 \<Longrightarrow> same_object m1 m3"
  by (simp add: same_object_def)

lemma same_object_finalizers [simp]: "same_object m (set_finalizers fs m)"
  by (simp add: same_object_def set_finalizers_def)

lemma same_object_status: "st_Synced st = st_Synced (man_Status m) \<Longrightarrow> same_object m (set_status st m)"
  by (simp add: same_object_def)

lemma status_synced [simp]:
  "st_Synced (WithState x st) = st_Synced st" "st_Synced (WithErr now e st) = st_Synced st"
  "st_Synced (WithOperation now op st) = st_Synced st" "st_Synced (error_status e now st) = st_Synced st"
  by (simp_all add: WithState_def WithErr_def WithOperation_def error_status_def)

lemma setConditionToTrue_same [simp]: "same_object m (setConditionToTrue lib now t msg m)"
  by (auto simp: setConditionToTrue_def Let_def intro: same_object_status split: option.split)

lemma Initialize_same: "Initialize lib now m = (m1, e) \<Longrightarrow> same_object m m1"
  by (auto simp: Initialize_def InitializeStatusConditions_def Let_def same_object_def split: if_splits)

lemma FinalizersUpdateRequired_same: "FinalizersUpdateRequired lib m = (m1, u) \<Longrightarrow> same_object m m1"
  by (auto simp: FinalizersUpdateRequired_def split: prod.splits)

section \<open>Deleting resources\<close>

definition permutes_deletions :: "menv \<Rightarrow> bool" where
  "permutes_deletions env \<longleftrightarrow> (\<forall>rs. set (me_orderDelete env rs) = set rs)"

lemma delete_each_history: "fst (delete_each c rs s) = s @ map DeleteResource rs"
  by (induction c rs s rule: delete_each.induct) (auto simp: call_def split: prod.splits)

lemma cleanup_Run_history: "fst (cleanup_Run env c rs s) = s @ map DeleteResource (me_orderDelete env rs)"
  using delete_each_history [of c "me_orderDelete env rs" s]
  by (cases "delete_each c (me_orderDelete env rs) s") (simp add: cleanup_Run_def Let_def)

lemma cleanupResources_history:
  "snd (fst (cleanupResources env c st rs ms)) = snd ms @ map DeleteResource (me_orderDelete env rs)"
  using cleanup_Run_history [of env c rs "snd ms"]
  by (cases "cleanup_Run env c rs (snd ms)") (auto simp: cleanupResources_def split: option.split)

text \<open>The calls that an operation appends, if they are deletions of the given resources.\<close>

definition deletes_from :: "Resource list \<Rightarrow> mhistory \<Rightarrow> mhistory \<Rightarrow> bool" where
  "deletes_from rs s s' \<longleftrightarrow> (\<exists>ds. s' = s @ map DeleteResource ds \<and> set ds \<subseteq> set rs)"

lemma DeleteDiffResources_history:
  assumes "permutes_deletions env"
  shows "deletes_from rs (snd ms) (snd (fst (DeleteDiffResources env c rs ms)))"
proof -
  let ?a = "filter (\<lambda>r. IsOperatorRelatedResources (gvk_Kind (res_GVK r))) rs"
  let ?b = "filter (\<lambda>r. \<not> IsOperatorRelatedResources (gvk_Kind (res_GVK r))) rs"
  have set: "set (me_orderDelete env ?a) \<subseteq> set rs" "set (me_orderDelete env ?b) \<subseteq> set rs"
    using assms by (auto simp: permutes_deletions_def)
  let ?r = "cleanupResources env c (man_Status (fst ms)) ?b ms"
  have h: "snd (fst ?r) = snd ms @ map DeleteResource (me_orderDelete env ?b)" by (rule cleanupResources_history)
  have "deletes_from rs (snd ms) (snd (fst (on_err ?r (\<lambda>ms e. (ms, Some e)) (cleanupResources env c (man_Status (fst ms)) ?a))))"
  proof (rule on_err_invariant [where P = "\<lambda>ms'. snd ms' = snd ms @ map DeleteResource (me_orderDelete env ?b)", OF h])
    fix ms' :: mstate assume ms': "snd ms' = snd ms @ map DeleteResource (me_orderDelete env ?b)"
    have "snd (fst (cleanupResources env c (man_Status (fst ms)) ?a ms')) =
        snd ms @ map DeleteResource (me_orderDelete env ?b @ me_orderDelete env ?a)"
      by (simp only: cleanupResources_history ms') simp
    then show "deletes_from rs (snd ms) (snd (fst (cleanupResources env c (man_Status (fst ms)) ?a ms')))"
      unfolding deletes_from_def using set by (metis Un_subset_iff set_append)
  next
    fix ms' :: mstate and e assume "snd ms' = snd ms @ map DeleteResource (me_orderDelete env ?b)"
    then show "deletes_from rs (snd ms) (snd (fst (ms', Some e)))" unfolding deletes_from_def using set by auto
  qed
  then show ?thesis by (simp add: DeleteDiffResources_def SplitResources_def Let_def)
qed

lemma pruneResource_subset: "set (pruneResource rs k n) \<subseteq> set rs"
  by (induction rs) auto

lemma Difference_set: "r \<in> set (Difference rs us) \<longleftrightarrow> r \<in> set rs \<and> Resource_ID r \<notin> (\<lambda>u. Resource_ID (object_resource u)) ` set us"
  by (auto simp: Difference_def Let_def)

lemma pruneDiff_deletes:
  assumes "permutes_deletions (mc_env env)" and "DeleteResource x \<in> set (snd (fst (pruneDiff env c current us sp ms)))"
    and "DeleteResource x \<notin> set (snd ms)"
  shows "x \<in> set current \<and> Resource_ID x \<notin> (\<lambda>u. Resource_ID (object_resource u)) ` set us
    \<and> (ociRefNotChanged (fst ms) (sp_OCIRef sp) \<longrightarrow> man_deleted (fst ms))"
proof -
  let ?d = "pruneResource (Difference current us) ''Namespace'' DefaultRemoteNamespace"
  have ne: "?d \<noteq> []"
    and g: "\<not> manifestNotInDeletingAndOciRefNotChangedButDiffDetected ?d (fst ms) sp"
    using assms(2,3) by (auto simp: pruneDiff_def Let_def with_status_def split: if_splits)
  obtain ms1 e where del: "DeleteDiffResources (mc_env env) c ?d ms = (ms1, e)" by fastforce
  obtain ds where ds: "snd ms1 = snd ms @ map DeleteResource ds" "set ds \<subseteq> set ?d"
    using DeleteDiffResources_history [OF assms(1), of ?d ms c] del by (auto simp: deletes_from_def)
  have "snd (fst (pruneDiff env c current us sp ms)) = snd ms1"
    using ne g del by (auto simp: pruneDiff_def Let_def split: option.split)
  then have "x \<in> set ?d" using assms(2,3) ds by auto
  then have "x \<in> set (Difference current us)" using pruneResource_subset by fast
  then show ?thesis using ne g
    by (auto simp: Difference_set manifestNotInDeletingAndOciRefNotChangedButDiffDetected_def)
qed

lemma pruneDiff_updates:
  assumes "permutes_deletions (mc_env env)"
  shows "updates (snd (fst (pruneDiff env c current us sp ms))) = updates (snd ms)"
proof -
  let ?d = "pruneResource (Difference current us) ''Namespace'' DefaultRemoteNamespace"
  obtain ms1 e where del: "DeleteDiffResources (mc_env env) c ?d ms = (ms1, e)" by fastforce
  obtain ds where ds: "snd ms1 = snd ms @ map DeleteResource ds"
    using DeleteDiffResources_history [OF assms(1), of ?d ms c] del by (auto simp: deletes_from_def)
  have "updates (map DeleteResource ds) = []" by (induction ds) simp_all
  then show ?thesis using ds del by (auto simp: pruneDiff_def Let_def with_status_def split: option.split)
qed

section \<open>The check of the manager\<close>

text \<open>
  What the reconciler relies on when it asks for the state of the manager: the check makes no critical
  call, and the state it reports is Ready, Processing or Error.
\<close>

locale state_checker =
  fixes GetState :: state_check
  assumes quiet_check: "critical (fst (GetState c us s)) = critical s"
    and checked_state: "snd (GetState c us s) = Inr st \<Longrightarrow> st \<in> {StateReady, StateProcessing, StateError}"
begin

lemma checkManagerState_kept:
  assumes "mc_stateCheck env = GetState"
  shows "critical (fst (checkManagerState env c us s)) = critical s"
  using quiet_check [of c us s] assms
  by (cases "GetState c us s") (simp add: checkManagerState_def split: sum.split)

lemma checkManagerState_states:
  assumes "mc_stateCheck env = GetState" and "snd (checkManagerState env c us s) = Inr st"
  shows "st \<in> {StateReady, StateProcessing}"
  using checked_state [of c us s] assms
  by (cases "GetState c us s") (auto simp: checkManagerState_def split: sum.splits if_splits)

lemma updateState_kept:
  assumes "mc_stateCheck env = GetState"
  shows "critical (snd (fst (updateManifestStateAfterSync env c us ms))) = critical (snd ms)"
proof -
  obtain ms1 r where k: "on_mhistory (checkManagerState env c us) ms = (ms1, r)" by fastforce
  have "critical (snd ms1) = critical (snd ms)"
    using checkManagerState_kept [OF assms, of c us "snd ms"] arg_cong [OF k, of "\<lambda>x. snd (fst x)"] by simp
  then show ?thesis using k
    by (auto simp: updateManifestStateAfterSync_def split: sum.split prod.split bool.split)
qed

text \<open>A successful check leaves the Manifest in the state that was found.\<close>

lemma updateState_None:
  assumes "mc_stateCheck env = GetState" and "updateManifestStateAfterSync env c us ms = (ms', None)"
  shows "st_State (man_Status (fst ms')) \<in> {StateReady, StateProcessing} \<and> fst ms' = fst ms"
proof -
  obtain s1 r where k: "checkManagerState env c us (snd ms) = (s1, r)" by fastforce
  then have on: "on_mhistory (checkManagerState env c us) ms = ((fst ms, s1), r)" by (simp add: on_mhistory_def)
  obtain st where st: "r = Inr st" using assms(2) on by (cases r) (simp_all add: updateManifestStateAfterSync_def)
  have range: "st \<in> {StateReady, StateProcessing}" using checkManagerState_states [OF assms(1), of c us "snd ms"] k st by simp
  have "st = st_State (man_Status (fst ms))" and "ms' = (fst ms, s1)"
    using assms(2) on st
    by (auto simp: updateManifestStateAfterSync_def RequireManifestStateUpdateAfterSyncResource_def Let_def split: if_splits)
  then show ?thesis using range by simp
qed

end

lemma determineDeploymentState_range: "determineDeploymentState p a \<in> {StateReady, StateProcessing, StateError}"
  by (auto simp: determineDeploymentState_def Let_def split: option.split bool.split)

lemma GetPodsState_range: "GetPodsState ps \<in> {StateReady, StateProcessing, StateError}"
  by (auto simp: GetPodsState_def split: list.split option.split bool.split)

interpretation manager_check: state_checker ManagerStateCheck
proof
  show "critical (fst (ManagerStateCheck c us s)) = critical s" for c us s
    by (auto simp: ManagerStateCheck_def statefulSet_GetState_def call_def split: option.split workload.split sum.split)
  show "snd (ManagerStateCheck c us s) = Inr st \<Longrightarrow> st \<in> {StateReady, StateProcessing, StateError}" for c us s st
    using determineDeploymentState_range GetPodsState_range
    by (auto simp: ManagerStateCheck_def statefulSet_GetState_def call_def split: option.splits workload.splits sum.splits if_splits)
qed

interpretation exists_check: state_checker ExistsStateCheck
proof
  show "critical (fst (ExistsStateCheck c us s)) = critical s" for c us s
    by (induction c us s rule: ExistsStateCheck.induct) (auto simp: call_def split: option.splits)
  show "snd (ExistsStateCheck c us s) = Inr st \<Longrightarrow> st \<in> {StateReady, StateProcessing, StateError}" for c us s st
    by (induction c us s rule: ExistsStateCheck.induct) (auto simp: call_def split: option.splits if_splits)
qed

section \<open>No Manifest is forgotten\<close>

definition mc_positive :: "mctl \<Rightarrow> bool" where
  "mc_positive env \<longleftrightarrow> intervals_ok (me_intervals (mc_env env)) \<and> (\<forall>s. 0 < me_rateLimit (mc_env env) s)"

definition live :: "mresult \<Rightarrow> bool" where
  "live r \<longleftrightarrow> snd (snd r) \<noteq> None \<or> 0 < RequeueAfter (fst (snd r))"

lemma live_simps [simp]:
  "live (ms, res, Some e)" "mc_positive env \<Longrightarrow> live (rate_limited env ms)"
  "mc_positive env \<Longrightarrow> live (ms, requeue (ri_Success (me_intervals (mc_env env))), None)"
  by (simp_all add: live_def rate_limited_def mc_positive_def requeue_def intervals_ok_def)

lemma on_err_live: "(\<And>s. live (ok s)) \<Longrightarrow> (\<And>s e. live (bad s e)) \<Longrightarrow> live (on_err x bad ok)"
  by (rule on_err_invariant [where P = "\<lambda>s. True"]) simp_all

lemma finish_live [simp]: "mc_positive env \<Longrightarrow> live (finishReconcile env previous e ms)"
  unfolding finishReconcile_def
  by (rule on_err_live)
    (auto simp: live_def mc_positive_def requeue_def DetermineRequeueInterval_positive split: option.split)

lemma update_live [simp]: "mc_positive env \<Longrightarrow> live (manifest_update env ms)"
  "mc_positive env \<Longrightarrow> live (manifest_ssaSpec env ms)" "mc_positive env \<Longrightarrow> live (handleUnmanagedManifest env c ms)"
  unfolding manifest_update_def manifest_ssaSpec_def handleUnmanagedManifest_def handleLabelsRemovalFinalizer_def
  by (auto intro!: on_err_live)

lemma cleanup_live [simp]: "mc_positive env \<Longrightarrow> live (cleanupManifest env previous e ms)"
  unfolding cleanupManifest_def by (rule on_err_live) (auto split: prod.split bool.split)

lemma track_live: "mc_positive env \<Longrightarrow> (\<And>ms. live (f ms)) \<Longrightarrow> live (track_layer env sp f ms)"
  by (simp add: track_layer_def)

lemma after_sync_live [simp]: "mc_positive env \<Longrightarrow> live (after_sync env c previous us sp ms)"
  unfolding after_sync_def by (intro on_err_live track_live) auto

lemma finish_delete_live [simp]: "mc_positive env \<Longrightarrow> live (finish_delete env c previous us sp ms)"
  unfolding finish_delete_def by (intro on_err_live track_live) auto

text \<open>A step that may stop: if it does, its result has the property \<open>Q\<close>.\<close>

definition stops :: "('r \<Rightarrow> bool) \<Rightarrow> 'r + 'a \<Rightarrow> bool" where
  "stops Q x \<longleftrightarrow> (case x of Inl r \<Rightarrow> Q r | Inr a \<Rightarrow> True)"

lemma stops_simps [simp]: "stops Q (Inl r) = Q r" "stops Q (Inr a)"
  by (simp_all add: stops_def)

lemma stops_case: "stops Q x \<Longrightarrow> (\<And>a. x = Inr a \<Longrightarrow> Q (f a)) \<Longrightarrow> Q (case x of Inl r \<Rightarrow> r | Inr a \<Rightarrow> f a)"
  by (cases x) simp_all

lemmas live_case = stops_case [of live]

lemma on_err_stops:
  "(\<And>s. stops Q (ok s)) \<Longrightarrow> (\<And>s e. stops Q (bad s e)) \<Longrightarrow> stops Q (on_err x bad ok)"
  by (rule on_err_invariant [where P = "\<lambda>s. True"]) simp_all

lemma pruneAndSync_live: "mc_positive env \<Longrightarrow> stops live (pruneAndSync env c previous current us sp ms)"
  unfolding pruneAndSync_def by (intro on_err_stops) auto

lemma install_resources_live [simp]:
  assumes "mc_positive env"
  shows "live (install_resources env c previous sp ms)"
proof (cases "renderResourcesForInstall env c sp ms")
  case (Pair ms1 r)
  show ?thesis
  proof (cases r)
    case (Inr tc)
    obtain us current where "tc = (us, current)" by fastforce
    then show ?thesis using Pair Inr assms pruneAndSync_live [OF assms, of c previous current us sp ms1]
      by (simp add: install_resources_def live_case)
  qed (use Pair assms in \<open>simp add: install_resources_def\<close>)
qed

lemma delete_resources_live [simp]:
  assumes "mc_positive env"
  shows "live (delete_resources env c previous sp ms)"
proof (cases "renderResourcesForDelete env c sp ms")
  case (Pair ms1 r)
  show ?thesis
  proof (cases r)
    case (Inr tc)
    obtain us current where "tc = (us, current)" by fastforce
    then show ?thesis using Pair Inr assms by (auto simp: delete_resources_def intro!: on_err_live)
  qed (use Pair assms in \<open>simp add: delete_resources_def\<close>)
qed

lemma prepare_live:
  assumes "mc_positive env"
  shows "stops live (prepareReconcile env previous ms)" "stops live (prepareDeleteReconcile env previous ms)"
    "stops live (resolveAndTrackSpec env previous ms)" "stops live (resolveAndTrackSpecForDelete env previous ms)"
  using assms
  by (auto simp: prepareReconcile_def prepareDeleteReconcile_def resolveAndTrackSpec_def resolveAndTrackSpecForDelete_def
      split: sum.split prod.split option.split bool.split)

lemma install_live:
  assumes "mc_positive env"
  shows "live (manifest_install env ms)"
  unfolding manifest_install_def Let_def
  by (intro live_case prepare_live assms) (auto intro!: live_case prepare_live assms simp: assms split: prod.split)

lemma delete_live:
  assumes "mc_positive env"
  shows "live (manifest_delete env ms)"
  unfolding manifest_delete_def Let_def
  by (intro live_case prepare_live assms) (auto intro!: live_case prepare_live assms simp: assms split: prod.split)

section \<open>Installation deletes only what a new layer has dropped\<close>

lemma deletions_mem: "deletions s = deletions t \<Longrightarrow> DeleteResource x \<in> set s \<longleftrightarrow> DeleteResource x \<in> set t"
proof -
  have "DeleteResource x \<in> set u \<longleftrightarrow> DeleteResource x \<in> set (deletions u)" for u by (simp add: deletions_def)
  then show "deletions s = deletions t \<Longrightarrow> DeleteResource x \<in> set s \<longleftrightarrow> DeleteResource x \<in> set t" by metis
qed

lemma on_mhistory_kept:
  assumes "on_mhistory f ms = (ms1, r)" and "\<And>s. critical (fst (f s)) = critical s"
  shows "deletions (snd ms1) = deletions (snd ms)" "updates (snd ms1) = updates (snd ms)" "fst ms1 = fst ms"
    "r = snd (f (snd ms))"
proof -
  have *: "ms1 = (fst ms, fst (f (snd ms)))" "r = snd (f (snd ms))"
    using assms(1) by (auto simp: on_mhistory_def split: prod.splits)
  then show "fst ms1 = fst ms" "r = snd (f (snd ms))" by simp_all
  show "deletions (snd ms1) = deletions (snd ms)" "updates (snd ms1) = updates (snd ms)"
    using critical_kept [OF assms(2) [of "snd ms"]] * by simp_all
qed

lemma finish_deletions [simp]: "deletions (snd (fst (finishReconcile env st e ms))) = deletions (snd ms)"
  by (rule critical_kept(1) [OF finishReconcile_kept])

lemma update_deletions [simp]:
  "deletions (snd (fst (manifest_update env ms))) = deletions (snd ms)"
  "deletions (snd (fst (manifest_ssaSpec env ms))) = deletions (snd ms)"
  unfolding manifest_update_def manifest_ssaSpec_def
  by (rule on_err_invariant [where P = "\<lambda>ms'. deletions (snd ms') = deletions (snd ms)"];
      simp add: rate_limited_def critical_kept(1) [OF SsaSpec_kept])+

lemma removeLabels_deletions: "deletions (fst (removeFromSyncedResources c m s)) = deletions s"
  unfolding removeFromSyncedResources_def
  by (rule try_each_invariant [where P = "\<lambda>s'. deletions s' = deletions s"])
    (auto simp: call_def split: sum.split prod.split bool.split option.split)

lemma RemoveManagedByLabel_deletions: "deletions (snd (fst (RemoveManagedByLabel env c ms))) = deletions (snd ms)"
proof -
  obtain s1 e where r: "removeFromSyncedResources c (fst ms) (snd ms) = (s1, e)" by fastforce
  have s1: "deletions s1 = deletions (snd ms)" using removeLabels_deletions [of c "fst ms" "snd ms"] r by simp
  show ?thesis
  proof (cases e)
    case None
    show ?thesis using r s1 None
      by (simp add: RemoveManagedByLabel_def Let_def client_UpdateManifest_def call_def split: option.split)
  qed (use r s1 in \<open>simp add: RemoveManagedByLabel_def\<close>)
qed

lemma unmanaged_deletions [simp]: "deletions (snd (fst (handleUnmanagedManifest env c ms))) = deletions (snd ms)"
  unfolding handleUnmanagedManifest_def handleLabelsRemovalFinalizer_def
proof (cases "ContainsFinalizer (man_Meta (fst ms)) LabelRemovalFinalizer")
  case True
  show "deletions (snd (fst (if ContainsFinalizer (man_Meta (fst ms)) LabelRemovalFinalizer
      then on_err (RemoveManagedByLabel (mc_env env) c ms) (\<lambda>ms e. (ms, no_requeue, Some e)) (rate_limited env)
      else on_err (on_mhistory (call (DeleteManifestCR (fst ms)) (\<lambda>h. me_delete (mc_env env) h (fst ms))) ms)
             (\<lambda>ms e. (ms, no_requeue, Some (wrapErr ''manifestController: '' e)))
             (\<lambda>ms. (ms, requeue (ri_Success (me_intervals (mc_env env))), None))))) = deletions (snd ms)"
    unfolding if_P [OF True]
    by (rule on_err_invariant [where P = "\<lambda>ms'. deletions (snd ms') = deletions (snd ms)"])
      (simp_all add: rate_limited_def RemoveManagedByLabel_deletions)
next
  case False
  show "deletions (snd (fst (if ContainsFinalizer (man_Meta (fst ms)) LabelRemovalFinalizer
      then on_err (RemoveManagedByLabel (mc_env env) c ms) (\<lambda>ms e. (ms, no_requeue, Some e)) (rate_limited env)
      else on_err (on_mhistory (call (DeleteManifestCR (fst ms)) (\<lambda>h. me_delete (mc_env env) h (fst ms))) ms)
             (\<lambda>ms e. (ms, no_requeue, Some (wrapErr ''manifestController: '' e)))
             (\<lambda>ms. (ms, requeue (ri_Success (me_intervals (mc_env env))), None))))) = deletions (snd ms)"
    unfolding if_not_P [OF False]
    by (rule on_err_invariant [where P = "\<lambda>ms'. deletions (snd ms') = deletions (snd ms)"]) simp_all
qed

lemma prepare_install:
  "stops (\<lambda>r. deletions (snd (fst r)) = deletions (snd ms)) (prepareReconcile env previous ms)"
  "prepareReconcile env previous ms = Inr (c, ms1) \<Longrightarrow>
     deletions (snd ms1) = deletions (snd ms) \<and> same_object (fst ms) (fst ms1)"
proof -
  obtain m1 e1 where i: "Initialize (me_lib (mc_env env)) (me_now (mc_env env) (snd ms)) (fst ms) = (m1, e1)" by fastforce
  obtain ms2 r where t: "getTargetClient env (m1, snd ms) = (ms2, r)" by fastforce
  have m2: "fst ms2 = m1" using getTargetClient_fst [of env "(m1, snd ms)"] t by simp
  have d2: "deletions (snd ms2) = deletions (snd ms)"
    using critical_kept(1) [OF getTargetClient_kept [of env "(m1, snd ms)"]] t by simp
  obtain ms3 e3 where o3: "on_mhistory (DetectOrphanedManifest (mc_env env) (fst ms2)) ms2 = (ms3, e3)" by fastforce
  have m3: "fst ms3 = m1" and d3: "deletions (snd ms3) = deletions (snd ms)"
    using on_mhistory_kept [OF o3 DetectOrphaned_kept] m2 d2 by simp_all
  obtain m4 u where f: "FinalizersUpdateRequired (me_lib (mc_env env)) (fst ms3) = (m4, u)" by fastforce
  have same: "same_object (fst ms) m4"
    using Initialize_same [OF i] FinalizersUpdateRequired_same [OF f] m3 by (metis same_object_trans)
  show "stops (\<lambda>r. deletions (snd (fst r)) = deletions (snd ms)) (prepareReconcile env previous ms)"
    using i t o3 f d2 d3 by (simp add: prepareReconcile_def split: option.split sum.split bool.split)
  show "deletions (snd ms1) = deletions (snd ms) \<and> same_object (fst ms) (fst ms1)"
    if "prepareReconcile env previous ms = Inr (c, ms1)"
    using that i t o3 f d3 same by (auto simp: prepareReconcile_def split: option.splits sum.splits bool.splits if_splits)
qed

lemma resolve_install:
  "stops (\<lambda>r. deletions (snd (fst r)) = deletions (snd ms)) (resolveAndTrackSpec env previous ms)"
  "resolveAndTrackSpec env previous ms = Inr (sp, ms1) \<Longrightarrow>
     deletions (snd ms1) = deletions (snd ms) \<and> fst ms1 = fst ms \<and> (\<exists>h. snd (GetSpec (mc_env env) (fst ms) h) = Inr sp)"
proof -
  obtain ms1 r where g: "on_mhistory (GetSpec (mc_env env) (fst ms)) ms = (ms1, r)" by fastforce
  note d1 = on_mhistory_kept(1) [OF g GetSpec_kept] and m1 = on_mhistory_kept(3) [OF g GetSpec_kept]
    and r = on_mhistory_kept(4) [OF g GetSpec_kept]
  show "stops (\<lambda>r. deletions (snd (fst r)) = deletions (snd ms)) (resolveAndTrackSpec env previous ms)"
    using g d1 by (simp add: resolveAndTrackSpec_def split: sum.split)
  show "deletions (snd ms1') = deletions (snd ms) \<and> fst ms1' = fst ms \<and> (\<exists>h. snd (GetSpec (mc_env env) (fst ms) h) = Inr sp)"
    if "resolveAndTrackSpec env previous ms = Inr (sp, ms1')" for ms1'
    using that g d1 m1 r by (auto simp: resolveAndTrackSpec_def split: sum.splits if_splits)
qed

lemma syncDefault_deletions: "deletions (snd (fst (syncDefaultModuleCR env c ms))) = deletions (snd ms)"
proof -
  obtain ms1 e where g: "on_mhistory (SyncDefaultModuleCR c (fst ms)) ms = (ms1, e)" by fastforce
  from on_mhistory_kept(1) [OF g SyncDefaultModuleCR_kept] show ?thesis using g by (simp add: syncDefaultModuleCR_def split: option.split)
qed

lemma after_sync_deletions:
  assumes "mc_stateCheck env = ManagerStateCheck"
  shows "deletions (snd (fst (after_sync env c previous us sp ms))) = deletions (snd ms)"
  unfolding after_sync_def
proof (rule on_err_invariant [where P = "\<lambda>ms'. deletions (snd ms') = deletions (snd ms)"])
  fix ms1 :: mstate assume d1: "deletions (snd ms1) = deletions (snd ms)"
  show "deletions (snd (fst (on_err (on_mhistory (EnsureCRFinalizer (mc_env env) (fst ms1)) ms1)
          (\<lambda>ms e. if errors_Is e ErrRequeueRequired then rate_limited env ms else finishReconcile env previous (Some e) ms)
          (\<lambda>ms. on_err (updateManifestStateAfterSync env c us ms)
             (\<lambda>ms e. finishReconcile env previous (Some e) ms)
             (track_layer env sp (finishReconcile env previous None)))))) = deletions (snd ms)"
  proof (rule on_err_invariant [where P = "\<lambda>ms'. deletions (snd ms') = deletions (snd ms)"])
    show "deletions (snd (fst (on_mhistory (EnsureCRFinalizer (mc_env env) (fst ms1)) ms1))) = deletions (snd ms)"
      using d1 critical_kept(1) [OF EnsureCRFinalizer_kept] by simp
  next
    fix ms2 :: mstate assume d2: "deletions (snd ms2) = deletions (snd ms)"
    show "deletions (snd (fst (on_err (updateManifestStateAfterSync env c us ms2)
             (\<lambda>ms e. finishReconcile env previous (Some e) ms)
             (track_layer env sp (finishReconcile env previous None))))) = deletions (snd ms)"
      by (rule on_err_invariant [where P = "\<lambda>ms'. deletions (snd ms') = deletions (snd ms)"])
        (use d2 critical_kept(1) [OF manager_check.updateState_kept [OF assms, of c us ms2]] in \<open>simp_all add: track_layer_def\<close>)
  qed (simp add: rate_limited_def)
qed (simp_all add: syncDefault_deletions)

text \<open>Why a resource was deleted: it was synced, is not part of what the new layer renders to, and the layer is
  not the one that was synced last.\<close>

definition dropped_by_layer :: "mctl \<Rightarrow> Manifest \<Rightarrow> Resource \<Rightarrow> bool" where
  "dropped_by_layer env m x \<longleftrightarrow> x \<in> set (st_Synced (man_Status m))
     \<and> (\<exists>h sp h' c m' us. snd (GetSpec (mc_env env) m h) = Inr sp \<and> syncedOCIRef m \<noteq> Some (sp_OCIRef sp)
          \<and> mc_render env h' c m' sp = Inr us
          \<and> Resource_ID x \<notin> (\<lambda>u. Resource_ID (object_resource u)) ` set us)"

lemma pruneAndSync_deletions:
  assumes "permutes_deletions (mc_env env)"
  shows "stops (\<lambda>r. deletions (snd (fst r)) = deletions (snd (fst (pruneDiff env c current us sp ms))))
      (pruneAndSync env c previous current us sp ms)"
    and "pruneAndSync env c previous current us sp ms = Inr ms' \<Longrightarrow>
      deletions (snd ms') = deletions (snd (fst (pruneDiff env c current us sp ms)))"
proof -
  obtain ms1 e1 where p: "pruneDiff env c current us sp ms = (ms1, e1)" by fastforce
  obtain ms2 e2 where y: "SyncResources (mc_env env) c us ms1 = (ms2, e2)" by fastforce
  have d2: "deletions (snd ms2) = deletions (snd ms1)"
    using critical_kept(1) [OF SyncResources_kept [of "mc_env env" c us ms1]] y by simp
  show "stops (\<lambda>r. deletions (snd (fst r)) = deletions (snd (fst (pruneDiff env c current us sp ms))))
      (pruneAndSync env c previous current us sp ms)"
    using p y d2 by (cases e1; cases e2) (simp_all add: pruneAndSync_def rate_limited_def)
  show "deletions (snd ms') = deletions (snd (fst (pruneDiff env c current us sp ms)))"
    if "pruneAndSync env c previous current us sp ms = Inr ms'"
    using that p y d2 by (cases e1; cases e2) (simp_all add: pruneAndSync_def)
qed

lemma install_resources_deletes:
  assumes "permutes_deletions (mc_env env)" and "mc_stateCheck env = ManagerStateCheck" and "\<not> man_deleted (fst ms)"
    and "snd (GetSpec (mc_env env) (fst ms) h) = Inr sp"
    and "DeleteResource x \<in> set (snd (fst (install_resources env c previous sp ms)))" and "DeleteResource x \<notin> set (snd ms)"
  shows "dropped_by_layer env (fst ms) x"
proof -
  obtain ms1 r where g: "renderResourcesForInstall env c sp ms = (ms1, r)" by fastforce
  have d1: "deletions (snd ms1) = deletions (snd ms)"
    using g by (auto simp: renderResourcesForInstall_def on_mhistory_def call_def Let_def split: sum.splits)
  have "\<exists>us current. r = Inr (us, current)"
    using g deletions_mem [OF d1, of x] assms(5,6) deletions_mem [OF finish_deletions, of x]
    by (cases r) (auto simp: install_resources_def split: if_splits)
  then obtain us where r: "r = Inr (us, st_Synced (man_Status (fst ms)))"
    and render: "mc_render env (snd ms) c (fst ms) sp = Inr us" and same: "same_object (fst ms) (fst ms1)"
    using g by (auto simp: renderResourcesForInstall_def on_mhistory_def call_def SetResourcesConditionTrue_def Let_def
        split: sum.splits)
  let ?p = "pruneDiff env c (st_Synced (man_Status (fst ms))) us sp ms1"
  have eq: "deletions (snd (fst (install_resources env c previous sp ms))) = deletions (snd (fst ?p))"
    using pruneAndSync_deletions(1) [OF assms(1), of c "st_Synced (man_Status (fst ms))" us sp ms1 previous]
      pruneAndSync_deletions(2) [OF assms(1), of c previous "st_Synced (man_Status (fst ms))" us sp ms1]
      after_sync_deletions [OF assms(2), of c previous us sp] g r
    by (cases "pruneAndSync env c previous (st_Synced (man_Status (fst ms))) us sp ms1") (simp_all add: install_resources_def)
  have "DeleteResource x \<in> set (snd (fst ?p))" using assms(5) deletions_mem [OF eq] by simp
  moreover have "DeleteResource x \<notin> set (snd ms1)" using assms(6) deletions_mem [OF d1] by simp
  ultimately have "x \<in> set (st_Synced (man_Status (fst ms)))
      \<and> Resource_ID x \<notin> (\<lambda>u. Resource_ID (object_resource u)) ` set us
      \<and> (ociRefNotChanged (fst ms1) (sp_OCIRef sp) \<longrightarrow> man_deleted (fst ms1))"
    by (rule pruneDiff_deletes [OF assms(1)])
  then show ?thesis
    using assms(3,4) render same_object_sel(1,2) [OF same] unfolding dropped_by_layer_def ociRefNotChanged_def by metis
qed

text \<open>C12. While a module is installed or updated, a resource is deleted from the SKR only if it was synced before,
  if the installation layer has changed since the last sync, and if the resources that the new layer renders to
  do not contain it. So an incomplete render of the same layer, for example from a broken cache, never deletes
  anything.\<close>

theorem install_deletes_dropped_only:
  assumes "permutes_deletions (mc_env env)" and "mc_stateCheck env = ManagerStateCheck" and "\<not> man_deleted m"
    and "manifest_install env (m, s) = ((m', s'), r)"
    and "DeleteResource x \<in> set s'" and "DeleteResource x \<notin> set s"
  shows "dropped_by_layer env m x"
proof -
  let ?st = "man_Status m"
  have *: "DeleteResource x \<notin> set (snd (fst r'))" if "deletions (snd (fst r')) = deletions s" for r' :: mresult
    using deletions_mem [OF that] assms(6) by simp
  have out: "DeleteResource x \<in> set (snd (fst (manifest_install env (m, s))))" using assms(4,5) by simp
  obtain c ms1 where p: "prepareReconcile env ?st (m, s) = Inr (c, ms1)"
    using prepare_install(1) [of "(m, s)" env ?st] out *
    by (cases "prepareReconcile env ?st (m, s)") (auto simp: manifest_install_def)
  have d1: "deletions (snd ms1) = deletions s" and same: "same_object m (fst ms1)"
    using prepare_install(2) [OF p] by simp_all
  obtain sp ms2 where q: "resolveAndTrackSpec env ?st ms1 = Inr (sp, ms2)"
    using resolve_install(1) [of ms1 env ?st] out p d1 *
    by (cases "resolveAndTrackSpec env ?st ms1") (auto simp: manifest_install_def)
  obtain h where d2: "deletions (snd ms2) = deletions s" and m2: "fst ms2 = fst ms1"
    and h: "snd (GetSpec (mc_env env) (fst ms2) h) = Inr sp"
    using resolve_install(2) [OF q] d1 by auto
  have "dropped_by_layer env (fst ms2) x"
  proof (rule install_resources_deletes [OF assms(1,2) _ h])
    show "\<not> man_deleted (fst ms2)" using assms(3) same_object_sel(1) [OF same] m2 by simp
    show "DeleteResource x \<in> set (snd (fst (install_resources env c ?st sp ms2)))"
      using out p q by (simp add: manifest_install_def)
    show "DeleteResource x \<notin> set (snd ms2)" using deletions_mem [OF d2] assms(6) by simp
  qed
  then show ?thesis using same_object_sel [OF same] m2 by (simp add: dropped_by_layer_def)
qed

section \<open>Deletion keeps the finalizer while resources are left\<close>

lemma finish_updates [simp]: "updates (snd (fst (finishReconcile env st e ms))) = updates (snd ms)"
  by (rule critical_kept(2) [OF finishReconcile_kept])

lemma updates_mem: "updates s = updates t \<Longrightarrow> UpdateManifestObject x \<in> set s \<longleftrightarrow> UpdateManifestObject x \<in> set t"
proof -
  have "UpdateManifestObject x \<in> set u \<longleftrightarrow> UpdateManifestObject x \<in> set (updates u)" for u by (simp add: updates_def)
  then show "updates s = updates t \<Longrightarrow> UpdateManifestObject x \<in> set s \<longleftrightarrow> UpdateManifestObject x \<in> set t" by metis
qed

lemma update_history: "snd (fst (manifest_update env ms)) = snd ms @ [UpdateManifestObject (fst ms)]"
  unfolding manifest_update_def
  by (rule on_err_invariant [where P = "\<lambda>ms'. snd ms' = snd ms @ [UpdateManifestObject (fst ms)]"])
    (simp_all add: rate_limited_def)

lemma RemoveDefault_None:
  "RemoveDefaultModuleCR env c ms = (ms', None) \<Longrightarrow> fst ms' = fst ms"
  by (auto simp: RemoveDefaultModuleCR_def split: prod.splits sum.splits option.splits if_splits)

lemma cleanupResources_None: "cleanupResources env c st rs ms = (ms', None) \<Longrightarrow> fst ms' = fst ms"
  by (auto simp: cleanupResources_def split: prod.splits option.splits)

lemma DeleteDiff_None:
  assumes "DeleteDiffResources env c rs ms = (ms', None)"
  shows "fst ms' = fst ms"
proof -
  obtain rel man where sp: "SplitResources rs = (rel, man)" by fastforce
  obtain ms1 e1 where c1: "cleanupResources env c (man_Status (fst ms)) man ms = (ms1, e1)" by fastforce
  have e1: "e1 = None" using assms sp c1 by (cases e1) (simp_all add: DeleteDiffResources_def)
  have "cleanupResources env c (man_Status (fst ms)) rel ms1 = (ms', None)"
    using assms sp c1 e1 by (simp add: DeleteDiffResources_def)
  then show ?thesis using cleanupResources_None c1 e1 by metis
qed

lemma pruneDiff_None: "pruneDiff env c current us sp ms = (ms', None) \<Longrightarrow> fst ms' = fst ms"
  unfolding pruneDiff_def Let_def
  by (cases "DeleteDiffResources (mc_env env) c (pruneResource (Difference current us) ''Namespace'' DefaultRemoteNamespace) ms")
    (auto dest: DeleteDiff_None split: if_splits option.splits prod.splits)

lemma Sync_nothing:
  assumes "SyncResources env c [] ms = (ms', None)"
  shows "st_Synced (man_Status (fst ms)) = []"
  using assms
  by (auto simp: SyncResources_def HasDiff_def objectsToResources_def Let_def split: prod.splits option.splits if_splits)

lemma finish_delete_quiet:
  assumes "st_Synced (man_Status (fst ms)) \<noteq> []"
  shows "updates (snd (fst (finish_delete env c previous [] sp ms))) = updates (snd ms)"
proof (cases "RemoveDefaultModuleCR (mc_env env) c ms")
  case (Pair ms1 e1)
  have u1: "updates (snd ms1) = updates (snd ms)"
    using critical_kept(2) [OF RemoveDefaultModuleCR_kept [of "mc_env env" c ms]] Pair by simp
  show ?thesis
  proof (cases e1)
    case None
    obtain ms2 e2 where y: "SyncResources (mc_env env) c [] ms1 = (ms2, e2)" by fastforce
    have "fst ms1 = fst ms" using RemoveDefault_None Pair None by blast
    then obtain e where e: "e2 = Some e" using Sync_nothing [of "mc_env env" c ms1 ms2] assms y by (cases e2) simp_all
    have "updates (snd ms2) = updates (snd ms1)"
      using critical_kept(2) [OF SyncResources_kept [of "mc_env env" c "[]" ms1]] y by simp
    then show ?thesis using Pair None y e u1 by (simp add: finish_delete_def)
  qed (use Pair u1 in \<open>simp add: finish_delete_def rate_limited_def\<close>)
qed

lemma evict_updates [simp]: "updates (snd (evictSKRClientCache ms)) = updates (snd ms)"
  by (rule critical_kept(2) [OF evict_kept])

lemma delete_resources_quiet:
  assumes "permutes_deletions (mc_env env)" and "st_Synced (man_Status (fst ms)) \<noteq> []"
    and "snd (ensureModuleCRsAllDeleted c (fst ms) (snd ms)) \<noteq> Inr False"
  shows "updates (snd (fst (delete_resources env c previous sp ms))) = updates (snd ms)"
proof -
  obtain ms1 r where k: "on_mhistory (ensureModuleCRsAllDeleted c (fst ms)) ms = (ms1, r)" by fastforce
  note kept = on_mhistory_kept [OF k ensureModuleCRs_kept]
  show ?thesis
  proof (cases r)
    case (Inl e)
    then show ?thesis using k kept(2)
      by (auto simp: delete_resources_def renderResourcesForDelete_def Let_def)
  next
    case (Inr b)
    then have b: "r = Inr True" using assms(3) kept(4) by (cases b) auto
    have ne: "\<not> manifestUnderDeletingButNoSyncedResources (fst ms1) (st_Synced (man_Status (fst ms)))"
      using assms(2) by (simp add: manifestUnderDeletingButNoSyncedResources_def)
    obtain ms2 e where p: "pruneDiff env c (st_Synced (man_Status (fst ms))) [] sp ms1 = (ms2, e)" by fastforce
    have u2: "updates (snd ms2) = updates (snd ms)"
      using pruneDiff_updates [OF assms(1), of c "st_Synced (man_Status (fst ms))" "[]" sp ms1] p kept(2) by simp
    show ?thesis
    proof (cases e)
      case None
      have "st_Synced (man_Status (fst ms2)) \<noteq> []" using pruneDiff_None p None kept(3) assms(2) by metis
      then show ?thesis using k b ne p None u2 finish_delete_quiet [of ms2 env c previous sp]
        by (simp add: delete_resources_def renderResourcesForDelete_def Let_def)
    qed (use k b ne p u2 in \<open>simp add: delete_resources_def renderResourcesForDelete_def rate_limited_def Let_def\<close>)
  qed
qed

text \<open>
  Why the finalizer of a Manifest that is being deleted may go: the SKR is gone with its access secret, the
  module is unmanaged, its layer cannot be resolved any more, no resource is synced, or the default module
  resource still exists (then another finalizer guards the Manifest).
\<close>

definition finalizer_may_go :: "mctl \<Rightarrow> Manifest \<Rightarrow> mhistory \<Rightarrow> bool" where
  "finalizer_may_go env m s \<longleftrightarrow>
     (let m1 = fst (Initialize (me_lib (mc_env env)) (me_now (mc_env env) s) m) in
      case getTargetClient env (m1, s) of
        (ms2, Inl e) \<Rightarrow> errors_Is e ErrAccessSecretNotFound
      | (ms2, Inr c) \<Rightarrow>
          IsUnmanaged m
          \<or> (case GetSpec (mc_env env) m (snd ms2) of
               (s3, Inl e) \<Rightarrow> True
             | (s3, Inr sp) \<Rightarrow> st_Synced (man_Status m) = [] \<or> snd (ensureModuleCRsAllDeleted c m1 s3) = Inr False))"

lemma Initialize_finalizers: "om_Finalizers (man_Meta (fst (Initialize lib now m))) = om_Finalizers (man_Meta m)"
  by (simp add: Initialize_def InitializeStatusConditions_def Let_def)

lemma annotation_finalizers [simp]:
  "om_Finalizers (man_Meta (updateSyncedOCIRefAnnotation ref m)) = om_Finalizers (man_Meta m)"
  by (simp add: updateSyncedOCIRefAnnotation_def)

text \<open>C13. The finalizer that the operator sets on a Manifest survives as long as it has to. When the deletion of a
  Manifest is reconciled, it is dropped only if the access secret of the SKR is gone, the module is unmanaged,
  the layer of the module cannot be resolved, no resource is left in the list of the synced ones, or the default
  module resource was still found.\<close>

theorem delete_keeps_finalizer:
  assumes "permutes_deletions (mc_env env)" and "manifest_delete env (m, s) = ((m', s'), r)"
    and "UpdateManifestObject x \<in> set s'" and "UpdateManifestObject x \<notin> set s"
    and "DefaultFinalizer \<in> set (om_Finalizers (man_Meta m))" and "DefaultFinalizer \<notin> set (om_Finalizers (man_Meta x))"
  shows "finalizer_may_go env m s"
proof (rule ccontr)
  assume no: "\<not> finalizer_may_go env m s"
  let ?st = "man_Status m"
  obtain m1 e1 where i: "Initialize (me_lib (mc_env env)) (me_now (mc_env env) s) m = (m1, e1)" by fastforce
  obtain ms2 cl where t: "getTargetClient env (m1, s) = (ms2, cl)" by fastforce
  have m2: "fst ms2 = m1" using getTargetClient_fst [of env "(m1, s)"] t by simp
  have same: "same_object m m1" by (rule Initialize_same [OF i])
  have u2: "updates (snd ms2) = updates s" using critical_kept(2) [OF getTargetClient_kept [of env "(m1, s)"]] t by simp
  have out: "UpdateManifestObject x \<in> set (snd (fst (manifest_delete env (m, s))))" using assms(2,3) by simp
  have *: "UpdateManifestObject x \<notin> set (snd (fst r'))" if "updates (snd (fst r')) = updates s" for r' :: mresult
    using updates_mem [OF that, of x] assms(4) by simp
  have e1: "e1 = None" using out i * by (cases e1) (auto simp: manifest_delete_def prepareDeleteReconcile_def)
  obtain c where cl: "cl = Inr c"
    using out i t e1 no * u2 by (cases cl) (auto simp: manifest_delete_def prepareDeleteReconcile_def finalizer_may_go_def)
  have um: "\<not> IsUnmanaged m1" using no i t cl same_object_sel(3) [OF same] by (simp add: finalizer_may_go_def)
  obtain s3 sp where g: "GetSpec (mc_env env) m (snd ms2) = (s3, Inr sp)"
    using no i t cl by (cases "GetSpec (mc_env env) m (snd ms2)"; cases "snd (GetSpec (mc_env env) m (snd ms2))")
      (auto simp: finalizer_may_go_def)
  have left: "st_Synced (man_Status m1) \<noteq> []" "snd (ensureModuleCRsAllDeleted c m1 s3) \<noteq> Inr False"
    using no i t cl g same_object_sel(6) [OF same] by (simp_all add: finalizer_may_go_def)
  have u3: "updates s3 = updates s" using critical_kept(2) [OF GetSpec_kept [of "mc_env env" m "snd ms2"]] g u2 by simp
  have spec: "on_mhistory (GetSpec (mc_env env) (fst ms2)) ms2 = ((m1, s3), Inr sp)"
    using g m2 same_object_sel(7) [OF same] by (simp add: on_mhistory_def)
  have prep: "prepareDeleteReconcile env ?st (m, s) = Inr (c, ms2)"
    using i e1 t cl um m2 by (simp add: prepareDeleteReconcile_def)
  show False
  proof (cases "notContainsSyncedOCIRefAnnotation m1")
    case True
    then have "x = updateSyncedOCIRefAnnotation (sp_OCIRef sp) m1"
      using out prep spec updates_mem [OF u3, of x] assms(4)
      by (auto simp: manifest_delete_def resolveAndTrackSpecForDelete_def update_history)
    then show False using assms(5,6) Initialize_finalizers [of "me_lib (mc_env env)" "me_now (mc_env env) s" m] i by simp
  next
    case False
    have "updates (snd (fst (delete_resources env c ?st sp (m1, s3)))) = updates s"
      using delete_resources_quiet [OF assms(1), of "(m1, s3)" c ?st sp] left u3 by simp
    from * [OF this] show False
      using out prep spec False by (simp add: manifest_delete_def resolveAndTrackSpecForDelete_def)
  qed
qed

text \<open>C14. No Manifest is forgotten: if the requeue intervals and the delays of the rate limiter are positive, the
  reconciliation of a Manifest that exists ends with an error or with a positive requeue interval.\<close>

theorem Manifest_comes_back:
  assumes "me_getManifest (mc_env env) [] name = Inr m" and "mc_positive env"
    and "Manifest_Reconcile env name = (ks, res, err)"
  shows "err \<noteq> None \<or> 0 < RequeueAfter res"
proof -
  have "live (if \<not> man_deleted m then manifest_install env (m, s) else manifest_delete env (m, s))" for s
    using install_live [OF assms(2)] delete_live [OF assms(2)] by simp
  then show ?thesis
    using assms(1,3) live_simps(3) [OF assms(2)]
    by (auto simp: Manifest_Reconcile_def call_def live_def split: if_splits prod.splits) (metis fst_conv snd_conv)+
qed
section \<open>A deletion that never ends\<close>

text \<open>The calls that write to the Manifest in the control plane.\<close>

fun writes_manifest :: "meffect \<Rightarrow> bool" where
  "writes_manifest (PatchManifestStatus m) = True"
| "writes_manifest (ApplyManifestSpec m) = True"
| "writes_manifest (UpdateManifestObject m) = True"
| "writes_manifest (DeleteManifestCR m) = True"
| "writes_manifest (ApplyCRFinalizers n fs) = True"
| "writes_manifest (UpdateCRFinalizer m) = True"
| "writes_manifest _ = False"

definition manifest_writes :: "mhistory \<Rightarrow> mhistory" where
  "manifest_writes s = filter writes_manifest s"

lemma manifest_writes_simps [simp]:
  "manifest_writes [] = []" "manifest_writes (s @ t) = manifest_writes s @ manifest_writes t"
  "manifest_writes (ef # s) = (if writes_manifest ef then ef # manifest_writes s else manifest_writes s)"
  by (simp_all add: manifest_writes_def)

definition all_gone :: "mskr \<Rightarrow> bool" where
  "all_gone c \<longleftrightarrow> (\<forall>h r. IsNotFound (sc_delete c h r))"

lemma delete_each_gone:
  assumes "all_gone c"
  shows "manifest_writes (fst (delete_each c rs s)) = manifest_writes s \<and> (\<forall>a \<in> set (snd (delete_each c rs s)). IsNotFound a)"
  using assms by (induction rs arbitrary: s) (auto simp: call_def all_gone_def case_prod_beta)

lemma cleanupResources_gone:
  assumes "all_gone c"
  obtains s' where "cleanupResources env c st rs ms = ((fst ms, s'), None)" and "manifest_writes s' = manifest_writes (snd ms)"
proof -
  obtain s' answers where d: "delete_each c (me_orderDelete env rs) (snd ms) = (s', answers)" by fastforce
  have "filter (\<lambda>a. \<not> IsNotFound a) answers = []" and w: "manifest_writes s' = manifest_writes (snd ms)"
    using delete_each_gone [OF assms, of "me_orderDelete env rs" "snd ms"] d by (auto simp: filter_empty_conv)
  then have "cleanupResources env c st rs ms = ((fst ms, s'), None)"
    using d by (simp add: cleanupResources_def cleanup_Run_def Let_def List.map_filter_def del: filter_filter)
  then show thesis using w that by blast
qed

lemma pruneDiff_gone:
  assumes "all_gone c" and "man_deleted (fst ms)"
  obtains s' where "pruneDiff env c current us sp ms = ((fst ms, s'), None)" and "manifest_writes s' = manifest_writes (snd ms)"
proof (cases "pruneResource (Difference current us) ''Namespace'' DefaultRemoteNamespace = []")
  case True
  then show thesis using that [of "snd ms"] by (simp add: pruneDiff_def)
next
  case False
  let ?d = "pruneResource (Difference current us) ''Namespace'' DefaultRemoteNamespace" and ?st = "man_Status (fst ms)"
  obtain rel man where sp: "SplitResources ?d = (rel, man)" by fastforce
  obtain s1 where c1: "cleanupResources (mc_env env) c ?st man ms = ((fst ms, s1), None)" "manifest_writes s1 = manifest_writes (snd ms)"
    by (rule cleanupResources_gone [OF assms(1)])
  obtain s2 where c2: "cleanupResources (mc_env env) c ?st rel (fst ms, s1) = ((fst ms, s2), None)" "manifest_writes s2 = manifest_writes s1"
    using cleanupResources_gone [OF assms(1), of "mc_env env" ?st rel "(fst ms, s1)"] by auto
  have "DeleteDiffResources (mc_env env) c ?d ms = ((fst ms, s2), None)"
    using sp c1 c2 by (simp add: DeleteDiffResources_def)
  then show thesis using that [of s2] False assms(2) c1 c2
    by (simp add: pruneDiff_def manifestNotInDeletingAndOciRefNotChangedButDiffDetected_def)
qed

lemma Sync_nothing_warning:
  assumes "me_orderApply env [] = []" and "man_deleted m" and "st_State (man_Status m) = StateWarning"
    and "st_Synced (man_Status m) \<noteq> []"
  shows "SyncResources env c [] (m, s) = ((m, s), Some ErrWarningResourceSyncStateDiff)"
  using assms by (simp add: SyncResources_def ssa_Run_def HasDiff_def objectsToResources_def Let_def)

lemma warning_text: "\<not> IsConnectionRelatedError (Some ErrWarningResourceSyncStateDiff)"
  by code_simp

lemma delete_resources_warning:
  assumes "all_gone c" and "me_orderApply (mc_env env) [] = []" and "man_deleted m" and "msp_Resource (man_Spec m) = None"
    and "st_State (man_Status m) = StateWarning" and "st_Synced (man_Status m) \<noteq> []"
    and "\<not> HasStatusDiff (man_Status m) previous"
  obtains s' where "delete_resources env c previous sp (m, s) = ((m, s'), no_requeue, Some ErrWarningResourceSyncStateDiff)"
    and "manifest_writes s' = manifest_writes s"
proof -
  obtain s' where p: "pruneDiff env c (st_Synced (man_Status m)) [] sp (m, s) = ((m, s'), None)" "manifest_writes s' = manifest_writes s"
    using pruneDiff_gone [OF assms(1), of "(m, s)" env "st_Synced (man_Status m)" "[]" sp] assms(3) by auto
  have r: "renderResourcesForDelete env c sp (m, s) = ((m, s), Inr ([], st_Synced (man_Status m)))"
    using assms(4) by (simp add: renderResourcesForDelete_def ensureModuleCRsAllDeleted_def CheckModuleCRsDeletion_def
        GetAllModuleCRsExcludingDefaultCR_def CheckDefaultCRDeletion_def no_module_cr_def on_mhistory_def)
  have "RemoveDefaultModuleCR (mc_env env) c (m, s') = ((m, s'), None)"
    using assms(4) by (simp add: RemoveDefaultModuleCR_def deleteCR_def no_module_cr_def)
  then have "finish_delete env c previous [] sp (m, s') = finishReconcile env previous (Some ErrWarningResourceSyncStateDiff) (m, s')"
    using Sync_nothing_warning [OF assms(2,3,5,6)] by (simp add: finish_delete_def)
  also have "\<dots> = ((m, s'), no_requeue, Some ErrWarningResourceSyncStateDiff)"
    using assms(7) warning_text by (simp add: finishReconcile_def PatchStatusIfDiffExist_def)
  finally show thesis
    using that [OF _ p(2)] p(1) r assms(6) by (simp add: delete_resources_def manifestUnderDeletingButNoSyncedResources_def)
qed

lemma getTargetClient_writes: "manifest_writes (snd (fst (getTargetClient env ms))) = manifest_writes (snd ms)"
  by (auto simp: getTargetClient_def on_mhistory_def call_def split: prod.splits option.splits sum.splits)

lemma GetSpec_writes: "manifest_writes (fst (GetSpec env m s)) = manifest_writes s"
  by (auto simp: GetSpec_def call_def Let_def split: prod.splits option.splits sum.splits)

lemma InitializeStatusConditions_sel [simp]:
  "man_Meta (InitializeStatusConditions lib m) = man_Meta m" "man_Spec (InitializeStatusConditions lib m) = man_Spec m"
  "st_State (man_Status (InitializeStatusConditions lib m)) = st_State (man_Status m)"
  "st_Synced (man_Status (InitializeStatusConditions lib m)) = st_Synced (man_Status m)"
  "st_LastOperation (man_Status (InitializeStatusConditions lib m)) = st_LastOperation (man_Status m)"
  by (simp_all add: InitializeStatusConditions_def)

text \<open>C38. A Manifest of a module without a default resource that is in state Warning, as after an incomplete render,
  when it is deleted, is never released although all its resources are gone: the list of synced resources is not
  emptied in this state, so the reconciliation ends with the same error and writes nothing to the Manifest, and
  the next one starts where this one did.\<close>

theorem delete_warning_livelock:
  assumes "man_deleted m" and "st_State (man_Status m) = StateWarning" and "st_Synced (man_Status m) \<noteq> []"
    and "msp_Resource (man_Spec m) = None" and "\<not> IsUnmanaged m" and "\<not> notContainsSyncedOCIRefAnnotation m"
    and "\<And>m1. snd (getTargetClient env (m1, s)) = Inr c" and "all_gone c" and "me_orderApply (mc_env env) [] = []"
    and "\<And>m1 h. man_Spec m1 = man_Spec m \<Longrightarrow> snd (GetSpec (mc_env env) m1 h) = Inr sp"
    and "manifest_delete env (m, s) = ((m', s'), r)"
  shows "r = (no_requeue, Some ErrWarningResourceSyncStateDiff) \<and> manifest_writes s' = manifest_writes s"
proof -
  let ?m = "InitializeStatusConditions (me_lib (mc_env env)) m"
  have i: "Initialize (me_lib (mc_env env)) (me_now (mc_env env) s) m = (?m, None)"
    using assms(2) by (simp add: Initialize_def Let_def)
  obtain s2 where t: "getTargetClient env (?m, s) = ((?m, s2), Inr c)"
    using assms(7) [of ?m] getTargetClient_fst [of env "(?m, s)"] by (metis fst_conv prod.exhaust_sel)
  have p: "prepareDeleteReconcile env (man_Status m) (m, s) = Inr (c, (?m, s2))"
    using i t assms(5) by (simp add: prepareDeleteReconcile_def IsUnmanaged_def)
  obtain s3 where g: "GetSpec (mc_env env) ?m s2 = (s3, Inr sp)"
    using assms(10) [of ?m s2] by (cases "GetSpec (mc_env env) ?m s2") simp_all
  have q: "resolveAndTrackSpecForDelete env (man_Status m) (?m, s2) = Inr (sp, (?m, s3))"
    using g assms(6) by (simp add: resolveAndTrackSpecForDelete_def on_mhistory_def notContainsSyncedOCIRefAnnotation_def syncedOCIRef_def)
  have "man_deleted ?m" "msp_Resource (man_Spec ?m) = None" "st_State (man_Status ?m) = StateWarning"
    "st_Synced (man_Status ?m) \<noteq> []" "\<not> HasStatusDiff (man_Status ?m) (man_Status m)"
    using assms(1-4) by (simp_all add: HasStatusDiff_def)
  then obtain s4 where d: "delete_resources env c (man_Status m) sp (?m, s3) = ((?m, s4), no_requeue, Some ErrWarningResourceSyncStateDiff)"
      "manifest_writes s4 = manifest_writes s3"
    using delete_resources_warning [OF assms(8,9)] by blast
  have "manifest_writes s3 = manifest_writes s"
    using GetSpec_writes [of "mc_env env" ?m s2] getTargetClient_writes [of env "(?m, s)"] g t by simp
  then show ?thesis using assms(11) p q d by (simp add: manifest_delete_def)
qed
section \<open>Comparison of resource lists\<close>

lemma fold_insert_ids: "fold (\<lambda>r m. m(Resource_ID r \<mapsto> True)) old m0 i =
    (if i \<in> Resource_ID ` set old then Some True else m0 i)"
  by (induction old arbitrary: m0) auto

lemma fold_seen_ids: "fold (\<lambda>r m. if m (Resource_ID r) = Some True then m(Resource_ID r \<mapsto> False) else m) new m0 i = Some True \<longleftrightarrow>
    m0 i = Some True \<and> i \<notin> Resource_ID ` set new"
  by (induction new arbitrary: m0) auto

text \<open>What the code computes: the lengths differ, or an old identifier is missing from the new list.\<close>

lemma HasDiff_iff: "HasDiff old new \<longleftrightarrow> length old \<noteq> length new \<or> \<not> Resource_ID ` set old \<subseteq> Resource_ID ` set new"
  by (auto simp: HasDiff_def Let_def fold_insert_ids fold_seen_ids list_ex_iff)

lemma subset_card_ids:
  assumes "distinct (map Resource_ID old)" and "distinct (map Resource_ID new)" and "length old = length new"
    and "Resource_ID ` set old \<subseteq> Resource_ID ` set new"
  shows "Resource_ID ` set old = Resource_ID ` set new"
proof (rule card_subset_eq)
  have "card (Resource_ID ` set rs) = length rs" if "distinct (map Resource_ID rs)" for rs
    using distinct_card [OF that] by simp
  then show "card (Resource_ID ` set old) = card (Resource_ID ` set new)" using assms(1-3) by simp
qed (use assms(4) in simp_all)

text \<open>The comparison of the synced resources with the new ones is a comparison of sets: for lists without
  duplicated identifiers it reports a difference exactly if the two sets of identifiers differ.\<close>

theorem HasDiff_sets:
  assumes "distinct (map Resource_ID old)" and "distinct (map Resource_ID new)"
  shows "HasDiff old new \<longleftrightarrow> Resource_ID ` set old \<noteq> Resource_ID ` set new"
proof -
  have "length old = length new" if "Resource_ID ` set old = Resource_ID ` set new"
    using distinct_card [OF assms(1)] distinct_card [OF assms(2)] that by simp
  then show ?thesis using subset_card_ids [OF assms] by (auto simp: HasDiff_iff)
qed

section \<open>Module resources that cannot be listed\<close>

lemma list_mappings_failing: "(\<And>h g. \<exists>e. sc_list c h g = Inl e) \<Longrightarrow> snd (list_mappings c mps s) = []"
proof (induction mps arbitrary: s)
  case (Cons mp mps)
  obtain e where "sc_list c s (fst mp) = Inl e" using Cons.prems by blast
  then show ?case using Cons.IH [OF Cons.prems] by (auto simp: call_def case_prod_beta)
qed simp

text \<open>If the kind of the module resource is known and every request to list the resources of that kind fails, for
  example because access is denied, the deletion takes the module resources for deleted.\<close>

theorem failed_lists_count_as_deleted:
  assumes "\<And>h g. \<exists>e. sc_list c h g = Inl e" and "\<And>h gk. \<exists>mps. sc_mappings c h gk = Inr mps"
  shows "snd (ensureModuleCRsAllDeleted c m s) = Inr True"
proof -
  have list: "\<exists>s'. listResourcesByGroupKindInAllNamespaces c gk s = (s', Inr [])" for gk s
    using assms(2) [of s gk] list_mappings_failing [OF assms(1)]
    by (auto simp: listResourcesByGroupKindInAllNamespaces_def case_prod_beta)
  have all: "\<exists>s'. CheckModuleCRsDeletion c m s = (s', None)"
  proof (cases "msp_Resource (man_Spec m)")
    case (Some d)
    obtain s' where "listResourcesByGroupKindInAllNamespaces c (group_kind d) s = (s', Inr [])" using list by blast
    then show ?thesis using Some
      by (simp add: CheckModuleCRsDeletion_def GetAllModuleCRsExcludingDefaultCR_def filterOutDefaultCRs_def)
  qed (simp add: CheckModuleCRsDeletion_def GetAllModuleCRsExcludingDefaultCR_def)
  have "snd (CheckDefaultCRDeletion c m s') = Inr True" for s'
    using list [of "group_kind (the (msp_Resource (man_Spec m)))" s']
    by (auto simp: CheckDefaultCRDeletion_def noDefaultModuleCRExists_def Let_def)
  then show ?thesis using all by (auto simp: ensureModuleCRsAllDeleted_def)
qed
section \<open>Witnesses\<close>

definition ex_config_map :: Resource where
  "ex_config_map = \<lparr>res_GVK = \<lparr>gvk_Group = [], gvk_Version = ''v1'', gvk_Kind = ''ConfigMap''\<rparr>,
     res_Name = ''settings'', res_Namespace = ''kyma-system''\<rparr>"

definition ex_manifest :: "int option \<Rightarrow> State \<Rightarrow> Resource list \<Rightarrow> Manifest" where
  "ex_manifest deleted state synced =
     \<lparr>man_GVK = \<lparr>gvk_Group = ''operator.kyma-project.io'', gvk_Version = ''v1beta2'', gvk_Kind = ''Manifest''\<rparr>,
      man_Meta = (ex_named ''istio'')\<lparr>om_Labels := [KymaNameLabel \<mapsto> ''kyma'', ModuleNameLabel \<mapsto> ''istio''],
        om_Annotations := [SyncedOCIRefAnnotation \<mapsto> ''sha256:1''], om_Finalizers := [DefaultFinalizer, LabelRemovalFinalizer],
        om_DeletionTimestamp := deleted\<rparr>,
      man_Spec = \<lparr>msp_CustomResourcePolicy = IgnorePolicy, msp_Remote = True, msp_Version = ''1.0.0'', msp_Config = None,
        msp_Install = \<lparr>ii_Source = Some \<lparr>is_Repo = ''repo'', is_Name = ''istio'', is_Ref = ''sha256:2'', is_Type = OciRefType\<rparr>,
          ii_Name = RawManifestLayer\<rparr>, msp_Resource = None, msp_LocalizedImages = [], msp_Manager = None\<rparr>,
      man_Status = \<lparr>st_LastOperation = \<lparr>lo_Operation = [], lo_LastUpdateTime = 0\<rparr>, st_State = state, st_Conditions = [],
        st_Synced = synced\<rparr>\<rparr>"

definition ex_mskr :: mskr where
  "ex_mskr = \<lparr>sc_mappings = (\<lambda>h gk. Inr []), sc_list = (\<lambda>h g. Inl notFoundErr), sc_get = (\<lambda>h u. None), sc_create = (\<lambda>h u. None),
     sc_deleteCR = (\<lambda>h u. None), sc_delete = (\<lambda>h r. Some notFoundErr), sc_apply = (\<lambda>h u. None), sc_labels = (\<lambda>h r. Inl notFoundErr),
     sc_update = (\<lambda>h r l. None), sc_workload = (\<lambda>u. None), sc_pods = (\<lambda>h n. Inr [])\<rparr>"

text \<open>A control plane with one Manifest and an SKR on which every resource is gone; the layer renders to nothing.\<close>

definition ex_mctl :: "Manifest \<Rightarrow> mctl" where
  "ex_mctl m =
     \<lparr>mc_env = \<lparr>me_lib = ref_klib, me_remove = remove_copying, me_getManifest = (\<lambda>h n. Inr m), me_patchStatus = (\<lambda>h m. Inr m),
        me_ssaSpec = (\<lambda>h m. None), me_update = (\<lambda>h m. None), me_delete = (\<lambda>h m. None), me_applyFinalizers = (\<lambda>h n fs. None),
        me_getKyma = (\<lambda>h n. Inr ex_kyma), me_cached = (\<lambda>h k. Some ex_mskr), me_resolveClient = (\<lambda>h m. Inr ex_mskr),
        me_keyChain = (\<lambda>h. None), me_path = (\<lambda>h i. Inr ''manifest.yaml''), me_orderApply = rev, me_orderDelete = rev,
        me_intervals = \<lparr>ri_Success = 60, ri_Busy = 5, ri_Warning = 30, ri_Error = 2, ri_Jitter = None\<rparr>,
        me_rateLimit = (\<lambda>h. 1), me_now = (\<lambda>h. 9), me_created = (\<lambda>m. 0)\<rparr>,
      mc_render = (\<lambda>h c m sp. Inr []), mc_stateCheck = ManagerStateCheck\<rparr>"

lemma ex_mctl_ok:
  "permutes_deletions (mc_env (ex_mctl m))" "mc_stateCheck (ex_mctl m) = ManagerStateCheck" "mc_positive (ex_mctl m)"
  "me_getManifest (mc_env (ex_mctl m)) [] n = Inr m" "me_orderApply (mc_env (ex_mctl m)) [] = []" "all_gone ex_mskr"
  by (simp_all add: ex_mctl_def permutes_deletions_def mc_positive_def intervals_ok_def all_gone_def ex_mskr_def notFoundErr_def
      IsNotFound_def reasonForError_def)

lemma mresult_parts: "r = ((fst (fst r), snd (fst r)), snd r)" for r :: mresult
  by simp

definition ex_installing :: Manifest where "ex_installing = ex_manifest None StateProcessing [ex_config_map]"
definition ex_deleting :: Manifest where "ex_deleting = ex_manifest (Some 1) StateDeleting []"
definition ex_stuck :: Manifest where "ex_stuck = ex_manifest (Some 1) StateWarning [ex_config_map]"

lemma ex_of_kind:
  assumes "list_ex P s" and "\<And>ef. P ef \<Longrightarrow> \<exists>x. ef = C x"
  obtains x where "C x \<in> set s" and "P (C x)"
  using assms by (auto simp: list_ex_iff)

theorem install_deletes_dropped_only_witness:
  "\<exists>x. DeleteResource x \<in> set (snd (fst (manifest_install (ex_mctl ex_installing) (ex_installing, []))))
     \<and> dropped_by_layer (ex_mctl ex_installing) ex_installing x"
proof -
  let ?r = "manifest_install (ex_mctl ex_installing) (ex_installing, [])"
  have "list_ex is_deletion (snd (fst ?r))" by code_simp
  then obtain x where x: "DeleteResource x \<in> set (snd (fst ?r))" by (rule ex_of_kind) (auto elim: is_deletion.elims)
  have "\<not> man_deleted ex_installing" by (simp add: ex_installing_def ex_manifest_def)
  from install_deletes_dropped_only [OF ex_mctl_ok(1,2) this mresult_parts x] x show ?thesis by auto
qed

definition drops_finalizer :: "meffect \<Rightarrow> bool" where
  "drops_finalizer ef = (case ef of UpdateManifestObject x \<Rightarrow> DefaultFinalizer \<notin> set (om_Finalizers (man_Meta x)) | _ \<Rightarrow> False)"

definition ex_tracked :: Manifest where
  "ex_tracked = updateSyncedOCIRefAnnotation ''sha256:2'' ex_deleting"

theorem delete_keeps_finalizer_witness:
  "\<exists>x. UpdateManifestObject x \<in> set (snd (fst (manifest_delete (ex_mctl ex_tracked) (ex_tracked, []))))
     \<and> DefaultFinalizer \<notin> set (om_Finalizers (man_Meta x)) \<and> finalizer_may_go (ex_mctl ex_tracked) ex_tracked []"
proof -
  let ?r = "manifest_delete (ex_mctl ex_tracked) (ex_tracked, [])"
  have "list_ex drops_finalizer (snd (fst ?r))" by code_simp
  then obtain x where x: "UpdateManifestObject x \<in> set (snd (fst ?r))" "drops_finalizer (UpdateManifestObject x)"
    by (rule ex_of_kind) (auto simp: drops_finalizer_def split: meffect.splits)
  have f: "DefaultFinalizer \<in> set (om_Finalizers (man_Meta ex_tracked))"
    by (simp add: ex_tracked_def ex_deleting_def ex_manifest_def)
  have no: "DefaultFinalizer \<notin> set (om_Finalizers (man_Meta x))" using x(2) by (simp add: drops_finalizer_def)
  from delete_keeps_finalizer [OF ex_mctl_ok(1) mresult_parts x(1) _ f no] x(1) no show ?thesis by auto
qed

theorem Manifest_comes_back_witness:
  "0 < RequeueAfter (fst (snd (Manifest_Reconcile (ex_mctl ex_tracked) (''kcp-system'', ''istio''))))"
proof -
  let ?r = "Manifest_Reconcile (ex_mctl ex_tracked) (''kcp-system'', ''istio'')"
  have "snd (snd ?r) = None" by code_simp
  moreover have "?r = (fst ?r, fst (snd ?r), snd (snd ?r))" by (simp only: prod.collapse)
  ultimately show ?thesis using Manifest_comes_back [OF ex_mctl_ok(4,3)] by metis
qed

theorem delete_warning_livelock_witness:
  "snd (manifest_delete (ex_mctl ex_stuck) (ex_stuck, [])) = (no_requeue, Some ErrWarningResourceSyncStateDiff)
   \<and> manifest_writes (snd (fst (manifest_delete (ex_mctl ex_stuck) (ex_stuck, [])))) = []"
proof -
  let ?r = "manifest_delete (ex_mctl ex_stuck) (ex_stuck, [])"
  have c: "snd (getTargetClient (ex_mctl ex_stuck) (m1, [])) = Inr ex_mskr" for m1
    by (simp add: getTargetClient_def ex_mctl_def on_mhistory_def call_def split: prod.split)
  have sp: "snd (GetSpec (mc_env (ex_mctl ex_stuck)) m1 h) =
      Inr \<lparr>sp_ManifestName = RawManifestLayer, sp_Path = ''manifest.yaml'', sp_OCIRef = ''sha256:2''\<rparr>"
    if "man_Spec m1 = man_Spec ex_stuck" for m1 h
    using that by (simp add: GetSpec_def ex_mctl_def ex_stuck_def ex_manifest_def decoded_def call_def Let_def)
  have "man_deleted ex_stuck" "st_State (man_Status ex_stuck) = StateWarning" "st_Synced (man_Status ex_stuck) \<noteq> []"
    "msp_Resource (man_Spec ex_stuck) = None" "\<not> IsUnmanaged ex_stuck" "\<not> notContainsSyncedOCIRefAnnotation ex_stuck"
    by (simp_all add: ex_stuck_def ex_manifest_def IsUnmanaged_def label_get_def notContainsSyncedOCIRefAnnotation_def
        syncedOCIRef_def SyncedOCIRefAnnotation_def UnmanagedAnnotation_def OperatorGroup_def EnableLabelValue_def)
  from delete_warning_livelock [OF this c ex_mctl_ok(6,5) sp mresult_parts] show ?thesis by simp
qed

theorem HasDiff_sets_witness: "HasDiff [ex_config_map] [ex_config_map\<lparr>res_Name := ''other''\<rparr>]"
proof -
  have "Resource_ID ` set [ex_config_map] \<noteq> Resource_ID ` set [ex_config_map\<lparr>res_Name := ''other''\<rparr>]" by code_simp
  then show ?thesis using HasDiff_sets [of "[ex_config_map]" "[ex_config_map\<lparr>res_Name := ''other''\<rparr>]"] by simp
qed

definition ex_denied_mskr :: mskr where
  "ex_denied_mskr = ex_mskr\<lparr>sc_mappings := (\<lambda>h gk. Inr [(\<lparr>gvk_Group = fst gk, gvk_Version = ''v1'', gvk_Kind = snd gk\<rparr>, False)]),
     sc_list := (\<lambda>h g. Inl (Sentinel ''forbidden'' ''forbidden''))\<rparr>"

theorem failed_lists_count_as_deleted_witness: "snd (ensureModuleCRsAllDeleted ex_denied_mskr ex_stuck []) = Inr True"
  by (rule failed_lists_count_as_deleted) (simp_all add: ex_denied_mskr_def)

end
