(* ===== verification/Json.thy ===== *)
theory Json
  imports Prelude "HOL-Library.AList"
begin

text \<open>
  The content of an \<^verbatim>\<open>unstructured.Unstructured\<close>: values of Go's \<^verbatim>\<open>any\<close> as the JSON decoder
  produces them. A \<^verbatim>\<open>map[string]any\<close> is an association list that is read with \<open>map_of\<close> and
  written with \<open>AList.update\<close>. The helpers of the package \<^verbatim>\<open>unstructured\<close> that read and write nested
  fields are library code and parameters; \<open>nested_ok\<close> states what their documentation promises. The
  standard encoding of \<^verbatim>\<open>encoding/base64\<close> is modelled with its decoder.
\<close>

section \<open>Values\<close>

datatype json =
  JNull
| JBool bool
| JInt int
| JFloat string
| JStr string
| JList "json list"
| JObj "(string \<times> json) list"

text \<open>The dynamic type as \<^verbatim>\<open>%T\<close> prints it.\<close>

fun go_type :: "json \<Rightarrow> string" where
  "go_type JNull = ''<nil>''"
| "go_type (JBool b) = ''bool''"
| "go_type (JInt n) = ''int64''"
| "go_type (JFloat s) = ''float64''"
| "go_type (JStr s) = ''string''"
| "go_type (JList xs) = ''[]interface {}''"
| "go_type (JObj kv) = ''map[string]interface {}''"

text \<open>A type assertion to a slice or a map; the failed assertion leaves nil.\<close>

fun as_list :: "json option \<Rightarrow> json list" where
  "as_list (Some (JList xs)) = xs"
| "as_list _ = []"

section \<open>Nested fields\<close>

text \<open>A field that is there, one that is missing, and a path that leads through something else than a map.\<close>

datatype nested = Found json | Missing | Blocked

fun path_get :: "string list \<Rightarrow> json \<Rightarrow> nested" where
  "path_get [] v = Found v"
| "path_get (f # fs) (JObj kv) = (case map_of kv f of None \<Rightarrow> Missing | Some v \<Rightarrow> path_get fs v)"
| "path_get (f # fs) _ = Blocked"

fun path_set :: "string list \<Rightarrow> json \<Rightarrow> json \<Rightarrow> json option" where
  "path_set [] v x = Some v"
| "path_set (f # fs) v (JObj kv) =
     map_option (\<lambda>y. JObj (AList.update f y kv))
       (path_set fs v (case map_of kv f of None \<Rightarrow> JObj [] | Some x \<Rightarrow> x))"
| "path_set (f # fs) v _ = None"

text \<open>
  \<^verbatim>\<open>NestedString\<close>, \<^verbatim>\<open>NestedSlice\<close> and \<^verbatim>\<open>NestedMap\<close> return "false if value is not found and an error if
  not" of the type; \<^verbatim>\<open>SetNestedField\<close> "sets the value of a nested field to a deep copy of the value provided"
  and fails if "one of the nesting levels is not a map"; \<^verbatim>\<open>RemoveNestedField\<close> removes the field.
\<close>

record ulib =
  NestedString :: "json \<Rightarrow> string list \<Rightarrow> goerror + string option"
  NestedSlice :: "json \<Rightarrow> string list \<Rightarrow> goerror + json list option"
  NestedMap :: "json \<Rightarrow> string list \<Rightarrow> goerror + (string \<times> json) list option"
  SetNestedField :: "json \<Rightarrow> json \<Rightarrow> string list \<Rightarrow> goerror + json"
  RemoveNestedField :: "json \<Rightarrow> string \<Rightarrow> json"

definition reads :: "(json \<Rightarrow> string list \<Rightarrow> goerror + 'a option) \<Rightarrow> ('a \<Rightarrow> json) \<Rightarrow> bool" where
  "reads get put \<longleftrightarrow>
     (\<forall>x fs. (\<forall>a. path_get fs x = Found (put a) \<longrightarrow> get x fs = Inr (Some a))
        \<and> (path_get fs x = Missing \<longrightarrow> get x fs = Inr None)
        \<and> (\<forall>a. get x fs = Inr (Some a) \<longrightarrow> path_get fs x = Found (put a)))"

definition nested_ok :: "ulib \<Rightarrow> bool" where
  "nested_ok lib \<longleftrightarrow>
     reads (NestedString lib) JStr \<and> reads (NestedSlice lib) JList \<and> reads (NestedMap lib) JObj
     \<and> (\<forall>x v fs y. path_set fs v x = Some y \<longrightarrow> SetNestedField lib x v fs = Inr y)
     \<and> (\<forall>x v fs. path_set fs v x = None \<longrightarrow> (\<exists>e. SetNestedField lib x v fs = Inl e))
     \<and> (\<forall>kv f. RemoveNestedField lib (JObj kv) f = JObj (AList.delete f kv))"

text \<open>A library that behaves as documented, for evaluation.\<close>

definition typeError :: goerror where
  "typeError = Sentinel ''typeError'' ''accessor error''"

definition ref_read :: "(json \<Rightarrow> 'a option) \<Rightarrow> json \<Rightarrow> string list \<Rightarrow> goerror + 'a option" where
  "ref_read prj x fs =
     (case path_get fs x of
        Found v \<Rightarrow> (case prj v of None \<Rightarrow> Inl typeError | Some a \<Rightarrow> Inr (Some a))
      | Missing \<Rightarrow> Inr None
      | Blocked \<Rightarrow> Inl typeError)"

definition ref_ulib :: ulib where
  "ref_ulib =
     \<lparr>NestedString = ref_read (\<lambda>v. case v of JStr s \<Rightarrow> Some s | _ \<Rightarrow> None),
      NestedSlice = ref_read (\<lambda>v. case v of JList xs \<Rightarrow> Some xs | _ \<Rightarrow> None),
      NestedMap = ref_read (\<lambda>v. case v of JObj kv \<Rightarrow> Some kv | _ \<Rightarrow> None),
      SetNestedField = (\<lambda>x v fs. case path_set fs v x of None \<Rightarrow> Inl typeError | Some y \<Rightarrow> Inr y),
      RemoveNestedField = (\<lambda>x f. case x of JObj kv \<Rightarrow> JObj (AList.delete f kv) | _ \<Rightarrow> x)\<rparr>"

lemma ref_read_reads: "(\<And>v a. prj v = Some a \<longleftrightarrow> v = put a) \<Longrightarrow> reads (ref_read prj) put"
  unfolding reads_def ref_read_def
  by (intro allI conjI impI) (metis nested.simps(8) option.simps(5), simp,
      auto split: nested.splits option.splits)

lemma ref_ulib_ok: "nested_ok ref_ulib"
  unfolding nested_ok_def
  by (intro conjI) (auto simp: ref_ulib_def split: json.splits intro!: ref_read_reads)

lemma path_get_set [simp]: "path_set fs v x = Some y \<Longrightarrow> path_get fs y = Found v"
  by (induction fs v x arbitrary: y rule: path_set.induct) (auto simp: update_conv')

text \<open>Setting one field leaves the fields alone that are reached through another key at the same level.\<close>

lemma path_get_set_other:
  "path_set (ps @ [f]) v x = Some y \<Longrightarrow> f \<noteq> g \<Longrightarrow> path_get (ps @ [g]) x \<noteq> Missing \<Longrightarrow> path_get (ps @ [g]) y = path_get (ps @ [g]) x"
proof (induction ps arbitrary: x y)
  case Nil
  then show ?case by (cases x) (auto simp: update_conv')
next
  case (Cons p ps)
  then show ?case by (cases x) (auto simp: update_conv' split: option.splits)
qed

section \<open>Base64\<close>

definition b64_alphabet :: string where
  "b64_alphabet = ''ABCDEFGHIJKLMNOPQRSTUVWXYZabcdefghijklmnopqrstuvwxyz0123456789+/''"

definition b64_char :: "nat \<Rightarrow> char" where
  "b64_char n = b64_alphabet ! n"

text \<open>\<^verbatim>\<open>base64.StdEncoding.EncodeToString\<close>: groups of three bytes, padded with equals signs.\<close>

fun b64_encode :: "string \<Rightarrow> string" where
  "b64_encode [] = []"
| "b64_encode [a] =
     [b64_char (of_char a div 4), b64_char (of_char a mod 4 * 16), CHR ''='', CHR ''='']"
| "b64_encode [a, b] =
     [b64_char (of_char a div 4), b64_char (of_char a mod 4 * 16 + of_char b div 16),
      b64_char (of_char b mod 16 * 4), CHR ''='']"
| "b64_encode (a # b # c # rest) =
     b64_char (of_char a div 4) # b64_char (of_char a mod 4 * 16 + of_char b div 16)
     # b64_char (of_char b mod 16 * 4 + of_char c div 64) # b64_char (of_char c mod 64) # b64_encode rest"

text \<open>The decoder that a reader of the encoded value applies.\<close>

fun index_of :: "char \<Rightarrow> string \<Rightarrow> nat option" where
  "index_of c [] = None"
| "index_of c (d # ds) = (if c = d then Some 0 else map_option Suc (index_of c ds))"

definition b64_value :: "char \<Rightarrow> nat option" where
  "b64_value c = index_of c b64_alphabet"

fun b64_decode :: "string \<Rightarrow> string option" where
  "b64_decode [] = Some []"
| "b64_decode (w # x # y # z # rest) =
     (case (b64_value w, b64_value x) of
        (Some p, Some q) \<Rightarrow>
          (if y = CHR ''='' then (if z = CHR ''='' \<and> rest = [] then Some [char_of (p * 4 + q div 16)] else None)
           else (case b64_value y of
                   None \<Rightarrow> None
                 | Some r \<Rightarrow>
                     if z = CHR ''=''
                     then (if rest = [] then Some [char_of (p * 4 + q div 16), char_of (q mod 16 * 16 + r div 4)] else None)
                     else (case (b64_value z, b64_decode rest) of
                             (Some s, Some tail) \<Rightarrow>
                               Some (char_of (p * 4 + q div 16) # char_of (q mod 16 * 16 + r div 4)
                                     # char_of (r mod 4 * 64 + s) # tail)
                           | _ \<Rightarrow> None)))
      | _ \<Rightarrow> None)"
| "b64_decode _ = None"

lemma index_of_nth: "distinct xs \<Longrightarrow> n < length xs \<Longrightarrow> index_of (xs ! n) xs = Some n"
proof (induction xs arbitrary: n)
  case (Cons x xs)
  then show ?case by (cases n) auto
qed simp

lemma b64_value_char [simp]: "n < 64 \<Longrightarrow> b64_value (b64_char n) = Some n"
  unfolding b64_value_def b64_char_def by (rule index_of_nth) (simp_all add: b64_alphabet_def)

lemma b64_char_pad [simp]: "n < 64 \<Longrightarrow> b64_char n \<noteq> CHR ''=''"
proof
  assume "n < 64" and "b64_char n = CHR ''=''"
  moreover have "b64_value CHR ''='' = None" by (simp add: b64_value_def b64_alphabet_def)
  ultimately show False using b64_value_char by fastforce
qed

lemma of_char_less: "of_char c < (256 :: nat)"
  by (metis of_char_mod_256 mod_less_divisor zero_less_numeral)

text \<open>The arithmetic of a group: the four indices are in range and determine the three bytes.\<close>

lemma b64_group:
  fixes a b c :: nat
  assumes "a < 256" and "b < 256" and "c < 256"
  shows "a div 4 < 64" and "a mod 4 * 16 + b div 16 < 64" and "b mod 16 * 4 + c div 64 < 64" and "c mod 64 < 64"
    and "a div 4 * 4 + (a mod 4 * 16 + b div 16) div 16 = a"
    and "(a mod 4 * 16 + b div 16) mod 16 * 16 + (b mod 16 * 4 + c div 64) div 4 = b"
    and "(b mod 16 * 4 + c div 64) mod 4 * 64 + c mod 64 = c"
proof -
  have d: "b div 16 < 16" "c div 64 < 4" "a div 4 < 64" using assms by (simp_all add: less_mult_imp_div_less)
  have m: "a mod 4 < 4" "b mod 16 < 16" "c mod 64 < 64" by simp_all
  show "a div 4 < 64" "a mod 4 * 16 + b div 16 < 64" "b mod 16 * 4 + c div 64 < 64" "c mod 64 < 64"
    using d m by linarith+
  show "a div 4 * 4 + (a mod 4 * 16 + b div 16) div 16 = a"
    "(a mod 4 * 16 + b div 16) mod 16 * 16 + (b mod 16 * 4 + c div 64) div 4 = b"
    "(b mod 16 * 4 + c div 64) mod 4 * 64 + c mod 64 = c"
    using d by simp_all
qed

lemma b64_roundtrip: "b64_decode (b64_encode s) = Some s"
proof (induction s rule: b64_encode.induct)
  case (2 a)
  show ?case using b64_group [OF of_char_less [of a], of 0 0] by simp
next
  case (3 a b)
  show ?case using b64_group [OF of_char_less [of a] of_char_less [of b], of 0] by simp
next
  case (4 a b c rest)
  then show ?case using b64_group [OF of_char_less [of a] of_char_less [of b] of_char_less [of c]] by simp
qed simp

end
