(* ===== verification/ImageRewrite.thy ===== *)
theory ImageRewrite
  imports Json
begin

text \<open>
  References of container images and their replacement by localized images in the pod template of a
  workload (\<^verbatim>\<open>internal/imagerewrite\<close>). Parsing a reference is library code
  (\<^verbatim>\<open>distribution/reference\<close>) and a parameter; \<open>references_ok\<close> states the documented grammar of
  references and that the canonical form of a reference parses back to it.
\<close>

section \<open>References\<close>

definition ErrInvalidImageReference :: goerror where
  "ErrInvalidImageReference = Sentinel ''ErrInvalidImageReference'' ''invalid docker image reference''"
definition ErrFindingImageInPodContainer :: goerror where
  "ErrFindingImageInPodContainer = Sentinel ''ErrFindingImageInPodContainer'' ''error finding image in pod container''"
definition ErrFindingEnvVarsInPodContainer :: goerror where
  "ErrFindingEnvVarsInPodContainer = Sentinel ''ErrFindingEnvVarsInPodContainer'' ''error finding env vars in pod container''"
definition ErrUnexpectedEnvVarType :: goerror where
  "ErrUnexpectedEnvVarType = Sentinel ''ErrUnexpectedEnvVarType'' ''unexpected environment variable type''"
definition ErrFailedToSetNewImageInPodContainer :: goerror where
  "ErrFailedToSetNewImageInPodContainer =
     Sentinel ''ErrFailedToSetNewImageInPodContainer'' ''failed to set new image in pod container''"
definition ErrFailedToSetNewEnvListInPodContainer :: goerror where
  "ErrFailedToSetNewEnvListInPodContainer =
     Sentinel ''ErrFailedToSetNewEnvListInPodContainer'' ''failed to set new env list in pod container''"

text \<open>\<^verbatim>\<open>fmt.Errorf("%w: %v", sentinel, err.Error())\<close>: the text of the cause without the cause.\<close>

definition with_cause :: "goerror \<Rightarrow> goerror \<Rightarrow> goerror" where
  "with_cause s e = Errorf [Wrap s, Lit '': '', Lit (error_text e)]"

definition IsSupportedKind :: "string \<Rightarrow> bool" where
  "IsSupportedKind kind = (kind = ''Deployment'' \<or> kind = ''StatefulSet'')"

text \<open>A \<^verbatim>\<open>reference.Named\<close> with what the library reads off it.\<close>

record Named =
  nm_Domain :: string
  nm_Path :: string
  nm_Familiar :: string
  nm_Tag :: "string option"
  nm_Digest :: "string option"

type_synonym ref_parser = "string \<Rightarrow> goerror + Named"

record DockerImageReference =
  dr_NameAndTag :: string
  dr_HostAndPath :: string
  dr_Digest :: string

text \<open>\<^verbatim>\<open>strings.CutLast\<close>: the text around the last separator, if there is one.\<close>

fun cutLast :: "char \<Rightarrow> string \<Rightarrow> (string \<times> string) option" where
  "cutLast c [] = None"
| "cutLast c (x # xs) =
     (case cutLast c xs of
        Some (before, after) \<Rightarrow> Some (x # before, after)
      | None \<Rightarrow> if x = c then Some ([], xs) else None)"

definition extractImageName :: "Named \<Rightarrow> string" where
  "extractImageName n = (case cutLast CHR ''/'' (nm_Familiar n) of Some (before, after) \<Rightarrow> after | None \<Rightarrow> nm_Familiar n)"

definition extractRepositoryPath :: "Named \<Rightarrow> string" where
  "extractRepositoryPath n = (case cutLast CHR ''/'' (nm_Path n) of Some (before, after) \<Rightarrow> before | None \<Rightarrow> [])"

definition buildHostAndPath :: "Named \<Rightarrow> string \<Rightarrow> string" where
  "buildHostAndPath n repoPath =
     (if nm_Domain n = [] then repoPath
      else if repoPath = [] then nm_Domain n
      else nm_Domain n @ ''/'' @ repoPath)"

definition buildNameAndTag :: "Named \<Rightarrow> string \<Rightarrow> string" where
  "buildNameAndTag n imageName = (case nm_Tag n of Some t \<Rightarrow> imageName @ '':'' @ t | None \<Rightarrow> imageName)"

definition extractDigest :: "Named \<Rightarrow> string" where
  "extractDigest n = (case nm_Digest n of Some d \<Rightarrow> d | None \<Rightarrow> [])"

definition NewDockerImageReference :: "ref_parser \<Rightarrow> string \<Rightarrow> goerror + DockerImageReference" where
  "NewDockerImageReference parse val =
     (case parse val of
        Inl e \<Rightarrow> Inl (with_cause ErrInvalidImageReference e)
      | Inr n \<Rightarrow>
          Inr \<lparr>dr_NameAndTag = buildNameAndTag n (extractImageName n),
               dr_HostAndPath = buildHostAndPath n (extractRepositoryPath n), dr_Digest = extractDigest n\<rparr>)"

definition Matches :: "DockerImageReference \<Rightarrow> string \<Rightarrow> bool" where
  "Matches ir other = (dr_NameAndTag ir = other)"

definition ref_String :: "DockerImageReference \<Rightarrow> string" where
  "ref_String ir =
     (if dr_HostAndPath ir \<noteq> [] then dr_HostAndPath ir @ ''/'' else []) @ dr_NameAndTag ir
     @ (if dr_Digest ir \<noteq> [] then ''@'' @ dr_Digest ir else [])"

fun AsImageReferences :: "ref_parser \<Rightarrow> string list \<Rightarrow> goerror + DockerImageReference list" where
  "AsImageReferences parse [] = Inr []"
| "AsImageReferences parse (v # vs) =
     (case NewDockerImageReference parse v of
        Inl e \<Rightarrow> Inl e
      | Inr r \<Rightarrow> (case AsImageReferences parse vs of Inl e \<Rightarrow> Inl e | Inr rs \<Rightarrow> Inr (r # rs)))"

section \<open>Containers\<close>

text \<open>A rewriter returns the changed container.\<close>

type_synonym rewriter = "DockerImageReference list \<Rightarrow> json \<Rightarrow> goerror + json"

definition image_Rewrite :: "ulib \<Rightarrow> ref_parser \<Rightarrow> rewriter" where
  "image_Rewrite lib parse targets c =
     (case NestedString lib c [''image''] of
        Inl e \<Rightarrow> Inl (with_cause ErrFindingImageInPodContainer e)
      | Inr None \<Rightarrow> Inr c
      | Inr (Some v) \<Rightarrow>
          (case NewDockerImageReference parse v of
             Inl e \<Rightarrow> Inl (with_cause ErrInvalidImageReference e)
           | Inr existing \<Rightarrow>
               (case find (\<lambda>t. Matches t (dr_NameAndTag existing)) targets of
                  None \<Rightarrow> Inr c
                | Some t \<Rightarrow>
                    (case SetNestedField lib c (JStr (ref_String t)) [''image''] of
                       Inl e \<Rightarrow> Inl (with_cause ErrFailedToSetNewImageInPodContainer e)
                     | Inr c' \<Rightarrow> Inr c'))))"

definition isImageRefForReplacement :: "ref_parser \<Rightarrow> string \<Rightarrow> string \<Rightarrow> bool" where
  "isImageRefForReplacement parse v nameAndTag =
     (if \<not> containsStr v nameAndTag then False
      else (case NewDockerImageReference parse v of Inl e \<Rightarrow> False | Inr r \<Rightarrow> Matches r nameAndTag))"

definition rewrite_env :: "ref_parser \<Rightarrow> DockerImageReference list \<Rightarrow> json \<Rightarrow> goerror + json" where
  "rewrite_env parse targets entry =
     (case entry of
        JObj kv \<Rightarrow>
          (case map_of kv ''value'' of
             None \<Rightarrow> Inr entry
           | Some (JStr v) \<Rightarrow>
               (case find (\<lambda>t. isImageRefForReplacement parse v (dr_NameAndTag t)) targets of
                  None \<Rightarrow> Inr entry
                | Some t \<Rightarrow> Inr (JObj (AList.update ''value'' (JStr (ref_String t)) kv)))
           | Some x \<Rightarrow> Inl (wrapPost ErrUnexpectedEnvVarType ('': invalid type for value: '' @ go_type x @ '' (expected a string)'')))
      | x \<Rightarrow> Inl (wrapPost ErrUnexpectedEnvVarType ('': '' @ go_type x @ '' (expected map[string]any)'')))"

text \<open>The first error ends a loop.\<close>

fun map_err :: "('a \<Rightarrow> goerror + 'b) \<Rightarrow> 'a list \<Rightarrow> goerror + 'b list" where
  "map_err f [] = Inr []"
| "map_err f (x # xs) =
     (case f x of Inl e \<Rightarrow> Inl e | Inr y \<Rightarrow> (case map_err f xs of Inl e \<Rightarrow> Inl e | Inr ys \<Rightarrow> Inr (y # ys)))"

definition envs_Rewrite :: "ulib \<Rightarrow> ref_parser \<Rightarrow> rewriter" where
  "envs_Rewrite lib parse targets c =
     (case NestedSlice lib c [''env''] of
        Inl e \<Rightarrow> Inl (with_cause ErrFindingEnvVarsInPodContainer e)
      | Inr None \<Rightarrow> Inr c
      | Inr (Some []) \<Rightarrow> Inr c
      | Inr (Some entries) \<Rightarrow>
          (case map_err (rewrite_env parse targets) entries of
             Inl e \<Rightarrow> Inl e
           | Inr entries' \<Rightarrow>
               (case SetNestedField lib c (JList entries') [''env''] of
                  Inl e \<Rightarrow> Inl (with_cause ErrFailedToSetNewEnvListInPodContainer e)
                | Inr c' \<Rightarrow> Inr c')))"

section \<open>Workloads\<close>

definition ErrInvalidContainerType :: goerror where
  "ErrInvalidContainerType = Sentinel ''ErrInvalidContainerType'' ''invalid container type, expected map[string]any''"

definition podContainers :: "string list" where
  "podContainers = [''spec'', ''template'', ''spec'', ''containers'']"
definition podInitContainers :: "string list" where
  "podInitContainers = [''spec'', ''template'', ''spec'', ''initContainers'']"

definition as_container :: "json \<Rightarrow> goerror + json" where
  "as_container x = (case x of JObj kv \<Rightarrow> Inr x | _ \<Rightarrow> Inl (Errorf [Lit (go_type x @ '': ''), Wrap ErrInvalidContainerType]))"

definition getContainersGeneric :: "ulib \<Rightarrow> json \<Rightarrow> string list \<Rightarrow> goerror + json list" where
  "getContainersGeneric lib obj path =
     (case NestedSlice lib obj path of
        Inl e \<Rightarrow> Inl (wrapErr ''failed to get containers: '' e)
      | Inr None \<Rightarrow> Inr []
      | Inr (Some xs) \<Rightarrow> map_err as_container xs)"

definition setContainersGeneric :: "ulib \<Rightarrow> json \<Rightarrow> string list \<Rightarrow> json list \<Rightarrow> goerror + json" where
  "setContainersGeneric lib obj path cs =
     (if cs = [] then Inr obj else SetNestedField lib obj (JList cs) path)"

fun run_rewriters :: "rewriter list \<Rightarrow> rewriter" where
  "run_rewriters [] targets c = Inr c"
| "run_rewriters (r # rs) targets c = (case r targets c of Inl e \<Rightarrow> Inl e | Inr c' \<Rightarrow> run_rewriters rs targets c')"

fun rewrite_all :: "rewriter list \<Rightarrow> DockerImageReference list \<Rightarrow> nat \<Rightarrow> json list \<Rightarrow> goerror + json list" where
  "rewrite_all rs targets i [] = Inr []"
| "rewrite_all rs targets i (c # cs) =
     (case run_rewriters rs targets c of
        Inl e \<Rightarrow> Inl (wrapErr (''failed to rewrite images in container '' @ decimal i @ '': '') e)
      | Inr c' \<Rightarrow> (case rewrite_all rs targets (Suc i) cs of Inl e \<Rightarrow> Inl e | Inr cs' \<Rightarrow> Inr (c' # cs')))"

definition rewriteContainers ::
  "ulib \<Rightarrow> rewriter list \<Rightarrow> string \<Rightarrow> string list \<Rightarrow> DockerImageReference list \<Rightarrow> json \<Rightarrow> goerror + json" where
  "rewriteContainers lib rs what path targets obj =
     (case getContainersGeneric lib obj path of
        Inl e \<Rightarrow> Inl (wrapErr (''failed to get pod '' @ what @ '': '') e)
      | Inr cs \<Rightarrow>
          if cs = [] then Inr obj
          else (case rewrite_all rs targets 0 cs of
                  Inl e \<Rightarrow> Inl e
                | Inr cs' \<Rightarrow>
                    (case setContainersGeneric lib obj path cs' of
                       Inl e \<Rightarrow> Inl (wrapErr (''failed to set pod '' @ what @ '': '') e)
                     | Inr obj' \<Rightarrow> Inr obj')))"

definition ReplaceImages ::
  "ulib \<Rightarrow> rewriter list \<Rightarrow> string \<Rightarrow> DockerImageReference list \<Rightarrow> json \<Rightarrow> goerror + json" where
  "ReplaceImages lib rs kind targets obj =
     (if \<not> IsSupportedKind kind then Inr obj
      else (case rewriteContainers lib rs ''containers'' podContainers targets obj of
              Inl e \<Rightarrow> Inl (wrapErr ''failed to rewrite pod containers: '' e)
            | Inr obj1 \<Rightarrow>
                (case rewriteContainers lib rs ''init containers'' podInitContainers targets obj1 of
                   Inl e \<Rightarrow> Inl (wrapErr ''failed to rewrite pod init containers: '' e)
                 | Inr obj2 \<Rightarrow> Inr obj2)))"

section \<open>References are printed as they are parsed\<close>

lemma cutLast_None: "cutLast c s = None \<longleftrightarrow> c \<notin> set s"
  by (induction s) (auto split: option.splits)

lemma cutLast_append: "c \<notin> set after \<Longrightarrow> cutLast c (before @ c # after) = Some (before, after)"
  by (induction before) (simp_all add: cutLast_None [THEN iffD2])

lemma cutLast_SomeD: "cutLast c s = Some (before, after) \<Longrightarrow> s = before @ c # after \<and> c \<notin> set after"
proof (induction s arbitrary: before)
  case (Cons x xs)
  then show ?case by (cases "cutLast c xs") (auto simp: cutLast_None split: if_splits)
qed simp

lemma cutLast_Some: "cutLast c s = Some (before, after) \<longleftrightarrow> s = before @ c # after \<and> c \<notin> set after"
  using cutLast_append cutLast_SomeD by metis

definition last_part :: "string \<Rightarrow> string" where
  "last_part s = (case cutLast CHR ''/'' s of Some (before, after) \<Rightarrow> after | None \<Rightarrow> s)"

lemma last_part_append: "last_part (d @ CHR ''/'' # p) = last_part p"
proof (cases "cutLast CHR ''/'' p")
  case None
  then have "cutLast CHR ''/'' (d @ CHR ''/'' # p) = Some (d, p)" by (simp add: cutLast_Some cutLast_None)
  then show ?thesis using None by (simp add: last_part_def)
next
  case (Some ba)
  obtain before after where ba: "ba = (before, after)" by fastforce
  then have "cutLast CHR ''/'' (d @ CHR ''/'' # p) = Some (d @ CHR ''/'' # before, after)"
    using Some by (simp add: cutLast_Some)
  then show ?thesis using Some ba by (simp add: last_part_def)
qed

text \<open>The canonical form: domain, path, tag and digest.\<close>

definition reference_string :: "Named \<Rightarrow> string" where
  "reference_string n =
     nm_Domain n @ ''/'' @ nm_Path n @ (case nm_Tag n of Some t \<Rightarrow> '':'' @ t | None \<Rightarrow> [])
     @ (case nm_Digest n of Some d \<Rightarrow> ''@'' @ d | None \<Rightarrow> [])"

text \<open>
  What the library documents: a normalized reference has a domain, the path does not begin with a slash, a digest is not empty, the familiar
  name is the name without the default domain or the default path, and parsing the canonical form of a
  reference gives the reference.
\<close>

definition references_ok :: "ref_parser \<Rightarrow> bool" where
  "references_ok parse \<longleftrightarrow>
     (\<forall>v n. parse v = Inr n \<longrightarrow>
        nm_Domain n \<noteq> [] \<and> nm_Digest n \<noteq> Some [] \<and> \<not> hasPrefix (nm_Path n) ''/''
        \<and> nm_Familiar n \<in> {nm_Domain n @ ''/'' @ nm_Path n, nm_Path n} \<union> {p. nm_Path n = ''library/'' @ p}
        \<and> parse (reference_string n) = Inr n)"

lemma references_okD:
  assumes "references_ok parse" and "parse v = Inr n"
  shows "nm_Domain n \<noteq> []" and "nm_Digest n \<noteq> Some []" and "extractImageName n = last_part (nm_Path n)"
    and "parse (reference_string n) = Inr n" and "\<not> hasPrefix (nm_Path n) ''/''"
proof -
  have f: "nm_Familiar n \<in> {nm_Domain n @ ''/'' @ nm_Path n, nm_Path n} \<union> {p. nm_Path n = ''library/'' @ p}"
    using assms by (simp add: references_ok_def)
  have "last_part (nm_Familiar n) = last_part (nm_Path n)"
    using f last_part_append [of "''library''"] by (auto simp: last_part_append)
  then show "extractImageName n = last_part (nm_Path n)" by (simp add: extractImageName_def last_part_def)
qed (use assms in \<open>simp_all add: references_ok_def\<close>)

lemma path_parts:
  assumes "\<not> hasPrefix (nm_Path n) ''/''"
  shows "(if extractRepositoryPath n = [] then [] else extractRepositoryPath n @ ''/'') @ last_part (nm_Path n) = nm_Path n"
proof (cases "cutLast CHR ''/'' (nm_Path n)")
  case None
  then show ?thesis by (simp add: extractRepositoryPath_def last_part_def)
next
  case (Some ba)
  obtain before after where ba: "ba = (before, after)" by fastforce
  then have p: "nm_Path n = before @ CHR ''/'' # after" using Some cutLast_Some by blast
  moreover have "before \<noteq> []" using assms p by auto
  ultimately show ?thesis using Some ba by (simp add: extractRepositoryPath_def last_part_def)
qed

lemma ref_String_canonical:
  assumes "references_ok parse" and "parse v = Inr n" and "NewDockerImageReference parse v = Inr r"
  shows "ref_String r = reference_string n"
proof -
  note ok = references_okD [OF assms(1,2)]
  have r: "r = \<lparr>dr_NameAndTag = buildNameAndTag n (last_part (nm_Path n)),
      dr_HostAndPath = buildHostAndPath n (extractRepositoryPath n), dr_Digest = extractDigest n\<rparr>"
    using assms(2,3) ok(3) by (simp add: NewDockerImageReference_def)
  have host: "buildHostAndPath n (extractRepositoryPath n) @ ''/'' =
      nm_Domain n @ ''/'' @ (if extractRepositoryPath n = [] then [] else extractRepositoryPath n @ ''/'')"
    using ok(1) by (simp add: buildHostAndPath_def)
  have dig: "(if extractDigest n \<noteq> [] then ''@'' @ extractDigest n else []) =
      (case nm_Digest n of Some d \<Rightarrow> ''@'' @ d | None \<Rightarrow> [])"
    using ok(2) by (cases "nm_Digest n") (simp_all add: extractDigest_def)
  have "buildHostAndPath n (extractRepositoryPath n) \<noteq> []" using ok(1) by (simp add: buildHostAndPath_def)
  then have "ref_String r = (buildHostAndPath n (extractRepositoryPath n) @ ''/'') @ buildNameAndTag n (last_part (nm_Path n))
      @ (if extractDigest n \<noteq> [] then ''@'' @ extractDigest n else [])"
    unfolding r ref_String_def by simp
  also have "\<dots> = nm_Domain n @ ''/'' @ ((if extractRepositoryPath n = [] then [] else extractRepositoryPath n @ ''/'')
      @ last_part (nm_Path n)) @ (case nm_Tag n of Some t \<Rightarrow> '':'' @ t | None \<Rightarrow> [])
      @ (case nm_Digest n of Some d \<Rightarrow> ''@'' @ d | None \<Rightarrow> [])"
    unfolding host dig by (simp add: buildNameAndTag_def split: option.split)
  also have "\<dots> = reference_string n" unfolding path_parts [OF ok(5)] by (simp add: reference_string_def)
  finally show ?thesis .
qed

lemma reference_reparsed:
  assumes "references_ok parse" and "NewDockerImageReference parse v = Inr r"
  shows "NewDockerImageReference parse (ref_String r) = Inr r"
proof -
  obtain n where n: "parse v = Inr n" using assms(2) by (cases "parse v") (simp_all add: NewDockerImageReference_def)
  then have "parse (ref_String r) = Inr n"
    using ref_String_canonical [OF assms(1) n assms(2)] references_okD(4) [OF assms(1) n] by simp
  then show ?thesis using assms(2) n by (simp add: NewDockerImageReference_def)
qed

text \<open>C28. A reference of an image survives printing: what is printed for a parsed reference parses to the same name and
  tag, host and path, and digest, although the host and the path are split at the last slash and the default parts
  are added while parsing.\<close>

theorem image_reference_roundtrip:
  assumes "references_ok parse" and "NewDockerImageReference parse v = Inr r"
  shows "NewDockerImageReference parse (ref_String r) = Inr r"
  by (rule reference_reparsed [OF assms])

section \<open>Replacement of images\<close>

lemma reads_Found: "reads get put \<Longrightarrow> path_get fs x = Found (put a) \<Longrightarrow> get x fs = Inr (Some a)"
  unfolding reads_def by blast

lemma reads_SomeD: "reads get put \<Longrightarrow> get x fs = Inr (Some a) \<Longrightarrow> path_get fs x = Found (put a)"
  unfolding reads_def by blast

lemma nested_okD:
  assumes "nested_ok lib"
  shows "reads (NestedString lib) JStr" and "reads (NestedSlice lib) JList" and "reads (NestedMap lib) JObj"
    and "SetNestedField lib x v fs = Inr y \<Longrightarrow> path_set fs v x = Some y"
proof -
  show "path_set fs v x = Some y" if "SetNestedField lib x v fs = Inr y"
    using assms that unfolding nested_ok_def by (metis Inl_Inr_False not_None_eq sum.inject(2))
qed (use assms in \<open>unfold nested_ok_def, blast+\<close>)

text \<open>Replaced images: an image is the first localized one of the same name and tag, or it stays as it was.\<close>

definition image_replaced :: "ref_parser \<Rightarrow> DockerImageReference list \<Rightarrow> string \<Rightarrow> string \<Rightarrow> bool" where
  "image_replaced parse targets v v' \<longleftrightarrow>
     (\<exists>r. NewDockerImageReference parse v = Inr r \<and>
        (case find (\<lambda>t. Matches t (dr_NameAndTag r)) targets of
           None \<Rightarrow> v' = v
         | Some t \<Rightarrow> NewDockerImageReference parse v' = Inr t \<and> dr_NameAndTag t = dr_NameAndTag r))"

definition container_localized :: "ref_parser \<Rightarrow> DockerImageReference list \<Rightarrow> json \<Rightarrow> json \<Rightarrow> bool" where
  "container_localized parse targets c c' \<longleftrightarrow>
     (\<exists>kv kv'. c = JObj kv \<and> c' = JObj kv' \<and> (\<forall>k. k \<notin> {''image'', ''env''} \<longrightarrow> map_of kv' k = map_of kv k)
        \<and> (\<forall>v. map_of kv ''image'' = Some (JStr v) \<longrightarrow>
             (\<exists>v'. map_of kv' ''image'' = Some (JStr v') \<and> image_replaced parse targets v v')))"

definition printable :: "ref_parser \<Rightarrow> DockerImageReference list \<Rightarrow> bool" where
  "printable parse targets \<longleftrightarrow> (\<forall>t \<in> set targets. NewDockerImageReference parse (ref_String t) = Inr t)"

lemma image_Rewrite_image:
  assumes "nested_ok lib" and "printable parse targets" and "image_Rewrite lib parse targets (JObj kv) = Inr c"
  obtains kv' where "c = JObj kv'" and "\<And>k. k \<noteq> ''image'' \<Longrightarrow> map_of kv' k = map_of kv k"
    and "\<And>v. map_of kv ''image'' = Some (JStr v) \<Longrightarrow>
           \<exists>v'. map_of kv' ''image'' = Some (JStr v') \<and> image_replaced parse targets v v'"
proof (cases "NestedString lib (JObj kv) [''image'']")
  case (Inl e)
  then show thesis using assms(3) by (simp add: image_Rewrite_def)
next
  case (Inr sv)
  show thesis
  proof (cases sv)
    case None
    have "\<nexists>v. map_of kv ''image'' = Some (JStr v)"
      using Inr None reads_Found [OF nested_okD(1) [OF assms(1)], of "[''image'']" "JObj kv"] by auto
    then show thesis using that [of kv] assms(3) Inr None by (simp add: image_Rewrite_def)
  next
    case (Some v)
    have v: "map_of kv ''image'' = Some (JStr v)"
      using reads_SomeD [OF nested_okD(1) [OF assms(1)]] Inr Some by (fastforce split: option.splits)
    obtain r where r: "NewDockerImageReference parse v = Inr r"
      using assms(3) Inr Some by (cases "NewDockerImageReference parse v") (simp_all add: image_Rewrite_def)
    show thesis
    proof (cases "find (\<lambda>t. Matches t (dr_NameAndTag r)) targets")
      case None
      then show thesis using that [of kv] assms(3) Inr Some r v by (simp add: image_Rewrite_def image_replaced_def)
    next
      case (Some t)
      have t: "t \<in> set targets" "dr_NameAndTag t = dr_NameAndTag r"
        using find_Some_in [OF Some] by (simp_all add: Matches_def)
      have "SetNestedField lib (JObj kv) (JStr (ref_String t)) [''image''] = Inr c"
        using assms(3) Inr \<open>sv = Some v\<close> r Some
        by (cases "SetNestedField lib (JObj kv) (JStr (ref_String t)) [''image'']") (simp_all add: image_Rewrite_def)
      then have "c = JObj (AList.update ''image'' (JStr (ref_String t)) kv)"
        using nested_okD(4) [OF assms(1)] by fastforce
      moreover have "image_replaced parse targets v (ref_String t)"
        using r Some t assms(2) by (simp add: image_replaced_def printable_def)
      ultimately show thesis using v that by (auto simp: update_conv')
    qed
  qed
qed

lemma envs_Rewrite_cases:
  assumes "envs_Rewrite lib parse targets c = Inr c'"
  shows "c' = c \<or> (\<exists>entries. SetNestedField lib c (JList entries) [''env''] = Inr c')"
proof (cases "NestedSlice lib c [''env'']")
  case (Inr sxs)
  show ?thesis
  proof (cases "sxs = None \<or> sxs = Some []")
    case False
    then obtain x xs where sxs: "sxs = Some (x # xs)" by (metis list.exhaust option.exhaust)
    obtain entries where "map_err (rewrite_env parse targets) (x # xs) = Inr entries"
      using assms Inr sxs by (cases "map_err (rewrite_env parse targets) (x # xs)") (simp_all add: envs_Rewrite_def)
    then have "SetNestedField lib c (JList entries) [''env''] = Inr c'"
      using assms Inr sxs by (cases "SetNestedField lib c (JList entries) [''env'']") (simp_all add: envs_Rewrite_def)
    then show ?thesis by blast
  qed (use assms Inr in \<open>auto simp: envs_Rewrite_def\<close>)
qed (use assms in \<open>simp add: envs_Rewrite_def\<close>)

lemma envs_Rewrite_fields:
  assumes "nested_ok lib" and "envs_Rewrite lib parse targets (JObj kv) = Inr c"
  obtains kv' where "c = JObj kv'" and "\<And>k. k \<noteq> ''env'' \<Longrightarrow> map_of kv' k = map_of kv k"
proof -
  consider "c = JObj kv" | entries where "SetNestedField lib (JObj kv) (JList entries) [''env''] = Inr c"
    using envs_Rewrite_cases [OF assms(2)] by blast
  then show thesis
  proof cases
    case 2
    then have "c = JObj (AList.update ''env'' (JList entries) kv)" using nested_okD(4) [OF assms(1)] by fastforce
    then show thesis using that by (auto simp: update_conv')
  qed (use that in blast)
qed

definition both_rewriters :: "ulib \<Rightarrow> ref_parser \<Rightarrow> rewriter list" where
  "both_rewriters lib parse = [image_Rewrite lib parse, envs_Rewrite lib parse]"

lemma run_both_localizes:
  assumes "nested_ok lib" and "printable parse targets"
    and "run_rewriters (both_rewriters lib parse) targets (JObj kv) = Inr c"
  shows "container_localized parse targets (JObj kv) c"
proof -
  obtain c1 where c1: "image_Rewrite lib parse targets (JObj kv) = Inr c1" and c: "envs_Rewrite lib parse targets c1 = Inr c"
    using assms(3) by (auto simp: both_rewriters_def split: sum.splits)
  obtain kv1 where kv1: "c1 = JObj kv1" "\<And>k. k \<noteq> ''image'' \<Longrightarrow> map_of kv1 k = map_of kv k"
      "\<And>v. map_of kv ''image'' = Some (JStr v) \<Longrightarrow>
           \<exists>v'. map_of kv1 ''image'' = Some (JStr v') \<and> image_replaced parse targets v v'"
    by (rule image_Rewrite_image [OF assms(1,2) c1]) blast
  obtain kv2 where kv2: "c = JObj kv2" "\<And>k. k \<noteq> ''env'' \<Longrightarrow> map_of kv2 k = map_of kv1 k"
    using envs_Rewrite_fields [OF assms(1)] c kv1(1) by metis
  have "map_of kv2 ''image'' = map_of kv1 ''image''" by (rule kv2(2)) simp
  then show ?thesis using kv1 kv2 unfolding container_localized_def by fastforce
qed

lemma map_err_container: "map_err as_container xs = Inr cs \<Longrightarrow> cs = xs \<and> (\<forall>x \<in> set xs. \<exists>kv. x = JObj kv)"
proof (induction xs arbitrary: cs)
  case (Cons x xs)
  then show ?case by (cases x) (auto simp: as_container_def split: sum.splits)
qed simp

lemma rewrite_all_localizes:
  assumes "nested_ok lib" and "printable parse targets"
  shows "rewrite_all (both_rewriters lib parse) targets i cs = Inr cs' \<Longrightarrow> \<forall>c \<in> set cs. \<exists>kv. c = JObj kv \<Longrightarrow>
    list_all2 (container_localized parse targets) cs cs'"
proof (induction cs arbitrary: i cs')
  case (Cons c cs)
  obtain c1 cs1 where 1: "run_rewriters (both_rewriters lib parse) targets c = Inr c1"
      "rewrite_all (both_rewriters lib parse) targets (Suc i) cs = Inr cs1" "cs' = c1 # cs1"
    using Cons.prems(1) by (auto split: sum.splits)
  then show ?case using Cons.IH Cons.prems(2) run_both_localizes [OF assms] by auto
qed simp

lemma rewriteContainers_localizes:
  assumes "nested_ok lib" and "printable parse targets"
    and "rewriteContainers lib (both_rewriters lib parse) what path targets obj = Inr obj'"
  shows "obj' = obj \<and> path_get path obj \<notin> (\<lambda>cs. Found (JList cs)) ` {cs. cs \<noteq> []}
    \<or> (\<exists>cs cs'. path_get path obj = Found (JList cs) \<and> path_set path (JList cs') obj = Some obj'
        \<and> list_all2 (container_localized parse targets) cs cs')"
proof (cases "NestedSlice lib obj path")
  case (Inr sxs)
  show ?thesis
  proof (cases sxs)
    case None
    then have "path_get path obj \<noteq> Found (JList cs)" for cs
      using Inr reads_Found [OF nested_okD(2) [OF assms(1)], of path obj] by auto
    then show ?thesis using assms(3) Inr None by (auto simp: rewriteContainers_def getContainersGeneric_def)
  next
    case (Some xs)
    have p: "path_get path obj = Found (JList xs)" using reads_SomeD [OF nested_okD(2) [OF assms(1)]] Inr Some by blast
    obtain cs where cs: "map_err as_container xs = Inr cs"
      using assms(3) Inr Some by (auto simp: rewriteContainers_def getContainersGeneric_def split: sum.splits)
    note objs = map_err_container [OF cs]
    show ?thesis
    proof (cases "xs = []")
      case True
      then show ?thesis using assms(3) Inr Some p by (auto simp: rewriteContainers_def getContainersGeneric_def)
    next
      case False
      obtain cs' where cs': "rewrite_all (both_rewriters lib parse) targets 0 xs = Inr cs'"
        using assms(3) Inr Some cs objs False
        by (auto simp: rewriteContainers_def getContainersGeneric_def split: sum.splits)
      have loc: "list_all2 (container_localized parse targets) xs cs'"
        using rewrite_all_localizes [OF assms(1,2) cs'] objs by blast
      then have "cs' \<noteq> []" using False by auto
      then have "SetNestedField lib obj (JList cs') path = Inr obj'"
        using assms(3) Inr Some cs objs False cs'
        by (auto simp: rewriteContainers_def getContainersGeneric_def setContainersGeneric_def split: sum.splits)
      then show ?thesis using nested_okD(4) [OF assms(1)] p loc by blast
    qed
  qed
qed (use assms(3) in \<open>simp add: rewriteContainers_def getContainersGeneric_def\<close>)

lemma AsImageReferences_printable:
  "references_ok parse \<Longrightarrow> AsImageReferences parse imgs = Inr targets \<Longrightarrow> printable parse targets"
  by (induction imgs arbitrary: targets)
    (auto simp: printable_def reference_reparsed split: sum.splits)

lemma other_containers:
  assumes "path_set podContainers v x = Some y" and "path_get podInitContainers x = Found z"
  shows "path_get podInitContainers y = Found z"
  using path_get_set_other [of "[''spec'', ''template'', ''spec'']" "''containers''" v x y "''initContainers''"] assms
  by (simp add: podContainers_def podInitContainers_def)

lemma other_init_containers:
  assumes "path_set podInitContainers v x = Some y" and "path_get podContainers x = Found z"
  shows "path_get podContainers y = Found z"
  using path_get_set_other [of "[''spec'', ''template'', ''spec'']" "''initContainers''" v x y "''containers''"] assms
  by (simp add: podContainers_def podInitContainers_def)

text \<open>C29. Localization of a workload: every container and every init container is still there, in the same order, and
  each of its images is the first localized image with the same name and tag, or is unchanged if there is none; no
  field of a container but the image and the environment changes.\<close>

theorem ReplaceImages_localizes:
  assumes "nested_ok lib" and "references_ok parse" and "AsImageReferences parse imgs = Inr targets"
    and "IsSupportedKind kind" and "ReplaceImages lib (both_rewriters lib parse) kind targets obj = Inr obj'"
    and "path \<in> {podContainers, podInitContainers}" and "path_get path obj = Found (JList cs)"
  shows "\<exists>cs'. path_get path obj' = Found (JList cs') \<and> list_all2 (container_localized parse targets) cs cs'"
proof -
  note pr = AsImageReferences_printable [OF assms(2,3)]
  obtain obj1 where o1: "rewriteContainers lib (both_rewriters lib parse) ''containers'' podContainers targets obj = Inr obj1"
    and o2: "rewriteContainers lib (both_rewriters lib parse) ''init containers'' podInitContainers targets obj1 = Inr obj'"
    using assms(4,5) by (auto simp: ReplaceImages_def split: sum.splits)
  note r1 = rewriteContainers_localizes [OF assms(1) pr o1] and r2 = rewriteContainers_localizes [OF assms(1) pr o2]
  have none: "list_all2 (container_localized parse targets) cs cs" if "cs = []" using that by simp
  show ?thesis
  proof (cases "path = podContainers")
    case True
    have "\<exists>cs'. path_get podContainers obj1 = Found (JList cs') \<and> list_all2 (container_localized parse targets) cs cs'"
      using r1 assms(7) True none path_get_set by (metis (mono_tags, lifting) imageI json.inject(5) mem_Collect_eq nested.inject)
    then show ?thesis using r2 other_init_containers True by metis
  next
    case False
    then have p: "path = podInitContainers" using assms(6) by simp
    then have "path_get podInitContainers obj1 = Found (JList cs)" using r1 assms(7) other_containers by metis
    then show ?thesis using r2 p none path_get_set by (metis (mono_tags, lifting) imageI json.inject(5) mem_Collect_eq nested.inject)
  qed
qed

section \<open>Witnesses\<close>

text \<open>A parser that knows an image of the default registry, in short and in canonical form, and a localized one.\<close>

definition ex_nginx :: Named where
  "ex_nginx = \<lparr>nm_Domain = ''docker.io'', nm_Path = ''library/nginx'', nm_Familiar = ''nginx'', nm_Tag = Some ''1'', nm_Digest = None\<rparr>"

definition ex_local_nginx :: Named where
  "ex_local_nginx = \<lparr>nm_Domain = ''my.io'', nm_Path = ''nginx'', nm_Familiar = ''my.io/nginx'', nm_Tag = Some ''1'', nm_Digest = None\<rparr>"

definition ex_parse :: ref_parser where
  "ex_parse v = (if v = ''nginx:1'' \<or> v = ''docker.io/library/nginx:1'' then Inr ex_nginx
     else if v = ''my.io/nginx:1'' then Inr ex_local_nginx
     else Inl (Sentinel ''ErrReferenceInvalidFormat'' ''invalid reference format''))"

lemma ex_parse_ok: "references_ok ex_parse"
  by (auto simp: references_ok_def ex_parse_def ex_nginx_def ex_local_nginx_def reference_string_def split: if_splits)

definition ex_ref :: DockerImageReference where
  "ex_ref = \<lparr>dr_NameAndTag = ''nginx:1'', dr_HostAndPath = ''docker.io/library'', dr_Digest = []\<rparr>"

theorem image_reference_roundtrip_witness:
  "NewDockerImageReference ex_parse ''docker.io/library/nginx:1'' = Inr ex_ref"
proof -
  have "NewDockerImageReference ex_parse ''nginx:1'' = Inr ex_ref" by code_simp
  from image_reference_roundtrip [OF ex_parse_ok this] show ?thesis by (simp add: ex_ref_def ref_String_def)
qed

definition ex_deployment :: "string \<Rightarrow> json" where
  "ex_deployment img = JObj [(''spec'', JObj [(''template'', JObj [(''spec'',
     JObj [(''containers'', JList [JObj [(''name'', JStr ''web''), (''image'', JStr img)]])])])])]"

definition ex_target :: DockerImageReference where
  "ex_target = \<lparr>dr_NameAndTag = ''nginx:1'', dr_HostAndPath = ''my.io'', dr_Digest = []\<rparr>"

theorem ReplaceImages_localizes_witness:
  "\<exists>cs'. path_get podContainers (ex_deployment ''my.io/nginx:1'') = Found (JList cs')
     \<and> list_all2 (container_localized ex_parse [ex_target]) [JObj [(''name'', JStr ''web''), (''image'', JStr ''nginx:1'')]] cs'"
proof (rule ReplaceImages_localizes [OF ref_ulib_ok ex_parse_ok, of "[''my.io/nginx:1'']"])
  show "AsImageReferences ex_parse [''my.io/nginx:1''] = Inr [ex_target]" by code_simp
  show "IsSupportedKind ''Deployment''" by (simp add: IsSupportedKind_def)
  show "ReplaceImages ref_ulib (both_rewriters ref_ulib ex_parse) ''Deployment'' [ex_target] (ex_deployment ''nginx:1'') =
      Inr (ex_deployment ''my.io/nginx:1'')" by code_simp
qed (simp_all add: ex_deployment_def podContainers_def)

end
