(* ===== verification/Paths.thy ===== *)
theory Paths
  imports Prelude
begin

text \<open>
  The part of \<^verbatim>\<open>path/filepath\<close> that the sources use, on slash-separated paths: \<^verbatim>\<open>Clean\<close>,
  \<^verbatim>\<open>Join\<close> and \<^verbatim>\<open>Dir\<close>. A path is cleaned by walking over its elements with a stack.
\<close>

fun split_slash :: "string \<Rightarrow> string list" where
  "split_slash [] = [[]]"
| "split_slash (c # cs) =
     (if c = CHR ''/'' then [] # split_slash cs
      else (case split_slash cs of [] \<Rightarrow> [[c]] | p # ps \<Rightarrow> (c # p) # ps))"

definition rooted :: "string \<Rightarrow> bool" where
  "rooted p = hasPrefix p ''/''"

text \<open>One element: the empty one and the dot disappear, two dots remove the element before them.\<close>

definition clean_step :: "bool \<Rightarrow> string \<Rightarrow> string list \<Rightarrow> string list" where
  "clean_step root e stack =
     (if e = [] \<or> e = ''.'' then stack
      else if e = ''..''
      then (case stack of
              [] \<Rightarrow> if root then [] else [e]
            | prev # below \<Rightarrow> if prev = ''..'' then e # stack else below)
      else e # stack)"

definition clean_elements :: "bool \<Rightarrow> string list \<Rightarrow> string list" where
  "clean_elements root es = rev (fold (clean_step root) es [])"

definition Clean :: "string \<Rightarrow> string" where
  "Clean p =
     (let out = (if rooted p then ''/'' else []) @ joinWith ''/'' (clean_elements (rooted p) (split_slash p))
      in if out = [] then ''.'' else out)"

definition Join :: "string list \<Rightarrow> string" where
  "Join es = (case filter (\<lambda>e. e \<noteq> []) es of [] \<Rightarrow> [] | fs \<Rightarrow> Clean (joinWith ''/'' fs))"

text \<open>\<^verbatim>\<open>Dir\<close>: all but the last element, cleaned.\<close>

definition Dir :: "string \<Rightarrow> string" where
  "Dir p = Clean (rev (dropWhile (\<lambda>c. c \<noteq> CHR ''/'') (rev p)))"

lemma clean_examples:
  "Clean ''/tmp/a/../b//c/.'' = ''/tmp/b/c''" "Clean ''/../a'' = ''/a''" "Clean ''a/..'' = ''.''" "Clean ''../a'' = ''../a''"
  "Join [''/tmp/a'', ''../b''] = ''/tmp/b''" "Dir ''/tmp/a/b.tar'' = ''/tmp/a''"
  by code_simp+

lemma split_slash_not_Nil [simp]: "split_slash p \<noteq> []"
  by (induction p) (auto split: list.splits)

lemma split_slash_append: "split_slash (p @ CHR ''/'' # q) = split_slash p @ split_slash q"
proof (induction p)
  case (Cons c p)
  obtain x xs where "split_slash p = x # xs" by (meson list.exhaust split_slash_not_Nil)
  then show ?case using Cons by simp
qed simp

text \<open>The walk over the elements of a rooted path never leaves the root: no element of a cleaned one is a double dot.\<close>

lemma clean_step_rooted: "''..'' \<notin> set stack \<Longrightarrow> ''..'' \<notin> set (clean_step True e stack)"
  by (cases stack) (simp_all add: clean_step_def, blast)

lemma clean_rooted: "''..'' \<notin> set stack \<Longrightarrow> ''..'' \<notin> set (fold (clean_step True) es stack)"
  by (induction es arbitrary: stack) (simp_all add: clean_step_rooted)

end
