(* ===== verification/Render.thy ===== *)
theory Render
  imports ImageRewrite Paths ManifestReconcile
begin

text \<open>
  Rendering of the resources of a module (\<^verbatim>\<open>internal/service/manifest/render\<close>): the cached parser of the
  manifest file (\<^verbatim>\<open>internal/service/manifest/parser/cached_manifest_parser.go\<close>, \<^verbatim>\<open>internal/util.go\<close>), the chain
  of transforms, and the namespaces of the result.

  A resource has the fields that the accessors of \<^verbatim>\<open>unstructured.Unstructured\<close> read, and its content without
  kind and metadata. Reading the file, the REST mapper of the SKR and the secrets of the control plane are
  parameters. A transform changes copies of the parsed resources in place; when it fails they are dropped.
\<close>

section \<open>Resources\<close>

record RObject =
  ro_GVK :: GVK
  ro_Name :: string
  ro_Namespace :: string
  ro_Labels :: labels
  ro_Annotations :: labels
  ro_Content :: json

abbreviation ro_Kind :: "RObject \<Rightarrow> string" where
  "ro_Kind r \<equiv> gvk_Kind (ro_GVK r)"

type_synonym transform = "Manifest \<Rightarrow> RObject list \<Rightarrow> goerror + RObject list"

definition getID :: "RObject \<Rightarrow> string" where
  "getID r = joinWith ''/'' [ro_Namespace r, ro_Name r, gvk_Group (ro_GVK r), gvk_Version (ro_GVK r), ro_Kind r]"

section \<open>Parser\<close>

definition manifestFilePrefix :: string where "manifestFilePrefix = ''manifest''"

text \<open>The answer of the resource builder: an error, or an error while the infos are read, or the objects; \<open>None\<close> is
  an object that is not unstructured.\<close>

type_synonym builder = "string \<Rightarrow> goerror + (goerror + RObject option list)"

fun distinct_ids :: "string set \<Rightarrow> RObject option list \<Rightarrow> RObject list" where
  "distinct_ids seen [] = []"
| "distinct_ids seen (None # xs) = distinct_ids seen xs"
| "distinct_ids seen (Some r # xs) =
     (if getID r \<in> seen then distinct_ids seen xs else r # distinct_ids (insert (getID r) seen) xs)"

definition ParseManifestToObjects :: "builder \<Rightarrow> string \<Rightarrow> goerror + RObject list" where
  "ParseManifestToObjects build path =
     (case build path of
        Inl e \<Rightarrow> Inl (wrapErr ''parse manifest: '' e)
      | Inr (Inl e) \<Rightarrow> Inl (wrapErr ''parse manifest to resource infos: '' e)
      | Inr (Inr items) \<Rightarrow> Inr (distinct_ids {} items))"

text \<open>The cache; entries may disappear between two calls when they expire.\<close>

type_synonym parse_cache = "string \<rightharpoonup> RObject list"

definition generateCacheKey :: "Spec \<Rightarrow> string" where
  "generateCacheKey sp = Join [manifestFilePrefix, sp_Path sp, sp_ManifestName sp]"

definition EvictCache :: "Spec \<Rightarrow> parse_cache \<Rightarrow> parse_cache" where
  "EvictCache sp cache = cache(generateCacheKey sp := None)"

definition Parse :: "builder \<Rightarrow> Spec \<Rightarrow> parse_cache \<Rightarrow> parse_cache \<times> (goerror + RObject list)" where
  "Parse build sp cache =
     (let key = generateCacheKey sp in
      case cache key of
        Some rs \<Rightarrow> (cache, Inr rs)
      | None \<Rightarrow>
          (case ParseManifestToObjects build (sp_Path sp) of
             Inl e \<Rightarrow> (cache, Inl (wrapErr ''failed to parse manifest objects: '' e))
           | Inr rs \<Rightarrow> (cache(key \<mapsto> rs), Inr rs)))"

section \<open>Default transforms\<close>

definition DisclaimerAnnotation :: string where
  "DisclaimerAnnotation = OperatorGroup @ ''/managed-by-reconciler-disclaimer''"
definition DisclaimerAnnotationValue :: string where
  "DisclaimerAnnotationValue = ''DO NOT EDIT - This resource is managed by Kyma.'' @ [CHR 0x0A]
     @ ''Any modifications are discarded and the resource is reverted to the original state.''"

definition DisclaimerTransform :: transform where
  "DisclaimerTransform m rs =
     Inr (map (\<lambda>r. r\<lparr>ro_Annotations := (ro_Annotations r)(DisclaimerAnnotation \<mapsto> DisclaimerAnnotationValue)\<rparr>) rs)"

definition localize_resource :: "ulib \<Rightarrow> ref_parser \<Rightarrow> DockerImageReference list \<Rightarrow> RObject \<Rightarrow> goerror + RObject" where
  "localize_resource lib parse targets r =
     (case ReplaceImages lib (both_rewriters lib parse) (ro_Kind r) targets (ro_Content r) of
        Inl e \<Rightarrow> Inl (wrapErr (''failed to rewrite images in resource '' @ ro_Namespace r @ ''/'' @ ro_Name r @ '': '') e)
      | Inr c \<Rightarrow> Inr (r\<lparr>ro_Content := c\<rparr>))"

definition DockerImageLocalizationTransform :: "ulib \<Rightarrow> ref_parser \<Rightarrow> transform" where
  "DockerImageLocalizationTransform lib parse m rs =
     (if msp_LocalizedImages (man_Spec m) = [] then Inr rs
      else (case AsImageReferences parse (msp_LocalizedImages (man_Spec m)) of
              Inl e \<Rightarrow> Inl (wrapErr ''failed to parse localized images: '' e)
            | Inr targets \<Rightarrow> map_err (localize_resource lib parse targets) rs))"

definition ComponentLabel :: string where "ComponentLabel = ''app.kubernetes.io/component''"
definition PartOfLabel :: string where "PartOfLabel = ''app.kubernetes.io/part-of''"

definition KymaComponentTransform :: transform where
  "KymaComponentTransform m rs =
     Inr (map (\<lambda>r. r\<lparr>ro_Labels := MergeMapsSilent (ro_Labels r)
        [(ComponentLabel, man_Name m), (PartOfLabel, ''Kyma'')]\<rparr>) rs)"

definition owner_text :: "Manifest \<Rightarrow> string" where
  "owner_text m = om_Namespace (man_Meta m) @ ''/'' @ man_Name m"

definition ManagedByOwnedBy :: transform where
  "ManagedByOwnedBy m rs =
     Inr (map (\<lambda>r. r\<lparr>ro_Labels := MergeMapsSilent (ro_Labels r) [(ManagedBy, ManagedByLabelValue)],
                     ro_Annotations := MergeMapsSilent (ro_Annotations r) [(OwnedByAnnotation, owner_text m)]\<rparr>) rs)"

definition GetDefaultResourceTransforms :: "ulib \<Rightarrow> ref_parser \<Rightarrow> transform list" where
  "GetDefaultResourceTransforms lib parse =
     [ManagedByOwnedBy, KymaComponentTransform, DisclaimerTransform, DockerImageLocalizationTransform lib parse]"

section \<open>The image pull secret of the SKR\<close>

definition SkrImagePullSecretEnvName :: string where "SkrImagePullSecretEnvName = ''SKR_IMG_PULL_SECRET''"
definition ErrSkrImagePullSecretEnvAlreadyExists :: goerror where
  "ErrSkrImagePullSecretEnvAlreadyExists = Sentinel ''ErrSkrImagePullSecretEnvAlreadyExists''
     (SkrImagePullSecretEnvName @ '' environment variable already exits in raw manifest'')"

definition podSpecPath :: "string list" where "podSpecPath = [''spec'', ''template'', ''spec'']"

definition isWorkloadResource :: "string \<Rightarrow> bool" where
  "isWorkloadResource kind = (kind = ''Deployment'' \<or> kind = ''StatefulSet'')"

text \<open>\<open>None\<close> is the nil map of a resource without a pod template.\<close>

definition getWorkloadPodSpec :: "ulib \<Rightarrow> RObject \<Rightarrow> goerror + (string \<times> json) list option" where
  "getWorkloadPodSpec lib r =
     (case NestedMap lib (ro_Content r) podSpecPath of
        Inl e \<Rightarrow> Inl (wrapErr ''failed to get pod spec: '' e) | Inr kv \<Rightarrow> Inr kv)"

definition setWorkloadPodSpec :: "ulib \<Rightarrow> RObject \<Rightarrow> (string \<times> json) list \<Rightarrow> goerror + RObject" where
  "setWorkloadPodSpec lib r podSpec =
     (case SetNestedField lib (ro_Content r) (JObj podSpec) podSpecPath of
        Inl e \<Rightarrow> Inl (wrapErr ''failed to set pod spec: '' e) | Inr c \<Rightarrow> Inr (r\<lparr>ro_Content := c\<rparr>))"

definition resourceIsManager :: "Manifest \<Rightarrow> RObject \<Rightarrow> bool" where
  "resourceIsManager m r =
     (case msp_Manager (man_Spec m) of
        None \<Rightarrow> True
      | Some mg \<Rightarrow> mgr_Name mg = ro_Name r \<and> mgr_Namespace mg = ro_Namespace r
          \<and> gvk_Group (mgr_GVK mg) = gvk_Group (ro_GVK r) \<and> gvk_Version (mgr_GVK mg) = gvk_Version (ro_GVK r)
          \<and> gvk_Kind (mgr_GVK mg) = ro_Kind r)"

definition patchImagePullSecrets :: "string \<Rightarrow> (string \<times> json) list \<Rightarrow> (string \<times> json) list" where
  "patchImagePullSecrets secretName podSpec =
     AList.update ''imagePullSecrets''
       (JList (as_list (map_of podSpec ''imagePullSecrets'') @ [JObj [(''name'', JStr secretName)]])) podSpec"

definition envNameExists :: "json list \<Rightarrow> string \<Rightarrow> bool" where
  "envNameExists envs nm = list_ex (\<lambda>e. case e of JObj kv \<Rightarrow> map_of kv ''name'' = Some (JStr nm) | _ \<Rightarrow> False) envs"

definition patch_container :: "string \<Rightarrow> json \<Rightarrow> goerror + json" where
  "patch_container secretName c =
     (case c of
        JObj kv \<Rightarrow>
          (let envs = as_list (map_of kv ''env'') in
           if envNameExists envs SkrImagePullSecretEnvName then Inl ErrSkrImagePullSecretEnvAlreadyExists
           else Inr (JObj (AList.update ''env''
                  (JList (envs @ [JObj [(''name'', JStr SkrImagePullSecretEnvName), (''value'', JStr secretName)]])) kv)))
      | x \<Rightarrow> Inr x)"

definition patchEnvInContainers :: "string \<Rightarrow> (string \<times> json) list \<Rightarrow> goerror + (string \<times> json) list" where
  "patchEnvInContainers secretName podSpec =
     (let cs = as_list (map_of podSpec ''containers'') in
      if cs = [] then Inr podSpec
      else (case map_err (patch_container secretName) cs of
              Inl e \<Rightarrow> Inl e
            | Inr cs' \<Rightarrow> Inr (AList.update ''containers'' (JList cs') podSpec)))"

definition pull_secret_resource :: "ulib \<Rightarrow> string \<Rightarrow> Manifest \<Rightarrow> RObject \<Rightarrow> goerror + RObject" where
  "pull_secret_resource lib secretName m r =
     (if \<not> isWorkloadResource (ro_Kind r) then Inr r
      else (case getWorkloadPodSpec lib r of
              Inl e \<Rightarrow> Inl (wrapErr (''failed to get pod spec for resource '' @ ro_Name r @ '': '') e)
            | Inr None \<Rightarrow> Inl nilMapWrite
            | Inr (Some podSpec) \<Rightarrow>
                (let p1 = patchImagePullSecrets secretName podSpec in
                 case (if resourceIsManager m r then patchEnvInContainers secretName p1 else Inr p1) of
                   Inl e \<Rightarrow> Inl (wrapErr (''failed to patch container envs in resource '' @ ro_Name r @ '': '') e)
                 | Inr p2 \<Rightarrow>
                     (case setWorkloadPodSpec lib r p2 of
                        Inl e \<Rightarrow> Inl (wrapErr (''failed to set pod spec for resource '' @ ro_Name r @ '': '') e)
                      | Inr r' \<Rightarrow> Inr r'))))"

definition CreateSkrImagePullSecretTransform :: "ulib \<Rightarrow> string \<Rightarrow> transform" where
  "CreateSkrImagePullSecretTransform lib secretName m rs = map_err (pull_secret_resource lib secretName m) rs"

section \<open>Secrets of the deployer module\<close>

definition DeployerModuleName :: string where "DeployerModuleName = ''deployer''"
definition InjectDataFromKCPAnnotation :: string where
  "InjectDataFromKCPAnnotation = OperatorGroup @ ''/inject-data-from-kcp''"

definition ErrInjectFromKCPSecretMissingModuleLabel :: goerror where
  "ErrInjectFromKCPSecretMissingModuleLabel =
     wrapPost ErrInjectDataFromKCP ('': kcp source secret is missing the required '' @ ModuleNameLabel @ '' label'')"
definition ErrInjectFromKCPSecretModuleLabelMismatch :: goerror where
  "ErrInjectFromKCPSecretModuleLabelMismatch =
     wrapPost ErrInjectDataFromKCP ('': kcp source secret '' @ ModuleNameLabel @ '' label does not match the manifest module'')"

record KcpSecret =
  ks_Name :: string
  ks_Namespace :: string
  ks_Labels :: labels
  ks_Data :: "(string \<times> string) list"

type_synonym secret_repo = "string \<Rightarrow> goerror + KcpSecret"

definition isInjectableSecret :: "RObject \<Rightarrow> bool" where
  "isInjectableSecret r =
     (if ro_Kind r \<noteq> ''Secret'' then False
      else label_get (ro_Annotations r) InjectDataFromKCPAnnotation = EnableLabelValue)"

definition assertSecretBelongsToModule :: "KcpSecret \<Rightarrow> string \<Rightarrow> goerror option" where
  "assertSecretBelongsToModule s moduleName =
     (case ks_Labels s ModuleNameLabel of
        None \<Rightarrow> Some (wrapPost ErrInjectFromKCPSecretMissingModuleLabel ('': secret='' @ ks_Name s))
      | Some src \<Rightarrow>
          if src \<noteq> moduleName
          then Some (wrapPost ErrInjectFromKCPSecretModuleLabelMismatch
                 ('': secret='' @ ks_Name s @ '' expected='' @ moduleName @ '' actual='' @ src))
          else None)"

definition replaceSecretData :: "ulib \<Rightarrow> RObject \<Rightarrow> (string \<times> string) list \<Rightarrow> goerror + RObject" where
  "replaceSecretData lib r dat =
     (let c1 = RemoveNestedField lib (ro_Content r) ''stringData'';
          encoded = map (\<lambda>(k, v). (k, JStr (b64_encode v))) dat in
      case SetNestedField lib c1 (JObj encoded) [''data''] of
        Inl e \<Rightarrow> Inl (Errorf [Wrap ErrInjectDataFromKCP,
                   Lit ('': failed to set .data on secret \"'' @ ro_Name r @ ''\": ''), Wrap e])
      | Inr c2 \<Rightarrow> Inr (r\<lparr>ro_Content := c2\<rparr>))"

definition injectDataFromKCP :: "ulib \<Rightarrow> secret_repo \<Rightarrow> string \<Rightarrow> RObject \<Rightarrow> goerror + RObject" where
  "injectDataFromKCP lib repo moduleName r =
     (case repo (ro_Name r) of
        Inl e \<Rightarrow> Inl (Errorf [Wrap ErrInjectDataFromKCP, Lit ('': failed to fetch kcp secret \"'' @ ro_Name r @ ''\": ''), Wrap e])
      | Inr s \<Rightarrow>
          if ks_Namespace s \<noteq> DefaultControlPlaneNamespace
          then Inl (wrapPost ErrInjectDataFromKCP ('': kcp source secret \"'' @ ks_Name s @ ''\" must be in namespace \"''
                 @ DefaultControlPlaneNamespace @ ''\" (got \"'' @ ks_Namespace s @ ''\")''))
          else (case assertSecretBelongsToModule s moduleName of
                  Some e \<Rightarrow> Inl e
                | None \<Rightarrow> replaceSecretData lib r (ks_Data s)))"

text \<open>The repository may be nil.\<close>

definition CreateDeployerModuleImagePullSecretTransform :: "ulib \<Rightarrow> secret_repo option \<Rightarrow> transform" where
  "CreateDeployerModuleImagePullSecretTransform lib repo m rs =
     (let moduleName = label_get (man_labels m) ModuleNameLabel in
      if moduleName \<noteq> DeployerModuleName then Inr rs
      else (case repo of
              None \<Rightarrow> Inl (wrapPost ErrInjectDataFromKCP '': secret repository is nil'')
            | Some get \<Rightarrow>
                map_err (\<lambda>r. if \<not> isInjectableSecret r then Inr r else injectDataFromKCP lib get moduleName r) rs))"

section \<open>The service\<close>

type_synonym rest_mapper = "GVK \<Rightarrow> goerror + string"   \<comment> \<open>the name of the scope\<close>

definition isNamespaced :: "rest_mapper \<Rightarrow> GVK \<Rightarrow> goerror + bool" where
  "isNamespaced mapper gvk =
     (case mapper gvk of
        Inl e \<Rightarrow> Inl (wrapErr (''failed to get REST mapping for '' @ gvk_Kind gvk @ '': '') e)
      | Inr scope \<Rightarrow> Inr (scope = ''namespace''))"

definition NormaliseNamespace :: "rest_mapper \<Rightarrow> string \<Rightarrow> RObject \<Rightarrow> goerror + RObject" where
  "NormaliseNamespace mapper defaultNamespace r =
     (case isNamespaced mapper (ro_GVK r) of
        Inl e \<Rightarrow> Inl e
      | Inr True \<Rightarrow> Inr (if ro_Namespace r = [] then r\<lparr>ro_Namespace := defaultNamespace\<rparr> else r)
      | Inr False \<Rightarrow> Inr (if ro_Namespace r \<noteq> [] then r\<lparr>ro_Namespace := []\<rparr> else r))"

definition NamespaceDefault :: string where "NamespaceDefault = ''default''"

definition normalise_or_keep :: "rest_mapper \<Rightarrow> RObject \<Rightarrow> goerror + RObject" where
  "normalise_or_keep mapper r =
     (case NormaliseNamespace mapper NamespaceDefault r of
        Inl e \<Rightarrow> if no_match e then Inr r else Inl e
      | Inr r' \<Rightarrow> Inr r')"

fun run_transforms :: "transform list \<Rightarrow> transform" where
  "run_transforms [] m rs = Inr rs"
| "run_transforms (t # ts) m rs = (case t m rs of Inl e \<Rightarrow> Inl e | Inr rs' \<Rightarrow> run_transforms ts m rs')"

definition RenderTargetResources ::
  "builder \<Rightarrow> transform list \<Rightarrow> rest_mapper \<Rightarrow> Manifest \<Rightarrow> Spec \<Rightarrow> parse_cache \<Rightarrow> parse_cache \<times> (goerror + RObject list)" where
  "RenderTargetResources build transforms mapper m sp cache =
     (case Parse build sp cache of
        (cache1, Inl e) \<Rightarrow> (cache1, Inl e)
      | (cache1, Inr items) \<Rightarrow>
          (cache1, (case run_transforms transforms m items of
                      Inl e \<Rightarrow> Inl e
                    | Inr rs \<Rightarrow> map_err (normalise_or_keep mapper) rs)))"

text \<open>The chain that the operator is composed with (\<^verbatim>\<open>cmd/composition/service/manifest/render\<close>).\<close>

definition ComposeRenderService :: "ulib \<Rightarrow> ref_parser \<Rightarrow> string \<Rightarrow> secret_repo option \<Rightarrow> string list \<Rightarrow> transform list" where
  "ComposeRenderService lib parse secretName repo restrictedModules =
     GetDefaultResourceTransforms lib parse
     @ (if secretName \<noteq> [] then [CreateSkrImagePullSecretTransform lib secretName] else [])
     @ (if DeployerModuleName \<in> set restrictedModules then [CreateDeployerModuleImagePullSecretTransform lib repo] else [])"

section \<open>What every rendered resource carries\<close>

lemma map_err_list_all2: "map_err f xs = Inr ys \<Longrightarrow> list_all2 (\<lambda>x y. f x = Inr y) xs ys"
proof (induction xs arbitrary: ys)
  case (Cons x xs)
  then obtain y ys' where "f x = Inr y" "map_err f xs = Inr ys'" "ys = y # ys'" by (auto split: sum.splits)
  then show ?case using Cons.IH by simp
qed simp

lemma map_err_mem: "map_err f xs = Inr ys \<Longrightarrow> y \<in> set ys \<Longrightarrow> \<exists>x \<in> set xs. f x = Inr y"
proof (induction xs arbitrary: ys)
  case (Cons x xs)
  then obtain y' ys' where "f x = Inr y'" "map_err f xs = Inr ys'" "ys = y' # ys'" by (auto split: sum.splits)
  then show ?case using Cons by auto
qed simp

text \<open>The labels and annotations that the default transforms set.\<close>

definition marked :: "Manifest \<Rightarrow> RObject \<Rightarrow> bool" where
  "marked m r \<longleftrightarrow>
     label_get (ro_Labels r) ManagedBy = ManagedByLabelValue
     \<and> label_get (ro_Labels r) ComponentLabel = man_Name m \<and> label_get (ro_Labels r) PartOfLabel = ''Kyma''
     \<and> label_get (ro_Annotations r) OwnedByAnnotation = owner_text m
     \<and> label_get (ro_Annotations r) DisclaimerAnnotation = DisclaimerAnnotationValue"

lemma MergeMapsSilent_get:
  "label_get (MergeMapsSilent m [(k, v)]) k' = (if k' = k then v else label_get m k')"
  "k1 \<noteq> k2 \<Longrightarrow> label_get (MergeMapsSilent m [(k1, v1), (k2, v2)]) k' =
     (if k' = k1 then v1 else if k' = k2 then v2 else label_get m k')"
  by (auto simp: MergeMapsSilent_def MergeMaps_def)

lemma mark_names:
  "ComponentLabel \<noteq> PartOfLabel" "ComponentLabel \<noteq> ManagedBy" "PartOfLabel \<noteq> ManagedBy" "DisclaimerAnnotation \<noteq> OwnedByAnnotation"
  by (simp_all add: ComponentLabel_def PartOfLabel_def ManagedBy_def DisclaimerAnnotation_def OwnedByAnnotation_def OperatorGroup_def
      KymaGroup_def)

lemma default_marks:
  assumes "run_transforms (ManagedByOwnedBy # KymaComponentTransform # DisclaimerTransform # ts) m rs = Inr rs'"
  obtains rs1 where "run_transforms ts m rs1 = Inr rs'" and "\<And>r. r \<in> set rs1 \<Longrightarrow> marked m r"
proof -
  let ?f = "\<lambda>r. r\<lparr>ro_Labels := MergeMapsSilent (ro_Labels r) [(ManagedBy, ManagedByLabelValue)],
      ro_Annotations := MergeMapsSilent (ro_Annotations r) [(OwnedByAnnotation, owner_text m)]\<rparr>"
  let ?g = "\<lambda>r. r\<lparr>ro_Labels := MergeMapsSilent (ro_Labels r) [(ComponentLabel, man_Name m), (PartOfLabel, ''Kyma'')]\<rparr>"
  let ?h = "\<lambda>r. r\<lparr>ro_Annotations := (ro_Annotations r)(DisclaimerAnnotation \<mapsto> DisclaimerAnnotationValue)\<rparr>"
  have run: "run_transforms ts m (map ?h (map ?g (map ?f rs))) = Inr rs'"
    using assms by (simp add: ManagedByOwnedBy_def KymaComponentTransform_def DisclaimerTransform_def)
  have "marked m (?h (?g (?f r)))" for r
    using mark_names by (simp add: marked_def MergeMapsSilent_get)
  then show thesis using that [OF run] by auto
qed

text \<open>The later transforms only change the content.\<close>

definition content_only :: "transform \<Rightarrow> bool" where
  "content_only t \<longleftrightarrow> (\<forall>m rs rs'. t m rs = Inr rs' \<longrightarrow> (\<forall>r' \<in> set rs'. \<exists>r \<in> set rs. \<exists>c. r' = r\<lparr>ro_Content := c\<rparr>))"

lemma content_onlyD: "content_only t \<Longrightarrow> t m rs = Inr rs' \<Longrightarrow> r' \<in> set rs' \<Longrightarrow> \<exists>r \<in> set rs. \<exists>c. r' = r\<lparr>ro_Content := c\<rparr>"
  unfolding content_only_def by blast

lemma ro_same: "\<exists>c. r = r\<lparr>ro_Content := c\<rparr>" for r :: RObject
  by (rule exI [of _ "ro_Content r"]) simp

lemma content_only_each:
  assumes "\<And>m r r'. f m r = Inr r' \<Longrightarrow> \<exists>c. r' = r\<lparr>ro_Content := c\<rparr>"
    and "\<And>m rs rs'. t m rs = Inr rs' \<Longrightarrow> rs' = rs \<or> (\<exists>m'. map_err (f m') rs = Inr rs')"
  shows "content_only t"
  unfolding content_only_def
proof (intro allI impI ballI)
  fix m rs rs' r' assume "t m rs = Inr rs'" and r': "r' \<in> set rs'"
  then consider "rs' = rs" | m' where "map_err (f m') rs = Inr rs'" using assms(2) by blast
  then show "\<exists>r \<in> set rs. \<exists>c. r' = r\<lparr>ro_Content := c\<rparr>"
  proof cases
    case 1 then show ?thesis using r' ro_same by blast
  next
    case 2 then show ?thesis using map_err_mem [OF 2 r'] assms(1) by blast
  qed
qed

lemma localize_content: "localize_resource lib parse targets r = Inr r' \<Longrightarrow> \<exists>c. r' = r\<lparr>ro_Content := c\<rparr>"
  by (auto simp: localize_resource_def split: sum.splits)

lemma Localization_content: "content_only (DockerImageLocalizationTransform lib parse)"
  by (rule content_only_each [OF localize_content])
    (auto simp: DockerImageLocalizationTransform_def split: if_splits sum.splits)

lemma pull_secret_content: "pull_secret_resource lib secretName m r = Inr r' \<Longrightarrow> \<exists>c. r' = r\<lparr>ro_Content := c\<rparr>"
  using ro_same [of r]
  by (auto simp: pull_secret_resource_def setWorkloadPodSpec_def Let_def split: if_splits sum.splits option.splits)

lemma PullSecret_content: "content_only (CreateSkrImagePullSecretTransform lib secretName)"
  by (rule content_only_each [OF pull_secret_content]) (auto simp: CreateSkrImagePullSecretTransform_def)

definition deployer_step :: "ulib \<Rightarrow> secret_repo \<Rightarrow> RObject \<Rightarrow> goerror + RObject" where
  "deployer_step lib get r = (if \<not> isInjectableSecret r then Inr r else injectDataFromKCP lib get DeployerModuleName r)"

lemma deployer_step_content: "deployer_step lib get r = Inr r' \<Longrightarrow> \<exists>c. r' = r\<lparr>ro_Content := c\<rparr>"
  using ro_same [of r]
  by (auto simp: deployer_step_def injectDataFromKCP_def replaceSecretData_def Let_def split: if_splits sum.splits option.splits)

lemma deployer_cases:
  assumes "CreateDeployerModuleImagePullSecretTransform lib repo m rs = Inr rs'"
  shows "rs' = rs \<or> (\<exists>get. label_get (man_labels m) ModuleNameLabel = DeployerModuleName \<and> repo = Some get
    \<and> map_err (deployer_step lib get) rs = Inr rs')"
proof (cases "label_get (man_labels m) ModuleNameLabel = DeployerModuleName")
  case True
  then show ?thesis using assms unfolding CreateDeployerModuleImagePullSecretTransform_def Let_def deployer_step_def [abs_def] True
    by (cases repo) simp_all
qed (use assms in \<open>simp add: CreateDeployerModuleImagePullSecretTransform_def Let_def\<close>)

lemma Deployer_content: "content_only (CreateDeployerModuleImagePullSecretTransform lib repo)"
  by (rule content_only_each [where f = "deployer_step lib"]) (erule deployer_step_content, drule deployer_cases, blast)

lemma run_content_only:
  "(\<And>t. t \<in> set ts \<Longrightarrow> content_only t) \<Longrightarrow> run_transforms ts m rs = Inr rs' \<Longrightarrow> r' \<in> set rs' \<Longrightarrow>
     \<exists>r \<in> set rs. \<exists>c. r' = r\<lparr>ro_Content := c\<rparr>"
proof (induction ts arbitrary: rs)
  case Nil
  then have "r' \<in> set rs" by simp
  then show ?case using ro_same [of r'] by blast
next
  case (Cons t ts)
  then obtain rs1 where t: "t m rs = Inr rs1" "run_transforms ts m rs1 = Inr rs'" by (auto split: sum.splits)
  then obtain r1 c where r1: "r1 \<in> set rs1" "r' = r1\<lparr>ro_Content := c\<rparr>" using Cons by (meson list.set_intros(2))
  then obtain r c1 where "r \<in> set rs" "r1 = r\<lparr>ro_Content := c1\<rparr>"
    using content_onlyD [of t m rs rs1 r1] Cons.prems(1) [of t] t(1) r1(1) by auto
  then show ?case using r1(2) by auto
qed

lemma NormaliseNamespace_scope:
  assumes "normalise_or_keep mapper r = Inr r'"
  shows "\<exists>ns. r' = r\<lparr>ro_Namespace := ns\<rparr>"
    and "mapper (ro_GVK r) = Inr scope \<Longrightarrow> ro_Namespace r' = [] \<longleftrightarrow> scope \<noteq> ''namespace''"
proof -
  have "\<exists>ns. r = r\<lparr>ro_Namespace := ns\<rparr>" by (rule exI [of _ "ro_Namespace r"]) simp
  then show "\<exists>ns. r' = r\<lparr>ro_Namespace := ns\<rparr>"
    using assms by (auto simp: normalise_or_keep_def NormaliseNamespace_def split: sum.splits if_splits bool.splits)
  show "ro_Namespace r' = [] \<longleftrightarrow> scope \<noteq> ''namespace''" if "mapper (ro_GVK r) = Inr scope"
    using assms that
    by (auto simp: normalise_or_keep_def NormaliseNamespace_def isNamespaced_def NamespaceDefault_def split: bool.splits if_splits)
qed


section \<open>Injected secrets\<close>

text \<open>The data that a reader of the secret decodes.\<close>

definition decodes_to :: "json \<Rightarrow> (string \<times> string) list \<Rightarrow> bool" where
  "decodes_to content dat \<longleftrightarrow>
     (\<exists>enc. path_get [''data''] content = Found (JObj enc) \<and> dom (map_of enc) = dom (map_of dat)
        \<and> (\<forall>k v. map_of dat k = Some v \<longrightarrow> (\<exists>t. map_of enc k = Some (JStr t) \<and> b64_decode t = Some v)))"

lemma map_of_encoded: "map_of (map (\<lambda>(k, v). (k, JStr (b64_encode v))) dat) k = map_option (\<lambda>v. JStr (b64_encode v)) (map_of dat k)"
  by (induction dat) auto

lemma replaceSecretData_decodes:
  assumes "nested_ok lib" and "replaceSecretData lib r dat = Inr r'"
  shows "decodes_to (ro_Content r') dat"
proof -
  obtain c2 where c2: "SetNestedField lib (RemoveNestedField lib (ro_Content r) ''stringData'')
      (JObj (map (\<lambda>(k, v). (k, JStr (b64_encode v))) dat)) [''data''] = Inr c2" and r': "r' = r\<lparr>ro_Content := c2\<rparr>"
    using assms(2) by (auto simp: replaceSecretData_def Let_def split: sum.splits)
  have "path_get [''data''] c2 = Found (JObj (map (\<lambda>(k, v). (k, JStr (b64_encode v))) dat))"
    using path_get_set [OF nested_okD(4) [OF assms(1) c2]] .
  then show ?thesis unfolding decodes_to_def r' using b64_roundtrip by (auto simp: map_of_encoded dom_def)
qed

text \<open>The secret may be given to the deployer module.\<close>

definition belongs_to_deployer :: "KcpSecret \<Rightarrow> bool" where
  "belongs_to_deployer s \<longleftrightarrow>
     ks_Namespace s = DefaultControlPlaneNamespace \<and> ks_Labels s ModuleNameLabel = Some DeployerModuleName"

lemma deployer_step_changed:
  assumes "nested_ok lib" and "deployer_step lib get r = Inr r'" and "r' \<noteq> r"
  obtains s where "get (ro_Name r) = Inr s" and "belongs_to_deployer s" and "isInjectableSecret r"
    and "decodes_to (ro_Content r') (ks_Data s)"
proof -
  have inj: "isInjectableSecret r" and "injectDataFromKCP lib get DeployerModuleName r = Inr r'"
    using assms(2,3) by (auto simp: deployer_step_def split: if_splits)
  then obtain s where s: "get (ro_Name r) = Inr s" "ks_Namespace s = DefaultControlPlaneNamespace"
      "assertSecretBelongsToModule s DeployerModuleName = None" "replaceSecretData lib r (ks_Data s) = Inr r'"
    by (auto simp: injectDataFromKCP_def split: sum.splits if_splits option.splits)
  then have "belongs_to_deployer s"
    by (auto simp: belongs_to_deployer_def assertSecretBelongsToModule_def split: option.splits if_splits)
  then show thesis using that s inj replaceSecretData_decodes [OF assms(1)] by blast
qed

text \<open>C22. Data of control plane secrets reaches a module only as intended. If a resource is changed by the injection, the
  Manifest is the one of the deployer module, the resource is a secret with the annotation, and the source is a secret
  of the same name in the namespace of the control plane that is labelled for the deployer module; the values that
  are written decode to the values of the source.\<close>

theorem injected_secrets_safe:
  assumes "nested_ok lib" and "CreateDeployerModuleImagePullSecretTransform lib repo m rs = Inr rs'"
    and "i < length rs" and "rs' ! i \<noteq> rs ! i"
  shows "label_get (man_labels m) ModuleNameLabel = DeployerModuleName \<and> isInjectableSecret (rs ! i)
    \<and> (\<exists>get s. repo = Some get \<and> get (ro_Name (rs ! i)) = Inr s \<and> belongs_to_deployer s
         \<and> decodes_to (ro_Content (rs' ! i)) (ks_Data s))"
proof -
  obtain get where get: "label_get (man_labels m) ModuleNameLabel = DeployerModuleName" "repo = Some get"
      "map_err (deployer_step lib get) rs = Inr rs'"
    using deployer_cases [OF assms(2)] assms(4) by auto
  have "deployer_step lib get (rs ! i) = Inr (rs' ! i)"
    using map_err_list_all2 [OF get(3)] assms(3) by (simp add: list_all2_conv_all_nth)
  then show ?thesis using deployer_step_changed [OF assms(1) _ assms(4)] get(1,2) by metis
qed

section \<open>The image pull secret\<close>

text \<open>A Deployment or StatefulSet whose manifest has no pod template crashes the reconciliation: the transform for the image
  pull secret writes to the nil map that it gets for the missing field.\<close>

theorem pull_secret_panics:
  assumes "nested_ok lib" and "isWorkloadResource (ro_Kind r)" and "path_get podSpecPath (ro_Content r) = Missing"
  shows "CreateSkrImagePullSecretTransform lib secretName m (r # rs) = Inl nilMapWrite"
proof -
  have "NestedMap lib (ro_Content r) podSpecPath = Inr None"
    using nested_okD(3) [OF assms(1)] assms(3) unfolding reads_def by blast
  then show ?thesis
    using assms(2) by (simp add: CreateSkrImagePullSecretTransform_def pull_secret_resource_def getWorkloadPodSpec_def)
qed

definition pull_secrets :: "RObject \<Rightarrow> json list" where
  "pull_secrets r = (case path_get podSpecPath (ro_Content r) of Found (JObj kv) \<Rightarrow> as_list (map_of kv ''imagePullSecrets'') | _ \<Rightarrow> [])"

lemma setWorkloadPodSpec_content:
  "setWorkloadPodSpec lib r p = Inr r' \<Longrightarrow> SetNestedField lib (ro_Content r) (JObj p) podSpecPath = Inr (ro_Content r')"
  by (auto simp: setWorkloadPodSpec_def split: sum.splits)

lemma patchEnv_pull_secrets:
  "patchEnvInContainers secretName kv = Inr kv' \<Longrightarrow> map_of kv' ''imagePullSecrets'' = map_of kv ''imagePullSecrets''"
  by (auto simp: patchEnvInContainers_def Let_def update_conv' split: if_splits sum.splits)

text \<open>With an image pull secret every workload can use it: the transform keeps all resources in their order, and the pod
  template of each Deployment and StatefulSet lists the secret in addition to the ones it listed before; the other
  resources do not change.\<close>

theorem pull_secret_listed:
  assumes "nested_ok lib" and "CreateSkrImagePullSecretTransform lib secretName m rs = Inr rs'" and "i < length rs"
  shows "length rs' = length rs \<and> (if isWorkloadResource (ro_Kind (rs ! i))
      then pull_secrets (rs' ! i) = pull_secrets (rs ! i) @ [JObj [(''name'', JStr secretName)]] else rs' ! i = rs ! i)"
proof -
  have all: "list_all2 (\<lambda>x y. pull_secret_resource lib secretName m x = Inr y) rs rs'"
    using assms(2) by (simp add: CreateSkrImagePullSecretTransform_def map_err_list_all2)
  then have step: "pull_secret_resource lib secretName m (rs ! i) = Inr (rs' ! i)" and len: "length rs' = length rs"
    using assms(3) by (simp_all add: list_all2_conv_all_nth)
  show ?thesis
  proof (cases "isWorkloadResource (ro_Kind (rs ! i))")
    case True
    then obtain kv p2 where kv: "NestedMap lib (ro_Content (rs ! i)) podSpecPath = Inr (Some kv)"
      and p2: "p2 = patchImagePullSecrets secretName kv \<or> patchEnvInContainers secretName (patchImagePullSecrets secretName kv) = Inr p2"
      and set: "setWorkloadPodSpec lib (rs ! i) p2 = Inr (rs' ! i)"
      using step by (auto simp: pull_secret_resource_def getWorkloadPodSpec_def Let_def split: sum.splits option.splits if_splits)
    have "path_get podSpecPath (ro_Content (rs ! i)) = Found (JObj kv)"
      using reads_SomeD [OF nested_okD(3) [OF assms(1)] kv] .
    moreover have "path_get podSpecPath (ro_Content (rs' ! i)) = Found (JObj p2)"
      using path_get_set [OF nested_okD(4) [OF assms(1) setWorkloadPodSpec_content [OF set]]] .
    moreover have "map_of p2 ''imagePullSecrets'' = map_of (patchImagePullSecrets secretName kv) ''imagePullSecrets''"
      using p2 patchEnv_pull_secrets by blast
    ultimately show ?thesis using True len by (simp add: pull_secrets_def patchImagePullSecrets_def update_conv')
  qed (use step len in \<open>simp add: pull_secret_resource_def\<close>)
qed

section \<open>Identifiers\<close>

lemma distinct_ids_spec:
  "distinct (map getID (distinct_ids seen xs)) \<and> getID ` set (distinct_ids seen xs) \<inter> seen = {}"
  by (induction seen xs rule: distinct_ids.induct) auto

definition robject_resource :: "RObject \<Rightarrow> Resource" where
  "robject_resource r = \<lparr>res_GVK = ro_GVK r, res_Name = ro_Name r, res_Namespace = ro_Namespace r\<rparr>"

lemma robject_ID: "Resource_ID (robject_resource r) = getID r"
  by (simp add: robject_resource_def Resource_ID_def getID_def)

text \<open>Two config maps of one manifest file, one with the default namespace and one without a namespace.\<close>

definition ex_object :: "string \<Rightarrow> string \<Rightarrow> RObject" where
  "ex_object ns nm = \<lparr>ro_GVK = \<lparr>gvk_Group = [], gvk_Version = ''v1'', gvk_Kind = ''ConfigMap''\<rparr>, ro_Name = nm, ro_Namespace = ns,
     ro_Labels = Map.empty, ro_Annotations = Map.empty, ro_Content = JObj []\<rparr>"

definition ex_rendered :: "RObject list \<Rightarrow> Resource list" where
  "ex_rendered file =
     (case snd (RenderTargetResources (\<lambda>p. Inr (Inr (map Some file))) [] (\<lambda>g. Inr ''namespace'') (ex_manifest None StateReady [])
        \<lparr>sp_ManifestName = ''raw-manifest'', sp_Path = ''/tmp/m.yaml'', sp_OCIRef = ''sha256:1''\<rparr> Map.empty) of
        Inl e \<Rightarrow> [] | Inr rs \<Rightarrow> map robject_resource rs)"

text \<open>Duplicates are removed before the namespaces are normalised, so a resource that occurs with the default namespace
  and without a namespace is rendered twice, and then the comparison with the next manifest overlooks that one of
  two resources was replaced by another.\<close>

theorem rendered_duplicates_hide_diff:
  "let before = ex_rendered [ex_object ''default'' ''a'', ex_object [] ''a''];
       after = ex_rendered [ex_object ''default'' ''a'', ex_object ''default'' ''b'']
   in map Resource_ID before = [''default/a//v1/ConfigMap'', ''default/a//v1/ConfigMap'']
      \<and> map Resource_ID after = [''default/a//v1/ConfigMap'', ''default/b//v1/ConfigMap''] \<and> \<not> HasDiff before after"
  by code_simp

section \<open>Witnesses\<close>

definition ex_spec :: Spec where
  "ex_spec = \<lparr>sp_ManifestName = ''raw-manifest'', sp_Path = ''/tmp/m.yaml'', sp_OCIRef = ''sha256:1''\<rparr>"

definition ex_render :: "goerror + RObject list" where
  "ex_render = snd (RenderTargetResources (\<lambda>p. Inr (Inr [Some (ex_object [] ''a'')]))
     (ComposeRenderService ref_ulib ex_parse [] None []) (\<lambda>g. Inr ''namespace'') (ex_manifest None StateReady []) ex_spec Map.empty)"

lemma ex_render_names: "(case ex_render of Inl e \<Rightarrow> [] | Inr rs \<Rightarrow> map ro_Namespace rs) = [''default'']"
  by code_simp

lemma rendered_one: "(case r of Inl e \<Rightarrow> [] | Inr rs \<Rightarrow> map f rs) = [x] \<Longrightarrow> \<exists>y. r = Inr [y] \<and> f y = x"
  by (cases r) auto


definition ex_workload :: RObject where
  "ex_workload = (ex_object ''kyma-system'' ''manager'')\<lparr>ro_GVK := \<lparr>gvk_Group = ''apps'', gvk_Version = ''v1'', gvk_Kind = ''Deployment''\<rparr>,
     ro_Content := ex_deployment ''nginx:1''\<rparr>"

theorem pull_secret_listed_witness:
  "\<exists>rs'. CreateSkrImagePullSecretTransform ref_ulib ''pull'' (ex_manifest None StateReady []) [ex_workload] = Inr rs'
     \<and> pull_secrets (rs' ! 0) = [JObj [(''name'', JStr ''pull'')]]"
proof -
  let ?r = "CreateSkrImagePullSecretTransform ref_ulib ''pull'' (ex_manifest None StateReady []) [ex_workload]"
  have "isl ?r = False" by code_simp
  then obtain rs' where r: "?r = Inr rs'" by (cases ?r) auto
  have "isWorkloadResource (ro_Kind ex_workload)" and "pull_secrets ex_workload = []" by code_simp+
  then show ?thesis using pull_secret_listed [OF ref_ulib_ok r, of 0] r by auto
qed

theorem pull_secret_panics_witness:
  "CreateSkrImagePullSecretTransform ref_ulib ''pull'' (ex_manifest None StateReady []) [ex_workload\<lparr>ro_Content := JObj []\<rparr>] = Inl nilMapWrite"
  by (rule pull_secret_panics [OF ref_ulib_ok])
    (simp_all add: ex_workload_def isWorkloadResource_def podSpecPath_def)

definition ex_deployer :: Manifest where
  "ex_deployer = (ex_manifest None StateReady [])\<lparr>man_Meta := (ex_named ''deployer'')\<lparr>om_Labels := [ModuleNameLabel \<mapsto> DeployerModuleName]\<rparr>\<rparr>"

definition ex_secret :: RObject where
  "ex_secret = (ex_object ''kyma-system'' ''pull'')\<lparr>ro_GVK := \<lparr>gvk_Group = [], gvk_Version = ''v1'', gvk_Kind = ''Secret''\<rparr>,
     ro_Annotations := [InjectDataFromKCPAnnotation \<mapsto> EnableLabelValue]\<rparr>"

definition ex_kcp_secret :: KcpSecret where
  "ex_kcp_secret = \<lparr>ks_Name = ''pull'', ks_Namespace = DefaultControlPlaneNamespace, ks_Labels = [ModuleNameLabel \<mapsto> DeployerModuleName],
     ks_Data = [(''token'', ''abc'')]\<rparr>"

definition ex_injected :: "goerror + RObject list" where
  "ex_injected = CreateDeployerModuleImagePullSecretTransform ref_ulib (Some (\<lambda>n. Inr ex_kcp_secret)) ex_deployer [ex_secret]"

theorem injected_secrets_safe_witness: "\<exists>rs'. ex_injected = Inr rs' \<and> decodes_to (ro_Content (rs' ! 0)) [(''token'', ''abc'')]"
proof -
  have c: "(case ex_injected of Inl e \<Rightarrow> [] | Inr rs \<Rightarrow> map ro_Content rs) = [JObj [(''data'', JObj [(''token'', JStr ''YWJj'')])]]"
    by code_simp
  then obtain rs' where rs': "ex_injected = Inr rs'" and ne: "ro_Content (rs' ! 0) = JObj [(''data'', JObj [(''token'', JStr ''YWJj'')])]"
    using rendered_one [OF c] by auto
  have "rs' ! 0 \<noteq> [ex_secret] ! 0" using ne by (auto simp: ex_secret_def ex_object_def)
  from injected_secrets_safe [OF ref_ulib_ok rs' [unfolded ex_injected_def] _ this] rs' show ?thesis
    by (auto simp: ex_kcp_secret_def)
qed

end
