(* ===== verification/LayerFiles.thy ===== *)
theory LayerFiles
  imports Paths ManifestTypes
begin

text \<open>
  The files that hold the installation layers (\<^verbatim>\<open>internal/manifest/img/pathextractor.go\<close>): a layer is pulled once,
  written below the directory for temporary files, and found there by every later reconciliation. The state is the
  content of the files; pulling a layer, reading an archive and the failures of the operating system are parameters.
  The mutex per path makes every operation atomic with respect to the same path (FileMutex).
\<close>

section \<open>Environment\<close>

type_synonym files = "string \<rightharpoonup> string"

text \<open>
  The content of a layer, or why it cannot be read. Copying writes a part of the content and may fail;
  \<open>fx_open\<close> is a failure to open other than that the file does not exist.
\<close>

record layer_env =
  fx_tempDir :: string
  fx_namespace :: string
  fx_open :: "string \<Rightarrow> goerror option"
  fx_pull :: "string \<Rightarrow> bool \<Rightarrow> goerror + (goerror + string)"
  fx_mkdir :: "string \<Rightarrow> goerror option"
  fx_create :: "string \<Rightarrow> goerror option"
  fx_copy :: "string \<Rightarrow> string \<times> goerror option"
  fx_close :: "string \<Rightarrow> goerror option"
  fx_tar :: "string \<Rightarrow> (goerror + bool \<times> string \<times> string) list"

text \<open>What \<^verbatim>\<open>io.Copy\<close> documents: it copies until the end of the source or until an error occurs.\<close>

definition copy_ok :: "layer_env \<Rightarrow> bool" where
  "copy_ok env \<longleftrightarrow> (\<forall>src. snd (fx_copy env src) = None \<longrightarrow> fst (fx_copy env src) = src)"

definition ErrImageLayerPull :: goerror where
  "ErrImageLayerPull = Sentinel ''ErrImageLayerPull'' ''failed to pull layer''"
definition ErrInvalidImageSpecType :: goerror where
  "ErrInvalidImageSpecType = Sentinel ''ErrInvalidImageSpecType''
     (''invalid image spec type provided, only '' @ [CHR 0x27] @ OciRefType @ [CHR 0x27, CHR 0x20, CHR 0x27] @ OciDirType @ [CHR 0x27] @ '' are allowed'')"
definition ErrTaintedArchive :: goerror where
  "ErrTaintedArchive = Sentinel ''ErrTaintedArchive'' ''content filepath tainted''"
definition ErrInvalidArchiveStructure :: goerror where
  "ErrInvalidArchiveStructure =
     Sentinel ''ErrInvalidArchiveStructure'' ''tar archive has invalid structure, expected a single file''"

section \<open>Pulling a layer\<close>

definition getFsChartPath :: "layer_env \<Rightarrow> ImageSpec \<Rightarrow> string" where
  "getFsChartPath env i = Join [fx_tempDir env, is_Name i @ ''-'' @ is_Ref i]"

definition noSchemeURL :: "string \<Rightarrow> string" where
  "noSchemeURL url =
     (if hasPrefix url ''https://'' then drop 8 url else if hasPrefix url ''http://'' then drop 7 url else url)"

text \<open>The cause is printed with the text of the sentinel, which is not wrapped.\<close>

definition pullLayer :: "layer_env \<Rightarrow> string \<Rightarrow> goerror + (goerror + string)" where
  "pullLayer env imageRef =
     (case fx_pull env (noSchemeURL imageRef) (hasPrefix imageRef ''http://'') of
        Inl e \<Rightarrow> Inl (wrapErr (error_text ErrImageLayerPull @ '' due to: '') e)
      | Inr layer \<Rightarrow> Inr layer)"

definition image_ref :: "layer_env \<Rightarrow> ImageSpec \<Rightarrow> string" where
  "image_ref env i = is_Repo i @ ''/'' @ fx_namespace env @ ''/'' @ is_Name i @ ''@'' @ is_Ref i"

definition layer_path :: "layer_env \<Rightarrow> ImageSpec \<Rightarrow> string \<Rightarrow> string" where
  "layer_path env i filename = Join [getFsChartPath env i, filename]"

definition write_layer :: "layer_env \<Rightarrow> string \<Rightarrow> string \<Rightarrow> string \<Rightarrow> files \<Rightarrow> files \<times> (goerror + string)" where
  "write_layer env ref path content fs =
     (case fx_create env path of
        Some e \<Rightarrow> (fs, Inl (wrapErr (''file create failed for layer '' @ ref @ '': '') e))
      | None \<Rightarrow>
          (case fx_copy env content of
             (written, Some e) \<Rightarrow> (fs(path \<mapsto> written), Inl (wrapErr (''file copy storage failed for layer '' @ ref @ '': '') e))
           | (written, None) \<Rightarrow>
               (fs(path \<mapsto> written),
                case fx_close env path of Some e \<Rightarrow> Inl (wrapErr ''failed to close io: '' e) | None \<Rightarrow> Inr path)))"

definition GetPathForFetchedLayer :: "layer_env \<Rightarrow> ImageSpec \<Rightarrow> string \<Rightarrow> files \<Rightarrow> files \<times> (goerror + string)" where
  "GetPathForFetchedLayer env i filename fs =
     (let ref = image_ref env i; installPath = getFsChartPath env i; path = layer_path env i filename in
      case fx_open env path of
        Some e \<Rightarrow> (fs, Inl (wrapErr (''opening dir for installs caused an error '' @ ref @ '': '') e))
      | None \<Rightarrow>
          if fs path \<noteq> None then (fs, Inr path)
          else (case pullLayer env ref of
                  Inl e \<Rightarrow> (fs, Inl e)
                | Inr (Inl e) \<Rightarrow> (fs, Inl (wrapErr (''failed fetching blob for layer '' @ ref @ '': '') e))
                | Inr (Inr content) \<Rightarrow>
                    (case fx_mkdir env installPath of
                       Some e \<Rightarrow> (fs, Inl (wrapErr (''failure while creating installPath directory for layer '' @ ref @ '': '') e))
                     | None \<Rightarrow> write_layer env ref path content fs)))"

section \<open>Archives\<close>

definition sanitizeArchivePath :: "string \<Rightarrow> string \<Rightarrow> goerror + string" where
  "sanitizeArchivePath dir path =
     (let joined = Join [dir, path] in
      if hasPrefix joined (Clean dir) then Inr joined else Inl (wrapPost ErrTaintedArchive ('': '' @ path)))"

text \<open>An entry of an archive: a regular file or not, its name and its content.\<close>

fun extract_entries ::
  "layer_env \<Rightarrow> string \<Rightarrow> (goerror + bool \<times> string \<times> string) list \<Rightarrow> files \<Rightarrow> files \<times> (goerror + string)" where
  "extract_entries env tarPath [] fs = (fs, Inl ErrInvalidArchiveStructure)"
| "extract_entries env tarPath (Inl e # rest) fs = (fs, Inl (wrapErr ''failed to read tar: '' e))"
| "extract_entries env tarPath (Inr (regular, nm, content) # rest) fs =
     (if \<not> regular \<or> hasPrefix nm ''._'' then extract_entries env tarPath rest fs
      else (case sanitizeArchivePath (Dir tarPath) nm of
              Inl e \<Rightarrow> (fs, Inl (wrapErr ''failed to sanitize archive path: '' e))
            | Inr path \<Rightarrow>
                if fs path \<noteq> None then (fs, Inr path)
                else (case fx_create env path of
                        Some e \<Rightarrow> (fs, Inl (wrapErr ''failed to create extracted file: '' e))
                      | None \<Rightarrow>
                          (case fx_copy env content of
                             (written, Some e) \<Rightarrow> (fs(path \<mapsto> written), Inl (wrapErr ''failed to extract from tar: '' e))
                           | (written, None) \<Rightarrow> (fs(path \<mapsto> written), Inr path)))))"

definition notExist :: goerror where
  "notExist = Sentinel ''fs.ErrNotExist'' ''file does not exist''"

definition ExtractLayer :: "layer_env \<Rightarrow> string \<Rightarrow> files \<Rightarrow> files \<times> (goerror + string)" where
  "ExtractLayer env tarPath fs =
     (case fx_open env tarPath of
        Some e \<Rightarrow> (fs, Inl (wrapErr ''failed to open file: '' e))
      | None \<Rightarrow>
          (case fs tarPath of
             None \<Rightarrow> (fs, Inl (wrapErr ''failed to open file: '' notExist))
           | Some archive \<Rightarrow> extract_entries env tarPath (fx_tar env archive) fs))"

definition GetPathFromRawManifest :: "layer_env \<Rightarrow> ImageSpec \<Rightarrow> files \<Rightarrow> files \<times> (goerror + string)" where
  "GetPathFromRawManifest env i fs =
     (if is_Type i = OciRefType then GetPathForFetchedLayer env i (RawManifestLayer @ ''.yaml'') fs
      else if is_Type i = OciDirType
      then (case GetPathForFetchedLayer env i (RawManifestLayer @ ''.tar'') fs of
              (fs1, Inl e) \<Rightarrow> (fs1, Inl e)
            | (fs1, Inr tarFile) \<Rightarrow> ExtractLayer env tarFile fs1)
      else (fs, Inl ErrInvalidImageSpecType))"

section \<open>Complete layers\<close>

text \<open>A layer that was not there before is complete when its path is returned.\<close>

definition layer_content :: "layer_env \<Rightarrow> ImageSpec \<Rightarrow> string option" where
  "layer_content env i = (case pullLayer env (image_ref env i) of Inr (Inr content) \<Rightarrow> Some content | _ \<Rightarrow> None)"

lemma write_layer_result:
  assumes "copy_ok env" and "write_layer env ref path content fs = (fs', Inr p)"
  shows "p = path \<and> fs' = fs(path \<mapsto> content)"
proof (cases "fx_copy env content")
  case (Pair written r)
  then have "r = None \<Longrightarrow> written = content" using assms(1) unfolding copy_ok_def by (metis fst_conv snd_conv)
  then show ?thesis using assms(2) Pair by (auto simp: write_layer_def split: option.splits)
qed

text \<open>A layer that is fetched without an error is complete: if the file did not exist before, it holds the whole content of
  the layer afterwards, no other file changes, and every later call returns the same file and changes nothing.\<close>

theorem fetched_layer_complete:
  assumes "copy_ok env" and "fs (layer_path env i filename) = None"
    and "GetPathForFetchedLayer env i filename fs = (fs', Inr path)"
  shows "path = layer_path env i filename \<and> fs' = fs(path := layer_content env i) \<and> layer_content env i \<noteq> None
    \<and> GetPathForFetchedLayer env i filename fs' = (fs', Inr path)"
proof -
  have o: "fx_open env (layer_path env i filename) = None"
    using assms(3) by (auto simp: GetPathForFetchedLayer_def Let_def split: option.splits)
  obtain content where c: "pullLayer env (image_ref env i) = Inr (Inr content)"
    using assms(2,3) o by (auto simp: GetPathForFetchedLayer_def Let_def split: sum.splits)
  have w: "write_layer env (image_ref env i) (layer_path env i filename) content fs = (fs', Inr path)"
    using assms(2,3) o c by (auto simp: GetPathForFetchedLayer_def Let_def split: option.splits)
  note r = write_layer_result [OF assms(1) w]
  then show ?thesis using c o by (auto simp: layer_content_def GetPathForFetchedLayer_def Let_def)
qed

text \<open>A layer that could not be copied to its end is used nevertheless: the file with the part that was written stays, and
  the next call returns it without pulling the layer again.\<close>

theorem partial_layer_served:
  assumes "fs (layer_path env i filename) = None" and "layer_content env i = Some content"
    and "fx_open env (layer_path env i filename) = None" and "fx_mkdir env (getFsChartPath env i) = None"
    and "fx_create env (layer_path env i filename) = None" and "fx_copy env content = (written, Some e)"
  shows "\<exists>fs' err. GetPathForFetchedLayer env i filename fs = (fs', Inl err)
    \<and> fs' (layer_path env i filename) = Some written
    \<and> GetPathForFetchedLayer env i filename fs' = (fs', Inr (layer_path env i filename))"
  using assms
  by (auto simp: GetPathForFetchedLayer_def write_layer_def layer_content_def Let_def split: sum.splits)

text \<open>The check of archive paths compares prefixes of strings, not directories: a name that leads to a neighbour whose name
  begins with the name of the directory is accepted and leaves the directory.\<close>

theorem archive_path_escapes:
  "sanitizeArchivePath ''/tmp/istio-sha256:1'' ''../istio-sha256:12/raw-manifest.yaml'' = Inr ''/tmp/istio-sha256:12/raw-manifest.yaml''
   \<and> (\<exists>e. sanitizeArchivePath ''/tmp/istio-sha256:1'' ''../btp/raw-manifest.yaml'' = Inl e)"
  by (rule conjI, code_simp, rule exI, code_simp)

section \<open>Witnesses\<close>

definition ex_image :: ImageSpec where
  "ex_image = \<lparr>is_Repo = ''https://registry'', is_Name = ''istio'', is_Ref = ''sha256:1'', is_Type = OciRefType\<rparr>"

definition ex_layer_env :: layer_env where
  "ex_layer_env = \<lparr>fx_tempDir = ''/tmp'', fx_namespace = ''component-descriptors'', fx_open = (\<lambda>p. None),
     fx_pull = (\<lambda>ref insecure. Inr (Inr ''kind: Deployment'')), fx_mkdir = (\<lambda>p. None), fx_create = (\<lambda>p. None),
     fx_copy = (\<lambda>s. (s, None)), fx_close = (\<lambda>p. None), fx_tar = (\<lambda>s. [])\<rparr>"

theorem fetched_layer_complete_witness:
  "fst (GetPathForFetchedLayer ex_layer_env ex_image ''raw-manifest.yaml'' Map.empty) ''/tmp/istio-sha256:1/raw-manifest.yaml''
     = Some ''kind: Deployment''"
proof -
  let ?r = "GetPathForFetchedLayer ex_layer_env ex_image ''raw-manifest.yaml'' Map.empty"
  have "snd ?r = Inr ''/tmp/istio-sha256:1/raw-manifest.yaml''" and c: "layer_content ex_layer_env ex_image = Some ''kind: Deployment''"
    by code_simp+
  then have "?r = (fst ?r, Inr ''/tmp/istio-sha256:1/raw-manifest.yaml'')" by (metis prod.collapse)
  from fetched_layer_complete [OF _ _ this] c show ?thesis by (simp add: copy_ok_def ex_layer_env_def)
qed

definition ex_full_disk :: layer_env where
  "ex_full_disk = ex_layer_env\<lparr>fx_copy := (\<lambda>s. (take 5 s, Some (Sentinel ''ENOSPC'' ''no space left on device'')))\<rparr>"

theorem partial_layer_served_witness:
  "\<exists>fs'. fs' ''/tmp/istio-sha256:1/raw-manifest.yaml'' = Some ''kind:''
     \<and> GetPathForFetchedLayer ex_full_disk ex_image ''raw-manifest.yaml'' fs' = (fs', Inr ''/tmp/istio-sha256:1/raw-manifest.yaml'')"
proof -
  have p: "layer_path ex_full_disk ex_image ''raw-manifest.yaml'' = ''/tmp/istio-sha256:1/raw-manifest.yaml''"
    and c: "layer_content ex_full_disk ex_image = Some ''kind: Deployment''"
    and w: "fx_copy ex_full_disk ''kind: Deployment'' = (''kind:'', Some (Sentinel ''ENOSPC'' ''no space left on device''))"
    by code_simp+
  have ok: "fx_open ex_full_disk q = None" "fx_mkdir ex_full_disk q = None" "fx_create ex_full_disk q = None" for q
    by (simp_all add: ex_full_disk_def ex_layer_env_def)
  from partial_layer_served [OF _ c ok w, of Map.empty "''raw-manifest.yaml''"] p show ?thesis by auto
qed

end
