(* ===== verification/MandatoryModules.thy ===== *)
theory MandatoryModules
  imports ModuleSync KymaDeletion
begin

text \<open>
  Mandatory modules: modules whose ModuleReleaseMeta has \<^verbatim>\<open>spec.mandatory\<close> are installed for every Kyma
  (\<^verbatim>\<open>internal/service/mandatorymodule/installation\<close>), and removed from all of them when the
  ModuleReleaseMeta is deleted (\<^verbatim>\<open>internal/service/mandatorymodule/deletion\<close>, four use cases of which
  every reconciliation executes the first that is applicable), with the repositories and the two controllers.

  The control plane is a state of an arbitrary type \<open>'w\<close> and a record of the calls of its client;
  \<open>faithful\<close> relates it to a cluster of ModuleReleaseMetas and Manifests and says what the API server documents:
  a read that succeeds answers what is stored, a write that succeeds is carried out, one that fails is not.
\<close>

section \<open>Client and repositories\<close>

record 'w mclient =
  mc_getMrm :: "'w \<Rightarrow> string \<Rightarrow> string \<Rightarrow> goerror + ModuleReleaseMeta"
  mc_listMrms :: "'w \<Rightarrow> string \<Rightarrow> string \<Rightarrow> goerror + ModuleReleaseMeta list"
  mc_updateMrm :: "ModuleReleaseMeta \<Rightarrow> 'w \<Rightarrow> 'w \<times> goerror option"
  mc_getTemplate :: "'w \<Rightarrow> string \<Rightarrow> string \<Rightarrow> goerror + ModuleTemplate"
  mc_listManifests :: "'w \<Rightarrow> string \<Rightarrow> string \<Rightarrow> goerror + Manifest list"
  mc_deleteAllManifests :: "string \<Rightarrow> string \<Rightarrow> 'w \<Rightarrow> 'w \<times> goerror option"

abbreviation mrm_Name :: "ModuleReleaseMeta \<Rightarrow> string" where
  "mrm_Name m \<equiv> om_Name (mrm_Meta m)"

abbreviation mrm_deleting :: "ModuleReleaseMeta \<Rightarrow> bool" where
  "mrm_deleting m \<equiv> om_DeletionTimestamp (mrm_Meta m) \<noteq> None"

text \<open>The values under which a ModuleReleaseMeta is found by the field index of the manager.\<close>

definition MrmMandatoryModulePositiveValue :: string where "MrmMandatoryModulePositiveValue = ''true''"
definition MrmMandatoryModuleNegativeValue :: string where "MrmMandatoryModuleNegativeValue = ''false''"

definition mandatory_index :: "ModuleReleaseMeta \<Rightarrow> string list" where
  "mandatory_index m =
     (if mrm_Mandatory m \<noteq> None then [MrmMandatoryModulePositiveValue] else [MrmMandatoryModuleNegativeValue])"

definition isMandatoryMrm :: "ModuleReleaseMeta \<Rightarrow> bool" where
  "isMandatoryMrm m = (mrm_Mandatory m \<noteq> None)"

definition set_mrm_finalizers :: "string list \<Rightarrow> ModuleReleaseMeta \<Rightarrow> ModuleReleaseMeta" where
  "set_mrm_finalizers fs m = m\<lparr>mrm_Meta := (mrm_Meta m)\<lparr>om_Finalizers := fs\<rparr>\<rparr>"

definition mrmRepo_Get :: "'w mclient \<Rightarrow> string \<Rightarrow> 'w \<Rightarrow> string \<Rightarrow> goerror + ModuleReleaseMeta" where
  "mrmRepo_Get c ns w name =
     (case mc_getMrm c w name ns of
        Inl e \<Rightarrow> Inl (wrapErr (''failed to get ModuleReleaseMeta '' @ name @ '' in namespace '' @ ns @ '': '') e)
      | Inr m \<Rightarrow> Inr m)"

definition mrmRepo_EnsureFinalizer ::
  "'w mclient \<Rightarrow> klib \<Rightarrow> string \<Rightarrow> string \<Rightarrow> string \<Rightarrow> 'w \<Rightarrow> 'w \<times> goerror option" where
  "mrmRepo_EnsureFinalizer c lib ns name finalizer w =
     (case mrmRepo_Get c ns w name of
        Inl e \<Rightarrow> (w, Some e)
      | Inr m \<Rightarrow>
          (case AddFinalizer lib (om_Finalizers (mrm_Meta m)) finalizer of
             (fs, updated) \<Rightarrow>
               if \<not> updated then (w, None)
               else (case mc_updateMrm c (set_mrm_finalizers fs m) w of
                       (w', Some e) \<Rightarrow> (w', Some (wrapErr (''failed to add finalizer to ModuleReleaseMeta '' @ name @ '': '') e))
                     | (w', None) \<Rightarrow> (w', None))))"

definition mrmRepo_RemoveFinalizer ::
  "'w mclient \<Rightarrow> klib \<Rightarrow> string \<Rightarrow> string \<Rightarrow> string \<Rightarrow> 'w \<Rightarrow> 'w \<times> goerror option" where
  "mrmRepo_RemoveFinalizer c lib ns name finalizer w =
     (case mrmRepo_Get c ns w name of
        Inl e \<Rightarrow> (w, Some e)
      | Inr m \<Rightarrow>
          (case RemoveFinalizer lib (om_Finalizers (mrm_Meta m)) finalizer of
             (fs, updated) \<Rightarrow>
               if \<not> updated then (w, None)
               else (case mc_updateMrm c (set_mrm_finalizers fs m) w of
                       (w', Some e) \<Rightarrow> (w', Some (wrapErr (''failed to remove finalizer from ModuleReleaseMeta '' @ name @ '': '') e))
                     | (w', None) \<Rightarrow> (w', None))))"

definition mrmRepo_Exists :: "'w mclient \<Rightarrow> string \<Rightarrow> 'w \<Rightarrow> string \<Rightarrow> goerror + bool" where
  "mrmRepo_Exists c ns w name =
     (case mrmRepo_Get c ns w name of
        Inl e \<Rightarrow>
          if client_IgnoreNotFound e = None then Inr False
          else Inl (wrapErr (''failed to check existence of ModuleReleaseMeta '' @ name @ '' in namespace '' @ ns @ '': '') e)
      | Inr m \<Rightarrow> Inr True)"

definition ListMandatory :: "'w mclient \<Rightarrow> string \<Rightarrow> 'w \<Rightarrow> goerror + ModuleReleaseMeta list" where
  "ListMandatory c ns w =
     (case mc_listMrms c w ns MrmMandatoryModulePositiveValue of
        Inl e \<Rightarrow> Inl (wrapErr (''failed to list mandatory ModuleReleaseMeta in namespace '' @ ns @ '': '') e)
      | Inr ms \<Rightarrow> Inr ms)"

definition GetSpecificVersionForModule :: "'w mclient \<Rightarrow> string \<Rightarrow> 'w \<Rightarrow> string \<Rightarrow> string \<Rightarrow> goerror + ModuleTemplate" where
  "GetSpecificVersionForModule c ns w moduleName version =
     (case mc_getTemplate c w (CreateModuleTemplateName moduleName version) ns of
        Inl e \<Rightarrow> Inl (wrapErr (''failed to get ModuleTemplate for module '' @ moduleName @ '': '') e)
      | Inr t \<Rightarrow> Inr t)"

definition DeleteAllForModule :: "'w mclient \<Rightarrow> string \<Rightarrow> string \<Rightarrow> 'w \<Rightarrow> 'w \<times> goerror option" where
  "DeleteAllForModule c ns moduleName w =
     (case mc_deleteAllManifests c ns moduleName w of
        (w', Some e) \<Rightarrow> (w', Some (wrapErr (''failed to delete all manifests for module '' @ moduleName @ '': '') e))
      | (w', None) \<Rightarrow> (w', None))"

definition ListAllForModule :: "'w mclient \<Rightarrow> string \<Rightarrow> 'w \<Rightarrow> string \<Rightarrow> goerror + Manifest list" where
  "ListAllForModule c ns w moduleName =
     (case mc_listManifests c w ns moduleName of
        Inl e \<Rightarrow> Inl (wrapErr (''failed to list Manifests for module '' @ moduleName @ '': '') e)
      | Inr ms \<Rightarrow> Inr ms)"

section \<open>Deletion\<close>

definition ErrMrmNotInDeletingState :: goerror where
  "ErrMrmNotInDeletingState = Sentinel ''ErrMrmNotInDeletingState'' ''ModuleReleaseMeta not in deleting state''"

record 'w mrm_use_case =
  mu_IsApplicable :: "ModuleReleaseMeta \<Rightarrow> 'w \<Rightarrow> goerror + bool"
  mu_Execute :: "ModuleReleaseMeta \<Rightarrow> 'w \<Rightarrow> 'w \<times> goerror option"

definition mrm_EnsureFinalizer :: "'w mclient \<Rightarrow> klib \<Rightarrow> string \<Rightarrow> 'w mrm_use_case" where
  "mrm_EnsureFinalizer c lib ns =
     \<lparr>mu_IsApplicable = (\<lambda>m w. Inr (\<not> ContainsFinalizer (mrm_Meta m) MandatoryModuleFinalizer \<and> \<not> mrm_deleting m)),
      mu_Execute = (\<lambda>m w. mrmRepo_EnsureFinalizer c lib ns (mrm_Name m) MandatoryModuleFinalizer w)\<rparr>"

definition mrm_SkipNonDeleting :: "'w mrm_use_case" where
  "mrm_SkipNonDeleting =
     \<lparr>mu_IsApplicable = (\<lambda>m w. Inr (\<not> mrm_deleting m)),
      mu_Execute = (\<lambda>m w. (w, Some ErrMrmNotInDeletingState))\<rparr>"

definition mrm_DeleteManifests :: "'w mclient \<Rightarrow> string \<Rightarrow> 'w mrm_use_case" where
  "mrm_DeleteManifests c ns =
     \<lparr>mu_IsApplicable = (\<lambda>m w. case ListAllForModule c ns w (mrm_Name m) of
          Inl e \<Rightarrow> Inl (wrapErr (''failed to list manifests for module '' @ mrm_Name m @ '': '') e)
        | Inr ms \<Rightarrow> Inr (ms \<noteq> [])),
      mu_Execute = (\<lambda>m w. case DeleteAllForModule c ns (mrm_Name m) w of
          (w', Some e) \<Rightarrow> (w', Some (wrapErr (''failed to delete manifests for module '' @ mrm_Name m @ '': '') e))
        | (w', None) \<Rightarrow> (w', None))\<rparr>"

definition mrm_RemoveFinalizer :: "'w mclient \<Rightarrow> klib \<Rightarrow> string \<Rightarrow> 'w mrm_use_case" where
  "mrm_RemoveFinalizer c lib ns =
     \<lparr>mu_IsApplicable = (\<lambda>m w. Inr (ContainsFinalizer (mrm_Meta m) MandatoryModuleFinalizer)),
      mu_Execute = (\<lambda>m w. mrmRepo_RemoveFinalizer c lib ns (mrm_Name m) MandatoryModuleFinalizer w)\<rparr>"

definition orderedSteps :: "'w mclient \<Rightarrow> klib \<Rightarrow> string \<Rightarrow> 'w mrm_use_case list" where
  "orderedSteps c lib ns =
     [mrm_EnsureFinalizer c lib ns, mrm_SkipNonDeleting, mrm_DeleteManifests c ns, mrm_RemoveFinalizer c lib ns]"

fun HandleDeletion :: "'w mrm_use_case list \<Rightarrow> ModuleReleaseMeta \<Rightarrow> 'w \<Rightarrow> 'w \<times> goerror option" where
  "HandleDeletion [] m w = (w, None)"
| "HandleDeletion (step # steps) m w =
     (case mu_IsApplicable step m w of
        Inl e \<Rightarrow> (w, Some e)
      | Inr True \<Rightarrow> mu_Execute step m w
      | Inr False \<Rightarrow> HandleDeletion steps m w)"

definition deletion_Reconcile ::
  "'w mrm_use_case list \<Rightarrow> RequeueIntervals \<Rightarrow> ModuleReleaseMeta \<Rightarrow> 'w \<Rightarrow> 'w \<times> reconcile_result" where
  "deletion_Reconcile steps iv m w =
     (case HandleDeletion steps m w of
        (w', Some e) \<Rightarrow>
          if errors_Is e ErrMrmNotInDeletingState then (w', no_requeue, None)
          else (w', no_requeue, Some (wrapErr ''mandatory module deletion reconciliation failed: '' e))
      | (w', None) \<Rightarrow> (w', requeue (ri_Success iv), None))"

section \<open>Installation\<close>

definition ErrSkipReconcileKyma :: goerror where
  "ErrSkipReconcileKyma =
     Sentinel ''ErrSkipReconcileKyma'' ''skip mandatory module installation for Kyma with skip-reconciliation label''"
definition ErrKymaBeingDeleted :: goerror where
  "ErrKymaBeingDeleted = Sentinel ''ErrKymaBeingDeleted'' ''skip mandatory module installation for Kyma being deleted''"

definition createMandatoryModuleTemplateInfo :: "ModuleTemplate \<Rightarrow> goerror option \<Rightarrow> ComponentId option \<Rightarrow> ModuleTemplateInfo" where
  "createMandatoryModuleTemplateInfo t err cid =
     \<lparr>mti_Template = Some (t\<lparr>mt_Mandatory := True\<rparr>), mti_Err = err, mti_DesiredChannel = [], mti_ComponentId = cid\<rparr>"

fun mandatory_templates ::
  "'w mclient \<Rightarrow> string \<Rightarrow> 'w \<Rightarrow> ModuleReleaseMeta list \<Rightarrow> (string \<rightharpoonup> ModuleTemplateInfo)
     \<Rightarrow> goerror + (string \<rightharpoonup> ModuleTemplateInfo)" where
  "mandatory_templates c ns w [] acc = Inr acc"
| "mandatory_templates c ns w (m # ms) acc =
     (if mrm_deleting m then mandatory_templates c ns w ms acc
      else (case mrm_Mandatory m of
              None \<Rightarrow> Inl nilDereference
            | Some version \<Rightarrow>
                (case GetSpecificVersionForModule c ns w (mrm_Name m) version of
                   Inl e \<Rightarrow> Inl (wrapErr (''get ModuleTemplate for mandatory module '' @ mrm_Name m @ '' failed: '') e)
                 | Inr t \<Rightarrow>
                     (case NewComponentId (mrm_OcmComponentName m) (mt_Version t) of
                        Inl e \<Rightarrow> mandatory_templates c ns w ms (acc(mt_ModuleName t \<mapsto>
                            createMandatoryModuleTemplateInfo t
                              (Some (wrapErr (''failed creating OCM identity for module '' @ mt_ModuleName t @ '' in namespace ''
                                 @ om_Namespace (mt_Meta t) @ '': '') e)) None))
                      | Inr cid \<Rightarrow> mandatory_templates c ns w ms
                          (acc(mt_ModuleName t \<mapsto> createMandatoryModuleTemplateInfo t None (Some cid)))))))"

text \<open>
  Every template becomes a module; \<open>keys\<close> is the order in which Go iterates over the map. A template that is nil
  would be dereferenced.
\<close>

definition mandatory_module_info :: "string \<Rightarrow> ModuleInfo" where
  "mandatory_module_info name =
     \<lparr>mi_Module = \<lparr>mod_CustomResourcePolicy = CreateAndDelete, mod_Name = name, mod_ControllerName = [], mod_Channel = [], mod_Version = [], mod_Managed = False\<rparr>,
      mi_Enabled = True, mi_ValidationError = None, mi_Unmanaged = False\<rparr>"

fun GenerateMandatoryModulesFromTemplates ::
  "parser_env \<Rightarrow> Kyma \<Rightarrow> (string \<rightharpoonup> ModuleTemplateInfo) \<Rightarrow> string list \<Rightarrow> goerror + KModule list" where
  "GenerateMandatoryModulesFromTemplates env k templates [] = Inr []"
| "GenerateMandatoryModulesFromTemplates env k templates (key # keys) =
     (case templates key of
        None \<Rightarrow> Inl nilDereference
      | Some info \<Rightarrow>
          (case mti_Template info of
             None \<Rightarrow> Inl nilDereference
           | Some t \<Rightarrow>
               (case GenerateMandatoryModulesFromTemplates env k templates keys of
                  Inl e \<Rightarrow> Inl e
                | Inr ms \<Rightarrow> Inr (moduleWithInformation env k (mandatory_module_info (mt_ModuleName t)) info # ms))))"

definition HandleInstallation ::
  "'w mclient \<Rightarrow> string \<Rightarrow> parser_env \<Rightarrow> sync_env \<Rightarrow> ((string \<rightharpoonup> ModuleTemplateInfo) \<Rightarrow> string list)
     \<Rightarrow> (KModule list \<Rightarrow> nat list) \<Rightarrow> Kyma \<Rightarrow> 'w \<Rightarrow> sync_op list \<times> goerror option" where
  "HandleInstallation c ns penv senv keys order k w =
     (if om_DeletionTimestamp (kyma_Meta k) \<noteq> None then ([], Some ErrKymaBeingDeleted)
      else if Kyma_SkipReconciliation k then ([], Some ErrSkipReconcileKyma)
      else (case ListMandatory c ns w of
              Inl e \<Rightarrow> ([], Some (wrapErr ''list mandatory modules failed: '' e))
            | Inr mrms \<Rightarrow>
                (case mandatory_templates c ns w mrms Map.empty of
                   Inl e \<Rightarrow> ([], Some e)
                 | Inr templates \<Rightarrow>
                     (case GenerateMandatoryModulesFromTemplates penv k templates (keys templates) of
                        Inl e \<Rightarrow> ([], Some e)
                      | Inr modules \<Rightarrow>
                          (case ReconcileManifests senv k (order modules) modules of
                             (_, ops, Some e) \<Rightarrow> (ops, Some (wrapErr ''reconcile manifests for mandatory modules failed: '' e))
                           | (_, ops, None) \<Rightarrow> (ops, None))))))"

definition installation_Reconcile ::
  "'w mclient \<Rightarrow> string \<Rightarrow> parser_env \<Rightarrow> sync_env \<Rightarrow> ((string \<rightharpoonup> ModuleTemplateInfo) \<Rightarrow> string list)
     \<Rightarrow> (KModule list \<Rightarrow> nat list) \<Rightarrow> RequeueIntervals \<Rightarrow> Kyma \<Rightarrow> 'w \<Rightarrow> sync_op list \<times> reconcile_result" where
  "installation_Reconcile c ns penv senv keys order iv k w =
     (case HandleInstallation c ns penv senv keys order k w of
        (ops, Some e) \<Rightarrow>
          if errors_Is e ErrSkipReconcileKyma \<or> errors_Is e ErrKymaBeingDeleted then (ops, no_requeue, None)
          else (ops, no_requeue, Some (wrapErr ''mandatory module installation reconciliation failed: '' e))
      | (ops, None) \<Rightarrow> (ops, requeue (ri_Success iv), None))"

section \<open>What is stored\<close>

record mcluster =
  mcl_Mrms :: "ModuleReleaseMeta list"
  mcl_Manifests :: "Manifest list"

definition has_key :: "string \<Rightarrow> string \<Rightarrow> ModuleReleaseMeta \<Rightarrow> bool" where
  "has_key n ns m \<longleftrightarrow> mrm_Name m = n \<and> om_Namespace (mrm_Meta m) = ns"

definition find_mrm :: "mcluster \<Rightarrow> string \<Rightarrow> string \<Rightarrow> ModuleReleaseMeta option" where
  "find_mrm cl n ns = find (has_key n ns) (mcl_Mrms cl)"

text \<open>An object that is marked for deletion disappears with its last finalizer.\<close>

definition store_mrm :: "ModuleReleaseMeta \<Rightarrow> ModuleReleaseMeta list \<Rightarrow> ModuleReleaseMeta list" where
  "store_mrm m ms =
     (let same = has_key (mrm_Name m) (om_Namespace (mrm_Meta m)) in
      if mrm_deleting m \<and> om_Finalizers (mrm_Meta m) = [] then filter (\<lambda>x. \<not> same x) ms
      else map (\<lambda>x. if same x then m else x) ms)"

definition of_module :: "string \<Rightarrow> string \<Rightarrow> Manifest \<Rightarrow> bool" where
  "of_module ns n m \<longleftrightarrow> om_Namespace (man_Meta m) = ns \<and> man_labels m ModuleNameLabel = Some n"

definition module_manifests :: "mcluster \<Rightarrow> string \<Rightarrow> string \<Rightarrow> Manifest list" where
  "module_manifests cl ns n = filter (of_module ns n) (mcl_Manifests cl)"

definition mark_module :: "string \<Rightarrow> string \<Rightarrow> mcluster \<Rightarrow> mcluster" where
  "mark_module ns n cl =
     cl\<lparr>mcl_Manifests := map (\<lambda>m. if of_module ns n m then mark_deleted m else m) (mcl_Manifests cl)\<rparr>"

definition mandatory_finalizer :: "mcluster \<Rightarrow> string \<Rightarrow> string \<Rightarrow> bool" where
  "mandatory_finalizer cl n ns \<longleftrightarrow>
     (case find_mrm cl n ns of None \<Rightarrow> False | Some m \<Rightarrow> ContainsFinalizer (mrm_Meta m) MandatoryModuleFinalizer)"

text \<open>
  What the API server documents. A list by a field index answers the objects whose index has the value; a
  deletion of a collection that fails may have been carried out for a part of it.
\<close>

definition faithful :: "'w mclient \<Rightarrow> ('w \<Rightarrow> mcluster) \<Rightarrow> bool" where
  "faithful c view \<longleftrightarrow>
     (\<forall>w n ns m. mc_getMrm c w n ns = Inr m \<longrightarrow> find_mrm (view w) n ns = Some m)
   \<and> (\<forall>w ns v ms. mc_listMrms c w ns v = Inr ms \<longrightarrow>
        ms = filter (\<lambda>m. om_Namespace (mrm_Meta m) = ns \<and> v \<in> set (mandatory_index m)) (mcl_Mrms (view w)))
   \<and> (\<forall>w ns n ms. mc_listManifests c w ns n = Inr ms \<longrightarrow> ms = module_manifests (view w) ns n)
   \<and> (\<forall>m w. view (fst (mc_updateMrm c m w)) =
        (if snd (mc_updateMrm c m w) = None then (view w)\<lparr>mcl_Mrms := store_mrm m (mcl_Mrms (view w))\<rparr> else view w))
   \<and> (\<forall>ns n w. snd (mc_deleteAllManifests c ns n w) = None \<longrightarrow>
        view (fst (mc_deleteAllManifests c ns n w)) = mark_module ns n (view w))
   \<and> (\<forall>ns n w. mcl_Mrms (view (fst (mc_deleteAllManifests c ns n w))) = mcl_Mrms (view w))"

lemma faithfulD:
  assumes "faithful c view"
  shows "mc_getMrm c w n ns = Inr m \<Longrightarrow> find_mrm (view w) n ns = Some m"
    and "mc_listMrms c w ns v = Inr ms \<Longrightarrow>
        ms = filter (\<lambda>m. om_Namespace (mrm_Meta m) = ns \<and> v \<in> set (mandatory_index m)) (mcl_Mrms (view w))"
    and "mc_listManifests c w ns n = Inr mans \<Longrightarrow> mans = module_manifests (view w) ns n"
    and "mc_updateMrm c m w = (w', None) \<Longrightarrow> view w' = (view w)\<lparr>mcl_Mrms := store_mrm m (mcl_Mrms (view w))\<rparr>"
    and "mc_updateMrm c m w = (w', Some e) \<Longrightarrow> view w' = view w"
    and "mc_deleteAllManifests c ns n w = (w', None) \<Longrightarrow> view w' = mark_module ns n (view w)"
    and "mc_deleteAllManifests c ns n w = (w', r) \<Longrightarrow> mcl_Mrms (view w') = mcl_Mrms (view w)"
proof -
  note f = assms [unfolded faithful_def]
  from f show "mc_getMrm c w n ns = Inr m \<Longrightarrow> find_mrm (view w) n ns = Some m"
    "mc_listMrms c w ns v = Inr ms \<Longrightarrow>
        ms = filter (\<lambda>m. om_Namespace (mrm_Meta m) = ns \<and> v \<in> set (mandatory_index m)) (mcl_Mrms (view w))"
    "mc_listManifests c w ns n = Inr mans \<Longrightarrow> mans = module_manifests (view w) ns n"
    by blast+
  have upd: "view (fst (mc_updateMrm c m w)) =
      (if snd (mc_updateMrm c m w) = None then (view w)\<lparr>mcl_Mrms := store_mrm m (mcl_Mrms (view w))\<rparr> else view w)"
    and del: "snd (mc_deleteAllManifests c ns n w) = None \<longrightarrow> view (fst (mc_deleteAllManifests c ns n w)) = mark_module ns n (view w)"
    and keep: "mcl_Mrms (view (fst (mc_deleteAllManifests c ns n w))) = mcl_Mrms (view w)"
    using f by blast+
  show "mc_updateMrm c m w = (w', None) \<Longrightarrow> view w' = (view w)\<lparr>mcl_Mrms := store_mrm m (mcl_Mrms (view w))\<rparr>"
    "mc_updateMrm c m w = (w', Some e) \<Longrightarrow> view w' = view w"
    using upd by simp_all
  show "mc_deleteAllManifests c ns n w = (w', None) \<Longrightarrow> view w' = mark_module ns n (view w)"
    "mc_deleteAllManifests c ns n w = (w', r) \<Longrightarrow> mcl_Mrms (view w') = mcl_Mrms (view w)"
    using del keep by simp_all
qed

lemma find_mrm_key: "find_mrm cl n ns = Some m \<Longrightarrow> mrm_Name m = n \<and> om_Namespace (mrm_Meta m) = ns"
  by (auto simp: find_mrm_def has_key_def find_Some_iff)

lemma find_store_other:
  assumes "\<not> has_key n ns m"
  shows "find (has_key n ns) (store_mrm m ms) = find (has_key n ns) ms"
  using assms by (induction ms) (auto simp: store_mrm_def Let_def has_key_def)

lemma find_store_same:
  assumes "has_key n ns m" and "find (has_key n ns) ms \<noteq> None"
  shows "find (has_key n ns) (store_mrm m ms) =
     (if mrm_deleting m \<and> om_Finalizers (mrm_Meta m) = [] then None else Some m)"
proof -
  have key: "has_key (mrm_Name m) (om_Namespace (mrm_Meta m)) = has_key n ns" using assms(1) by (auto simp: has_key_def)
  have "find (has_key n ns) (filter (\<lambda>x. \<not> has_key n ns x) ms) = None" by (simp add: find_None_iff)
  moreover have "find (has_key n ns) (map (\<lambda>x. if has_key n ns x then m else x) ms) = Some m"
    using assms by (induction ms) auto
  ultimately show ?thesis by (simp add: store_mrm_def Let_def key)
qed

lemma find_store:
  assumes "find_mrm cl n ns \<noteq> None"
  shows "find_mrm (cl\<lparr>mcl_Mrms := store_mrm m (mcl_Mrms cl)\<rparr>) n ns =
     (if has_key n ns m then (if mrm_deleting m \<and> om_Finalizers (mrm_Meta m) = [] then None else Some m)
      else find_mrm cl n ns)"
  using assms find_store_same find_store_other by (simp add: find_mrm_def)

lemma set_mrm_finalizers_sel [simp]:
  "mrm_Name (set_mrm_finalizers fs m) = mrm_Name m" "om_Namespace (mrm_Meta (set_mrm_finalizers fs m)) = om_Namespace (mrm_Meta m)"
  "om_DeletionTimestamp (mrm_Meta (set_mrm_finalizers fs m)) = om_DeletionTimestamp (mrm_Meta m)" "om_Finalizers (mrm_Meta (set_mrm_finalizers fs m)) = fs"
  by (simp_all add: set_mrm_finalizers_def)

section \<open>The finalizer of a ModuleReleaseMeta\<close>

lemma EnsureFinalizer_keeps:
  assumes "faithful c view" and "Finalizer_spec lib"
    and "mrmRepo_EnsureFinalizer c lib ns name MandatoryModuleFinalizer w = (w', r)"
    and "mandatory_finalizer (view w) n nsx"
  shows "mandatory_finalizer (view w') n nsx"
  using assms(3)
proof (cases "mrmRepo_Get c ns w name")
  case (Inr m)
  let ?fs = "fst (AddFinalizer lib (om_Finalizers (mrm_Meta m)) MandatoryModuleFinalizer)"
  have fin: "MandatoryModuleFinalizer \<in> set ?fs" using assms(2) by (auto simp: Finalizer_spec_def)
  from assms(3) Inr consider "w' = w" | e where "mc_updateMrm c (set_mrm_finalizers ?fs m) w = (w', e)"
    by (auto simp: mrmRepo_EnsureFinalizer_def split: prod.splits if_splits option.splits)
  then show ?thesis
  proof cases
    case 2
    then have "view w' = view w \<or> view w' = (view w)\<lparr>mcl_Mrms := store_mrm (set_mrm_finalizers ?fs m) (mcl_Mrms (view w))\<rparr>"
      using faithfulD(4,5) [OF assms(1)] by (cases e) auto
    moreover obtain m0 where "find_mrm (view w) n nsx = Some m0"
      using assms(4) by (auto simp: mandatory_finalizer_def split: option.splits)
    ultimately show ?thesis
      using assms(4) fin find_store [of "view w" n nsx "set_mrm_finalizers ?fs m"]
      by (auto simp: mandatory_finalizer_def ContainsFinalizer_def split: if_splits)
  qed (use assms(4) in simp)
qed (use assms(4) in \<open>simp add: mrmRepo_EnsureFinalizer_def\<close>)

lemma RemoveFinalizer_key:
  assumes "faithful c view"
    and "mrmRepo_RemoveFinalizer c lib ns name f w = (w', r)"
    and "mandatory_finalizer (view w) n nsx" "\<not> mandatory_finalizer (view w') n nsx"
  shows "n = name \<and> nsx = ns"
proof -
  obtain m where m: "mrmRepo_Get c ns w name = Inr m"
    using assms(2-4) by (cases "mrmRepo_Get c ns w name") (auto simp: mrmRepo_RemoveFinalizer_def)
  let ?fs = "fst (RemoveFinalizer lib (om_Finalizers (mrm_Meta m)) f)"
  from assms(2-4) m obtain e where upd: "mc_updateMrm c (set_mrm_finalizers ?fs m) w = (w', e)"
    by (auto simp: mrmRepo_RemoveFinalizer_def split: prod.splits if_splits option.splits)
  have "view w' = view w \<or> view w' = (view w)\<lparr>mcl_Mrms := store_mrm (set_mrm_finalizers ?fs m) (mcl_Mrms (view w))\<rparr>"
    using faithfulD(4,5) [OF assms(1)] upd by (cases e) auto
  moreover have "find_mrm (view w) n nsx \<noteq> None"
    using assms(3) by (auto simp: mandatory_finalizer_def split: option.splits)
  ultimately have "has_key n nsx (set_mrm_finalizers ?fs m)"
    using assms(3,4) find_store [of "view w" n nsx "set_mrm_finalizers ?fs m"]
    by (auto simp: mandatory_finalizer_def split: if_splits)
  moreover have "find_mrm (view w) name ns = Some m"
    using m faithfulD(1) [OF assms(1)] by (auto simp: mrmRepo_Get_def split: sum.splits)
  ultimately show ?thesis using find_mrm_key by (auto simp: has_key_def)
qed

lemma DeleteManifests_keeps:
  assumes "faithful c view" and "mu_Execute (mrm_DeleteManifests c ns) m w = (w', r)"
  shows "mcl_Mrms (view w') = mcl_Mrms (view w)"
  using assms faithfulD(7) [OF assms(1)]
  by (auto simp: mrm_DeleteManifests_def DeleteAllForModule_def split: prod.splits option.splits)

text \<open>C18. The finalizer that protects a mandatory module is removed only when nothing is left of the module: a
  reconciliation of a ModuleReleaseMeta after which a finalizer is missing that was there before concerns this
  ModuleReleaseMeta, which is marked for deletion, and no Manifest of its module exists for any Kyma.\<close>

theorem mandatory_finalizer_safe:
  assumes "faithful c view" and "Finalizer_spec lib"
    and "deletion_Reconcile (orderedSteps c lib ns) iv mrm w = (w', r)"
    and "mandatory_finalizer (view w) n nsx" and "\<not> mandatory_finalizer (view w') n nsx"
  shows "n = mrm_Name mrm \<and> nsx = ns \<and> mrm_deleting mrm \<and> module_manifests (view w) ns n = []"
proof -
  obtain e where run: "HandleDeletion (orderedSteps c lib ns) mrm w = (w', e)"
    using assms(3) by (auto simp: deletion_Reconcile_def split: prod.splits option.splits if_splits)
  have not1: "mu_Execute (mrm_EnsureFinalizer c lib ns) mrm w \<noteq> (w', e)"
    using EnsureFinalizer_keeps [OF assms(1,2)] assms(4,5) by (fastforce simp: mrm_EnsureFinalizer_def)
  have not3: "mu_Execute (mrm_DeleteManifests c ns) mrm w \<noteq> (w', e)"
    using DeleteManifests_keeps [OF assms(1)] assms(4,5)
    by (fastforce simp: mandatory_finalizer_def find_mrm_def)
  have same: "w' \<noteq> w" using assms(4,5) by auto
  have del: "mrm_deleting mrm"
    using run not1 same
    by (auto simp: orderedSteps_def mrm_EnsureFinalizer_def mrm_SkipNonDeleting_def split: bool.splits if_splits)
  then have tail: "HandleDeletion [mrm_DeleteManifests c ns, mrm_RemoveFinalizer c lib ns] mrm w = (w', e)"
    using run by (auto simp: orderedSteps_def mrm_EnsureFinalizer_def mrm_SkipNonDeleting_def split: bool.splits)
  then have app: "mu_IsApplicable (mrm_DeleteManifests c ns) mrm w = Inr False"
    using not3 same by (auto split: sum.splits bool.splits)
  then have none: "module_manifests (view w) ns (mrm_Name mrm) = []"
    using faithfulD(3) [OF assms(1)]
    by (auto simp: mrm_DeleteManifests_def ListAllForModule_def split: sum.splits)
  have "mu_Execute (mrm_RemoveFinalizer c lib ns) mrm w = (w', e)"
    using tail app same by (auto split: sum.splits bool.splits)
  then have "n = mrm_Name mrm \<and> nsx = ns"
    using RemoveFinalizer_key [OF assms(1) _ assms(4,5)] by (simp add: mrm_RemoveFinalizer_def)
  then show ?thesis using del none by simp
qed

section \<open>A deletion ends\<close>

definition available :: "'w mclient \<Rightarrow> ('w \<Rightarrow> mcluster) \<Rightarrow> bool" where
  "available c view \<longleftrightarrow>
     (\<forall>w n ns m. find_mrm (view w) n ns = Some m \<longrightarrow> mc_getMrm c w n ns = Inr m)
   \<and> (\<forall>w ns n. mc_listManifests c w ns n = Inr (module_manifests (view w) ns n))
   \<and> (\<forall>m w. snd (mc_updateMrm c m w) = None) \<and> (\<forall>ns n w. snd (mc_deleteAllManifests c ns n w) = None)"

text \<open>The manifest controller has finished with the Manifests that were marked for deletion.\<close>

definition manifests_gone :: "mcluster \<Rightarrow> mcluster" where
  "manifests_gone cl = cl\<lparr>mcl_Manifests := filter (\<lambda>m. om_DeletionTimestamp (man_Meta m) = None) (mcl_Manifests cl)\<rparr>"

definition mrm_round :: "'w mclient \<Rightarrow> klib \<Rightarrow> string \<Rightarrow> RequeueIntervals \<Rightarrow> string \<Rightarrow> ('w \<Rightarrow> 'w) \<Rightarrow> 'w \<Rightarrow> 'w" where
  "mrm_round c lib ns iv n gc w =
     (case mc_getMrm c w n ns of
        Inl e \<Rightarrow> gc w
      | Inr m \<Rightarrow> gc (fst (deletion_Reconcile (orderedSteps c lib ns) iv m w)))"

lemma deletion_Reconcile_fst: "fst (deletion_Reconcile steps iv m w) = fst (HandleDeletion steps m w)"
  by (auto simp: deletion_Reconcile_def split: prod.splits option.splits)

lemma HandleDeletion_deleting:
  assumes "faithful c view" and "available c view" and "find_mrm (view w) n ns = Some m" and "mrm_deleting m"
  shows "view (fst (HandleDeletion (orderedSteps c lib ns) m w)) =
     (if module_manifests (view w) ns n \<noteq> [] then mark_module ns n (view w)
      else if ContainsFinalizer (mrm_Meta m) MandatoryModuleFinalizer \<and> snd (RemoveFinalizer lib (om_Finalizers (mrm_Meta m)) MandatoryModuleFinalizer)
      then (view w)\<lparr>mcl_Mrms := store_mrm (set_mrm_finalizers
             (fst (RemoveFinalizer lib (om_Finalizers (mrm_Meta m)) MandatoryModuleFinalizer)) m) (mcl_Mrms (view w))\<rparr>
      else view w)"
proof -
  have n: "mrm_Name m = n" using find_mrm_key [OF assms(3)] by simp
  have list: "mc_listManifests c w ns n = Inr (module_manifests (view w) ns n)"
    and get: "mc_getMrm c w n ns = Inr m" using assms(2,3) by (simp_all add: available_def)
  obtain w1 where del: "mc_deleteAllManifests c ns n w = (w1, None)"
    using assms(2) by (metis available_def prod.collapse)
  have upd: "\<exists>w2. mc_updateMrm c x w = (w2, None)" for x using assms(2) by (metis available_def prod.collapse)
  have start: "HandleDeletion (orderedSteps c lib ns) m w =
      HandleDeletion [mrm_DeleteManifests c ns, mrm_RemoveFinalizer c lib ns] m w"
    using assms(4) by (auto simp: orderedSteps_def mrm_EnsureFinalizer_def mrm_SkipNonDeleting_def)
  show ?thesis
  proof (cases "module_manifests (view w) ns n = []")
    case False
    then show ?thesis
      unfolding start using faithfulD(6) [OF assms(1) del]
      by (simp add: mrm_DeleteManifests_def ListAllForModule_def DeleteAllForModule_def list n del)
  next
    case True
    obtain fs b where fs: "RemoveFinalizer lib (om_Finalizers (mrm_Meta m)) MandatoryModuleFinalizer = (fs, b)" by fastforce
    obtain w2 where u: "mc_updateMrm c (set_mrm_finalizers fs m) w = (w2, None)" using upd by blast
    show ?thesis
      unfolding start using True faithfulD(4) [OF assms(1) u]
      by (auto simp: mrm_DeleteManifests_def ListAllForModule_def list n mrm_RemoveFinalizer_def
          mrmRepo_RemoveFinalizer_def mrmRepo_Get_def get fs u split: bool.splits)
  qed
qed

lemma of_module_mark [simp]: "of_module ns n (mark_deleted m) = of_module ns n m"
  by (simp add: of_module_def mark_deleted_def)

lemma gone_mark: "module_manifests (manifests_gone (mark_module ns n cl)) ns n = []"
  by (auto simp: module_manifests_def manifests_gone_def mark_module_def filter_empty_conv mark_deleted_def split: if_splits)

lemma gone_none: "module_manifests cl ns n = [] \<Longrightarrow> module_manifests (manifests_gone cl) ns n = []"
  by (auto simp: module_manifests_def manifests_gone_def filter_empty_conv)

lemma gone_Mrms [simp]: "mcl_Mrms (manifests_gone cl) = mcl_Mrms cl" "mcl_Mrms (mark_module ns n cl) = mcl_Mrms cl"
  by (simp_all add: manifests_gone_def mark_module_def)

text \<open>A ModuleReleaseMeta that is marked for deletion, if it is still there.\<close>

definition deleting_or_gone :: "mcluster \<Rightarrow> string \<Rightarrow> string \<Rightarrow> bool" where
  "deleting_or_gone cl n ns \<longleftrightarrow> (\<forall>m. find_mrm cl n ns = Some m \<longrightarrow> mrm_deleting m)"

lemma mrm_round_step:
  assumes "faithful c view" and "available c view" and "Finalizer_spec lib"
    and gc: "\<And>w. view (gc w) = manifests_gone (view w)" and "find_mrm (view w) n ns = Some m" and "mrm_deleting m"
  shows "deleting_or_gone (view (mrm_round c lib ns iv n gc w)) n ns
    \<and> module_manifests (view (mrm_round c lib ns iv n gc w)) ns n = []
    \<and> (module_manifests (view w) ns n = [] \<longrightarrow> \<not> mandatory_finalizer (view (mrm_round c lib ns iv n gc w)) n ns)"
proof -
  let ?fs = "fst (RemoveFinalizer lib (om_Finalizers (mrm_Meta m)) MandatoryModuleFinalizer)"
  let ?cl = "(view w)\<lparr>mcl_Mrms := store_mrm (set_mrm_finalizers ?fs m) (mcl_Mrms (view w))\<rparr>"
  have "mc_getMrm c w n ns = Inr m" using assms(2,5) by (simp add: available_def)
  then have round: "view (mrm_round c lib ns iv n gc w) = manifests_gone (view (fst (HandleDeletion (orderedSteps c lib ns) m w)))"
    by (simp add: mrm_round_def gc deletion_Reconcile_fst)
  have key: "has_key n ns (set_mrm_finalizers ?fs m)" using find_mrm_key [OF assms(5)] by (simp add: has_key_def)
  have stored: "find_mrm ?cl n ns = (if om_Finalizers (mrm_Meta (set_mrm_finalizers ?fs m)) = [] then None else Some (set_mrm_finalizers ?fs m))"
    using find_store [of "view w" n ns "set_mrm_finalizers ?fs m"] assms(5,6) key by simp
  have removed: "MandatoryModuleFinalizer \<notin> set ?fs"
    "snd (RemoveFinalizer lib (om_Finalizers (mrm_Meta m)) MandatoryModuleFinalizer) =
       ContainsFinalizer (mrm_Meta m) MandatoryModuleFinalizer"
    using assms(3) by (auto simp: Finalizer_spec_def ContainsFinalizer_def)
  have find_gone: "find_mrm (manifests_gone cl) = find_mrm cl" "find_mrm (mark_module ns n cl) = find_mrm cl" for cl
    by (intro ext, simp add: find_mrm_def)+
  have man: "module_manifests ?cl ns n = module_manifests (view w) ns n" by (simp add: module_manifests_def)
  note step = HandleDeletion_deleting [OF assms(1,2,5,6), of lib]
  show ?thesis
  proof (cases "module_manifests (view w) ns n = []")
    case False
    then show ?thesis
      using assms(5,6) by (simp add: round step gone_mark deleting_or_gone_def find_gone)
  next
    case True
    show ?thesis
    proof (cases "ContainsFinalizer (mrm_Meta m) MandatoryModuleFinalizer")
      case True
      then show ?thesis
        using \<open>module_manifests (view w) ns n = []\<close> stored removed assms(6) man
        by (auto simp: round step gone_none deleting_or_gone_def find_gone mandatory_finalizer_def ContainsFinalizer_def
            split: if_splits)
    next
      case False
      then show ?thesis
        using \<open>module_manifests (view w) ns n = []\<close> assms(5,6)
        by (auto simp: round step gone_none deleting_or_gone_def find_gone mandatory_finalizer_def)
    qed
  qed
qed

text \<open>C19. A mandatory module disappears: when the API server is available and the manifest controller finishes with the
  Manifests that are marked for deletion between two reconciliations, two reconciliations of a ModuleReleaseMeta
  that is marked for deletion are enough for the Manifests of the module to be gone, for all Kymas, and for the
  finalizer to be removed.\<close>

theorem mandatory_deletion_ends:
  assumes "faithful c view" and "available c view" and "Finalizer_spec lib"
    and "\<And>w. view (gc w) = manifests_gone (view w)" and "find_mrm (view w) n ns = Some m" and "mrm_deleting m"
  shows "\<not> mandatory_finalizer (view ((mrm_round c lib ns iv n gc ^^ 2) w)) n ns
    \<and> module_manifests (view ((mrm_round c lib ns iv n gc ^^ 2) w)) ns n = []"
proof -
  let ?w1 = "mrm_round c lib ns iv n gc w"
  note r1 = mrm_round_step [OF assms, of iv]
  have two: "(mrm_round c lib ns iv n gc ^^ 2) w = mrm_round c lib ns iv n gc ?w1" by (simp add: numeral_2_eq_2)
  show ?thesis
  proof (cases "find_mrm (view ?w1) n ns")
    case None
    then obtain e where "mc_getMrm c ?w1 n ns = Inl e"
      using faithfulD(1) [OF assms(1), of ?w1 n ns] by (cases "mc_getMrm c ?w1 n ns") auto
    then have "view (mrm_round c lib ns iv n gc ?w1) = manifests_gone (view ?w1)"
      unfolding mrm_round_def [of c lib ns iv n gc ?w1] by (simp add: assms(4))
    then show ?thesis
      unfolding two using None r1 gone_none [of "view ?w1"] by (simp add: mandatory_finalizer_def find_mrm_def)
  next
    case (Some m1)
    then have "mrm_deleting m1" using r1 by (simp add: deleting_or_gone_def)
    then show ?thesis
      unfolding two using mrm_round_step [OF assms(1-4) Some, of iv] r1 by blast
  qed
qed

section \<open>What is installed\<close>

lemma mandatory_templates_sound:
  assumes "mandatory_templates c ns w ms acc = Inr T" and "T key = Some info"
  shows "acc key = Some info \<or> (\<exists>m \<in> set ms. \<exists>v t err cid. \<not> mrm_deleting m \<and> mrm_Mandatory m = Some v
     \<and> GetSpecificVersionForModule c ns w (mrm_Name m) v = Inr t \<and> key = mt_ModuleName t
     \<and> info = createMandatoryModuleTemplateInfo t err cid \<and> (\<forall>e. err = Some e \<longrightarrow> foreign e))"
  using assms
proof (induction ms arbitrary: acc)
  case (Cons m ms)
  show ?case
  proof (cases "mrm_deleting m")
    case True
    then show ?thesis using Cons by auto
  next
    case False
    then obtain v t where t: "mrm_Mandatory m = Some v" "GetSpecificVersionForModule c ns w (mrm_Name m) v = Inr t"
      using Cons.prems by (auto split: option.splits sum.splits)
    have "\<exists>err cid. mandatory_templates c ns w ms (acc(mt_ModuleName t \<mapsto> createMandatoryModuleTemplateInfo t err cid)) = Inr T
        \<and> (\<forall>e. err = Some e \<longrightarrow> foreign e)"
    proof (cases "NewComponentId (mrm_OcmComponentName m) (mt_Version t)")
      case (Inl e)
      then have "foreign e" by (auto simp: NewComponentId_def split: if_splits)
      moreover have "mandatory_templates c ns w ms (acc(mt_ModuleName t \<mapsto> createMandatoryModuleTemplateInfo t
          (Some (wrapErr (''failed creating OCM identity for module '' @ mt_ModuleName t @ '' in namespace ''
             @ om_Namespace (mt_Meta t) @ '': '') e)) None)) = Inr T"
        using Cons.prems(1) False t Inl by simp
      ultimately show ?thesis by - (intro exI conjI, assumption, simp)
    next
      case (Inr cid)
      then show ?thesis using Cons.prems False t by auto
    qed
    then obtain err cid where rest: "mandatory_templates c ns w ms (acc(mt_ModuleName t \<mapsto> createMandatoryModuleTemplateInfo t err cid)) = Inr T"
      and err: "\<forall>e. err = Some e \<longrightarrow> foreign e" by blast
    from Cons.IH [OF rest Cons.prems(2)] show ?thesis
    proof
      assume a: "(acc(mt_ModuleName t \<mapsto> createMandatoryModuleTemplateInfo t err cid)) key = Some info"
      show ?thesis
      proof (cases "key = mt_ModuleName t")
        case True
        then have "info = createMandatoryModuleTemplateInfo t err cid" using a by simp
        then show ?thesis using True False t err by auto
      qed (use a in simp)
    qed auto
  qed
qed simp

lemma mandatory_module:
  assumes "parser_env_foreign env" and "\<forall>e. err = Some e \<longrightarrow> foreign e"
    and "m = moduleWithInformation env k (mandatory_module_info n) (createMandatoryModuleTemplateInfo t err cid)"
  shows "\<exists>info t'. km_TemplateInfo m = Some info \<and> (\<forall>e. mti_Err info = Some e \<longrightarrow> foreign e)
    \<and> mti_Template info = Some t' \<and> mt_Mandatory t' \<and> km_ModuleName m = n \<and> km_Enabled m \<and> \<not> km_IsUnmanaged m"
proof -
  let ?i = "createMandatoryModuleTemplateInfo t err cid"
  have keeps: "mt_Mandatory (setNameAndNamespaceIfEmpty a b x) = mt_Mandatory x" for a b x
    by (simp add: setNameAndNamespaceIfEmpty_def Let_def split: option.splits)
  have i: "mti_Template ?i = Some (t\<lparr>mt_Mandatory := True\<rparr>)" "mti_Err ?i = err"
    by (simp_all add: createMandatoryModuleTemplateInfo_def)
  show ?thesis
  proof (cases err)
    case (Some e)
    then show ?thesis
      using assms(2,3) i by (simp add: moduleWithInformation_def plain_module_def mandatory_module_info_def foreign_def)
  next
    case None
    show ?thesis
    proof (cases "GetDescriptorWithIdentity (pe_service env) (pe_cache env) ?i")
      case (Inl e)
      then show ?thesis
        using assms(3) i None GetDescriptor_foreign(1) [OF assms(1) Inl]
        by (simp add: moduleWithInformation_def plain_module_def mandatory_module_info_def)
    next
      case (Inr d)
      then show ?thesis
        using assms(3) i None newManifest_foreign [OF assms(1)]
        by (auto simp: moduleWithInformation_def plain_module_def mandatory_module_info_def Let_def keeps split: sum.splits)
    qed
  qed
qed

lemma GenerateMandatory_mem:
  assumes "GenerateMandatoryModulesFromTemplates env k T keys = Inr ms" and "m \<in> set ms"
  shows "\<exists>key info t. T key = Some info \<and> mti_Template info = Some t
     \<and> m = moduleWithInformation env k (mandatory_module_info (mt_ModuleName t)) info"
  using assms
proof (induction keys arbitrary: ms)
  case (Cons key keys)
  then obtain info t ms' where i: "T key = Some info" "mti_Template info = Some t"
    "GenerateMandatoryModulesFromTemplates env k T keys = Inr ms'"
    "ms = moduleWithInformation env k (mandatory_module_info (mt_ModuleName t)) info # ms'"
    by (auto split: option.splits sum.splits)
  then show ?case using Cons.IH Cons.prems(2) by auto
qed simp

lemma mandatory_labels:
  assumes "mt_Mandatory t"
  shows "default_labels k m info t l KymaNameLabel = Some (om_Name (kyma_Meta k))"
    and "default_labels k m info t l ModuleNameLabel = Some (km_ModuleName m)"
    and "default_labels k m info t l MandatoryLabel = Some EnableLabelValue"
  using assms
  by (simp_all add: default_labels_def Let_def MT_IsMandatory_def KymaNameLabel_def ControllerNameLabel_def ModuleNameLabel_def
      ChannelLabel_def ManagedBy_def MandatoryLabel_def OperatorGroup_def)

lemma mandatory_module_ops:
  assumes "sync_lib_ok senv" and "op \<in> set (fst (snd (reconcile_module senv k m)))"
    and "km_TemplateInfo m = Some info" and "\<forall>e. mti_Err info = Some e \<longrightarrow> foreign e"
    and "mti_Template info = Some t" and "mt_Mandatory t" and "km_Enabled m"
  shows "\<exists>a. op = ApplyManifest a \<and> man_labels a KymaNameLabel = Some (om_Name (kyma_Meta k))
     \<and> man_labels a ModuleNameLabel = Some (km_ModuleName m) \<and> man_labels a MandatoryLabel = Some EnableLabelValue"
proof -
  have "mti_Err info = None"
    using assms(2-4) by (cases "mti_Err info") (auto simp: reconcile_module_def foreign_def)
  then have "op \<in> set (fst (updateManifest senv k m info))"
    using assms(2,3) by (auto simp: reconcile_module_def split: prod.splits sum.splits)
  then obtain ops r where run: "updateManifest senv k m info = (ops, r)" "op \<in> set ops"
    by (cases "updateManifest senv k m info") auto
  show ?thesis
    by (rule updateManifest_ops [OF assms(1) run]) (use assms(5-7) mandatory_labels [OF assms(6)] in \<open>auto\<close>)
qed

text \<open>C20. What the installation of mandatory modules writes: nothing for a Kyma that is being deleted or skipped;
  otherwise only Manifests that are applied, never deleted. Each belongs to a ModuleReleaseMeta that is stored, is
  mandatory and not marked for deletion, and carries the name of the Kyma, the module of the template that the
  ModuleReleaseMeta names, and the label of mandatory modules: the Manifests of a module that is being removed are
  not created again.\<close>

theorem HandleInstallation_writes:
  assumes "faithful c view" and "parser_env_foreign penv" and "sync_lib_ok senv"
    and "\<And>ms. is_completion_order (order ms) ms"
    and "op \<in> set (fst (HandleInstallation c ns penv senv keys order k w))"
  shows "om_DeletionTimestamp (kyma_Meta k) = None \<and> \<not> Kyma_SkipReconciliation k \<and>
    (\<exists>m v t a. m \<in> set (mcl_Mrms (view w)) \<and> om_Namespace (mrm_Meta m) = ns \<and> \<not> mrm_deleting m \<and> mrm_Mandatory m = Some v
       \<and> GetSpecificVersionForModule c ns w (mrm_Name m) v = Inr t \<and> op = ApplyManifest a
       \<and> man_labels a KymaNameLabel = Some (om_Name (kyma_Meta k))
       \<and> man_labels a ModuleNameLabel = Some (mt_ModuleName t) \<and> man_labels a MandatoryLabel = Some EnableLabelValue)"
proof -
  have active: "om_DeletionTimestamp (kyma_Meta k) = None" "\<not> Kyma_SkipReconciliation k"
    using assms(5) by (auto simp: HandleInstallation_def split: if_splits)
  obtain mrms T ms where run: "ListMandatory c ns w = Inr mrms" "mandatory_templates c ns w mrms Map.empty = Inr T"
    "GenerateMandatoryModulesFromTemplates penv k T (keys T) = Inr ms"
    using assms(5) active by (auto simp: HandleInstallation_def split: sum.splits)
  have "op \<in> set (fst (snd (ReconcileManifests senv k (order ms) ms)))"
    using assms(5) active run by (auto simp: HandleInstallation_def split: prod.splits option.splits)
  then obtain km where km: "km \<in> set ms" "op \<in> set (fst (snd (reconcile_module senv k km)))"
    unfolding ReconcileManifests_ops_set [OF assms(4)] by blast
  obtain key info t0 where info: "T key = Some info" "mti_Template info = Some t0"
    "km = moduleWithInformation penv k (mandatory_module_info (mt_ModuleName t0)) info"
    using GenerateMandatory_mem [OF run(3) km(1)] by blast
  obtain m v t err cid where m: "m \<in> set mrms" "\<not> mrm_deleting m" "mrm_Mandatory m = Some v"
    "GetSpecificVersionForModule c ns w (mrm_Name m) v = Inr t"
    "info = createMandatoryModuleTemplateInfo t err cid" "\<forall>e. err = Some e \<longrightarrow> foreign e"
    using mandatory_templates_sound [OF run(2) info(1)] by auto
  have name: "mt_ModuleName t0 = mt_ModuleName t" using info(2) m(5) by (auto simp: createMandatoryModuleTemplateInfo_def)
  obtain info' t' where mi: "km_TemplateInfo km = Some info'" "\<forall>e. mti_Err info' = Some e \<longrightarrow> foreign e"
    "mti_Template info' = Some t'" "mt_Mandatory t'" "km_ModuleName km = mt_ModuleName t" "km_Enabled km"
    using mandatory_module [OF assms(2) m(6) info(3) [unfolded m(5)]] name by auto
  have "mc_listMrms c w ns MrmMandatoryModulePositiveValue = Inr mrms"
    using run(1) by (auto simp: ListMandatory_def split: sum.splits)
  then have "m \<in> set (mcl_Mrms (view w))" "om_Namespace (mrm_Meta m) = ns"
    using m(1) faithfulD(2) [OF assms(1), of w ns MrmMandatoryModulePositiveValue mrms] by auto
  then show ?thesis
    using active m(2-4) mandatory_module_ops [OF assms(3) km(2) mi(1-4,6)] mi(5) by auto
qed

text \<open>Failures of mandatory modules stay silent: when no component descriptor can be fetched, for example because the
  registry is not reachable, no Manifest is written, and still the reconciliation of the Kyma is reported as a
  success that is repeated after the interval for successes.\<close>

theorem mandatory_errors_silent:
  assumes "parser_env_foreign penv" and "pe_cache penv = Map.empty" and "\<And>cid. \<exists>e. pe_service penv cid = Inl e"
    and "om_DeletionTimestamp (kyma_Meta k) = None" and "\<not> Kyma_SkipReconciliation k"
    and "ListMandatory c ns w = Inr mrms" and "mandatory_templates c ns w mrms Map.empty = Inr T"
    and "set (keys T) = dom T" and "\<And>ms. is_completion_order (order ms) ms"
  shows "installation_Reconcile c ns penv senv keys order iv k w = ([], requeue (ri_Success iv), None)"
proof -
  have silent: "reconcile_module senv k (moduleWithInformation penv k mi info) = (moduleWithInformation penv k mi info, [], None)"
    if info: "\<forall>e. mti_Err info = Some e \<longrightarrow> foreign e" for mi info
  proof (cases "mti_Err info")
    case (Some e)
    then show ?thesis using info by (simp add: moduleWithInformation_def plain_module_def reconcile_module_def foreign_def)
  next
    case None
    obtain e where e: "GetDescriptorWithIdentity (pe_service penv) (pe_cache penv) info = Inl e"
    proof (cases "GetOCMIdentity info")
      case (Inr cid)
      obtain e where "pe_service penv cid = Inl e" using assms(3) by blast
      then have "\<exists>e. GetDescriptorWithIdentity (pe_service penv) (pe_cache penv) info = Inl e"
        using Inr assms(2) by (simp add: GetDescriptorWithIdentity_def GetDescriptor_def)
      then show ?thesis using that by blast
    qed (simp add: that GetDescriptorWithIdentity_def)
    then show ?thesis
      using None GetDescriptor_foreign(1) [OF assms(1) e]
      by (simp add: moduleWithInformation_def plain_module_def reconcile_module_def foreign_def)
  qed
  have T: "\<exists>t err cid. info = createMandatoryModuleTemplateInfo t err cid \<and> (\<forall>e. err = Some e \<longrightarrow> foreign e)" if "T key = Some info" for key info
    using mandatory_templates_sound [OF assms(7) that] by auto
  have "\<exists>ms. GenerateMandatoryModulesFromTemplates penv k T ks = Inr ms" if "set ks \<subseteq> dom T" for ks
    using that
  proof (induction ks)
    case (Cons key ks)
    then obtain info where info: "T key = Some info" by auto
    then obtain t err cid where "info = createMandatoryModuleTemplateInfo t err cid" using T by blast
    then show ?case using Cons info by (auto simp: createMandatoryModuleTemplateInfo_def)
  qed simp
  then obtain ms where ms: "GenerateMandatoryModulesFromTemplates penv k T (keys T) = Inr ms" using assms(8) by blast
  have quiet: "reconcile_module senv k m = (m, [], None)" if "m \<in> set ms" for m
  proof -
    obtain key info t where i: "T key = Some info" "mti_Template info = Some t" "m = moduleWithInformation penv k (mandatory_module_info (mt_ModuleName t)) info"
      using GenerateMandatory_mem [OF ms \<open>m \<in> set ms\<close>] by blast
    then have "\<forall>e. mti_Err info = Some e \<longrightarrow> foreign e"
      using T [OF i(1)] by (auto simp: createMandatoryModuleTemplateInfo_def)
    then show ?thesis using silent i(3) by simp
  qed
  have "set (fst (snd (ReconcileManifests senv k (order ms) ms))) = {}"
    unfolding ReconcileManifests_ops_set [OF assms(9)] using quiet by simp
  moreover have "snd (snd (ReconcileManifests senv k (order ms) ms)) = None"
    unfolding ReconcileManifests_None [OF assms(9)] using quiet by simp
  ultimately show ?thesis
    using assms(4-7) ms
    by (auto simp: installation_Reconcile_def HandleInstallation_def split: prod.splits option.splits)
qed

section \<open>Witnesses\<close>

definition ref_mclient :: "mcluster mclient" where
  "ref_mclient =
     \<lparr>mc_getMrm = (\<lambda>cl n ns. case find_mrm cl n ns of None \<Rightarrow> Inl notFoundErr | Some m \<Rightarrow> Inr m),
      mc_listMrms = (\<lambda>cl ns v. Inr (filter (\<lambda>m. om_Namespace (mrm_Meta m) = ns \<and> v \<in> set (mandatory_index m)) (mcl_Mrms cl))),
      mc_updateMrm = (\<lambda>m cl. (cl\<lparr>mcl_Mrms := store_mrm m (mcl_Mrms cl)\<rparr>, None)),
      mc_getTemplate = (\<lambda>cl n ns. Inr ex_template),
      mc_listManifests = (\<lambda>cl ns n. Inr (module_manifests cl ns n)),
      mc_deleteAllManifests = (\<lambda>ns n cl. (mark_module ns n cl, None))\<rparr>"

lemma ref_faithful: "faithful ref_mclient id" "available ref_mclient id"
  by (auto simp: faithful_def available_def ref_mclient_def split: option.splits)

definition ex_mandatory :: ModuleReleaseMeta where
  "ex_mandatory = ex_mrm\<lparr>mrm_Meta := example_meta\<lparr>om_Name := ''istio'', om_Finalizers := [MandatoryModuleFinalizer]\<rparr>,
     mrm_Mandatory := Some ''1.10.0''\<rparr>"

definition ex_removed :: ModuleReleaseMeta where
  "ex_removed = ex_mandatory\<lparr>mrm_Meta := (mrm_Meta ex_mandatory)\<lparr>om_DeletionTimestamp := Some 0\<rparr>\<rparr>"

definition ex_istio_manifest :: Manifest where
  "ex_istio_manifest = empty_manifest\<lparr>man_Meta := example_meta\<lparr>om_Labels := [ModuleNameLabel \<mapsto> ''istio'']\<rparr>\<rparr>"

definition ex_intervals :: RequeueIntervals where
  "ex_intervals = \<lparr>ri_Success = 30, ri_Busy = 5, ri_Warning = 10, ri_Error = 10, ri_Jitter = None\<rparr>"

definition ex_keys :: "(string \<rightharpoonup> ModuleTemplateInfo) \<Rightarrow> string list" where
  "ex_keys T = (if T ''istio'' = None then [] else [''istio''])"

definition ex_order :: "KModule list \<Rightarrow> nat list" where
  "ex_order ms = [0..<length ms]"

lemma ex_order: "is_completion_order (ex_order ms) ms"
  by (auto simp: is_completion_order_def ex_order_def)

definition ex_last_round :: "mcluster \<times> reconcile_result" where
  "ex_last_round = deletion_Reconcile (orderedSteps ref_mclient ref_klib ''kcp-system'') ex_intervals ex_removed
     \<lparr>mcl_Mrms = [ex_removed], mcl_Manifests = []\<rparr>"

theorem mandatory_finalizer_safe_witness:
  "mandatory_finalizer \<lparr>mcl_Mrms = [ex_removed], mcl_Manifests = []\<rparr> ''istio'' ''kcp-system''
    \<and> \<not> mandatory_finalizer (fst ex_last_round) ''istio'' ''kcp-system''
    \<and> module_manifests \<lparr>mcl_Mrms = [ex_removed], mcl_Manifests = []\<rparr> ''kcp-system'' ''istio'' = []"
proof -
  let ?cl = "\<lparr>mcl_Mrms = [ex_removed], mcl_Manifests = []\<rparr>"
  have spec: "Finalizer_spec ref_klib" using ref_klib_ok by (simp add: klib_ok_def)
  have run: "deletion_Reconcile (orderedSteps ref_mclient ref_klib ''kcp-system'') ex_intervals ex_removed ?cl =
      (fst ex_last_round, snd ex_last_round)" by (simp add: ex_last_round_def)
  have fin: "mandatory_finalizer ?cl ''istio'' ''kcp-system''" "\<not> mandatory_finalizer (fst ex_last_round) ''istio'' ''kcp-system''"
    by code_simp+
  have "module_manifests ?cl ''kcp-system'' ''istio'' = []"
    using mandatory_finalizer_safe [OF ref_faithful(1) spec run, unfolded id_apply, OF fin] by blast
  then show ?thesis using fin by blast
qed

theorem mandatory_deletion_ends_witness:
  "\<not> mandatory_finalizer ((mrm_round ref_mclient ref_klib ''kcp-system'' ex_intervals ''istio'' manifests_gone ^^ 2)
     \<lparr>mcl_Mrms = [ex_removed], mcl_Manifests = [ex_istio_manifest]\<rparr>) ''istio'' ''kcp-system''"
proof -
  let ?cl = "\<lparr>mcl_Mrms = [ex_removed], mcl_Manifests = [ex_istio_manifest]\<rparr>"
  have spec: "Finalizer_spec ref_klib" using ref_klib_ok by (simp add: klib_ok_def)
  have gc: "\<And>w. id (manifests_gone w) = manifests_gone (id w)" by simp
  have "find_mrm (id ?cl) ''istio'' ''kcp-system'' = Some ex_removed" "mrm_deleting ex_removed"
    by (simp_all add: find_mrm_def has_key_def ex_removed_def ex_mandatory_def ex_mrm_def example_meta_def)
  from mandatory_deletion_ends [OF ref_faithful spec gc this, of ex_intervals] show ?thesis by simp
qed

lemma ex_installed:
  "length (fst (HandleInstallation ref_mclient ''kcp-system'' ex_parser ex_sync ex_keys ex_order ex_kyma
     \<lparr>mcl_Mrms = [ex_mandatory], mcl_Manifests = []\<rparr>)) = 1"
  by code_simp

theorem HandleInstallation_writes_witness:
  "\<exists>a. ApplyManifest a \<in> set (fst (HandleInstallation ref_mclient ''kcp-system'' ex_parser ex_sync ex_keys ex_order ex_kyma
      \<lparr>mcl_Mrms = [ex_mandatory], mcl_Manifests = []\<rparr>))
     \<and> man_labels a MandatoryLabel = Some EnableLabelValue"
proof -
  let ?ops = "fst (HandleInstallation ref_mclient ''kcp-system'' ex_parser ex_sync ex_keys ex_order ex_kyma
      \<lparr>mcl_Mrms = [ex_mandatory], mcl_Manifests = []\<rparr>)"
  have "hd ?ops \<in> set ?ops" using ex_installed by (intro hd_in_set) auto
  from HandleInstallation_writes [OF ref_faithful(1) ex_env_foreign(2) ex_sync_ok ex_order this]
  show ?thesis using \<open>hd ?ops \<in> set ?ops\<close> by fastforce
qed

definition ex_offline :: parser_env where
  "ex_offline = ex_parser\<lparr>pe_service := \<lambda>c. Inl notFoundErr\<rparr>"

theorem mandatory_errors_silent_witness:
  "installation_Reconcile ref_mclient ''kcp-system'' ex_offline ex_sync ex_keys ex_order ex_intervals ex_kyma
     \<lparr>mcl_Mrms = [ex_mandatory], mcl_Manifests = []\<rparr> = ([], requeue 30, None)"
proof -
  let ?cl = "\<lparr>mcl_Mrms = [ex_mandatory], mcl_Manifests = []\<rparr> :: mcluster"
  let ?info = "createMandatoryModuleTemplateInfo ex_template None (Some (''kyma-project.io/istio'', ''1.10.0''))"
  have penv: "parser_env_foreign ex_offline" "pe_cache ex_offline = Map.empty" "\<exists>e. pe_service ex_offline cid = Inl e" for cid
    using ex_env_foreign(2)
    by (simp_all add: ex_offline_def parser_env_foreign_def ex_parser_def foreign_def notFoundErr_def ErrTemplateNotAllowed_def)
  have kyma: "om_DeletionTimestamp (kyma_Meta ex_kyma) = None" "\<not> Kyma_SkipReconciliation ex_kyma" by code_simp+
  have "om_Namespace (mrm_Meta ex_mandatory) = ''kcp-system''" "MrmMandatoryModulePositiveValue \<in> set (mandatory_index ex_mandatory)"
    by (simp_all add: ex_mandatory_def ex_mrm_def example_meta_def mandatory_index_def)
  then have list: "ListMandatory ref_mclient ''kcp-system'' ?cl = Inr [ex_mandatory]"
    by (simp add: ListMandatory_def ref_mclient_def)
  have T: "mandatory_templates ref_mclient ''kcp-system'' ?cl [ex_mandatory] Map.empty = Inr [''istio'' \<mapsto> ?info]"
    by (simp add: ex_mandatory_def ex_mrm_def example_meta_def GetSpecificVersionForModule_def ref_mclient_def NewComponentId_def ex_template_def)
  have keys: "set (ex_keys [''istio'' \<mapsto> ?info]) = dom [''istio'' \<mapsto> ?info]" by (simp add: ex_keys_def)
  show ?thesis
    using mandatory_errors_silent [where keys = ex_keys and order = ex_order and senv = ex_sync and iv = ex_intervals,
        OF penv kyma list T keys ex_order] by (simp add: ex_intervals_def)
qed

end
