(* ===== verification/MrmWatch.thy ===== *)
theory MrmWatch
  imports ModuleTypes
begin

text \<open>
  Which Kymas are reconciled again when a ModuleReleaseMeta or a ModuleTemplate changes
  (\<^verbatim>\<open>internal/watch\<close>). The interface \<^verbatim>\<open>affectedKymasResolver\<close> is the record \<open>resolver\<close> and the
  locale \<open>kymas_resolver\<close>, whose laws say that only Kymas of the list are chosen, each once; its lemmas are about the
  event handler. It is interpreted on the resolvers of regular and of mandatory modules. The order in which Go
  iterates over a map and the random numbers are arguments.
\<close>

section \<open>Affected Kymas\<close>

definition getModuleChannel :: "string \<Rightarrow> string \<Rightarrow> string" where
  "getModuleChannel moduleChannel kymaChannel = (if moduleChannel = [] then kymaChannel else moduleChannel)"

definition module_affected :: "Kyma \<Rightarrow> string \<Rightarrow> string list \<Rightarrow> ModuleStatus \<Rightarrow> bool" where
  "module_affected k affectedModule affectedChannels m =
     (ms_Name m = affectedModule \<and> getModuleChannel (ms_Channel m) (ks_Channel (kyma_Spec k)) \<in> set affectedChannels)"

definition getAffectedKymas :: "Kyma list \<Rightarrow> string \<Rightarrow> string list \<Rightarrow> NamespacedName list" where
  "getAffectedKymas kymas affectedModule affectedChannels =
     map Kyma_NamespacedName (filter (\<lambda>k. list_ex (module_affected k affectedModule affectedChannels) (kyma_modules k)) kymas)"

fun channel_versions :: "ChannelVersionAssignment list \<Rightarrow> (string \<rightharpoonup> string) \<Rightarrow> (string \<rightharpoonup> string)" where
  "channel_versions [] m = m"
| "channel_versions (c # cs) m = channel_versions cs (m(cva_Channel c \<mapsto> cva_Version c))"

definition findAddedOrModifiedChannels :: "string list \<Rightarrow> (string \<rightharpoonup> string) \<Rightarrow> (string \<rightharpoonup> string) \<Rightarrow> string list" where
  "findAddedOrModifiedChannels keys newChannels oldChannels =
     filter (\<lambda>name. case oldChannels name of None \<Rightarrow> True | Some oldVersion \<Rightarrow> Some oldVersion \<noteq> newChannels name) keys"

definition findDeletedChannels :: "string list \<Rightarrow> (string \<rightharpoonup> string) \<Rightarrow> string list" where
  "findDeletedChannels keys newChannels = filter (\<lambda>name. newChannels name = None) keys"

text \<open>\<open>keys m\<close> lists the keys of a map in the order of the iteration.\<close>

definition diffModuleReleaseMetaChannels ::
  "((string \<rightharpoonup> string) \<Rightarrow> string list) \<Rightarrow> ModuleReleaseMeta \<Rightarrow> ModuleReleaseMeta \<Rightarrow> string list" where
  "diffModuleReleaseMetaChannels keys old new =
     (let oldVersions = channel_versions (mrm_Channels old) Map.empty;
          newVersions = channel_versions (mrm_Channels new) Map.empty
      in findAddedOrModifiedChannels (keys newVersions) newVersions oldVersions
         @ findDeletedChannels (keys oldVersions) newVersions)"

definition AffectedKymasOnUpdate ::
  "((string \<rightharpoonup> string) \<Rightarrow> string list) \<Rightarrow> ModuleReleaseMeta \<Rightarrow> ModuleReleaseMeta \<Rightarrow> Kyma list \<Rightarrow> NamespacedName list" where
  "AffectedKymasOnUpdate keys old new kymas =
     getAffectedKymas kymas (mrm_ModuleName new) (diffModuleReleaseMetaChannels keys old new)"

definition AffectedKymasOnDelete :: "ModuleReleaseMeta \<Rightarrow> Kyma list \<Rightarrow> NamespacedName list" where
  "AffectedKymasOnDelete mrm kymas = getAffectedKymas kymas (mrm_ModuleName mrm) (GetAllChannels mrm)"

section \<open>Resolvers\<close>

record resolver =
  rs_OnCreate :: "ModuleReleaseMeta \<Rightarrow> Kyma list \<Rightarrow> NamespacedName list"
  rs_OnUpdate :: "ModuleReleaseMeta \<Rightarrow> ModuleReleaseMeta \<Rightarrow> Kyma list \<Rightarrow> NamespacedName list"
  rs_OnDelete :: "ModuleReleaseMeta \<Rightarrow> Kyma list \<Rightarrow> NamespacedName list"

definition RegularResolver :: "((string \<rightharpoonup> string) \<Rightarrow> string list) \<Rightarrow> resolver" where
  "RegularResolver keys =
     \<lparr>rs_OnCreate = (\<lambda>mrm kymas. []), rs_OnUpdate = AffectedKymasOnUpdate keys, rs_OnDelete = AffectedKymasOnDelete\<rparr>"

definition mandatoryAffectedKymas :: "ModuleReleaseMeta \<Rightarrow> Kyma list \<Rightarrow> NamespacedName list" where
  "mandatoryAffectedKymas mrm kymas = (if mrm_Mandatory mrm = None then [] else map Kyma_NamespacedName kymas)"

definition MandatoryResolver :: resolver where
  "MandatoryResolver =
     \<lparr>rs_OnCreate = mandatoryAffectedKymas, rs_OnUpdate = (\<lambda>old new. mandatoryAffectedKymas new),
      rs_OnDelete = mandatoryAffectedKymas\<rparr>"

section \<open>Event handler\<close>

datatype queue_op =
  QueueAdd NamespacedName
| QueueAddAfter NamespacedName duration

primrec queue_request :: "queue_op \<Rightarrow> NamespacedName" where
  "queue_request (QueueAdd n) = n"
| "queue_request (QueueAddAfter n d) = n"

text \<open>\<^verbatim>\<open>LookupByLabel\<close> of the repository; \<open>list\<close> is the answer of the API server.\<close>

definition LookupByLabel ::
  "(string \<Rightarrow> string \<Rightarrow> string \<Rightarrow> goerror + Kyma list) \<Rightarrow> string \<Rightarrow> string \<Rightarrow> string \<Rightarrow> goerror + Kyma list" where
  "LookupByLabel list ns labelKey labelValue =
     (case list ns labelKey labelValue of
        Inl e \<Rightarrow> Inl (wrapErr (''failed to list Kymas in namespace '' @ ns @ '' with label '' @ labelKey @ ''='' @ labelValue @ '': '') e)
      | Inr kymas \<Rightarrow> Inr kymas)"

type_synonym kyma_lookup = "string \<Rightarrow> string \<Rightarrow> goerror + Kyma list"

definition requeueKymas :: "NamespacedName list \<Rightarrow> queue_op list" where
  "requeueKymas kymas = map QueueAdd kymas"

text \<open>
  \<open>rnd i n\<close> is what the \<open>i\<close>-th call of \<^verbatim>\<open>rand.Int63n(n)\<close> answers, documented to be at least zero and less than
  a positive \<open>n\<close>.
\<close>

definition rand_ok :: "(nat \<Rightarrow> int \<Rightarrow> int) \<Rightarrow> bool" where
  "rand_ok rnd \<longleftrightarrow> (\<forall>i n. 0 < n \<longrightarrow> 0 \<le> rnd i n \<and> rnd i n < n)"

fun requeueKymasWithRandomDelay :: "(nat \<Rightarrow> int \<Rightarrow> int) \<Rightarrow> nat \<Rightarrow> NamespacedName list \<Rightarrow> duration \<Rightarrow> queue_op list" where
  "requeueKymasWithRandomDelay rnd i [] maxDelay = []"
| "requeueKymasWithRandomDelay rnd i (n # ns) maxDelay =
     (if maxDelay \<le> 0 then QueueAdd n # requeueKymasWithRandomDelay rnd i ns maxDelay
      else QueueAddAfter n (rnd i maxDelay) # requeueKymasWithRandomDelay rnd (Suc i) ns maxDelay)"

text \<open>The object of an event, \<open>None\<close> when it is not a ModuleReleaseMeta.\<close>

definition mrm_lookup :: "kyma_lookup \<Rightarrow> ModuleReleaseMeta option \<Rightarrow> (ModuleReleaseMeta \<times> Kyma list) option" where
  "mrm_lookup repo obj =
     (case obj of
        None \<Rightarrow> None
      | Some mrm \<Rightarrow> (case repo ManagedBy OperatorName of Inl e \<Rightarrow> None | Inr kymas \<Rightarrow> Some (mrm, kymas)))"

definition mrm_Create :: "kyma_lookup \<Rightarrow> resolver \<Rightarrow> ModuleReleaseMeta option \<Rightarrow> queue_op list" where
  "mrm_Create repo r obj =
     (case mrm_lookup repo obj of None \<Rightarrow> [] | Some (mrm, kymas) \<Rightarrow> requeueKymas (rs_OnCreate r mrm kymas))"

definition mrm_Delete :: "kyma_lookup \<Rightarrow> resolver \<Rightarrow> ModuleReleaseMeta option \<Rightarrow> queue_op list" where
  "mrm_Delete repo r obj =
     (case mrm_lookup repo obj of None \<Rightarrow> [] | Some (mrm, kymas) \<Rightarrow> requeueKymas (rs_OnDelete r mrm kymas))"

definition mrm_Update ::
  "kyma_lookup \<Rightarrow> resolver \<Rightarrow> (nat \<Rightarrow> int \<Rightarrow> int) \<Rightarrow> duration \<Rightarrow> ModuleReleaseMeta option \<Rightarrow> ModuleReleaseMeta option \<Rightarrow> queue_op list" where
  "mrm_Update repo r rnd maxDelay oldObj newObj =
     (case (oldObj, newObj) of
        (Some old, Some new) \<Rightarrow>
          (case repo ManagedBy OperatorName of
             Inl e \<Rightarrow> []
           | Inr kymas \<Rightarrow> requeueKymasWithRandomDelay rnd 0 (rs_OnUpdate r old new kymas) maxDelay)
      | _ \<Rightarrow> [])"

definition mrm_Generic :: "ModuleReleaseMeta option \<Rightarrow> queue_op list" where
  "mrm_Generic obj = []"

section \<open>Changes of templates\<close>

definition uses_template :: "ModuleTemplate \<Rightarrow> ModuleStatus \<Rightarrow> bool" where
  "uses_template t m =
     (case ms_Template m of
        None \<Rightarrow> False
      | Some r \<Rightarrow> to_Name r = om_Name (mt_Meta t) \<and> to_Namespace r = om_Namespace (mt_Meta t) \<and> ms_Channel m \<noteq> [])"

definition filterKymasWithTemplate :: "Kyma list \<Rightarrow> ModuleTemplate \<Rightarrow> Kyma list" where
  "filterKymasWithTemplate kymas t = filter (\<lambda>k. list_ex (uses_template t) (kyma_modules k)) kymas"

definition getRequestItems :: "Kyma list \<Rightarrow> NamespacedName list" where
  "getRequestItems kymas = map Kyma_NamespacedName kymas"

definition template_Watch :: "kyma_lookup \<Rightarrow> ModuleTemplate option \<Rightarrow> NamespacedName list" where
  "template_Watch repo obj =
     (case obj of
        None \<Rightarrow> []
      | Some t \<Rightarrow> (case repo ManagedBy OperatorName of
                    Inl e \<Rightarrow> []
                  | Inr kymas \<Rightarrow> getRequestItems (filterKymasWithTemplate kymas t)))"

section \<open>The contract of a resolver\<close>

locale kymas_resolver =
  fixes r :: resolver
  assumes OnCreate_listed: "set (rs_OnCreate r mrm kymas) \<subseteq> Kyma_NamespacedName ` set kymas"
    and OnUpdate_listed: "set (rs_OnUpdate r old new kymas) \<subseteq> Kyma_NamespacedName ` set kymas"
    and OnDelete_listed: "set (rs_OnDelete r mrm kymas) \<subseteq> Kyma_NamespacedName ` set kymas"
    and OnUpdate_once: "distinct (map Kyma_NamespacedName kymas) \<Longrightarrow> distinct (rs_OnUpdate r old new kymas)"
begin

lemma requeue_requests: "map queue_request (requeueKymasWithRandomDelay rnd i ns maxDelay) = ns"
  by (induction ns arbitrary: i) auto

lemma requeue_delays:
  assumes "rand_ok rnd" and "q \<in> set (requeueKymasWithRandomDelay rnd i ns maxDelay)"
  shows "case q of QueueAdd n \<Rightarrow> maxDelay \<le> 0 | QueueAddAfter n d \<Rightarrow> 0 \<le> d \<and> d < maxDelay"
  using assms(2) by (induction ns arbitrary: i) (use assms(1) in \<open>auto simp: rand_ok_def split: if_splits\<close>)

lemma Update_spread:
  assumes "repo ManagedBy OperatorName = Inr kymas" and "distinct (map Kyma_NamespacedName kymas)"
    and "rand_ok rnd"
  shows "distinct (map queue_request (mrm_Update repo r rnd maxDelay (Some old) (Some new)))
    \<and> (\<forall>q \<in> set (mrm_Update repo r rnd maxDelay (Some old) (Some new)). queue_request q \<in> Kyma_NamespacedName ` set kymas
         \<and> (case q of QueueAdd n \<Rightarrow> maxDelay \<le> 0 | QueueAddAfter n d \<Rightarrow> 0 \<le> d \<and> d < maxDelay))"
proof (intro conjI ballI)
  have upd: "mrm_Update repo r rnd maxDelay (Some old) (Some new) =
      requeueKymasWithRandomDelay rnd 0 (rs_OnUpdate r old new kymas) maxDelay"
    using assms(1) by (simp add: mrm_Update_def)
  show "distinct (map queue_request (mrm_Update repo r rnd maxDelay (Some old) (Some new)))"
    unfolding upd requeue_requests by (rule OnUpdate_once [OF assms(2)])
  fix q assume q: "q \<in> set (mrm_Update repo r rnd maxDelay (Some old) (Some new))"
  then have "queue_request q \<in> set (map queue_request (requeueKymasWithRandomDelay rnd 0 (rs_OnUpdate r old new kymas) maxDelay))"
    unfolding upd by simp
  then show "queue_request q \<in> Kyma_NamespacedName ` set kymas"
    unfolding requeue_requests using OnUpdate_listed by blast
  show "case q of QueueAdd n \<Rightarrow> maxDelay \<le> 0 | QueueAddAfter n d \<Rightarrow> 0 \<le> d \<and> d < maxDelay"
    using requeue_delays [OF assms(3)] q unfolding upd by blast
qed

end

interpretation regular: kymas_resolver "RegularResolver keys" for keys
  by unfold_locales
    (auto simp: RegularResolver_def AffectedKymasOnUpdate_def AffectedKymasOnDelete_def getAffectedKymas_def
      distinct_map inj_on_def)

interpretation mandatory: kymas_resolver MandatoryResolver
  by unfold_locales (auto simp: MandatoryResolver_def mandatoryAffectedKymas_def split: if_splits)

section \<open>Properties\<close>

lemma channel_versions_map_of:
  "channel_versions cs m = m ++ map_of (rev (map (\<lambda>c. (cva_Channel c, cva_Version c)) cs))"
  by (induction cs arbitrary: m) (simp_all add: map_add_upd_left)

text \<open>The version that a ModuleReleaseMeta assigns to a channel: the last assignment counts.\<close>

definition version_of :: "ModuleReleaseMeta \<Rightarrow> string \<Rightarrow> string option" where
  "version_of mrm ch = map_of (rev (map (\<lambda>c. (cva_Channel c, cva_Version c)) (mrm_Channels mrm))) ch"

text \<open>The iteration over the channels of a ModuleReleaseMeta visits every key.\<close>

definition is_iteration :: "((string \<rightharpoonup> string) \<Rightarrow> string list) \<Rightarrow> ModuleReleaseMeta \<Rightarrow> bool" where
  "is_iteration keys mrm \<longleftrightarrow>
     set (keys (channel_versions (mrm_Channels mrm) Map.empty)) = dom (channel_versions (mrm_Channels mrm) Map.empty)"

lemma diff_channels:
  assumes "is_iteration keys old" and "is_iteration keys new"
  shows "set (diffModuleReleaseMetaChannels keys old new) = {ch. version_of old ch \<noteq> version_of new ch}"
proof -
  have v: "channel_versions (mrm_Channels m) Map.empty = version_of m" for m
    by (rule ext) (simp add: channel_versions_map_of version_of_def)
  have k: "set (keys (version_of old)) = dom (version_of old)" "set (keys (version_of new)) = dom (version_of new)"
    using assms by (simp_all add: is_iteration_def v)
  show ?thesis
    unfolding diffModuleReleaseMetaChannels_def v Let_def findAddedOrModifiedChannels_def findDeletedChannels_def set_append set_filter k
    by (auto split: option.splits)
qed

text \<open>Which Kymas an update of a ModuleReleaseMeta reaches: exactly the ones whose status has the module on a channel
  (its own, or else the one of the Kyma) for which the assigned version has changed, appeared or disappeared.\<close>

theorem AffectedKymasOnUpdate_exact:
  assumes "is_iteration keys old" and "is_iteration keys new"
  shows "set (AffectedKymasOnUpdate keys old new kymas) =
    {Kyma_NamespacedName k | k. k \<in> set kymas \<and> (\<exists>m \<in> set (kyma_modules k). ms_Name m = mrm_ModuleName new
       \<and> (let ch = getModuleChannel (ms_Channel m) (ks_Channel (kyma_Spec k)) in version_of old ch \<noteq> version_of new ch))}"
  using diff_channels [OF assms]
  by (auto simp: AffectedKymasOnUpdate_def getAffectedKymas_def list_ex_iff module_affected_def Let_def)

text \<open>An update of a ModuleReleaseMeta does not flood the queue: for regular and for mandatory modules every
  Kyma is enqueued at most once, only Kymas that the repository listed are enqueued, and when a maximal delay is
  configured every request is delayed by at least zero and less than the maximum.\<close>

theorem mrm_Update_spread:
  assumes "r = RegularResolver keys \<or> r = MandatoryResolver"
    and "repo ManagedBy OperatorName = Inr kymas" and "distinct (map Kyma_NamespacedName kymas)"
    and "rand_ok rnd"
  shows "distinct (map queue_request (mrm_Update repo r rnd maxDelay (Some old) (Some new)))
    \<and> (\<forall>q \<in> set (mrm_Update repo r rnd maxDelay (Some old) (Some new)). queue_request q \<in> Kyma_NamespacedName ` set kymas
         \<and> (case q of QueueAdd n \<Rightarrow> maxDelay \<le> 0 | QueueAddAfter n d \<Rightarrow> 0 \<le> d \<and> d < maxDelay))"
  using assms(1)
proof
  assume r: "r = RegularResolver keys"
  show ?thesis unfolding r by (rule regular.Update_spread [where repo = repo, OF assms(2-4)])
next
  assume r: "r = MandatoryResolver"
  show ?thesis unfolding r by (rule mandatory.Update_spread [where repo = repo, OF assms(2-4)])
qed

section \<open>Witnesses\<close>

definition ex_release :: "string \<Rightarrow> ModuleReleaseMeta" where
  "ex_release version = \<lparr>mrm_Meta = \<lparr>om_Name = ''istio'', om_Namespace = ''kcp-system'', om_Labels = Map.empty,
     om_Annotations = Map.empty, om_Finalizers = [], om_DeletionTimestamp = None, om_Generation = 1, om_OwnerReferences = [],
     om_ManagedFields = []\<rparr>, mrm_ModuleName = ''istio'', mrm_OcmComponentName = ''kyma-project.io/istio'',
     mrm_Channels = [\<lparr>cva_Channel = ''regular'', cva_Version = version\<rparr>, \<lparr>cva_Channel = ''fast'', cva_Version = ''2.0.0''\<rparr>],
     mrm_Mandatory = None, mrm_Beta = False, mrm_Internal = False, mrm_KymaSelector = None\<rparr>"

definition ex_channel_keys :: "(string \<rightharpoonup> string) \<Rightarrow> string list" where
  "ex_channel_keys m = filter (\<lambda>ch. m ch \<noteq> None) [''fast'', ''regular'']"

lemma ex_iteration: "is_iteration ex_channel_keys (ex_release v)"
  by (auto simp: is_iteration_def ex_channel_keys_def ex_release_def)

definition ex_kyma_on :: "string \<Rightarrow> string \<Rightarrow> Kyma" where
  "ex_kyma_on name channel = set_modules [\<lparr>ms_Name = ''istio'', ms_FQDN = [], ms_OCMComponentName = [], ms_Channel = channel,
      ms_Version = ''1.0.0'', ms_Message = [], ms_State = StateReady, ms_Manifest = None, ms_Resource = None,
      ms_Template = None, ms_Maintenance = False\<rparr>]
     (ex_bare_kyma\<lparr>kyma_Meta := (kyma_Meta ex_bare_kyma)\<lparr>om_Name := name\<rparr>\<rparr>)"

theorem AffectedKymasOnUpdate_exact_witness:
  "AffectedKymasOnUpdate ex_channel_keys (ex_release ''1.0.0'') (ex_release ''1.1.0'') [ex_kyma_on ''a'' ''fast'', ex_kyma_on ''b'' ''regular'']
     = [Kyma_NamespacedName (ex_kyma_on ''b'' ''regular'')]
   \<and> Kyma_NamespacedName (ex_kyma_on ''b'' ''regular'') \<in> {Kyma_NamespacedName k | k. k \<in> set [ex_kyma_on ''a'' ''fast'', ex_kyma_on ''b'' ''regular'']
       \<and> (\<exists>m \<in> set (kyma_modules k). ms_Name m = mrm_ModuleName (ex_release ''1.1.0'')
       \<and> (let ch = getModuleChannel (ms_Channel m) (ks_Channel (kyma_Spec k)) in
            version_of (ex_release ''1.0.0'') ch \<noteq> version_of (ex_release ''1.1.0'') ch))}"
proof -
  have run: "AffectedKymasOnUpdate ex_channel_keys (ex_release ''1.0.0'') (ex_release ''1.1.0'') [ex_kyma_on ''a'' ''fast'', ex_kyma_on ''b'' ''regular'']
     = [Kyma_NamespacedName (ex_kyma_on ''b'' ''regular'')]"
    by code_simp
  then show ?thesis
    unfolding AffectedKymasOnUpdate_exact [OF ex_iteration ex_iteration, symmetric] by simp
qed

theorem mrm_Update_spread_witness:
  "distinct (map queue_request (mrm_Update (\<lambda>l v. Inr [ex_kyma_on ''a'' [], ex_kyma_on ''b'' []]) MandatoryResolver (\<lambda>i n. n - 1) 10
     (Some (ex_release ''1.0.0'')) (Some ((ex_release ''1.1.0'')\<lparr>mrm_Mandatory := Some ''1.1.0''\<rparr>))))"
proof -
  have "rand_ok (\<lambda>i n. n - 1)" by (simp add: rand_ok_def)
  moreover have "distinct (map Kyma_NamespacedName [ex_kyma_on ''a'' [], ex_kyma_on ''b'' []])"
    by (simp add: Kyma_NamespacedName_def ex_kyma_on_def set_modules_def)
  ultimately show ?thesis
    using mrm_Update_spread [of MandatoryResolver ex_channel_keys "\<lambda>l v. Inr [ex_kyma_on ''a'' [], ex_kyma_on ''b'' []]"] by blast
qed

end
