(* ===== verification/CertBundle.thy ===== *)
theory CertBundle
  imports Util
begin

text \<open>
  The certificate authority of the watcher: the bundle of CA certificates in the secret of the istio gateway
  (\<^verbatim>\<open>internal/service/watcher/certificate/bundler.go\<close>, \<^verbatim>\<open>internal/gatewaysecret\<close>) and the controller that
  keeps it up to date when cert-manager rotates the root secret (\<^verbatim>\<open>internal/controller/istiogatewaysecret\<close>).

  PEM and X.509 are libraries and parameters: \<open>pem_ok\<close> says that decoding finds the block that encoding wrote and
  makes progress, \<open>x509_ok\<close> that a parsed certificate keeps its bytes. Instants are nanoseconds. The loop that decodes a
  bundle runs on fuel, the length of the bundle, which is proved to be enough.
\<close>

section \<open>Secrets\<close>

text \<open>
  A value in the data of a secret is a slice of bytes that may be nil; so may be the map itself.
\<close>

type_synonym bytes = "string option"

record Secret =
  sec_Name :: string
  sec_Namespace :: string
  sec_Labels :: labels
  sec_Annotations :: labels
  sec_ResourceVersion :: string
  sec_Data :: "(string \<rightharpoonup> bytes) option"

definition sec_get :: "Secret \<Rightarrow> string \<Rightarrow> bytes" where
  "sec_get s key = (case sec_Data s of None \<Rightarrow> None | Some m \<Rightarrow> (case m key of None \<Rightarrow> None | Some b \<Rightarrow> b))"

definition sec_put :: "string \<Rightarrow> bytes \<Rightarrow> Secret \<Rightarrow> goerror + Secret" where
  "sec_put key b s = (case sec_Data s of None \<Rightarrow> Inl nilMapWrite | Some m \<Rightarrow> Inr (s\<lparr>sec_Data := Some (m(key \<mapsto> b))\<rparr>))"

definition content :: "bytes \<Rightarrow> string" where
  "content b = (case b of None \<Rightarrow> [] | Some s \<Rightarrow> s)"

definition IstioNamespace :: string where "IstioNamespace = ''istio-system''"
definition GatewaySecretName :: string where "GatewaySecretName = ''klm-istio-gateway''"
definition CaAddedToBundleAtAnnotation :: string where "CaAddedToBundleAtAnnotation = ''caAddedToBundleAt''"
definition CACrt :: string where "CACrt = ''ca.crt''"
definition TLSCertKey :: string where "TLSCertKey = ''tls.crt''"
definition TLSPrivateKeyKey :: string where "TLSPrivateKeyKey = ''tls.key''"

section \<open>Bundler\<close>

record pem_block =
  pb_Type :: string
  pb_Headers :: "(string \<times> string) list"
  pb_Bytes :: string

text \<open>A certificate, with the instant after which it is not valid; \<open>None\<close> is the zero time.\<close>

record x509 =
  xc_Raw :: string
  xc_NotAfter :: "int option"

record pki =
  pk_Decode :: "string \<Rightarrow> pem_block option \<times> string"
  pk_EncodeToMemory :: "pem_block \<Rightarrow> string"
  pk_ParseCertificate :: "string \<Rightarrow> goerror + x509"

definition certificateBlockType :: string where "certificateBlockType = ''CERTIFICATE''"
definition ErrInvalidPEM :: goerror where
  "ErrInvalidPEM = Sentinel ''ErrInvalidPEM'' ''invalid PEM''"
definition ErrFailedToParseX509 :: goerror where
  "ErrFailedToParseX509 = Sentinel ''ErrFailedToParseX509'' ''failed to parse x509 certificate''"
definition ErrX509NotAfterIsZero :: goerror where
  "ErrX509NotAfterIsZero = Sentinel ''ErrX509NotAfterIsZero'' ''x509 certificate NotAfter is zero''"

text \<open>The loop would not end if decoding did not consume anything.\<close>

definition decodeDiverges :: goerror where
  "decodeDiverges = Sentinel ''decodeDiverges'' ''the loop over the blocks does not end''"

fun decode_loop :: "pki \<Rightarrow> nat \<Rightarrow> string \<Rightarrow> goerror + pem_block list" where
  "decode_loop pk fuel [] = Inr []"
| "decode_loop pk 0 (c # cs) = Inl decodeDiverges"
| "decode_loop pk (Suc fuel) (c # cs) =
     (case pk_Decode pk (c # cs) of
        (None, rest) \<Rightarrow> Inl ErrInvalidPEM
      | (Some b, rest) \<Rightarrow> (case decode_loop pk fuel rest of Inl e \<Rightarrow> Inl e | Inr bs \<Rightarrow> Inr (b # bs)))"

definition decodeCertsToPEM :: "pki \<Rightarrow> string \<Rightarrow> goerror + pem_block list" where
  "decodeCertsToPEM pk bundle = decode_loop pk (length bundle) bundle"

definition encodePEMToBytes :: "pki \<Rightarrow> pem_block list \<Rightarrow> string" where
  "encodePEMToBytes pk certs = concat (map (pk_EncodeToMemory pk) certs)"

definition containsCert :: "pem_block list \<Rightarrow> pem_block \<Rightarrow> bool" where
  "containsCert certs new = list_ex (\<lambda>c. pb_Bytes c = pb_Bytes new) certs"

definition prependCert :: "pem_block list \<Rightarrow> pem_block \<Rightarrow> pem_block list" where
  "prependCert certs new = new # certs"

text \<open>The bundle afterwards, and whether the certificate was added.\<close>

definition Bundle :: "pki \<Rightarrow> string \<Rightarrow> string \<Rightarrow> goerror + string \<times> bool" where
  "Bundle pk bundle newCert =
     (case pk_Decode pk newCert of
        (None, _) \<Rightarrow> Inl (wrapErr ''invalid newCert: '' ErrInvalidPEM)
      | (Some new, _) \<Rightarrow>
          (case decodeCertsToPEM pk bundle of
             Inl e \<Rightarrow> Inl (wrapErr ''invalid bundle: '' e)
           | Inr certs \<Rightarrow>
               if containsCert certs new then Inr (bundle, False)
               else Inr (encodePEMToBytes pk (prependCert certs new), True)))"

fun decodePEMToX509 :: "pki \<Rightarrow> pem_block list \<Rightarrow> goerror + x509 list" where
  "decodePEMToX509 pk [] = Inr []"
| "decodePEMToX509 pk (b # bs) =
     (case pk_ParseCertificate pk (pb_Bytes b) of
        Inl e \<Rightarrow> Inl (errors_Join ErrFailedToParseX509 e)
      | Inr c \<Rightarrow> (case decodePEMToX509 pk bs of Inl e \<Rightarrow> Inl e | Inr cs \<Rightarrow> Inr (c # cs)))"

definition encodeX509ToPEM :: "x509 list \<Rightarrow> pem_block list" where
  "encodeX509ToPEM certs = map (\<lambda>c. \<lparr>pb_Type = certificateBlockType, pb_Headers = [], pb_Bytes = xc_Raw c\<rparr>) certs"

definition expired :: "int \<Rightarrow> x509 \<Rightarrow> goerror + bool" where
  "expired now c = (case xc_NotAfter c of None \<Rightarrow> Inl ErrX509NotAfterIsZero | Some t \<Rightarrow> Inr (t < now))"

text \<open>The clock is read for every certificate; \<open>clock i\<close> is the \<open>i\<close>-th reading.\<close>

fun drop_expired :: "(nat \<Rightarrow> int) \<Rightarrow> nat \<Rightarrow> x509 list \<Rightarrow> goerror + x509 list" where
  "drop_expired clock i [] = Inr []"
| "drop_expired clock i (c # cs) =
     (case expired (clock i) c of
        Inl e \<Rightarrow> Inl e
      | Inr old \<Rightarrow> (case drop_expired clock (Suc i) cs of Inl e \<Rightarrow> Inl e | Inr valid \<Rightarrow> Inr (if old then valid else c # valid)))"

definition DropExpiredCerts :: "pki \<Rightarrow> (nat \<Rightarrow> int) \<Rightarrow> string \<Rightarrow> goerror + string \<times> bool" where
  "DropExpiredCerts pk clock bundle =
     (case decodeCertsToPEM pk bundle of
        Inl e \<Rightarrow> Inl e
      | Inr blocks \<Rightarrow>
          (case decodePEMToX509 pk blocks of
             Inl e \<Rightarrow> Inl e
           | Inr certs \<Rightarrow>
               (case drop_expired clock 0 certs of
                  Inl e \<Rightarrow> Inl e
                | Inr valid \<Rightarrow>
                    if length valid = length certs then Inr (bundle, False)
                    else Inr (encodePEMToBytes pk (encodeX509ToPEM valid), True))))"

section \<open>Client of the gateway secret\<close>

record 'w secret_api =
  sa_Get :: "'w \<Rightarrow> string \<Rightarrow> string \<Rightarrow> goerror + Secret"
  sa_Create :: "Secret \<Rightarrow> 'w \<Rightarrow> 'w \<times> goerror option"
  sa_Update :: "Secret \<Rightarrow> 'w \<Rightarrow> 'w \<times> goerror option"
  sa_Delete :: "string \<Rightarrow> string \<Rightarrow> 'w \<Rightarrow> 'w \<times> goerror option"

definition errInvalidGatewaySecret :: goerror where
  "errInvalidGatewaySecret = Sentinel ''errInvalidGatewaySecret'' ''invalid gateway secret''"

definition ensureGatewaySecret :: "Secret \<Rightarrow> goerror option" where
  "ensureGatewaySecret s =
     (if sec_Name s \<noteq> GatewaySecretName
      then Some (wrapErr (''expected name '' @ sec_Name s @ '' to be '' @ GatewaySecretName @ '': '') errInvalidGatewaySecret)
      else if sec_Namespace s \<noteq> IstioNamespace
      then Some (wrapErr (''expected namespace '' @ sec_Namespace s @ '' to be '' @ IstioNamespace @ '': '') errInvalidGatewaySecret)
      else None)"

definition GetGatewaySecret :: "'w secret_api \<Rightarrow> 'w \<Rightarrow> goerror + Secret" where
  "GetGatewaySecret c w =
     (case sa_Get c w GatewaySecretName IstioNamespace of
        Inl e \<Rightarrow> Inl (wrapErr (''failed to get gateway secret '' @ GatewaySecretName @ '': '') e)
      | Inr s \<Rightarrow> Inr s)"

definition CreateGatewaySecret :: "'w secret_api \<Rightarrow> Secret \<Rightarrow> 'w \<Rightarrow> 'w \<times> goerror option" where
  "CreateGatewaySecret c s w =
     (case ensureGatewaySecret s of
        Some e \<Rightarrow> (w, Some e)
      | None \<Rightarrow>
          (case sa_Create c s w of
             (w', Some e) \<Rightarrow> (w', Some (wrapErr (''failed to create gateway secret '' @ sec_Name s @ '': '') e))
           | (w', None) \<Rightarrow> (w', None)))"

definition UpdateGatewaySecret :: "'w secret_api \<Rightarrow> Secret \<Rightarrow> 'w \<Rightarrow> 'w \<times> goerror option" where
  "UpdateGatewaySecret c s w =
     (case ensureGatewaySecret s of
        Some e \<Rightarrow> (w, Some e)
      | None \<Rightarrow>
          (case sa_Update c s w of
             (w', Some e) \<Rightarrow> (w', Some (wrapErr (''failed to update gateway secret '' @ sec_Name s @ '': '') e))
           | (w', None) \<Rightarrow> (w', None)))"

section \<open>Handler\<close>

definition ErrGatewaySecretMissingBundleTimeAnnotation :: goerror where
  "ErrGatewaySecretMissingBundleTimeAnnotation = Sentinel ''ErrGatewaySecretMissingBundleTimeAnnotation''
     ''gateway secret missing caAddedToBundleAt annotation''"
definition ErrServerCertificateParsingFailure :: goerror where
  "ErrServerCertificateParsingFailure = Sentinel ''ErrServerCertificateParsingFailure''
     ''failed to parse server certificate from gateway secret''"

text \<open>The readings of the clock during one run, and the time format.\<close>

record clock =
  ck_annotate :: int
  ck_expired :: "nat \<Rightarrow> int"
  ck_switch :: int
  ck_window :: int

record time_format =
  tf_Format :: "int \<Rightarrow> string"
  tf_Parse :: "string \<Rightarrow> goerror + int"

record handler_config =
  hc_pki :: pki
  hc_time :: time_format
  hc_serverCertSwitchGracePeriod :: duration
  hc_serverCertExpiryWindow :: duration

definition setCaBundleTimeAnnotationToNow :: "time_format \<Rightarrow> int \<Rightarrow> Secret \<Rightarrow> Secret" where
  "setCaBundleTimeAnnotationToNow tf now s =
     s\<lparr>sec_Annotations := (sec_Annotations s)(CaAddedToBundleAtAnnotation \<mapsto> tf_Format tf now)\<rparr>"

definition getCaBundledAt :: "time_format \<Rightarrow> Secret \<Rightarrow> goerror + int" where
  "getCaBundledAt tf s =
     (case sec_Annotations s CaAddedToBundleAtAnnotation of
        None \<Rightarrow> Inl ErrGatewaySecretMissingBundleTimeAnnotation
      | Some v \<Rightarrow>
          (case tf_Parse tf v of
             Inl e \<Rightarrow> Inl (wrapErr ''failed to parse caAddedToBundleAt annotation: '' e)
           | Inr t \<Rightarrow> Inr t))"

definition requiresCertSwitching :: "handler_config \<Rightarrow> int \<Rightarrow> int \<Rightarrow> bool" where
  "requiresCertSwitching h now caBundledAt = (now > caBundledAt + hc_serverCertSwitchGracePeriod h)"

definition bundleCACerts :: "handler_config \<Rightarrow> Secret \<Rightarrow> Secret \<Rightarrow> goerror + Secret \<times> bool" where
  "bundleCACerts h gw root =
     (case Bundle (hc_pki h) (content (sec_get gw CACrt)) (content (sec_get root TLSCertKey)) of
        Inl e \<Rightarrow> Inl (wrapErr (''failed to bundle root secret'' @ [CHR 0x27] @ ''s tls.crt into gateway secret''
                   @ [CHR 0x27] @ ''s ca.crt: '') e)
      | Inr (_, False) \<Rightarrow> Inr (gw, False)
      | Inr (bundle, True) \<Rightarrow> (case sec_put CACrt (Some bundle) gw of Inl e \<Rightarrow> Inl e | Inr gw' \<Rightarrow> Inr (gw', True)))"

definition dropExpiredCertsFromBundle :: "handler_config \<Rightarrow> (nat \<Rightarrow> int) \<Rightarrow> Secret \<Rightarrow> goerror + Secret" where
  "dropExpiredCertsFromBundle h clock gw =
     (case DropExpiredCerts (hc_pki h) clock (content (sec_get gw CACrt)) of
        Inl e \<Rightarrow> Inl (wrapErr (''failed to drop expired certs from gateway secret'' @ [CHR 0x27] @ ''s ca.crt: '') e)
      | Inr (_, False) \<Rightarrow> Inr gw
      | Inr (bundle, True) \<Rightarrow> sec_put CACrt (Some bundle) gw)"

definition switchCertificate :: "Secret \<Rightarrow> Secret \<Rightarrow> goerror + Secret" where
  "switchCertificate gw root =
     (case sec_put TLSCertKey (sec_get root TLSCertKey) gw of
        Inl e \<Rightarrow> Inl e
      | Inr gw1 \<Rightarrow> sec_put TLSPrivateKeyKey (sec_get root TLSPrivateKeyKey) gw1)"

text \<open>A time that is zero is before every other time.\<close>

definition serverCertCloseToExpiry :: "handler_config \<Rightarrow> int \<Rightarrow> Secret \<Rightarrow> goerror + bool" where
  "serverCertCloseToExpiry h now gw =
     (case pk_Decode (hc_pki h) (content (sec_get gw TLSCertKey)) of
        (None, _) \<Rightarrow> Inl ErrServerCertificateParsingFailure
      | (Some b, _) \<Rightarrow>
          (case pk_ParseCertificate (hc_pki h) (pb_Bytes b) of
             Inl e \<Rightarrow> Inl (Errorf [Wrap ErrServerCertificateParsingFailure, Lit '': '', Wrap e])
           | Inr c \<Rightarrow> Inr (case xc_NotAfter c of None \<Rightarrow> True
                            | Some t \<Rightarrow> now + hc_serverCertExpiryWindow h > t)))"

definition createGatewaySecretFromRootSecret :: "'w secret_api \<Rightarrow> handler_config \<Rightarrow> clock \<Rightarrow> Secret \<Rightarrow> 'w \<Rightarrow> 'w \<times> goerror option" where
  "createGatewaySecretFromRootSecret c h ck root w =
     CreateGatewaySecret c (setCaBundleTimeAnnotationToNow (hc_time h) (ck_annotate ck)
       \<lparr>sec_Name = GatewaySecretName, sec_Namespace = IstioNamespace, sec_Labels = Map.empty, sec_Annotations = Map.empty,
        sec_ResourceVersion = [],
        sec_Data = Some [TLSCertKey \<mapsto> sec_get root TLSCertKey, TLSPrivateKeyKey \<mapsto> sec_get root TLSPrivateKeyKey,
          CACrt \<mapsto> sec_get root CACrt]\<rparr>) w"

text \<open>The new gateway secret: everything between reading it and writing it back.\<close>

definition rotated :: "handler_config \<Rightarrow> clock \<Rightarrow> Secret \<Rightarrow> Secret \<Rightarrow> goerror + Secret" where
  "rotated h ck gw root =
     (case bundleCACerts h gw root of
        Inl e \<Rightarrow> Inl e
      | Inr (gw1, bundled) \<Rightarrow>
          (case dropExpiredCertsFromBundle h (ck_expired ck)
                  (if bundled then setCaBundleTimeAnnotationToNow (hc_time h) (ck_annotate ck) gw1 else gw1) of
             Inl e \<Rightarrow> Inl e
           | Inr gw2 \<Rightarrow>
               (case getCaBundledAt (hc_time h) gw2 of
                  Inl e \<Rightarrow> Inl e
                | Inr caBundledAt \<Rightarrow>
                    if requiresCertSwitching h (ck_switch ck) caBundledAt then switchCertificate gw2 root else Inr gw2)))"

definition ManageGatewaySecret :: "'w secret_api \<Rightarrow> handler_config \<Rightarrow> clock \<Rightarrow> Secret \<Rightarrow> 'w \<Rightarrow> 'w \<times> goerror option" where
  "ManageGatewaySecret c h ck root w =
     (case GetGatewaySecret c w of
        Inl e \<Rightarrow> if IsNotFound (Some e) then createGatewaySecretFromRootSecret c h ck root w else (w, Some e)
      | Inr gw \<Rightarrow>
          (case rotated h ck gw root of
             Inl e \<Rightarrow> (w, Some e)
           | Inr gw' \<Rightarrow>
               (case serverCertCloseToExpiry h (ck_window ck) gw' of
                  Inl e \<Rightarrow> (w, Some e)
                | Inr close \<Rightarrow> UpdateGatewaySecret c gw' w)))"

section \<open>Controller\<close>

definition ErrSecretNotFound :: goerror where
  "ErrSecretNotFound = Sentinel ''ErrSecretNotFound'' ''root secret not found''"
definition kcpRootSecretName :: string where "kcpRootSecretName = ''klm-watcher''"

definition isRootSecret :: "Secret \<Rightarrow> bool" where
  "isRootSecret s = (sec_Namespace s = IstioNamespace \<and> sec_Name s = kcpRootSecretName)"

definition getRootSecret :: "'w secret_api \<Rightarrow> 'w \<Rightarrow> NamespacedName \<Rightarrow> goerror + Secret option" where
  "getRootSecret c w n =
     (case sa_Get c w (snd n) (fst n) of
        Inl e \<Rightarrow> Inl (wrapErr ''failed to get root gateway secret '' e)
      | Inr s \<Rightarrow> Inr (Some s))"

definition gatewaysecret_Reconcile ::
  "('w \<Rightarrow> NamespacedName \<Rightarrow> goerror + Secret option) \<Rightarrow> 'w secret_api \<Rightarrow> handler_config \<Rightarrow> clock \<Rightarrow> RequeueIntervals
     \<Rightarrow> NamespacedName \<Rightarrow> 'w \<Rightarrow> 'w \<times> reconcile_result" where
  "gatewaysecret_Reconcile getRoot c h ck iv n w =
     (case getRoot w n of
        Inl e \<Rightarrow> (w, no_requeue, Some (wrapErr ''failed to get istio gateway root secret: '' e))
      | Inr None \<Rightarrow> (w, requeue (ri_Error iv), Some ErrSecretNotFound)
      | Inr (Some root) \<Rightarrow>
          (case ManageGatewaySecret c h ck root w of
             (w', Some e) \<Rightarrow> (w', requeue (ri_Error iv), Some (wrapErr ''failed to manage gateway secret: '' e))
           | (w', None) \<Rightarrow> (w', requeue (ri_Success iv), None)))"

section \<open>Library contracts\<close>

text \<open>
  What \<^verbatim>\<open>encoding/pem\<close> documents: decoding returns the next block and the remainder, and finds what encoding
  wrote. \<open>valid\<close> are the blocks that can be encoded; blocks without headers can.
\<close>

definition pem_ok :: "pki \<Rightarrow> (pem_block \<Rightarrow> bool) \<Rightarrow> bool" where
  "pem_ok pk valid \<longleftrightarrow>
     (\<forall>b rest. valid b \<longrightarrow> pk_Decode pk (pk_EncodeToMemory pk b @ rest) = (Some b, rest) \<and> pk_EncodeToMemory pk b \<noteq> [])
   \<and> (\<forall>s b rest. pk_Decode pk s = (Some b, rest) \<longrightarrow> valid b \<and> length rest < length s)
   \<and> (\<forall>bs. valid \<lparr>pb_Type = certificateBlockType, pb_Headers = [], pb_Bytes = bs\<rparr>)"

text \<open>A parsed certificate holds the bytes it was parsed from (\<^verbatim>\<open>Certificate.Raw\<close>).\<close>

definition x509_ok :: "pki \<Rightarrow> bool" where
  "x509_ok pk \<longleftrightarrow> (\<forall>b c. pk_ParseCertificate pk b = Inr c \<longrightarrow> xc_Raw c = b)"

text \<open>The format \<^verbatim>\<open>RFC3339\<close> has no fractions of a second.\<close>

definition time_ok :: "time_format \<Rightarrow> bool" where
  "time_ok tf \<longleftrightarrow> (\<forall>t. tf_Parse tf (tf_Format tf t) = Inr (t - t mod second))"

section \<open>Decoding and encoding\<close>

lemma decode_loop_encode:
  assumes "pem_ok pk valid" and "\<forall>b \<in> set bs. valid b" and "length bs \<le> fuel"
  shows "decode_loop pk fuel (encodePEMToBytes pk bs) = Inr bs"
  using assms(2,3)
proof (induction bs arbitrary: fuel)
  case (Cons b bs)
  let ?rest = "encodePEMToBytes pk bs"
  have dec: "pk_Decode pk (pk_EncodeToMemory pk b @ ?rest) = (Some b, ?rest)" "pk_EncodeToMemory pk b \<noteq> []"
    using assms(1) Cons.prems(1) by (simp_all add: pem_ok_def)
  then obtain c cs where enc: "pk_EncodeToMemory pk b @ ?rest = c # cs" by (cases "pk_EncodeToMemory pk b") auto
  obtain f where f: "fuel = Suc f" using Cons.prems(2) by (cases fuel) auto
  have "decode_loop pk f ?rest = Inr bs" using Cons f by simp
  then have "decode_loop pk (Suc f) (c # cs) = Inr (b # bs)" using dec(1) by (simp add: enc)
  then show ?case using enc by (simp add: encodePEMToBytes_def f)
qed (simp add: encodePEMToBytes_def)

lemma encode_length:
  assumes "pem_ok pk valid" and "\<forall>b \<in> set bs. valid b"
  shows "length bs \<le> length (encodePEMToBytes pk bs)"
  using assms(2)
proof (induction bs)
  case (Cons b bs)
  then have "pk_EncodeToMemory pk b \<noteq> []" using assms(1) by (simp add: pem_ok_def)
  then have "Suc 0 \<le> length (pk_EncodeToMemory pk b)" by (cases "pk_EncodeToMemory pk b") auto
  moreover have "length bs \<le> length (encodePEMToBytes pk bs)" using Cons by simp
  ultimately show ?case unfolding encodePEMToBytes_def by simp
qed simp

lemma decode_encode:
  assumes "pem_ok pk valid" and "\<forall>b \<in> set bs. valid b"
  shows "decodeCertsToPEM pk (encodePEMToBytes pk bs) = Inr bs"
  unfolding decodeCertsToPEM_def by (rule decode_loop_encode [OF assms encode_length [OF assms]])

lemma decode_loop_Cons:
  assumes "decode_loop pk fuel s = Inr bs" and "s \<noteq> []"
  obtains f b rest bs' where "fuel = Suc f" "pk_Decode pk s = (Some b, rest)" "decode_loop pk f rest = Inr bs'" "bs = b # bs'"
  using assms by (cases "(pk, fuel, s)" rule: decode_loop.cases) (auto split: prod.splits option.splits sum.splits)

lemma decode_loop_valid:
  assumes "pem_ok pk valid" and "decode_loop pk fuel s = Inr bs"
  shows "\<forall>b \<in> set bs. valid b"
  using assms(2)
proof (induction bs arbitrary: fuel s)
  case (Cons b bs)
  then have "s \<noteq> []" by auto
  obtain f rest where d: "pk_Decode pk s = (Some b, rest)" "decode_loop pk f rest = Inr bs"
    by (rule decode_loop_Cons [OF Cons.prems \<open>s \<noteq> []\<close>]) auto
  have "valid b" using assms(1) d(1) unfolding pem_ok_def by blast
  then show ?case using Cons.IH [OF d(2)] by simp
qed simp

lemma decode_loop_ends:
  assumes "pem_ok pk valid" and "length s \<le> fuel"
  shows "decode_loop pk fuel s \<noteq> Inl decodeDiverges"
  using assms(2)
proof (induction fuel arbitrary: s)
  case 0
  then show ?case by simp
next
  case (Suc fuel)
  show ?case
  proof (cases s)
    case (Cons c cs)
    obtain d rest where d: "pk_Decode pk s = (d, rest)" by fastforce
    show ?thesis
    proof (cases d)
      case (Some b)
      then have "length rest < length s" using assms(1) d unfolding pem_ok_def by blast
      then have "decode_loop pk fuel rest \<noteq> Inl decodeDiverges" using Suc by auto
      then show ?thesis using d Some Cons by (auto split: sum.splits)
    next
      case None
      then show ?thesis using d Cons by (simp add: ErrInvalidPEM_def decodeDiverges_def)
    qed
  qed simp
qed

text \<open>Reading a bundle of certificates ends, whatever its content: with the fuel that is given the loop never stops
  for lack of fuel, and a bundle that was written is read back block by block.\<close>

theorem decodeCertsToPEM_total:
  assumes "pem_ok pk valid"
  shows "decodeCertsToPEM pk s \<noteq> Inl decodeDiverges \<and>
     (\<forall>bs. (\<forall>b \<in> set bs. valid b) \<longrightarrow> decodeCertsToPEM pk (encodePEMToBytes pk bs) = Inr bs)"
  using decode_loop_ends [OF assms, of s "length s"] decode_encode [OF assms]
  by (simp add: decodeCertsToPEM_def)

section \<open>Adding certificates\<close>

lemma Bundle_cases:
  assumes "pem_ok pk valid" and "Bundle pk bundle newCert = Inr (bundle', added)"
  obtains new rest certs where "pk_Decode pk newCert = (Some new, rest)" "decodeCertsToPEM pk bundle = Inr certs"
    "added = (\<not> containsCert certs new)" "decodeCertsToPEM pk bundle' = Inr (if added then new # certs else certs)"
proof -
  obtain new rest where d: "pk_Decode pk newCert = (Some new, rest)"
    using assms(2) by (auto simp: Bundle_def split: prod.splits option.splits)
  obtain certs where c: "decodeCertsToPEM pk bundle = Inr certs"
    using assms(2) d by (auto simp: Bundle_def split: sum.splits)
  have "\<forall>b \<in> set certs. valid b" using decode_loop_valid [OF assms(1)] c by (simp add: decodeCertsToPEM_def)
  moreover have "valid new" using assms(1) d unfolding pem_ok_def by blast
  ultimately have "decodeCertsToPEM pk (encodePEMToBytes pk (new # certs)) = Inr (new # certs)"
    by (intro decode_encode [OF assms(1)]) auto
  then show ?thesis
    using that [OF d c] assms(2) d c by (auto simp: Bundle_def prependCert_def split: if_splits)
qed

text \<open>Adding a certificate to a bundle: afterwards the bundle is the old one with the certificate in front, unless
  its bytes were there already; the answer tells which. Adding it again changes nothing.\<close>

theorem Bundle_adds_once:
  assumes "pem_ok pk valid" and "Bundle pk bundle newCert = Inr (bundle', added)"
  shows "(\<exists>new rest certs certs'. pk_Decode pk newCert = (Some new, rest) \<and> decodeCertsToPEM pk bundle = Inr certs
       \<and> added = (\<not> containsCert certs new) \<and> decodeCertsToPEM pk bundle' = Inr certs'
       \<and> certs' = (if added then new # certs else certs) \<and> containsCert certs' new)
     \<and> Bundle pk bundle' newCert = Inr (bundle', False)"
proof -
  obtain new rest certs where b: "pk_Decode pk newCert = (Some new, rest)" "decodeCertsToPEM pk bundle = Inr certs"
    "added = (\<not> containsCert certs new)" "decodeCertsToPEM pk bundle' = Inr (if added then new # certs else certs)"
    by (rule Bundle_cases [OF assms])
  moreover have "containsCert (if added then new # certs else certs) new"
    using b(3) by (simp add: containsCert_def)
  ultimately show ?thesis by (auto simp: Bundle_def)
qed

section \<open>Dropping certificates\<close>

definition not_after :: "pki \<Rightarrow> string \<Rightarrow> int option" where
  "not_after pk b = (case pk_ParseCertificate pk b of Inl e \<Rightarrow> None | Inr c \<Rightarrow> xc_NotAfter c)"

lemma decodePEMToX509_Inr:
  assumes "decodePEMToX509 pk blocks = Inr certs"
  shows "map (pk_ParseCertificate pk) (map pb_Bytes blocks) = map Inr certs"
  using assms by (induction blocks arbitrary: certs) (auto split: sum.splits)

lemma drop_expired_set:
  assumes "drop_expired clock i certs = Inr valid" and "\<And>j. lo \<le> clock j \<and> clock j \<le> hi"
  shows "set valid \<subseteq> set certs" and "\<And>c. c \<in> set valid \<Longrightarrow> \<exists>t. xc_NotAfter c = Some t \<and> lo \<le> t"
    and "\<And>c t. c \<in> set certs \<Longrightarrow> xc_NotAfter c = Some t \<Longrightarrow> hi \<le> t \<Longrightarrow> c \<in> set valid"
    and "\<And>c. c \<in> set certs \<Longrightarrow> xc_NotAfter c \<noteq> None" and "length valid = length certs \<Longrightarrow> valid = certs"
proof -
  have "length valid \<le> length certs \<and> set valid \<subseteq> set certs
      \<and> (\<forall>c \<in> set valid. \<exists>t. xc_NotAfter c = Some t \<and> lo \<le> t)
      \<and> (\<forall>c \<in> set certs. \<exists>t. xc_NotAfter c = Some t \<and> (hi \<le> t \<longrightarrow> c \<in> set valid))
      \<and> (length valid = length certs \<longrightarrow> valid = certs)"
    using assms(1)
  proof (induction certs arbitrary: i valid)
    case (Cons c certs)
    obtain t where t: "xc_NotAfter c = Some t" using Cons.prems by (auto simp: expired_def split: option.splits)
    obtain v where v: "drop_expired clock (Suc i) certs = Inr v" "valid = (if t < clock i then v else c # v)"
      using Cons.prems t by (auto simp: expired_def split: sum.splits)
    have lo: "lo \<le> clock i" and hi: "clock i \<le> hi" using assms(2) by blast+
    show ?case
    proof (cases "t < clock i")
      case True
      then have "\<not> hi \<le> t" using hi by simp
      then show ?thesis using Cons.IH [OF v(1)] v(2) True t by auto
    next
      case False
      then show ?thesis using Cons.IH [OF v(1)] v(2) t lo by auto
    qed
  qed simp
  then show "set valid \<subseteq> set certs" "\<And>c. c \<in> set valid \<Longrightarrow> \<exists>t. xc_NotAfter c = Some t \<and> lo \<le> t"
    "\<And>c t. c \<in> set certs \<Longrightarrow> xc_NotAfter c = Some t \<Longrightarrow> hi \<le> t \<Longrightarrow> c \<in> set valid"
    "\<And>c. c \<in> set certs \<Longrightarrow> xc_NotAfter c \<noteq> None" "length valid = length certs \<Longrightarrow> valid = certs"
    by auto
qed

text \<open>The certificates of a bundle, by their bytes.\<close>

definition bundle_certs :: "pki \<Rightarrow> string \<Rightarrow> string set" where
  "bundle_certs pk bundle = (case decodeCertsToPEM pk bundle of Inl e \<Rightarrow> {} | Inr bs \<Rightarrow> pb_Bytes ` set bs)"

lemma DropExpiredCerts_set:
  assumes "pem_ok pk valid" and "x509_ok pk" and "DropExpiredCerts pk clock bundle = Inr (bundle', dropped)"
    and "\<And>j. lo \<le> clock j \<and> clock j \<le> hi"
  shows "bundle_certs pk bundle' \<subseteq> bundle_certs pk bundle
    \<and> (\<forall>b \<in> bundle_certs pk bundle'. \<exists>t. not_after pk b = Some t \<and> lo \<le> t)
    \<and> (\<forall>b \<in> bundle_certs pk bundle. \<forall>t. not_after pk b = Some t \<and> hi \<le> t \<longrightarrow> b \<in> bundle_certs pk bundle')"
proof -
  obtain blocks certs ok where run: "decodeCertsToPEM pk bundle = Inr blocks" "decodePEMToX509 pk blocks = Inr certs"
    "drop_expired clock 0 certs = Inr ok"
    using assms(3) by (auto simp: DropExpiredCerts_def split: sum.splits)
  have parse: "map (pk_ParseCertificate pk) (map pb_Bytes blocks) = map Inr certs"
    by (rule decodePEMToX509_Inr [OF run(2)])
  have bytes: "pb_Bytes ` set blocks = xc_Raw ` set certs" and ofc: "\<And>c. c \<in> set certs \<Longrightarrow> pk_ParseCertificate pk (xc_Raw c) = Inr c"
  proof -
    have "map xc_Raw certs = map pb_Bytes blocks"
    proof (rule nth_equalityI)
      show len: "length (map xc_Raw certs) = length (map pb_Bytes blocks)" using arg_cong [OF parse, of length] by simp
      fix i assume "i < length (map xc_Raw certs)"
      then have "pk_ParseCertificate pk (pb_Bytes (blocks ! i)) = Inr (certs ! i)"
        using arg_cong [OF parse, of "\<lambda>xs. xs ! i"] len by simp
      then show "map xc_Raw certs ! i = map pb_Bytes blocks ! i"
        using assms(2) \<open>i < length (map xc_Raw certs)\<close> len by (simp add: x509_ok_def)
    qed
    then show "pb_Bytes ` set blocks = xc_Raw ` set certs" by (metis set_map)
    show "pk_ParseCertificate pk (xc_Raw c) = Inr c" if "c \<in> set certs" for c
    proof -
      have "Inr c \<in> set (map (pk_ParseCertificate pk) (map pb_Bytes blocks))" using that parse by simp
      then obtain b where "pk_ParseCertificate pk b = Inr c" by auto
      then show ?thesis using assms(2) by (metis x509_ok_def)
    qed
  qed
  have na: "not_after pk (xc_Raw c) = xc_NotAfter c" if "c \<in> set certs" for c
    using ofc [OF that] by (simp add: not_after_def)
  note d = drop_expired_set [OF run(3) assms(4)]
  have old: "bundle_certs pk bundle = xc_Raw ` set certs" using run(1) bytes by (simp add: bundle_certs_def)
  have new: "bundle_certs pk bundle' = xc_Raw ` set ok"
  proof (cases "length ok = length certs")
    case True
    then show ?thesis using assms(3) run d(5) old by (simp add: DropExpiredCerts_def)
  next
    case False
    have "decodeCertsToPEM pk (encodePEMToBytes pk (encodeX509ToPEM ok)) = Inr (encodeX509ToPEM ok)"
      by (rule decode_encode [OF assms(1)]) (use assms(1) in \<open>auto simp: encodeX509ToPEM_def pem_ok_def\<close>)
    then show ?thesis
      using assms(3) run False by (auto simp: DropExpiredCerts_def bundle_certs_def encodeX509ToPEM_def image_image)
  qed
  show ?thesis unfolding old new using d(1-3) na by (auto simp: subset_iff)
qed

section \<open>Rotation\<close>

lemma sec_put_get:
  assumes "sec_put k b s = Inr s'"
  shows "sec_get s' k' = (if k' = k then b else sec_get s k')" and "sec_Annotations s' = sec_Annotations s"
    and "sec_Name s' = sec_Name s" and "sec_Namespace s' = sec_Namespace s"
  using assms by (auto simp: sec_put_def sec_get_def split: option.splits)

lemma secret_keys [simp]: "CACrt \<noteq> TLSCertKey" "TLSCertKey \<noteq> CACrt" "CACrt \<noteq> TLSPrivateKeyKey" "TLSPrivateKeyKey \<noteq> CACrt"
  "TLSCertKey \<noteq> TLSPrivateKeyKey" "TLSPrivateKeyKey \<noteq> TLSCertKey"
  by (simp_all add: CACrt_def TLSCertKey_def TLSPrivateKeyKey_def)

lemma annotation_get [simp]: "sec_get (setCaBundleTimeAnnotationToNow tf now s) k = sec_get s k"
  by (simp add: setCaBundleTimeAnnotationToNow_def sec_get_def)

lemma bundleCACerts_Inr:
  assumes "pem_ok (hc_pki h) valid" and "bundleCACerts h gw root = Inr (gw', bundled)"
    and "pk_Decode (hc_pki h) (content (sec_get root TLSCertKey)) = (Some new, rest)"
  shows "bundle_certs (hc_pki h) (content (sec_get gw' CACrt)) =
      insert (pb_Bytes new) (bundle_certs (hc_pki h) (content (sec_get gw CACrt)))"
    and "bundled = (pb_Bytes new \<notin> bundle_certs (hc_pki h) (content (sec_get gw CACrt)))"
    and "k \<noteq> CACrt \<Longrightarrow> sec_get gw' k = sec_get gw k" and "sec_Annotations gw' = sec_Annotations gw"
proof -
  let ?pk = "hc_pki h" let ?old = "content (sec_get gw CACrt)"
  obtain bdl where b: "Bundle ?pk ?old (content (sec_get root TLSCertKey)) = Inr (bdl, bundled)"
    "if bundled then sec_put CACrt (Some bdl) gw = Inr gw' else gw' = gw"
    using assms(2) by (auto simp: bundleCACerts_def split: sum.splits prod.splits bool.splits)
  obtain certs where c: "decodeCertsToPEM ?pk ?old = Inr certs" "bundled = (\<not> containsCert certs new)"
    "decodeCertsToPEM ?pk bdl = Inr (if bundled then new # certs else certs)"
    by (rule Bundle_cases [OF assms(1) b(1)]) (use assms(3) in auto)
  have known: "containsCert certs new = (pb_Bytes new \<in> bundle_certs ?pk ?old)"
    using c(1) by (auto simp: bundle_certs_def containsCert_def list_ex_iff image_iff) metis
  show "bundled = (pb_Bytes new \<notin> bundle_certs ?pk ?old)" using c(2) known by simp
  show "bundle_certs ?pk (content (sec_get gw' CACrt)) = insert (pb_Bytes new) (bundle_certs ?pk ?old)"
  proof (cases bundled)
    case True
    then have "sec_get gw' CACrt = Some bdl" using b(2) sec_put_get(1) by fastforce
    then show ?thesis using c True by (simp add: bundle_certs_def content_def)
  next
    case False
    then have "gw' = gw" "pb_Bytes new \<in> bundle_certs ?pk ?old" using b(2) c(2) known by simp_all
    then show ?thesis by (simp add: insert_absorb)
  qed
  show "k \<noteq> CACrt \<Longrightarrow> sec_get gw' k = sec_get gw k" "sec_Annotations gw' = sec_Annotations gw"
    using b(2) sec_put_get by (cases bundled; fastforce)+
qed

lemma dropExpired_keeps:
  assumes "dropExpiredCertsFromBundle h clk gw = Inr gw'"
  shows "k \<noteq> CACrt \<Longrightarrow> sec_get gw' k = sec_get gw k" and "sec_Annotations gw' = sec_Annotations gw"
proof -
  have "(\<exists>bdl. sec_put CACrt (Some bdl) gw = Inr gw') \<or> gw' = gw"
  proof (cases "DropExpiredCerts (hc_pki h) clk (content (sec_get gw CACrt))")
    case (Inr r)
    obtain bdl d where "r = (bdl, d)" by fastforce
    then show ?thesis using assms Inr by (cases d) (auto simp: dropExpiredCertsFromBundle_def)
  qed (use assms in \<open>simp add: dropExpiredCertsFromBundle_def\<close>)
  then consider bdl where "sec_put CACrt (Some bdl) gw = Inr gw'" | "gw' = gw" by blast
  then have "(k \<noteq> CACrt \<longrightarrow> sec_get gw' k = sec_get gw k) \<and> sec_Annotations gw' = sec_Annotations gw"
  proof cases
    case (1 bdl)
    then show ?thesis using sec_put_get(1,2) [OF 1] by simp
  qed simp
  then show "k \<noteq> CACrt \<Longrightarrow> sec_get gw' k = sec_get gw k" "sec_Annotations gw' = sec_Annotations gw" by simp_all
qed

lemma dropExpired_Inr:
  assumes "pem_ok (hc_pki h) valid" and "x509_ok (hc_pki h)" and "dropExpiredCertsFromBundle h clk gw = Inr gw'"
    and "\<And>j. lo \<le> clk j \<and> clk j \<le> hi"
  shows "bundle_certs (hc_pki h) (content (sec_get gw' CACrt)) \<subseteq> bundle_certs (hc_pki h) (content (sec_get gw CACrt))"
    and "b \<in> bundle_certs (hc_pki h) (content (sec_get gw' CACrt)) \<Longrightarrow> \<exists>t. not_after (hc_pki h) b = Some t \<and> lo \<le> t"
    and "b \<in> bundle_certs (hc_pki h) (content (sec_get gw CACrt)) \<Longrightarrow> not_after (hc_pki h) b = Some t \<Longrightarrow> hi \<le> t
           \<Longrightarrow> b \<in> bundle_certs (hc_pki h) (content (sec_get gw' CACrt))"
proof -
  obtain bdl d where b: "DropExpiredCerts (hc_pki h) clk (content (sec_get gw CACrt)) = Inr (bdl, d)"
    "if d then sec_put CACrt (Some bdl) gw = Inr gw' else gw' = gw"
    using assms(3) by (auto simp: dropExpiredCertsFromBundle_def split: sum.splits prod.splits bool.splits)
  have "content (sec_get gw' CACrt) = bdl"
  proof (cases d)
    case True
    then have "sec_get gw' CACrt = Some bdl" using b(2) sec_put_get(1) by fastforce
    then show ?thesis by (simp add: content_def)
  next
    case False
    then show ?thesis using b by (auto simp: DropExpiredCerts_def split: sum.splits if_splits)
  qed
  then show "bundle_certs (hc_pki h) (content (sec_get gw' CACrt)) \<subseteq> bundle_certs (hc_pki h) (content (sec_get gw CACrt))"
    "b \<in> bundle_certs (hc_pki h) (content (sec_get gw' CACrt)) \<Longrightarrow> \<exists>t. not_after (hc_pki h) b = Some t \<and> lo \<le> t"
    "b \<in> bundle_certs (hc_pki h) (content (sec_get gw CACrt)) \<Longrightarrow> not_after (hc_pki h) b = Some t \<Longrightarrow> hi \<le> t
           \<Longrightarrow> b \<in> bundle_certs (hc_pki h) (content (sec_get gw' CACrt))"
    using DropExpiredCerts_set [OF assms(1,2) b(1) assms(4)] by blast+
qed

lemma switch_Inr:
  assumes "switchCertificate gw root = Inr gw'"
  shows "sec_get gw' CACrt = sec_get gw CACrt" and "sec_get gw' TLSCertKey = sec_get root TLSCertKey"
    and "sec_get gw' TLSPrivateKeyKey = sec_get root TLSPrivateKeyKey"
proof -
  obtain gw1 where p: "sec_put TLSCertKey (sec_get root TLSCertKey) gw = Inr gw1"
    "sec_put TLSPrivateKeyKey (sec_get root TLSPrivateKeyKey) gw1 = Inr gw'"
    using assms by (auto simp: switchCertificate_def split: sum.splits)
  show "sec_get gw' CACrt = sec_get gw CACrt" "sec_get gw' TLSCertKey = sec_get root TLSCertKey"
    "sec_get gw' TLSPrivateKeyKey = sec_get root TLSPrivateKeyKey"
    unfolding sec_put_get(1) [OF p(2)] sec_put_get(1) [OF p(1)] by simp_all
qed

text \<open>The steps of a rotation that succeeds.\<close>

lemma rotated_steps:
  assumes "rotated h ck gw root = Inr gw'"
  obtains gw1 bundled gw2 at where "bundleCACerts h gw root = Inr (gw1, bundled)"
    "dropExpiredCertsFromBundle h (ck_expired ck)
       (if bundled then setCaBundleTimeAnnotationToNow (hc_time h) (ck_annotate ck) gw1 else gw1) = Inr gw2"
    "getCaBundledAt (hc_time h) gw2 = Inr at"
    "if requiresCertSwitching h (ck_switch ck) at then switchCertificate gw2 root = Inr gw' else gw' = gw2"
  using assms by (auto simp: rotated_def split: sum.splits prod.splits if_splits)

lemma rotated_CACrt:
  assumes "if requiresCertSwitching h t at then switchCertificate gw2 root = Inr gw' else gw' = gw2"
  shows "sec_get gw' CACrt = sec_get gw2 CACrt"
  using assms switch_Inr(1) by (simp split: if_splits)

text \<open>C23. The rotation of the root certificate keeps trust: after a successful run the CA bundle of the gateway holds
  only certificates that were in it before and the certificate of the root secret, none of them expired when the
  run began to look, and no certificate is lost that is still valid at the end of the run.\<close>

theorem rotated_trust:
  assumes "pem_ok (hc_pki h) valid" and "x509_ok (hc_pki h)" and "rotated h ck gw root = Inr gw'"
    and "\<And>j. lo \<le> ck_expired ck j \<and> ck_expired ck j \<le> hi"
    and "pk_Decode (hc_pki h) (content (sec_get root TLSCertKey)) = (Some new, rest)"
  shows "bundle_certs (hc_pki h) (content (sec_get gw' CACrt))
        \<subseteq> insert (pb_Bytes new) (bundle_certs (hc_pki h) (content (sec_get gw CACrt)))
    \<and> (\<forall>b \<in> bundle_certs (hc_pki h) (content (sec_get gw' CACrt)). \<exists>t. not_after (hc_pki h) b = Some t \<and> lo \<le> t)
    \<and> (\<forall>b \<in> insert (pb_Bytes new) (bundle_certs (hc_pki h) (content (sec_get gw CACrt))).
         \<forall>t. not_after (hc_pki h) b = Some t \<and> hi \<le> t \<longrightarrow> b \<in> bundle_certs (hc_pki h) (content (sec_get gw' CACrt)))"
proof -
  obtain gw1 bundled gw2 at where run: "bundleCACerts h gw root = Inr (gw1, bundled)"
    "dropExpiredCertsFromBundle h (ck_expired ck)
       (if bundled then setCaBundleTimeAnnotationToNow (hc_time h) (ck_annotate ck) gw1 else gw1) = Inr gw2"
    "if requiresCertSwitching h (ck_switch ck) at then switchCertificate gw2 root = Inr gw' else gw' = gw2"
    by (rule rotated_steps [OF assms(3)])
  let ?gw = "if bundled then setCaBundleTimeAnnotationToNow (hc_time h) (ck_annotate ck) gw1 else gw1"
  have "sec_get ?gw CACrt = sec_get gw1 CACrt" by simp
  then have ins: "bundle_certs (hc_pki h) (content (sec_get ?gw CACrt)) =
      insert (pb_Bytes new) (bundle_certs (hc_pki h) (content (sec_get gw CACrt)))"
    using bundleCACerts_Inr(1) [OF assms(1) run(1) assms(5)] by simp
  have ca: "sec_get gw' CACrt = sec_get gw2 CACrt" by (rule rotated_CACrt [OF run(3)])
  note d = dropExpired_Inr [OF assms(1,2) run(2) assms(4)]
  show ?thesis
    unfolding ca using d(1-3) unfolding ins by blast
qed

text \<open>The server certificate of the gateway is not switched too early: if a run changes it, the new root
  certificate was in the CA bundle before this run, and the grace period since the time noted in the secret is over.
  The grace period must be longer than a second and the time that passes during the run.\<close>

theorem rotated_grace:
  assumes "pem_ok (hc_pki h) valid" and "x509_ok (hc_pki h)" and "time_ok (hc_time h)" and "rotated h ck gw root = Inr gw'"
    and "pk_Decode (hc_pki h) (content (sec_get root TLSCertKey)) = (Some new, rest)"
    and "ck_switch ck - ck_annotate ck + second \<le> hc_serverCertSwitchGracePeriod h"
    and "sec_get gw' TLSCertKey \<noteq> sec_get gw TLSCertKey \<or> sec_get gw' TLSPrivateKeyKey \<noteq> sec_get gw TLSPrivateKeyKey"
  shows "pb_Bytes new \<in> bundle_certs (hc_pki h) (content (sec_get gw CACrt))
    \<and> (\<exists>at. getCaBundledAt (hc_time h) gw = Inr at \<and> at + hc_serverCertSwitchGracePeriod h < ck_switch ck)
    \<and> sec_get gw' TLSCertKey = sec_get root TLSCertKey \<and> sec_get gw' TLSPrivateKeyKey = sec_get root TLSPrivateKeyKey"
proof -
  obtain gw1 bundled gw2 at where run: "bundleCACerts h gw root = Inr (gw1, bundled)"
    "dropExpiredCertsFromBundle h (ck_expired ck)
       (if bundled then setCaBundleTimeAnnotationToNow (hc_time h) (ck_annotate ck) gw1 else gw1) = Inr gw2"
    "getCaBundledAt (hc_time h) gw2 = Inr at"
    "if requiresCertSwitching h (ck_switch ck) at then switchCertificate gw2 root = Inr gw' else gw' = gw2"
    by (rule rotated_steps [OF assms(4)])
  let ?gw = "if bundled then setCaBundleTimeAnnotationToNow (hc_time h) (ck_annotate ck) gw1 else gw1"
  have keep: "sec_Annotations gw2 = sec_Annotations ?gw" "k \<noteq> CACrt \<Longrightarrow> sec_get gw2 k = sec_get gw1 k" for k
    using dropExpired_keeps [OF run(2)] by simp_all
  note b = bundleCACerts_Inr [OF assms(1) run(1) assms(5)]
  have "gw' \<noteq> gw2" using assms(7) keep(2) b(3) by auto
  then have switch: "requiresCertSwitching h (ck_switch ck) at" "switchCertificate gw2 root = Inr gw'"
    using run(4) by (auto split: if_splits)
  have late: "at + hc_serverCertSwitchGracePeriod h < ck_switch ck" using switch(1) by (simp add: requiresCertSwitching_def)
  have "\<not> bundled"
  proof
    assume bundled
    then have "at = ck_annotate ck - ck_annotate ck mod second"
      using run(3) keep(1) assms(3)
      by (simp add: getCaBundledAt_def setCaBundleTimeAnnotationToNow_def time_ok_def)
    moreover have "ck_annotate ck mod second < second" by (simp add: second_def)
    ultimately show False using late assms(6) by simp
  qed
  then have "sec_Annotations gw2 = sec_Annotations gw" using keep(1) b(4) by simp
  then have "getCaBundledAt (hc_time h) gw = Inr at" using run(3) by (simp add: getCaBundledAt_def)
  then show ?thesis
    using \<open>\<not> bundled\<close> b(2) late switch_Inr(2,3) [OF switch(2)] by auto
qed

section \<open>Witnesses\<close>

text \<open>
  A simple code for blocks without headers: every byte is preceded by a mark, another mark ends the block. The
  certificates of the example are valid up to an instant that is the number of their bytes.
\<close>

fun ex_decode :: "string \<Rightarrow> string option \<times> string" where
  "ex_decode (m # rest) =
     (if m = CHR ''.'' then (Some [], rest)
      else (case rest of
              [] \<Rightarrow> (None, [])
            | c # rest' \<Rightarrow> (case ex_decode rest' of (None, r) \<Rightarrow> (None, r) | (Some bs, r) \<Rightarrow> (Some (c # bs), r))))"
| "ex_decode [] = (None, [])"

definition ex_encode :: "string \<Rightarrow> string" where
  "ex_encode bs = concat (map (\<lambda>c. [CHR ''-'', c]) bs) @ ''.''"

definition ex_block :: "string \<Rightarrow> pem_block" where
  "ex_block bs = \<lparr>pb_Type = certificateBlockType, pb_Headers = [], pb_Bytes = bs\<rparr>"

definition ex_pki :: pki where
  "ex_pki = \<lparr>pk_Decode = (\<lambda>s. map_prod (map_option ex_block) id (ex_decode s)), pk_EncodeToMemory = (\<lambda>b. ex_encode (pb_Bytes b)),
     pk_ParseCertificate = (\<lambda>b. Inr \<lparr>xc_Raw = b, xc_NotAfter = Some (int (length b))\<rparr>)\<rparr>"

lemma ex_decode_encode: "ex_decode (ex_encode bs @ rest) = (Some bs, rest)"
  by (induction bs) (simp_all add: ex_encode_def)

lemma ex_decode_length: "ex_decode s = (Some bs, rest) \<Longrightarrow> length rest < length s"
proof (induction s arbitrary: bs rest rule: ex_decode.induct)
  case (1 m r)
  show ?case
  proof (cases "m = CHR ''.''")
    case False
    then obtain c r' bs' where r: "r = c # r'" "ex_decode r' = (Some bs', rest)"
      using "1.prems" by (auto split: list.splits prod.splits option.splits)
    then have "length rest < length r'" using "1.IH" [OF False r(1)] by simp
    then show ?thesis using r(1) by simp
  qed (use "1.prems" in simp)
qed simp

lemma ex_pki_ok: "pem_ok ex_pki (\<lambda>b. b = ex_block (pb_Bytes b))" "x509_ok ex_pki"
proof -
  show "pem_ok ex_pki (\<lambda>b. b = ex_block (pb_Bytes b))"
    unfolding pem_ok_def
  proof (intro conjI allI impI)
    fix b :: pem_block and rest assume "b = ex_block (pb_Bytes b)"
    then show "pk_Decode ex_pki (pk_EncodeToMemory ex_pki b @ rest) = (Some b, rest)"
      by (simp add: ex_pki_def ex_decode_encode)
    show "pk_EncodeToMemory ex_pki b \<noteq> []" by (simp add: ex_pki_def ex_encode_def)
  next
    fix s b rest assume "pk_Decode ex_pki s = (Some b, rest)"
    then obtain bs where d: "ex_decode s = (Some bs, rest)" "b = ex_block bs"
      by (cases "ex_decode s") (auto simp: ex_pki_def)
    then show "b = ex_block (pb_Bytes b)" "length rest < length s" using ex_decode_length by (simp_all add: ex_block_def)
  qed (simp add: ex_block_def)
qed (simp add: x509_ok_def ex_pki_def)

theorem decodeCertsToPEM_total_witness:
  "decodeCertsToPEM ex_pki (encodePEMToBytes ex_pki [ex_block ''root'', ex_block ''old'']) = Inr [ex_block ''root'', ex_block ''old'']"
  using decodeCertsToPEM_total [OF ex_pki_ok(1), of "[]"] by (simp add: ex_block_def)

theorem Bundle_adds_once_witness:
  "Bundle ex_pki (ex_encode ''old'') (ex_encode ''root'') = Inr (ex_encode ''root'' @ ex_encode ''old'', True)
   \<and> Bundle ex_pki (ex_encode ''root'' @ ex_encode ''old'') (ex_encode ''root'') = Inr (ex_encode ''root'' @ ex_encode ''old'', False)"
proof -
  have run: "Bundle ex_pki (ex_encode ''old'') (ex_encode ''root'') = Inr (ex_encode ''root'' @ ex_encode ''old'', True)" by code_simp
  then show ?thesis using Bundle_adds_once [OF ex_pki_ok(1) run] by blast
qed

definition ex_time :: time_format where
  "ex_time = \<lparr>tf_Format = (\<lambda>t. (if t div second < 0 then ''-'' else []) @ replicate (nat \<bar>t div second\<bar>) CHR ''x''),
     tf_Parse = (\<lambda>s. Inr (if s \<noteq> [] \<and> hd s = CHR ''-'' then - int (length s - 1) * second else int (length s) * second))\<rparr>"

lemma ex_time_ok: "time_ok ex_time"
proof -
  have "t - t mod second = t div second * second" for t by (simp add: minus_mod_eq_div_mult)
  moreover have "hd (replicate n CHR ''x'') \<noteq> CHR ''-''" if "replicate n CHR ''x'' \<noteq> []" for n using that by (cases n) auto
  ultimately show ?thesis by (auto simp: time_ok_def ex_time_def)
qed

definition ex_handler :: handler_config where
  "ex_handler = \<lparr>hc_pki = ex_pki, hc_time = ex_time, hc_serverCertSwitchGracePeriod = 2 * second, hc_serverCertExpiryWindow = 0\<rparr>"

definition ex_clock :: "int \<Rightarrow> clock" where
  "ex_clock now = \<lparr>ck_annotate = now, ck_expired = (\<lambda>i. 4), ck_switch = now, ck_window = now\<rparr>"

definition ex_secret_of :: "string \<Rightarrow> string \<Rightarrow> Secret" where
  "ex_secret_of cert ca = \<lparr>sec_Name = GatewaySecretName, sec_Namespace = IstioNamespace, sec_Labels = Map.empty,
     sec_Annotations = [CaAddedToBundleAtAnnotation \<mapsto> []], sec_ResourceVersion = [],
     sec_Data = Some [TLSCertKey \<mapsto> Some (ex_encode cert), TLSPrivateKeyKey \<mapsto> Some cert, CACrt \<mapsto> Some ca]\<rparr>"

definition ex_gateway :: Secret where
  "ex_gateway = ex_secret_of ''older'' (ex_encode ''older'' @ ex_encode ''old'')"

definition ex_rotated :: Secret where
  "ex_rotated = (case rotated ex_handler (ex_clock second) ex_gateway (ex_secret_of ''newest'' []) of Inr s \<Rightarrow> s | Inl e \<Rightarrow> ex_gateway)"

lemma ex_rotated: "rotated ex_handler (ex_clock second) ex_gateway (ex_secret_of ''newest'' []) = Inr ex_rotated"
proof -
  have "(case rotated ex_handler (ex_clock second) ex_gateway (ex_secret_of ''newest'' []) of Inr s \<Rightarrow> True | Inl e \<Rightarrow> False)"
    by code_simp
  then show ?thesis by (auto simp: ex_rotated_def split: sum.splits)
qed

theorem rotated_trust_witness:
  "''newest'' \<in> bundle_certs ex_pki (content (sec_get ex_rotated CACrt))
   \<and> ''old'' \<in> bundle_certs ex_pki (content (sec_get ex_gateway CACrt))
   \<and> ''old'' \<notin> bundle_certs ex_pki (content (sec_get ex_rotated CACrt))"
proof -
  have pki: "hc_pki ex_handler = ex_pki" by (simp add: ex_handler_def)
  have clock: "\<And>j. 4 \<le> ck_expired (ex_clock second) j \<and> ck_expired (ex_clock second) j \<le> 4" by (simp add: ex_clock_def)
  have dec: "pk_Decode ex_pki (content (sec_get (ex_secret_of ''newest'' []) TLSCertKey)) = (Some (ex_block ''newest''), [])"
    by code_simp
  have na: "not_after ex_pki b = Some (int (length b))" for b by (simp add: not_after_def ex_pki_def)
  have "''old'' \<in> bundle_certs ex_pki (content (sec_get ex_gateway CACrt))" by code_simp
  moreover have "''newest'' \<in> bundle_certs ex_pki (content (sec_get ex_rotated CACrt))"
    "''old'' \<notin> bundle_certs ex_pki (content (sec_get ex_rotated CACrt))"
    using rotated_trust [of ex_handler, unfolded pki, OF ex_pki_ok ex_rotated clock dec]
    by (auto simp: na ex_block_def)
  ultimately show ?thesis by blast
qed

definition ex_bundled_gateway :: Secret where
  "ex_bundled_gateway = ex_secret_of ''older'' (ex_encode ''newest'' @ ex_encode ''older'')"

definition ex_switched :: Secret where
  "ex_switched = (case rotated ex_handler (ex_clock (3 * second)) ex_bundled_gateway (ex_secret_of ''newest'' []) of Inr s \<Rightarrow> s | Inl e \<Rightarrow> ex_gateway)"

theorem rotated_grace_witness:
  "''newest'' \<in> bundle_certs ex_pki (content (sec_get ex_bundled_gateway CACrt))
   \<and> sec_get ex_switched TLSPrivateKeyKey = Some ''newest''"
proof -
  have pki: "hc_pki ex_handler = ex_pki" "hc_time ex_handler = ex_time" by (simp_all add: ex_handler_def)
  have "(case rotated ex_handler (ex_clock (3 * second)) ex_bundled_gateway (ex_secret_of ''newest'' []) of Inr s \<Rightarrow> True | Inl e \<Rightarrow> False)"
    by code_simp
  then have run: "rotated ex_handler (ex_clock (3 * second)) ex_bundled_gateway (ex_secret_of ''newest'' []) = Inr ex_switched"
    by (auto simp: ex_switched_def split: sum.splits)
  have dec: "pk_Decode ex_pki (content (sec_get (ex_secret_of ''newest'' []) TLSCertKey)) = (Some (ex_block ''newest''), [])"
    by code_simp
  have grace: "ck_switch (ex_clock (3 * second)) - ck_annotate (ex_clock (3 * second)) + second
      \<le> hc_serverCertSwitchGracePeriod ex_handler" by (simp add: ex_clock_def ex_handler_def second_def)
  have changed: "sec_get ex_switched TLSCertKey \<noteq> sec_get ex_bundled_gateway TLSCertKey
      \<or> sec_get ex_switched TLSPrivateKeyKey \<noteq> sec_get ex_bundled_gateway TLSPrivateKeyKey"
    by code_simp
  have root: "sec_get (ex_secret_of ''newest'' []) TLSPrivateKeyKey = Some ''newest''" by code_simp
  show ?thesis
    using rotated_grace [of ex_handler, unfolded pki, OF ex_pki_ok ex_time_ok run dec grace changed] root
    by (simp add: ex_block_def)
qed

end
