(* ===== verification/CertService.thy ===== *)
theory CertService
  imports CertBundle KymaDeletion "HOL-Library.Word"
begin

text \<open>
  The certificates with which the watcher of a remote cluster identifies itself: the repositories for cert-manager and
  for the Gardener certificate management (\<^verbatim>\<open>internal/repository/watcher/certificate\<close>) and the service on top of
  them (\<^verbatim>\<open>internal/service/watcher/certificate/certificate_service.go\<close>).

  The interface \<^verbatim>\<open>CertificateRepository\<close> is the record \<open>cert_repo\<close> and the locale
  \<open>certificate_repository\<close>; its laws relate the answers to what is stored, its lemmas are about the renewal. It is
  interpreted on both repositories. Clients are records of functions on a state of an arbitrary type; parsing of dates
  is a parameter.
\<close>

section \<open>Configuration and errors\<close>

record CertificateValues =
  cv_Namespace :: string
  cv_Duration :: duration
  cv_RenewBefore :: duration
  cv_KeySize :: int

definition ErrNoRenewalTime :: goerror where
  "ErrNoRenewalTime = Sentinel ''ErrNoRenewalTime'' ''no renewal time set for certificate''"
definition ErrNoNotBefore :: goerror where
  "ErrNoNotBefore = Sentinel ''ErrNoNotBefore'' ''notBefore not found''"
definition ErrNoNotAfter :: goerror where
  "ErrNoNotAfter = Sentinel ''ErrNoNotAfter'' ''notAfter not found''"
definition ErrCertRepoConfigNamespace :: goerror where
  "ErrCertRepoConfigNamespace = Sentinel ''ErrCertRepoConfigNamespace''
     ''repository needs to be initialized with a namespace for certificates''"
definition ErrCertValidityNotAvailable :: goerror where
  "ErrCertValidityNotAvailable = Sentinel ''ErrCertValidityNotAvailable'' ''certificate validity not yet available''"

definition PurposeLabel :: string where "PurposeLabel = OperatorGroup @ ''/purpose''"
definition CertManager :: string where "CertManager = ''klm-watcher-cert-manager''"

definition GetCertificateLabels :: "(string \<times> string) list" where
  "GetCertificateLabels = [(PurposeLabel, CertManager), (ManagedBy, OperatorName)]"

definition DefaultOrganizationalUnit :: string where "DefaultOrganizationalUnit = ''BTP Kyma Runtime''"
definition DefaultOrganization :: string where "DefaultOrganization = ''SAP SE''"
definition DefaultLocality :: string where "DefaultLocality = ''Walldorf''"
definition DefaultProvince :: string where
  "DefaultProvince = ''Baden-W'' @ [CHR 0xC3, CHR 0xBC] @ ''rttemberg''"   \<comment> \<open>in UTF-8\<close>
definition DefaultCountry :: string where "DefaultCountry = ''DE''"

text \<open>The interface of both repositories.\<close>

record 'w cert_repo =
  cr_Create :: "string \<Rightarrow> string \<Rightarrow> string list \<Rightarrow> 'w \<Rightarrow> 'w \<times> goerror option"
  cr_Delete :: "string \<Rightarrow> 'w \<Rightarrow> 'w \<times> goerror option"
  cr_Exists :: "'w \<Rightarrow> string \<Rightarrow> goerror + bool"
  cr_Renew :: "string \<Rightarrow> 'w \<Rightarrow> 'w \<times> goerror option"
  cr_GetRenewalTime :: "'w \<Rightarrow> string \<Rightarrow> goerror + int"
  cr_GetValidity :: "'w \<Rightarrow> string \<Rightarrow> goerror + int \<times> int"

section \<open>cert-manager\<close>

record CmSpec =
  cms_CommonName :: string
  cms_OrganizationalUnits :: "string list"
  cms_Organizations :: "string list"
  cms_Localities :: "string list"
  cms_Provinces :: "string list"
  cms_Countries :: "string list"
  cms_Duration :: duration
  cms_RenewBefore :: duration
  cms_DNSNames :: "string list"
  cms_SecretName :: string
  cms_SecretLabels :: "(string \<times> string) list"
  cms_IssuerName :: string
  cms_IssuerKind :: string
  cms_IsCA :: bool
  cms_Usages :: "string list"
  cms_RotationPolicy :: string
  cms_Encoding :: string
  cms_Algorithm :: string
  cms_Size :: int

text \<open>A certificate with its status; a pointer to a time may be nil, and the time behind it zero.\<close>

record CmCertificate =
  cm_Name :: string
  cm_Namespace :: string
  cm_Generation :: int
  cm_Spec :: CmSpec
  cm_Conditions :: "(string \<times> string \<times> string \<times> string \<times> int) list"
  cm_RenewalTime :: "int option option"
  cm_NotBefore :: "int option"
  cm_NotAfter :: "int option"

text \<open>\<open>cmc_SetCondition\<close> is \<^verbatim>\<open>SetCertificateCondition\<close> of cert-manager.\<close>

record 'w cm_client =
  cmc_Get :: "'w \<Rightarrow> string \<Rightarrow> string \<Rightarrow> goerror + CmCertificate"
  cmc_Apply :: "string \<Rightarrow> string \<Rightarrow> CmSpec \<Rightarrow> 'w \<Rightarrow> 'w \<times> goerror option"
  cmc_Delete :: "string \<Rightarrow> string \<Rightarrow> 'w \<Rightarrow> 'w \<times> goerror option"
  cmc_UpdateStatus :: "CmCertificate \<Rightarrow> 'w \<Rightarrow> 'w \<times> goerror option"
  cmc_SetCondition :: "CmCertificate \<Rightarrow> int \<Rightarrow> string \<Rightarrow> string \<Rightarrow> string \<Rightarrow> string \<Rightarrow> CmCertificate"

definition renewalReason :: string where "renewalReason = ''ManuallyTriggered''"
definition renewalMessage :: string where "renewalMessage = ''Certificate re-issuance manually triggered''"

definition cm_NewRepository :: "CertificateValues \<Rightarrow> goerror option" where
  "cm_NewRepository cfg = (if cv_Namespace cfg = [] then Some ErrCertRepoConfigNamespace else None)"

definition cm_Create :: "'w cm_client \<Rightarrow> string \<Rightarrow> CertificateValues \<Rightarrow> string \<Rightarrow> string \<Rightarrow> string list \<Rightarrow> 'w \<Rightarrow> 'w \<times> goerror option" where
  "cm_Create c issuerName cfg name commonName dnsNames w =
     (case cmc_Apply c name (cv_Namespace cfg)
             \<lparr>cms_CommonName = commonName, cms_OrganizationalUnits = [DefaultOrganizationalUnit],
              cms_Organizations = [DefaultOrganization], cms_Localities = [DefaultLocality],
              cms_Provinces = [DefaultProvince], cms_Countries = [DefaultCountry],
              cms_Duration = cv_Duration cfg, cms_RenewBefore = cv_RenewBefore cfg, cms_DNSNames = dnsNames,
              cms_SecretName = name, cms_SecretLabels = GetCertificateLabels, cms_IssuerName = issuerName,
              cms_IssuerKind = ''Issuer'', cms_IsCA = False, cms_Usages = [''digital signature'', ''key encipherment''],
              cms_RotationPolicy = ''Always'', cms_Encoding = ''PKCS1'', cms_Algorithm = ''RSA'', cms_Size = cv_KeySize cfg\<rparr> w of
        (w', Some e) \<Rightarrow> (w', Some (wrapErr ''failed to apply certificate: '' e))
      | (w', None) \<Rightarrow> (w', None))"

definition cm_Delete :: "'w cm_client \<Rightarrow> CertificateValues \<Rightarrow> string \<Rightarrow> 'w \<Rightarrow> 'w \<times> goerror option" where
  "cm_Delete c cfg name w =
     (case cmc_Delete c name (cv_Namespace cfg) w of
        (w', Some e) \<Rightarrow>
          (w', if client_IgnoreNotFound e \<noteq> None
               then Some (wrapErr (''failed to delete certificate '' @ name @ ''-'' @ cv_Namespace cfg @ '': '') e) else None)
      | (w', None) \<Rightarrow> (w', None))"

definition getCertificate :: "'w cm_client \<Rightarrow> CertificateValues \<Rightarrow> 'w \<Rightarrow> string \<Rightarrow> goerror + CmCertificate" where
  "getCertificate c cfg w name =
     (case cmc_Get c w name (cv_Namespace cfg) of
        Inl e \<Rightarrow> Inl (wrapErr (''failed to get certificate '' @ name @ ''-'' @ cv_Namespace cfg @ '': '') e)
      | Inr cert \<Rightarrow> Inr cert)"

definition cm_Exists :: "'w cm_client \<Rightarrow> CertificateValues \<Rightarrow> 'w \<Rightarrow> string \<Rightarrow> goerror + bool" where
  "cm_Exists c cfg w name =
     (case getCertificate c cfg w name of
        Inl e \<Rightarrow> if IgnoreNotFound (Some e) \<noteq> None
                 then Inl (wrapErr (''failed to check existence of certificate '' @ name @ ''-'' @ cv_Namespace cfg @ '': '') e)
                 else Inr False
      | Inr cert \<Rightarrow> Inr True)"

definition cm_Renew :: "'w cm_client \<Rightarrow> CertificateValues \<Rightarrow> string \<Rightarrow> 'w \<Rightarrow> 'w \<times> goerror option" where
  "cm_Renew c cfg name w =
     (case getCertificate c cfg w name of
        Inl e \<Rightarrow> (w, Some (wrapErr (''failed to get certificate '' @ name @ ''-'' @ cv_Namespace cfg @ '': '') e))
      | Inr cert \<Rightarrow>
          (case cmc_UpdateStatus c (cmc_SetCondition c cert (cm_Generation cert) ''Issuing'' ''True'' renewalReason renewalMessage) w of
             (w', Some e) \<Rightarrow> (w', Some (wrapErr (''failed to update certificate '' @ name @ ''-'' @ cv_Namespace cfg @ '' status: '') e))
           | (w', None) \<Rightarrow> (w', None)))"

definition cm_GetRenewalTime :: "'w cm_client \<Rightarrow> CertificateValues \<Rightarrow> 'w \<Rightarrow> string \<Rightarrow> goerror + int" where
  "cm_GetRenewalTime c cfg w name =
     (case getCertificate c cfg w name of
        Inl e \<Rightarrow> Inl e
      | Inr cert \<Rightarrow> (case cm_RenewalTime cert of Some (Some t) \<Rightarrow> Inr t | _ \<Rightarrow> Inl ErrNoRenewalTime))"

definition cm_GetValidity :: "'w cm_client \<Rightarrow> CertificateValues \<Rightarrow> 'w \<Rightarrow> string \<Rightarrow> goerror + int \<times> int" where
  "cm_GetValidity c cfg w name =
     (case getCertificate c cfg w name of
        Inl e \<Rightarrow> Inl e
      | Inr cert \<Rightarrow>
          (case cm_NotBefore cert of
             None \<Rightarrow> Inl (Errorf [Wrap ErrCertValidityNotAvailable, Lit '': '', Wrap ErrNoNotBefore])
           | Some notBefore \<Rightarrow>
               (case cm_NotAfter cert of
                  None \<Rightarrow> Inl (Errorf [Wrap ErrCertValidityNotAvailable, Lit '': '', Wrap ErrNoNotAfter])
                | Some notAfter \<Rightarrow> Inr (notBefore, notAfter))))"

definition certmanager_repo :: "'w cm_client \<Rightarrow> string \<Rightarrow> CertificateValues \<Rightarrow> 'w cert_repo" where
  "certmanager_repo c issuerName cfg =
     \<lparr>cr_Create = cm_Create c issuerName cfg, cr_Delete = cm_Delete c cfg, cr_Exists = cm_Exists c cfg,
      cr_Renew = cm_Renew c cfg, cr_GetRenewalTime = cm_GetRenewalTime c cfg, cr_GetValidity = cm_GetValidity c cfg\<rparr>"

section \<open>Gardener certificate management\<close>

record GcmSpec =
  gcs_CommonName :: string
  gcs_Duration :: duration
  gcs_RenewBefore :: duration
  gcs_DNSNames :: "string list"
  gcs_SecretName :: string
  gcs_SecretLabels :: "(string \<times> string) list"
  gcs_IssuerName :: string
  gcs_IssuerNamespace :: string
  gcs_Algorithm :: string
  gcs_Size :: "32 word"   \<comment> \<open>an \<^verbatim>\<open>int32\<close>\<close>

record GcmCertificate =
  gcm_Name :: string
  gcm_Namespace :: string
  gcm_EnsureRenewedAfter :: "int option"
  gcm_Renewal :: "bool option"
  gcm_IssuanceDate :: "string option"
  gcm_ExpirationDate :: "string option"

record 'w gcm_client =
  gcc_Get :: "'w \<Rightarrow> string \<Rightarrow> string \<Rightarrow> goerror + GcmCertificate"
  gcc_Apply :: "string \<Rightarrow> string \<Rightarrow> GcmSpec \<Rightarrow> 'w \<Rightarrow> 'w \<times> goerror option"
  gcc_Delete :: "string \<Rightarrow> string \<Rightarrow> 'w \<Rightarrow> 'w \<times> goerror option"
  gcc_Update :: "GcmCertificate \<Rightarrow> 'w \<Rightarrow> 'w \<times> goerror option"

record gcm_config =
  gcf_IssuerName :: string
  gcf_IssuerNamespace :: string
  gcf_Values :: CertificateValues

definition ErrGCMRepoConfigKeySizeOutOfRange :: goerror where
  "ErrGCMRepoConfigKeySizeOutOfRange = Sentinel ''ErrGCMRepoConfigKeySizeOutOfRange'' ''KeySize is out of range for int32''"
definition ErrCertificateStatusNotContainValidity :: goerror where
  "ErrCertificateStatusNotContainValidity = Sentinel ''ErrCertificateStatusNotContainValidity''
     ''certificate status does not contain issuanceDate or expirationDate''"

definition gcm_NewRepository :: "CertificateValues \<Rightarrow> goerror option" where
  "gcm_NewRepository cfg =
     (if cv_KeySize cfg > 2147483647 \<or> cv_KeySize cfg < -2147483648 then Some ErrGCMRepoConfigKeySizeOutOfRange
      else if cv_Namespace cfg = [] then Some ErrCertRepoConfigNamespace else None)"

definition gcm_spec :: "gcm_config \<Rightarrow> string \<Rightarrow> string \<Rightarrow> string list \<Rightarrow> GcmSpec" where
  "gcm_spec cfg name commonName dnsNames =
     \<lparr>gcs_CommonName = commonName, gcs_Duration = cv_Duration (gcf_Values cfg),
      gcs_RenewBefore = cv_RenewBefore (gcf_Values cfg), gcs_DNSNames = dnsNames, gcs_SecretName = name,
      gcs_SecretLabels = GetCertificateLabels, gcs_IssuerName = gcf_IssuerName cfg,
      gcs_IssuerNamespace = gcf_IssuerNamespace cfg, gcs_Algorithm = ''RSA'',
      gcs_Size = word_of_int (cv_KeySize (gcf_Values cfg))\<rparr>"

definition gcm_Create :: "'w gcm_client \<Rightarrow> gcm_config \<Rightarrow> string \<Rightarrow> string \<Rightarrow> string list \<Rightarrow> 'w \<Rightarrow> 'w \<times> goerror option" where
  "gcm_Create c cfg name commonName dnsNames w =
     (case gcc_Apply c name (cv_Namespace (gcf_Values cfg)) (gcm_spec cfg name commonName dnsNames) w of
        (w', Some e) \<Rightarrow> (w', Some (wrapErr ''failed to apply certificate: '' e))
      | (w', None) \<Rightarrow> (w', None))"

definition gcm_Delete :: "'w gcm_client \<Rightarrow> gcm_config \<Rightarrow> string \<Rightarrow> 'w \<Rightarrow> 'w \<times> goerror option" where
  "gcm_Delete c cfg name w =
     (case gcc_Delete c name (cv_Namespace (gcf_Values cfg)) w of
        (w', Some e) \<Rightarrow>
          (w', if client_IgnoreNotFound e \<noteq> None
               then Some (wrapErr (''failed to delete certificate '' @ name @ ''-'' @ cv_Namespace (gcf_Values cfg) @ '': '') e) else None)
      | (w', None) \<Rightarrow> (w', None))"

definition gcm_get :: "'w gcm_client \<Rightarrow> gcm_config \<Rightarrow> 'w \<Rightarrow> string \<Rightarrow> goerror + GcmCertificate" where
  "gcm_get c cfg w name =
     (case gcc_Get c w name (cv_Namespace (gcf_Values cfg)) of
        Inl e \<Rightarrow> Inl (wrapErr (''failed to get GCM Certificate '' @ name @ ''-'' @ cv_Namespace (gcf_Values cfg) @ '': '') e)
      | Inr cert \<Rightarrow> Inr cert)"

definition gcm_Renew :: "'w gcm_client \<Rightarrow> gcm_config \<Rightarrow> string \<Rightarrow> 'w \<Rightarrow> 'w \<times> goerror option" where
  "gcm_Renew c cfg name w =
     (case gcm_get c cfg w name of
        Inl e \<Rightarrow> (w, Some (wrapErr ''could not get certificate for renewal: '' e))
      | Inr cert \<Rightarrow>
          (case gcc_Update c (cert\<lparr>gcm_EnsureRenewedAfter := None, gcm_Renewal := Some True\<rparr>) w of
             (w', Some e) \<Rightarrow> (w', Some (wrapErr (''failed to update certificate for renewal '' @ gcm_Name cert @ ''-''
                               @ gcm_Namespace cert @ '': '') e))
           | (w', None) \<Rightarrow> (w', None)))"

definition gcm_Exists :: "'w gcm_client \<Rightarrow> gcm_config \<Rightarrow> 'w \<Rightarrow> string \<Rightarrow> goerror + bool" where
  "gcm_Exists c cfg w name =
     (case gcm_get c cfg w name of
        Inl e \<Rightarrow> if IgnoreNotFound (Some e) \<noteq> None
                 then Inl (wrapErr (''failed to check existence of certificate '' @ name @ ''-'' @ cv_Namespace (gcf_Values cfg) @ '': '') e)
                 else Inr False
      | Inr cert \<Rightarrow> Inr True)"

definition gcm_GetRenewalTime :: "'w gcm_client \<Rightarrow> time_format \<Rightarrow> gcm_config \<Rightarrow> 'w \<Rightarrow> string \<Rightarrow> goerror + int" where
  "gcm_GetRenewalTime c tf cfg w name =
     (case gcm_get c cfg w name of
        Inl e \<Rightarrow> Inl (wrapErr (''failed to get certificate '' @ name @ ''-'' @ cv_Namespace (gcf_Values cfg) @ '': '') e)
      | Inr cert \<Rightarrow>
          (case gcm_ExpirationDate cert of
             None \<Rightarrow> Inl (wrapPost ErrNoRenewalTime '': no expiration date'')
           | Some d \<Rightarrow>
               (case tf_Parse tf d of
                  Inl e \<Rightarrow> Inl (wrapErr (''failed to parse certificate'' @ [CHR 0x27] @ ''s expiration date '' @ [CHR 0x27]
                             @ d @ [CHR 0x27] @ '': '') e)
                | Inr t \<Rightarrow> Inr (t - cv_RenewBefore (gcf_Values cfg)))))"

definition parseValidityStrings :: "time_format \<Rightarrow> string \<Rightarrow> string \<Rightarrow> goerror + int \<times> int" where
  "parseValidityStrings tf notBeforeRaw notAfterRaw =
     (case tf_Parse tf notBeforeRaw of
        Inl e \<Rightarrow> Inl (wrapErr ''failed to parse notBefore date: '' e)
      | Inr notBefore \<Rightarrow>
          (case tf_Parse tf notAfterRaw of
             Inl e \<Rightarrow> Inl (wrapErr ''failed to parse notAfter date: '' e)
           | Inr notAfter \<Rightarrow> Inr (notBefore, notAfter)))"

text \<open>The dates of a certificate that was issued.\<close>

definition gcm_dates :: "GcmCertificate \<Rightarrow> (string \<times> string) option" where
  "gcm_dates cert =
     (case (gcm_IssuanceDate cert, gcm_ExpirationDate cert) of
        (Some i, Some x) \<Rightarrow> if i = [] \<or> x = [] then None else Some (i, x)
      | _ \<Rightarrow> None)"

definition gcm_GetValidity :: "'w gcm_client \<Rightarrow> time_format \<Rightarrow> gcm_config \<Rightarrow> 'w \<Rightarrow> string \<Rightarrow> goerror + int \<times> int" where
  "gcm_GetValidity c tf cfg w name =
     (case gcm_get c cfg w name of
        Inl e \<Rightarrow> Inl (wrapErr (''failed to get certificate '' @ cv_Namespace (gcf_Values cfg) @ ''/'' @ name @ '': '') e)
      | Inr cert \<Rightarrow>
          (case gcm_dates cert of
             None \<Rightarrow> Inl (Errorf [Wrap ErrCertValidityNotAvailable, Lit '': '', Wrap ErrCertificateStatusNotContainValidity])
           | Some (i, x) \<Rightarrow>
               (case parseValidityStrings tf i x of
                  Inl e \<Rightarrow> Inl (wrapErr ''failed to extract validity: '' e)
                | Inr v \<Rightarrow> Inr v)))"

definition gcm_repo :: "'w gcm_client \<Rightarrow> time_format \<Rightarrow> gcm_config \<Rightarrow> 'w cert_repo" where
  "gcm_repo c tf cfg =
     \<lparr>cr_Create = gcm_Create c cfg, cr_Delete = gcm_Delete c cfg, cr_Exists = gcm_Exists c cfg,
      cr_Renew = gcm_Renew c cfg, cr_GetRenewalTime = gcm_GetRenewalTime c tf cfg, cr_GetValidity = gcm_GetValidity c tf cfg\<rparr>"

section \<open>Secrets of certificates\<close>

definition ErrSecretDataMissing :: goerror where
  "ErrSecretDataMissing = Sentinel ''ErrSecretDataMissing'' ''secret data is missing''"

record CertificateSecretData =
  csd_TlsCert :: bytes
  csd_TlsKey :: bytes

record GatewaySecretData =
  gsd_CaCert :: bytes

definition NewGatewaySecretData :: "Secret option \<Rightarrow> goerror + GatewaySecretData" where
  "NewGatewaySecretData secret =
     (case secret of
        None \<Rightarrow> Inl (wrapErr ''error in gateway secret '' ErrSecretDataMissing)
      | Some s \<Rightarrow>
          (if sec_get s CACrt = None then Inl (wrapErr ''error in gateway secret '' ErrSecretDataMissing)
           else Inr \<lparr>gsd_CaCert = sec_get s CACrt\<rparr>))"

definition NewCertificateSecretData :: "Secret option \<Rightarrow> goerror + CertificateSecretData" where
  "NewCertificateSecretData secret =
     (case secret of
        None \<Rightarrow> Inl (wrapErr ''error in certificate secret '' ErrSecretDataMissing)
      | Some s \<Rightarrow>
          (if sec_get s TLSCertKey = None \<or> sec_get s TLSPrivateKeyKey = None
           then Inl (wrapErr ''error in certificate secret '' ErrSecretDataMissing)
           else Inr \<lparr>csd_TlsCert = sec_get s TLSCertKey, csd_TlsKey = sec_get s TLSPrivateKeyKey\<rparr>))"

definition secretRepo_Get :: "'w secret_api \<Rightarrow> string \<Rightarrow> 'w \<Rightarrow> string \<Rightarrow> goerror + Secret" where
  "secretRepo_Get c ns w name =
     (case sa_Get c w name ns of
        Inl e \<Rightarrow> Inl (wrapErr (''failed to get secret '' @ name @ ''-'' @ ns @ '': '') e)
      | Inr s \<Rightarrow> Inr s)"

definition secretRepo_Remove :: "'w secret_api \<Rightarrow> string \<Rightarrow> string \<Rightarrow> 'w \<Rightarrow> 'w \<times> goerror option" where
  "secretRepo_Remove c ns name w =
     (case sa_Delete c name ns w of
        (w', Some e) \<Rightarrow>
          (w', if client_IgnoreNotFound e \<noteq> None
               then Some (wrapErr (''failed to delete secret '' @ name @ ''-'' @ ns @ '': '') e) else None)
      | (w', None) \<Rightarrow> (w', None))"

section \<open>Service\<close>

record 'w cert_service =
  cs_certRepo :: "'w cert_repo"
  cs_secrets :: "'w secret_api"
  cs_secretNamespace :: string
  cs_time :: time_format
  cs_SkrServiceName :: string
  cs_SkrNamespace :: string
  cs_AdditionalDNSNames :: "string list"
  cs_GatewaySecretName :: string
  cs_RenewBuffer :: duration

definition SkrDomainAnnotation :: string where "SkrDomainAnnotation = ''skr-domain''"

definition ErrDomainAnnotationEmpty :: goerror where
  "ErrDomainAnnotationEmpty = Sentinel ''ErrDomainAnnotationEmpty'' ''domain annotation is empty''"
definition ErrDomainAnnotationMissing :: goerror where
  "ErrDomainAnnotationMissing = Sentinel ''ErrDomainAnnotationMissing'' ''domain annotation is missing''"
definition ErrGatewaySecretMissingBundlingTimeAnnotation :: goerror where
  "ErrGatewaySecretMissingBundlingTimeAnnotation = Sentinel ''ErrGatewaySecretMissingBundlingTimeAnnotation''
     ''gateway secret is missing caAddedToBundleAt annotation''"

definition constructDNSNames :: "'w cert_service \<Rightarrow> Kyma \<Rightarrow> goerror + string list" where
  "constructDNSNames s k =
     (case om_Annotations (kyma_Meta k) SkrDomainAnnotation of
        None \<Rightarrow> Inl (wrapPost ErrDomainAnnotationMissing ('' (Kyma: '' @ om_Name (kyma_Meta k) @ '')''))
      | Some skrDomain \<Rightarrow>
          if skrDomain = [] then Inl (wrapPost ErrDomainAnnotationEmpty ('' (Kyma: '' @ om_Name (kyma_Meta k) @ '')''))
          else Inr ([skrDomain] @ cs_AdditionalDNSNames s
                    @ map (\<lambda>suffix. cs_SkrServiceName s @ ''.'' @ cs_SkrNamespace s @ ''.'' @ suffix) [''svc.cluster.local'', ''svc'']))"

definition CreateSkrCertificate :: "'w cert_service \<Rightarrow> Kyma \<Rightarrow> 'w \<Rightarrow> 'w \<times> goerror option" where
  "CreateSkrCertificate s k w =
     (case constructDNSNames s k of
        Inl e \<Rightarrow> (w, Some (wrapErr ''failed to construct DNS names: '' e))
      | Inr dnsNames \<Rightarrow>
          (case cr_Create (cs_certRepo s) (SkrCertificate (om_Name (kyma_Meta k))) (GetRuntimeID k) dnsNames w of
             (w', Some e) \<Rightarrow> (w', Some (wrapErr ''failed to create SKR certificate: '' e))
           | (w', None) \<Rightarrow> (w', None)))"

definition DeleteSkrCertificate :: "'w cert_service \<Rightarrow> string \<Rightarrow> 'w \<Rightarrow> 'w \<times> goerror option" where
  "DeleteSkrCertificate s kymaName w =
     (case cr_Delete (cs_certRepo s) (SkrCertificate kymaName) w of
        (w1, Some e) \<Rightarrow> (w1, Some (wrapErr ''failed to delete SKR certificate: '' e))
      | (w1, None) \<Rightarrow>
          (case secretRepo_Remove (cs_secrets s) (cs_secretNamespace s) (SkrCertificate kymaName) w1 of
             (w2, Some e) \<Rightarrow> (w2, Some (wrapErr ''failed to delete SKR certificate secret: '' e))
           | (w2, None) \<Rightarrow> (w2, None)))"

definition getCaAddedToBundleAtAnnotation :: "Secret \<Rightarrow> string option" where
  "getCaAddedToBundleAtAnnotation secret = sec_Annotations secret CaAddedToBundleAtAnnotation"

definition getGatewaySecretCaBundleExtendedAtTime :: "'w cert_service \<Rightarrow> 'w \<Rightarrow> goerror + int" where
  "getGatewaySecretCaBundleExtendedAtTime s w =
     (case secretRepo_Get (cs_secrets s) (cs_secretNamespace s) w (cs_GatewaySecretName s) of
        Inl e \<Rightarrow> Inl (wrapErr ''failed to get gateway secret: '' e)
      | Inr gatewaySecret \<Rightarrow>
          (case getCaAddedToBundleAtAnnotation gatewaySecret of
             None \<Rightarrow> Inl ErrGatewaySecretMissingBundlingTimeAnnotation
           | Some v \<Rightarrow>
               (case tf_Parse (cs_time s) v of
                  Inl e \<Rightarrow> Inl (wrapErr ''failed to parse gateway secret caAddedToBundleAt annotation: '' e)
                | Inr t \<Rightarrow> Inr t)))"

definition skrCertificateNeedsRenewal :: "'w cert_service \<Rightarrow> 'w \<Rightarrow> string \<Rightarrow> goerror + bool" where
  "skrCertificateNeedsRenewal s w certName =
     (case cr_GetValidity (cs_certRepo s) w certName of
        Inl e \<Rightarrow>
          if errors_Is e ErrCertValidityNotAvailable then Inr False
          else Inl (wrapErr ''failed to determine SKR client certificate validity: '' e)
      | Inr (notBefore, _) \<Rightarrow>
          (case getGatewaySecretCaBundleExtendedAtTime s w of
             Inl e \<Rightarrow> Inl (wrapErr ''failed to determine gateway secret caAddedToBundleAt: '' e)
           | Inr extendedAt \<Rightarrow> Inr (notBefore < extendedAt)))"

definition RenewSkrCertificate :: "'w cert_service \<Rightarrow> string \<Rightarrow> 'w \<Rightarrow> 'w \<times> goerror option" where
  "RenewSkrCertificate s kymaName w =
     (case skrCertificateNeedsRenewal s w (SkrCertificate kymaName) of
        Inl e \<Rightarrow> (w, Some (wrapErr ''failed to determine if SKR certificate needs renewal: '' e))
      | Inr False \<Rightarrow> (w, None)
      | Inr True \<Rightarrow>
          (case cr_Renew (cs_certRepo s) (SkrCertificate kymaName) w of
             (w', Some e) \<Rightarrow> (w', Some (wrapErr ''failed to renew SKR certificate: '' e))
           | (w', None) \<Rightarrow> (w', None)))"

text \<open>The flag and the error that is returned with it.\<close>

definition IsSkrCertificateRenewalOverdue :: "'w cert_service \<Rightarrow> int \<Rightarrow> 'w \<Rightarrow> string \<Rightarrow> bool \<times> goerror option" where
  "IsSkrCertificateRenewalOverdue s now w kymaName =
     (case skrCertificateNeedsRenewal s w (SkrCertificate kymaName) of
        Inl e \<Rightarrow> (True, Some (wrapErr ''failed to determine if SKR certificate needs renewal: '' e))
      | Inr False \<Rightarrow> (False, None)
      | Inr True \<Rightarrow>
          (case getGatewaySecretCaBundleExtendedAtTime s w of
             Inl e \<Rightarrow> (True, Some (wrapErr ''failed to determine gateway secret caAddedToBundleAt: '' e))
           | Inr extendedAt \<Rightarrow> (now > extendedAt + cs_RenewBuffer s, None)))"

definition GetSkrCertificateSecret :: "'w cert_service \<Rightarrow> 'w \<Rightarrow> string \<Rightarrow> goerror + Secret" where
  "GetSkrCertificateSecret s w kymaName =
     (case secretRepo_Get (cs_secrets s) (cs_secretNamespace s) w (SkrCertificate kymaName) of
        Inl e \<Rightarrow> Inl (wrapErr ''failed to get SKR certificate secret: '' e)
      | Inr secret \<Rightarrow> Inr secret)"

definition GetSkrCertificateSecretData :: "'w cert_service \<Rightarrow> 'w \<Rightarrow> string \<Rightarrow> goerror + CertificateSecretData" where
  "GetSkrCertificateSecretData s w kymaName =
     (case GetSkrCertificateSecret s w kymaName of
        Inl e \<Rightarrow> Inl e
      | Inr secret \<Rightarrow> NewCertificateSecretData (Some secret))"

definition GetGatewayCertificateSecretData :: "'w cert_service \<Rightarrow> 'w \<Rightarrow> goerror + GatewaySecretData" where
  "GetGatewayCertificateSecretData s w =
     (case secretRepo_Get (cs_secrets s) (cs_secretNamespace s) w (cs_GatewaySecretName s) of
        Inl e \<Rightarrow> Inl (wrapErr ''failed to get gateway certificate secret: '' e)
      | Inr secret \<Rightarrow> NewGatewaySecretData (Some secret))"

section \<open>The contract of a certificate repository\<close>

text \<open>
  \<open>stored w n\<close> is what is known of the certificate: \<open>None\<close> when it cannot be read, \<open>Some None\<close> when it has not been
  issued yet, and its validity otherwise.
\<close>

definition renewal_due :: "(int \<times> int) option option \<Rightarrow> int \<Rightarrow> bool" where
  "renewal_due cert extended = (case cert of Some (Some (notBefore, _)) \<Rightarrow> notBefore < extended | _ \<Rightarrow> False)"

locale certificate_repository =
  fixes repo :: "'w cert_repo" and stored :: "'w \<Rightarrow> string \<Rightarrow> (int \<times> int) option option"
  assumes issued: "stored w n = Some (Some v) \<Longrightarrow> cr_GetValidity repo w n = Inr v"
    and pending: "stored w n = Some None \<Longrightarrow> \<exists>e. cr_GetValidity repo w n = Inl e \<and> errors_Is e ErrCertValidityNotAvailable"
    and known: "stored w n \<noteq> None \<Longrightarrow> cr_Exists repo w n = Inr True"
begin

lemma needs_renewal:
  assumes "cs_certRepo s = repo" and "stored w n \<noteq> None" and "getGatewaySecretCaBundleExtendedAtTime s w = Inr extended"
  shows "skrCertificateNeedsRenewal s w n = Inr (renewal_due (stored w n) extended)"
proof -
  consider a b where "stored w n = Some (Some (a, b))" | "stored w n = Some None" using assms(2) by fastforce
  then show ?thesis
  proof cases
    case 1
    then show ?thesis using issued assms(1,3) by (simp add: skrCertificateNeedsRenewal_def renewal_due_def)
  next
    case 2
    then show ?thesis using pending [OF 2] assms(1) by (auto simp: skrCertificateNeedsRenewal_def renewal_due_def)
  qed
qed

lemma renew:
  assumes "cs_certRepo s = repo" and "stored w (SkrCertificate k) \<noteq> None" and "getGatewaySecretCaBundleExtendedAtTime s w = Inr extended"
  shows "fst (RenewSkrCertificate s k w) =
     (if renewal_due (stored w (SkrCertificate k)) extended then fst (cr_Renew repo (SkrCertificate k) w) else w)"
  using needs_renewal [OF assms] assms(1)
  by (auto simp: RenewSkrCertificate_def split: bool.splits prod.splits option.splits)

lemma overdue:
  assumes "cs_certRepo s = repo" and "stored w (SkrCertificate k) \<noteq> None" and "getGatewaySecretCaBundleExtendedAtTime s w = Inr extended"
  shows "IsSkrCertificateRenewalOverdue s now w k =
     (renewal_due (stored w (SkrCertificate k)) extended \<and> extended + cs_RenewBuffer s < now, None)"
  using needs_renewal [OF assms] assms(3)
  by (auto simp: IsSkrCertificateRenewalOverdue_def split: bool.splits)

end

definition cm_stored :: "'w cm_client \<Rightarrow> CertificateValues \<Rightarrow> 'w \<Rightarrow> string \<Rightarrow> (int \<times> int) option option" where
  "cm_stored c cfg w n =
     (case cmc_Get c w n (cv_Namespace cfg) of
        Inl e \<Rightarrow> None
      | Inr cert \<Rightarrow> Some (case (cm_NotBefore cert, cm_NotAfter cert) of (Some a, Some b) \<Rightarrow> Some (a, b) | _ \<Rightarrow> None))"

definition gcm_stored :: "'w gcm_client \<Rightarrow> time_format \<Rightarrow> gcm_config \<Rightarrow> 'w \<Rightarrow> string \<Rightarrow> (int \<times> int) option option" where
  "gcm_stored c tf cfg w n =
     (case gcc_Get c w n (cv_Namespace (gcf_Values cfg)) of
        Inl e \<Rightarrow> None
      | Inr cert \<Rightarrow>
          (case gcm_dates cert of
             None \<Rightarrow> Some None
           | Some (i, x) \<Rightarrow> (case (tf_Parse tf i, tf_Parse tf x) of (Inr a, Inr b) \<Rightarrow> Some (Some (a, b)) | _ \<Rightarrow> None)))"

lemma not_available [simp]: "errors_Is (Errorf [Wrap ErrCertValidityNotAvailable, Lit s, Wrap e]) ErrCertValidityNotAvailable"
  by (simp add: ErrCertValidityNotAvailable_def)

interpretation certmanager: certificate_repository "certmanager_repo c issuer cfg" "cm_stored c cfg" for c issuer cfg
proof
  fix w n v
  show "cm_stored c cfg w n = Some (Some v) \<Longrightarrow> cr_GetValidity (certmanager_repo c issuer cfg) w n = Inr v"
    by (auto simp: cm_stored_def certmanager_repo_def cm_GetValidity_def getCertificate_def split: sum.splits option.splits)
  show "cm_stored c cfg w n = Some None \<Longrightarrow>
      \<exists>e. cr_GetValidity (certmanager_repo c issuer cfg) w n = Inl e \<and> errors_Is e ErrCertValidityNotAvailable"
    by (auto simp: cm_stored_def certmanager_repo_def cm_GetValidity_def getCertificate_def split: sum.splits option.splits)
  show "cm_stored c cfg w n \<noteq> None \<Longrightarrow> cr_Exists (certmanager_repo c issuer cfg) w n = Inr True"
    by (auto simp: cm_stored_def certmanager_repo_def cm_Exists_def getCertificate_def split: sum.splits)
qed

interpretation gcm: certificate_repository "gcm_repo c tf cfg" "gcm_stored c tf cfg" for c tf cfg
proof
  fix w n v
  show "gcm_stored c tf cfg w n = Some (Some v) \<Longrightarrow> cr_GetValidity (gcm_repo c tf cfg) w n = Inr v"
    by (auto simp: gcm_stored_def gcm_repo_def gcm_GetValidity_def gcm_get_def parseValidityStrings_def
        split: sum.splits option.splits)
  show "gcm_stored c tf cfg w n = Some None \<Longrightarrow>
      \<exists>e. cr_GetValidity (gcm_repo c tf cfg) w n = Inl e \<and> errors_Is e ErrCertValidityNotAvailable"
    by (auto simp: gcm_stored_def gcm_repo_def gcm_GetValidity_def gcm_get_def split: sum.splits option.splits)
  show "gcm_stored c tf cfg w n \<noteq> None \<Longrightarrow> cr_Exists (gcm_repo c tf cfg) w n = Inr True"
    by (auto simp: gcm_stored_def gcm_repo_def gcm_Exists_def gcm_get_def split: sum.splits)
qed

section \<open>Properties\<close>

text \<open>A certificate is renewed exactly when it was issued before the CA bundle of the gateway was last extended, with
  either certificate management; a certificate that has not been issued yet is left alone. The renewal is reported
  as overdue exactly when it is needed and the buffer since the extension is over.\<close>

theorem RenewSkrCertificate_exact:
  assumes "cs_certRepo s = certmanager_repo c issuer cfg \<and> stored = cm_stored c cfg
      \<or> cs_certRepo s = gcm_repo gc tf gcfg \<and> stored = gcm_stored gc tf gcfg"
    and "stored w (SkrCertificate k) \<noteq> None" and "getGatewaySecretCaBundleExtendedAtTime s w = Inr extended"
  shows "fst (RenewSkrCertificate s k w) = (if renewal_due (stored w (SkrCertificate k)) extended then fst (cr_Renew (cs_certRepo s) (SkrCertificate k) w) else w)
    \<and> IsSkrCertificateRenewalOverdue s now w k =
        (renewal_due (stored w (SkrCertificate k)) extended \<and> extended + cs_RenewBuffer s < now, None)"
  using assms(1)
proof
  assume r: "cs_certRepo s = certmanager_repo c issuer cfg \<and> stored = cm_stored c cfg"
  show ?thesis
    using certmanager.renew [of s c issuer cfg w k extended] certmanager.overdue [of s c issuer cfg w k extended now] r assms(2,3)
    by simp
next
  assume r: "cs_certRepo s = gcm_repo gc tf gcfg \<and> stored = gcm_stored gc tf gcfg"
  show ?thesis
    using gcm.renew [of s gc tf gcfg w k extended] gcm.overdue [of s gc tf gcfg w k extended now] r assms(2,3)
    by simp
qed

text \<open>The key size reaches the Gardener certificate management unchanged: converting it to a signed 32-bit integer
  keeps its value exactly when the constructor of the repository accepts it.\<close>

theorem gcm_key_size:
  "sint (gcs_Size (gcm_spec cfg name commonName dnsNames)) = cv_KeySize (gcf_Values cfg)
     \<longleftrightarrow> gcm_NewRepository (gcf_Values cfg) \<noteq> Some ErrGCMRepoConfigKeySizeOutOfRange"
proof -
  let ?k = "cv_KeySize (gcf_Values cfg)"
  have "sint (gcs_Size (gcm_spec cfg name commonName dnsNames)) = signed_take_bit 31 ?k"
    by (simp add: gcm_spec_def sint_sbintrunc')
  moreover have "signed_take_bit 31 ?k = ?k \<longleftrightarrow> - (2 ^ 31) \<le> ?k \<and> ?k < 2 ^ 31"
    by (rule signed_take_bit_int_eq_self_iff)
  moreover have "gcm_NewRepository (gcf_Values cfg) \<noteq> Some ErrGCMRepoConfigKeySizeOutOfRange \<longleftrightarrow> - (2 ^ 31) \<le> ?k \<and> ?k < 2 ^ 31"
    by (auto simp: gcm_NewRepository_def ErrGCMRepoConfigKeySizeOutOfRange_def ErrCertRepoConfigNamespace_def)
  ultimately show ?thesis by simp
qed

section \<open>Witnesses\<close>

text \<open>A cluster with one certificate, issued at the given time, and the gateway secret of the previous theory.\<close>

definition ex_cm_client :: "int option \<Rightarrow> bool cm_client" where
  "ex_cm_client notBefore =
     \<lparr>cmc_Get = (\<lambda>w n ns. Inr \<lparr>cm_Name = n, cm_Namespace = ns, cm_Generation = 1,
         cm_Spec = \<lparr>cms_CommonName = [], cms_OrganizationalUnits = [], cms_Organizations = [], cms_Localities = [],
           cms_Provinces = [], cms_Countries = [], cms_Duration = 0, cms_RenewBefore = 0, cms_DNSNames = [], cms_SecretName = n,
           cms_SecretLabels = [], cms_IssuerName = [], cms_IssuerKind = [], cms_IsCA = False, cms_Usages = [],
           cms_RotationPolicy = [], cms_Encoding = [], cms_Algorithm = [], cms_Size = 4096\<rparr>,
         cm_Conditions = [], cm_RenewalTime = None, cm_NotBefore = notBefore, cm_NotAfter = map_option (\<lambda>t. t + hour) notBefore\<rparr>),
      cmc_Apply = (\<lambda>n ns sp w. (w, None)), cmc_Delete = (\<lambda>n ns w. (w, None)),
      cmc_UpdateStatus = (\<lambda>cert w. (True, None)),
      cmc_SetCondition = (\<lambda>cert g t st r m. cert\<lparr>cm_Conditions := cm_Conditions cert @ [(t, st, r, m, g)]\<rparr>)\<rparr>"

definition ex_values :: CertificateValues where
  "ex_values = \<lparr>cv_Namespace = ''istio-system'', cv_Duration = hour, cv_RenewBefore = minute, cv_KeySize = 4096\<rparr>"

definition ex_secret_api :: "bool secret_api" where
  "ex_secret_api = \<lparr>sa_Get = (\<lambda>w n ns. Inr ex_rotated), sa_Create = (\<lambda>s w. (w, None)), sa_Update = (\<lambda>s w. (w, None)),
     sa_Delete = (\<lambda>n ns w. (w, None))\<rparr>"

definition ex_cert_service :: "int option \<Rightarrow> bool cert_service" where
  "ex_cert_service notBefore = \<lparr>cs_certRepo = certmanager_repo (ex_cm_client notBefore) ''issuer'' ex_values,
     cs_secrets = ex_secret_api, cs_secretNamespace = ''istio-system'', cs_time = ex_time, cs_SkrServiceName = ''skr-webhook'',
     cs_SkrNamespace = ''kyma-system'', cs_AdditionalDNSNames = [], cs_GatewaySecretName = GatewaySecretName,
     cs_RenewBuffer = second\<rparr>"

theorem RenewSkrCertificate_exact_witness:
  "fst (RenewSkrCertificate (ex_cert_service (Some 0)) ''kyma'' False) = True
   \<and> IsSkrCertificateRenewalOverdue (ex_cert_service (Some 0)) (2 * second) False ''kyma'' = (False, None)"
proof -
  let ?s = "ex_cert_service (Some 0)"
  have repo: "cs_certRepo ?s = certmanager_repo (ex_cm_client (Some 0)) ''issuer'' ex_values" by (simp add: ex_cert_service_def)
  have at: "getGatewaySecretCaBundleExtendedAtTime ?s False = Inr second" by code_simp
  have stored: "cm_stored (ex_cm_client (Some 0)) ex_values False (SkrCertificate ''kyma'') = Some (Some (0, hour))"
    by (simp add: cm_stored_def ex_cm_client_def)
  have "fst (cr_Renew (cs_certRepo ?s) (SkrCertificate ''kyma'') False) = True" by code_simp
  then show ?thesis
    using RenewSkrCertificate_exact [of ?s "ex_cm_client (Some 0)" "''issuer''" ex_values "cm_stored (ex_cm_client (Some 0)) ex_values",
        OF disjI1, OF conjI, OF repo refl _ at, of "''kyma''" "2 * second"] stored
    by (simp add: renewal_due_def second_def ex_cert_service_def)
qed

end
