(* ===== verification/WatcherController.thy ===== *)
theory WatcherController
  imports Util "HOL-Library.Word"
begin

text \<open>
  The controller of Watchers (\<^verbatim>\<open>internal/controller/watcher/controller.go\<close>) with the Watcher
  resource (\<^verbatim>\<open>api/v1beta2/watcher_types.go\<close>) and the Istio objects it computes
  (\<^verbatim>\<open>internal/istio\<close>). The API server is a state of an arbitrary type \<open>'w\<close> and a record of
  the calls; \<open>api_faithful\<close> states what they do to the stored Watchers and VirtualServices. A port
  is a 64 bit integer in the Watcher and a 32 bit word in the route. Emitted Kubernetes events carry no
  state of the controller and are left out.
\<close>

section \<open>Watcher (\<^verbatim>\<open>api/v1beta2\<close>)\<close>

record WatchedService =
  svc_Port :: int
  svc_Name :: string
  svc_Namespace :: string

record WatchableGVR =
  gvr_Group :: string
  gvr_Version :: string
  gvr_Resource :: string

text \<open>
  A label selector is only handed to \<^verbatim>\<open>LabelSelectorAsSelector\<close>; it is represented by its
  match labels and the texts of its expressions.
\<close>

record GatewaySelector =
  ls_MatchLabels :: "(string \<times> string) list"
  ls_MatchExpressions :: "string list"

record WatcherSpec =
  ws_ServiceInfo :: WatchedService
  ws_Manager :: string
  ws_LabelsToWatch :: "(string \<times> string) list"
  ws_ResourceToWatch :: WatchableGVR
  ws_Field :: string
  ws_Gateway :: GatewaySelector

record WatcherStatus =
  wst_State :: State
  wst_Conditions :: "Condition list"

record Watcher =
  wat_Meta :: ObjectMeta
  wat_Spec :: WatcherSpec
  wat_Status :: WatcherStatus

definition SpecField :: string where "SpecField = ''spec''"
definition StatusField :: string where "StatusField = ''status''"
definition WatcherFinalizer :: string where "WatcherFinalizer = OperatorGroup @ ''/watcher''"

definition GetManagerName :: "Watcher \<Rightarrow> string" where
  "GetManagerName x =
     (if ws_Manager (wat_Spec x) \<noteq> [] then ws_Manager (wat_Spec x)
      else label_get (om_Labels (wat_Meta x)) ManagedBy)"

definition WatcherConditionTypeVirtualService :: string where
  "WatcherConditionTypeVirtualService = ''VirtualService''"
definition ReadyConditionReason :: string where "ReadyConditionReason = ''Ready''"
definition VirtualServiceConfiguredConditionMessage :: string where
  "VirtualServiceConfiguredConditionMessage = ''VirtualService is configured''"
definition VirtualServiceNotConfiguredConditionMessage :: string where
  "VirtualServiceNotConfiguredConditionMessage = ''VirtualService is not configured''"

definition set_wst :: "(WatcherStatus \<Rightarrow> WatcherStatus) \<Rightarrow> Watcher \<Rightarrow> Watcher" where
  "set_wst f x = x\<lparr>wat_Status := f (wat_Status x)\<rparr>"

definition InitializeConditions :: "int \<Rightarrow> Watcher \<Rightarrow> Watcher" where
  "InitializeConditions now = set_wst (\<lambda>st. st\<lparr>wst_Conditions :=
     [\<lparr>cond_Type = WatcherConditionTypeVirtualService, cond_Status = ConditionUnknown,
       cond_Reason = ReadyConditionReason, cond_Message = VirtualServiceNotConfiguredConditionMessage,
       cond_ObservedGeneration = 0, cond_LastTransitionTime = now\<rparr>]\<rparr>)"

definition UpdateWatcherConditionStatus :: "klib \<Rightarrow> int \<Rightarrow> string \<Rightarrow> ConditionStatus \<Rightarrow> Watcher \<Rightarrow> Watcher" where
  "UpdateWatcherConditionStatus lib now conditionType conditionStatus = set_wst (\<lambda>st. st\<lparr>wst_Conditions :=
     SetStatusCondition lib (wst_Conditions st)
       \<lparr>cond_Type = conditionType, cond_Status = conditionStatus, cond_Reason = ReadyConditionReason,
        cond_Message = (case conditionStatus of
            ConditionTrue \<Rightarrow> VirtualServiceConfiguredConditionMessage
          | _ \<Rightarrow> VirtualServiceNotConfiguredConditionMessage),
        cond_ObservedGeneration = 0, cond_LastTransitionTime = now\<rparr>\<rparr>)"

section \<open>Routes and virtual services (\<^verbatim>\<open>internal/istio\<close>)\<close>

definition ErrFailedToGetVirtualService :: goerror where
  "ErrFailedToGetVirtualService = Sentinel ''ErrFailedToGetVirtualService'' ''failed to get virtual service''"
definition ErrFailedToCreateVirtualService :: goerror where
  "ErrFailedToCreateVirtualService =
     Sentinel ''ErrFailedToCreateVirtualService'' ''failed to create virtual service''"
definition ErrFailedToUpdateVirtualService :: goerror where
  "ErrFailedToUpdateVirtualService =
     Sentinel ''ErrFailedToUpdateVirtualService'' ''failed to update virtual service''"
definition ErrFailedToDeleteVirtualService :: goerror where
  "ErrFailedToDeleteVirtualService =
     Sentinel ''ErrFailedToDeleteVirtualService'' ''failed to delete virtual service''"
definition ErrFailedToConvertLabelSelector :: goerror where
  "ErrFailedToConvertLabelSelector =
     Sentinel ''ErrFailedToConvertLabelSelector'' ''failed to convert label selector to selector''"
definition ErrFailedToGetGatewayByLabelSelector :: goerror where
  "ErrFailedToGetGatewayByLabelSelector =
     Sentinel ''ErrFailedToGetGatewayByLabelSelector'' ''failed to get gateway by label selector''"
definition ErrFailedToAddOwnerReference :: goerror where
  "ErrFailedToAddOwnerReference = Sentinel ''ErrFailedToAddOwnerReference'' ''failed to add owner reference''"
definition ErrInvalidArgument :: goerror where
  "ErrInvalidArgument = Sentinel ''ErrInvalidArgument'' ''invalid argument''"
definition ErrCantFindGatewayServersHost :: goerror where
  "ErrCantFindGatewayServersHost =
     Sentinel ''ErrCantFindGatewayServersHost'' (''can'' @ [CHR 0x27] @ ''t find Istio Gateway servers hosts'')"

record Gateway =
  gw_Name :: string
  gw_Namespace :: string
  gw_Servers :: "string list list"   \<comment> \<open>the hosts of each server\<close>
  gw_Ports :: "32 word list"         \<comment> \<open>the port number of each server, 0 without a port\<close>

record HTTPRoute =
  hr_Name :: string
  hr_Prefix :: string
  hr_Host :: string
  hr_Port :: "32 word"

record VirtualService =
  vs_Meta :: ObjectMeta
  vs_Gateways :: "string list"
  vs_Hosts :: "string list"
  vs_Http :: "HTTPRoute list"

definition contractVersion :: string where "contractVersion = ''v2''"
definition minPort :: int where "minPort = 1"
definition maxPort :: int where "maxPort = 65535"

definition objectKey :: "string \<Rightarrow> string \<Rightarrow> string" where
  "objectKey ns n = ns @ ''/'' @ n"

definition prefixOf :: "string \<Rightarrow> string" where
  "prefixOf manager = ''/'' @ contractVersion @ ''/'' @ manager @ ''/event''"

definition destinationHost :: "string \<Rightarrow> string \<Rightarrow> string" where
  "destinationHost serviceName serviceNamespace = serviceName @ ''.'' @ serviceNamespace @ ''.svc.cluster.local''"

definition invalidArgument :: "string \<Rightarrow> goerror" where
  "invalidArgument msg = wrapErr (msg @ '': '') ErrInvalidArgument"

definition validateArgumentsForNewHTTPRoute :: "Watcher option \<Rightarrow> goerror option" where
  "validateArgumentsForNewHTTPRoute watcher =
     (case watcher of
        None \<Rightarrow> Some (invalidArgument ''watcher must not be nil'')
      | Some x \<Rightarrow>
          if om_Name (wat_Meta x) = [] then Some (invalidArgument ''watcher.Name must not be empty'')
          else if om_Namespace (wat_Meta x) = [] then Some (invalidArgument ''watcher.Namespace must not be empty'')
          else if GetManagerName x = [] then Some (invalidArgument ''unable to GetManagerName()'')
          else if svc_Name (ws_ServiceInfo (wat_Spec x)) = []
            then Some (invalidArgument ''watcher.Spec.ServiceInfo.Name must not be empty'')
          else if svc_Namespace (ws_ServiceInfo (wat_Spec x)) = []
            then Some (invalidArgument ''watcher.Spec.ServiceInfo.Namespace must not be empty'')
          else if svc_Port (ws_ServiceInfo (wat_Spec x)) = 0
            then Some (invalidArgument ''watcher.Spec.ServiceInfo.Port must not be 0 as it is reserved'')
          else if svc_Port (ws_ServiceInfo (wat_Spec x)) < minPort \<or> maxPort < svc_Port (ws_ServiceInfo (wat_Spec x))
            then Some (invalidArgument (''watcher.Spec.ServiceInfo.Port must be between '' @ decimal_int minPort
                       @ '' and '' @ decimal_int maxPort))
          else None)"

definition NewHTTPRoute :: "Watcher \<Rightarrow> goerror + HTTPRoute" where
  "NewHTTPRoute x =
     (case validateArgumentsForNewHTTPRoute (Some x) of
        Some e \<Rightarrow> Inl e
      | None \<Rightarrow> Inr \<lparr>hr_Name = objectKey (om_Namespace (wat_Meta x)) (om_Name (wat_Meta x)),
                    hr_Prefix = prefixOf (GetManagerName x),
                    hr_Host = destinationHost (svc_Name (ws_ServiceInfo (wat_Spec x)))
                                (svc_Namespace (ws_ServiceInfo (wat_Spec x))),
                    hr_Port = word_of_int (svc_Port (ws_ServiceInfo (wat_Spec x)))\<rparr>)"

definition gateway_key :: "Gateway \<Rightarrow> string" where
  "gateway_key g = objectKey (gw_Namespace g) (gw_Name g)"

definition getGatewayNames :: "Gateway list \<Rightarrow> string list" where
  "getGatewayNames gs = map gateway_key gs"

fun getHosts :: "Gateway list \<Rightarrow> goerror + string list" where
  "getHosts [] = Inr []"
| "getHosts (g # gs) =
     (let gatewayHosts = concat (gw_Servers g) in
      if gatewayHosts = []
      then Inl (wrapErr (''for gateway '' @ gateway_key g @ '': '') ErrCantFindGatewayServersHost)
      else case getHosts gs of Inl e \<Rightarrow> Inl e | Inr hosts \<Rightarrow> Inr (gatewayHosts @ hosts))"

definition validateArgumentsForNewVirtualService :: "Watcher \<Rightarrow> Gateway list \<Rightarrow> goerror option" where
  "validateArgumentsForNewVirtualService x gateways =
     (if om_Name (wat_Meta x) = [] then Some (invalidArgument ''watcher.Name must not be empty'')
      else if om_Namespace (wat_Meta x) = [] then Some (invalidArgument ''watcher.Namespace must not be empty'')
      else if gateways = [] then Some (invalidArgument ''gateways must not be empty'')
      else None)"

text \<open>
  \<open>setOwner\<close> stands for \<^verbatim>\<open>controllerutil.SetOwnerReference\<close>, applied to the owner and the
  metadata of the owned object.
\<close>

definition new_meta :: ObjectMeta where
  "new_meta = \<lparr>om_Name = [], om_Namespace = [], om_Labels = Map.empty, om_Annotations = Map.empty,
     om_Finalizers = [], om_DeletionTimestamp = None, om_Generation = 0, om_OwnerReferences = [], om_ManagedFields = []\<rparr>"

definition NewVirtualService ::
  "(ObjectMeta \<Rightarrow> ObjectMeta \<Rightarrow> goerror + ObjectMeta) \<Rightarrow> Watcher \<Rightarrow> Gateway list \<Rightarrow> goerror + VirtualService" where
  "NewVirtualService setOwner x gateways =
     (case validateArgumentsForNewVirtualService x gateways of
        Some e \<Rightarrow> Inl e
      | None \<Rightarrow>
          (case getHosts gateways of
             Inl e \<Rightarrow> Inl (errors_Join (wrapErr ''unable to construct hosts from gateways: '' ErrInvalidArgument) e)
           | Inr hosts \<Rightarrow>
               (case NewHTTPRoute x of
                  Inl e \<Rightarrow> Inl (errors_Join (wrapErr ''unable to construct httpRoute from watcher: '' ErrInvalidArgument) e)
                | Inr httpRoute \<Rightarrow>
                    (case setOwner (wat_Meta x)
                            (new_meta\<lparr>om_Name := om_Name (wat_Meta x), om_Namespace := om_Namespace (wat_Meta x)\<rparr>) of
                       Inl e \<Rightarrow> Inl (errors_Join ErrFailedToAddOwnerReference e)
                     | Inr m \<Rightarrow> Inr \<lparr>vs_Meta = m, vs_Gateways = getGatewayNames gateways, vs_Hosts = hosts,
                                   vs_Http = [httpRoute]\<rparr>))))"

section \<open>Calls\<close>

record 'w wclient =
  wc_getWatcher :: "'w \<Rightarrow> string \<Rightarrow> string \<Rightarrow> goerror + Watcher"
  wc_updateWatcher :: "Watcher \<Rightarrow> 'w \<Rightarrow> 'w \<times> goerror option"
  wc_patchStatus :: "Watcher \<Rightarrow> 'w \<Rightarrow> 'w \<times> goerror option"
  wc_getVS :: "'w \<Rightarrow> string \<Rightarrow> string \<Rightarrow> goerror + VirtualService"
  wc_createVS :: "VirtualService \<Rightarrow> 'w \<Rightarrow> 'w \<times> goerror option"
  wc_updateVS :: "VirtualService \<Rightarrow> 'w \<Rightarrow> 'w \<times> goerror option"
  wc_deleteVS :: "string \<Rightarrow> string \<Rightarrow> 'w \<Rightarrow> 'w \<times> goerror option"
  wc_listGateways :: "'w \<Rightarrow> string \<Rightarrow> string \<Rightarrow> goerror + Gateway list"
  wc_selector :: "GatewaySelector \<Rightarrow> goerror + string"
  wc_setOwner :: "ObjectMeta \<Rightarrow> ObjectMeta \<Rightarrow> goerror + ObjectMeta"

definition GetVirtualService :: "'w wclient \<Rightarrow> 'w \<Rightarrow> string \<Rightarrow> string \<Rightarrow> goerror + VirtualService" where
  "GetVirtualService c w name ns =
     (case wc_getVS c w name ns of Inl e \<Rightarrow> Inl (errors_Join ErrFailedToGetVirtualService e) | Inr v \<Rightarrow> Inr v)"

definition CreateVirtualService :: "'w wclient \<Rightarrow> VirtualService \<Rightarrow> 'w \<Rightarrow> 'w \<times> goerror option" where
  "CreateVirtualService c v w =
     (case wc_createVS c v w of (w', r) \<Rightarrow> (w', map_option (errors_Join ErrFailedToCreateVirtualService) r))"

definition UpdateVirtualService :: "'w wclient \<Rightarrow> VirtualService \<Rightarrow> VirtualService \<Rightarrow> 'w \<Rightarrow> 'w \<times> goerror option" where
  "UpdateVirtualService c v remote w =
     (let remote' = v\<lparr>vs_Meta := (vs_Meta remote)\<lparr>om_Name := om_Name (vs_Meta v), om_Namespace := om_Namespace (vs_Meta v)\<rparr>\<rparr>
      in case wc_updateVS c remote' w of
           (w', r) \<Rightarrow> (w', map_option (errors_Join ErrFailedToUpdateVirtualService) r))"

definition DeleteVirtualService :: "'w wclient \<Rightarrow> string \<Rightarrow> string \<Rightarrow> 'w \<Rightarrow> 'w \<times> goerror option" where
  "DeleteVirtualService c name ns w =
     (case wc_deleteVS c name ns w of (w', r) \<Rightarrow> (w', map_option (errors_Join ErrFailedToDeleteVirtualService) r))"

definition ListGatewaysByLabelSelector :: "'w wclient \<Rightarrow> 'w \<Rightarrow> GatewaySelector \<Rightarrow> string \<Rightarrow> goerror + Gateway list" where
  "ListGatewaysByLabelSelector c w sel ns =
     (case wc_selector c sel of
        Inl e \<Rightarrow> Inl (errors_Join ErrFailedToConvertLabelSelector e)
      | Inr s \<Rightarrow>
          (case wc_listGateways c w ns s of
             Inl e \<Rightarrow> Inl (errors_Join (Errorf [Wrap ErrFailedToGetGatewayByLabelSelector, Lit ('', '' @ [CHR 0x22] @ s @ [CHR 0x22])]) e)
           | Inr gs \<Rightarrow> Inr gs))"

section \<open>Reconciliation\<close>

definition errFinalizerRemove :: goerror where
  "errFinalizerRemove = Sentinel ''errFinalizerRemove'' ''error removing finalizer''"
definition errFinalizerAdd :: goerror where
  "errFinalizerAdd = Sentinel ''errFinalizerAdd'' ''error adding finalizer''"

record wconfig =
  wcf_lib :: klib
  wcf_intervals :: RequeueIntervals
  wcf_when :: duration                 \<comment> \<open>the delay the rate limiter gives\<close>
  wcf_gatewayNamespace :: string
  wcf_now :: "nat \<Rightarrow> int"              \<comment> \<open>the readings of the clock\<close>

type_synonym 'w wresult = "'w \<times> reconcile_result"

definition updateWatcherStatusUsingSSA :: "'w wclient \<Rightarrow> Watcher \<Rightarrow> 'w \<Rightarrow> 'w \<times> goerror option" where
  "updateWatcherStatusUsingSSA c x w =
     (case wc_patchStatus c (x\<lparr>wat_Meta := (wat_Meta x)\<lparr>om_ManagedFields := []\<rparr>\<rparr>) w of
        (w', r) \<Rightarrow> (w', map_option (wrapErr ''watcher status update failed: '') r))"

definition updateWatcherState :: "'w wclient \<Rightarrow> wconfig \<Rightarrow> Watcher \<Rightarrow> State \<Rightarrow> 'w \<Rightarrow> 'w wresult" where
  "updateWatcherState c cfg watcher state w =
     (let x = set_wst (\<lambda>st. st\<lparr>wst_State := state\<rparr>) watcher;
          x' = (case state of
                  StateReady \<Rightarrow> UpdateWatcherConditionStatus (wcf_lib cfg) (wcf_now cfg 1)
                                  WatcherConditionTypeVirtualService ConditionTrue x
                | StateError \<Rightarrow> UpdateWatcherConditionStatus (wcf_lib cfg) (wcf_now cfg 1)
                                  WatcherConditionTypeVirtualService ConditionFalse x
                | _ \<Rightarrow> x)
      in case updateWatcherStatusUsingSSA c x' w of
           (w', r) \<Rightarrow> (w', requeue (DetermineRequeueInterval state (wcf_intervals cfg)), r))"

definition updateFinalizer :: "'w wclient \<Rightarrow> Watcher \<Rightarrow> 'w \<Rightarrow> 'w \<times> goerror option" where
  "updateFinalizer c x w =
     (case wc_updateWatcher c x w of (w', r) \<Rightarrow> (w', map_option (wrapErr ''failed to update finalizer: '') r))"

definition wat_finalizers :: "string list \<Rightarrow> Watcher \<Rightarrow> Watcher" where
  "wat_finalizers fs x = x\<lparr>wat_Meta := (wat_Meta x)\<lparr>om_Finalizers := fs\<rparr>\<rparr>"

definition watcher_handleDeletingState :: "'w wclient \<Rightarrow> wconfig \<Rightarrow> Watcher \<Rightarrow> 'w \<Rightarrow> 'w wresult" where
  "watcher_handleDeletingState c cfg x w =
     (case DeleteVirtualService c (om_Name (wat_Meta x)) (om_Namespace (wat_Meta x)) w of
        (w1, r) \<Rightarrow>
          if r \<noteq> None \<and> \<not> IsNotFound r then updateWatcherState c cfg x StateError w1
          else case RemoveFinalizer (wcf_lib cfg) (om_Finalizers (wat_Meta x)) WatcherFinalizer of
                 (fs, finalizerRemoved) \<Rightarrow>
                   if \<not> finalizerRemoved then updateWatcherState c cfg (wat_finalizers fs x) StateError w1
                   else on_err (updateFinalizer c (wat_finalizers fs x) w1)
                          (\<lambda>w2 e. (w2, no_requeue, Some e))
                          (\<lambda>w2. (w2, requeue (wcf_when cfg), None)))"

definition watcher_handleProcessingState :: "'w wclient \<Rightarrow> wconfig \<Rightarrow> Watcher \<Rightarrow> 'w \<Rightarrow> 'w wresult" where
  "watcher_handleProcessingState c cfg x w =
     (case ListGatewaysByLabelSelector c w (ws_Gateway (wat_Spec x)) (wcf_gatewayNamespace cfg) of
        Inl e \<Rightarrow> updateWatcherState c cfg x StateError w
      | Inr gateways \<Rightarrow>
          if gateways = [] then updateWatcherState c cfg x StateError w
          else case NewVirtualService (wc_setOwner c) x gateways of
            Inl e \<Rightarrow> updateWatcherState c cfg x StateError w
          | Inr virtualSvc \<Rightarrow>
              (case GetVirtualService c w (om_Name (wat_Meta x)) (om_Namespace (wat_Meta x)) of
                 Inl e \<Rightarrow>
                   if client_IgnoreNotFound e \<noteq> None then updateWatcherState c cfg x StateError w
                   else if IsNotFound (Some e)
                   then on_err (CreateVirtualService c virtualSvc w)
                          (\<lambda>w1 e. updateWatcherState c cfg x StateError w1)
                          (\<lambda>w1. updateWatcherState c cfg x StateReady w1)
                   else (w, no_requeue, Some nilDereference)
               | Inr virtualSvcRemote \<Rightarrow>
                   on_err (UpdateVirtualService c virtualSvc virtualSvcRemote w)
                     (\<lambda>w1 e. updateWatcherState c cfg x StateError w1)
                     (\<lambda>w1. updateWatcherState c cfg x StateReady w1)))"

definition stateHandling :: "'w wclient \<Rightarrow> wconfig \<Rightarrow> Watcher \<Rightarrow> 'w \<Rightarrow> 'w wresult" where
  "stateHandling c cfg x w =
     (case wst_State (wat_Status x) of
        StateEmpty \<Rightarrow> updateWatcherState c cfg x StateProcessing w
      | StateProcessing \<Rightarrow> watcher_handleProcessingState c cfg x w
      | StateDeleting \<Rightarrow> watcher_handleDeletingState c cfg x w
      | StateError \<Rightarrow> watcher_handleProcessingState c cfg x w
      | StateReady \<Rightarrow> watcher_handleProcessingState c cfg x w
      | StateWarning \<Rightarrow> watcher_handleProcessingState c cfg x w
      | StateUnmanaged \<Rightarrow> (w, no_requeue, None)
      | StateOther s \<Rightarrow> (w, no_requeue, None))"

definition watcher_Reconcile :: "'w wclient \<Rightarrow> wconfig \<Rightarrow> NamespacedName \<Rightarrow> 'w \<Rightarrow> 'w wresult" where
  "watcher_Reconcile c cfg req w =
     (case wc_getWatcher c w (snd req) (fst req) of
        Inl e \<Rightarrow>
          if \<not> IsNotFound (Some e) then (w, no_requeue, Some (wrapErr ''watcherController: '' e))
          else (w, no_requeue, None)
      | Inr x \<Rightarrow>
          if om_DeletionTimestamp (wat_Meta x) \<noteq> None \<and> wst_State (wat_Status x) \<noteq> StateDeleting
          then updateWatcherState c cfg x StateDeleting w
          else if \<not> ContainsFinalizer (wat_Meta x) WatcherFinalizer
          then (case AddFinalizer (wcf_lib cfg) (om_Finalizers (wat_Meta x)) WatcherFinalizer of
                  (fs, added) \<Rightarrow>
                    if \<not> added then (w, no_requeue, Some errFinalizerAdd)
                    else on_err (updateFinalizer c (wat_finalizers fs x) w)
                           (\<lambda>w1 e. (w1, no_requeue, Some e))
                           (\<lambda>w1. (w1, requeue (wcf_when cfg), None)))
          else stateHandling c cfg (InitializeConditions (wcf_now cfg 0) x) w)"

section \<open>The API server\<close>

text \<open>
  The objects the server stores. An update of the metadata or the spec does not touch the status, and
  removes an object that is marked for deletion once it has no finalizers; a patch of the status touches
  only the status. A call that fails may have been carried out or not. No VirtualService of a Watcher has
  finalizers, so a successful deletion removes it.
\<close>

record wcluster =
  wl_Watchers :: "NamespacedName \<rightharpoonup> Watcher"
  wl_VS :: "NamespacedName \<rightharpoonup> VirtualService"
  wl_Gateways :: "string \<Rightarrow> string \<Rightarrow> Gateway list"   \<comment> \<open>by namespace and selector\<close>

definition wat_key :: "Watcher \<Rightarrow> NamespacedName" where
  "wat_key x = (om_Namespace (wat_Meta x), om_Name (wat_Meta x))"

definition vs_key :: "VirtualService \<Rightarrow> NamespacedName" where
  "vs_key v = (om_Namespace (vs_Meta v), om_Name (vs_Meta v))"

definition stored_update :: "Watcher \<Rightarrow> Watcher \<Rightarrow> Watcher option" where
  "stored_update x old =
     (if om_DeletionTimestamp (wat_Meta x) \<noteq> None \<and> om_Finalizers (wat_Meta x) = [] then None
      else Some (old\<lparr>wat_Meta := wat_Meta x, wat_Spec := wat_Spec x\<rparr>))"

definition put_watcher :: "Watcher \<Rightarrow> wcluster \<Rightarrow> wcluster" where
  "put_watcher x cl = cl\<lparr>wl_Watchers := (wl_Watchers cl)
     (wat_key x := Option.bind (wl_Watchers cl (wat_key x)) (stored_update x))\<rparr>"

definition put_status :: "Watcher \<Rightarrow> wcluster \<Rightarrow> wcluster" where
  "put_status x cl = cl\<lparr>wl_Watchers := (wl_Watchers cl)
     (wat_key x := map_option (\<lambda>old. old\<lparr>wat_Status := wat_Status x\<rparr>) (wl_Watchers cl (wat_key x)))\<rparr>"

definition put_vs :: "VirtualService \<Rightarrow> wcluster \<Rightarrow> wcluster" where
  "put_vs v cl = cl\<lparr>wl_VS := (wl_VS cl)(vs_key v \<mapsto> v)\<rparr>"

definition drop_vs :: "string \<Rightarrow> string \<Rightarrow> wcluster \<Rightarrow> wcluster" where
  "drop_vs n ns cl = cl\<lparr>wl_VS := (wl_VS cl)((ns, n) := None)\<rparr>"

definition takes_effect :: "('w \<Rightarrow> wcluster) \<Rightarrow> (wcluster \<Rightarrow> wcluster) \<Rightarrow> ('w \<Rightarrow> 'w \<times> goerror option) \<Rightarrow> bool" where
  "takes_effect view f op \<longleftrightarrow>
     (\<forall>w. (snd (op w) = None \<longrightarrow> view (fst (op w)) = f (view w))
        \<and> view (fst (op w)) \<in> {view w, f (view w)})"

definition owner_ok :: "(ObjectMeta \<Rightarrow> ObjectMeta \<Rightarrow> goerror + ObjectMeta) \<Rightarrow> bool" where
  "owner_ok setOwner \<longleftrightarrow>
     (\<forall>x m m'. setOwner x m = Inr m' \<longrightarrow> om_Name m' = om_Name m \<and> om_Namespace m' = om_Namespace m)"

definition api_faithful :: "'w wclient \<Rightarrow> ('w \<Rightarrow> wcluster) \<Rightarrow> bool" where
  "api_faithful c view \<longleftrightarrow>
     (\<forall>w n ns x. wc_getWatcher c w n ns = Inr x \<longrightarrow> wl_Watchers (view w) (ns, n) = Some x \<and> wat_key x = (ns, n))
   \<and> (\<forall>w n ns e. wc_getWatcher c w n ns = Inl e \<and> IsNotFound (Some e) \<longrightarrow> wl_Watchers (view w) (ns, n) = None)
   \<and> (\<forall>w n ns v. wc_getVS c w n ns = Inr v \<longrightarrow> wl_VS (view w) (ns, n) = Some v)
   \<and> (\<forall>w ns s gs. wc_listGateways c w ns s = Inr gs \<longrightarrow> gs = wl_Gateways (view w) ns s)
   \<and> (\<forall>x. takes_effect view (put_watcher x) (wc_updateWatcher c x))
   \<and> (\<forall>x. takes_effect view (put_status x) (wc_patchStatus c x))
   \<and> (\<forall>v. takes_effect view (put_vs v) (wc_createVS c v))
   \<and> (\<forall>v. takes_effect view (put_vs v) (wc_updateVS c v))
   \<and> (\<forall>n ns. takes_effect view (drop_vs n ns) (wc_deleteVS c n ns))
   \<and> (\<forall>n ns w e. snd (wc_deleteVS c n ns w) = Some e \<and> IsNotFound (Some (errors_Join ErrFailedToDeleteVirtualService e))
        \<longrightarrow> wl_VS (view (fst (wc_deleteVS c n ns w))) (ns, n) = None)
   \<and> owner_ok (wc_setOwner c)"

lemma api_faithfulD:
  assumes "api_faithful c view"
  shows "wc_getWatcher c w n ns = Inr x \<Longrightarrow> wl_Watchers (view w) (ns, n) = Some x \<and> wat_key x = (ns, n)"
    and "wc_getWatcher c w n ns = Inl e \<Longrightarrow> IsNotFound (Some e) \<Longrightarrow> wl_Watchers (view w) (ns, n) = None"
    and "wc_getVS c w n ns = Inr v \<Longrightarrow> wl_VS (view w) (ns, n) = Some v"
    and "wc_listGateways c w ns s = Inr gs \<Longrightarrow> gs = wl_Gateways (view w) ns s"
    and "takes_effect view (put_watcher x) (wc_updateWatcher c x)"
    and "takes_effect view (put_status x) (wc_patchStatus c x)"
    and "takes_effect view (put_vs v) (wc_createVS c v)"
    and "takes_effect view (put_vs v) (wc_updateVS c v)"
    and "takes_effect view (drop_vs n ns) (wc_deleteVS c n ns)"
    and "wc_deleteVS c n ns w = (w', Some e) \<Longrightarrow> IsNotFound (Some (errors_Join ErrFailedToDeleteVirtualService e))
        \<Longrightarrow> wl_VS (view w') (ns, n) = None"
    and "owner_ok (wc_setOwner c)"
proof -
  note f = assms [unfolded api_faithful_def]
  show "wc_getWatcher c w n ns = Inr x \<Longrightarrow> wl_Watchers (view w) (ns, n) = Some x \<and> wat_key x = (ns, n)"
    using f by (elim conjE, simp)
  show "wc_getWatcher c w n ns = Inl e \<Longrightarrow> IsNotFound (Some e) \<Longrightarrow> wl_Watchers (view w) (ns, n) = None"
    using f by (elim conjE, simp)
  show "wc_getVS c w n ns = Inr v \<Longrightarrow> wl_VS (view w) (ns, n) = Some v"
    using f by (elim conjE, simp)
  show "wc_listGateways c w ns s = Inr gs \<Longrightarrow> gs = wl_Gateways (view w) ns s"
    using f by (elim conjE, simp)
  show "takes_effect view (put_watcher x) (wc_updateWatcher c x)"
    using f by (elim conjE, simp)
  show "takes_effect view (put_status x) (wc_patchStatus c x)"
    using f by (elim conjE, simp)
  show "takes_effect view (put_vs v) (wc_createVS c v)"
    using f by (elim conjE, simp)
  show "takes_effect view (put_vs v) (wc_updateVS c v)"
    using f by (elim conjE, simp)
  show "takes_effect view (drop_vs n ns) (wc_deleteVS c n ns)"
    using f by (elim conjE, simp)
  show "owner_ok (wc_setOwner c)"
    using f by (elim conjE, simp)
  have "snd (wc_deleteVS c n ns w) = Some e \<and> IsNotFound (Some (errors_Join ErrFailedToDeleteVirtualService e))
        \<longrightarrow> wl_VS (view (fst (wc_deleteVS c n ns w))) (ns, n) = None"
    using f by blast
  then show "wc_deleteVS c n ns w = (w', Some e) \<Longrightarrow> IsNotFound (Some (errors_Join ErrFailedToDeleteVirtualService e))
        \<Longrightarrow> wl_VS (view w') (ns, n) = None"
    by simp
qed

lemma takes_effectD:
  assumes "takes_effect view f op" "op w = (w', r)"
  shows "r = None \<Longrightarrow> view w' = f (view w)" and "view w' = view w \<or> view w' = f (view w)"
  using assms(1) [unfolded takes_effect_def, rule_format, of w] assms(2) by simp_all

text \<open>What the calls leave alone.\<close>

lemma put_sel [simp]:
  "wl_VS (put_watcher x cl) = wl_VS cl" "wl_Gateways (put_watcher x cl) = wl_Gateways cl"
  "wl_VS (put_status x cl) = wl_VS cl" "wl_Gateways (put_status x cl) = wl_Gateways cl"
  "wl_Watchers (put_vs v cl) = wl_Watchers cl" "wl_Gateways (put_vs v cl) = wl_Gateways cl"
  "wl_Watchers (drop_vs n ns cl) = wl_Watchers cl" "wl_Gateways (drop_vs n ns cl) = wl_Gateways cl"
  "wl_VS (put_vs v cl) = (wl_VS cl)(vs_key v \<mapsto> v)"
  "wl_VS (drop_vs n ns cl) = (wl_VS cl)((ns, n) := None)"
  by (simp_all add: put_watcher_def put_status_def put_vs_def drop_vs_def)

lemma put_status_stored [simp]:
  "wl_Watchers (put_status x cl) (wat_key x) =
     map_option (\<lambda>old. old\<lparr>wat_Status := wat_Status x\<rparr>) (wl_Watchers cl (wat_key x))"
  by (simp add: put_status_def)

lemma put_watcher_stored [simp]:
  "wl_Watchers (put_watcher x cl) (wat_key x) = Option.bind (wl_Watchers cl (wat_key x)) (stored_update x)"
  by (simp add: put_watcher_def)

lemma set_wst_sel [simp]:
  "wat_Meta (set_wst f x) = wat_Meta x" "wat_Spec (set_wst f x) = wat_Spec x"
  "wat_Status (set_wst f x) = f (wat_Status x)"
  by (simp_all add: set_wst_def)

lemma wat_sel [simp]:
  "wat_Meta (InitializeConditions t x) = wat_Meta x" "wat_Spec (InitializeConditions t x) = wat_Spec x"
  "wst_State (wat_Status (InitializeConditions t x)) = wst_State (wat_Status x)"
  "wat_Meta (UpdateWatcherConditionStatus lib t ct cs x) = wat_Meta x"
  "wst_State (wat_Status (UpdateWatcherConditionStatus lib t ct cs x)) = wst_State (wat_Status x)"
  by (simp_all add: InitializeConditions_def UpdateWatcherConditionStatus_def)

lemma wat_key_init [simp]: "wat_key (InitializeConditions t x) = wat_key x"
  by (simp add: wat_key_def)

text \<open>A new state reaches the status of the stored Watcher and nothing else.\<close>

lemma updateWatcherState_effect:
  assumes f: "api_faithful c view" and u: "updateWatcherState c cfg x st w = (w', res, r)"
  obtains x' where "wat_key x' = wat_key x" "wst_State (wat_Status x') = st"
    "r = None \<Longrightarrow> view w' = put_status x' (view w)" "view w' = view w \<or> view w' = put_status x' (view w)"
    "res = requeue (DetermineRequeueInterval st (wcf_intervals cfg))"
proof -
  define y where "y = (case st of
                  StateReady \<Rightarrow> UpdateWatcherConditionStatus (wcf_lib cfg) (wcf_now cfg 1)
                                  WatcherConditionTypeVirtualService ConditionTrue (set_wst (\<lambda>s. s\<lparr>wst_State := st\<rparr>) x)
                | StateError \<Rightarrow> UpdateWatcherConditionStatus (wcf_lib cfg) (wcf_now cfg 1)
                                  WatcherConditionTypeVirtualService ConditionFalse (set_wst (\<lambda>s. s\<lparr>wst_State := st\<rparr>) x)
                | _ \<Rightarrow> set_wst (\<lambda>s. s\<lparr>wst_State := st\<rparr>) x)"
  define z where "z = y\<lparr>wat_Meta := (wat_Meta y)\<lparr>om_ManagedFields := []\<rparr>\<rparr>"
  have y: "wat_Meta y = wat_Meta x" "wst_State (wat_Status y) = st"
    by (cases st; simp add: y_def)+
  obtain r0 where p: "wc_patchStatus c z w = (w', r0)"
    and r: "r = map_option (wrapErr ''watcher status update failed: '') r0"
    and res: "res = requeue (DetermineRequeueInterval st (wcf_intervals cfg))"
    using u unfolding updateWatcherState_def Let_def y_def [symmetric] updateWatcherStatusUsingSSA_def z_def [symmetric]
    by (simp split: prod.splits)
  note t = takes_effectD [OF api_faithfulD(6) [OF f] p]
  show thesis
  proof (rule that [of z])
    show "wat_key z = wat_key x" by (simp add: wat_key_def z_def y)
    show "wst_State (wat_Status z) = st" by (simp add: z_def y)
    show "view w' = put_status z (view w)" if "r = None" using that r t(1) by simp
    show "view w' = view w \<or> view w' = put_status z (view w)" by (rule t(2))
    show "res = requeue (DetermineRequeueInterval st (wcf_intervals cfg))" by (rule res)
  qed
qed

lemma updateWatcherState_keeps:
  assumes "api_faithful c view" "updateWatcherState c cfg x st w = (w', res, r)"
    and old: "wl_Watchers (view w) (wat_key x) = Some o1"
  obtains o2 where "wl_Watchers (view w') (wat_key x) = Some o2" "wat_Meta o2 = wat_Meta o1"
    "wat_Spec o2 = wat_Spec o1" "r = None \<Longrightarrow> wst_State (wat_Status o2) = st"
    "wl_VS (view w') = wl_VS (view w)" "wl_Gateways (view w') = wl_Gateways (view w)"
proof -
  from assms(1,2) obtain x' where x': "wat_key x' = wat_key x" "wst_State (wat_Status x') = st"
    "r = None \<Longrightarrow> view w' = put_status x' (view w)" "view w' = view w \<or> view w' = put_status x' (view w)"
    by (rule updateWatcherState_effect) blast
  have p: "wl_Watchers (put_status x' (view w)) (wat_key x) = Some (o1\<lparr>wat_Status := wat_Status x'\<rparr>)"
    using put_status_stored [of x' "view w"] x'(1) old by simp
  show thesis
  proof (cases "view w' = put_status x' (view w)")
    case True
    then show thesis using p x'(2) by (intro that [of "o1\<lparr>wat_Status := wat_Status x'\<rparr>"]) simp_all
  next
    case False
    then have "view w' = view w" "r \<noteq> None" using x' by auto
    then show thesis using old by (intro that) simp_all
  qed
qed

section \<open>Routes\<close>

lemma getHosts_Inr: "getHosts gs = Inr hosts \<Longrightarrow> hosts = concat (map (concat \<circ> gw_Servers) gs)"
  by (induction gs arbitrary: hosts) (auto simp: Let_def split: if_splits sum.splits)

lemma NewHTTPRoute_Inr:
  assumes "NewHTTPRoute x = Inr r"
  shows "r = \<lparr>hr_Name = objectKey (om_Namespace (wat_Meta x)) (om_Name (wat_Meta x)),
             hr_Prefix = prefixOf (GetManagerName x),
             hr_Host = destinationHost (svc_Name (ws_ServiceInfo (wat_Spec x))) (svc_Namespace (ws_ServiceInfo (wat_Spec x))),
             hr_Port = word_of_int (svc_Port (ws_ServiceInfo (wat_Spec x)))\<rparr>"
    and "GetManagerName x \<noteq> []"
    and "1 \<le> svc_Port (ws_ServiceInfo (wat_Spec x))" "svc_Port (ws_ServiceInfo (wat_Spec x)) \<le> 65535"
  using assms unfolding NewHTTPRoute_def validateArgumentsForNewHTTPRoute_def minPort_def maxPort_def
  by (simp_all split: if_splits)

lemma port_word: "1 \<le> p \<Longrightarrow> p \<le> 65535 \<Longrightarrow> uint (word_of_int p :: 32 word) = p"
  by (simp add: uint_word_of_int)

lemma GetManagerName_init [simp]: "GetManagerName (InitializeConditions t x) = GetManagerName x"
  by (simp add: GetManagerName_def)

text \<open>
  The VirtualService that a Watcher asks for: attached to the selected gateways, for all their hosts, with
  one route from the prefix of the manager to the service of the Watcher.
\<close>

definition routes_for :: "Watcher \<Rightarrow> Gateway list \<Rightarrow> VirtualService \<Rightarrow> bool" where
  "routes_for x gs v \<longleftrightarrow>
     gs \<noteq> [] \<and> vs_Gateways v = map gateway_key gs
   \<and> vs_Hosts v = concat (map (concat \<circ> gw_Servers) gs)
   \<and> (\<exists>r. vs_Http v = [r]
        \<and> hr_Prefix r = ''/v2/'' @ GetManagerName x @ ''/event'' \<and> GetManagerName x \<noteq> []
        \<and> hr_Host r = destinationHost (svc_Name (ws_ServiceInfo (wat_Spec x))) (svc_Namespace (ws_ServiceInfo (wat_Spec x)))
        \<and> uint (hr_Port r) = svc_Port (ws_ServiceInfo (wat_Spec x)))"

lemma NewVirtualService_Inr:
  assumes "NewVirtualService setOwner x gs = Inr v" "owner_ok setOwner"
  shows "routes_for x gs v" "vs_key v = wat_key x"
proof -
  from assms(1) obtain hosts r m where
    h: "getHosts gs = Inr hosts" and r: "NewHTTPRoute x = Inr r" and ne: "gs \<noteq> []"
    and m: "setOwner (wat_Meta x) (new_meta\<lparr>om_Name := om_Name (wat_Meta x), om_Namespace := om_Namespace (wat_Meta x)\<rparr>) = Inr m"
    and v: "v = \<lparr>vs_Meta = m, vs_Gateways = getGatewayNames gs, vs_Hosts = hosts, vs_Http = [r]\<rparr>"
    unfolding NewVirtualService_def validateArgumentsForNewVirtualService_def
    by (auto split: option.splits sum.splits if_splits)
  note n = NewHTTPRoute_Inr [OF r]
  show "routes_for x gs v"
    using ne v getHosts_Inr [OF h] n port_word [OF n(3,4)]
    by (simp add: routes_for_def getGatewayNames_def prefixOf_def contractVersion_def)
  show "vs_key v = wat_key x"
    using assms(2) [unfolded owner_ok_def, rule_format, OF m] by (simp add: vs_key_def wat_key_def v)
qed

lemma routes_for_cong:
  "routes_for x gs (v\<lparr>vs_Meta := m\<rparr>) = routes_for x gs v"
  "routes_for (InitializeConditions t x) gs v = routes_for x gs v"
  by (simp_all add: routes_for_def)

text \<open>The VirtualService of a Watcher is stored as it asks for it.\<close>

definition configured :: "'w wclient \<Rightarrow> wconfig \<Rightarrow> wcluster \<Rightarrow> Watcher \<Rightarrow> bool" where
  "configured c cfg cl x \<longleftrightarrow>
     (\<exists>s v. wc_selector c (ws_Gateway (wat_Spec x)) = Inr s
        \<and> wl_VS cl (wat_key x) = Some v
        \<and> routes_for x (wl_Gateways cl (wcf_gatewayNamespace cfg) s) v)"

text \<open>
  The outcome of the processing state: either an attempt to record the state Error, or the VirtualService
  was written and an attempt was made to record the state Ready.
\<close>

lemma IsNotFound_client:
  "client_IgnoreNotFound e = None \<Longrightarrow> IsNotFound (Some e)"
  by (simp add: client_IgnoreNotFound_def IsNotFound_def split: if_splits)

lemma handleProcessing_cases:
  assumes f: "api_faithful c view" and p: "watcher_handleProcessingState c cfg x w = (w', res, r)"
  obtains (failed) w1 where "updateWatcherState c cfg x StateError w1 = (w', res, r)"
      "wl_Watchers (view w1) = wl_Watchers (view w)"
  | (written) w1 s v where "updateWatcherState c cfg x StateReady w1 = (w', res, r)"
      "wl_Watchers (view w1) = wl_Watchers (view w)" "wl_Gateways (view w1) = wl_Gateways (view w)"
      "wc_selector c (ws_Gateway (wat_Spec x)) = Inr s"
      "wl_VS (view w1) (wat_key x) = Some v"
      "routes_for x (wl_Gateways (view w) (wcf_gatewayNamespace cfg) s) v"
proof -
  have wr: "thesis"
    if op: "op w = (w1, r1)" and t: "takes_effect view (put_vs v) op"
      and u: "on_err (w1, map_option g r1) (\<lambda>w1 e. updateWatcherState c cfg x StateError w1)
                (\<lambda>w1. updateWatcherState c cfg x StateReady w1) = (w', res, r)"
      and s: "wc_selector c (ws_Gateway (wat_Spec x)) = Inr s"
      and v: "vs_key v = wat_key x" "routes_for x (wl_Gateways (view w) (wcf_gatewayNamespace cfg) s) v"
    for op w1 r1 v g s
  proof (cases r1)
    case None
    note e = takes_effectD(1) [OF t op None]
    show thesis
      by (rule written [of w1 s v]) (use u None e s v in simp_all)
  next
    case (Some e)
    have "wl_Watchers (view w1) = wl_Watchers (view w)" using takes_effectD(2) [OF t op] by auto
    then show thesis using u Some by (intro failed [of w1]) simp_all
  qed
  show thesis
  proof (cases "ListGatewaysByLabelSelector c w (ws_Gateway (wat_Spec x)) (wcf_gatewayNamespace cfg)")
    case (Inl e)
    then show thesis using p by (intro failed [of w]) (simp_all add: watcher_handleProcessingState_def)
  next
    case (Inr gs)
    then obtain s where s: "wc_selector c (ws_Gateway (wat_Spec x)) = Inr s"
      and gs: "gs = wl_Gateways (view w) (wcf_gatewayNamespace cfg) s"
      using api_faithfulD(4) [OF f] unfolding ListGatewaysByLabelSelector_def by (auto split: sum.splits)
    show thesis
    proof (cases "gs = [] \<or> (\<exists>e. NewVirtualService (wc_setOwner c) x gs = Inl e)")
      case True
      then show thesis using p Inr
        by (intro failed [of w]) (auto simp: watcher_handleProcessingState_def split: if_splits)
    next
      case False
      then obtain v where v: "NewVirtualService (wc_setOwner c) x gs = Inr v" and ne: "gs \<noteq> []"
        by (cases "NewVirtualService (wc_setOwner c) x gs") auto
      note nv = NewVirtualService_Inr [OF v api_faithfulD(11) [OF f]]
      show thesis
      proof (cases "GetVirtualService c w (om_Name (wat_Meta x)) (om_Namespace (wat_Meta x))")
        case g: (Inl e)
        show thesis
        proof (cases "client_IgnoreNotFound e")
          case None
          obtain w1 r1 where op: "wc_createVS c v w = (w1, r1)" by (cases "wc_createVS c v w")
          show thesis
            by (rule wr [OF op api_faithfulD(7) [OF f], of "errors_Join ErrFailedToCreateVirtualService"])
              (use p Inr v ne g None IsNotFound_client [OF None] op s gs nv in
                \<open>simp_all add: watcher_handleProcessingState_def CreateVirtualService_def\<close>)
        next
          case (Some e')
          then show thesis using p Inr v ne g
            by (intro failed [of w]) (simp_all add: watcher_handleProcessingState_def)
        qed
      next
        case g: (Inr remote)
        define v' where "v' = v\<lparr>vs_Meta := (vs_Meta remote)\<lparr>om_Name := om_Name (vs_Meta v), om_Namespace := om_Namespace (vs_Meta v)\<rparr>\<rparr>"
        have v': "vs_key v' = wat_key x" "routes_for x gs v'"
          using nv by (simp_all add: v'_def vs_key_def routes_for_cong)
        obtain w1 r1 where op: "wc_updateVS c v' w = (w1, r1)" by (cases "wc_updateVS c v' w")
        show thesis
          by (rule wr [OF op api_faithfulD(8) [OF f], of "errors_Join ErrFailedToUpdateVirtualService"])
            (use p Inr v ne g op s gs v' in
              \<open>simp_all add: watcher_handleProcessingState_def UpdateVirtualService_def v'_def [symmetric]\<close>)
      qed
    qed
  qed
qed

section \<open>Ready Watchers\<close>

text \<open>A reconciliation of a stored Watcher reads exactly that Watcher or ends with an error.\<close>

lemma watcher_Reconcile_cases:
  assumes f: "api_faithful c view" and r: "watcher_Reconcile c cfg (ns, n) w = (w', res, r)"
    and st: "wl_Watchers (view w) (ns, n) = Some x"
  obtains (unread) e where "w' = w" "r = Some e"
  | (read) "wat_key x = (ns, n)" "wc_getWatcher c w n ns = Inr x"
proof (cases "wc_getWatcher c w n ns")
  case (Inl e)
  then show thesis using r st api_faithfulD(2) [OF f Inl]
    by (intro unread [of "wrapErr ''watcherController: '' e"]) (simp_all add: watcher_Reconcile_def split: if_splits)
next
  case (Inr y)
  then show thesis using api_faithfulD(1) [OF f Inr] st by (intro read) simp_all
qed

lemma stateHandling_ready:
  assumes f: "api_faithful c view"
    and r: "stateHandling c cfg (InitializeConditions t x) w = (w', res, None)"
    and st: "wl_Watchers (view w) (wat_key x) = Some x" and fin: "ContainsFinalizer (wat_Meta x) WatcherFinalizer"
    and y: "wl_Watchers (view w') (wat_key x) = Some y" "wst_State (wat_Status y) = StateReady"
    and lib: "klib_ok (wcf_lib cfg)"
  shows "configured c cfg (view w') y"
proof -
  let ?x = "InitializeConditions t x"
  have key: "wat_key ?x = wat_key x" by simp
  have other: False if "updateWatcherState c cfg z s w1 = (w', res, None)" "s \<noteq> StateReady"
      "wat_key z = wat_key x" "wl_Watchers (view w1) = wl_Watchers (view w)" for z s w1
  proof -
    have "wl_Watchers (view w1) (wat_key z) = Some x" using that st by simp
    from updateWatcherState_keeps [OF f that(1) this] obtain o2 where
      "wl_Watchers (view w') (wat_key z) = Some o2" "wst_State (wat_Status o2) = s" by blast
    then show False using y that by simp
  qed
  have proc: "configured c cfg (view w') y" if "watcher_handleProcessingState c cfg ?x w = (w', res, None)"
    using f that
  proof (cases rule: handleProcessing_cases)
    case (failed w1)
    then show ?thesis using other [OF failed(1)] by simp
  next
    case (written w1 s v)
    have "wl_Watchers (view w1) (wat_key ?x) = Some x" using written st by simp
    from updateWatcherState_keeps [OF f written(1) this] obtain o2 where
      o2: "wl_Watchers (view w') (wat_key ?x) = Some o2" "wat_Meta o2 = wat_Meta x" "wat_Spec o2 = wat_Spec x"
        "wl_VS (view w') = wl_VS (view w1)" "wl_Gateways (view w') = wl_Gateways (view w1)" by blast
    then have "y = o2" using y by simp
    moreover have "routes_for o2 gs v = routes_for x gs v" "wat_key o2 = wat_key x" for gs
      using o2 by (simp_all add: routes_for_def GetManagerName_def wat_key_def)
    ultimately show ?thesis using o2 written unfolding configured_def by (simp add: routes_for_cong)
  qed
  show ?thesis
  proof (cases "wst_State (wat_Status x)")
    case StateDeleting
    then have d: "watcher_handleDeletingState c cfg ?x w = (w', res, None)" using r by (simp add: stateHandling_def)
    obtain w1 r1 where del: "wc_deleteVS c (om_Name (wat_Meta x)) (om_Namespace (wat_Meta x)) w = (w1, r1)" by fastforce
    have same: "wl_Watchers (view w1) = wl_Watchers (view w)"
      using takes_effectD(2) [OF api_faithfulD(9) [OF f] del] by auto
    obtain fs rem where rf: "RemoveFinalizer (wcf_lib cfg) (om_Finalizers (wat_Meta x)) WatcherFinalizer = (fs, rem)" by fastforce
    have rem: rem using lib fin rf unfolding klib_ok_def Finalizer_spec_def ContainsFinalizer_def by (metis snd_conv)
    show ?thesis
    proof (cases "r1 \<noteq> None \<and> \<not> IsNotFound (map_option (errors_Join ErrFailedToDeleteVirtualService) r1)")
      case True
      then have "updateWatcherState c cfg ?x StateError w1 = (w', res, None)"
        using d del by (simp add: watcher_handleDeletingState_def DeleteVirtualService_def)
      from other [OF this _ _ same] show ?thesis by simp
    next
      case False
      obtain w2 r2 where up: "wc_updateWatcher c (wat_finalizers fs ?x) w1 = (w2, r2)" by fastforce
      from False d del rf rem up have "r2 = None" "w' = w2"
        by (cases r2; auto simp: watcher_handleDeletingState_def DeleteVirtualService_def updateFinalizer_def)+
      then have v: "view w' = put_watcher (wat_finalizers fs ?x) (view w1)"
        using takes_effectD(1) [OF api_faithfulD(5) [OF f] up] by simp
      have k: "wat_key (wat_finalizers fs ?x) = wat_key x" by (simp add: wat_key_def wat_finalizers_def)
      have "wl_Watchers (view w') (wat_key x) = stored_update (wat_finalizers fs ?x) x"
        using v put_watcher_stored [of "wat_finalizers fs ?x" "view w1"] k same st by simp
      then have "wst_State (wat_Status y) = wst_State (wat_Status x)"
        using y by (auto simp: stored_update_def split: if_splits)
      then show ?thesis using y StateDeleting by simp
    qed
  next
    case StateEmpty
    then show ?thesis using r other [of ?x StateProcessing w] by (simp add: stateHandling_def)
  next
    case StateUnmanaged
    then show ?thesis using r y st by (simp add: stateHandling_def)
  next
    case (StateOther z)
    then show ?thesis using r y st by (simp add: stateHandling_def)
  qed (use r proc in \<open>simp_all add: stateHandling_def\<close>)
qed

text \<open>
  C16. If the reconciliation of a Watcher that carries the finalizer ends without an error and the stored Watcher is
  then in state Ready, the stored VirtualService of the Watcher is the one it asks for: attached to all gateways
  that the selector finds, for all their hosts, with one route from \<^verbatim>\<open>/v2/<manager>/event\<close> to the
  service of the Watcher on its port.
\<close>

theorem watcher_ready_sound:
  assumes "api_faithful c view" and "klib_ok (wcf_lib cfg)"
    and "wl_Watchers (view w) (ns, n) = Some x" and "ContainsFinalizer (wat_Meta x) WatcherFinalizer"
    and "watcher_Reconcile c cfg (ns, n) w = (w', res, None)"
    and "wl_Watchers (view w') (ns, n) = Some y" and "wst_State (wat_Status y) = StateReady"
  shows "configured c cfg (view w') y"
  using assms(1,5,3)
proof (cases rule: watcher_Reconcile_cases)
  case read
  show ?thesis
  proof (cases "om_DeletionTimestamp (wat_Meta x) \<noteq> None \<and> wst_State (wat_Status x) \<noteq> StateDeleting")
    case True
    then have u: "updateWatcherState c cfg x StateDeleting w = (w', res, None)"
      using assms(5) read(2) by (simp add: watcher_Reconcile_def)
    have "wl_Watchers (view w) (wat_key x) = Some x" using assms(3) read(1) by simp
    from updateWatcherState_keeps [OF assms(1) u this] obtain o2 where
      "wl_Watchers (view w') (wat_key x) = Some o2" "wst_State (wat_Status o2) = StateDeleting" by blast
    then show ?thesis using assms(6,7) read(1) by simp
  next
    case False
    then have "stateHandling c cfg (InitializeConditions (wcf_now cfg 0) x) w = (w', res, None)"
      using assms(4,5) read(2) by (auto simp: watcher_Reconcile_def split: if_splits)
    from stateHandling_ready [OF assms(1) this] show ?thesis using assms read(1) by simp
  qed
qed simp

section \<open>Deletion\<close>

definition holds_finalizer :: "wcluster \<Rightarrow> NamespacedName \<Rightarrow> bool" where
  "holds_finalizer cl k \<longleftrightarrow> (\<exists>y. wl_Watchers cl k = Some y \<and> ContainsFinalizer (wat_Meta y) WatcherFinalizer)"

lemma updateWatcherState_finalizer:
  assumes "api_faithful c view" "updateWatcherState c cfg x st w = (w', res, r)" "holds_finalizer (view w) (wat_key x)"
  shows "holds_finalizer (view w') (wat_key x)"
proof -
  from assms(3) obtain o1 where o1: "wl_Watchers (view w) (wat_key x) = Some o1"
    "ContainsFinalizer (wat_Meta o1) WatcherFinalizer" by (auto simp: holds_finalizer_def)
  from updateWatcherState_keeps [OF assms(1,2) o1(1)] obtain o2 where
    "wl_Watchers (view w') (wat_key x) = Some o2" "wat_Meta o2 = wat_Meta o1" by blast
  then show ?thesis using o1 by (auto simp: holds_finalizer_def)
qed

text \<open>The VirtualService is gone when the finalizer is about to be removed.\<close>

lemma deleted_vs_gone:
  assumes f: "api_faithful c view" and del: "wc_deleteVS c n ns w = (w1, r1)"
    and ok: "r1 = None \<or> IsNotFound (map_option (errors_Join ErrFailedToDeleteVirtualService) r1)"
  shows "wl_VS (view w1) (ns, n) = None"
proof (cases r1)
  case None
  then show ?thesis using takes_effectD(1) [OF api_faithfulD(9) [OF f] del] by simp
next
  case (Some e)
  then show ?thesis using api_faithfulD(10) [OF f, of n ns w w1 e] del ok by simp
qed

lemma handleDeleting_safe:
  assumes f: "api_faithful c view" and d: "watcher_handleDeletingState c cfg x w = (w', res, r)"
    and fin: "holds_finalizer (view w) (wat_key x)"
  shows "holds_finalizer (view w') (wat_key x) \<or> wl_VS (view w') (wat_key x) = None"
proof -
  obtain w1 r1 where del: "wc_deleteVS c (om_Name (wat_Meta x)) (om_Namespace (wat_Meta x)) w = (w1, r1)" by fastforce
  have "wl_Watchers (view w1) = wl_Watchers (view w)"
    using takes_effectD(2) [OF api_faithfulD(9) [OF f] del] by auto
  then have fin1: "holds_finalizer (view w1) (wat_key x)" using fin by (simp add: holds_finalizer_def)
  have upd: "holds_finalizer (view w') (wat_key x)"
    if "updateWatcherState c cfg z st w1 = (w', res, r)" "wat_key z = wat_key x" for z st
    using updateWatcherState_finalizer [OF f that(1)] that(2) fin1 by simp
  have k: "wat_key (wat_finalizers fs x) = wat_key x" for fs by (simp add: wat_key_def wat_finalizers_def)
  obtain fs rem where rf: "RemoveFinalizer (wcf_lib cfg) (om_Finalizers (wat_Meta x)) WatcherFinalizer = (fs, rem)" by fastforce
  consider (error) "r1 \<noteq> None \<and> \<not> IsNotFound (map_option (errors_Join ErrFailedToDeleteVirtualService) r1)"
    | (gone) "r1 = None \<or> IsNotFound (map_option (errors_Join ErrFailedToDeleteVirtualService) r1)"
    by (cases "r1 = None \<or> IsNotFound (map_option (errors_Join ErrFailedToDeleteVirtualService) r1)") auto
  then show ?thesis
  proof cases
    case error
    then have "updateWatcherState c cfg x StateError w1 = (w', res, r)"
      using d del by (simp add: watcher_handleDeletingState_def DeleteVirtualService_def)
    then show ?thesis using upd by simp
  next
    case gone
    have none: "wl_VS (view w1) (wat_key x) = None" using deleted_vs_gone [OF f del gone] by (simp add: wat_key_def)
    show ?thesis
    proof (cases rem)
      case True
      obtain w2 r2 where up: "wc_updateWatcher c (wat_finalizers fs x) w1 = (w2, r2)" by fastforce
      have "w' = w2" using gone True d del rf up
        by (cases r2; auto simp: watcher_handleDeletingState_def DeleteVirtualService_def updateFinalizer_def)
      then have "wl_VS (view w') = wl_VS (view w1)"
        using takes_effectD(2) [OF api_faithfulD(5) [OF f] up] by auto
      then show ?thesis using none by simp
    next
      case False
      then have "updateWatcherState c cfg (wat_finalizers fs x) StateError w1 = (w', res, r)"
        using gone d del rf by (auto simp: watcher_handleDeletingState_def DeleteVirtualService_def)
      then show ?thesis using upd k by blast
    qed
  qed
qed

text \<open>
  C17. The finalizer of a Watcher protects its VirtualService: whatever calls fail, after a reconciliation the
  stored Watcher still carries the finalizer, or the VirtualService of the Watcher is gone.
\<close>

theorem watcher_finalizer_safe:
  assumes "api_faithful c view" and "holds_finalizer (view w) (ns, n)"
    and "watcher_Reconcile c cfg (ns, n) w = (w', res, r)"
  shows "holds_finalizer (view w') (ns, n) \<or> wl_VS (view w') (ns, n) = None"
proof -
  from assms(2) obtain x where x: "wl_Watchers (view w) (ns, n) = Some x"
    "ContainsFinalizer (wat_Meta x) WatcherFinalizer" by (auto simp: holds_finalizer_def)
  show ?thesis using assms(1,3) x(1)
  proof (cases rule: watcher_Reconcile_cases)
    case unread
    then show ?thesis using assms(2) by simp
  next
    case read
    let ?x = "InitializeConditions (wcf_now cfg 0) x"
    have fin: "holds_finalizer (view w) (wat_key ?x)" "holds_finalizer (view w) (wat_key x)"
      using assms(2) read(1) by simp_all
    have upd: "holds_finalizer (view w') (ns, n)"
      if "updateWatcherState c cfg z st w1 = (w', res, r)" "wat_key z = (ns, n)"
        "wl_Watchers (view w1) = wl_Watchers (view w)" for z st w1
      using updateWatcherState_finalizer [OF assms(1) that(1)] that assms(2) by (simp add: holds_finalizer_def)
    have proc: "holds_finalizer (view w') (ns, n)" if "watcher_handleProcessingState c cfg ?x w = (w', res, r)"
      using assms(1) that by (cases rule: handleProcessing_cases) (use read upd in auto)
    consider (mark) "updateWatcherState c cfg x StateDeleting w = (w', res, r)"
      | (go) "stateHandling c cfg ?x w = (w', res, r)"
      using assms(3) read(2) x(2) by (auto simp: watcher_Reconcile_def split: if_splits)
    then show ?thesis
    proof cases
      case mark
      then show ?thesis using upd read(1) by blast
    next
      case go
      then show ?thesis
        using proc upd [of ?x StateProcessing w] read(1) assms(2) handleDeleting_safe [OF assms(1) _ fin(1)]
        by (cases "wst_State (wat_Status x)") (auto simp: stateHandling_def)
    qed
  qed
qed

section \<open>Convergence\<close>

text \<open>
  An API server that serves every request it may serve: reads answer what is stored, an object that exists
  can be changed, and an object that is marked for deletion accepts no new finalizer.
\<close>

definition api_available :: "'w wclient \<Rightarrow> ('w \<Rightarrow> wcluster) \<Rightarrow> bool" where
  "api_available c view \<longleftrightarrow> api_faithful c view
   \<and> (\<forall>w n ns x. wl_Watchers (view w) (ns, n) = Some x \<longrightarrow> wc_getWatcher c w n ns = Inr x)
   \<and> (\<forall>w n ns. wl_Watchers (view w) (ns, n) = None \<longrightarrow>
        (\<exists>e. wc_getWatcher c w n ns = Inl e \<and> IsNotFound (Some e)))
   \<and> (\<forall>w n ns v. wl_VS (view w) (ns, n) = Some v \<longrightarrow> wc_getVS c w n ns = Inr v)
   \<and> (\<forall>w n ns. wl_VS (view w) (ns, n) = None \<longrightarrow>
        (\<exists>e. wc_getVS c w n ns = Inl e \<and> client_IgnoreNotFound (errors_Join ErrFailedToGetVirtualService e) = None))
   \<and> (\<forall>w ns s. wc_listGateways c w ns s = Inr (wl_Gateways (view w) ns s))
   \<and> (\<forall>x w old. wl_Watchers (view w) (wat_key x) = Some old
        \<and> (om_DeletionTimestamp (wat_Meta old) = None \<or> set (om_Finalizers (wat_Meta x)) \<subseteq> set (om_Finalizers (wat_Meta old)))
        \<longrightarrow> snd (wc_updateWatcher c x w) = None)
   \<and> (\<forall>x w. wl_Watchers (view w) (wat_key x) \<noteq> None \<longrightarrow> snd (wc_patchStatus c x w) = None)
   \<and> (\<forall>v w. wl_VS (view w) (vs_key v) = None \<longrightarrow> snd (wc_createVS c v w) = None)
   \<and> (\<forall>v w. wl_VS (view w) (vs_key v) \<noteq> None \<longrightarrow> snd (wc_updateVS c v w) = None)
   \<and> (\<forall>n ns w. snd (wc_deleteVS c n ns w) = None
        \<or> IsNotFound (map_option (errors_Join ErrFailedToDeleteVirtualService) (snd (wc_deleteVS c n ns w))))
   \<and> (\<forall>x m. \<exists>m'. wc_setOwner c x m = Inr m')"

lemma api_availableD:
  assumes "api_available c view"
  shows "api_faithful c view"
    and "wl_Watchers (view w) (ns, n) = Some x \<Longrightarrow> wc_getWatcher c w n ns = Inr x"
    and "wl_Watchers (view w) (ns, n) = None \<Longrightarrow> \<exists>e. wc_getWatcher c w n ns = Inl e \<and> IsNotFound (Some e)"
    and "wl_VS (view w) (ns, n) = Some v \<Longrightarrow> wc_getVS c w n ns = Inr v"
    and "wl_VS (view w) (ns, n) = None \<Longrightarrow>
        \<exists>e. wc_getVS c w n ns = Inl e \<and> client_IgnoreNotFound (errors_Join ErrFailedToGetVirtualService e) = None"
    and "wc_listGateways c w ns s = Inr (wl_Gateways (view w) ns s)"
    and "wl_Watchers (view w) (wat_key x) = Some old \<Longrightarrow>
        om_DeletionTimestamp (wat_Meta old) = None \<or> set (om_Finalizers (wat_Meta x)) \<subseteq> set (om_Finalizers (wat_Meta old))
        \<Longrightarrow> snd (wc_updateWatcher c x w) = None"
    and "wl_Watchers (view w) (wat_key x) \<noteq> None \<Longrightarrow> snd (wc_patchStatus c x w) = None"
    and "wl_VS (view w) (vs_key v) = None \<Longrightarrow> snd (wc_createVS c v w) = None"
    and "wl_VS (view w) (vs_key v) \<noteq> None \<Longrightarrow> snd (wc_updateVS c v w) = None"
    and "snd (wc_deleteVS c n ns w) = None
        \<or> IsNotFound (map_option (errors_Join ErrFailedToDeleteVirtualService) (snd (wc_deleteVS c n ns w)))"
    and "\<exists>m'. wc_setOwner c xm m = Inr m'"
proof -
  note f = assms [unfolded api_available_def]
  show "api_faithful c view"
    using f by (elim conjE, simp)
  show "wl_Watchers (view w) (ns, n) = Some x \<Longrightarrow> wc_getWatcher c w n ns = Inr x"
    using f by (elim conjE, simp)
  show "wl_Watchers (view w) (ns, n) = None \<Longrightarrow> \<exists>e. wc_getWatcher c w n ns = Inl e \<and> IsNotFound (Some e)"
    using f by (elim conjE, simp)
  show "wl_VS (view w) (ns, n) = Some v \<Longrightarrow> wc_getVS c w n ns = Inr v"
    using f by (elim conjE, simp)
  show "wl_VS (view w) (ns, n) = None \<Longrightarrow>
        \<exists>e. wc_getVS c w n ns = Inl e \<and> client_IgnoreNotFound (errors_Join ErrFailedToGetVirtualService e) = None"
    using f by (elim conjE, simp)
  show "wc_listGateways c w ns s = Inr (wl_Gateways (view w) ns s)"
    using f by (elim conjE, simp)
  show "wl_Watchers (view w) (wat_key x) = Some old \<Longrightarrow>
        om_DeletionTimestamp (wat_Meta old) = None \<or> set (om_Finalizers (wat_Meta x)) \<subseteq> set (om_Finalizers (wat_Meta old))
        \<Longrightarrow> snd (wc_updateWatcher c x w) = None"
    using f by (elim conjE, blast)
  show "wl_Watchers (view w) (wat_key x) \<noteq> None \<Longrightarrow> snd (wc_patchStatus c x w) = None"
    using f by (elim conjE, simp)
  show "wl_VS (view w) (vs_key v) = None \<Longrightarrow> snd (wc_createVS c v w) = None"
    using f by (elim conjE, simp)
  show "wl_VS (view w) (vs_key v) \<noteq> None \<Longrightarrow> snd (wc_updateVS c v w) = None"
    using f by (elim conjE, simp)
  show "snd (wc_deleteVS c n ns w) = None
        \<or> IsNotFound (map_option (errors_Join ErrFailedToDeleteVirtualService) (snd (wc_deleteVS c n ns w)))"
    using f by (elim conjE, simp)
  show "\<exists>m'. wc_setOwner c xm m = Inr m'"
    using f by (elim conjE, simp)
qed

lemma updateWatcherState_available:
  assumes a: "api_available c view" and st: "wl_Watchers (view w) (wat_key x) \<noteq> None"
  obtains w' x' where "updateWatcherState c cfg x s w = (w', requeue (DetermineRequeueInterval s (wcf_intervals cfg)), None)"
    "view w' = put_status x' (view w)" "wat_key x' = wat_key x" "wst_State (wat_Status x') = s"
proof -
  obtain w' res r where u: "updateWatcherState c cfg x s w = (w', res, r)" by (metis prod_cases3)
  from updateWatcherState_effect [OF api_availableD(1) [OF a] u] obtain x' where
    x': "wat_key x' = wat_key x" "wst_State (wat_Status x') = s" "r = None \<Longrightarrow> view w' = put_status x' (view w)"
    "res = requeue (DetermineRequeueInterval s (wcf_intervals cfg))" by metis
  have "snd (snd (updateWatcherState c cfg x s w)) = None"
  proof -
    have "snd (wc_patchStatus c z w) = None" if "wat_key z = wat_key x" for z
      using api_availableD(8) [OF a, of w z] st that by simp
    then show ?thesis
      unfolding updateWatcherState_def Let_def updateWatcherStatusUsingSSA_def
      by (cases s) (auto simp: split_beta wat_key_def)
  qed
  then have "r = None" using u by simp
  then show thesis using that u x' by blast
qed

text \<open>A Watcher whose VirtualService can be computed.\<close>

definition routable :: "'w wclient \<Rightarrow> wconfig \<Rightarrow> wcluster \<Rightarrow> Watcher \<Rightarrow> bool" where
  "routable c cfg cl x \<longleftrightarrow>
     (\<exists>s. wc_selector c (ws_Gateway (wat_Spec x)) = Inr s
        \<and> wl_Gateways cl (wcf_gatewayNamespace cfg) s \<noteq> []
        \<and> (\<exists>hosts. getHosts (wl_Gateways cl (wcf_gatewayNamespace cfg) s) = Inr hosts))
   \<and> validateArgumentsForNewHTTPRoute (Some x) = None"

lemma routable_NewVirtualService:
  assumes "api_available c view" "routable c cfg (view w) x"
  obtains s v where "wc_selector c (ws_Gateway (wat_Spec x)) = Inr s"
    "wl_Gateways (view w) (wcf_gatewayNamespace cfg) s \<noteq> []"
    "NewVirtualService (wc_setOwner c) x (wl_Gateways (view w) (wcf_gatewayNamespace cfg) s) = Inr v"
proof -
  from assms(2) obtain s hosts where s: "wc_selector c (ws_Gateway (wat_Spec x)) = Inr s"
    "wl_Gateways (view w) (wcf_gatewayNamespace cfg) s \<noteq> []"
    "getHosts (wl_Gateways (view w) (wcf_gatewayNamespace cfg) s) = Inr hosts"
    and v: "validateArgumentsForNewHTTPRoute (Some x) = None" unfolding routable_def by blast
  have n: "om_Name (wat_Meta x) \<noteq> []" "om_Namespace (wat_Meta x) \<noteq> []"
    using v by (auto simp: validateArgumentsForNewHTTPRoute_def split: if_splits)
  obtain m where "wc_setOwner c (wat_Meta x)
      (new_meta\<lparr>om_Name := om_Name (wat_Meta x), om_Namespace := om_Namespace (wat_Meta x)\<rparr>) = Inr m"
    using api_availableD(12) [OF assms(1)] by blast
  then show thesis using s v n
    by (intro that [of s]) (simp_all add: NewVirtualService_def validateArgumentsForNewVirtualService_def NewHTTPRoute_def)
qed

lemma handleProcessing_available:
  assumes a: "api_available c view" and rt: "routable c cfg (view w) x"
    and st: "wl_Watchers (view w) (wat_key x) = Some old"
  obtains w1 where "watcher_handleProcessingState c cfg x w = updateWatcherState c cfg x StateReady w1"
    "wl_Watchers (view w1) = wl_Watchers (view w)" "wl_Gateways (view w1) = wl_Gateways (view w)"
proof -
  note f = api_availableD(1) [OF a]
  let ?n = "om_Name (wat_Meta x)" and ?ns = "om_Namespace (wat_Meta x)"
  obtain s v where s: "wc_selector c (ws_Gateway (wat_Spec x)) = Inr s"
    "wl_Gateways (view w) (wcf_gatewayNamespace cfg) s \<noteq> []"
    and v: "NewVirtualService (wc_setOwner c) x (wl_Gateways (view w) (wcf_gatewayNamespace cfg) s) = Inr v"
    using a rt by (rule routable_NewVirtualService)
  have key: "vs_key v = (?ns, ?n)" using NewVirtualService_Inr(2) [OF v api_faithfulD(11) [OF f]] by (simp add: wat_key_def)
  have l: "ListGatewaysByLabelSelector c w (ws_Gateway (wat_Spec x)) (wcf_gatewayNamespace cfg) =
      Inr (wl_Gateways (view w) (wcf_gatewayNamespace cfg) s)"
    using s api_availableD(6) [OF a] by (simp add: ListGatewaysByLabelSelector_def)
  show thesis
  proof (cases "wl_VS (view w) (?ns, ?n)")
    case None
    obtain e where e: "wc_getVS c w ?n ?ns = Inl e"
      "client_IgnoreNotFound (errors_Join ErrFailedToGetVirtualService e) = None"
      using api_availableD(5) [OF a None] by blast
    obtain w1 where op: "wc_createVS c v w = (w1, None)"
      using api_availableD(9) [OF a, of w v] None key by (cases "wc_createVS c v w") simp
    show thesis
      by (rule that [of w1])
        (use s l v e IsNotFound_client [OF e(2)] op takes_effectD(1) [OF api_faithfulD(7) [OF f] op] in
          \<open>simp_all add: watcher_handleProcessingState_def GetVirtualService_def CreateVirtualService_def\<close>)
  next
    case (Some remote)
    define v' where "v' = v\<lparr>vs_Meta := (vs_Meta remote)\<lparr>om_Name := om_Name (vs_Meta v), om_Namespace := om_Namespace (vs_Meta v)\<rparr>\<rparr>"
    have key': "vs_key v' = (?ns, ?n)" using key by (simp add: v'_def vs_key_def)
    obtain w1 where op: "wc_updateVS c v' w = (w1, None)"
      using api_availableD(10) [OF a, of w v'] Some key' by (cases "wc_updateVS c v' w") simp
    show thesis
      by (rule that [of w1])
        (use s l v api_availableD(4) [OF a Some] op takes_effectD(1) [OF api_faithfulD(8) [OF f] op] in
          \<open>simp_all add: watcher_handleProcessingState_def GetVirtualService_def UpdateVirtualService_def v'_def [symmetric]\<close>)
  qed
qed

definition watcher_round :: "'w wclient \<Rightarrow> wconfig \<Rightarrow> NamespacedName \<Rightarrow> 'w \<Rightarrow> 'w" where
  "watcher_round c cfg k w = fst (watcher_Reconcile c cfg k w)"

text \<open>
  A Watcher that is to be served, and the number of rounds it needs until its VirtualService has been written.
\<close>

definition served :: "'w wclient \<Rightarrow> wconfig \<Rightarrow> wcluster \<Rightarrow> NamespacedName \<Rightarrow> Watcher \<Rightarrow> bool" where
  "served c cfg cl k x \<longleftrightarrow> wl_Watchers cl k = Some x \<and> wat_key x = k \<and> om_DeletionTimestamp (wat_Meta x) = None
     \<and> wst_State (wat_Status x) \<in> {StateEmpty, StateProcessing, StateError, StateReady, StateWarning}
     \<and> routable c cfg cl x"

definition in_place :: "'w wclient \<Rightarrow> wconfig \<Rightarrow> wcluster \<Rightarrow> Watcher \<Rightarrow> bool" where
  "in_place c cfg cl x \<longleftrightarrow> ContainsFinalizer (wat_Meta x) WatcherFinalizer \<and> wst_State (wat_Status x) = StateReady
     \<and> configured c cfg cl x"

definition rounds_left :: "'w wclient \<Rightarrow> wconfig \<Rightarrow> wcluster \<Rightarrow> Watcher \<Rightarrow> nat" where
  "rounds_left c cfg cl x =
     (if in_place c cfg cl x then 0
      else (if ContainsFinalizer (wat_Meta x) WatcherFinalizer then 0 else 1)
         + (if wst_State (wat_Status x) = StateEmpty then 2 else 1))"

lemma routable_cong:
  assumes "wat_Spec y = wat_Spec x" "wat_key y = wat_key x" "om_Labels (wat_Meta y) = om_Labels (wat_Meta x)"
    "wl_Gateways cl' = wl_Gateways cl"
  shows "routable c cfg cl' y = routable c cfg cl x"
  using assms by (simp add: routable_def validateArgumentsForNewHTTPRoute_def GetManagerName_def wat_key_def)

lemma wat_finalizers_sel [simp]:
  "wat_Spec (wat_finalizers fs x) = wat_Spec x" "wat_Status (wat_finalizers fs x) = wat_Status x"
  "om_Finalizers (wat_Meta (wat_finalizers fs x)) = fs"
  "om_DeletionTimestamp (wat_Meta (wat_finalizers fs x)) = om_DeletionTimestamp (wat_Meta x)"
  "om_Labels (wat_Meta (wat_finalizers fs x)) = om_Labels (wat_Meta x)"
  "wat_key (wat_finalizers fs x) = wat_key x"
  by (simp_all add: wat_finalizers_def wat_key_def)

text \<open>An available server stores the finalizers that an update of a Watcher asks for.\<close>

lemma updateFinalizer_available:
  assumes a: "api_available c view" and x: "wl_Watchers (view w) (wat_key x) = Some old"
    and ok: "om_DeletionTimestamp (wat_Meta old) = None \<or> set fs \<subseteq> set (om_Finalizers (wat_Meta old))"
  obtains w' where "updateFinalizer c (wat_finalizers fs x) w = (w', None)"
    "view w' = put_watcher (wat_finalizers fs x) (view w)"
proof -
  obtain w' where u: "wc_updateWatcher c (wat_finalizers fs x) w = (w', None)"
    using api_availableD(7) [OF a, of w "wat_finalizers fs x" old] x ok
    by (cases "wc_updateWatcher c (wat_finalizers fs x) w") simp
  show thesis
    by (rule that [of w'])
      (use u takes_effectD(1) [OF api_faithfulD(5) [OF api_availableD(1) [OF a]] u] in \<open>simp_all add: updateFinalizer_def\<close>)
qed

lemma klib_finalizers:
  assumes "klib_ok lib"
  shows "f \<notin> set fs \<Longrightarrow> \<exists>fs'. AddFinalizer lib fs f = (fs', True) \<and> set fs' = insert f (set fs)"
    and "f \<in> set fs \<Longrightarrow> \<exists>fs'. RemoveFinalizer lib fs f = (fs', True) \<and> set fs' = set fs - {f}"
proof -
  note k = assms [unfolded klib_ok_def Finalizer_spec_def, THEN conjunct2, THEN spec, of fs, THEN spec, of f]
  show "f \<notin> set fs \<Longrightarrow> \<exists>fs'. AddFinalizer lib fs f = (fs', True) \<and> set fs' = insert f (set fs)"
    using k by (cases "AddFinalizer lib fs f") simp
  show "f \<in> set fs \<Longrightarrow> \<exists>fs'. RemoveFinalizer lib fs f = (fs', True) \<and> set fs' = set fs - {f}"
    using k by (cases "RemoveFinalizer lib fs f") simp
qed

text \<open>A stored Watcher is read, and what happens to it depends on its finalizer and its state.\<close>

lemma round_reads:
  assumes "api_available c view" "wl_Watchers (view w) k = Some x"
  shows "wc_getWatcher c w (snd k) (fst k) = Inr x"
  using api_availableD(2) [OF assms(1), of w "fst k" "snd k"] assms(2) by simp

lemma round_adds_finalizer:
  assumes a: "api_available c view" and lib: "klib_ok (wcf_lib cfg)" and s: "served c cfg (view w) k x"
    and nf: "\<not> ContainsFinalizer (wat_Meta x) WatcherFinalizer"
  obtains y where "served c cfg (view (watcher_round c cfg k w)) k y"
    "ContainsFinalizer (wat_Meta y) WatcherFinalizer" "wst_State (wat_Status y) = wst_State (wat_Status x)"
proof -
  let ?w = "watcher_round c cfg k w"
  from s have x: "wl_Watchers (view w) k = Some x" "wat_key x = k" "om_DeletionTimestamp (wat_Meta x) = None"
    "routable c cfg (view w) x" by (simp_all add: served_def)
  obtain fs where af: "AddFinalizer (wcf_lib cfg) (om_Finalizers (wat_Meta x)) WatcherFinalizer = (fs, True)"
    and fs: "WatcherFinalizer \<in> set fs"
    using klib_finalizers(1) [OF lib, of WatcherFinalizer "om_Finalizers (wat_Meta x)"] nf
    by (auto simp: ContainsFinalizer_def)
  obtain w' where u: "updateFinalizer c (wat_finalizers fs x) w = (w', None)"
    "view w' = put_watcher (wat_finalizers fs x) (view w)"
    using updateFinalizer_available [OF a, of w x x fs] x by auto
  have w: "?w = w'" using round_reads [OF a x(1)] x nf af u by (simp add: watcher_round_def watcher_Reconcile_def)
  define y where "y = x\<lparr>wat_Meta := wat_Meta (wat_finalizers fs x), wat_Spec := wat_Spec (wat_finalizers fs x)\<rparr>"
  have y: "wl_Watchers (view ?w) k = Some y"
    using put_watcher_stored [of "wat_finalizers fs x" "view w"] u w x by (simp add: stored_update_def y_def)
  have ysel: "wat_Spec y = wat_Spec x" "wat_Status y = wat_Status x" "wat_key y = k"
    "om_DeletionTimestamp (wat_Meta y) = None" "om_Labels (wat_Meta y) = om_Labels (wat_Meta x)"
    "ContainsFinalizer (wat_Meta y) WatcherFinalizer"
    using x fs by (simp_all add: y_def wat_key_def ContainsFinalizer_def wat_finalizers_def)
  have "routable c cfg (view ?w) y" using routable_cong [of y x "view ?w" "view w" c cfg] ysel x u w by simp
  then have "served c cfg (view ?w) k y" using s y ysel by (simp add: served_def)
  then show thesis using that ysel by simp
qed

text \<open>A new state of a served Watcher.\<close>

lemma served_new_state:
  assumes a: "api_available c view" and s: "served c cfg (view w) k x"
    and w1: "wl_Watchers (view w1) = wl_Watchers (view w)" "wl_Gateways (view w1) = wl_Gateways (view w)"
    and fin: "ContainsFinalizer (wat_Meta x) WatcherFinalizer"
    and z: "wat_key z = k" and st: "st \<in> {StateProcessing, StateReady}"
  obtains w' y where "updateWatcherState c cfg z st w1 = (w', requeue (DetermineRequeueInterval st (wcf_intervals cfg)), None)"
    "served c cfg (view w') k y" "ContainsFinalizer (wat_Meta y) WatcherFinalizer" "wst_State (wat_Status y) = st"
    "wl_Watchers (view w') k = Some y"
proof -
  from s have x: "wl_Watchers (view w) k = Some x" "wat_key x = k" "om_DeletionTimestamp (wat_Meta x) = None"
    "routable c cfg (view w) x" by (simp_all add: served_def)
  have "wl_Watchers (view w1) (wat_key z) \<noteq> None" using x w1 z by simp
  with a obtain w' x' where u: "updateWatcherState c cfg z st w1 =
      (w', requeue (DetermineRequeueInterval st (wcf_intervals cfg)), None)"
    "view w' = put_status x' (view w1)" "wat_key x' = wat_key z" "wst_State (wat_Status x') = st"
    by (rule updateWatcherState_available)
  define y where "y = x\<lparr>wat_Status := wat_Status x'\<rparr>"
  have y: "wl_Watchers (view w') k = Some y"
    using put_status_stored [of x' "view w1"] u z w1 x by (simp add: y_def)
  have ysel: "wat_Meta y = wat_Meta x" "wat_Spec y = wat_Spec x" "wst_State (wat_Status y) = st" "wat_key y = k"
    using u x by (simp_all add: y_def wat_key_def)
  have "routable c cfg (view w') y" using routable_cong [of y x "view w'" "view w" c cfg] ysel x u w1 by simp
  then have "served c cfg (view w') k y" using y ysel x st by (auto simp: served_def)
  then show thesis using that [OF u(1)] y ysel fin by simp
qed

lemma round_processes:
  assumes a: "api_available c view" and lib: "klib_ok (wcf_lib cfg)" and s: "served c cfg (view w) k x"
    and fin: "ContainsFinalizer (wat_Meta x) WatcherFinalizer"
  obtains y where "served c cfg (view (watcher_round c cfg k w)) k y"
    "ContainsFinalizer (wat_Meta y) WatcherFinalizer"
    "if wst_State (wat_Status x) = StateEmpty then wst_State (wat_Status y) = StateProcessing
     else in_place c cfg (view (watcher_round c cfg k w)) y"
proof -
  let ?x = "InitializeConditions (wcf_now cfg 0) x"
  note f = api_availableD(1) [OF a]
  from s have x: "wl_Watchers (view w) k = Some x" "wat_key x = k" "om_DeletionTimestamp (wat_Meta x) = None"
    "routable c cfg (view w) x"
    and st: "wst_State (wat_Status x) \<in> {StateEmpty, StateProcessing, StateError, StateReady, StateWarning}"
    by (simp_all add: served_def)
  have key: "wat_key ?x = k" using x by simp
  have r: "watcher_Reconcile c cfg k w = stateHandling c cfg ?x w"
    using round_reads [OF a x(1)] x fin by (simp add: watcher_Reconcile_def)
  show thesis
  proof (cases "wst_State (wat_Status x) = StateEmpty")
    case True
    obtain w' y where "updateWatcherState c cfg ?x StateProcessing w =
        (w', requeue (DetermineRequeueInterval StateProcessing (wcf_intervals cfg)), None)"
      "served c cfg (view w') k y" "ContainsFinalizer (wat_Meta y) WatcherFinalizer"
      "wst_State (wat_Status y) = StateProcessing"
      by (rule served_new_state [OF a s _ _ fin key, of w StateProcessing]) auto
    then show thesis using True r by (intro that [of y]) (simp_all add: watcher_round_def stateHandling_def)
  next
    case False
    have h: "stateHandling c cfg ?x w = watcher_handleProcessingState c cfg ?x w"
      using st False by (auto simp: stateHandling_def)
    have "routable c cfg (view w) ?x" using routable_cong [of ?x x "view w" "view w" c cfg] x by simp
    moreover have "wl_Watchers (view w) (wat_key ?x) = Some x" using x by simp
    ultimately obtain w1 where p: "watcher_handleProcessingState c cfg ?x w = updateWatcherState c cfg ?x StateReady w1"
      "wl_Watchers (view w1) = wl_Watchers (view w)" "wl_Gateways (view w1) = wl_Gateways (view w)"
      using handleProcessing_available [OF a] by blast
    obtain w' y where y: "updateWatcherState c cfg ?x StateReady w1 =
        (w', requeue (DetermineRequeueInterval StateReady (wcf_intervals cfg)), None)"
      "served c cfg (view w') k y" "ContainsFinalizer (wat_Meta y) WatcherFinalizer"
      "wst_State (wat_Status y) = StateReady" "wl_Watchers (view w') k = Some y"
      by (rule served_new_state [OF a s p(2,3) fin key, of StateReady]) auto
    have w: "watcher_round c cfg k w = w'" using r h p y by (simp add: watcher_round_def)
    have "configured c cfg (view w') y"
      by (rule stateHandling_ready [OF f _ _ fin, of cfg "wcf_now cfg 0" w w'
            "requeue (DetermineRequeueInterval StateReady (wcf_intervals cfg))"])
        (use h p y x lib in simp_all)
    then show thesis using y w False by (intro that [of y]) (simp_all add: in_place_def)
  qed
qed

lemma served_round:
  assumes a: "api_available c view" and lib: "klib_ok (wcf_lib cfg)" and s: "served c cfg (view w) k x"
  obtains y where "served c cfg (view (watcher_round c cfg k w)) k y"
    "rounds_left c cfg (view (watcher_round c cfg k w)) y \<le> rounds_left c cfg (view w) x - 1"
proof (cases "ContainsFinalizer (wat_Meta x) WatcherFinalizer")
  case False
  then obtain y where "served c cfg (view (watcher_round c cfg k w)) k y"
    "ContainsFinalizer (wat_Meta y) WatcherFinalizer" "wst_State (wat_Status y) = wst_State (wat_Status x)"
    using round_adds_finalizer [OF a lib s] by blast
  then show thesis using False by (intro that [of y]) (auto simp: rounds_left_def in_place_def)
next
  case True
  then obtain y where "served c cfg (view (watcher_round c cfg k w)) k y"
    "ContainsFinalizer (wat_Meta y) WatcherFinalizer"
    "if wst_State (wat_Status x) = StateEmpty then wst_State (wat_Status y) = StateProcessing
     else in_place c cfg (view (watcher_round c cfg k w)) y"
    using round_processes [OF a lib s] by blast
  then show thesis using True
    by (intro that [of y]) (auto simp: rounds_left_def in_place_def split: if_splits)
qed

text \<open>
  C15. A Watcher that is not being deleted and whose VirtualService can be computed is ready after at most three
  rounds on an API server that is available (one for the finalizer, one for the state Processing, one for the
  VirtualService), and stays so: in every later round it carries the finalizer, is in state Ready and its
  VirtualService is the one it asks for.
\<close>

theorem watcher_converges:
  assumes "api_available c view" and "klib_ok (wcf_lib cfg)" and "served c cfg (view w) k x" and "3 \<le> m"
  shows "\<exists>y. wl_Watchers (view ((watcher_round c cfg k ^^ m) w)) k = Some y
           \<and> in_place c cfg (view ((watcher_round c cfg k ^^ m) w)) y"
proof -
  have "\<exists>y. served c cfg (view ((watcher_round c cfg k ^^ m) w)) k y
      \<and> rounds_left c cfg (view ((watcher_round c cfg k ^^ m) w)) y \<le> rounds_left c cfg (view w) x - m"
  proof (induction m)
    case 0
    then show ?case using assms(3) by auto
  next
    case (Suc m)
    then obtain y where y: "served c cfg (view ((watcher_round c cfg k ^^ m) w)) k y"
      "rounds_left c cfg (view ((watcher_round c cfg k ^^ m) w)) y \<le> rounds_left c cfg (view w) x - m" by blast
    from served_round [OF assms(1,2) y(1)] obtain z where
      "served c cfg (view (watcher_round c cfg k ((watcher_round c cfg k ^^ m) w))) k z"
      "rounds_left c cfg (view (watcher_round c cfg k ((watcher_round c cfg k ^^ m) w))) z
        \<le> rounds_left c cfg (view ((watcher_round c cfg k ^^ m) w)) y - 1" by blast
    then show ?case using y(2) by (intro exI [of _ z]) simp
  qed
  then obtain y where y: "served c cfg (view ((watcher_round c cfg k ^^ m) w)) k y"
    "rounds_left c cfg (view ((watcher_round c cfg k ^^ m) w)) y \<le> rounds_left c cfg (view w) x - m" by blast
  have "rounds_left c cfg (view w) x \<le> 3" by (simp add: rounds_left_def)
  then have "rounds_left c cfg (view ((watcher_round c cfg k ^^ m) w)) y = 0" using y(2) assms(4) by simp
  then have "in_place c cfg (view ((watcher_round c cfg k ^^ m) w)) y" by (simp add: rounds_left_def split: if_splits)
  then show ?thesis using y(1) by (auto simp: served_def)
qed

subsection \<open>Deleted Watchers\<close>

lemma deleting_round:
  assumes a: "api_available c view" and lib: "klib_ok (wcf_lib cfg)"
    and x: "wl_Watchers (view w) k = Some x" "wat_key x = k" "om_DeletionTimestamp (wat_Meta x) \<noteq> None"
      "set (om_Finalizers (wat_Meta x)) = {WatcherFinalizer}" "wst_State (wat_Status x) = StateDeleting"
  shows "wl_Watchers (view (watcher_round c cfg k w)) k = None" "wl_VS (view (watcher_round c cfg k w)) k = None"
proof -
  let ?x = "InitializeConditions (wcf_now cfg 0) x"
  note f = api_availableD(1) [OF a]
  obtain w1 r1 where del: "wc_deleteVS c (snd k) (fst k) w = (w1, r1)" by fastforce
  have ok: "r1 = None \<or> IsNotFound (map_option (errors_Join ErrFailedToDeleteVirtualService) r1)"
    using api_availableD(11) [OF a, of "snd k" "fst k" w] del by simp
  have same: "wl_Watchers (view w1) = wl_Watchers (view w)"
    using takes_effectD(2) [OF api_faithfulD(9) [OF f] del] by auto
  obtain fs where rf: "RemoveFinalizer (wcf_lib cfg) (om_Finalizers (wat_Meta x)) WatcherFinalizer = (fs, True)"
    and fs: "fs = []"
    using klib_finalizers(2) [OF lib, of WatcherFinalizer "om_Finalizers (wat_Meta x)"] x(4) by auto
  obtain w2 where u: "updateFinalizer c (wat_finalizers fs ?x) w1 = (w2, None)"
    "view w2 = put_watcher (wat_finalizers fs ?x) (view w1)"
    using updateFinalizer_available [OF a, of w1 ?x x fs] x same fs by auto
  have k: "om_Name (wat_Meta x) = snd k" "om_Namespace (wat_Meta x) = fst k" using x(2) by (auto simp: wat_key_def)
  have "watcher_Reconcile c cfg k w = watcher_handleDeletingState c cfg ?x w"
    using round_reads [OF a x(1)] x by (simp add: watcher_Reconcile_def ContainsFinalizer_def stateHandling_def)
  then have w: "watcher_round c cfg k w = w2"
    using del ok rf u k
    by (auto simp: watcher_round_def watcher_handleDeletingState_def DeleteVirtualService_def)
  show "wl_Watchers (view (watcher_round c cfg k w)) k = None"
    using put_watcher_stored [of "wat_finalizers fs ?x" "view w1"] u w x same fs by (simp add: stored_update_def)
  show "wl_VS (view (watcher_round c cfg k w)) k = None"
    using deleted_vs_gone [OF f del ok] u w by simp
qed

lemma mark_round:
  assumes a: "api_available c view" and x: "wl_Watchers (view w) k = Some x" "wat_key x = k"
      "om_DeletionTimestamp (wat_Meta x) \<noteq> None" "wst_State (wat_Status x) \<noteq> StateDeleting"
  obtains y where "wl_Watchers (view (watcher_round c cfg k w)) k = Some y" "wat_Meta y = wat_Meta x"
    "wst_State (wat_Status y) = StateDeleting"
proof -
  have r: "watcher_Reconcile c cfg k w = updateWatcherState c cfg x StateDeleting w"
    using round_reads [OF a x(1)] x by (simp add: watcher_Reconcile_def)
  have "wl_Watchers (view w) (wat_key x) \<noteq> None" using x by simp
  with a obtain w' x' where u: "updateWatcherState c cfg x StateDeleting w =
      (w', requeue (DetermineRequeueInterval StateDeleting (wcf_intervals cfg)), None)"
    "view w' = put_status x' (view w)" "wat_key x' = wat_key x" "wst_State (wat_Status x') = StateDeleting"
    by (rule updateWatcherState_available)
  have "wl_Watchers (view (watcher_round c cfg k w)) k = Some (x\<lparr>wat_Status := wat_Status x'\<rparr>)"
    using put_status_stored [of x' "view w"] u x r by (simp add: watcher_round_def)
  then show thesis using that u by simp
qed

lemma gone_round:
  assumes "api_available c view" "wl_Watchers (view w) k = None"
  shows "watcher_round c cfg k w = w"
  using api_availableD(3) [OF assms(1), of w "fst k" "snd k"] assms(2)
  by (auto simp: watcher_round_def watcher_Reconcile_def)

text \<open>
  The deletion of a Watcher whose only finalizer is that of the controller ends after at most two rounds on an
  available API server: from then on neither the Watcher nor its VirtualService exists.
\<close>

theorem watcher_deletion_ends:
  assumes "api_available c view" and "klib_ok (wcf_lib cfg)"
    and "wl_Watchers (view w) k = Some x" and "wat_key x = k" and "om_DeletionTimestamp (wat_Meta x) \<noteq> None"
    and "set (om_Finalizers (wat_Meta x)) = {WatcherFinalizer}" and "2 \<le> m"
  shows "wl_Watchers (view ((watcher_round c cfg k ^^ m) w)) k = None
       \<and> wl_VS (view ((watcher_round c cfg k ^^ m) w)) k = None"
proof -
  let ?g = "\<lambda>w. wl_Watchers (view w) k = None \<and> wl_VS (view w) k = None"
  have stays: "?g ((watcher_round c cfg k ^^ i) v)" if "?g v" for i v
    using that by (induction i) (simp_all add: gone_round [OF assms(1)])
  have "\<exists>j \<le> 2. ?g ((watcher_round c cfg k ^^ j) w)"
  proof (cases "wst_State (wat_Status x) = StateDeleting")
    case True
    then have "?g ((watcher_round c cfg k ^^ 1) w)" using deleting_round [OF assms(1-6)] by simp
    then show ?thesis by (intro exI [of _ 1]) simp
  next
    case False
    obtain y where y: "wl_Watchers (view (watcher_round c cfg k w)) k = Some y" "wat_Meta y = wat_Meta x"
      "wst_State (wat_Status y) = StateDeleting"
      using mark_round [OF assms(1,3,4,5) False] by blast
    have "?g (watcher_round c cfg k (watcher_round c cfg k w))"
      using deleting_round [OF assms(1,2) y(1)] y assms(4-6) by (simp add: wat_key_def)
    then show ?thesis by (intro exI [of _ 2]) (simp add: numeral_2_eq_2)
  qed
  then obtain j where j: "j \<le> 2" "?g ((watcher_round c cfg k ^^ j) w)" by blast
  have "(watcher_round c cfg k ^^ m) w = (watcher_round c cfg k ^^ (m - j)) ((watcher_round c cfg k ^^ j) w)"
    using j(1) assms(7) by (simp add: funpow_add [symmetric, THEN fun_cong, simplified])
  then show ?thesis using stays [OF j(2)] by simp
qed

text \<open>The API server refuses new finalizers on an object that is marked for deletion.\<close>

definition no_new_finalizers :: "'w wclient \<Rightarrow> ('w \<Rightarrow> wcluster) \<Rightarrow> bool" where
  "no_new_finalizers c view \<longleftrightarrow>
     (\<forall>x w old. wl_Watchers (view w) (wat_key x) = Some old \<and> om_DeletionTimestamp (wat_Meta old) \<noteq> None
        \<and> \<not> set (om_Finalizers (wat_Meta x)) \<subseteq> set (om_Finalizers (wat_Meta old))
        \<longrightarrow> (\<exists>e. snd (wc_updateWatcher c x w) = Some e) \<and> view (fst (wc_updateWatcher c x w)) = view w)"

definition abandoned :: "wcluster \<Rightarrow> NamespacedName \<Rightarrow> bool" where
  "abandoned cl k \<longleftrightarrow> (\<exists>x. wl_Watchers cl k = Some x \<and> wat_key x = k \<and> om_DeletionTimestamp (wat_Meta x) \<noteq> None
     \<and> wst_State (wat_Status x) = StateDeleting \<and> \<not> ContainsFinalizer (wat_Meta x) WatcherFinalizer)"

lemma abandoned_round:
  assumes a: "api_available c view" and lib: "klib_ok (wcf_lib cfg)" and n: "no_new_finalizers c view"
    and ab: "abandoned (view w) k"
  shows "snd (snd (watcher_Reconcile c cfg k w)) \<noteq> None" "view (watcher_round c cfg k w) = view w"
proof -
  from ab obtain x where x: "wl_Watchers (view w) k = Some x" "wat_key x = k" "om_DeletionTimestamp (wat_Meta x) \<noteq> None"
    "wst_State (wat_Status x) = StateDeleting" "\<not> ContainsFinalizer (wat_Meta x) WatcherFinalizer"
    by (auto simp: abandoned_def)
  obtain fs where af: "AddFinalizer (wcf_lib cfg) (om_Finalizers (wat_Meta x)) WatcherFinalizer = (fs, True)"
    "set fs = insert WatcherFinalizer (set (om_Finalizers (wat_Meta x)))"
    using klib_finalizers(1) [OF lib, of WatcherFinalizer "om_Finalizers (wat_Meta x)"] x(5)
    by (auto simp: ContainsFinalizer_def)
  have "\<not> set fs \<subseteq> set (om_Finalizers (wat_Meta x))" using af(2) x(5) by (auto simp: ContainsFinalizer_def)
  then have "(\<exists>e. snd (wc_updateWatcher c (wat_finalizers fs x) w) = Some e)
      \<and> view (fst (wc_updateWatcher c (wat_finalizers fs x) w)) = view w"
    using n [unfolded no_new_finalizers_def, rule_format, of w "wat_finalizers fs x" x] x by simp
  then obtain w' e where u: "wc_updateWatcher c (wat_finalizers fs x) w = (w', Some e)" "view w' = view w"
    by (cases "wc_updateWatcher c (wat_finalizers fs x) w") auto
  have "watcher_Reconcile c cfg k w = (w', no_requeue, Some (wrapErr ''failed to update finalizer: '' e))"
    using round_reads [OF a x(1)] x af u by (simp add: watcher_Reconcile_def updateFinalizer_def)
  then show "snd (snd (watcher_Reconcile c cfg k w)) \<noteq> None" "view (watcher_round c cfg k w) = view w"
    using u by (simp_all add: watcher_round_def)
qed

lemma foreign_finalizer_round:
  assumes a: "api_available c view" and lib: "klib_ok (wcf_lib cfg)"
    and x: "wl_Watchers (view w) k = Some x" "wat_key x = k" "om_DeletionTimestamp (wat_Meta x) \<noteq> None"
      "wst_State (wat_Status x) = StateDeleting" "ContainsFinalizer (wat_Meta x) WatcherFinalizer"
      "g \<in> set (om_Finalizers (wat_Meta x))" "g \<noteq> WatcherFinalizer"
  shows "abandoned (view (watcher_round c cfg k w)) k"
proof -
  let ?x = "InitializeConditions (wcf_now cfg 0) x"
  note f = api_availableD(1) [OF a]
  obtain w1 r1 where del: "wc_deleteVS c (snd k) (fst k) w = (w1, r1)" by fastforce
  have ok: "r1 = None \<or> IsNotFound (map_option (errors_Join ErrFailedToDeleteVirtualService) r1)"
    using api_availableD(11) [OF a, of "snd k" "fst k" w] del by simp
  have same: "wl_Watchers (view w1) = wl_Watchers (view w)"
    using takes_effectD(2) [OF api_faithfulD(9) [OF f] del] by auto
  obtain fs where rf: "RemoveFinalizer (wcf_lib cfg) (om_Finalizers (wat_Meta x)) WatcherFinalizer = (fs, True)"
    and fs: "set fs = set (om_Finalizers (wat_Meta x)) - {WatcherFinalizer}"
    using klib_finalizers(2) [OF lib, of WatcherFinalizer "om_Finalizers (wat_Meta x)"] x(5)
    by (auto simp: ContainsFinalizer_def)
  have "g \<in> set fs" using fs x(6,7) by blast
  then have ne: "fs \<noteq> []" by (cases fs) simp_all
  obtain w2 where u: "updateFinalizer c (wat_finalizers fs ?x) w1 = (w2, None)"
    "view w2 = put_watcher (wat_finalizers fs ?x) (view w1)"
    using updateFinalizer_available [OF a, of w1 ?x x fs] x same fs by auto
  have k: "om_Name (wat_Meta x) = snd k" "om_Namespace (wat_Meta x) = fst k" using x(2) by (auto simp: wat_key_def)
  have "watcher_Reconcile c cfg k w = watcher_handleDeletingState c cfg ?x w"
    using round_reads [OF a x(1)] x by (simp add: watcher_Reconcile_def stateHandling_def)
  then have w: "watcher_round c cfg k w = w2"
    using del ok rf u k by (auto simp: watcher_round_def watcher_handleDeletingState_def DeleteVirtualService_def)
  have "wl_Watchers (view w2) k =
      Some (x\<lparr>wat_Meta := wat_Meta (wat_finalizers fs ?x), wat_Spec := wat_Spec (wat_finalizers fs ?x)\<rparr>)"
    using put_watcher_stored [of "wat_finalizers fs ?x" "view w1"] u x same ne by (simp add: stored_update_def)
  moreover have "\<not> ContainsFinalizer (wat_Meta (wat_finalizers fs ?x)) WatcherFinalizer"
    using fs by (simp add: ContainsFinalizer_def)
  ultimately show ?thesis using x w k by (simp add: abandoned_def wat_key_def wat_finalizers_def)
qed

text \<open>
  A Watcher that is being deleted and carries a finalizer of another controller beside that of this one: the
  first round removes the own finalizer, and every later round tries to add it again, which the API server refuses
  for an object that is marked for deletion. Each of these rounds ends with an error and changes nothing, as
  long as the other finalizer is there.
\<close>

theorem watcher_finalizer_added_again:
  assumes "api_available c view" and "klib_ok (wcf_lib cfg)" and "no_new_finalizers c view"
    and "wl_Watchers (view w) k = Some x" and "wat_key x = k" and "om_DeletionTimestamp (wat_Meta x) \<noteq> None"
    and "wst_State (wat_Status x) = StateDeleting" and "ContainsFinalizer (wat_Meta x) WatcherFinalizer"
    and "g \<in> set (om_Finalizers (wat_Meta x))" and "g \<noteq> WatcherFinalizer"
  shows "snd (snd (watcher_Reconcile c cfg k ((watcher_round c cfg k ^^ Suc m) w))) \<noteq> None"
proof -
  have "abandoned (view ((watcher_round c cfg k ^^ Suc m) w)) k"
  proof (induction m)
    case 0
    then show ?case using foreign_finalizer_round [OF assms(1,2,4-10)] by simp
  next
    case (Suc m)
    then show ?case using abandoned_round(2) [OF assms(1-3) Suc] by simp
  qed
  then show ?thesis by (rule abandoned_round(1) [OF assms(1-3)])
qed

text \<open>
  The route of a Watcher carries the port of its service unchanged, although a 64 bit integer is converted to
  a 32 bit word: a port outside 1 to 65535 is refused before.
\<close>

theorem route_port_exact:
  assumes "NewHTTPRoute x = Inr r"
  shows "uint (hr_Port r) = svc_Port (ws_ServiceInfo (wat_Spec x)) \<and> uint (hr_Port r) \<in> {1..65535}"
  using NewHTTPRoute_Inr [OF assms] port_word by simp

section \<open>Examples\<close>

text \<open>An API server in memory; \<open>tidy\<close> forgets Watchers stored under a wrong name.\<close>

definition tidy :: "wcluster \<Rightarrow> wcluster" where
  "tidy cl = cl\<lparr>wl_Watchers := (\<lambda>k. case wl_Watchers cl k of
     Some x \<Rightarrow> if wat_key x = k then Some x else None | None \<Rightarrow> None)\<rparr>"

definition ref_update :: "Watcher \<Rightarrow> wcluster \<Rightarrow> wcluster \<times> goerror option" where
  "ref_update x cl = (case wl_Watchers cl (wat_key x) of
        None \<Rightarrow> (cl, Some notFoundErr)
      | Some old \<Rightarrow> if om_DeletionTimestamp (wat_Meta old) \<noteq> None
            \<and> \<not> set (om_Finalizers (wat_Meta x)) \<subseteq> set (om_Finalizers (wat_Meta old))
          then (cl, Some errFinalizerAdd) else (put_watcher x cl, None))"

definition ref_wclient :: "wcluster wclient" where
  "ref_wclient = \<lparr>
     wc_getWatcher = (\<lambda>cl n ns. case wl_Watchers (tidy cl) (ns, n) of Some x \<Rightarrow> Inr x | None \<Rightarrow> Inl notFoundErr),
     wc_updateWatcher = (\<lambda>x cl. ref_update x (tidy cl)),
     wc_patchStatus = (\<lambda>x cl. (put_status x (tidy cl),
        if wl_Watchers (tidy cl) (wat_key x) = None then Some notFoundErr else None)),
     wc_getVS = (\<lambda>cl n ns. case wl_VS cl (ns, n) of Some v \<Rightarrow> Inr v | None \<Rightarrow> Inl notFoundErr),
     wc_createVS = (\<lambda>v cl. (put_vs v cl, None)),
     wc_updateVS = (\<lambda>v cl. (put_vs v cl, None)),
     wc_deleteVS = (\<lambda>n ns cl. (drop_vs n ns cl, if wl_VS cl (ns, n) = None then Some notFoundErr else None)),
     wc_listGateways = (\<lambda>cl ns s. Inr (wl_Gateways cl ns s)),
     wc_selector = (\<lambda>sel. Inr (concat (map fst (ls_MatchLabels sel)))),
     wc_setOwner = (\<lambda>x m. Inr (m\<lparr>om_OwnerReferences := [om_Name x]\<rparr>))\<rparr>"

lemma tidy_sel [simp]: "wl_VS (tidy cl) = wl_VS cl" "wl_Gateways (tidy cl) = wl_Gateways cl"
  by (simp_all add: tidy_def)

lemma tidy_key: "wl_Watchers (tidy cl) k = Some x \<Longrightarrow> wat_key x = k"
  by (simp add: tidy_def split: option.splits if_splits)

lemma tidy_id: "(\<And>k x. wl_Watchers cl k = Some x \<Longrightarrow> wat_key x = k) \<Longrightarrow> tidy cl = cl"
proof -
  assume c: "\<And>k x. wl_Watchers cl k = Some x \<Longrightarrow> wat_key x = k"
  have "(\<lambda>k. case wl_Watchers cl k of Some x \<Rightarrow> if wat_key x = k then Some x else None | None \<Rightarrow> None) = wl_Watchers cl"
    using c by (auto split: option.splits)
  then show ?thesis by (simp add: tidy_def)
qed

lemma tidy_put [simp]:
  "tidy (put_watcher x (tidy cl)) = put_watcher x (tidy cl)"
  "tidy (put_status x (tidy cl)) = put_status x (tidy cl)"
  "tidy (put_vs v cl) = put_vs v (tidy cl)" "tidy (drop_vs n ns cl) = drop_vs n ns (tidy cl)"
  "tidy (tidy cl) = tidy cl"
proof -
  show "tidy (put_watcher x (tidy cl)) = put_watcher x (tidy cl)"
  proof (rule tidy_id)
    fix k y assume "wl_Watchers (put_watcher x (tidy cl)) k = Some y"
    then show "wat_key y = k" using tidy_key
      by (auto simp: put_watcher_def stored_update_def wat_key_def bind_eq_Some_conv split: if_splits)
  qed
  show "tidy (put_status x (tidy cl)) = put_status x (tidy cl)"
  proof (rule tidy_id)
    fix k y assume "wl_Watchers (put_status x (tidy cl)) k = Some y"
    then show "wat_key y = k" using tidy_key [of cl]
      by (auto simp: put_status_def wat_key_def split: if_splits)
  qed
  show "tidy (tidy cl) = tidy cl" by (rule tidy_id) (rule tidy_key)
qed (simp_all add: put_vs_def drop_vs_def tidy_def)

lemma notFound_answers [simp]:
  "IsNotFound (Some notFoundErr)" "IsNotFound (Some (errors_Join (Sentinel a b) notFoundErr))"
  "client_IgnoreNotFound (errors_Join (Sentinel a b) notFoundErr) = None"
  by (simp_all add: IsNotFound_def client_IgnoreNotFound_def notFoundErr_def reasonForError_def errors_Join_def)

lemma ref_update_cases:
  "wl_Watchers cl (wat_key x) = None \<Longrightarrow> ref_update x cl = (cl, Some notFoundErr)"
  "wl_Watchers cl (wat_key x) = Some old \<Longrightarrow> om_DeletionTimestamp (wat_Meta old) \<noteq> None \<Longrightarrow>
     \<not> set (om_Finalizers (wat_Meta x)) \<subseteq> set (om_Finalizers (wat_Meta old)) \<Longrightarrow> ref_update x cl = (cl, Some errFinalizerAdd)"
  "wl_Watchers cl (wat_key x) = Some old \<Longrightarrow> om_DeletionTimestamp (wat_Meta old) = None
     \<or> set (om_Finalizers (wat_Meta x)) \<subseteq> set (om_Finalizers (wat_Meta old)) \<Longrightarrow> ref_update x cl = (put_watcher x cl, None)"
  by (auto simp: ref_update_def)

lemma ref_takes_effect:
  "takes_effect tidy (put_watcher x) (\<lambda>cl. ref_update x (tidy cl))"
  "takes_effect tidy (put_status x) (wc_patchStatus ref_wclient x)"
  "takes_effect tidy (put_vs v) (\<lambda>cl. (put_vs v cl, None))"
  "takes_effect tidy (drop_vs n ns) (wc_deleteVS ref_wclient n ns)"
proof -
  show "takes_effect tidy (put_watcher x) (\<lambda>cl. ref_update x (tidy cl))"
    unfolding takes_effect_def
    by (auto simp: ref_update_def split: option.splits)
qed (simp_all add: takes_effect_def ref_wclient_def)

lemma ref_sel [simp]:
  "wc_getWatcher ref_wclient cl n ns = (case wl_Watchers (tidy cl) (ns, n) of Some x \<Rightarrow> Inr x | None \<Rightarrow> Inl notFoundErr)"
  "wc_updateWatcher ref_wclient x = (\<lambda>cl. ref_update x (tidy cl))"
  "wc_getVS ref_wclient cl n ns = (case wl_VS cl (ns, n) of Some v \<Rightarrow> Inr v | None \<Rightarrow> Inl notFoundErr)"
  "wc_createVS ref_wclient v = (\<lambda>cl. (put_vs v cl, None))" "wc_updateVS ref_wclient v = (\<lambda>cl. (put_vs v cl, None))"
  "wc_listGateways ref_wclient cl ns s = Inr (wl_Gateways cl ns s)"
  "wc_setOwner ref_wclient xm m = Inr (m\<lparr>om_OwnerReferences := [om_Name xm]\<rparr>)"
  "snd (wc_deleteVS ref_wclient n ns cl) = (if wl_VS cl (ns, n) = None then Some notFoundErr else None)"
  "fst (wc_deleteVS ref_wclient n ns cl) = drop_vs n ns cl"
  "snd (wc_patchStatus ref_wclient x cl) = (if wl_Watchers (tidy cl) (wat_key x) = None then Some notFoundErr else None)"
  by (simp_all add: ref_wclient_def)

lemma ref_wclient_faithful: "api_faithful ref_wclient tidy"
  unfolding api_faithful_def
  by (intro conjI allI ref_takes_effect)
    (auto simp: owner_ok_def ref_takes_effect dest: tidy_key split: option.splits)

lemma ref_wclient_available: "api_available ref_wclient tidy"
  unfolding api_available_def
  by (intro conjI allI ref_wclient_faithful)
    (auto simp: ErrFailedToGetVirtualService_def ErrFailedToDeleteVirtualService_def ref_update_cases
      split: option.splits)

lemma ref_wclient_refuses: "no_new_finalizers ref_wclient tidy"
  unfolding no_new_finalizers_def
  by (auto simp: ref_update_cases)

definition ex_service :: WatchedService where
  "ex_service = \<lparr>svc_Port = 8082, svc_Name = ''events'', svc_Namespace = ''kcp-system''\<rparr>"

definition ex_watcher :: "State \<Rightarrow> int option \<Rightarrow> string list \<Rightarrow> Watcher" where
  "ex_watcher st del fins =
     \<lparr>wat_Meta = new_meta\<lparr>om_Name := ''kyma'', om_Namespace := ''kcp-system'', om_DeletionTimestamp := del,
        om_Finalizers := fins, om_Labels := [ManagedBy \<mapsto> ''lifecycle-manager'']\<rparr>,
      wat_Spec = \<lparr>ws_ServiceInfo = ex_service, ws_Manager = [], ws_LabelsToWatch = [],
        ws_ResourceToWatch = \<lparr>gvr_Group = OperatorGroup, gvr_Version = ''v1beta2'', gvr_Resource = ''kymas''\<rparr>,
        ws_Field = SpecField, ws_Gateway = \<lparr>ls_MatchLabels = [(''gateway'', ''default'')], ls_MatchExpressions = []\<rparr>\<rparr>,
      wat_Status = \<lparr>wst_State = st, wst_Conditions = []\<rparr>\<rparr>"

definition ex_wkey :: NamespacedName where "ex_wkey = (''kcp-system'', ''kyma'')"

definition ex_gw :: Gateway where
  "ex_gw = \<lparr>gw_Name = ''gw'', gw_Namespace = ''kcp-system'', gw_Servers = [[''listener.kyma.cloud'']], gw_Ports = [443]\<rparr>"

definition ex_wcluster :: "Watcher \<Rightarrow> wcluster" where
  "ex_wcluster x = \<lparr>wl_Watchers = [ex_wkey \<mapsto> x], wl_VS = Map.empty,
     wl_Gateways = (\<lambda>ns s. if s = ''gateway'' then [ex_gw] else [])\<rparr>"

definition ex_wconfig :: wconfig where
  "ex_wconfig = \<lparr>wcf_lib = ref_klib,
     wcf_intervals = \<lparr>ri_Success = 60, ri_Busy = 5, ri_Warning = 30, ri_Error = 10, ri_Jitter = None\<rparr>,
     wcf_when = 1, wcf_gatewayNamespace = ''kcp-system'', wcf_now = int\<rparr>"

lemma ex_wconfig_lib [simp]: "wcf_lib ex_wconfig = ref_klib"
  by (simp add: ex_wconfig_def)

lemma ex_watcher_sel [simp]:
  "wat_key (ex_watcher st del fins) = ex_wkey" "om_DeletionTimestamp (wat_Meta (ex_watcher st del fins)) = del"
  "om_Finalizers (wat_Meta (ex_watcher st del fins)) = fins" "wst_State (wat_Status (ex_watcher st del fins)) = st"
  by (simp_all add: ex_watcher_def wat_key_def ex_wkey_def)

lemma ex_wcluster_stored [simp]:
  "wl_Watchers (tidy (ex_wcluster (ex_watcher st del fins))) ex_wkey = Some (ex_watcher st del fins)"
  by (simp add: ex_wcluster_def tidy_def)

lemma ex_watcher_routable:
  "routable ref_wclient ex_wconfig (tidy (ex_wcluster (ex_watcher st None fins))) (ex_watcher st None fins)"
proof -
  have "wc_selector ref_wclient (ws_Gateway (wat_Spec (ex_watcher st None fins))) = Inr ''gateway''"
    by (simp add: ref_wclient_def ex_watcher_def)
  moreover have "wl_Gateways (tidy (ex_wcluster (ex_watcher st None fins))) ns ''gateway'' = [ex_gw]" for ns
    by (simp add: ex_wcluster_def)
  moreover have "getHosts [ex_gw] = Inr [''listener.kyma.cloud'']" by (simp add: ex_gw_def Let_def)
  moreover have "validateArgumentsForNewHTTPRoute (Some (ex_watcher st None fins)) = None"
    by (simp add: validateArgumentsForNewHTTPRoute_def ex_watcher_def GetManagerName_def ex_service_def minPort_def
        maxPort_def new_meta_def)
  ultimately show ?thesis by (auto simp: routable_def)
qed

definition ex_written :: "wcluster \<times> reconcile_result" where
  "ex_written = watcher_Reconcile ref_wclient ex_wconfig ex_wkey
     (ex_wcluster (ex_watcher StateProcessing None [WatcherFinalizer]))"

lemma ex_written_eval:
  "snd (snd ex_written) = None"
  "map_option (\<lambda>y. wst_State (wat_Status y)) (wl_Watchers (tidy (fst ex_written)) ex_wkey) = Some StateReady"
  by code_simp+

theorem watcher_ready_sound_witness:
  "\<exists>y. wl_Watchers (tidy (fst ex_written)) ex_wkey = Some y
     \<and> configured ref_wclient ex_wconfig (tidy (fst ex_written)) y"
proof -
  have w: "watcher_Reconcile ref_wclient ex_wconfig ex_wkey
      (ex_wcluster (ex_watcher StateProcessing None [WatcherFinalizer])) = (fst ex_written, fst (snd ex_written), None)"
    unfolding ex_written_def [symmetric] by (simp add: prod_eq_iff ex_written_eval(1))
  obtain y where y: "wl_Watchers (tidy (fst ex_written)) ex_wkey = Some y" "wst_State (wat_Status y) = StateReady"
    using ex_written_eval(2) by auto
  have k: "ex_wkey = (''kcp-system'', ''kyma'')" by (simp add: ex_wkey_def)
  have "configured ref_wclient ex_wconfig (tidy (fst ex_written)) y"
    by (rule watcher_ready_sound [OF ref_wclient_faithful _ _ _ w [unfolded k] y(1) [unfolded k] y(2),
          where x = "ex_watcher StateProcessing None [WatcherFinalizer]"])
      (use ex_wcluster_stored [unfolded k] in \<open>simp_all add: ref_klib_ok ContainsFinalizer_def\<close>)
  then show ?thesis using y(1) by blast
qed

definition ex_dropped :: "wcluster \<times> reconcile_result" where
  "ex_dropped = watcher_Reconcile ref_wclient ex_wconfig ex_wkey
     (ex_wcluster (ex_watcher StateDeleting (Some 7) [WatcherFinalizer]))"

lemma ex_dropped_eval: "Option.is_none (wl_Watchers (tidy (fst ex_dropped)) ex_wkey)"
  by code_simp

theorem watcher_finalizer_safe_witness:
  "\<not> holds_finalizer (tidy (fst ex_dropped)) (''kcp-system'', ''kyma'')
   \<and> wl_VS (tidy (fst ex_dropped)) (''kcp-system'', ''kyma'') = None"
proof -
  have k: "ex_wkey = (''kcp-system'', ''kyma'')" by (simp add: ex_wkey_def)
  have w: "watcher_Reconcile ref_wclient ex_wconfig ex_wkey
      (ex_wcluster (ex_watcher StateDeleting (Some 7) [WatcherFinalizer])) =
      (fst ex_dropped, fst (snd ex_dropped), snd (snd ex_dropped))"
    unfolding ex_dropped_def [symmetric] by simp
  have gone: "\<not> holds_finalizer (tidy (fst ex_dropped)) ex_wkey"
    using ex_dropped_eval by (simp add: holds_finalizer_def Option.is_none_def)
  have "holds_finalizer (tidy (fst ex_dropped)) (''kcp-system'', ''kyma'')
      \<or> wl_VS (tidy (fst ex_dropped)) (''kcp-system'', ''kyma'') = None"
    by (rule watcher_finalizer_safe [OF ref_wclient_faithful _ w [unfolded k]])
      (use ex_wcluster_stored [unfolded k] in \<open>simp add: holds_finalizer_def ContainsFinalizer_def\<close>)
  then show ?thesis using gone unfolding k by blast
qed

theorem watcher_converges_witness:
  "\<exists>y. wl_Watchers (tidy ((watcher_round ref_wclient ex_wconfig ex_wkey ^^ 3) (ex_wcluster (ex_watcher StateEmpty None [])))) ex_wkey = Some y
     \<and> in_place ref_wclient ex_wconfig
         (tidy ((watcher_round ref_wclient ex_wconfig ex_wkey ^^ 3) (ex_wcluster (ex_watcher StateEmpty None [])))) y"
  by (rule watcher_converges [OF ref_wclient_available, where x = "ex_watcher StateEmpty None []"])
    (simp_all add: ref_klib_ok served_def ex_watcher_routable)

theorem watcher_deletion_ends_witness:
  "wl_Watchers (tidy ((watcher_round ref_wclient ex_wconfig ex_wkey ^^ 2)
       (ex_wcluster (ex_watcher StateReady (Some 7) [WatcherFinalizer])))) ex_wkey = None
   \<and> wl_VS (tidy ((watcher_round ref_wclient ex_wconfig ex_wkey ^^ 2)
       (ex_wcluster (ex_watcher StateReady (Some 7) [WatcherFinalizer])))) ex_wkey = None"
  by (rule watcher_deletion_ends [OF ref_wclient_available, where x = "ex_watcher StateReady (Some 7) [WatcherFinalizer]"])
    (simp_all add: ref_klib_ok)

theorem watcher_finalizer_added_again_witness:
  "snd (snd (watcher_Reconcile ref_wclient ex_wconfig ex_wkey ((watcher_round ref_wclient ex_wconfig ex_wkey ^^ Suc 0)
     (ex_wcluster (ex_watcher StateDeleting (Some 7) [WatcherFinalizer, ''backup'']))))) \<noteq> None"
  by (rule watcher_finalizer_added_again [OF ref_wclient_available _ ref_wclient_refuses,
        where x = "ex_watcher StateDeleting (Some 7) [WatcherFinalizer, ''backup'']" and g = "''backup''"])
    (simp_all add: ref_klib_ok ContainsFinalizer_def WatcherFinalizer_def OperatorGroup_def)

theorem route_port_exact_witness:
  "\<exists>r. NewHTTPRoute (ex_watcher StateReady None []) = Inr r
     \<and> uint (hr_Port r) = svc_Port (ws_ServiceInfo (wat_Spec (ex_watcher StateReady None []))) \<and> uint (hr_Port r) \<in> {1..65535}"
proof -
  have "validateArgumentsForNewHTTPRoute (Some (ex_watcher StateReady None [])) = None"
    using ex_watcher_routable [of StateReady "[]"] by (simp add: routable_def)
  then obtain r where "NewHTTPRoute (ex_watcher StateReady None []) = Inr r" by (simp add: NewHTTPRoute_def)
  then show ?thesis using route_port_exact by blast
qed

end
