(* ===== verification/WebhookManager.thy ===== *)
theory WebhookManager
  imports CertService WatcherController "HOL-Library.AList"
begin

text \<open>
  The manager of the watch mechanism in the SKR (\<^verbatim>\<open>pkg/watcher/skr_webhook_manifest_manager.go\<close>)
  with the services it composes: the address of the control plane
  (\<^verbatim>\<open>internal/service/watcher/gateway\<close>), the configuration of the resources of the chart, the
  webhook configuration and the secret (\<^verbatim>\<open>internal/service/watcher/resources\<close>) and the concurrent
  application of an operation (\<^verbatim>\<open>internal/service/watcher/chartreader\<close>). Certificates come from
  \<^verbatim>\<open>CertService\<close>, Watchers from \<^verbatim>\<open>WatcherController\<close>.

  The goroutines of an error group are modelled by the order in which their calls take place; the calls of
  \<open>Remove\<close> write a variable that all goroutines share, so there the two steps of a goroutine (the call that
  writes the variable, the check that reads it) are interleaved by an explicit schedule. A call is told
  whether the context of the group may be cancelled.
\<close>

section \<open>Address of the control plane (\<^verbatim>\<open>gateway.go\<close>)\<close>

record KCPAddr =
  kcp_Hostname :: string
  kcp_Port :: "32 word"

definition ErrGatewayHostWronglyConfigured :: goerror where
  "ErrGatewayHostWronglyConfigured =
     Sentinel ''ErrGatewayHostWronglyConfigured'' ''gateway should have configured exactly one server and one host''"
definition ErrNoHostnameInGateway :: goerror where
  "ErrNoHostnameInGateway = Sentinel ''ErrNoHostnameInGateway'' ''the gateway has no host specified''"

text \<open>\<^verbatim>\<open>strconv.ParseInt(s, 10, 32)\<close>.\<close>

definition ErrSyntax :: goerror where "ErrSyntax = Sentinel ''ErrSyntax'' ''invalid syntax''"
definition ErrRange :: goerror where "ErrRange = Sentinel ''ErrRange'' ''value out of range''"

fun digits_value :: "int \<Rightarrow> string \<Rightarrow> int option" where
  "digits_value acc [] = Some acc"
| "digits_value acc (c # cs) =
     (if of_char c \<ge> (48 :: int) \<and> of_char c \<le> (57 :: int) then digits_value (10 * acc + (of_char c - 48)) cs else None)"

definition parseInt32 :: "string \<Rightarrow> goerror + int" where
  "parseInt32 s =
     (let numErr = (\<lambda>e. Inl (wrapErr (''strconv.ParseInt: parsing '' @ [CHR 0x22] @ s @ [CHR 0x22] @ '': '') e));
          neg = (case s of c # _ \<Rightarrow> c = CHR ''-'' | [] \<Rightarrow> False);
          ds = (case s of c # cs \<Rightarrow> if c = CHR ''-'' \<or> c = CHR ''+'' then cs else s | [] \<Rightarrow> [])
      in if ds = [] then numErr ErrSyntax
         else case digits_value 0 ds of
           None \<Rightarrow> numErr ErrSyntax
         | Some n \<Rightarrow> if \<not> neg \<and> 2 ^ 31 \<le> n then numErr ErrRange
                    else if neg \<and> 2 ^ 31 < n then numErr ErrRange
                    else Inr (if neg then - n else n))"

text \<open>White space as \<^verbatim>\<open>strings.TrimSpace\<close> trims it, for ASCII text.\<close>

definition blank :: "string \<Rightarrow> bool" where
  "blank s = list_all (\<lambda>c. of_char c \<in> {9 .. 13 :: int} \<or> of_char c = (32 :: int)) s"

definition ResolveKcpAddr :: "(string \<Rightarrow> string \<Rightarrow> goerror + Gateway) \<Rightarrow> string \<Rightarrow> string \<Rightarrow> string \<Rightarrow> goerror + KCPAddr" where
  "ResolveKcpAddr getGateway name ns portOverwrite =
     (case getGateway name ns of
        Inl e \<Rightarrow> Inl (wrapErr (''failed to get istio gateway '' @ name @ '': '') e)
      | Inr gateway \<Rightarrow>
          (case gw_Servers gateway of
             [[host]] \<Rightarrow>
               if blank host then Inl ErrNoHostnameInGateway
               else if portOverwrite \<noteq> []
               then (case parseInt32 portOverwrite of
                       Inl e \<Rightarrow> Inl (Errorf [Lit (''invalid gateway port specified '' @ portOverwrite @ '', must be a number (''),
                                         Wrap e, Lit '')''])
                     | Inr port \<Rightarrow> Inr \<lparr>kcp_Hostname = host, kcp_Port = word_of_int port\<rparr>)
               else Inr \<lparr>kcp_Hostname = host, kcp_Port = hd (gw_Ports gateway @ [0])\<rparr>
           | _ \<Rightarrow> Inl ErrGatewayHostWronglyConfigured))"

section \<open>Resources of the webhook\<close>

record RawObject =
  raw_ApiVersion :: string
  raw_Kind :: string
  raw_Name :: string
  raw_Namespace :: string
  raw_Labels :: labels
  raw_Body :: string          \<comment> \<open>the rest of the object\<close>

record Container =
  co_Name :: string
  co_Image :: string
  co_Env :: "(string \<times> string) list"
  co_Limits :: "(string \<times> string) list"

record Deployment =
  dep_Name :: string
  dep_Namespace :: string
  dep_Labels :: labels
  dep_TemplateLabels :: "(string \<times> string) list"
  dep_Containers :: "Container list"
  dep_ImagePullSecrets :: "string list"

record NetworkPolicy =
  np_Name :: string
  np_Namespace :: string
  np_Labels :: labels
  np_Egress :: "(string \<times> 32 word) list list"   \<comment> \<open>protocol and port, for each rule\<close>

record ValidatingWebhook =
  vw_Name :: string
  vw_ObjectSelector :: "(string \<times> string) list"
  vw_AdmissionReviewVersions :: "string list"
  vw_CABundle :: bytes
  vw_ServiceName :: string
  vw_ServiceNamespace :: string
  vw_Path :: string
  vw_APIGroups :: "string list"
  vw_APIVersions :: "string list"
  vw_Resources :: "string list"
  vw_Operations :: "string list"
  vw_SideEffects :: string
  vw_TimeoutSeconds :: int
  vw_FailurePolicy :: string

record WebhookConfig =
  wh_Name :: string
  wh_Namespace :: string
  wh_Labels :: labels
  wh_Webhooks :: "ValidatingWebhook list"

datatype skr_object =
  RawObj RawObject
| DeploymentObj Deployment
| NetworkPolicyObj NetworkPolicy
| WebhookConfigObj WebhookConfig
| SecretObj Secret

fun obj_key :: "skr_object \<Rightarrow> string \<times> string" where
  "obj_key (RawObj r) = (raw_Kind r, raw_Name r)"
| "obj_key (DeploymentObj d) = (''Deployment'', dep_Name d)"
| "obj_key (NetworkPolicyObj p) = (''NetworkPolicy'', np_Name p)"
| "obj_key (WebhookConfigObj c) = (''ValidatingWebhookConfiguration'', wh_Name c)"
| "obj_key (SecretObj s) = (''Secret'', sec_Name s)"

fun SetNamespace :: "string \<Rightarrow> skr_object \<Rightarrow> skr_object" where
  "SetNamespace ns (RawObj r) = RawObj (r\<lparr>raw_Namespace := ns\<rparr>)"
| "SetNamespace ns (DeploymentObj d) = DeploymentObj (d\<lparr>dep_Namespace := ns\<rparr>)"
| "SetNamespace ns (NetworkPolicyObj p) = NetworkPolicyObj (p\<lparr>np_Namespace := ns\<rparr>)"
| "SetNamespace ns (WebhookConfigObj c) = WebhookConfigObj (c\<lparr>wh_Namespace := ns\<rparr>)"
| "SetNamespace ns (SecretObj s) = SecretObj (s\<lparr>sec_Namespace := ns\<rparr>)"

subsection \<open>Secret and webhook configuration\<close>

definition SkrTLSName :: string where "SkrTLSName = ''skr-webhook-tls''"
definition SkrResourceName :: string where "SkrResourceName = ''skr-webhook''"
definition webhookTimeOutInSeconds :: int where "webhookTimeOutInSeconds = 15"
definition webhook_version :: string where "webhook_version = ''v1''"

definition BuildSKRSecret :: "bytes \<Rightarrow> bytes \<Rightarrow> bytes \<Rightarrow> string \<Rightarrow> Secret" where
  "BuildSKRSecret caCert tlsCert tlsKey remoteNs =
     \<lparr>sec_Name = SkrTLSName, sec_Namespace = remoteNs, sec_Labels = [ManagedBy \<mapsto> ManagedByLabelValue],
      sec_Annotations = Map.empty, sec_ResourceVersion = [],
      sec_Data = Some [CACrt \<mapsto> caCert, TLSCertKey \<mapsto> tlsCert, TLSPrivateKeyKey \<mapsto> tlsKey]\<rparr>"

definition ResolveWebhookRuleResources :: "string \<Rightarrow> string \<Rightarrow> string list" where
  "ResolveWebhookRuleResources resource fieldName =
     (if fieldName = StatusField then [resource @ ''/'' @ fieldName] else [resource])"

definition webhook_name :: "Watcher \<Rightarrow> string" where
  "webhook_name x = om_Namespace (wat_Meta x) @ ''.'' @ om_Name (wat_Meta x) @ ''.'' @ OperatorGroup"

definition webhook_of :: "bytes \<Rightarrow> string \<Rightarrow> Watcher \<Rightarrow> ValidatingWebhook" where
  "webhook_of caCert remoteNs x =
     \<lparr>vw_Name = webhook_name x, vw_ObjectSelector = ws_LabelsToWatch (wat_Spec x),
      vw_AdmissionReviewVersions = [webhook_version], vw_CABundle = caCert,
      vw_ServiceName = SkrResourceName, vw_ServiceNamespace = remoteNs,
      vw_Path = ''/validate/'' @ GetManagerName x,
      vw_APIGroups = [gvr_Group (ws_ResourceToWatch (wat_Spec x))],
      vw_APIVersions = [gvr_Version (ws_ResourceToWatch (wat_Spec x))],
      vw_Resources = ResolveWebhookRuleResources (gvr_Resource (ws_ResourceToWatch (wat_Spec x))) (ws_Field (wat_Spec x)),
      vw_Operations = [''CREATE'', ''UPDATE'', ''DELETE''],
      vw_SideEffects = ''NoneOnDryRun'', vw_TimeoutSeconds = webhookTimeOutInSeconds, vw_FailurePolicy = ''Ignore''\<rparr>"

definition BuildValidatingWebhookConfigFromWatchers :: "bytes \<Rightarrow> Watcher list \<Rightarrow> string \<Rightarrow> WebhookConfig" where
  "BuildValidatingWebhookConfigFromWatchers caCert watchers remoteNs =
     \<lparr>wh_Name = SkrResourceName, wh_Namespace = remoteNs, wh_Labels = [ManagedBy \<mapsto> ManagedByLabelValue],
      wh_Webhooks = map (webhook_of caCert remoteNs) watchers\<rparr>"

subsection \<open>Configuration of the chart\<close>

definition errExpectedNonEmptyPodContainers :: goerror where
  "errExpectedNonEmptyPodContainers = Sentinel ''errExpectedNonEmptyPodContainers'' ''expected non empty pod containers''"
definition errPodTemplateMustContainAtLeastOne :: goerror where
  "errPodTemplateMustContainAtLeastOne = Sentinel ''errPodTemplateMustContainAtLeastOne''
     (''pod template labels must contain '' @ ''at least the deployment selector label'')"
definition errConvertUnstruct :: goerror where
  "errConvertUnstruct = Sentinel ''errConvertUnstruct'' ''failed to convert deployment to unstructured''"
definition errNoSecretResourceVersion :: goerror where
  "errNoSecretResourceVersion = Sentinel ''errNoSecretResourceVersion'' ''secret resource version must not be empty''"

definition PodRestartLabelKey :: string where "PodRestartLabelKey = OperatorGroup @ ''/pod-restart-trigger''"
definition goDebugEnvName :: string where "goDebugEnvName = ''GODEBUG''"
definition kcpAddressEnvName :: string where "kcpAddressEnvName = ''KCP_ADDR''"
definition ApiServerNetworkPolicyName :: string where
  "ApiServerNetworkPolicyName = ''kyma-project.io--watcher-to-apiserver''"

record ResourceConfigurator =
  rc_remoteNs :: string
  rc_skrWatcherImage :: string
  rc_secretResVer :: string
  rc_kcpAddress :: KCPAddr
  rc_cpuResLimit :: string
  rc_memResLimit :: string
  rc_skrImagePullSecret :: string
  rc_toDeployment :: "RawObject \<Rightarrow> goerror + Deployment"        \<comment> \<open>\<^verbatim>\<open>FromUnstructured\<close>\<close>
  rc_toNetworkPolicy :: "RawObject \<Rightarrow> goerror + NetworkPolicy"
  rc_parseQuantity :: "string \<Rightarrow> goerror + string"
  rc_goDebug :: "string option"                                \<comment> \<open>\<^verbatim>\<open>os.LookupEnv\<close>\<close>

definition joinHostPort :: "string \<Rightarrow> string \<Rightarrow> string" where
  "joinHostPort host port =
     (if CHR '':'' \<in> set host then ''['' @ host @ '']:'' @ port else host @ '':'' @ port)"

definition kcp_address :: "KCPAddr \<Rightarrow> string" where
  "kcp_address a = joinHostPort (kcp_Hostname a) (decimal (unat (kcp_Port a)))"

definition patchSkrImagePullSecret :: "Deployment \<Rightarrow> string \<Rightarrow> Deployment" where
  "patchSkrImagePullSecret d skrImagePullSecret =
     (if skrImagePullSecret \<noteq> [] then d\<lparr>dep_ImagePullSecrets := dep_ImagePullSecrets d @ [skrImagePullSecret]\<rparr> else d)"

definition set_kcp_env :: "KCPAddr \<Rightarrow> (string \<times> string) list \<Rightarrow> (string \<times> string) list" where
  "set_kcp_env a env = map (\<lambda>(n, v). if n = kcpAddressEnvName then (n, kcp_address a) else (n, v)) env"

definition ConfigureDeployment :: "ResourceConfigurator \<Rightarrow> RawObject \<Rightarrow> goerror + Deployment" where
  "ConfigureDeployment rc obj =
     (case rc_toDeployment rc obj of
        Inl e \<Rightarrow> Inl (Errorf [Wrap errConvertUnstruct, Lit '': '', Wrap e])
      | Inr d \<Rightarrow>
          if dep_TemplateLabels d = [] then Inl errPodTemplateMustContainAtLeastOne
          else (case dep_Containers d of
             [] \<Rightarrow> Inl errExpectedNonEmptyPodContainers
           | server # others \<Rightarrow>
               if rc_secretResVer rc = []
               then Inl (wrapErr ''secret resource version must not be empty: '' errNoSecretResourceVersion)
               else let d1 = patchSkrImagePullSecret (d\<lparr>dep_TemplateLabels :=
                           AList.update PodRestartLabelKey (rc_secretResVer rc) (dep_TemplateLabels d)\<rparr>)
                         (rc_skrImagePullSecret rc);
                        server1 = server\<lparr>co_Image := rc_skrWatcherImage rc,
                          co_Env := set_kcp_env (rc_kcpAddress rc) (co_Env server)\<rparr>
                    in case rc_parseQuantity rc (rc_cpuResLimit rc) of
                         Inl e \<Rightarrow> Inl (wrapErr ''error parsing CPU resource limit: '' e)
                       | Inr cpu \<Rightarrow>
                           (case rc_parseQuantity rc (rc_memResLimit rc) of
                              Inl e \<Rightarrow> Inl (wrapErr ''error parsing memory resource limit: '' e)
                            | Inr mem \<Rightarrow>
                                let server2 = server1\<lparr>co_Limits := [(''cpu'', cpu), (''memory'', mem)]\<rparr>;
                                    server3 = (case rc_goDebug rc of
                                        Some v \<Rightarrow> if v \<noteq> [] then server2\<lparr>co_Env := co_Env server2 @ [(goDebugEnvName, v)]\<rparr>
                                                 else server2
                                      | None \<Rightarrow> server2)
                                in Inr (d1\<lparr>dep_Containers := server3 # others,
                                          dep_Labels := MergeMapsSilent (dep_Labels d1) [(ManagedBy, ManagedByLabelValue)]\<rparr>))))"

definition ConfigureNetworkPolicies :: "ResourceConfigurator \<Rightarrow> RawObject \<Rightarrow> goerror + NetworkPolicy" where
  "ConfigureNetworkPolicies rc obj =
     (case rc_toNetworkPolicy rc obj of
        Inl e \<Rightarrow> Inl (Errorf [Wrap errConvertUnstruct, Lit '': '', Wrap e])
      | Inr p \<Rightarrow>
          Inr (if np_Name p = ApiServerNetworkPolicyName
               then p\<lparr>np_Egress := [[(''TCP'', kcp_Port (rc_kcpAddress rc))]]\<rparr> else p))"

definition ConfigureUnstructuredObject :: "ResourceConfigurator \<Rightarrow> RawObject \<Rightarrow> goerror + skr_object" where
  "ConfigureUnstructuredObject rc obj =
     (let key = raw_ApiVersion obj @ ''/'' @ raw_Kind obj in
      if key = ''apps/v1/Deployment'' then map_sum id DeploymentObj (ConfigureDeployment rc obj)
      else if key = ''networking.k8s.io/v1/NetworkPolicy'' then map_sum id NetworkPolicyObj (ConfigureNetworkPolicies rc obj)
      else Inr (RawObj obj))"

section \<open>Concurrent operations (\<^verbatim>\<open>chartreader\<close>)\<close>

text \<open>
  \<open>RunResourceOperationWithGroupedErrors\<close> for an operation that shares no variables: \<open>ord\<close> lists the
  indices of the resources in the order in which their operations take place. The first error is kept; once there
  is one, the context of the group is cancelled.
\<close>

fun run_operations :: "(bool \<Rightarrow> 'a \<Rightarrow> 'w \<Rightarrow> 'w \<times> goerror option) \<Rightarrow> 'a list \<Rightarrow> goerror option \<Rightarrow> 'w \<Rightarrow> 'w \<times> goerror option" where
  "run_operations operation [] err w = (w, err)"
| "run_operations operation (r # rs) err w =
     (case operation (err \<noteq> None) r w of
        (w', e) \<Rightarrow> run_operations operation rs (case err of Some f \<Rightarrow> Some f | None \<Rightarrow> e) w')"

definition RunResourceOperationWithGroupedErrors ::
  "(bool \<Rightarrow> 'a \<Rightarrow> 'w \<Rightarrow> 'w \<times> goerror option) \<Rightarrow> nat list \<Rightarrow> 'a list \<Rightarrow> 'w \<Rightarrow> 'w \<times> goerror option" where
  "RunResourceOperationWithGroupedErrors operation ord resources w =
     (case run_operations operation (map ((!) resources) ord) None w of
        (w', r) \<Rightarrow> (w', map_option (wrapErr ''failed to run resource operation: '') r))"

section \<open>Manager\<close>

datatype metric_op = SetCertNotRenew | CleanupMetrics

record 'w skr_manager =
  sm_certificates :: "'w cert_service"
  sm_now :: int
  sm_getContext :: "'w \<Rightarrow> NamespacedName \<Rightarrow> goerror option"
  sm_listWatchers :: "'w \<Rightarrow> goerror + Watcher list"
  sm_patch :: "bool \<Rightarrow> skr_object \<Rightarrow> 'w \<Rightarrow> 'w \<times> goerror option"
  sm_delete :: "bool \<Rightarrow> skr_object \<Rightarrow> 'w \<Rightarrow> 'w \<times> goerror option"
  sm_metric :: "metric_op \<Rightarrow> string \<Rightarrow> 'w \<Rightarrow> 'w"
  sm_remoteSyncNamespace :: string
  sm_BaseResources :: "RawObject list"
  sm_resourceConfigurator :: ResourceConfigurator

definition writeCertificateRenewalMetrics :: "'w skr_manager \<Rightarrow> string \<Rightarrow> 'w \<Rightarrow> 'w" where
  "writeCertificateRenewalMetrics m kymaName w =
     (case IsSkrCertificateRenewalOverdue (sm_certificates m) (sm_now m) w kymaName of
        (overdue, Some e) \<Rightarrow> sm_metric m SetCertNotRenew kymaName w
      | (overdue, None) \<Rightarrow> sm_metric m (if overdue then SetCertNotRenew else CleanupMetrics) kymaName w)"

definition getWatchers :: "'w skr_manager \<Rightarrow> 'w \<Rightarrow> goerror + Watcher list" where
  "getWatchers m w = (case sm_listWatchers m w of Inl e \<Rightarrow> Inl (wrapErr ''error listing watcher CRs: '' e) | Inr xs \<Rightarrow> Inr xs)"

definition getCertificateData :: "'w skr_manager \<Rightarrow> 'w \<Rightarrow> string \<Rightarrow> goerror + CertificateSecretData \<times> GatewaySecretData" where
  "getCertificateData m w kymaName =
     (case GetSkrCertificateSecretData (sm_certificates m) w kymaName of
        Inl e \<Rightarrow> Inl (if reasonForError e = Some ReasonNotFound then ErrSkrCertificateNotReady
                    else wrapErr ''failed to get SKR certificate secret: '' e)
      | Inr skrData \<Rightarrow>
          (case GetGatewayCertificateSecretData (sm_certificates m) w of
             Inl e \<Rightarrow> Inl (wrapErr ''failed to get gateway certificate secret: '' e)
           | Inr gatewayData \<Rightarrow> Inr (skrData, gatewayData)))"

fun configure_all :: "ResourceConfigurator \<Rightarrow> RawObject list \<Rightarrow> goerror + skr_object list" where
  "configure_all rc [] = Inr []"
| "configure_all rc (b # bs) =
     (let r = b\<lparr>raw_Labels := MergeMapsSilent (raw_Labels b) [(ManagedBy, ManagedByLabelValue)]\<rparr> in
      case ConfigureUnstructuredObject rc r of
        Inl e \<Rightarrow> Inl (wrapErr (''failed to configure '' @ raw_Kind r @ '' resource: '') e)
      | Inr obj \<Rightarrow> (case configure_all rc bs of Inl e \<Rightarrow> Inl e | Inr objs \<Rightarrow> Inr (obj # objs)))"

definition getRawManifestClientObjects :: "'w skr_manager \<Rightarrow> 'w \<Rightarrow> string \<Rightarrow> goerror + skr_object list" where
  "getRawManifestClientObjects m w kymaName =
     (case GetSkrCertificateSecret (sm_certificates m) w kymaName of
        Inl e \<Rightarrow> Inl (if reasonForError e = Some ReasonNotFound then ErrSkrCertificateNotReady
                    else wrapErr ''failed to get SKR certificate secret: '' e)
      | Inr secret \<Rightarrow>
          configure_all ((sm_resourceConfigurator m)\<lparr>rc_secretResVer := sec_ResourceVersion secret\<rparr>) (sm_BaseResources m))"

definition getGeneratedClientObjects :: "'w skr_manager \<Rightarrow> CertificateSecretData \<Rightarrow> GatewaySecretData \<Rightarrow> Watcher list \<Rightarrow> skr_object list" where
  "getGeneratedClientObjects m skrData gatewayData watchers =
     [WebhookConfigObj (BuildValidatingWebhookConfigFromWatchers (gsd_CaCert gatewayData) watchers (sm_remoteSyncNamespace m)),
      SecretObj (BuildSKRSecret (gsd_CaCert gatewayData) (csd_TlsCert skrData) (csd_TlsKey skrData) (sm_remoteSyncNamespace m))]"

definition getSKRClientObjectsForInstall :: "'w skr_manager \<Rightarrow> 'w \<Rightarrow> string \<Rightarrow> goerror + skr_object list" where
  "getSKRClientObjectsForInstall m w kymaName =
     (case getRawManifestClientObjects m w kymaName of
        Inl e \<Rightarrow> Inl e
      | Inr resources \<Rightarrow>
          (case getWatchers m w of
             Inl e \<Rightarrow> Inl e
           | Inr watchers \<Rightarrow>
               (case getCertificateData m w kymaName of
                  Inl e \<Rightarrow> Inl e
                | Inr (skrData, gatewayData) \<Rightarrow>
                    Inr (resources @ getGeneratedClientObjects m skrData gatewayData watchers))))"

definition getBaseClientObjects :: "'w skr_manager \<Rightarrow> skr_object list" where
  "getBaseClientObjects m = map RawObj (sm_BaseResources m)"

fun obj_name :: "skr_object \<Rightarrow> string" where
  "obj_name obj = snd (obj_key obj)"

definition apply_resource :: "'w skr_manager \<Rightarrow> bool \<Rightarrow> skr_object \<Rightarrow> 'w \<Rightarrow> 'w \<times> goerror option" where
  "apply_resource m cancelled obj w =
     (case sm_patch m cancelled (SetNamespace (sm_remoteSyncNamespace m) obj) w of
        (w', r) \<Rightarrow> (w', map_option (wrapErr (''failed to patch resource '' @ obj_name obj @ '': '')) r))"

definition webhook_Reconcile :: "'w skr_manager \<Rightarrow> (nat \<Rightarrow> nat list) \<Rightarrow> Kyma \<Rightarrow> 'w \<Rightarrow> 'w \<times> goerror option" where
  "webhook_Reconcile m ord k w =
     (case sm_getContext m w (Kyma_NamespacedName k) of
        Some e \<Rightarrow> (w, Some (wrapErr ''failed to get skrContext: '' e))
      | None \<Rightarrow>
          on_err (CreateSkrCertificate (sm_certificates m) k w)
            (\<lambda>w1 e. (w1, Some (wrapErr ''failed to create SKR certificate: '' e)))
            (\<lambda>w1. on_err (RenewSkrCertificate (sm_certificates m) (om_Name (kyma_Meta k))
                           (writeCertificateRenewalMetrics m (om_Name (kyma_Meta k)) w1))
               (\<lambda>w2 e. (w2, Some (wrapErr ''failed to renew SKR certificate: '' e)))
               (\<lambda>w2. case getSKRClientObjectsForInstall m w2 (om_Name (kyma_Meta k)) of
                   Inl e \<Rightarrow> (w2, Some e)
                 | Inr resources \<Rightarrow>
                     on_err (RunResourceOperationWithGroupedErrors (apply_resource m) (ord (length resources)) resources w2)
                       (\<lambda>w3 e. (w3, Some (wrapErr ''failed to apply webhook resources: '' e)))
                       (\<lambda>w3. (w3, None)))))"

text \<open>
  The goroutines of \<open>Remove\<close>: \<open>Call i\<close> deletes the i-th resource and writes the result to the variable
  \<^verbatim>\<open>err\<close> of the enclosing function, \<open>Check i\<close> reads this variable and returns from the goroutine.
\<close>

datatype remove_action = Call nat | Check nat

record 'w remove_state =
  rm_world :: 'w
  rm_err :: "goerror option"     \<comment> \<open>the shared variable\<close>
  rm_first :: "goerror option"   \<comment> \<open>the error that the group keeps\<close>

definition remove_step :: "'w skr_manager \<Rightarrow> skr_object list \<Rightarrow> remove_action \<Rightarrow> 'w remove_state \<Rightarrow> 'w remove_state" where
  "remove_step m resources st s =
     (case st of
        Call i \<Rightarrow>
          (case sm_delete m (rm_first s \<noteq> None) (SetNamespace (sm_remoteSyncNamespace m) (resources ! i)) (rm_world s) of
             (w', r) \<Rightarrow> s\<lparr>rm_world := w', rm_err := r\<rparr>)
      | Check i \<Rightarrow>
          s\<lparr>rm_first := (case rm_first s of
              Some e \<Rightarrow> Some e
            | None \<Rightarrow> map_option (wrapErr (''failed to delete resource '' @ obj_name (resources ! i) @ '': '')) (rm_err s))\<rparr>)"

definition removed_resources :: "'w skr_manager \<Rightarrow> skr_object list" where
  "removed_resources m =
     getBaseClientObjects m @ getGeneratedClientObjects m \<lparr>csd_TlsCert = None, csd_TlsKey = None\<rparr> \<lparr>gsd_CaCert = None\<rparr> []"

definition Remove :: "'w skr_manager \<Rightarrow> remove_action list \<Rightarrow> Kyma \<Rightarrow> 'w \<Rightarrow> 'w \<times> goerror option" where
  "Remove m schedule k w =
     (case sm_getContext m w (Kyma_NamespacedName k) of
        Some e \<Rightarrow> (w, Some (wrapErr ''failed to get skrContext: '' e))
      | None \<Rightarrow>
          on_err (DeleteSkrCertificate (sm_certificates m) (om_Name (kyma_Meta k)) w)
            (\<lambda>w1 e. (w1, Some (wrapErr ''failed to delete SKR certificate: '' e)))
            (\<lambda>w1. let s = fold (remove_step m (removed_resources m)) schedule
                             \<lparr>rm_world = w1, rm_err = None, rm_first = None\<rparr>;
                      r = map_option (wrapErr ''failed to run resource operation: '') (rm_first s)
                  in if r \<noteq> None \<and> \<not> IsNotFound r
                     then (rm_world s, map_option (wrapErr ''failed to delete webhook resources: '') r)
                     else (sm_metric m CleanupMetrics (om_Name (kyma_Meta k)) (rm_world s), None)))"

definition RemoveSkrCertificate :: "'w skr_manager \<Rightarrow> string \<Rightarrow> 'w \<Rightarrow> 'w \<times> goerror option" where
  "RemoveSkrCertificate m kymaName w =
     on_err (DeleteSkrCertificate (sm_certificates m) kymaName w)
       (\<lambda>w1 e. (w1, Some (wrapErr ''failed to delete SKR certificate: '' e)))
       (\<lambda>w1. (w1, None))"

section \<open>Names of webhooks\<close>

lemma append_sep_inject:
  assumes "x \<notin> set a" "x \<notin> set b" "a @ x # c = b @ x # d"
  shows "a = b \<and> c = d"
  using assms
proof (induction a arbitrary: b)
  case Nil
  then show ?case by (cases b) auto
next
  case (Cons y ys)
  then show ?case by (cases b) auto
qed

lemma webhook_name_inject:
  assumes "CHR ''.'' \<notin> set (om_Namespace (wat_Meta x))" "CHR ''.'' \<notin> set (om_Namespace (wat_Meta y))"
    and "webhook_name x = webhook_name y"
  shows "wat_key x = wat_key y"
proof -
  have "om_Namespace (wat_Meta x) @ CHR ''.'' # (om_Name (wat_Meta x) @ ''.'' @ OperatorGroup) =
      om_Namespace (wat_Meta y) @ CHR ''.'' # (om_Name (wat_Meta y) @ ''.'' @ OperatorGroup)"
    using assms(3) by (simp add: webhook_name_def)
  from append_sep_inject [OF assms(1,2) this] show ?thesis by (simp add: wat_key_def)
qed

text \<open>
  The webhooks of a configuration have distinct names, as the API server requires: Watchers with distinct keys
  get distinct webhook names, because a namespace contains no dot.
\<close>

theorem webhook_names_distinct:
  assumes "distinct (map wat_key watchers)"
    and "list_all (\<lambda>x. CHR ''.'' \<notin> set (om_Namespace (wat_Meta x))) watchers"
  shows "distinct (map vw_Name (wh_Webhooks (BuildValidatingWebhookConfigFromWatchers caCert watchers remoteNs)))"
proof -
  have "inj_on webhook_name (set watchers)"
  proof (rule inj_onI)
    fix x y assume xy: "x \<in> set watchers" "y \<in> set watchers" "webhook_name x = webhook_name y"
    then have "wat_key x = wat_key y" using webhook_name_inject assms(2) by (auto simp: list_all_iff)
    then show "x = y" using assms(1) xy by (auto simp: distinct_map dest: inj_onD)
  qed
  then have "distinct (map webhook_name watchers)" using assms(1) by (simp add: distinct_map)
  moreover have "map vw_Name (wh_Webhooks (BuildValidatingWebhookConfigFromWatchers caCert watchers remoteNs)) =
      map webhook_name watchers"
    by (simp add: BuildValidatingWebhookConfigFromWatchers_def webhook_of_def)
  ultimately show ?thesis by simp
qed

section \<open>Installation\<close>

text \<open>The objects of the SKR after a successful patch.\<close>

definition patch_stores :: "'w skr_manager \<Rightarrow> ('w \<Rightarrow> string \<times> string \<Rightarrow> skr_object option) \<Rightarrow> bool" where
  "patch_stores m view \<longleftrightarrow>
     (\<forall>cancelled obj w w'. sm_patch m cancelled obj w = (w', None) \<longrightarrow> view w' = (view w)(obj_key obj \<mapsto> obj))"

definition goroutine_order :: "(nat \<Rightarrow> nat list) \<Rightarrow> bool" where
  "goroutine_order ord \<longleftrightarrow> (\<forall>n. distinct (ord n) \<and> set (ord n) = {..<n})"

lemma obj_key_SetNamespace [simp]: "obj_key (SetNamespace ns obj) = obj_key obj"
  by (cases obj) auto

lemma run_operations_first: "snd (run_operations operation rs (Some e) w) = Some e"
  by (induction rs arbitrary: w) (auto split: prod.splits)

text \<open>If the group reports no error, every operation was successful, with a context that was not cancelled.\<close>

lemma run_apply_stores:
  assumes "patch_stores m view" "run_operations (apply_resource m) rs None w = (w', None)"
  shows "view w' = fold (\<lambda>obj v. v(obj_key obj \<mapsto> SetNamespace (sm_remoteSyncNamespace m) obj)) rs (view w)"
  using assms(2)
proof (induction rs arbitrary: w)
  case Nil
  then show ?case by simp
next
  case (Cons r rs)
  obtain w1 e where op: "apply_resource m False r w = (w1, e)" by fastforce
  have "e = None"
  proof (cases e)
    case (Some a)
    then show ?thesis using Cons.prems op run_operations_first [of "apply_resource m" rs a w1] by simp
  qed
  then have "sm_patch m False (SetNamespace (sm_remoteSyncNamespace m) r) w = (w1, None)"
    using op by (auto simp: apply_resource_def split: prod.splits)
  then have "view w1 = (view w)(obj_key r \<mapsto> SetNamespace (sm_remoteSyncNamespace m) r)"
    using assms(1) unfolding patch_stores_def by fastforce
  then show ?case using Cons op \<open>e = None\<close> by simp
qed

lemma fold_upd_unique:
  assumes "x \<in> set xs" "\<And>y. y \<in> set xs \<Longrightarrow> key y = key x \<Longrightarrow> y = x"
  shows "fold (\<lambda>y v. v(key y \<mapsto> f y)) xs v0 (key x) = Some (f x)"
  using assms
proof (induction xs arbitrary: v0 rule: rev_induct)
  case (snoc y ys)
  show ?case
  proof (cases "key y = key x")
    case True
    then show ?thesis using snoc.prems(2) [of y] by simp
  next
    case False
    then have "x \<in> set ys" using snoc.prems(1) by auto
    then show ?thesis using snoc.IH [of v0] snoc.prems(2) False by simp
  qed
qed simp

lemma configure_all_keys:
  assumes "configure_all rc bs = Inr objs" "obj \<in> set objs" "fst (obj_key obj) \<notin> {''Deployment'', ''NetworkPolicy''}"
  shows "\<exists>b \<in> set bs. obj_key obj = (raw_Kind b, raw_Name b)"
  using assms
proof (induction bs arbitrary: objs)
  case (Cons b bs)
  obtain obj1 objs1 where c: "ConfigureUnstructuredObject rc (b\<lparr>raw_Labels := MergeMapsSilent (raw_Labels b) [(ManagedBy, ManagedByLabelValue)]\<rparr>) = Inr obj1"
    "configure_all rc bs = Inr objs1" "objs = obj1 # objs1"
    using Cons.prems(1) by (auto simp: Let_def split: sum.splits)
  show ?case
  proof (cases "obj = obj1")
    case True
    then have "obj = RawObj (b\<lparr>raw_Labels := MergeMapsSilent (raw_Labels b) [(ManagedBy, ManagedByLabelValue)]\<rparr>)"
      using c(1) Cons.prems(3)
      by (auto simp: ConfigureUnstructuredObject_def Let_def map_sum_def split: if_splits sum.splits)
    then show ?thesis by (intro bexI [of _ b]) simp_all
  next
    case False
    then show ?thesis using Cons.IH [OF c(2)] Cons.prems c(3) by auto
  qed
qed auto

text \<open>
  The secret and the webhook configuration in the SKR: the certificate and the key of the Kyma, the bundle of the
  gateway both as the CA of the secret and of every webhook, and a webhook for every Watcher.
\<close>

definition webhook_installed :: "'w skr_manager \<Rightarrow> string \<Rightarrow> 'w \<Rightarrow> (string \<times> string \<Rightarrow> skr_object option) \<Rightarrow> bool" where
  "webhook_installed m kymaName w v \<longleftrightarrow>
     (\<exists>skr gateway watchers.
        GetSkrCertificateSecret (sm_certificates m) w kymaName = Inr skr
      \<and> secretRepo_Get (cs_secrets (sm_certificates m)) (cs_secretNamespace (sm_certificates m)) w
          (cs_GatewaySecretName (sm_certificates m)) = Inr gateway
      \<and> sm_listWatchers m w = Inr watchers
      \<and> sec_get skr TLSCertKey \<noteq> None \<and> sec_get skr TLSPrivateKeyKey \<noteq> None \<and> sec_get gateway CACrt \<noteq> None
      \<and> v (''Secret'', SkrTLSName) = Some (SecretObj (BuildSKRSecret (sec_get gateway CACrt) (sec_get skr TLSCertKey)
            (sec_get skr TLSPrivateKeyKey) (sm_remoteSyncNamespace m)))
      \<and> v (''ValidatingWebhookConfiguration'', SkrResourceName) =
          Some (WebhookConfigObj (BuildValidatingWebhookConfigFromWatchers (sec_get gateway CACrt) watchers
            (sm_remoteSyncNamespace m))))"

definition generated_keys :: "(string \<times> string) list" where
  "generated_keys = [(''Secret'', SkrTLSName), (''ValidatingWebhookConfiguration'', SkrResourceName)]"

lemma getSKRClientObjectsForInstall_Inr:
  assumes "getSKRClientObjectsForInstall m w kymaName = Inr objs"
  obtains rc resources skr gateway watchers where
    "configure_all rc (sm_BaseResources m) = Inr resources"
    "GetSkrCertificateSecret (sm_certificates m) w kymaName = Inr skr"
    "secretRepo_Get (cs_secrets (sm_certificates m)) (cs_secretNamespace (sm_certificates m)) w
          (cs_GatewaySecretName (sm_certificates m)) = Inr gateway"
    "sm_listWatchers m w = Inr watchers"
    "sec_get skr TLSCertKey \<noteq> None" "sec_get skr TLSPrivateKeyKey \<noteq> None" "sec_get gateway CACrt \<noteq> None"
    "objs = resources @
       [WebhookConfigObj (BuildValidatingWebhookConfigFromWatchers (sec_get gateway CACrt) watchers (sm_remoteSyncNamespace m)),
        SecretObj (BuildSKRSecret (sec_get gateway CACrt) (sec_get skr TLSCertKey) (sec_get skr TLSPrivateKeyKey)
          (sm_remoteSyncNamespace m))]"
proof -
  obtain resources watchers skrData gatewayData where
    r: "getRawManifestClientObjects m w kymaName = Inr resources" and wt: "getWatchers m w = Inr watchers"
    and cd: "getCertificateData m w kymaName = Inr (skrData, gatewayData)"
    and objs: "objs = resources @ getGeneratedClientObjects m skrData gatewayData watchers"
    using assms by (auto simp: getSKRClientObjectsForInstall_def split: sum.splits)
  obtain skr where skr: "GetSkrCertificateSecret (sm_certificates m) w kymaName = Inr skr"
    and rc: "configure_all ((sm_resourceConfigurator m)\<lparr>rc_secretResVer := sec_ResourceVersion skr\<rparr>) (sm_BaseResources m) = Inr resources"
    using r by (auto simp: getRawManifestClientObjects_def split: sum.splits)
  have d: "GetSkrCertificateSecretData (sm_certificates m) w kymaName = Inr skrData"
    "GetGatewayCertificateSecretData (sm_certificates m) w = Inr gatewayData"
    using cd by (auto simp: getCertificateData_def split: sum.splits)
  have s: "sec_get skr TLSCertKey \<noteq> None" "sec_get skr TLSPrivateKeyKey \<noteq> None"
    "skrData = \<lparr>csd_TlsCert = sec_get skr TLSCertKey, csd_TlsKey = sec_get skr TLSPrivateKeyKey\<rparr>"
    using d(1) skr by (auto simp: GetSkrCertificateSecretData_def NewCertificateSecretData_def split: if_splits)
  obtain gateway where g: "secretRepo_Get (cs_secrets (sm_certificates m)) (cs_secretNamespace (sm_certificates m)) w
          (cs_GatewaySecretName (sm_certificates m)) = Inr gateway"
    "sec_get gateway CACrt \<noteq> None" "gatewayData = \<lparr>gsd_CaCert = sec_get gateway CACrt\<rparr>"
    using d(2) by (auto simp: GetGatewayCertificateSecretData_def NewGatewaySecretData_def split: sum.splits if_splits)
  have "sm_listWatchers m w = Inr watchers" using wt by (auto simp: getWatchers_def split: sum.splits)
  with rc skr g(1) show thesis
    by (rule that) (use s g objs in \<open>simp_all add: getGeneratedClientObjects_def\<close>)
qed


section \<open>Removal\<close>

lemma remove_after_first:
  assumes "\<And>obj w. fst (sm_delete m True obj w) = w" and "rm_first s = Some e"
  shows "rm_world (fold (remove_step m resources) schedule s) = rm_world s
       \<and> rm_first (fold (remove_step m resources) schedule s) = Some e"
  using assms(2)
proof (induction schedule arbitrary: s)
  case (Cons st schedule)
  have "rm_world (remove_step m resources st s) = rm_world s" "rm_first (remove_step m resources st s) = Some e"
    using Cons.prems assms(1) by (cases st; simp add: remove_step_def split_beta)+
  then show ?case using Cons.IH [of "remove_step m resources st s"] by simp
qed simp

text \<open>
  \<open>Remove\<close> reports success although nothing was removed from the SKR: if the deletion that answers first finds
  its object missing, its error cancels the context of all other deletions, and \<open>Remove\<close> takes the error of the
  group, which is the first one, for an object that is gone already. Every object that was there is still there.
\<close>

theorem Remove_missing_object_hides_rest:
  assumes "sm_getContext m w (Kyma_NamespacedName k) = None"
    and "DeleteSkrCertificate (sm_certificates m) (om_Name (kyma_Meta k)) w = (w1, None)"
    and "sm_delete m False (SetNamespace (sm_remoteSyncNamespace m) (removed_resources m ! i)) w1 = (w1, Some e)"
    and "reasonForError e = Some ReasonNotFound"
    and "\<And>obj w. fst (sm_delete m True obj w) = w"
  shows "Remove m (Call i # Check i # schedule) k w = (sm_metric m CleanupMetrics (om_Name (kyma_Meta k)) w1, None)"
proof -
  let ?s = "\<lparr>rm_world = w1, rm_err = Some e, rm_first =
     Some (wrapErr (''failed to delete resource '' @ obj_name (removed_resources m ! i) @ '': '') e)\<rparr>"
  let ?f = "fold (remove_step m (removed_resources m)) schedule ?s"
  have "fold (remove_step m (removed_resources m)) (Call i # Check i # schedule) \<lparr>rm_world = w1, rm_err = None, rm_first = None\<rparr> = ?f"
    using assms(3) by (simp add: remove_step_def)
  moreover have "rm_world ?f = w1 \<and> rm_first ?f =
      Some (wrapErr (''failed to delete resource '' @ obj_name (removed_resources m ! i) @ '': '') e)"
    using remove_after_first [OF assms(5), of ?s] by simp
  moreover have "IsNotFound (Some (wrapErr a (wrapErr b e)))" for a b
    using assms(4) by (simp add: IsNotFound_def err_simps)
  ultimately show ?thesis using assms(1,2) by (simp add: Remove_def)
qed

lemma remove_calls:
  "rm_first s = None \<Longrightarrow> rm_first (fold (remove_step m resources) (map Call cs) s) = None"
proof (induction cs arbitrary: s)
  case (Cons i cs)
  have "rm_first (remove_step m resources (Call i) s) = None"
    using Cons.prems by (simp add: remove_step_def split: prod.splits)
  then show ?case using Cons.IH by simp
qed simp

lemma remove_checks:
  "rm_first s = None \<Longrightarrow> rm_err s = None \<Longrightarrow> rm_first (fold (remove_step m resources) (map Check ks) s) = None"
proof (induction ks arbitrary: s)
  case (Cons i ks)
  have "rm_first (remove_step m resources (Check i) s) = None" "rm_err (remove_step m resources (Check i) s) = None"
    using Cons.prems by (simp_all add: remove_step_def)
  then show ?case using Cons.IH by simp
qed simp

text \<open>
  C36. \<open>Remove\<close> can report success although deletions failed, for whatever reason: all its goroutines write their
  result to one variable. If every deletion has answered before the first goroutine looks at the variable, and the
  last one to answer was successful, then all goroutines read nil and the errors of the others are lost.
\<close>

theorem Remove_loses_errors:
  assumes "sm_getContext m w (Kyma_NamespacedName k) = None"
    and "snd (DeleteSkrCertificate (sm_certificates m) (om_Name (kyma_Meta k)) w) = None"
    and "\<And>w. snd (sm_delete m False (SetNamespace (sm_remoteSyncNamespace m) (removed_resources m ! j)) w) = None"
  shows "snd (Remove m (map Call (cs @ [j]) @ map Check ks) k w) = None"
proof -
  obtain w1 where d: "DeleteSkrCertificate (sm_certificates m) (om_Name (kyma_Meta k)) w = (w1, None)"
    using assms(2) by (metis prod.collapse)
  let ?s = "fold (remove_step m (removed_resources m)) (map Call cs) \<lparr>rm_world = w1, rm_err = None, rm_first = None\<rparr>"
  have f: "rm_first ?s = None" by (rule remove_calls) simp
  have c: "rm_first (remove_step m (removed_resources m) (Call j) ?s) = None"
    "rm_err (remove_step m (removed_resources m) (Call j) ?s) = None"
    using f assms(3) [of "rm_world ?s"] by (simp_all add: remove_step_def split_beta)
  have "rm_first (fold (remove_step m (removed_resources m)) (map Call (cs @ [j]) @ map Check ks)
      \<lparr>rm_world = w1, rm_err = None, rm_first = None\<rparr>) = None"
    using remove_checks [OF c] by simp
  then show ?thesis using assms(1) d by (simp add: Remove_def Let_def)
qed

section \<open>Examples\<close>

type_synonym ex_world = "string \<times> string \<Rightarrow> skr_object option"

definition ex_repo :: "'w cert_repo" where
  "ex_repo = \<lparr>cr_Create = (\<lambda>n c d w. (w, None)), cr_Delete = (\<lambda>n w. (w, None)), cr_Exists = (\<lambda>w n. Inr True),
     cr_Renew = (\<lambda>n w. (w, None)), cr_GetRenewalTime = (\<lambda>w n. Inr 0), cr_GetValidity = (\<lambda>w n. Inr (0, hour))\<rparr>"

definition ex_tls_secret :: Secret where
  "ex_tls_secret = \<lparr>sec_Name = ''tls'', sec_Namespace = ''istio-system'', sec_Labels = Map.empty,
     sec_Annotations = [CaAddedToBundleAtAnnotation \<mapsto> ''x''], sec_ResourceVersion = ''7'',
     sec_Data = Some [TLSCertKey \<mapsto> Some ''cert'', TLSPrivateKeyKey \<mapsto> Some ''key'', CACrt \<mapsto> Some ''ca'']\<rparr>"

definition ex_certificates :: "'w cert_service" where
  "ex_certificates = \<lparr>cs_certRepo = ex_repo,
     cs_secrets = \<lparr>sa_Get = (\<lambda>w n ns. Inr ex_tls_secret), sa_Create = (\<lambda>s w. (w, None)), sa_Update = (\<lambda>s w. (w, None)),
       sa_Delete = (\<lambda>n ns w. (w, None))\<rparr>,
     cs_secretNamespace = ''istio-system'', cs_time = ex_time, cs_SkrServiceName = ''skr-webhook'',
     cs_SkrNamespace = ''kyma-system'', cs_AdditionalDNSNames = [], cs_GatewaySecretName = GatewaySecretName,
     cs_RenewBuffer = second\<rparr>"

definition ex_raw :: "string \<Rightarrow> string \<Rightarrow> string \<Rightarrow> RawObject" where
  "ex_raw api kd n = \<lparr>raw_ApiVersion = api, raw_Kind = kd, raw_Name = n, raw_Namespace = [], raw_Labels = Map.empty, raw_Body = []\<rparr>"

definition ex_configurator :: ResourceConfigurator where
  "ex_configurator = \<lparr>rc_remoteNs = ''kyma-system'', rc_skrWatcherImage = ''watcher:1'', rc_secretResVer = [],
     rc_kcpAddress = \<lparr>kcp_Hostname = ''listener.kyma.cloud'', kcp_Port = 443\<rparr>, rc_cpuResLimit = ''100m'',
     rc_memResLimit = ''200Mi'', rc_skrImagePullSecret = [],
     rc_toDeployment = (\<lambda>b. Inr \<lparr>dep_Name = raw_Name b, dep_Namespace = raw_Namespace b, dep_Labels = raw_Labels b,
       dep_TemplateLabels = [(''app'', ''skr-webhook'')],
       dep_Containers = [\<lparr>co_Name = ''server'', co_Image = [], co_Env = [(kcpAddressEnvName, [])], co_Limits = []\<rparr>],
       dep_ImagePullSecrets = []\<rparr>),
     rc_toNetworkPolicy = (\<lambda>b. Inr \<lparr>np_Name = raw_Name b, np_Namespace = raw_Namespace b, np_Labels = raw_Labels b, np_Egress = []\<rparr>),
     rc_parseQuantity = Inr, rc_goDebug = None\<rparr>"

definition ex_manager :: "ex_world skr_manager" where
  "ex_manager = \<lparr>sm_certificates = ex_certificates, sm_now = 0, sm_getContext = (\<lambda>w k. None),
     sm_listWatchers = (\<lambda>w. Inr [ex_watcher StateReady None []]),
     sm_patch = (\<lambda>cancelled obj w. if cancelled then (w, Some ErrInvalidArgument) else (w(obj_key obj \<mapsto> obj), None)),
     sm_delete = (\<lambda>cancelled obj w. if cancelled then (w, Some ErrInvalidArgument)
        else if w (obj_key obj) = None then (w, Some notFoundErr) else (w(obj_key obj := None), None)),
     sm_metric = (\<lambda>op n w. w), sm_remoteSyncNamespace = ''kyma-system'',
     sm_BaseResources = [ex_raw ''apps/v1'' ''Deployment'' ''skr-webhook'', ex_raw ''v1'' ''Service'' ''skr-webhook''],
     sm_resourceConfigurator = ex_configurator\<rparr>"

definition ex_skr_kyma :: Kyma where
  "ex_skr_kyma = ex_bare_kyma\<lparr>kyma_Meta := (kyma_Meta ex_bare_kyma)\<lparr>om_Annotations := [SkrDomainAnnotation \<mapsto> ''skr.kyma.cloud'']\<rparr>\<rparr>"

lemma ex_manager_stores: "patch_stores ex_manager (\<lambda>w. w)"
  by (auto simp: patch_stores_def ex_manager_def split: if_splits)

lemma ex_order_ok: "goroutine_order (\<lambda>n. rev [0..<n])"
  by (auto simp: goroutine_order_def)

definition ex_installed :: "ex_world \<times> goerror option" where
  "ex_installed = webhook_Reconcile ex_manager (\<lambda>n. rev [0..<n]) ex_skr_kyma Map.empty"

lemma ex_installed_ok: "snd ex_installed = None"
  by code_simp


theorem webhook_names_distinct_witness:
  "distinct (map vw_Name (wh_Webhooks (BuildValidatingWebhookConfigFromWatchers None [ex_watcher StateReady None []] ''kyma-system'')))"
  by (rule webhook_names_distinct) (simp_all add: ex_watcher_def)

text \<open>The Deployment is gone, the Service is there and stays.\<close>

definition ex_partly_removed :: ex_world where
  "ex_partly_removed = [(''Service'', ''skr-webhook'') \<mapsto> RawObj (ex_raw ''v1'' ''Service'' ''skr-webhook'')]"

theorem Remove_missing_object_hides_rest_witness:
  "Remove ex_manager [Call 0, Check 0, Call 1, Check 1, Call 2, Check 2, Call 3, Check 3] ex_skr_kyma ex_partly_removed
     = (ex_partly_removed, None)"
proof -
  let ?m = "ex_manager"
  have "DeleteSkrCertificate (sm_certificates ?m) (om_Name (kyma_Meta ex_skr_kyma)) ex_partly_removed = (ex_partly_removed, None)"
    by (simp add: DeleteSkrCertificate_def ex_manager_def ex_certificates_def ex_repo_def secretRepo_Remove_def)
  moreover have "sm_delete ?m False (SetNamespace (sm_remoteSyncNamespace ?m) (removed_resources ?m ! 0)) ex_partly_removed =
      (ex_partly_removed, Some notFoundErr)"
    by (simp add: ex_manager_def removed_resources_def getBaseClientObjects_def ex_raw_def ex_partly_removed_def)
  ultimately show ?thesis
    using Remove_missing_object_hides_rest [of ?m ex_partly_removed ex_skr_kyma ex_partly_removed 0 notFoundErr
        "[Call 1, Check 1, Call 2, Check 2, Call 3, Check 3]"]
    by (simp add: ex_manager_def notFoundErr_def reasonForError_def)
qed

text \<open>A SKR in which only the secret can be deleted.\<close>

definition ex_flaky :: "ex_world skr_manager" where
  "ex_flaky = ex_manager\<lparr>sm_delete := (\<lambda>cancelled obj w.
     if obj_key obj = (''Secret'', SkrTLSName) then (w(obj_key obj := None), None) else (w, Some ErrInvalidArgument))\<rparr>"

definition ex_removal :: "ex_world \<times> goerror option" where
  "ex_removal = Remove ex_flaky (map Call ([0, 1, 2] @ [3]) @ map Check [0, 1, 2, 3]) ex_skr_kyma ex_partly_removed"

lemma ex_removal_incomplete: "\<not> Option.is_none (fst ex_removal (''Service'', ''skr-webhook''))"
  by code_simp

theorem Remove_loses_errors_witness:
  "snd ex_removal = None \<and> fst ex_removal (''Service'', ''skr-webhook'') \<noteq> None"
proof -
  have "snd (DeleteSkrCertificate (sm_certificates ex_flaky) (om_Name (kyma_Meta ex_skr_kyma)) ex_partly_removed) = None"
    by (simp add: DeleteSkrCertificate_def ex_flaky_def ex_manager_def ex_certificates_def ex_repo_def secretRepo_Remove_def)
  moreover have "snd (sm_delete ex_flaky False (SetNamespace (sm_remoteSyncNamespace ex_flaky) (removed_resources ex_flaky ! 3)) w) = None" for w
    by (simp add: ex_flaky_def ex_manager_def removed_resources_def getBaseClientObjects_def getGeneratedClientObjects_def BuildSKRSecret_def)
  moreover have "sm_getContext ex_flaky ex_partly_removed (Kyma_NamespacedName ex_skr_kyma) = None"
    by (simp add: ex_flaky_def ex_manager_def)
  ultimately have "snd ex_removal = None"
    unfolding ex_removal_def by (intro Remove_loses_errors)
  then show ?thesis using ex_removal_incomplete by (simp add: Option.is_none_def)
qed

end
