(* ===== verification/Regex.thy ===== *)
theory Regex
  imports Prelude
begin

text \<open>
  Splitting of strings at a separator (\<^verbatim>\<open>strings.Split\<close>, \<^verbatim>\<open>strings.SplitSeq\<close>) and the regular expressions of the sources
  (\<^verbatim>\<open>regexp.MatchString\<close> of an expression that is anchored at both ends), matched by derivatives. The separated lists of the
  flags are described in both ways, which are shown to agree.
\<close>

section \<open>Splitting\<close>

fun split_on :: "char \<Rightarrow> string \<Rightarrow> string list" where
  "split_on sep [] = [[]]"
| "split_on sep (c # cs) =
     (if c = sep then [] # split_on sep cs
      else (case split_on sep cs of [] \<Rightarrow> [[c]] | p # ps \<Rightarrow> (c # p) # ps))"

lemma split_on_not_Nil [simp]: "split_on sep s \<noteq> []"
  by (induction s) (auto split: list.splits)

lemma split_on_no_sep [simp]: "sep \<notin> set s \<Longrightarrow> split_on sep s = [s]"
  by (induction s) auto

lemma split_on_append: "sep \<notin> set p \<Longrightarrow> split_on sep (p @ sep # s) = p # split_on sep s"
  by (induction p) auto

lemma split_on_parts: "x \<in> set (split_on sep s) \<Longrightarrow> sep \<notin> set x"
proof (induction s arbitrary: x)
  case (Cons c s)
  show ?case
  proof (cases "split_on sep s")
    case (Cons p ps)
    then show ?thesis using Cons.IH Cons.prems by (auto split: if_splits)
  qed simp
qed simp

lemma joinWith_split_on: "joinWith [sep] (split_on sep s) = s"
proof (induction s)
  case (Cons c s)
  obtain x xs where "split_on sep s = x # xs" by (meson list.exhaust split_on_not_Nil)
  then show ?case using Cons by (cases xs) auto
qed simp

lemma split_on_joinWith:
  "xs \<noteq> [] \<Longrightarrow> \<forall>x \<in> set xs. sep \<notin> set x \<Longrightarrow> split_on sep (joinWith [sep] xs) = xs"
  by (induction "[sep]" xs rule: joinWith.induct) (auto simp: split_on_append)

section \<open>Regular expressions\<close>

datatype regex =
  RNone
| REps
| RClass "char \<Rightarrow> bool"
| RAlt regex regex
| RSeq regex regex
| RStar regex

abbreviation RChr :: "char \<Rightarrow> regex" where "RChr c \<equiv> RClass (\<lambda>x. x = c)"

text \<open>The operators \<open>r?\<close> and \<open>r{3,}\<close>.\<close>

definition ROpt :: "regex \<Rightarrow> regex" where "ROpt r = RAlt REps r"
definition RAtLeast3 :: "regex \<Rightarrow> regex" where "RAtLeast3 r = RSeq r (RSeq r (RSeq r (RStar r)))"

inductive_set star :: "string set \<Rightarrow> string set" for L where
  star_Nil: "[] \<in> star L"
| star_step: "u \<in> L \<Longrightarrow> v \<in> star L \<Longrightarrow> u @ v \<in> star L"

primrec lang :: "regex \<Rightarrow> string set" where
  "lang RNone = {}"
| "lang REps = {[]}"
| "lang (RClass P) = {[c] |c. P c}"
| "lang (RAlt r s) = lang r \<union> lang s"
| "lang (RSeq r s) = {u @ v |u v. u \<in> lang r \<and> v \<in> lang s}"
| "lang (RStar r) = star (lang r)"

primrec nullable :: "regex \<Rightarrow> bool" where
  "nullable RNone = False"
| "nullable REps = True"
| "nullable (RClass P) = False"
| "nullable (RAlt r s) = (nullable r \<or> nullable s)"
| "nullable (RSeq r s) = (nullable r \<and> nullable s)"
| "nullable (RStar r) = True"

primrec deriv :: "char \<Rightarrow> regex \<Rightarrow> regex" where
  "deriv c RNone = RNone"
| "deriv c REps = RNone"
| "deriv c (RClass P) = (if P c then REps else RNone)"
| "deriv c (RAlt r s) = RAlt (deriv c r) (deriv c s)"
| "deriv c (RSeq r s) = (if nullable r then RAlt (RSeq (deriv c r) s) (deriv c s) else RSeq (deriv c r) s)"
| "deriv c (RStar r) = RSeq (deriv c r) (RStar r)"

definition MatchString :: "regex \<Rightarrow> string \<Rightarrow> bool" where
  "MatchString r s = nullable (fold deriv s r)"

lemma nullable_lang: "nullable r \<longleftrightarrow> [] \<in> lang r"
  by (induction r) (auto intro: star_Nil)

lemma star_Cons:
  "c # w \<in> star L \<longleftrightarrow> (\<exists>u v. w = u @ v \<and> c # u \<in> L \<and> v \<in> star L)"
proof
  have "x = c # w \<Longrightarrow> \<exists>u v. w = u @ v \<and> c # u \<in> L \<and> v \<in> star L" if "x \<in> star L" for x
    using that
  proof (induction rule: star.induct)
    case (star_step u v)
    show ?case
    proof (cases u)
      case Nil
      then show ?thesis using star_step by simp
    next
      case (Cons d u')
      then show ?thesis using star_step by auto
    qed
  qed simp
  then show "c # w \<in> star L \<Longrightarrow> \<exists>u v. w = u @ v \<and> c # u \<in> L \<and> v \<in> star L" by blast
next
  assume "\<exists>u v. w = u @ v \<and> c # u \<in> L \<and> v \<in> star L"
  then obtain u v where "w = u @ v" "c # u \<in> L" "v \<in> star L" by blast
  then show "c # w \<in> star L" using star.star_step [of "c # u" L v] by simp
qed

lemma lang_deriv: "w \<in> lang (deriv c r) \<longleftrightarrow> c # w \<in> lang r"
proof (induction r arbitrary: w)
  case (RSeq r s)
  have "c # w \<in> lang (RSeq r s) \<longleftrightarrow>
      (\<exists>u v. w = u @ v \<and> c # u \<in> lang r \<and> v \<in> lang s) \<or> ([] \<in> lang r \<and> c # w \<in> lang s)"
    by (auto simp: Cons_eq_append_conv)
  then show ?case using RSeq by (auto simp: nullable_lang)
next
  case (RStar r)
  then show ?case by (auto simp: star_Cons)
qed auto

text \<open>Matching by derivatives decides membership in the language of an expression.\<close>

theorem MatchString_lang: "MatchString r s \<longleftrightarrow> s \<in> lang r"
proof -
  have "v \<in> lang (fold deriv s r) \<longleftrightarrow> s @ v \<in> lang r" for v
    by (induction s arbitrary: r) (simp_all add: lang_deriv)
  from this [of "[]"] show ?thesis by (simp add: MatchString_def nullable_lang)
qed

section \<open>Separated lists\<close>

text \<open>The expression for items that are separated by a character.\<close>

definition RSepBy :: "regex \<Rightarrow> char \<Rightarrow> regex" where
  "RSepBy r sep = RSeq r (RStar (RSeq (RChr sep) r))"

lemma lang_Seq_class [simp]:
  "c # w \<in> lang (RSeq (RClass P) r) \<longleftrightarrow> P c \<and> w \<in> lang r" "[] \<notin> lang (RSeq (RClass P) r)"
  by (auto intro: exI [of _ "[c]"])

lemma star_class: "star {[c] |c. P c} = {s. \<forall>c \<in> set s. P c}"
proof (intro set_eqI iffI)
  fix s assume "s \<in> star {[c] |c. P c}"
  then show "s \<in> {s. \<forall>c \<in> set s. P c}" by (induction rule: star.induct) auto
next
  fix s assume "s \<in> {s. \<forall>c \<in> set s. P c}"
  then show "s \<in> star {[c] |c. P c}"
  proof (induction s)
    case (Cons c s)
    then show ?case using star.star_step [of "[c]" "{[c] |c. P c}" s] by auto
  qed (simp add: star_Nil)
qed

lemma lang_AtLeast3_class: "lang (RAtLeast3 (RClass P)) = {s. 3 \<le> length s \<and> (\<forall>c \<in> set s. P c)}"
proof (intro set_eqI iffI)
  fix s assume "s \<in> lang (RAtLeast3 (RClass P))"
  then show "s \<in> {s. 3 \<le> length s \<and> (\<forall>c \<in> set s. P c)}" by (auto simp: RAtLeast3_def star_class)
next
  fix s assume s: "s \<in> {s. 3 \<le> length s \<and> (\<forall>c \<in> set s. P c)}"
  then obtain a b c t where "s = a # b # c # t"
    by (auto simp: numeral_3_eq_3 Suc_le_length_iff)
  then show "s \<in> lang (RAtLeast3 (RClass P))"
    using s by (simp del: lang.simps(5) add: RAtLeast3_def star_class)
qed

lemma lang_RSepBy:
  assumes "\<forall>x \<in> lang r. sep \<notin> set x"
  shows "s \<in> lang (RSepBy r sep) \<longleftrightarrow> (\<forall>x \<in> set (split_on sep s). x \<in> lang r)"
proof -
  let ?L = "lang (RSeq (RChr sep) r)"
  have tail: "v \<in> star ?L \<Longrightarrow> u \<in> lang r \<Longrightarrow> \<forall>x \<in> set (split_on sep (u @ v)). x \<in> lang r" for u v
  proof (induction arbitrary: u rule: star.induct)
    case (star_step w v)
    then obtain y where "w = sep # y" "y \<in> lang r" by auto
    then show ?case using star_step.IH [of y] star_step.prems assms by (simp add: split_on_append)
  qed (use assms in simp)
  have build: "xs \<noteq> [] \<Longrightarrow> \<forall>x \<in> set xs. x \<in> lang r \<Longrightarrow> \<exists>v \<in> star ?L. joinWith [sep] xs = hd xs @ v" for xs
  proof (induction xs)
    case (Cons x xs)
    show ?case
    proof (cases xs)
      case Nil
      then show ?thesis by (auto intro: star_Nil)
    next
      case (Cons y ys)
      then obtain v where v: "v \<in> star ?L" "joinWith [sep] xs = y @ v" using Cons.IH Cons.prems by auto
      have "sep # y \<in> ?L" using Cons.prems Cons by auto
      then have "(sep # y) @ v \<in> star ?L" using v(1) by (rule star.star_step)
      then show ?thesis using v(2) Cons by auto
    qed
  qed simp
  show ?thesis
  proof
    assume "s \<in> lang (RSepBy r sep)"
    then obtain u v where "s = u @ v" and "u \<in> lang r" and "v \<in> star ?L" unfolding RSepBy_def by simp blast
    then show "\<forall>x \<in> set (split_on sep s). x \<in> lang r" using tail by blast
  next
    assume a: "\<forall>x \<in> set (split_on sep s). x \<in> lang r"
    obtain v where v: "v \<in> star ?L" and s: "joinWith [sep] (split_on sep s) = hd (split_on sep s) @ v"
      using build [OF split_on_not_Nil a] by blast
    have "hd (split_on sep s) \<in> lang r" using a by simp
    then have "hd (split_on sep s) @ v \<in> lang (RSepBy r sep)" using v by (simp add: RSepBy_def) blast
    then show "s \<in> lang (RSepBy r sep)" using s by (simp only: joinWith_split_on)
  qed
qed

end
