(* ===== verification/Flags.thy ===== *)
theory Flags
  imports Util Regex Complex_Main
begin

text \<open>
  The command line flags (\<^verbatim>\<open>internal/pkg/flags/flags.go\<close>): their defaults, the table of flags that
  \<^verbatim>\<open>DefineFlagVar\<close> registers with the package \<^verbatim>\<open>flag\<close>, the values they end up with, and their validation. A
  floating-point number is a rational or not a number; the literals of the source stand for the nearest double. The names of
  the certificate APIs are constants of the client libraries and parameters.
\<close>

section \<open>Values\<close>

datatype float64 = Flt rat | NaN

text \<open>Comparisons with not-a-number are false.\<close>

fun flt_less :: "float64 \<Rightarrow> float64 \<Rightarrow> bool" where
  "flt_less (Flt x) (Flt y) = (x < y)"
| "flt_less _ _ = False"

record cert_apis =
  ca_certmanager :: string
  ca_gardener :: string

definition WarnLevel :: int where "WarnLevel = 0"

section \<open>Defaults\<close>

definition DefaultKymaRequeueSuccessInterval :: duration where "DefaultKymaRequeueSuccessInterval = 5 * minute"
definition DefaultKymaRequeueErrInterval :: duration where "DefaultKymaRequeueErrInterval = 2 * second"
definition DefaultKymaRequeueWarningInterval :: duration where "DefaultKymaRequeueWarningInterval = 30 * second"
definition DefaultKymaRequeueBusyInterval :: duration where "DefaultKymaRequeueBusyInterval = 5 * second"
definition DefaultManifestRequeueSuccessInterval :: duration where "DefaultManifestRequeueSuccessInterval = 5 * minute"
definition DefaultManifestRequeueErrInterval :: duration where "DefaultManifestRequeueErrInterval = 2 * second"
definition DefaultManifestRequeueWarningInterval :: duration where "DefaultManifestRequeueWarningInterval = 30 * second"
definition DefaultManifestRequeueBusyInterval :: duration where "DefaultManifestRequeueBusyInterval = 5 * second"
definition DefaultManifestRequeueJitterProbability :: float64 where "DefaultManifestRequeueJitterProbability = Flt (5764607523034235 / 288230376151711744)"
definition DefaultManifestRequeueJitterPercentage :: float64 where "DefaultManifestRequeueJitterPercentage = Flt (5764607523034235 / 288230376151711744)"
definition DefaultMandatoryModuleRequeueSuccessInterval :: duration where "DefaultMandatoryModuleRequeueSuccessInterval = 30 * second"
definition DefaultMandatoryModuleDeletionRequeueSuccessInterval :: duration where "DefaultMandatoryModuleDeletionRequeueSuccessInterval = 30 * second"
definition DefaultWatcherRequeueSuccessInterval :: duration where "DefaultWatcherRequeueSuccessInterval = 1 * minute"
definition DefaultModuleUpgradeRolloutMaxDelay :: duration where "DefaultModuleUpgradeRolloutMaxDelay = 5 * minute"
definition DefaultClientQPS :: int where "DefaultClientQPS = 1000"
definition DefaultClientBurst :: int where "DefaultClientBurst = 2000"
definition DefaultSkrClientQPS :: int where "DefaultSkrClientQPS = 50"
definition DefaultSkrClientBurst :: int where "DefaultSkrClientBurst = 100"
definition DefaultPprofServerTimeout :: duration where "DefaultPprofServerTimeout = 90 * second"
definition RateLimiterBurstDefault :: int where "RateLimiterBurstDefault = 2000"
definition RateLimiterFrequencyDefault :: int where "RateLimiterFrequencyDefault = 1000"
definition FailureBaseDelayDefault :: duration where "FailureBaseDelayDefault = 5 * second"
definition FailureMaxDelayDefault :: duration where "FailureMaxDelayDefault = 30 * second"
definition DefaultCacheSyncTimeout :: duration where "DefaultCacheSyncTimeout = 60 * minute"
definition DefaultLogLevel :: int where "DefaultLogLevel = WarnLevel"
definition DefaultMaxConcurrentManifestReconciles :: int where "DefaultMaxConcurrentManifestReconciles = 1"
definition DefaultMaxConcurrentKymaReconciles :: int where "DefaultMaxConcurrentKymaReconciles = 1"
definition DefaultMaxConcurrentWatcherReconciles :: int where "DefaultMaxConcurrentWatcherReconciles = 1"
definition DefaultMaxConcurrentMandatoryModuleReconciles :: int where "DefaultMaxConcurrentMandatoryModuleReconciles = 1"
definition DefaultMaxConcurrentMandatoryModuleDeletionReconciles :: int where "DefaultMaxConcurrentMandatoryModuleDeletionReconciles = 1"
definition DefaultIstioGatewayName :: string where "DefaultIstioGatewayName = ''klm-watcher''"
definition DefaultIstioGatewayNamespace :: string where "DefaultIstioGatewayNamespace = ''kcp-system''"
definition DefaultIstioNamespace :: string where "DefaultIstioNamespace = ''istio-system''"
definition DefaultSelfSignedCertIssuerNamespace :: string where "DefaultSelfSignedCertIssuerNamespace = ''istio-system''"
definition DefaultSelfSignedCertDuration :: duration where "DefaultSelfSignedCertDuration = 60 * 24 * hour"
definition DefaultSelfSignedCertRenewBefore :: duration where "DefaultSelfSignedCertRenewBefore = 30 * 24 * hour"
definition DefaultSelfSignedCertificateRenewBuffer :: duration where "DefaultSelfSignedCertificateRenewBuffer = 24 * hour"
definition DefaultSelfSignedCertKeySize :: int where "DefaultSelfSignedCertKeySize = 4096"
definition DefaultSelfSignedCertificateIssuerName :: string where "DefaultSelfSignedCertificateIssuerName = ''klm-watcher-selfsigned''"
definition DefaultIstioGatewayServerCertSwitchGracePeriod :: duration where "DefaultIstioGatewayServerCertSwitchGracePeriod = 4 * 24 * hour"
definition DefaultIstioGatewayServerCertExpiryWindow :: duration where "DefaultIstioGatewayServerCertExpiryWindow = 14 * 24 * hour"
definition DefaultIstioGatewaySecretRequeueSuccessInterval :: duration where "DefaultIstioGatewaySecretRequeueSuccessInterval = 5 * minute"
definition DefaultIstioGatewaySecretRequeueErrInterval :: duration where "DefaultIstioGatewaySecretRequeueErrInterval = 2 * second"
definition DefaultRemoteSyncNamespace :: string where "DefaultRemoteSyncNamespace = DefaultRemoteNamespace"
definition DefaultMetricsAddress :: string where "DefaultMetricsAddress = '':8080''"
definition DefaultProbeAddress :: string where "DefaultProbeAddress = '':8081''"
definition DefaultKymaListenerAddress :: string where "DefaultKymaListenerAddress = '':8082''"
definition DefaultPprofAddress :: string where "DefaultPprofAddress = '':8084''"
definition DefaultWatcherImageName :: string where "DefaultWatcherImageName = ''runtime-watcher''"
definition DefaultWatcherImageRegistry :: string where "DefaultWatcherImageRegistry = ''europe-docker.pkg.dev/kyma-project/prod''"
definition DefaultWatcherResourceLimitsCPU :: string where "DefaultWatcherResourceLimitsCPU = ''0.1''"
definition DefaultWatcherResourceLimitsMemory :: string where "DefaultWatcherResourceLimitsMemory = ''200Mi''"
definition DefaultDropCrdStoredVersionMap :: string where "DefaultDropCrdStoredVersionMap = ''Manifest:v1beta1,Watcher:v1beta1,ModuleTemplate:v1beta1,Kyma:v1beta1''"
definition DefaultMetricsCleanupIntervalInMinutes :: int where "DefaultMetricsCleanupIntervalInMinutes = 15"
definition DefaultMinMaintenanceWindowSize :: duration where "DefaultMinMaintenanceWindowSize = 20 * minute"
definition DefaultLeaderElectionLeaseDuration :: duration where "DefaultLeaderElectionLeaseDuration = 180 * second"
definition DefaultLeaderElectionRenewDeadline :: duration where "DefaultLeaderElectionRenewDeadline = 120 * second"
definition DefaultLeaderElectionRetryPeriod :: duration where "DefaultLeaderElectionRetryPeriod = 3 * second"

section \<open>The flags\<close>

record FlagVar =
  fl_restrictedDefaultModules :: "string list option"
  fl_CertificateManagement :: string
  fl_MetricsAddr :: string
  fl_EnableLeaderElection :: bool
  fl_LeaderElectionLeaseDuration :: duration
  fl_LeaderElectionRenewDeadline :: duration
  fl_LeaderElectionRetryPeriod :: duration
  fl_EnableWebhooks :: bool
  fl_ProbeAddr :: string
  fl_KymaListenerAddr :: string
  fl_MaxConcurrentKymaReconciles :: int
  fl_MaxConcurrentManifestReconciles :: int
  fl_MaxConcurrentWatcherReconciles :: int
  fl_MaxConcurrentMandatoryModuleReconciles :: int
  fl_MaxConcurrentMandatoryModuleDeletionReconciles :: int
  fl_KymaRequeueSuccessInterval :: duration
  fl_KymaRequeueErrInterval :: duration
  fl_KymaRequeueBusyInterval :: duration
  fl_KymaRequeueWarningInterval :: duration
  fl_ModuleUpgradeRolloutMaxDelay :: duration
  fl_ManifestRequeueSuccessInterval :: duration
  fl_ManifestRequeueErrInterval :: duration
  fl_ManifestRequeueBusyInterval :: duration
  fl_ManifestRequeueWarningInterval :: duration
  fl_WatcherRequeueSuccessInterval :: duration
  fl_MandatoryModuleRequeueSuccessInterval :: duration
  fl_MandatoryModuleDeletionRequeueSuccessInterval :: duration
  fl_ClientQPS :: int
  fl_ClientBurst :: int
  fl_SkrClientQPS :: int
  fl_SkrClientBurst :: int
  fl_IstioNamespace :: string
  fl_IstioGatewayName :: string
  fl_IstioGatewayNamespace :: string
  fl_AdditionalDNSNames :: string
  fl_ListenerPortOverwrite :: string
  fl_Pprof :: bool
  fl_PprofAddr :: string
  fl_PprofServerTimeout :: duration
  fl_FailureBaseDelay :: duration
  fl_FailureMaxDelay :: duration
  fl_RateLimiterBurst :: int
  fl_RateLimiterFrequency :: int
  fl_CacheSyncTimeout :: duration
  fl_LogLevel :: int
  fl_RemoteSyncNamespace :: string
  fl_SelfSignedCertDuration :: duration
  fl_SelfSignedCertRenewBefore :: duration
  fl_SelfSignedCertRenewBuffer :: duration
  fl_SelfSignedCertKeySize :: int
  fl_SelfSignedCertIssuerNamespace :: string
  fl_SelfSignedCertificateIssuerName :: string
  fl_UseLegacyStrategyForIstioGatewaySecret :: bool
  fl_DropCrdStoredVersionMap :: string
  fl_WatcherImageTag :: string
  fl_WatcherImageName :: string
  fl_WatcherImageRegistry :: string
  fl_WatcherResourceLimitsMemory :: string
  fl_WatcherResourceLimitsCPU :: string
  fl_MetricsCleanupIntervalInMinutes :: int
  fl_ManifestRequeueJitterProbability :: float64
  fl_ManifestRequeueJitterPercentage :: float64
  fl_IstioGatewayCertSwitchBeforeExpirationTime :: duration
  fl_IstioGatewayServerCertSwitchGracePeriod :: duration
  fl_IstioGatewayServerCertExpiryWindow :: duration
  fl_IstioGatewaySecretRequeueSuccessInterval :: duration
  fl_IstioGatewaySecretRequeueErrInterval :: duration
  fl_MinMaintenanceWindowSize :: duration
  fl_OciRegistryCredSecretName :: string
  fl_OciRegistryHost :: string
  fl_ModulesRepositorySubPath :: string
  fl_SkrImagePullSecret :: string
  fl_RestrictedDefaultModules :: string

text \<open>\<^verbatim>\<open>new(FlagVar)\<close>.\<close>

definition new_FlagVar :: FlagVar where
  "new_FlagVar = \<lparr>fl_restrictedDefaultModules = None,
     fl_CertificateManagement = [],
     fl_MetricsAddr = [],
     fl_EnableLeaderElection = False,
     fl_LeaderElectionLeaseDuration = 0,
     fl_LeaderElectionRenewDeadline = 0,
     fl_LeaderElectionRetryPeriod = 0,
     fl_EnableWebhooks = False,
     fl_ProbeAddr = [],
     fl_KymaListenerAddr = [],
     fl_MaxConcurrentKymaReconciles = 0,
     fl_MaxConcurrentManifestReconciles = 0,
     fl_MaxConcurrentWatcherReconciles = 0,
     fl_MaxConcurrentMandatoryModuleReconciles = 0,
     fl_MaxConcurrentMandatoryModuleDeletionReconciles = 0,
     fl_KymaRequeueSuccessInterval = 0,
     fl_KymaRequeueErrInterval = 0,
     fl_KymaRequeueBusyInterval = 0,
     fl_KymaRequeueWarningInterval = 0,
     fl_ModuleUpgradeRolloutMaxDelay = 0,
     fl_ManifestRequeueSuccessInterval = 0,
     fl_ManifestRequeueErrInterval = 0,
     fl_ManifestRequeueBusyInterval = 0,
     fl_ManifestRequeueWarningInterval = 0,
     fl_WatcherRequeueSuccessInterval = 0,
     fl_MandatoryModuleRequeueSuccessInterval = 0,
     fl_MandatoryModuleDeletionRequeueSuccessInterval = 0,
     fl_ClientQPS = 0,
     fl_ClientBurst = 0,
     fl_SkrClientQPS = 0,
     fl_SkrClientBurst = 0,
     fl_IstioNamespace = [],
     fl_IstioGatewayName = [],
     fl_IstioGatewayNamespace = [],
     fl_AdditionalDNSNames = [],
     fl_ListenerPortOverwrite = [],
     fl_Pprof = False,
     fl_PprofAddr = [],
     fl_PprofServerTimeout = 0,
     fl_FailureBaseDelay = 0,
     fl_FailureMaxDelay = 0,
     fl_RateLimiterBurst = 0,
     fl_RateLimiterFrequency = 0,
     fl_CacheSyncTimeout = 0,
     fl_LogLevel = 0,
     fl_RemoteSyncNamespace = [],
     fl_SelfSignedCertDuration = 0,
     fl_SelfSignedCertRenewBefore = 0,
     fl_SelfSignedCertRenewBuffer = 0,
     fl_SelfSignedCertKeySize = 0,
     fl_SelfSignedCertIssuerNamespace = [],
     fl_SelfSignedCertificateIssuerName = [],
     fl_UseLegacyStrategyForIstioGatewaySecret = False,
     fl_DropCrdStoredVersionMap = [],
     fl_WatcherImageTag = [],
     fl_WatcherImageName = [],
     fl_WatcherImageRegistry = [],
     fl_WatcherResourceLimitsMemory = [],
     fl_WatcherResourceLimitsCPU = [],
     fl_MetricsCleanupIntervalInMinutes = 0,
     fl_ManifestRequeueJitterProbability = Flt 0,
     fl_ManifestRequeueJitterPercentage = Flt 0,
     fl_IstioGatewayCertSwitchBeforeExpirationTime = 0,
     fl_IstioGatewayServerCertSwitchGracePeriod = 0,
     fl_IstioGatewayServerCertExpiryWindow = 0,
     fl_IstioGatewaySecretRequeueSuccessInterval = 0,
     fl_IstioGatewaySecretRequeueErrInterval = 0,
     fl_MinMaintenanceWindowSize = 0,
     fl_OciRegistryCredSecretName = [],
     fl_OciRegistryHost = [],
     fl_ModulesRepositorySubPath = [],
     fl_SkrImagePullSecret = [],
     fl_RestrictedDefaultModules = []\<rparr>"

text \<open>A registered flag: how a value is stored in the variables, and the default.\<close>

datatype flag_var =
  StringVar "string \<Rightarrow> FlagVar \<Rightarrow> FlagVar" string
| BoolVar "bool \<Rightarrow> FlagVar \<Rightarrow> FlagVar" bool
| IntVar "int \<Rightarrow> FlagVar \<Rightarrow> FlagVar" int
| DurationVar "duration \<Rightarrow> FlagVar \<Rightarrow> FlagVar" duration
| Float64Var "float64 \<Rightarrow> FlagVar \<Rightarrow> FlagVar" float64

type_synonym flag_set = "(string \<times> flag_var) list"

text \<open>Addresses, concurrency, leader election and requeue intervals.\<close>

definition controller_flags :: "cert_apis \<Rightarrow> flag_set" where
  "controller_flags ca =
     [(''cert-management'', StringVar (\<lambda>v. fl_CertificateManagement_update (\<lambda>_. v)) (ca_certmanager ca)),
      (''metrics-bind-address'', StringVar (\<lambda>v. fl_MetricsAddr_update (\<lambda>_. v)) DefaultMetricsAddress),
      (''health-probe-bind-address'', StringVar (\<lambda>v. fl_ProbeAddr_update (\<lambda>_. v)) DefaultProbeAddress),
      (''kyma-skr-listener-bind-address'', StringVar (\<lambda>v. fl_KymaListenerAddr_update (\<lambda>_. v)) DefaultKymaListenerAddress),
      (''pprof-bind-address'', StringVar (\<lambda>v. fl_PprofAddr_update (\<lambda>_. v)) DefaultPprofAddress),
      (''max-concurrent-kyma-reconciles'', IntVar (\<lambda>v. fl_MaxConcurrentKymaReconciles_update (\<lambda>_. v)) DefaultMaxConcurrentKymaReconciles),
      (''max-concurrent-manifest-reconciles'', IntVar (\<lambda>v. fl_MaxConcurrentManifestReconciles_update (\<lambda>_. v)) DefaultMaxConcurrentManifestReconciles),
      (''max-concurrent-watcher-reconciles'', IntVar (\<lambda>v. fl_MaxConcurrentWatcherReconciles_update (\<lambda>_. v)) DefaultMaxConcurrentWatcherReconciles),
      (''max-concurrent-mandatory-modules-reconciles'', IntVar (\<lambda>v. fl_MaxConcurrentMandatoryModuleReconciles_update (\<lambda>_. v)) DefaultMaxConcurrentMandatoryModuleReconciles),
      (''max-concurrent-mandatory-modules-deletion-reconciles'', IntVar (\<lambda>v. fl_MaxConcurrentMandatoryModuleDeletionReconciles_update (\<lambda>_. v)) DefaultMaxConcurrentMandatoryModuleDeletionReconciles),
      (''leader-elect'', BoolVar (\<lambda>v. fl_EnableLeaderElection_update (\<lambda>_. v)) True),
      (''leader-election-lease-duration'', DurationVar (\<lambda>v. fl_LeaderElectionLeaseDuration_update (\<lambda>_. v)) DefaultLeaderElectionLeaseDuration),
      (''leader-election-renew-deadline'', DurationVar (\<lambda>v. fl_LeaderElectionRenewDeadline_update (\<lambda>_. v)) DefaultLeaderElectionRenewDeadline),
      (''leader-election-retry-period'', DurationVar (\<lambda>v. fl_LeaderElectionRetryPeriod_update (\<lambda>_. v)) DefaultLeaderElectionRetryPeriod),
      (''kyma-requeue-success-interval'', DurationVar (\<lambda>v. fl_KymaRequeueSuccessInterval_update (\<lambda>_. v)) DefaultKymaRequeueSuccessInterval),
      (''kyma-requeue-error-interval'', DurationVar (\<lambda>v. fl_KymaRequeueErrInterval_update (\<lambda>_. v)) DefaultKymaRequeueErrInterval),
      (''kyma-requeue-warning-interval'', DurationVar (\<lambda>v. fl_KymaRequeueWarningInterval_update (\<lambda>_. v)) DefaultKymaRequeueWarningInterval),
      (''kyma-requeue-busy-interval'', DurationVar (\<lambda>v. fl_KymaRequeueBusyInterval_update (\<lambda>_. v)) DefaultKymaRequeueBusyInterval),
      (''module-upgrade-rollout-max-delay'', DurationVar (\<lambda>v. fl_ModuleUpgradeRolloutMaxDelay_update (\<lambda>_. v)) DefaultModuleUpgradeRolloutMaxDelay),
      (''mandatory-module-requeue-success-interval'', DurationVar (\<lambda>v. fl_MandatoryModuleRequeueSuccessInterval_update (\<lambda>_. v)) DefaultMandatoryModuleRequeueSuccessInterval),
      (''manifest-requeue-success-interval'', DurationVar (\<lambda>v. fl_ManifestRequeueSuccessInterval_update (\<lambda>_. v)) DefaultManifestRequeueSuccessInterval),
      (''manifest-requeue-error-interval'', DurationVar (\<lambda>v. fl_ManifestRequeueErrInterval_update (\<lambda>_. v)) DefaultManifestRequeueErrInterval),
      (''manifest-requeue-warning-interval'', DurationVar (\<lambda>v. fl_ManifestRequeueWarningInterval_update (\<lambda>_. v)) DefaultManifestRequeueWarningInterval),
      (''manifest-requeue-busy-interval'', DurationVar (\<lambda>v. fl_ManifestRequeueBusyInterval_update (\<lambda>_. v)) DefaultManifestRequeueBusyInterval),
      (''manifest-requeue-jitter-probability'', Float64Var (\<lambda>v. fl_ManifestRequeueJitterProbability_update (\<lambda>_. v)) DefaultManifestRequeueJitterProbability),
      (''manifest-requeue-jitter-percentage'', Float64Var (\<lambda>v. fl_ManifestRequeueJitterPercentage_update (\<lambda>_. v)) DefaultManifestRequeueJitterPercentage),
      (''mandatory-module-deletion-requeue-success-interval'', DurationVar (\<lambda>v. fl_MandatoryModuleDeletionRequeueSuccessInterval_update (\<lambda>_. v)) DefaultMandatoryModuleDeletionRequeueSuccessInterval),
      (''watcher-requeue-success-interval'', DurationVar (\<lambda>v. fl_WatcherRequeueSuccessInterval_update (\<lambda>_. v)) DefaultWatcherRequeueSuccessInterval)]"

text \<open>Clients, the gateway, profiling and rate limits.\<close>

definition client_flags :: "flag_set" where
  "client_flags =
     [(''k8s-client-qps'', IntVar (\<lambda>v. fl_ClientQPS_update (\<lambda>_. v)) DefaultClientQPS),
      (''k8s-client-burst'', IntVar (\<lambda>v. fl_ClientBurst_update (\<lambda>_. v)) DefaultClientBurst),
      (''k8s-skr-client-qps'', IntVar (\<lambda>v. fl_SkrClientQPS_update (\<lambda>_. v)) DefaultSkrClientQPS),
      (''k8s-skr-client-burst'', IntVar (\<lambda>v. fl_SkrClientBurst_update (\<lambda>_. v)) DefaultSkrClientBurst),
      (''enable-webhooks'', BoolVar (\<lambda>v. fl_EnableWebhooks_update (\<lambda>_. v)) False),
      (''additional-dns-names'', StringVar (\<lambda>v. fl_AdditionalDNSNames_update (\<lambda>_. v)) []),
      (''istio-namespace'', StringVar (\<lambda>v. fl_IstioNamespace_update (\<lambda>_. v)) DefaultIstioNamespace),
      (''istio-gateway-name'', StringVar (\<lambda>v. fl_IstioGatewayName_update (\<lambda>_. v)) DefaultIstioGatewayName),
      (''istio-gateway-namespace'', StringVar (\<lambda>v. fl_IstioGatewayNamespace_update (\<lambda>_. v)) DefaultIstioGatewayNamespace),
      (''listener-port-overwrite'', StringVar (\<lambda>v. fl_ListenerPortOverwrite_update (\<lambda>_. v)) []),
      (''pprof'', BoolVar (\<lambda>v. fl_Pprof_update (\<lambda>_. v)) False),
      (''pprof-server-timeout'', DurationVar (\<lambda>v. fl_PprofServerTimeout_update (\<lambda>_. v)) DefaultPprofServerTimeout),
      (''rate-limiter-burst'', IntVar (\<lambda>v. fl_RateLimiterBurst_update (\<lambda>_. v)) RateLimiterBurstDefault),
      (''rate-limiter-frequency'', IntVar (\<lambda>v. fl_RateLimiterFrequency_update (\<lambda>_. v)) RateLimiterFrequencyDefault),
      (''failure-base-delay'', DurationVar (\<lambda>v. fl_FailureBaseDelay_update (\<lambda>_. v)) FailureBaseDelayDefault),
      (''failure-max-delay'', DurationVar (\<lambda>v. fl_FailureMaxDelay_update (\<lambda>_. v)) FailureMaxDelayDefault),
      (''cache-sync-timeout'', DurationVar (\<lambda>v. fl_CacheSyncTimeout_update (\<lambda>_. v)) DefaultCacheSyncTimeout),
      (''log-level'', IntVar (\<lambda>v. fl_LogLevel_update (\<lambda>_. v)) DefaultLogLevel),
      (''sync-namespace'', StringVar (\<lambda>v. fl_RemoteSyncNamespace_update (\<lambda>_. v)) DefaultRemoteSyncNamespace)]"

text \<open>Certificates of the watch mechanism.\<close>

definition certificate_flags :: "flag_set" where
  "certificate_flags =
     [(''self-signed-cert-duration'', DurationVar (\<lambda>v. fl_SelfSignedCertDuration_update (\<lambda>_. v)) DefaultSelfSignedCertDuration),
      (''self-signed-cert-renew-before'', DurationVar (\<lambda>v. fl_SelfSignedCertRenewBefore_update (\<lambda>_. v)) DefaultSelfSignedCertRenewBefore),
      (''self-signed-cert-renew-buffer'', DurationVar (\<lambda>v. fl_SelfSignedCertRenewBuffer_update (\<lambda>_. v)) DefaultSelfSignedCertificateRenewBuffer),
      (''self-signed-cert-key-size'', IntVar (\<lambda>v. fl_SelfSignedCertKeySize_update (\<lambda>_. v)) DefaultSelfSignedCertKeySize),
      (''self-signed-cert-issuer-name'', StringVar (\<lambda>v. fl_SelfSignedCertificateIssuerName_update (\<lambda>_. v)) DefaultSelfSignedCertificateIssuerName),
      (''istio-gateway-cert-switch-before-expiration-time'', DurationVar (\<lambda>v. fl_IstioGatewayCertSwitchBeforeExpirationTime_update (\<lambda>_. v)) 0),
      (''istio-gateway-server-cert-switch-grace-period'', DurationVar (\<lambda>v. fl_IstioGatewayServerCertSwitchGracePeriod_update (\<lambda>_. v)) DefaultIstioGatewayServerCertSwitchGracePeriod),
      (''istio-gateway-server-cert-expiry-window'', DurationVar (\<lambda>v. fl_IstioGatewayServerCertExpiryWindow_update (\<lambda>_. v)) DefaultIstioGatewayServerCertExpiryWindow),
      (''self-signed-cert-issuer-namespace'', StringVar (\<lambda>v. fl_SelfSignedCertIssuerNamespace_update (\<lambda>_. v)) DefaultSelfSignedCertIssuerNamespace),
      (''istio-gateway-secret-requeue-success-interval'', DurationVar (\<lambda>v. fl_IstioGatewaySecretRequeueSuccessInterval_update (\<lambda>_. v)) DefaultIstioGatewaySecretRequeueSuccessInterval),
      (''istio-gateway-secret-requeue-error-interval'', DurationVar (\<lambda>v. fl_IstioGatewaySecretRequeueErrInterval_update (\<lambda>_. v)) DefaultIstioGatewaySecretRequeueErrInterval)]"

text \<open>The watcher image, metrics, maintenance windows and the registry.\<close>

definition module_flags :: "flag_set" where
  "module_flags =
     [(''drop-crd-stored-version-map'', StringVar (\<lambda>v. fl_DropCrdStoredVersionMap_update (\<lambda>_. v)) DefaultDropCrdStoredVersionMap),
      (''skr-watcher-image-name'', StringVar (\<lambda>v. fl_WatcherImageName_update (\<lambda>_. v)) DefaultWatcherImageName),
      (''skr-watcher-image-tag'', StringVar (\<lambda>v. fl_WatcherImageTag_update (\<lambda>_. v)) []),
      (''skr-watcher-image-registry'', StringVar (\<lambda>v. fl_WatcherImageRegistry_update (\<lambda>_. v)) DefaultWatcherImageRegistry),
      (''skr-webhook-memory-limits'', StringVar (\<lambda>v. fl_WatcherResourceLimitsMemory_update (\<lambda>_. v)) DefaultWatcherResourceLimitsMemory),
      (''skr-webhook-cpu-limits'', StringVar (\<lambda>v. fl_WatcherResourceLimitsCPU_update (\<lambda>_. v)) DefaultWatcherResourceLimitsCPU),
      (''metrics-cleanup-interval'', IntVar (\<lambda>v. fl_MetricsCleanupIntervalInMinutes_update (\<lambda>_. v)) DefaultMetricsCleanupIntervalInMinutes),
      (''min-maintenance-window-size'', DurationVar (\<lambda>v. fl_MinMaintenanceWindowSize_update (\<lambda>_. v)) DefaultMinMaintenanceWindowSize),
      (''oci-registry-cred-secret'', StringVar (\<lambda>v. fl_OciRegistryCredSecretName_update (\<lambda>_. v)) []),
      (''oci-registry-host'', StringVar (\<lambda>v. fl_OciRegistryHost_update (\<lambda>_. v)) []),
      (''modules-repository-subpath'', StringVar (\<lambda>v. fl_ModulesRepositorySubPath_update (\<lambda>_. v)) []),
      (''skr-image-pull-secret'', StringVar (\<lambda>v. fl_SkrImagePullSecret_update (\<lambda>_. v)) []),
      (''restricted-default-modules'', StringVar (\<lambda>v. fl_RestrictedDefaultModules_update (\<lambda>_. v)) [])]"

text \<open>\<^verbatim>\<open>flag.Var\<close>: a flag is registered once, and its default is stored at once.\<close>

definition flag_redefined :: "string \<Rightarrow> goerror" where
  "flag_redefined name = Sentinel ''panic'' (''flag redefined: '' @ name)"

fun store_default :: "flag_var \<Rightarrow> FlagVar \<Rightarrow> FlagVar" where
  "store_default (StringVar put d) f = put d f"
| "store_default (BoolVar put d) f = put d f"
| "store_default (IntVar put d) f = put d f"
| "store_default (DurationVar put d) f = put d f"
| "store_default (Float64Var put d) f = put d f"

fun define_flags :: "flag_set \<Rightarrow> flag_set \<Rightarrow> FlagVar \<Rightarrow> goerror + flag_set \<times> FlagVar" where
  "define_flags [] defined f = Inr (defined, f)"
| "define_flags ((name, v) # rest) defined f =
     (if name \<in> fst ` set defined then Inl (flag_redefined name)
      else define_flags rest (defined @ [(name, v)]) (store_default v f))"

definition all_flags :: "cert_apis \<Rightarrow> flag_set" where
  "all_flags ca = controller_flags ca @ client_flags @ certificate_flags @ module_flags"

definition DefineFlagVar :: "cert_apis \<Rightarrow> goerror + flag_set \<times> FlagVar" where
  "DefineFlagVar ca = define_flags (all_flags ca) [] new_FlagVar"

text \<open>\<^verbatim>\<open>flag.Parse\<close>: the values on the command line are stored in their order; an unknown flag and a value of another kind
  end the process.\<close>

datatype flag_value = StringV string | BoolV bool | IntV int | DurationV duration | Float64V float64

definition flag_undefined :: "string \<Rightarrow> goerror" where
  "flag_undefined name = Sentinel ''flag'' (''flag provided but not defined: -'' @ name)"
definition flag_invalid :: "string \<Rightarrow> goerror" where
  "flag_invalid name = Sentinel ''flag'' (''invalid value for flag -'' @ name)"

fun set_flag :: "flag_var \<Rightarrow> flag_value \<Rightarrow> FlagVar \<Rightarrow> FlagVar option" where
  "set_flag (StringVar put d) (StringV v) f = Some (put v f)"
| "set_flag (BoolVar put d) (BoolV v) f = Some (put v f)"
| "set_flag (IntVar put d) (IntV v) f = Some (put v f)"
| "set_flag (DurationVar put d) (DurationV v) f = Some (put v f)"
| "set_flag (Float64Var put d) (Float64V v) f = Some (put v f)"
| "set_flag _ _ f = None"

fun flag_Parse :: "flag_set \<Rightarrow> (string \<times> flag_value) list \<Rightarrow> FlagVar \<Rightarrow> goerror + FlagVar" where
  "flag_Parse defined [] f = Inr f"
| "flag_Parse defined ((name, v) # args) f =
     (case map_of defined name of
        None \<Rightarrow> Inl (flag_undefined name)
      | Some var \<Rightarrow>
          (case set_flag var v f of None \<Rightarrow> Inl (flag_invalid name) | Some f' \<Rightarrow> flag_Parse defined args f'))"

section \<open>Validation\<close>

definition ErrInvalidRestrictedDefaultModules :: goerror where
  "ErrInvalidRestrictedDefaultModules = Sentinel ''ErrInvalidRestrictedDefaultModules''
     (''invalid restricted-default-modules: must be a comma-separated list of module names '' @ ''matching ''
      @ [CHR 0x27] @ ''^[a-z]{3,}(-[a-z]{3,})*$'' @ [CHR 0x27])"
definition ErrMissingWatcherImageTag :: goerror where
  "ErrMissingWatcherImageTag = Sentinel ''ErrMissingWatcherImageTag'' ''runtime watcher image tag is not provided''"
definition ErrMissingWatcherImageRegistry :: goerror where
  "ErrMissingWatcherImageRegistry = Sentinel ''ErrMissingWatcherImageRegistry'' ''runtime watcher image registry is not provided''"
definition ErrLeaderElectionTimeoutConfig :: goerror where
  "ErrLeaderElectionTimeoutConfig = Sentinel ''ErrLeaderElectionTimeoutConfig''
     ''configured leader-election-renew-deadline must be less than leader-election-lease-duration''"
definition ErrInvalidSelfSignedCertKeyLength :: goerror where
  "ErrInvalidSelfSignedCertKeyLength =
     Sentinel ''ErrInvalidSelfSignedCertKeyLength'' ''invalid self-signed-cert-key-size: must be 4096''"
definition ErrInvalidManifestRequeueJitterPercentage :: goerror where
  "ErrInvalidManifestRequeueJitterPercentage = Sentinel ''ErrInvalidManifestRequeueJitterPercentage''
     ''invalid manifest requeue jitter percentage: must be between 0 and 0.05''"
definition ErrInvalidManifestRequeueJitterProbability :: goerror where
  "ErrInvalidManifestRequeueJitterProbability = Sentinel ''ErrInvalidManifestRequeueJitterProbability''
     ''invalid manifest requeue jitter probability: must be between 0 and 1''"
definition ErrUnsupportedCertificateManagementSystem :: goerror where
  "ErrUnsupportedCertificateManagementSystem =
     Sentinel ''ErrUnsupportedCertificateManagementSystem'' ''unsupported certificate management system''"
definition ErrNoOCIRegistryHostAndCredSecret :: goerror where
  "ErrNoOCIRegistryHostAndCredSecret = Sentinel ''ErrNoOCIRegistryHostAndCredSecret''
     ''the flags --oci-registry-host and --oci-registry-cred-secret cannot be both empty''"
definition ErrBothOCIRegistryHostAndCredSecretProvided :: goerror where
  "ErrBothOCIRegistryHostAndCredSecretProvided = Sentinel ''ErrBothOCIRegistryHostAndCredSecretProvided''
     ''only one of --oci-registry-host or --oci-registry-cred-secret should be provided''"

text \<open>\<^verbatim>\<open>^([a-z]{3,}(-[a-z]{3,})*(,[a-z]{3,}(-[a-z]{3,})*)*)?$\<close>\<close>

definition lower_letter :: "char \<Rightarrow> bool" where
  "lower_letter c \<longleftrightarrow> (97::nat) \<le> of_char c \<and> of_char c \<le> (122::nat)"

definition module_name_regex :: regex where
  "module_name_regex = RSepBy (RAtLeast3 (RClass lower_letter)) (CHR ''-'')"

definition restrictedDefaultModulesRegex :: regex where
  "restrictedDefaultModulesRegex = ROpt (RSepBy module_name_regex (CHR '',''))"

definition validateOciRegistryConfig :: "string \<Rightarrow> string \<Rightarrow> goerror option" where
  "validateOciRegistryConfig host credSecretName =
     (if host = [] \<and> credSecretName = [] then Some ErrNoOCIRegistryHostAndCredSecret
      else if host \<noteq> [] \<and> credSecretName \<noteq> [] then Some ErrBothOCIRegistryHostAndCredSecretProvided
      else None)"

definition validateRestrictedDefaultModules :: "string \<Rightarrow> goerror option" where
  "validateRestrictedDefaultModules input =
     (if MatchString restrictedDefaultModulesRegex input then None else Some ErrInvalidRestrictedDefaultModules)"

text \<open>The map of key sizes gives false for every absent key. \<open>seconds\<close> prints a duration with \<^verbatim>\<open>%.1f\<close>; the bound of the
  first jitter check is the double nearest to 0.05.\<close>

definition valid_key_size :: "int \<Rightarrow> bool" where
  "valid_key_size n = (case map_of [(2048, False), (4096, True), (8192, False)] n of Some b \<Rightarrow> b | None \<Rightarrow> False)"

definition jitter_bound :: float64 where "jitter_bound = Flt (3602879701896397 / 72057594037927936)"

definition Validate :: "cert_apis \<Rightarrow> (duration \<Rightarrow> string) \<Rightarrow> FlagVar \<Rightarrow> goerror option" where
  "Validate ca seconds f =
     (if fl_WatcherImageTag f = [] then Some ErrMissingWatcherImageTag
      else if fl_WatcherImageRegistry f = [] then Some ErrMissingWatcherImageRegistry
      else if fl_LeaderElectionLeaseDuration f \<le> fl_LeaderElectionRenewDeadline f
      then Some (wrapPost ErrLeaderElectionTimeoutConfig ('' ('' @ seconds (fl_LeaderElectionLeaseDuration f) @ ''[s])''))
      else if \<not> valid_key_size (fl_SelfSignedCertKeySize f) then Some ErrInvalidSelfSignedCertKeyLength
      else if flt_less (fl_ManifestRequeueJitterProbability f) (Flt 0) \<or> flt_less jitter_bound (fl_ManifestRequeueJitterProbability f)
      then Some ErrInvalidManifestRequeueJitterPercentage
      else if flt_less (fl_ManifestRequeueJitterPercentage f) (Flt 0) \<or> flt_less (Flt 1) (fl_ManifestRequeueJitterPercentage f)
      then Some ErrInvalidManifestRequeueJitterProbability
      else if fl_CertificateManagement f \<notin> {ca_certmanager ca, ca_gardener ca}
      then Some (wrapPost ErrUnsupportedCertificateManagementSystem ('': '' @ [CHR 0x27] @ fl_CertificateManagement f @ [CHR 0x27]))
      else (case validateOciRegistryConfig (fl_OciRegistryHost f) (fl_OciRegistryCredSecretName f) of
              Some e \<Rightarrow> Some e
            | None \<Rightarrow> validateRestrictedDefaultModules (fl_RestrictedDefaultModules f)))"

section \<open>Derived values\<close>

definition GetWatcherImage :: "FlagVar \<Rightarrow> string" where
  "GetWatcherImage f = fl_WatcherImageRegistry f @ ''/'' @ fl_WatcherImageName f @ '':'' @ fl_WatcherImageTag f"

definition splitCommaSeparatedList :: "string \<Rightarrow> string list" where
  "splitCommaSeparatedList input = (if input = [] then [] else filter (\<lambda>item. item \<noteq> []) (split_on (CHR '','') input))"

text \<open>The list is computed once and remembered.\<close>

definition GetRestrictedDefaultModules :: "FlagVar \<Rightarrow> FlagVar \<times> string list" where
  "GetRestrictedDefaultModules f =
     (case fl_restrictedDefaultModules f of
        Some ms \<Rightarrow> (f, ms)
      | None \<Rightarrow> (let ms = splitCommaSeparatedList (fl_RestrictedDefaultModules f) in (f\<lparr>fl_restrictedDefaultModules := Some ms\<rparr>, ms)))"

section \<open>Jitter of the requeue intervals\<close>

text \<open>
  \<^verbatim>\<open>RequeueJitter.Apply\<close> of \<^verbatim>\<open>pkg/queue\<close> with the two random numbers it draws, in exact arithmetic; the conversion to a
  duration truncates towards zero.
\<close>

record RequeueJitter =
  rj_Probability :: rat
  rj_Percentage :: rat

definition truncate :: "rat \<Rightarrow> int" where
  "truncate x = (if 0 \<le> x then \<lfloor>x\<rfloor> else \<lceil>x\<rceil>)"

definition RequeueJitter_Apply :: "RequeueJitter \<Rightarrow> rat \<Rightarrow> rat \<Rightarrow> duration \<Rightarrow> duration" where
  "RequeueJitter_Apply j rand1 rand2 interval =
     (if rand1 \<le> rj_Probability j
      then (let jitter = rand2 * (2 * rj_Percentage j) - rj_Percentage j in truncate (of_int interval * (1 + jitter)))
      else interval)"

text \<open>A jitter of numbers; what a conversion of not-a-number to a duration gives is left to the platform, so there is no value for it.\<close>

definition NewRequeueJitter :: "float64 \<Rightarrow> float64 \<Rightarrow> RequeueJitter option" where
  "NewRequeueJitter probability percentage =
     (case (probability, percentage) of
        (Flt p, Flt q) \<Rightarrow> Some \<lparr>rj_Probability = p, rj_Percentage = q\<rparr>
      | _ \<Rightarrow> None)"

section \<open>Accepted flags\<close>

text \<open>Module names as the message of the validation describes them.\<close>

definition well_named :: "string \<Rightarrow> bool" where
  "well_named m \<longleftrightarrow> (\<forall>part \<in> set (split_on (CHR ''-'') m). 3 \<le> length part \<and> (\<forall>c \<in> set part. lower_letter c))"

lemma well_named_lang: "m \<in> lang module_name_regex \<longleftrightarrow> well_named m"
proof -
  have "\<forall>x \<in> lang (RAtLeast3 (RClass lower_letter)). CHR ''-'' \<notin> set x"
    unfolding lang_AtLeast3_class by (auto simp: lower_letter_def)
  then show ?thesis
    unfolding module_name_regex_def by (simp add: lang_RSepBy well_named_def lang_AtLeast3_class del: lang.simps)
qed

lemma well_named_chars:
  assumes "well_named m" and "c \<in> set m"
  shows "c = CHR ''-'' \<or> lower_letter c"
proof -
  have "set m \<subseteq> insert (CHR ''-'') (\<Union> (set ` set (split_on (CHR ''-'') m)))"
  proof (induction m)
    case (Cons d m)
    obtain x xs where "split_on (CHR ''-'') m = x # xs" by (meson list.exhaust split_on_not_Nil)
    then show ?case using Cons by auto
  qed simp
  then show ?thesis using assms unfolding well_named_def by blast
qed

lemma validateRestrictedDefaultModules_ok:
  "validateRestrictedDefaultModules input = None
     \<longleftrightarrow> input = [] \<or> (\<forall>m \<in> set (split_on (CHR '','') input). well_named m)"
proof -
  have "\<forall>x \<in> lang module_name_regex. CHR '','' \<notin> set x"
    using well_named_chars by (fastforce simp: well_named_lang lower_letter_def)
  then have "input \<in> lang (RSepBy module_name_regex (CHR '','')) \<longleftrightarrow> (\<forall>m \<in> set (split_on (CHR '','') input). well_named m)"
    by (simp only: lang_RSepBy well_named_lang)
  then show ?thesis
    unfolding validateRestrictedDefaultModules_def restrictedDefaultModulesRegex_def ROpt_def MatchString_lang by simp
qed

lemma well_named_not_Nil: "well_named m \<Longrightarrow> m \<noteq> []"
  by (auto simp: well_named_def)

text \<open>A number within the closed interval, or not a number.\<close>

definition flt_between :: "rat \<Rightarrow> float64 \<Rightarrow> float64 \<Rightarrow> bool" where
  "flt_between lo hi x \<longleftrightarrow> \<not> flt_less x (Flt lo) \<and> \<not> flt_less hi x"


lemma Validate_restricted:
  "Validate ca seconds f = None \<Longrightarrow> validateRestrictedDefaultModules (fl_RestrictedDefaultModules f) = None"
  by (auto simp: Validate_def split: if_splits option.splits)

text \<open>The restricted modules of accepted flags: the list that the components get consists of module names, joining it
  with commas gives the flag back, and asking again gives the same list.\<close>

theorem restricted_modules_roundtrip:
  assumes "Validate ca seconds f = None" and "fl_restrictedDefaultModules f = None"
    and "GetRestrictedDefaultModules f = (f', ms)"
  shows "joinWith '','' ms = fl_RestrictedDefaultModules f \<and> (\<forall>m \<in> set ms. well_named m)
    \<and> GetRestrictedDefaultModules f' = (f', ms)"
proof -
  let ?in = "fl_RestrictedDefaultModules f"
  have ms: "ms = splitCommaSeparatedList ?in" and f': "f' = f\<lparr>fl_restrictedDefaultModules := Some ms\<rparr>"
    using assms(2,3) by (auto simp: GetRestrictedDefaultModules_def Let_def)
  have names: "?in \<noteq> [] \<Longrightarrow> \<forall>m \<in> set (split_on (CHR '','') ?in). well_named m"
    using Validate_restricted [OF assms(1)] validateRestrictedDefaultModules_ok by blast
  have split: "?in \<noteq> [] \<Longrightarrow> ms = split_on (CHR '','') ?in"
    unfolding ms splitCommaSeparatedList_def using names well_named_not_Nil by (simp add: filter_id_conv)
  have "joinWith '','' ms = ?in \<and> (\<forall>m \<in> set ms. well_named m)"
  proof (cases "?in = []")
    case True
    then show ?thesis by (simp add: ms splitCommaSeparatedList_def)
  next
    case False
    then show ?thesis using split names by (simp add: joinWith_split_on)
  qed
  then show ?thesis unfolding f' by (simp add: GetRestrictedDefaultModules_def)
qed

section \<open>Starting with the defaults\<close>

lemma define_flags_ok:
  "distinct (map fst flags) \<Longrightarrow> fst ` set flags \<inter> fst ` set defined = {}
    \<Longrightarrow> define_flags flags defined f = Inr (defined @ flags, fold (store_default \<circ> snd) flags f)"
  by (induction flags defined f rule: define_flags.induct) auto

lemma flag_names_distinct: "distinct (map fst (all_flags ca))"
  unfolding all_flags_def controller_flags_def client_flags_def certificate_flags_def module_flags_def by simp

definition default_FlagVar :: "cert_apis \<Rightarrow> FlagVar" where
  "default_FlagVar ca = fold (store_default \<circ> snd) (all_flags ca) new_FlagVar"

lemma DefineFlagVar_defaults: "DefineFlagVar ca = Inr (all_flags ca, default_FlagVar ca)"
  unfolding DefineFlagVar_def default_FlagVar_def using define_flags_ok [OF flag_names_distinct] by simp

lemma default_fields:
  "fl_WatcherImageTag (default_FlagVar ca) = []"
  "fl_WatcherImageRegistry (default_FlagVar ca) = DefaultWatcherImageRegistry"
  "fl_LeaderElectionRenewDeadline (default_FlagVar ca) = DefaultLeaderElectionRenewDeadline"
  "fl_LeaderElectionLeaseDuration (default_FlagVar ca) = DefaultLeaderElectionLeaseDuration"
  "fl_SelfSignedCertKeySize (default_FlagVar ca) = DefaultSelfSignedCertKeySize"
  "fl_ManifestRequeueJitterProbability (default_FlagVar ca) = DefaultManifestRequeueJitterProbability"
  "fl_ManifestRequeueJitterPercentage (default_FlagVar ca) = DefaultManifestRequeueJitterPercentage"
  "fl_CertificateManagement (default_FlagVar ca) = ca_certmanager ca"
  "fl_OciRegistryHost (default_FlagVar ca) = []" "fl_OciRegistryCredSecretName (default_FlagVar ca) = []"
  "fl_RestrictedDefaultModules (default_FlagVar ca) = []" "fl_AdditionalDNSNames (default_FlagVar ca) = []"
  "fl_restrictedDefaultModules (default_FlagVar ca) = None"
  unfolding default_FlagVar_def all_flags_def controller_flags_def client_flags_def certificate_flags_def module_flags_def
    new_FlagVar_def
  by simp_all

lemma default_intervals:
  "fl_KymaRequeueSuccessInterval (default_FlagVar ca) = DefaultKymaRequeueSuccessInterval"
  "fl_KymaRequeueBusyInterval (default_FlagVar ca) = DefaultKymaRequeueBusyInterval"
  "fl_KymaRequeueErrInterval (default_FlagVar ca) = DefaultKymaRequeueErrInterval"
  "fl_KymaRequeueWarningInterval (default_FlagVar ca) = DefaultKymaRequeueWarningInterval"
  "fl_ManifestRequeueSuccessInterval (default_FlagVar ca) = DefaultManifestRequeueSuccessInterval"
  "fl_ManifestRequeueBusyInterval (default_FlagVar ca) = DefaultManifestRequeueBusyInterval"
  "fl_ManifestRequeueErrInterval (default_FlagVar ca) = DefaultManifestRequeueErrInterval"
  "fl_ManifestRequeueWarningInterval (default_FlagVar ca) = DefaultManifestRequeueWarningInterval"
  "fl_WatcherRequeueSuccessInterval (default_FlagVar ca) = DefaultWatcherRequeueSuccessInterval"
  "fl_MandatoryModuleRequeueSuccessInterval (default_FlagVar ca) = DefaultMandatoryModuleRequeueSuccessInterval"
  "fl_MandatoryModuleDeletionRequeueSuccessInterval (default_FlagVar ca) = DefaultMandatoryModuleDeletionRequeueSuccessInterval"
  unfolding default_FlagVar_def all_flags_def controller_flags_def client_flags_def certificate_flags_def module_flags_def
    new_FlagVar_def
  by simp_all

lemma find_flags:
  "map_of (all_flags ca) ''skr-watcher-image-tag'' = Some (StringVar (\<lambda>v. fl_WatcherImageTag_update (\<lambda>_. v)) [])"
  "map_of (all_flags ca) ''oci-registry-host'' = Some (StringVar (\<lambda>v. fl_OciRegistryHost_update (\<lambda>_. v)) [])"
  "map_of (all_flags ca) ''manifest-requeue-jitter-percentage''
     = Some (Float64Var (\<lambda>v. fl_ManifestRequeueJitterPercentage_update (\<lambda>_. v)) DefaultManifestRequeueJitterPercentage)"
  unfolding all_flags_def controller_flags_def client_flags_def certificate_flags_def module_flags_def by simp_all

lemma defaults_valid:
  assumes "tag \<noteq> []" and "host \<noteq> []"
  shows "Validate ca seconds ((default_FlagVar ca)\<lparr>fl_WatcherImageTag := tag, fl_OciRegistryHost := host\<rparr>) = None"
  using assms unfolding Validate_def
  by (simp add: default_fields valid_key_size_def DefaultSelfSignedCertKeySize_def DefaultWatcherImageRegistry_def
      DefaultLeaderElectionRenewDeadline_def DefaultLeaderElectionLeaseDuration_def DefaultManifestRequeueJitterProbability_def
      DefaultManifestRequeueJitterPercentage_def jitter_bound_def second_def validateOciRegistryConfig_def
      validateRestrictedDefaultModules_ok)

text \<open>A start with two flags: no flag is registered twice, so defining them does not panic; with an image tag and a
  registry host on the command line the flags are accepted, and without the tag they are not.\<close>

theorem two_flags_start:
  assumes "tag \<noteq> []" and "host \<noteq> []"
  shows "\<exists>flags f0 f. DefineFlagVar ca = Inr (flags, f0)
    \<and> flag_Parse flags [(''skr-watcher-image-tag'', StringV tag), (''oci-registry-host'', StringV host)] f0 = Inr f
    \<and> Validate ca seconds f = None \<and> Validate ca seconds f0 = Some ErrMissingWatcherImageTag"
proof (intro exI conjI)
  show "DefineFlagVar ca = Inr (all_flags ca, default_FlagVar ca)" by (rule DefineFlagVar_defaults)
  show "flag_Parse (all_flags ca) [(''skr-watcher-image-tag'', StringV tag), (''oci-registry-host'', StringV host)] (default_FlagVar ca)
      = Inr ((default_FlagVar ca)\<lparr>fl_WatcherImageTag := tag, fl_OciRegistryHost := host\<rparr>)"
    by (simp add: find_flags)
  show "Validate ca seconds ((default_FlagVar ca)\<lparr>fl_WatcherImageTag := tag, fl_OciRegistryHost := host\<rparr>) = None"
    using assms by (rule defaults_valid)
  show "Validate ca seconds (default_FlagVar ca) = Some ErrMissingWatcherImageTag"
    by (simp add: Validate_def default_fields)
qed

section \<open>The jitter\<close>

text \<open>With the bound that the message of the validation gives for the percentage, an interval stays positive.\<close>

lemma jitter_small_percentage:
  assumes "0 \<le> rj_Percentage j" and "rj_Percentage j \<le> 1 / 2" and "0 \<le> rand2" and "2 \<le> interval"
  shows "0 < RequeueJitter_Apply j rand1 rand2 interval"
proof (cases "rand1 \<le> rj_Probability j")
  case True
  let ?x = "of_int interval * (1 + (rand2 * (2 * rj_Percentage j) - rj_Percentage j))"
  have "0 \<le> rand2 * (2 * rj_Percentage j)" using assms(1,3) by simp
  then have "1 / 2 \<le> 1 + (rand2 * (2 * rj_Percentage j) - rj_Percentage j)" using assms(2) by linarith
  moreover have "(2::rat) \<le> of_int interval" using assms(4) by (metis of_int_le_iff of_int_numeral)
  ultimately have "2 * (1 / 2) \<le> ?x" by (intro mult_mono) auto
  then have one: "1 \<le> ?x" by simp
  then have "1 \<le> \<lfloor>?x\<rfloor>" by (simp only: one_le_floor)
  moreover have "truncate ?x = \<lfloor>?x\<rfloor>" using one unfolding truncate_def by (simp only: if_P order_trans [OF zero_le_one one])
  ultimately show ?thesis using True by (simp add: RequeueJitter_Apply_def Let_def)
next
  case False
  then show ?thesis using assms(4) by (simp add: RequeueJitter_Apply_def)
qed

text \<open>The bounds of the jitter flags are exchanged: a percentage of 1 passes the validation (its message allows 0.05), and
  with it every requeue interval can become zero, which means that the resource is not reconciled again; a probability
  above the bound is rejected with the message for the percentage.\<close>

theorem accepted_jitter_stops_requeue:
  "\<exists>f j. Validate ca seconds f = None
    \<and> NewRequeueJitter (fl_ManifestRequeueJitterProbability f) (fl_ManifestRequeueJitterPercentage f) = Some j
    \<and> (\<forall>state r. requeue (DetermineRequeueInterval state (r\<lparr>ri_Jitter := Some (RequeueJitter_Apply j 0 0)\<rparr>)) = no_requeue)
    \<and> Validate ca seconds (f\<lparr>fl_ManifestRequeueJitterProbability := Flt (1 / 2)\<rparr>) = Some ErrInvalidManifestRequeueJitterPercentage"
proof (intro exI conjI)
  let ?f0 = "(default_FlagVar ca)\<lparr>fl_WatcherImageTag := ''1.0.0'', fl_OciRegistryHost := ''registry''\<rparr>"
  let ?f = "?f0\<lparr>fl_ManifestRequeueJitterPercentage := Flt 1\<rparr>"
  let ?p = "5764607523034235 / 288230376151711744 :: rat"
  let ?j = "\<lparr>rj_Probability = ?p, rj_Percentage = 1\<rparr>"
  show "Validate ca seconds ?f = None"
    unfolding Validate_def
    by (simp add: default_fields valid_key_size_def DefaultSelfSignedCertKeySize_def DefaultWatcherImageRegistry_def
        DefaultLeaderElectionRenewDeadline_def DefaultLeaderElectionLeaseDuration_def
        DefaultManifestRequeueJitterProbability_def jitter_bound_def second_def validateOciRegistryConfig_def
        validateRestrictedDefaultModules_ok)
  show "NewRequeueJitter (fl_ManifestRequeueJitterProbability ?f) (fl_ManifestRequeueJitterPercentage ?f) = Some ?j"
    by (simp add: default_fields NewRequeueJitter_def DefaultManifestRequeueJitterProbability_def)
  have "RequeueJitter_Apply ?j 0 0 d = 0" for d by (simp add: RequeueJitter_Apply_def truncate_def)
  then show "\<forall>state r. requeue (DetermineRequeueInterval state (r\<lparr>ri_Jitter := Some (RequeueJitter_Apply ?j 0 0)\<rparr>)) = no_requeue"
    by (simp add: DetermineRequeueInterval_def requeue_def no_requeue_def)
  show "Validate ca seconds (?f\<lparr>fl_ManifestRequeueJitterProbability := Flt (1 / 2)\<rparr>)
      = Some ErrInvalidManifestRequeueJitterPercentage"
    unfolding Validate_def
    by (simp add: default_fields valid_key_size_def DefaultSelfSignedCertKeySize_def DefaultWatcherImageRegistry_def
        DefaultLeaderElectionRenewDeadline_def DefaultLeaderElectionLeaseDuration_def jitter_bound_def second_def)
qed

section \<open>Witnesses\<close>

definition ex_ca :: cert_apis where
  "ex_ca = \<lparr>ca_certmanager = ''cert-manager.io/v1'', ca_gardener = ''cert.gardener.cloud/v1alpha1''\<rparr>"

definition ex_flags :: FlagVar where
  "ex_flags = (default_FlagVar ex_ca)\<lparr>fl_WatcherImageTag := ''1.0.0'', fl_OciRegistryHost := ''registry'',
     fl_RestrictedDefaultModules := ''istio,api-gateway''\<rparr>"

lemma well_named_examples: "well_named ''istio'' \<and> well_named ''api-gateway'' \<and> \<not> well_named ''go'' \<and> \<not> well_named ''Istio''"
  unfolding well_named_def by (simp add: lower_letter_def)

lemma ex_flags_valid: "Validate ex_ca seconds ex_flags = None"
  using defaults_valid [of "''1.0.0''" "''registry''" ex_ca seconds] well_named_examples
  by (auto simp: ex_flags_def Validate_def validateRestrictedDefaultModules_ok split: if_splits option.splits)

theorem restricted_modules_roundtrip_witness:
  "snd (GetRestrictedDefaultModules ex_flags) = [''istio'', ''api-gateway'']
   \<and> joinWith '','' (snd (GetRestrictedDefaultModules ex_flags)) = ''istio,api-gateway''"
proof -
  have n: "fl_restrictedDefaultModules ex_flags = None" and i: "fl_RestrictedDefaultModules ex_flags = ''istio,api-gateway''"
    by (simp_all add: ex_flags_def default_fields)
  have "snd (GetRestrictedDefaultModules ex_flags) = [''istio'', ''api-gateway'']"
    unfolding GetRestrictedDefaultModules_def n by (simp add: i splitCommaSeparatedList_def Let_def)
  moreover have "joinWith '','' (snd (GetRestrictedDefaultModules ex_flags)) = ''istio,api-gateway''"
    using restricted_modules_roundtrip [OF ex_flags_valid n, of "fst (GetRestrictedDefaultModules ex_flags)"
        "snd (GetRestrictedDefaultModules ex_flags)"] i by simp
  ultimately show ?thesis ..
qed

theorem two_flags_start_witness:
  "\<exists>flags f0 f. DefineFlagVar ex_ca = Inr (flags, f0)
    \<and> flag_Parse flags [(''skr-watcher-image-tag'', StringV ''1.0.0''), (''oci-registry-host'', StringV ''registry'')] f0 = Inr f
    \<and> Validate ex_ca (\<lambda>d. []) f = None"
  using two_flags_start [of "''1.0.0''" "''registry''" ex_ca "\<lambda>d. []"] by blast

end
