(* ===== verification/OciRegistry.thy ===== *)
theory OciRegistry
  imports ModuleParser LayerFiles CertBundle
begin

text \<open>
  The registry that holds the modules: its address is resolved once at start-up from the flags or from a docker
  configuration in a secret (\<^verbatim>\<open>internal/setup/ociregistry.go\<close>), and component versions are read from it through the
  readers of \<^verbatim>\<open>internal/repository/ocm\<close>. The registry client (\<^verbatim>\<open>crane\<close>), the keychain and the decoder of JSON are
  parameters.
\<close>

section \<open>Resolving the registry\<close>

definition httpsSchemePrefix :: string where "httpsSchemePrefix = ''https://''"
definition httpSchemePrefix :: string where "httpSchemePrefix = ''http://''"

definition DockerConfigJsonKey :: string where "DockerConfigJsonKey = ''.dockerconfigjson''"

definition ErrSecretRepoNil :: goerror where
  "ErrSecretRepoNil = Sentinel ''ErrSecretRepoNil'' ''secretRepo cannot be nil''"
definition ErrRegistryAndCredSecretEmpty :: goerror where
  "ErrRegistryAndCredSecretEmpty =
     Sentinel ''ErrRegistryAndCredSecretEmpty'' ''registry and credSecretName cannot both be empty''"
definition ErrBothRegistryAndCredSecret :: goerror where
  "ErrBothRegistryAndCredSecret =
     Sentinel ''ErrBothRegistryAndCredSecret'' ''either registry or credSecretName should be provided, not both''"
definition ErrFailedToResolveRegistryFromSecret :: goerror where
  "ErrFailedToResolveRegistryFromSecret =
     Sentinel ''ErrFailedToResolveRegistryFromSecret'' ''failed to resolve registry from credential secret''"
definition ErrFailedToGetRegistrySecret :: goerror where
  "ErrFailedToGetRegistrySecret = Sentinel ''ErrFailedToGetRegistrySecret'' ''failed to get registry credential secret''"
definition ErrSecretMissingDockerConfig :: goerror where
  "ErrSecretMissingDockerConfig = Sentinel ''ErrSecretMissingDockerConfig'' ''secret missing .dockerconfigjson field''"
definition ErrFailedToUnmarshalDockerConfig :: goerror where
  "ErrFailedToUnmarshalDockerConfig = Sentinel ''ErrFailedToUnmarshalDockerConfig'' ''failed to unmarshal .dockerconfigjson''"
definition ErrExactlyOneRegistryExpected :: goerror where
  "ErrExactlyOneRegistryExpected =
     Sentinel ''ErrExactlyOneRegistryExpected'' ''.dockerconfigjson must contain exactly one registry''"
definition ErrRegistryMustNotBeEmpty :: goerror where
  "ErrRegistryMustNotBeEmpty = Sentinel ''ErrRegistryMustNotBeEmpty'' ''registry in .dockerconfigjson is empty''"

record OCIRegistry =
  or_registry :: string
  or_insecure :: bool

text \<open>
  \<open>unmarshal\<close> decodes a docker configuration: the keys of its map \<^verbatim>\<open>auths\<close> in the order in which the loop over the map
  visits them. The data of a secret is read from a map that may be nil.
\<close>

type_synonym auths_decoder = "string \<Rightarrow> goerror + string list"

definition getDockerConfigFromSecret :: "auths_decoder \<Rightarrow> Secret \<Rightarrow> goerror + string list" where
  "getDockerConfigFromSecret unmarshal s =
     (case sec_Data s of
        None \<Rightarrow> Inl ErrSecretMissingDockerConfig
      | Some m \<Rightarrow>
          (case m DockerConfigJsonKey of
             None \<Rightarrow> Inl ErrSecretMissingDockerConfig
           | Some b \<Rightarrow>
               (case unmarshal (content b) of
                  Inl e \<Rightarrow> Inl (errors_Join ErrFailedToUnmarshalDockerConfig e)
                | Inr auths \<Rightarrow> if length auths \<noteq> 1 then Inl ErrExactlyOneRegistryExpected else Inr auths)))"

definition getRegistryFromCredSecret ::
  "auths_decoder \<Rightarrow> (string \<Rightarrow> goerror + Secret) \<Rightarrow> string \<Rightarrow> goerror + string" where
  "getRegistryFromCredSecret unmarshal secretRepo credSecretName =
     (case secretRepo credSecretName of
        Inl e \<Rightarrow> Inl (errors_Join ErrFailedToGetRegistrySecret e)
      | Inr s \<Rightarrow>
          (case getDockerConfigFromSecret unmarshal s of
             Inl e \<Rightarrow> Inl e
           | Inr auths \<Rightarrow>
               (case find (\<lambda>r. r \<noteq> []) auths of Some r \<Rightarrow> Inr r | None \<Rightarrow> Inl ErrRegistryMustNotBeEmpty)))"

definition getRegistry ::
  "auths_decoder \<Rightarrow> (string \<Rightarrow> goerror + Secret) \<Rightarrow> string \<Rightarrow> string \<Rightarrow> goerror + string" where
  "getRegistry unmarshal secretRepo registry registryCredSecretName =
     (if registry = [] \<and> registryCredSecretName = [] then Inl ErrRegistryAndCredSecretEmpty
      else if registry \<noteq> [] \<and> registryCredSecretName \<noteq> [] then Inl ErrBothRegistryAndCredSecret
      else if registry \<noteq> [] then Inr registry
      else (case getRegistryFromCredSecret unmarshal secretRepo registryCredSecretName of
              Inl e \<Rightarrow> Inl (errors_Join ErrFailedToResolveRegistryFromSecret e)
            | Inr r \<Rightarrow> Inr r))"

text \<open>\<^verbatim>\<open>strings.CutPrefix\<close>, \<^verbatim>\<open>strings.TrimLeft\<close>, and the loop that removes the first scheme that matches.\<close>

definition cutPrefix :: "string \<Rightarrow> string \<Rightarrow> string option" where
  "cutPrefix s p = (if hasPrefix s p then Some (drop (length p) s) else None)"

definition trimLeft :: "string \<Rightarrow> string \<Rightarrow> string" where
  "trimLeft s cutset = dropWhile (\<lambda>c. c \<in> set cutset) s"

fun trim_first :: "string list \<Rightarrow> string \<Rightarrow> string" where
  "trim_first [] registry = registry"
| "trim_first (p # ps) registry = (case cutPrefix registry p of Some r \<Rightarrow> r | None \<Rightarrow> trim_first ps registry)"

definition trimScheme :: "string \<Rightarrow> string" where
  "trimScheme registry = trim_first [httpsSchemePrefix, httpSchemePrefix] registry"

definition NewOCIRegistry ::
  "auths_decoder \<Rightarrow> (string \<Rightarrow> goerror + Secret) option \<Rightarrow> string \<Rightarrow> string \<Rightarrow> string \<Rightarrow> goerror + OCIRegistry" where
  "NewOCIRegistry unmarshal secretRepo registry registryCredSecretName subPath =
     (case secretRepo of
        None \<Rightarrow> Inl ErrSecretRepoNil
      | Some repo \<Rightarrow>
          (case getRegistry unmarshal repo registry registryCredSecretName of
             Inl e \<Rightarrow> Inl e
           | Inr r \<Rightarrow>
               (let insecure = hasPrefix r httpSchemePrefix; t = trimScheme r in
                Inr \<lparr>or_registry = (if subPath \<noteq> [] then trimRight t ''/'' @ ''/'' @ trimLeft subPath ''/'' else t),
                     or_insecure = insecure\<rparr>)))"

definition GetReference :: "OCIRegistry \<Rightarrow> string" where "GetReference oci = or_registry oci"
definition IsInsecure :: "OCIRegistry \<Rightarrow> bool" where "IsInsecure oci = or_insecure oci"

section \<open>Readers\<close>

text \<open>The reader of OCI data: it calls the registry client with a context, the keychain and, if wanted, plain HTTP.\<close>

datatype 'kc crane_option = WithContext | WithAuthFromKeychain 'kc | Insecure

definition ErrKeyChainNotNil :: goerror where
  "ErrKeyChainNotNil = Sentinel ''ErrKeyChainNotNil'' ''keychain lookup must not be nil''"

record ('kc, 'layer) OciReader =
  oc_insecure :: bool
  oc_keyChainLookup :: "goerror + 'kc"
  oc_config :: "string \<Rightarrow> 'kc crane_option list \<Rightarrow> goerror + string"
  oc_pullLayer :: "string \<Rightarrow> 'kc crane_option list \<Rightarrow> goerror + 'layer"

definition WithConfigFunction ::
  "(string \<Rightarrow> 'kc crane_option list \<Rightarrow> goerror + string) \<Rightarrow> ('kc, 'layer) OciReader \<Rightarrow> ('kc, 'layer) OciReader" where
  "WithConfigFunction f c = c\<lparr>oc_config := f\<rparr>"

definition WithPullLayerFunction ::
  "(string \<Rightarrow> 'kc crane_option list \<Rightarrow> goerror + 'layer) \<Rightarrow> ('kc, 'layer) OciReader \<Rightarrow> ('kc, 'layer) OciReader" where
  "WithPullLayerFunction f c = c\<lparr>oc_pullLayer := f\<rparr>"

text \<open>\<open>config\<close> and \<open>pull\<close> stand for \<^verbatim>\<open>crane.Config\<close> and \<^verbatim>\<open>crane.PullLayer\<close>.\<close>

definition oci_NewRepository ::
  "(string \<Rightarrow> 'kc crane_option list \<Rightarrow> goerror + string) \<Rightarrow> (string \<Rightarrow> 'kc crane_option list \<Rightarrow> goerror + 'layer)
    \<Rightarrow> (goerror + 'kc) option \<Rightarrow> bool \<Rightarrow> (('kc, 'layer) OciReader \<Rightarrow> ('kc, 'layer) OciReader) list
    \<Rightarrow> goerror + ('kc, 'layer) OciReader" where
  "oci_NewRepository config pull kcl insecure opts =
     (case kcl of
        None \<Rightarrow> Inl ErrKeyChainNotNil
      | Some k \<Rightarrow>
          Inr (fold (\<lambda>opt. opt) opts
                 \<lparr>oc_insecure = insecure, oc_keyChainLookup = k, oc_config = config, oc_pullLayer = pull\<rparr>))"

definition stdOptions :: "('kc, 'layer) OciReader \<Rightarrow> goerror + 'kc crane_option list" where
  "stdOptions s =
     (case oc_keyChainLookup s of
        Inl e \<Rightarrow> Inl (wrapErr ''failed to get keychain: '' e)
      | Inr keyChain \<Rightarrow>
          Inr ([WithContext, WithAuthFromKeychain keyChain] @ (if oc_insecure s then [Insecure] else [])))"

definition oci_Config :: "('kc, 'layer) OciReader \<Rightarrow> string \<Rightarrow> goerror + string" where
  "oci_Config c ref =
     (case stdOptions c of
        Inl e \<Rightarrow> Inl (wrapErr ''failed to get crane options: '' e)
      | Inr opts \<Rightarrow> oc_config c ref opts)"

definition oci_PullLayer :: "('kc, 'layer) OciReader \<Rightarrow> string \<Rightarrow> goerror + 'layer" where
  "oci_PullLayer c ref =
     (case stdOptions c of
        Inl e \<Rightarrow> Inl (wrapErr ''failed to get crane options: '' e)
      | Inr opts \<Rightarrow> oc_pullLayer c ref opts)"

text \<open>The reader of OCM data on top of it; \<open>ns\<close> is the namespace of component descriptors, a constant of the OCM library.\<close>

definition ErrNoProtocolScheme :: goerror where
  "ErrNoProtocolScheme =
     Sentinel ''ErrNoProtocolScheme'' ''host address must not contain protocol scheme (http/https)''"
definition ErrNoLeadingSlash :: goerror where
  "ErrNoLeadingSlash = Sentinel ''ErrNoLeadingSlash'' (''host address must not start with a '' @ [CHR 0x27, CHR 0x2F, CHR 0x27])"

record ('kc, 'layer) OcmReader =
  om_hostWithPort :: string
  om_reader :: "('kc, 'layer) OciReader"

definition ocm_NewRepository :: "string \<Rightarrow> ('kc, 'layer) OciReader \<Rightarrow> goerror + ('kc, 'layer) OcmReader" where
  "ocm_NewRepository hostWithPort reader =
     (if containsStr hostWithPort ''://'' then Inl (wrapPost ErrNoProtocolScheme ('': '' @ [CHR 0x22] @ hostWithPort @ [CHR 0x22]))
      else if hasPrefix hostWithPort ''/'' then Inl (wrapPost ErrNoLeadingSlash ('': '' @ [CHR 0x22] @ hostWithPort @ [CHR 0x22]))
      else Inr \<lparr>om_hostWithPort = hostWithPort, om_reader = reader\<rparr>)"

definition toImageRef :: "string \<Rightarrow> ('kc, 'layer) OcmReader \<Rightarrow> string \<Rightarrow> string \<Rightarrow> string" where
  "toImageRef ns s nm tag = Join [om_hostWithPort s, ns, nm] @ '':'' @ tag"

definition ocm_GetConfig :: "string \<Rightarrow> ('kc, 'layer) OcmReader \<Rightarrow> string \<Rightarrow> string \<Rightarrow> goerror + string" where
  "ocm_GetConfig ns s nm tag =
     (let ref = toImageRef ns s nm tag in
      case oci_Config (om_reader s) ref of
        Inl e \<Rightarrow> Inl (wrapErr (''failed to get config file for ref='' @ [CHR 0x22] @ ref @ [CHR 0x22] @ '': '') e)
      | Inr b \<Rightarrow> Inr b)"

definition ocm_PullLayer ::
  "string \<Rightarrow> ('kc, 'layer) OcmReader \<Rightarrow> string \<Rightarrow> string \<Rightarrow> string \<Rightarrow> goerror + 'layer" where
  "ocm_PullLayer ns s nm tag digest =
     (let ref = toImageRef ns s nm tag @ ''@'' @ digest in
      case oci_PullLayer (om_reader s) ref of
        Inl e \<Rightarrow> Inl (wrapErr (''failed to pull layer for ref='' @ [CHR 0x22] @ ref @ [CHR 0x22] @ '': '') e)
      | Inr l \<Rightarrow> Inr l)"


text \<open>\<^verbatim>\<open>ComposeRepository\<close>: both readers for a resolved registry; an error ends the process.\<close>

definition ComposeRepository ::
  "(string \<Rightarrow> 'kc crane_option list \<Rightarrow> goerror + string) \<Rightarrow> (string \<Rightarrow> 'kc crane_option list \<Rightarrow> goerror + 'layer)
    \<Rightarrow> (goerror + 'kc) option \<Rightarrow> OCIRegistry \<Rightarrow> goerror + ('kc, 'layer) OcmReader" where
  "ComposeRepository config pull kcl oci =
     (case oci_NewRepository config pull kcl (IsInsecure oci) [] of
        Inl e \<Rightarrow> Inl e
      | Inr reader \<Rightarrow> ocm_NewRepository (GetReference oci) reader)"

section \<open>Resolved registries\<close>

lemma containsStr_iff: "containsStr s t \<longleftrightarrow> (\<exists>a b. s = a @ t @ b)"
proof (induction s)
  case Nil
  show ?case by (cases t) auto
next
  case (Cons c s)
  have "(\<exists>a b. c # s = a @ t @ b) \<longleftrightarrow> (\<exists>b. c # s = t @ b) \<or> (\<exists>a b. s = a @ t @ b)"
    by (metis append_Cons append_Nil append_eq_Cons_conv)
  then show ?case using Cons by (simp add: hasPrefix_iff)
qed

lemma trimScheme_http: "trimScheme (''http://'' @ host) = host"
  by (simp add: trimScheme_def cutPrefix_def httpsSchemePrefix_def httpSchemePrefix_def)

lemma trimScheme_https: "trimScheme (''https://'' @ host) = host"
  by (simp add: trimScheme_def cutPrefix_def httpsSchemePrefix_def httpSchemePrefix_def)

lemma no_scheme_prefix:
  "\<not> containsStr r ''://'' \<Longrightarrow> \<not> hasPrefix r ''http://'' \<and> \<not> hasPrefix r ''https://''"
  by (auto simp: containsStr_iff hasPrefix_iff)
    (metis append_Cons append_Nil)+

lemma trimScheme_plain: "\<not> containsStr r ''://'' \<Longrightarrow> trimScheme r = r"
  using no_scheme_prefix [of r]
  by (simp add: trimScheme_def cutPrefix_def httpsSchemePrefix_def httpSchemePrefix_def)

lemma getRegistry_sources:
  assumes "getRegistry unmarshal repo registry cred = Inr r"
  shows "r \<noteq> [] \<and> ((registry = []) \<noteq> (cred = []))"
  using assms
  by (auto simp: getRegistry_def getRegistryFromCredSecret_def dest: find_Some_in split: if_splits sum.splits option.splits)

lemma trimRight_no_slash_end: "\<not> hasSuffix (trimRight t ''/'') ''/''"
proof
  assume "hasSuffix (trimRight t ''/'') ''/''"
  then obtain r where "dropWhile (\<lambda>c. c \<in> set ''/'') (rev t) = CHR ''/'' # r"
    by (auto simp: hasSuffix_iff trimRight_def rev_swap)
  then show False using hd_dropWhile [of "\<lambda>c. c \<in> set ''/''" "rev t"] by force
qed


text \<open>A path whose elements are all proper names is clean, and joining proper paths is plain concatenation.\<close>

definition proper_path :: "string \<Rightarrow> bool" where
  "proper_path p \<longleftrightarrow> (\<forall>e \<in> set (split_slash p). e \<noteq> [] \<and> e \<noteq> ''.'' \<and> e \<noteq> ''..'')"

lemma clean_elements_proper:
  "\<forall>e \<in> set es. e \<noteq> [] \<and> e \<noteq> ''.'' \<and> e \<noteq> ''..'' \<Longrightarrow> fold (clean_step root) es stack = rev es @ stack"
  by (induction es arbitrary: stack) (simp_all add: clean_step_def)

lemma joinWith_split_slash: "joinWith ''/'' (split_slash p) = p"
proof (induction p)
  case (Cons c p)
  obtain x xs where "split_slash p = x # xs" by (meson list.exhaust split_slash_not_Nil)
  then show ?case using Cons by (cases xs) auto
qed simp

lemma proper_path_Clean:
  assumes "proper_path p" and "p \<noteq> []" and "\<not> rooted p"
  shows "Clean p = p"
proof -
  have "clean_elements False (split_slash p) = split_slash p"
    using clean_elements_proper [of "split_slash p" False "[]"] assms(1)
    by (simp add: clean_elements_def proper_path_def)
  then show ?thesis using assms(2,3) by (simp add: Clean_def joinWith_split_slash)
qed

lemma proper_path_append: "proper_path (p @ ''/'' @ q) \<longleftrightarrow> proper_path p \<and> proper_path q"
  by (auto simp: proper_path_def split_slash_append)

lemma proper_path_not_Nil:
  assumes "proper_path p"
  shows "p \<noteq> [] \<and> \<not> rooted p"
proof (cases p)
  case Nil
  then show ?thesis using assms by (simp add: proper_path_def)
next
  case (Cons c cs)
  have "c \<noteq> CHR ''/''"
  proof
    assume "c = CHR ''/''"
    then have "[] \<in> set (split_slash p)" using Cons by simp
    then show False using assms unfolding proper_path_def by blast
  qed
  then show ?thesis using Cons by (simp add: rooted_def)
qed

lemma Join3_proper:
  assumes "proper_path a" and "proper_path b" and "proper_path c"
  shows "Join [a, b, c] = a @ ''/'' @ b @ ''/'' @ c"
proof -
  have p: "proper_path (a @ ''/'' @ b @ ''/'' @ c)" using assms proper_path_append by blast
  note n = assms [THEN proper_path_not_Nil]
  have "Join [a, b, c] = Clean (a @ ''/'' @ b @ ''/'' @ c)" using n by (simp add: Join_def)
  then show ?thesis using proper_path_Clean [OF p] proper_path_not_Nil [OF p] by simp
qed

lemma prefix_before_slash: "hasPrefix (x @ CHR ''/'' # y) p \<Longrightarrow> CHR ''/'' \<notin> set p \<Longrightarrow> hasPrefix x p"
  by (induction x p rule: hasPrefix.induct) auto

lemma prefix_trimRight: "hasPrefix (trimRight h cutset) p \<Longrightarrow> hasPrefix h p"
proof -
  assume "hasPrefix (trimRight h cutset) p"
  then obtain r where "trimRight h cutset = p @ r" by (auto simp: hasPrefix_iff)
  moreover have "h = trimRight h cutset @ rev (takeWhile (\<lambda>c. c \<in> set cutset) (rev h))"
    by (metis rev_append rev_rev_ident takeWhile_dropWhile_id trimRight_def)
  ultimately show ?thesis by (metis append.assoc hasPrefix_append)
qed

lemma prefix_shorter: "hasPrefix s (p @ q) \<Longrightarrow> hasPrefix s p"
  by (auto simp: hasPrefix_iff)

text \<open>What a start with an address of a registry resolves to.\<close>

lemma NewOCIRegistry_host:
  assumes "NewOCIRegistry unmarshal (Some repo) registry [] subPath = Inr oci"
  shows "IsInsecure oci = hasPrefix registry ''http://''"
    and "GetReference oci =
      (if subPath = [] then trimScheme registry else trimRight (trimScheme registry) ''/'' @ ''/'' @ trimLeft subPath ''/'')"
  using assms
  by (auto simp: NewOCIRegistry_def getRegistry_def GetReference_def IsInsecure_def httpSchemePrefix_def Let_def
      split: if_splits)

lemma ComposeRepository_reader:
  assumes "ComposeRepository config pull kcl oci = Inr reader"
  shows "om_hostWithPort reader = GetReference oci" and "oc_insecure (om_reader reader) = IsInsecure oci"
    and "kcl = Some (oc_keyChainLookup (om_reader reader))"
    and "oc_config (om_reader reader) = config" and "oc_pullLayer (om_reader reader) = pull"
    and "\<not> containsStr (GetReference oci) ''://''" and "\<not> hasPrefix (GetReference oci) ''/''"
  using assms
  by (auto simp: ComposeRepository_def oci_NewRepository_def ocm_NewRepository_def split: option.splits sum.splits if_splits)


text \<open>One repository for a component: when the readers are composed for a registry, the descriptor of a component is
  read from the same repository from which the layers of the module are pulled later (the layers' repository address is
  overwritten with the same registry), for addresses and names without empty or dotted elements. Only a digest is added
  to the tag for the descriptor's layer.\<close>

theorem one_repository_per_component:
  assumes "ComposeRepository config pull kcl oci = Inr reader"
    and "proper_path (GetReference oci)" and "proper_path (fx_namespace env)" and "proper_path nm"
    and "is_Name (ly_Oci l) = nm"
  shows "\<exists>repository.
      toImageRef (fx_namespace env) reader nm tag = repository @ '':'' @ tag
    \<and> image_ref env (ConvertToImageSpec (GetReference oci) l) = repository @ ''@'' @ is_Ref (ly_Oci l)
    \<and> hasPrefix repository (GetReference oci @ ''/'')"
proof (intro exI conjI)
  let ?r = "GetReference oci @ ''/'' @ fx_namespace env @ ''/'' @ nm"
  show "toImageRef (fx_namespace env) reader nm tag = ?r @ '':'' @ tag"
    using Join3_proper [OF assms(2-4)] ComposeRepository_reader(1) [OF assms(1)] by (simp add: toImageRef_def)
  show "image_ref env (ConvertToImageSpec (GetReference oci) l) = ?r @ ''@'' @ is_Ref (ly_Oci l)"
    using assms(5) by (simp add: image_ref_def ConvertToImageSpec_def)
  show "hasPrefix ?r (GetReference oci @ ''/'')"
    by (simp add: hasPrefix_iff)
qed

text \<open>A registry without TLS: for an address that begins with the scheme for plain HTTP, descriptors are read with the
  option for plain HTTP, but every layer of a module is pulled without it, because the layer's repository address is the
  reference without the scheme and the extractor recognises plain HTTP by the scheme only.\<close>

theorem insecure_registry_layers:
  assumes "NewOCIRegistry unmarshal (Some repo) (''http://'' @ host) [] subPath = Inr oci"
    and "\<not> hasPrefix host ''http''"
    and "ComposeRepository config pull (Some (Inr keyChain)) oci = Inr reader"
  shows "stdOptions (om_reader reader) = Inr [WithContext, WithAuthFromKeychain keyChain, Insecure]
    \<and> (let ref = image_ref env (ConvertToImageSpec (GetReference oci) l) in
         pullLayer env ref =
           (case fx_pull env ref False of
              Inl e \<Rightarrow> Inl (wrapErr (error_text ErrImageLayerPull @ '' due to: '') e)
            | Inr layer \<Rightarrow> Inr layer))"
proof
  note n = NewOCIRegistry_host [OF assms(1)] and r = ComposeRepository_reader [OF assms(3)]
  have "IsInsecure oci" using n(1) by simp
  then show "stdOptions (om_reader reader) = Inr [WithContext, WithAuthFromKeychain keyChain, Insecure]"
    using r(2) r(3) [symmetric] by (simp add: stdOptions_def)
  let ?ref = "image_ref env (ConvertToImageSpec (GetReference oci) l)"
  have "\<not> hasPrefix ?ref ''http''"
  proof
    assume a: "hasPrefix ?ref ''http''"
    obtain x y where x: "?ref = x @ CHR ''/'' # y" and h: "x = host \<or> x = trimRight host ''/''"
      using n(2) trimScheme_http [of host] by (cases "subPath = []") (auto simp: image_ref_def ConvertToImageSpec_def)
    have "hasPrefix x ''http''" using prefix_before_slash [of x y "''http''"] a x by simp
    then show False using h prefix_trimRight [of host "''/''" "''http''"] assms(2) by blast
  qed
  then have "\<not> hasPrefix ?ref ''http://''" and "noSchemeURL ?ref = ?ref"
    using prefix_shorter [of ?ref "''http''" "''://''"] prefix_shorter [of ?ref "''http''" "''s://''"]
    by (auto simp: noSchemeURL_def)
  then show "let ref = ?ref in pullLayer env ref = (case fx_pull env ref False of
             Inl e \<Rightarrow> Inl (wrapErr (error_text ErrImageLayerPull @ '' due to: '') e)
           | Inr layer \<Rightarrow> Inr layer)"
    by (simp add: pullLayer_def)
qed

section \<open>Witnesses\<close>

definition ex_oci :: OCIRegistry where
  "ex_oci = \<lparr>or_registry = ''registry.local:5000/modules'', or_insecure = True\<rparr>"

definition ex_reader :: "(string, string) OcmReader" where
  "ex_reader = \<lparr>om_hostWithPort = ''registry.local:5000/modules'',
     om_reader = \<lparr>oc_insecure = True, oc_keyChainLookup = Inr ''google'', oc_config = (\<lambda>ref opts. Inr ref), oc_pullLayer = (\<lambda>ref opts. Inr ref)\<rparr>\<rparr>"

definition ex_oci_layer :: Layer where
  "ex_oci_layer = \<lparr>ly_Name = ''raw-manifest'', ly_Oci = ex_image\<rparr>"

lemma ex_oci_resolved:
  "NewOCIRegistry (\<lambda>b. Inr []) (Some (\<lambda>n. Inl notFoundErr)) (''http://'' @ ''registry.local:5000/'') [] ''/modules'' = Inr ex_oci"
  by code_simp

lemma ex_reader_composed:
  "ComposeRepository (\<lambda>ref opts. Inr ref) (\<lambda>ref opts. Inr ref) (Some (Inr ''google'')) ex_oci = Inr ex_reader"
  by (simp add: ComposeRepository_def oci_NewRepository_def ocm_NewRepository_def ex_oci_def ex_reader_def IsInsecure_def
      GetReference_def)

theorem one_repository_per_component_witness:
  "\<exists>repository. toImageRef (fx_namespace ex_layer_env) ex_reader ''istio'' ''1.0.0'' = repository @ '':'' @ ''1.0.0''
    \<and> image_ref ex_layer_env (ConvertToImageSpec (GetReference ex_oci) ex_oci_layer) = repository @ ''@'' @ ''sha256:1''"
proof -
  have "proper_path (GetReference ex_oci)" and "proper_path (fx_namespace ex_layer_env)" and "proper_path ''istio''"
    and "is_Name (ly_Oci ex_oci_layer) = ''istio''" and r: "is_Ref (ly_Oci ex_oci_layer) = ''sha256:1''"
    unfolding proper_path_def by code_simp+
  from one_repository_per_component [OF ex_reader_composed this(1-4), of "''1.0.0''"] r show ?thesis by metis
qed

theorem insecure_registry_layers_witness:
  "stdOptions (om_reader ex_reader) = Inr [WithContext, WithAuthFromKeychain ''google'', Insecure]"
proof -
  have "\<not> hasPrefix ''registry.local:5000/'' ''http''" by simp
  from insecure_registry_layers [OF ex_oci_resolved this ex_reader_composed] show ?thesis by (rule conjunct1)
qed

end
