(* ===== verification/ComponentDescriptor.thy ===== *)
theory ComponentDescriptor
  imports OciRegistry
begin

text \<open>
  The service that reads component descriptors (\<^verbatim>\<open>internal/service/componentdescriptor\<close>): the configuration of a component
  version names the layer with its descriptor, the layer is an archive, and the descriptor is the file of a fixed name in
  it. The archive reader of the standard library is modelled by what it yields: the headers with their content in the
  order of the archive, a content that breaks off with an error, or an error in place of a header. Decoding of JSON and
  of a descriptor are parameters.
\<close>

section \<open>Archives (\<^verbatim>\<open>untar.go\<close>)\<close>

definition ErrNotFoundInTar :: goerror where
  "ErrNotFoundInTar = Sentinel ''ErrNotFoundInTar'' ''not found in TAR archive''"
definition ErrTarTooLarge :: goerror where
  "ErrTarTooLarge = Sentinel ''ErrTarTooLarge'' ''entry in the TAR archive is too large''"
definition ErrLayerEmpty :: goerror where
  "ErrLayerEmpty = Sentinel ''ErrLayerEmpty'' ''layer content is empty''"

definition io_EOF :: goerror where "io_EOF = Sentinel ''io.EOF'' ''EOF''"

definition maxDescriptorSizeBytes :: int where "maxDescriptorSizeBytes = 100 * 1024"
definition tarReadChunkSize :: nat where "tarReadChunkSize = 10 * 1024"

record tar_Header =
  hdr_Name :: string
  hdr_Size :: int

text \<open>The unread content of an entry, and the error that follows it (the end of the entry, or a broken archive).\<close>

type_synonym entry_reader = "string \<times> goerror"
type_synonym tar_archive = "(goerror + tar_Header \<times> entry_reader) list"

text \<open>\<^verbatim>\<open>io.CopyN\<close>: it copies \<open>n\<close> bytes, or fewer together with the error that ended the copy.\<close>

definition io_CopyN :: "nat \<Rightarrow> entry_reader \<Rightarrow> string \<times> entry_reader \<times> goerror option" where
  "io_CopyN n r =
     (case r of (rest, e) \<Rightarrow>
        if n \<le> length rest then (take n rest, (drop n rest, e), None) else (rest, ([], e), Some e))"

text \<open>The loop that reads an entry in chunks.\<close>

function read_chunks :: "int \<Rightarrow> string \<Rightarrow> entry_reader \<Rightarrow> goerror + string" where
  "read_chunks maxSize buf r =
     (if int (length buf) < maxSize
      then (case io_CopyN tarReadChunkSize r of
              (data, r', None) \<Rightarrow> read_chunks maxSize (buf @ data) r'
            | (data, r', Some e) \<Rightarrow> if errors_Is e io_EOF then Inr (buf @ data) else Inl e)
      else Inr buf)"
  by pat_completeness auto

termination
  by (relation "measure (\<lambda>(m, buf, r). nat (m - int (length buf)))")
    (auto simp: io_CopyN_def tarReadChunkSize_def split: if_splits)

declare read_chunks.simps [simp del]

fun UnTar :: "tar_archive \<Rightarrow> string \<Rightarrow> goerror + string" where
  "UnTar [] name = Inl (Errorf [Lit (name @ '' ''), Wrap ErrNotFoundInTar])"
| "UnTar (Inl e # rest) name =
     (if errors_Is e io_EOF then Inl (Errorf [Lit (name @ '' ''), Wrap ErrNotFoundInTar]) else Inl e)"
| "UnTar (Inr (hdr, r) # rest) name =
     (if hdr_Name hdr = name
      then (let maxSize = (if hdr_Size hdr \<le> 0 then maxDescriptorSizeBytes else hdr_Size hdr) in
            if maxSize > maxDescriptorSizeBytes then Inl (Errorf [Lit (name @ '' ''), Wrap ErrTarTooLarge])
            else read_chunks maxSize [] r)
      else UnTar rest name)"

section \<open>Files of a layer (\<^verbatim>\<open>extractor.go\<close>)\<close>

text \<open>
  A layer: its digest (with an error that may come beside it) and its uncompressed content; \<open>untar\<close> reads the archive in
  the bytes of a layer.
\<close>

record cr_layer =
  cl_Digest :: "string \<times> goerror option"
  cl_Uncompressed :: "goerror + (goerror + string)"

definition wrap_extract :: "cr_layer \<Rightarrow> string \<Rightarrow> goerror \<Rightarrow> goerror" where
  "wrap_extract layer fileName err =
     (case cl_Digest layer of (digest, derr) \<Rightarrow>
        wrapErr (''failed to extract data of file='' @ [CHR 0x22] @ fileName @ [CHR 0x22]
                 @ '' from TAR archive in a layer with digest='' @ [CHR 0x22] @ digest @ [CHR 0x22] @ '': '')
          (case derr of None \<Rightarrow> err | Some d \<Rightarrow> errors_Join err d))"

definition ExtractFileFromLayer :: "(string \<Rightarrow> tar_archive) \<Rightarrow> cr_layer \<Rightarrow> string \<Rightarrow> goerror + string" where
  "ExtractFileFromLayer untar layer fileName =
     (case cl_Uncompressed layer of
        Inl e \<Rightarrow> Inl (wrap_extract layer fileName e)
      | Inr (Inl e) \<Rightarrow> Inl (wrap_extract layer fileName e)
      | Inr (Inr layerBytes) \<Rightarrow>
          if layerBytes = [] then Inl (wrap_extract layer fileName ErrLayerEmpty)
          else (case UnTar (untar layerBytes) fileName of
                  Inl e \<Rightarrow> Inl (wrap_extract layer fileName e)
                | Inr b \<Rightarrow> Inr b))"

section \<open>The service (\<^verbatim>\<open>service.go\<close>)\<close>

definition ErrInvalidArg :: goerror where
  "ErrInvalidArg = Sentinel ''ErrInvalidArg'' ''invalid argument''"
definition ErrLayerNil :: goerror where
  "ErrLayerNil = Sentinel ''ErrLayerNil'' ''ComponentDescriptorLayer is nil in ComponentDescriptorConfig''"
definition ErrLayerDigestEmpty :: goerror where
  "ErrLayerDigestEmpty =
     Sentinel ''ErrLayerDigestEmpty'' ''ComponentDescriptorLayer.Digest is empty in ComponentDescriptorConfig''"
definition ErrDecode :: goerror where
  "ErrDecode = Sentinel ''ErrDecode'' ''failed to decode component descriptor''"

text \<open>
  The repository, the decoder of a configuration (the digest of the layer, \<open>None\<close> when no layer is named), the archive
  reader, the name of the file with the descriptor and the decoder of a descriptor.
\<close>

record descriptor_env =
  de_GetConfig :: "string \<Rightarrow> string \<Rightarrow> goerror + string"
  de_PullLayer :: "string \<Rightarrow> string \<Rightarrow> string \<Rightarrow> goerror + cr_layer"
  de_unmarshal :: "string \<Rightarrow> goerror + string option"
  de_untar :: "string \<Rightarrow> tar_archive"
  de_fileName :: string
  de_decode :: "string \<Rightarrow> goerror + Descriptor"

definition commonErrMsg :: "ComponentId \<Rightarrow> string" where
  "commonErrMsg c =
     ''ocm artifact with name='' @ [CHR 0x22] @ fst c @ [CHR 0x22] @ '' and version='' @ [CHR 0x22] @ snd c @ [CHR 0x22]"

definition getDescriptorLayerDigest :: "descriptor_env \<Rightarrow> ComponentId \<Rightarrow> goerror + string" where
  "getDescriptorLayerDigest env c =
     (case de_GetConfig env (fst c) (snd c) of
        Inl e \<Rightarrow> Inl (wrapErr (''failed to get config file for '' @ commonErrMsg c @ '': '') e)
      | Inr configBytes \<Rightarrow>
          (case de_unmarshal env configBytes of
             Inl e \<Rightarrow>
               Inl (wrapErr (''failed to unmarshal config data into ComponentDescriptorConfig for '' @ commonErrMsg c @ '': '') e)
           | Inr None \<Rightarrow> Inl (wrapPost ErrLayerNil ('' for '' @ commonErrMsg c))
           | Inr (Some digest) \<Rightarrow>
               if digest = [] then Inl (wrapPost ErrLayerDigestEmpty ('' for '' @ commonErrMsg c)) else Inr digest))"

definition Deserialize :: "descriptor_env \<Rightarrow> string \<Rightarrow> goerror + Descriptor" where
  "Deserialize env b =
     (case de_decode env b of Inl e \<Rightarrow> Inl (Errorf [Wrap ErrDecode, Lit '': '', Wrap e]) | Inr d \<Rightarrow> Inr d)"

definition GetComponentDescriptor :: "descriptor_env \<Rightarrow> ComponentId \<Rightarrow> goerror + Descriptor" where
  "GetComponentDescriptor env c =
     (case getDescriptorLayerDigest env c of
        Inl e \<Rightarrow> Inl e
      | Inr digest \<Rightarrow>
          (case de_PullLayer env (fst c) (snd c) digest of
             Inl e \<Rightarrow>
               Inl (wrapErr (''failed to pull layer for ocm artifact with name='' @ [CHR 0x22] @ fst c @ [CHR 0x22]
                      @ '', version='' @ [CHR 0x22] @ snd c @ [CHR 0x22] @ '' and digest='' @ [CHR 0x22] @ digest @ [CHR 0x22] @ '': '') e)
           | Inr layer \<Rightarrow>
               (case ExtractFileFromLayer (de_untar env) layer (de_fileName env) of
                  Inl e \<Rightarrow>
                    Inl (wrapErr (''failed to extract component descriptor from layer fetched from '' @ commonErrMsg c
                           @ '' with digest='' @ [CHR 0x22] @ digest @ [CHR 0x22] @ '': '') e)
                | Inr b \<Rightarrow>
                    (case Deserialize env b of
                       Inl e \<Rightarrow> Inl (wrapErr (''failed to get component descriptor for '' @ commonErrMsg c @ '': '') e)
                     | Inr d \<Rightarrow> Inr d))))"

text \<open>The constructor checks its collaborators.\<close>

definition NewService :: "'a option \<Rightarrow> 'b option \<Rightarrow> goerror option" where
  "NewService ociRepository fExt =
     (case ociRepository of
        None \<Rightarrow> Some (wrapErr ''ociRepository must not be nil: '' ErrInvalidArg)
      | Some r \<Rightarrow> (case fExt of None \<Rightarrow> Some (wrapErr ''fileExtractor must not be nil: '' ErrInvalidArg) | Some f \<Rightarrow> None))"

text \<open>The service as it is composed at start-up, on the reader of the resolved registry.\<close>

definition ComposeComponentDescriptorService ::
  "string \<Rightarrow> ('kc, cr_layer) OcmReader \<Rightarrow> (string \<Rightarrow> goerror + string option) \<Rightarrow> (string \<Rightarrow> tar_archive) \<Rightarrow> string
    \<Rightarrow> (string \<Rightarrow> goerror + Descriptor) \<Rightarrow> descriptor_env" where
  "ComposeComponentDescriptorService ns reader unmarshal untar fileName decode =
     \<lparr>de_GetConfig = ocm_GetConfig ns reader, de_PullLayer = ocm_PullLayer ns reader, de_unmarshal = unmarshal,
      de_untar = untar, de_fileName = fileName, de_decode = decode\<rparr>"

section \<open>The loop over the chunks\<close>

text \<open>
  A chunk loop on an entry that ends regularly returns the whole rest when the limit is not below its length, and never
  more than the limit and one chunk for any entry.
\<close>

lemma read_chunks_whole:
  "int (length buf) + int (length rest) \<le> maxSize \<Longrightarrow> read_chunks maxSize buf (rest, io_EOF) = Inr (buf @ rest)"
proof (induction "length rest" arbitrary: buf rest rule: less_induct)
  case less
  show ?case
  proof (cases "int (length buf) < maxSize \<and> tarReadChunkSize \<le> length rest")
    case True
    have "length (drop tarReadChunkSize rest) < length rest" using True by (auto simp: tarReadChunkSize_def)
    then have "read_chunks maxSize (buf @ take tarReadChunkSize rest) (drop tarReadChunkSize rest, io_EOF) = Inr (buf @ rest)"
      using less(1) [of "drop tarReadChunkSize rest" "buf @ take tarReadChunkSize rest"] True less(2)
      by (simp add: tarReadChunkSize_def)
    then show ?thesis using True by (subst read_chunks.simps) (simp add: io_CopyN_def)
  next
    case False
    have "\<not> int (length buf) < maxSize \<Longrightarrow> length rest = 0" using less(2) by arith
    then show ?thesis using False by (subst read_chunks.simps) (auto simp: io_CopyN_def)
  qed
qed

lemma read_chunks_bound:
  "read_chunks maxSize buf r = Inr b \<Longrightarrow> int (length buf) < maxSize + int tarReadChunkSize
    \<Longrightarrow> int (length b) < maxSize + int tarReadChunkSize"
proof (induction maxSize buf r rule: read_chunks.induct)
  case (1 maxSize buf r)
  obtain rest e where r: "r = (rest, e)" by (cases r)
  show ?case
  proof (cases "int (length buf) < maxSize")
    case True
    show ?thesis
    proof (cases "tarReadChunkSize \<le> length rest")
      case long: True
      have "read_chunks maxSize (buf @ take tarReadChunkSize rest) (drop tarReadChunkSize rest, e) = Inr b"
        using 1(2) True long by (subst (asm) read_chunks.simps) (simp add: io_CopyN_def r)
      then show ?thesis
        using 1(1) [OF True, of "take tarReadChunkSize rest" "((drop tarReadChunkSize rest, e), None)"
            "(drop tarReadChunkSize rest, e)" None] True long r
        by (simp add: io_CopyN_def)
    next
      case False
      then have "b = buf @ rest" using 1(2) True by (subst (asm) read_chunks.simps) (auto simp: io_CopyN_def r split: if_splits)
      then show ?thesis using True False by simp
    qed
  next
    case False
    then show ?thesis using 1(2,3) by (subst (asm) read_chunks.simps) simp
  qed
qed


section \<open>Extracting a file\<close>

text \<open>
  An archive as \<^verbatim>\<open>archive/tar\<close> documents its reader: the content of an entry has the length that its header gives and
  then ends regularly; only the end of the archive stands in place of a header.
\<close>

definition archive_ok :: "tar_archive \<Rightarrow> bool" where
  "archive_ok es \<longleftrightarrow> (\<forall>x \<in> set es. case x of Inl e \<Rightarrow> False
     | Inr (hdr, rest, e) \<Rightarrow> hdr_Size hdr = int (length rest) \<and> e = io_EOF)"

text \<open>The reference: the content of the first entry of that name, if it is within the limit.\<close>

fun first_entry :: "tar_archive \<Rightarrow> string \<Rightarrow> string option" where
  "first_entry [] name = None"
| "first_entry (Inl e # rest) name = None"
| "first_entry (Inr (hdr, r) # rest) name = (if hdr_Name hdr = name then Some (fst r) else first_entry rest name)"

text \<open>Extraction of a file: from a regular archive the extractor returns the whole content of the first entry of the
  name when it is not larger than 100 KiB, refuses a larger one, and reports an absent one; the chunks of 10 KiB do not
  show.\<close>

lemma UnTar_reference:
  assumes "archive_ok es"
  shows "UnTar es name =
    (case first_entry es name of
       None \<Rightarrow> Inl (Errorf [Lit (name @ '' ''), Wrap ErrNotFoundInTar])
     | Some b \<Rightarrow> if int (length b) \<le> maxDescriptorSizeBytes then Inr b
                 else Inl (Errorf [Lit (name @ '' ''), Wrap ErrTarTooLarge]))"
  using assms
proof (induction es name rule: UnTar.induct)
  case (3 hdr r rest name)
  have size: "hdr_Size hdr = int (length (fst r))" and r: "r = (fst r, io_EOF)"
    using 3(2) by (auto simp: archive_ok_def split: prod.splits)
  have max: "0 < maxDescriptorSizeBytes" by (simp add: maxDescriptorSizeBytes_def)
  show ?case
  proof (cases "hdr_Name hdr = name")
    case True
    have chunks: "int (length (fst r)) \<le> m \<Longrightarrow> read_chunks m [] r = Inr (fst r)" for m
      using read_chunks_whole [of "[]" "fst r" m] r by simp
    show ?thesis
    proof (cases "hdr_Size hdr \<le> 0")
      case True
      then show ?thesis using chunks size max \<open>hdr_Name hdr = name\<close> by (auto simp: Let_def)
    next
      case False
      then show ?thesis using chunks size \<open>hdr_Name hdr = name\<close> by (auto simp: Let_def)
    qed
  next
    case False
    then show ?thesis using 3 by (simp add: archive_ok_def)
  qed
qed (auto simp: archive_ok_def)

text \<open>C32. Protection against large entries: whatever an archive contains, also a broken one or one whose headers give a
  wrong size, the extractor never returns 110 KiB or more.\<close>

theorem UnTar_bound:
  assumes "UnTar es name = Inr b"
  shows "length b < 110 * 1024"
  using assms
proof (induction es name rule: UnTar.induct)
  case (3 hdr r rest name)
  show ?case
  proof (cases "hdr_Name hdr = name")
    case True
    let ?m = "if hdr_Size hdr \<le> 0 then maxDescriptorSizeBytes else hdr_Size hdr"
    have m: "?m \<le> maxDescriptorSizeBytes \<and> 0 < ?m" and "read_chunks ?m [] r = Inr b"
      using 3(2) True by (auto simp: Let_def maxDescriptorSizeBytes_def split: if_splits)
    then have "int (length b) < ?m + int tarReadChunkSize"
      using read_chunks_bound [of ?m "[]" r b] by (simp add: tarReadChunkSize_def)
    then show ?thesis using m by (simp add: maxDescriptorSizeBytes_def tarReadChunkSize_def)
  next
    case False
    then show ?thesis using 3 by simp
  qed
qed (auto split: if_splits)


section \<open>Reading a descriptor\<close>

lemma getDescriptorLayerDigest_ok:
  "getDescriptorLayerDigest env c = Inr digest \<longleftrightarrow>
     digest \<noteq> [] \<and> (\<exists>config. de_GetConfig env (fst c) (snd c) = Inr config \<and> de_unmarshal env config = Inr (Some digest))"
  by (auto simp: getDescriptorLayerDigest_def split: sum.splits option.splits if_splits)

lemma ExtractFileFromLayer_ok:
  "ExtractFileFromLayer untar layer name = Inr b \<longleftrightarrow>
     (\<exists>layerBytes. cl_Uncompressed layer = Inr (Inr layerBytes) \<and> layerBytes \<noteq> [] \<and> UnTar (untar layerBytes) name = Inr b)"
  by (auto simp: ExtractFileFromLayer_def split: sum.splits if_splits)

text \<open>The content of the layer that is named as the descriptor layer of a component, and the file in it.\<close>

definition descriptor_file :: "descriptor_env \<Rightarrow> ComponentId \<Rightarrow> string \<Rightarrow> bool" where
  "descriptor_file env c b \<longleftrightarrow>
     (\<exists>config digest layer layerBytes.
        de_GetConfig env (fst c) (snd c) = Inr config \<and> de_unmarshal env config = Inr (Some digest) \<and> digest \<noteq> []
      \<and> de_PullLayer env (fst c) (snd c) digest = Inr layer \<and> cl_Uncompressed layer = Inr (Inr layerBytes) \<and> layerBytes \<noteq> []
      \<and> first_entry (de_untar env layerBytes) (de_fileName env) = Some b \<and> int (length b) \<le> maxDescriptorSizeBytes)"

lemma UnTar_ok_iff:
  "archive_ok es \<Longrightarrow> UnTar es name = Inr b \<longleftrightarrow> first_entry es name = Some b \<and> int (length b) \<le> maxDescriptorSizeBytes"
  by (auto simp: UnTar_reference split: option.splits)


text \<open>The service never reports that a template is not allowed, so that the parser of modules may rely on it.\<close>

definition descriptor_env_foreign :: "descriptor_env \<Rightarrow> bool" where
  "descriptor_env_foreign env \<longleftrightarrow>
     (\<forall>n v e. de_GetConfig env n v = Inl e \<longrightarrow> foreign e) \<and> (\<forall>n v g e. de_PullLayer env n v g = Inl e \<longrightarrow> foreign e)
   \<and> (\<forall>b e. de_unmarshal env b = Inl e \<longrightarrow> foreign e) \<and> (\<forall>b e. de_decode env b = Inl e \<longrightarrow> foreign e)
   \<and> (\<forall>n v g l. de_PullLayer env n v g = Inr l \<longrightarrow> (\<forall>e. snd (cl_Digest l) = Some e \<longrightarrow> foreign e)
        \<and> (\<forall>e. cl_Uncompressed l = Inl e \<longrightarrow> foreign e) \<and> (\<forall>e. cl_Uncompressed l = Inr (Inl e) \<longrightarrow> foreign e))
   \<and> (\<forall>b e. Inl e \<in> set (de_untar env b) \<longrightarrow> foreign e)
   \<and> (\<forall>b hdr rest e. Inr (hdr, rest, e) \<in> set (de_untar env b) \<longrightarrow> foreign e)"

lemma foreign_descriptor_errors [simp]:
  "foreign ErrNotFoundInTar" "foreign ErrTarTooLarge" "foreign ErrLayerEmpty" "foreign ErrLayerNil"
  "foreign ErrLayerDigestEmpty" "foreign ErrDecode"
  by (simp_all add: foreign_def ErrTemplateNotAllowed_def ErrNotFoundInTar_def ErrTarTooLarge_def ErrLayerEmpty_def
      ErrLayerNil_def ErrLayerDigestEmpty_def ErrDecode_def)

lemma foreign_two [simp]:
  "foreign (Errorf [Wrap a, Lit s, Wrap b]) = (foreign a \<and> foreign b)" "foreign (errors_Join a b) = (foreign a \<and> foreign b)"
  by (simp_all add: foreign_def ErrTemplateNotAllowed_def errors_Join_def)

lemma read_chunks_error: "read_chunks m buf r = Inl e \<Longrightarrow> e = snd r"
proof (induction m buf r rule: read_chunks.induct)
  case (1 m buf r)
  obtain rest e' where r: "r = (rest, e')" by (cases r)
  show ?case
  proof (cases "int (length buf) < m \<and> tarReadChunkSize \<le> length rest")
    case True
    then have "read_chunks m (buf @ take tarReadChunkSize rest) (drop tarReadChunkSize rest, e') = Inl e"
      using 1(2) by (subst (asm) read_chunks.simps) (simp add: io_CopyN_def r)
    then show ?thesis
      using 1(1) [of "take tarReadChunkSize rest" "((drop tarReadChunkSize rest, e'), None)" "(drop tarReadChunkSize rest, e')" None]
        True r by (simp add: io_CopyN_def)
  next
    case False
    then show ?thesis using 1(2) by (subst (asm) read_chunks.simps) (auto simp: io_CopyN_def r split: if_splits)
  qed
qed

lemma UnTar_foreign:
  assumes "\<forall>e. Inl e \<in> set es \<longrightarrow> foreign e" and "\<forall>hdr rest e. Inr (hdr, rest, e) \<in> set es \<longrightarrow> foreign e"
    and "UnTar es name = Inl e"
  shows "foreign e"
  using assms
proof (induction es name rule: UnTar.induct)
  case (3 hdr r rest name)
  obtain c e' where r: "r = (c, e')" by (cases r)
  have f: "foreign e'" using 3(3) unfolding r by (meson list.set_intros(1))
  have chunk: "read_chunks m [] r = Inl e \<Longrightarrow> foreign e" for m using read_chunks_error [of m "[]" r e] f r by simp
  have IH: "UnTar rest name = Inl e \<Longrightarrow> hdr_Name hdr \<noteq> name \<Longrightarrow> foreign e"
    using 3(1) 3(2,3) by (meson list.set_intros(2))
  show ?case
    using 3(4) chunk IH by (auto simp: Let_def split: if_splits)
qed (auto split: if_splits)

lemma wrap_extract_foreign:
  "foreign e \<Longrightarrow> \<forall>d. snd (cl_Digest l) = Some d \<longrightarrow> foreign d \<Longrightarrow> foreign (wrap_extract l name e)"
  by (cases "cl_Digest l"; cases "snd (cl_Digest l)") (simp_all add: wrap_extract_def)


lemma ExtractFileFromLayer_foreign:
  assumes "descriptor_env_foreign env" and "de_PullLayer env n v g = Inr l"
    and "ExtractFileFromLayer (de_untar env) l name = Inl e"
  shows "foreign e"
proof -
  note f = assms(1) [unfolded descriptor_env_foreign_def]
  have d: "\<forall>d. snd (cl_Digest l) = Some d \<longrightarrow> foreign d" and u: "\<And>e. cl_Uncompressed l = Inl e \<Longrightarrow> foreign e"
      "\<And>e. cl_Uncompressed l = Inr (Inl e) \<Longrightarrow> foreign e"
    using f assms(2) by blast+
  have t: "UnTar (de_untar env b) name = Inl e' \<Longrightarrow> foreign e'" for b e'
    using UnTar_foreign [of "de_untar env b" name e'] f by blast
  show ?thesis
    using assms(3) u t wrap_extract_foreign [OF _ d]
    by (auto simp: ExtractFileFromLayer_def split: sum.splits if_splits)
qed

lemma GetComponentDescriptor_foreign:
  assumes "descriptor_env_foreign env" and "GetComponentDescriptor env c = Inl e"
  shows "foreign e"
proof -
  note f = assms(1) [unfolded descriptor_env_foreign_def]
  have config: "foreign e'" if "de_GetConfig env n v = Inl e'" for n v e' using f that by (elim conjE) simp
  have pull: "foreign e'" if "de_PullLayer env n v g = Inl e'" for n v g e' using f that by (elim conjE) simp
  have unmarshal: "foreign e'" if "de_unmarshal env b = Inl e'" for b e' using f that by (elim conjE) simp
  have decode: "foreign e'" if "de_decode env b = Inl e'" for b e' using f that by (elim conjE) simp
  have digest: "getDescriptorLayerDigest env c = Inl e' \<Longrightarrow> foreign e'" for e'
    using config unmarshal by (auto simp: getDescriptorLayerDigest_def split: sum.splits option.splits if_splits)
  show ?thesis
    using assms(2) digest pull decode ExtractFileFromLayer_foreign [OF assms(1)]
    by (auto simp: GetComponentDescriptor_def Deserialize_def split: sum.splits)
qed

section \<open>Witnesses\<close>

definition ex_archive :: tar_archive where
  "ex_archive = [Inr (\<lparr>hdr_Name = ''README.md'', hdr_Size = 2\<rparr>, ''hi'', io_EOF),
     Inr (\<lparr>hdr_Name = ''component-descriptor.yaml'', hdr_Size = 5\<rparr>, ''istio'', io_EOF)]"

definition ex_cr_layer :: cr_layer where
  "ex_cr_layer = \<lparr>cl_Digest = (''sha256:1'', None), cl_Uncompressed = Inr (Inr ''tar'')\<rparr>"

definition ex_registry :: "(string, cr_layer) OcmReader" where
  "ex_registry = \<lparr>om_hostWithPort = ''registry.local:5000'', om_reader = \<lparr>oc_insecure = False, oc_keyChainLookup = Inr ''google'',
     oc_config = (\<lambda>ref opts. if ref = ''registry.local:5000/component-descriptors/kyma-project.io/istio:1.10.0'' then Inr ''config'' else Inl notFoundErr),
     oc_pullLayer = (\<lambda>ref opts. if ref = ''registry.local:5000/component-descriptors/kyma-project.io/istio:1.10.0@sha256:1'' then Inr ex_cr_layer else Inl notFoundErr)\<rparr>\<rparr>"

definition ex_descriptor_env :: descriptor_env where
  "ex_descriptor_env = ComposeComponentDescriptorService ''component-descriptors'' ex_registry (\<lambda>b. Inr (Some ''sha256:1''))
     (\<lambda>b. ex_archive) ''component-descriptor.yaml'' (\<lambda>b. if b = ''istio'' then Inr ex_descriptor else Inl notFoundErr)"


theorem UnTar_bound_witness: "length ''istio'' < 110 * 1024"
proof -
  have "UnTar ex_archive ''component-descriptor.yaml'' = Inr ''istio''" by code_simp
  then show ?thesis by (rule UnTar_bound)
qed

end
