(* ===== verification/Metrics.thy ===== *)
theory Metrics
  imports KymaReconcile CertService Regex "HOL-Library.AList"
begin

text \<open>
  The metrics of the manager (\<^verbatim>\<open>internal/pkg/metrics\<close>) and the writer of deletion metrics
  (\<^verbatim>\<open>internal/controller/kyma/deletion/metric.go\<close>). A vector of gauges or counters of the Prometheus client is a parameter:
  setting and incrementing a series, deleting the series that match some labels, and gathering all series; \<open>gauge_ok\<close>
  states what its documentation promises. A series is identified by its labels in the order of the vector's label names.
\<close>

section \<open>Vectors of gauges\<close>

type_synonym series = "(string \<times> string) list"

record 'g gauge_api =
  ga_Set :: "series \<Rightarrow> int \<Rightarrow> 'g \<Rightarrow> 'g"
  ga_Inc :: "series \<Rightarrow> 'g \<Rightarrow> 'g"
  ga_DeletePartialMatch :: "series \<Rightarrow> 'g \<Rightarrow> 'g"
  ga_Gather :: "'g \<Rightarrow> goerror + (series \<times> int) list"

definition partial_match :: "series \<Rightarrow> series \<Rightarrow> bool" where
  "partial_match p ls \<longleftrightarrow> set p \<subseteq> set ls"

text \<open>
  Documented behaviour: \<^verbatim>\<open>Set\<close> sets one series, \<^verbatim>\<open>Inc\<close> adds one to it, \<^verbatim>\<open>DeletePartialMatch\<close> "deletes all metrics where
  the variable labels contain all of those passed in", and gathering lists every series once. Gathering does not start to
  fail because a series changed.
\<close>

definition gathers :: "'g gauge_api \<Rightarrow> 'g \<Rightarrow> (series \<rightharpoonup> int) \<Rightarrow> bool" where
  "gathers api g m \<longleftrightarrow> (\<exists>ms. ga_Gather api g = Inr ms \<and> map_of ms = m)"

definition gauge_ok :: "'g gauge_api \<Rightarrow> bool" where
  "gauge_ok api \<longleftrightarrow>
     (\<forall>g m. gathers api g m \<longrightarrow>
        (\<forall>ls v. gathers api (ga_Set api ls v g) (m(ls \<mapsto> v)))
      \<and> (\<forall>ls. gathers api (ga_Inc api ls g) (m(ls \<mapsto> (case m ls of None \<Rightarrow> 1 | Some n \<Rightarrow> n + 1))))
      \<and> (\<forall>p. gathers api (ga_DeletePartialMatch api p g) (\<lambda>ls. if partial_match p ls then None else m ls)))"

section \<open>Labels of a Kyma (\<^verbatim>\<open>common.go\<close>)\<close>

definition shootIDLabel :: string where "shootIDLabel = ''shoot''"
definition instanceIDLabel :: string where "instanceIDLabel = ''instance_id''"
definition metrics_KymaNameLabel :: string where "metrics_KymaNameLabel = ''kyma_name''"
definition stateLabel :: string where "stateLabel = ''state''"
definition moduleNameLabel :: string where "moduleNameLabel = ''module_name''"
definition requeueReasonLabel :: string where "requeueReasonLabel = ''requeue_reason''"
definition requeueTypeLabel :: string where "requeueTypeLabel = ''requeue_type''"
definition InstanceIDLabel :: string where "InstanceIDLabel = ''kyma-project.io/instance-id''"

lemmas metric_label_defs = shootIDLabel_def instanceIDLabel_def metrics_KymaNameLabel_def stateLabel_def moduleNameLabel_def

definition errMissingShootAnnotation :: goerror where
  "errMissingShootAnnotation = Sentinel ''errMissingShootAnnotation''
     (''expected annotation '' @ [CHR 0x27] @ SkrDomainAnnotation @ [CHR 0x27] @ '' not found'')"
definition errShootAnnotationNoValue :: goerror where
  "errShootAnnotationNoValue = Sentinel ''errShootAnnotationNoValue''
     (''annotation '' @ [CHR 0x27] @ SkrDomainAnnotation @ [CHR 0x27] @ '' has empty value'')"
definition errMissingInstanceLabel :: goerror where
  "errMissingInstanceLabel = Sentinel ''errMissingInstanceLabel''
     (''expected label '' @ [CHR 0x27] @ InstanceIDLabel @ [CHR 0x27] @ '' not found'')"
definition errInstanceLabelNoValue :: goerror where
  "errInstanceLabelNoValue = Sentinel ''errInstanceLabelNoValue''
     (''label '' @ [CHR 0x27] @ InstanceIDLabel @ [CHR 0x27] @ '' has empty value'')"
definition errMetric :: goerror where
  "errMetric = Sentinel ''errMetric'' ''failed to update metrics''"

definition ExtractShootID :: "Kyma \<Rightarrow> goerror + string" where
  "ExtractShootID k =
     (case om_Annotations (kyma_Meta k) SkrDomainAnnotation of
        None \<Rightarrow> Inl errMissingShootAnnotation
      | Some shootFQDN \<Rightarrow>
          (let parts = split_on (CHR ''.'') shootFQDN;
               shoot = (if length parts > 2 then hd parts else []) in
           if shoot = [] then Inl errShootAnnotationNoValue else Inr shoot))"

definition ExtractInstanceID :: "Kyma \<Rightarrow> goerror + string" where
  "ExtractInstanceID k =
     (case kyma_labels k InstanceIDLabel of
        None \<Rightarrow> Inl errMissingInstanceLabel
      | Some instanceID \<Rightarrow> if instanceID = [] then Inl errInstanceLabelNoValue else Inr instanceID)"

definition IsMissingMetricsAnnotationOrLabel :: "goerror \<Rightarrow> bool" where
  "IsMissingMetricsAnnotationOrLabel err \<longleftrightarrow>
     errors_Is err errInstanceLabelNoValue \<or> errors_Is err errMissingInstanceLabel
   \<or> errors_Is err errShootAnnotationNoValue \<or> errors_Is err errMissingShootAnnotation"

section \<open>Metrics of Kymas (\<^verbatim>\<open>kyma.go\<close>)\<close>

definition MetricKymaState :: string where "MetricKymaState = ''lifecycle_mgr_kyma_state''"
definition MetricModuleState :: string where "MetricModuleState = ''lifecycle_mgr_module_state''"

record 'g KymaMetrics =
  kmt_KymaStateGauge :: 'g
  kmt_moduleStateGauge :: 'g
  kmt_requeueReasonCounter :: 'g

definition calcStateValue :: "State \<Rightarrow> State \<Rightarrow> int" where
  "calcStateValue state newState = (if state = newState then 1 else 0)"

definition kyma_series :: "string \<Rightarrow> State \<Rightarrow> string \<Rightarrow> string \<Rightarrow> series" where
  "kyma_series kymaName state shootID instanceID =
     [(metrics_KymaNameLabel, kymaName), (stateLabel, state_text state), (shootIDLabel, shootID), (instanceIDLabel, instanceID)]"

definition module_series :: "string \<Rightarrow> string \<Rightarrow> State \<Rightarrow> string \<Rightarrow> string \<Rightarrow> series" where
  "module_series moduleName kymaName state shootID instanceID =
     [(moduleNameLabel, moduleName), (metrics_KymaNameLabel, kymaName), (stateLabel, state_text state), (shootIDLabel, shootID),
      (instanceIDLabel, instanceID)]"

definition setKymaStateGauge ::
  "'g gauge_api \<Rightarrow> State \<Rightarrow> string \<Rightarrow> string \<Rightarrow> string \<Rightarrow> 'g KymaMetrics \<Rightarrow> 'g KymaMetrics" where
  "setKymaStateGauge api newState kymaName shootID instanceID m =
     m\<lparr>kmt_KymaStateGauge :=
         fold (\<lambda>state. ga_Set api (kyma_series kymaName state shootID instanceID) (calcStateValue state newState))
           AllKymaStates (kmt_KymaStateGauge m)\<rparr>"

definition setModuleStateGauge ::
  "'g gauge_api \<Rightarrow> State \<Rightarrow> string \<Rightarrow> string \<Rightarrow> string \<Rightarrow> string \<Rightarrow> 'g KymaMetrics \<Rightarrow> 'g KymaMetrics" where
  "setModuleStateGauge api newState moduleName kymaName shootID instanceID m =
     m\<lparr>kmt_moduleStateGauge :=
         fold (\<lambda>state. ga_Set api (module_series moduleName kymaName state shootID instanceID) (calcStateValue state newState))
           AllModuleStates (kmt_moduleStateGauge m)\<rparr>"

definition UpdateAll :: "'g gauge_api \<Rightarrow> Kyma \<Rightarrow> 'g KymaMetrics \<Rightarrow> 'g KymaMetrics \<times> goerror option" where
  "UpdateAll api k m =
     (case ExtractShootID k of
        Inl e \<Rightarrow> (m, Some (Errorf [Wrap errMetric, Lit '': '', Wrap e]))
      | Inr shootID \<Rightarrow>
          (case ExtractInstanceID k of
             Inl e \<Rightarrow> (m, Some (Errorf [Wrap errMetric, Lit '': '', Wrap e]))
           | Inr instanceID \<Rightarrow>
               (let n = om_Name (kyma_Meta k);
                    m1 = setKymaStateGauge api (kst_State (kyma_Status k)) n shootID instanceID m in
                (fold (\<lambda>ms. setModuleStateGauge api (ms_State ms) (ms_Name ms) n shootID instanceID) (kyma_modules k) m1, None))))"

definition KymaMetrics_CleanupMetrics :: "'g gauge_api \<Rightarrow> string \<Rightarrow> 'g KymaMetrics \<Rightarrow> 'g KymaMetrics" where
  "KymaMetrics_CleanupMetrics api kymaName m =
     m\<lparr>kmt_KymaStateGauge := ga_DeletePartialMatch api [(metrics_KymaNameLabel, kymaName)] (kmt_KymaStateGauge m),
       kmt_moduleStateGauge := ga_DeletePartialMatch api [(metrics_KymaNameLabel, kymaName)] (kmt_moduleStateGauge m)\<rparr>"

text \<open>
  The registry gathers the families of all vectors; one without a series is absent. Only the two families of Kymas are ever
  looked up by name.
\<close>

definition Registry_Gather :: "'g gauge_api \<Rightarrow> 'g KymaMetrics \<Rightarrow> goerror + (string \<times> (series \<times> int) list) list" where
  "Registry_Gather api m =
     (case ga_Gather api (kmt_KymaStateGauge m) of
        Inl e \<Rightarrow> Inl e
      | Inr ks \<Rightarrow>
          (case ga_Gather api (kmt_moduleStateGauge m) of
             Inl e \<Rightarrow> Inl e
           | Inr ms \<Rightarrow> Inr (filter (\<lambda>f. snd f \<noteq> []) [(MetricKymaState, ks), (MetricModuleState, ms)])))"

definition fetchMetrics :: "'g gauge_api \<Rightarrow> 'g KymaMetrics \<Rightarrow> string \<Rightarrow> goerror + series list" where
  "fetchMetrics api m metricName =
     (case Registry_Gather api m of
        Inl e \<Rightarrow> Inl (wrapErr (''failed to fetch '' @ metricName @ '' metrics: '') e)
      | Inr families \<Rightarrow>
          Inr (case find (\<lambda>f. fst f = metricName) families of Some f \<Rightarrow> map fst (snd f) | None \<Rightarrow> []))"

text \<open>The labels of a metric are read into a map, in which the last of equal names wins; an absent one reads as empty.\<close>

definition label_value :: "series \<Rightarrow> string \<Rightarrow> string" where
  "label_value metric n = (case map_of (rev metric) n of Some v \<Rightarrow> v | None \<Rightarrow> [])"

definition matchesLabels :: "series \<Rightarrow> series list \<Rightarrow> bool" where
  "matchesLabels metric labels = list_all (\<lambda>l. list_all (\<lambda>(k, v). label_value metric k = v) l) labels"

definition filterByLabels :: "series list \<Rightarrow> series list \<Rightarrow> series list" where
  "filterByLabels metrics labels = filter (\<lambda>m. matchesLabels m labels) metrics"

definition hasMetricsForKyma :: "'g gauge_api \<Rightarrow> 'g KymaMetrics \<Rightarrow> string \<Rightarrow> string \<Rightarrow> goerror + bool" where
  "hasMetricsForKyma api m kymaName metricName =
     (case fetchMetrics api m metricName of
        Inl e \<Rightarrow> Inl e
      | Inr metrics \<Rightarrow> Inr (filterByLabels metrics [[(metrics_KymaNameLabel, kymaName)]] \<noteq> []))"

definition HasMetrics :: "'g gauge_api \<Rightarrow> 'g KymaMetrics \<Rightarrow> string \<Rightarrow> goerror + bool" where
  "HasMetrics api m kymaName =
     (case hasMetricsForKyma api m kymaName MetricKymaState of
        Inl e \<Rightarrow> Inl e
      | Inr True \<Rightarrow> Inr True
      | Inr False \<Rightarrow> hasMetricsForKyma api m kymaName MetricModuleState)"

definition RemoveModuleStateMetrics :: "'g gauge_api \<Rightarrow> string \<Rightarrow> string \<Rightarrow> 'g KymaMetrics \<Rightarrow> 'g KymaMetrics" where
  "RemoveModuleStateMetrics api kymaName moduleName m =
     m\<lparr>kmt_moduleStateGauge :=
         ga_DeletePartialMatch api [(moduleNameLabel, moduleName), (metrics_KymaNameLabel, kymaName)] (kmt_moduleStateGauge m)\<rparr>"

definition RecordRequeueReason :: "'g gauge_api \<Rightarrow> string \<Rightarrow> string \<Rightarrow> 'g KymaMetrics \<Rightarrow> 'g KymaMetrics" where
  "RecordRequeueReason api kymaRequeueReason requeueType m =
     m\<lparr>kmt_requeueReasonCounter :=
         ga_Inc api [(requeueReasonLabel, kymaRequeueReason), (requeueTypeLabel, requeueType)] (kmt_requeueReasonCounter m)\<rparr>"

fun getKymaNameFromLabels :: "series \<Rightarrow> string" where
  "getKymaNameFromLabels [] = []"
| "getKymaNameFromLabels ((n, v) # rest) = (if n = metrics_KymaNameLabel then v else getKymaNameFromLabels rest)"

definition getKymaNames :: "Kyma list \<Rightarrow> string set" where
  "getKymaNames kymas = set (map (\<lambda>k. om_Name (kyma_Meta k)) kymas)"

text \<open>The body of the loop over the series.\<close>

definition drop_vanished :: "'g gauge_api \<Rightarrow> Kyma list \<Rightarrow> series \<Rightarrow> 'g KymaMetrics \<Rightarrow> 'g KymaMetrics" where
  "drop_vanished api kymas metric m =
     (let n = getKymaNameFromLabels metric in
      if n = [] then m
      else if n \<notin> getKymaNames kymas
      then m\<lparr>kmt_KymaStateGauge := ga_DeletePartialMatch api [(metrics_KymaNameLabel, n)] (kmt_KymaStateGauge m)\<rparr>
      else m)"

definition CleanupNonExistingKymaCrsMetrics ::
  "'g gauge_api \<Rightarrow> (goerror + Kyma list) \<Rightarrow> 'g KymaMetrics \<Rightarrow> 'g KymaMetrics \<times> goerror option" where
  "CleanupNonExistingKymaCrsMetrics api listed m =
     (case fetchMetrics api m MetricKymaState of
        Inl e \<Rightarrow> (m, Some e)
      | Inr current \<Rightarrow>
          if current = [] then (m, None)
          else (case listed of
                  Inl e \<Rightarrow> (m, Some (wrapErr ''failed to fetch Kyma CRs, '' e))
                | Inr kymas \<Rightarrow>
                    (fold (drop_vanished api kymas) current m, None)))"

section \<open>Metrics of mandatory modules, Manifests and certificates\<close>

record 'g MandatoryModulesMetrics =
  mmt_mandatoryModulesCounter :: int
  mmt_moduleStateGauge :: 'g

definition AllMandatoryModuleStates :: "State list" where
  "AllMandatoryModuleStates = [StateReady, StateProcessing, StateError, StateDeleting, StateWarning]"

definition RecordMandatoryModulesCount :: "int \<Rightarrow> 'g MandatoryModulesMetrics \<Rightarrow> 'g MandatoryModulesMetrics" where
  "RecordMandatoryModulesCount n m = m\<lparr>mmt_mandatoryModulesCounter := n\<rparr>"

definition mandatory_series :: "string \<Rightarrow> string \<Rightarrow> State \<Rightarrow> series" where
  "mandatory_series moduleName kymaName state =
     [(moduleNameLabel, moduleName), (metrics_KymaNameLabel, kymaName), (stateLabel, state_text state)]"

definition RecordMandatoryModuleState ::
  "'g gauge_api \<Rightarrow> string \<Rightarrow> string \<Rightarrow> State \<Rightarrow> 'g MandatoryModulesMetrics \<Rightarrow> 'g MandatoryModulesMetrics" where
  "RecordMandatoryModuleState api kymaName moduleName newState m =
     m\<lparr>mmt_moduleStateGauge :=
         fold (\<lambda>state. ga_Set api (mandatory_series moduleName kymaName state) (calcStateValue state newState))
           AllMandatoryModuleStates (mmt_moduleStateGauge m)\<rparr>"

definition MandatoryModulesMetrics_CleanupMetrics ::
  "'g gauge_api \<Rightarrow> string \<Rightarrow> string \<Rightarrow> 'g MandatoryModulesMetrics \<Rightarrow> 'g MandatoryModulesMetrics" where
  "MandatoryModulesMetrics_CleanupMetrics api kymaName moduleName m =
     m\<lparr>mmt_moduleStateGauge :=
         ga_DeletePartialMatch api [(metrics_KymaNameLabel, kymaName), (moduleNameLabel, moduleName)] (mmt_moduleStateGauge m)\<rparr>"

definition ManifestNameLabel :: string where "ManifestNameLabel = ''manifest_name''"

text \<open>The duration of a reconciliation in seconds; \<open>seconds\<close> is the conversion of a duration.\<close>

definition RecordManifestDuration :: "'g gauge_api \<Rightarrow> (duration \<Rightarrow> int) \<Rightarrow> string \<Rightarrow> duration \<Rightarrow> 'g \<Rightarrow> 'g" where
  "RecordManifestDuration api seconds manifestName d g = ga_Set api [(ManifestNameLabel, manifestName)] (seconds d) g"

definition RemoveManifestDuration :: "'g gauge_api \<Rightarrow> string \<Rightarrow> 'g \<Rightarrow> 'g" where
  "RemoveManifestDuration api manifestName g = ga_DeletePartialMatch api [(ManifestNameLabel, manifestName)] g"

definition ManifestMetrics_CleanupMetrics :: "'g gauge_api \<Rightarrow> string \<Rightarrow> 'g \<Rightarrow> 'g" where
  "ManifestMetrics_CleanupMetrics api manifestName g = ga_DeletePartialMatch api [(ManifestNameLabel, manifestName)] g"

definition SetCertNotRenew :: "'g gauge_api \<Rightarrow> string \<Rightarrow> 'g \<Rightarrow> 'g" where
  "SetCertNotRenew api kymaName g = ga_Set api [(metrics_KymaNameLabel, kymaName)] 1 g"

definition WatcherMetrics_CleanupMetrics :: "'g gauge_api \<Rightarrow> string \<Rightarrow> 'g \<Rightarrow> 'g" where
  "WatcherMetrics_CleanupMetrics api kymaName g = ga_DeletePartialMatch api [(metrics_KymaNameLabel, kymaName)] g"

text \<open>Plain gauges.\<close>

definition ServerCertificateCloseToExpiry :: "bool \<Rightarrow> int" where
  "ServerCertificateCloseToExpiry on = (if on then 1 else 0)"

definition RecordConfigReadSuccess :: "bool \<Rightarrow> int" where
  "RecordConfigReadSuccess success = (if success then 1 else 0)"

section \<open>Deletion metrics (\<^verbatim>\<open>deletion/metric.go\<close>)\<close>

definition IntendedRequeue :: string where "IntendedRequeue = ''intended''"
definition UnexpectedRequeue :: string where "UnexpectedRequeue = ''unexpected''"

definition StatusUpdateToDeleting :: string where "StatusUpdateToDeleting = ''kyma_status_update_to_deleting''"
definition reason_KymaDeletion :: string where "reason_KymaDeletion = ''kyma_deletion''"
definition StatusSyncToRemote :: string where "StatusSyncToRemote = ''status_sync_to_remote''"
definition CleanupManifestCrs :: string where "CleanupManifestCrs = ''manifest_crs_cleanup''"
definition RemoteModuleCatalogDeletion :: string where "RemoteModuleCatalogDeletion = ''remote_module_catalog_deletion''"
definition RemoteKymaDeletion :: string where "RemoteKymaDeletion = ''remote_kyma_deletion''"

definition MetricWriter_Write :: "'g gauge_api \<Rightarrow> Result \<Rightarrow> 'g KymaMetrics \<Rightarrow> 'g KymaMetrics" where
  "MetricWriter_Write api res m =
     (let requeueType = (if res_Err res \<noteq> None then UnexpectedRequeue else IntendedRequeue);
          record_reason = (\<lambda>reason. RecordRequeueReason api reason requeueType) in
      if res_UseCase res = uc_SetKcpKymaStateDeleting
      then record_reason reason_KymaDeletion (record_reason StatusUpdateToDeleting m)
      else if res_UseCase res = uc_SetSkrKymaStateDeleting then record_reason StatusSyncToRemote m
      else if res_UseCase res \<in> {uc_DeleteManifests, uc_EnsureManifestDeletion} then record_reason CleanupManifestCrs m
      else if res_UseCase res \<in> {uc_DeleteSkrModuleTemplateCrd, uc_DeleteSkrModuleReleaseMetaCrd}
      then record_reason RemoteModuleCatalogDeletion m
      else if res_UseCase res = uc_DeleteSkrKyma then record_reason RemoteKymaDeletion m
      else m)"

section \<open>FIPS mode (\<^verbatim>\<open>fipsMode.go\<close>)\<close>

definition FipsModeOff :: int where "FipsModeOff = 0"
definition FipsModeOn :: int where "FipsModeOn = 1"
definition FipsModeOnly :: int where "FipsModeOnly = 2"

text \<open>\<^verbatim>\<open>strings.TrimSpace\<close> on ASCII text.\<close>

definition is_space :: "char \<Rightarrow> bool" where
  "is_space c \<longleftrightarrow> of_char c \<in> {9::nat, 10, 11, 12, 13, 32}"

definition trimSpace :: "string \<Rightarrow> string" where
  "trimSpace s = rev (dropWhile is_space (rev (dropWhile is_space s)))"

definition parseGodebugFipsMode :: "string \<Rightarrow> string" where
  "parseGodebugFipsMode goDebugEnvVar =
     (if goDebugEnvVar = [] then ''off''
      else let result = fold (\<lambda>pair result.
                 let kv = trimSpace pair in
                 if hasPrefix kv ''fips140='' then drop (length ''fips140='') kv else result)
               (split_on (CHR '','') goDebugEnvVar) ''off''
           in if result \<in> {''off'', ''on'', ''debug'', ''only''} then result else ''off'')"

definition fips_Update :: "bool \<Rightarrow> string \<Rightarrow> int" where
  "fips_Update enabled godebug =
     (if enabled then (if parseGodebugFipsMode godebug = ''only'' then FipsModeOnly else FipsModeOn) else FipsModeOff)"

lemma parseGodebug_examples:
  "parseGodebugFipsMode ''http2debug=1, fips140=on,fips140=only'' = ''only''" "parseGodebugFipsMode ''fips140=maybe'' = ''off''"
  by code_simp+

section \<open>States of a series\<close>

lemma gathers_Set: "gauge_ok api \<Longrightarrow> gathers api g m \<Longrightarrow> gathers api (ga_Set api ls v g) (m(ls \<mapsto> v))"
  unfolding gauge_ok_def by blast

lemma gathers_Delete:
  "gauge_ok api \<Longrightarrow> gathers api g m
    \<Longrightarrow> gathers api (ga_DeletePartialMatch api p g) (\<lambda>ls. if partial_match p ls then None else m ls)"
  unfolding gauge_ok_def by blast

text \<open>Setting a gauge for a list of keys.\<close>

definition set_all :: "('a \<Rightarrow> series) \<Rightarrow> ('a \<Rightarrow> int) \<Rightarrow> 'a list \<Rightarrow> (series \<rightharpoonup> int) \<Rightarrow> (series \<rightharpoonup> int)" where
  "set_all key val xs m = fold (\<lambda>x m. m(key x \<mapsto> val x)) xs m"

lemma gathers_set_all:
  "gauge_ok api \<Longrightarrow> gathers api g m
    \<Longrightarrow> gathers api (fold (\<lambda>x. ga_Set api (key x) (val x)) xs g) (set_all key val xs m)"
  by (induction xs arbitrary: g m) (simp_all add: set_all_def gathers_Set)

lemma set_all_other: "ls \<notin> key ` set xs \<Longrightarrow> set_all key val xs m ls = m ls"
  by (induction xs arbitrary: m) (auto simp: set_all_def)

lemma set_all_key:
  assumes "x \<in> set xs" and "inj_on key (set xs)"
  shows "set_all key val xs m (key x) = Some (val x)"
  using assms
proof (induction xs arbitrary: m)
  case (Cons y ys)
  show ?case
  proof (cases "x \<in> set ys")
    case True
    then show ?thesis using Cons by (simp add: set_all_def)
  next
    case False
    then have "key x \<notin> key ` set ys" using Cons.prems by (auto dest: inj_onD)
    then show ?thesis using False Cons.prems set_all_other [of "key x" key ys val "m(key y \<mapsto> val y)"] by (simp add: set_all_def)
  qed
qed simp

lemma state_text_inj: "inj_on state_text (set AllModuleStates)" "set AllKymaStates \<subseteq> set AllModuleStates"
  by (auto simp: inj_on_def AllModuleStates_def AllKymaStates_def state_text_def)

lemma kyma_series_inj: "inj_on (\<lambda>st. kyma_series n st shoot inst) (set AllKymaStates)"
  using state_text_inj by (auto simp: inj_on_def kyma_series_def)

lemma module_series_inj: "inj_on (\<lambda>st. module_series mn n st shoot inst) (set AllModuleStates)"
  using state_text_inj by (auto simp: inj_on_def module_series_def)

text \<open>The gauge of modules after the loop over the modules of a status.\<close>

definition module_values :: "string \<Rightarrow> string \<Rightarrow> string \<Rightarrow> ModuleStatus list \<Rightarrow> (series \<rightharpoonup> int) \<Rightarrow> (series \<rightharpoonup> int)" where
  "module_values n shoot inst xs m =
     fold (\<lambda>ms. set_all (\<lambda>st. module_series (ms_Name ms) n st shoot inst) (\<lambda>st. calcStateValue st (ms_State ms)) AllModuleStates) xs m"

lemma gathers_modules:
  assumes "gauge_ok api" and "gathers api (kmt_moduleStateGauge m) mm"
  shows "gathers api (kmt_moduleStateGauge
      (fold (\<lambda>ms. setModuleStateGauge api (ms_State ms) (ms_Name ms) n shoot inst) xs m)) (module_values n shoot inst xs mm)"
  using assms(2)
proof (induction xs arbitrary: m mm)
  case (Cons x xs)
  have "gathers api (kmt_moduleStateGauge (setModuleStateGauge api (ms_State x) (ms_Name x) n shoot inst m))
      (set_all (\<lambda>st. module_series (ms_Name x) n st shoot inst) (\<lambda>st. calcStateValue st (ms_State x)) AllModuleStates mm)"
    using gathers_set_all [OF assms(1) Cons.prems] by (simp add: setModuleStateGauge_def)
  from Cons.IH [OF this] show ?case by (simp add: module_values_def)
qed (simp add: module_values_def)

lemma modules_keep_kyma_gauge:
  "kmt_KymaStateGauge (fold (\<lambda>ms. setModuleStateGauge api (ms_State ms) (ms_Name ms) n shoot inst) xs m) = kmt_KymaStateGauge m"
  by (induction xs arbitrary: m) (simp_all add: setModuleStateGauge_def)

lemma module_values_other:
  "mn \<notin> ms_Name ` set xs \<Longrightarrow> module_values n shoot inst xs m (module_series mn n st shoot inst) = m (module_series mn n st shoot inst)"
proof (induction xs arbitrary: m)
  case (Cons x xs)
  have "module_series mn n st shoot inst \<notin> (\<lambda>st. module_series (ms_Name x) n st shoot inst) ` set AllModuleStates"
    using Cons.prems by (auto simp: module_series_def)
  then show ?case using Cons by (simp add: module_values_def set_all_other)
qed (simp add: module_values_def)

lemma module_values_of:
  assumes "distinct (map ms_Name xs)" and "x \<in> set xs" and "st \<in> set AllModuleStates"
  shows "module_values n shoot inst xs m (module_series (ms_Name x) n st shoot inst) = Some (calcStateValue st (ms_State x))"
  using assms(1,2)
proof (induction xs arbitrary: m)
  case (Cons y ys)
  show ?case
  proof (cases "x = y")
    case True
    have "module_values n shoot inst ys
        (set_all (\<lambda>st. module_series (ms_Name y) n st shoot inst) (\<lambda>st. calcStateValue st (ms_State y)) AllModuleStates m)
        (module_series (ms_Name y) n st shoot inst) = Some (calcStateValue st (ms_State y))"
      using Cons.prems set_all_key [OF assms(3) module_series_inj] by (simp add: module_values_other)
    then show ?thesis using True by (simp add: module_values_def)
  next
    case False
    then show ?thesis using Cons by (simp add: module_values_def)
  qed
qed simp

text \<open>One state per series: after a successful update of the metrics of a Kyma, of all state series of the Kyma exactly the
  one of its state shows 1 and the others 0, the same holds for every module in its status, and the series of the Kyma state
  gauge that have other labels are unchanged.\<close>

theorem UpdateAll_states:
  assumes "gauge_ok api" and "gathers api (kmt_KymaStateGauge m) km" and "gathers api (kmt_moduleStateGauge m) mm"
    and "UpdateAll api k m = (m', None)" and "distinct (map ms_Name (kyma_modules k))"
  shows "\<exists>shoot inst km' mm'. ExtractShootID k = Inr shoot \<and> ExtractInstanceID k = Inr inst
    \<and> gathers api (kmt_KymaStateGauge m') km' \<and> gathers api (kmt_moduleStateGauge m') mm'
    \<and> (\<forall>st \<in> set AllKymaStates. km' (kyma_series (om_Name (kyma_Meta k)) st shoot inst)
         = Some (if st = kst_State (kyma_Status k) then 1 else 0))
    \<and> (\<forall>x \<in> set (kyma_modules k). \<forall>st \<in> set AllModuleStates.
         mm' (module_series (ms_Name x) (om_Name (kyma_Meta k)) st shoot inst) = Some (if st = ms_State x then 1 else 0))
    \<and> (\<forall>ls. ls \<notin> (\<lambda>st. kyma_series (om_Name (kyma_Meta k)) st shoot inst) ` set AllKymaStates \<longrightarrow> km' ls = km ls)"
proof -
  obtain shoot inst where s: "ExtractShootID k = Inr shoot" and i: "ExtractInstanceID k = Inr inst"
    using assms(4) by (auto simp: UpdateAll_def split: sum.splits)
  let ?n = "om_Name (kyma_Meta k)" and ?st = "kst_State (kyma_Status k)"
  let ?m1 = "setKymaStateGauge api ?st ?n shoot inst m"
  let ?km = "set_all (\<lambda>st. kyma_series ?n st shoot inst) (\<lambda>st. calcStateValue st ?st) AllKymaStates km"
  have m': "m' = fold (\<lambda>ms. setModuleStateGauge api (ms_State ms) (ms_Name ms) ?n shoot inst) (kyma_modules k) ?m1"
    using assms(4) s i by (simp add: UpdateAll_def Let_def)
  have "gathers api (kmt_KymaStateGauge ?m1) ?km"
    using gathers_set_all [OF assms(1,2)] by (simp add: setKymaStateGauge_def)
  then have k: "gathers api (kmt_KymaStateGauge m') ?km" by (simp add: m' modules_keep_kyma_gauge)
  have "gathers api (kmt_moduleStateGauge ?m1) mm" using assms(3) by (simp add: setKymaStateGauge_def)
  then have mo: "gathers api (kmt_moduleStateGauge m') (module_values ?n shoot inst (kyma_modules k) mm)"
    unfolding m' by (rule gathers_modules [OF assms(1)])
  show ?thesis
    using s i k mo set_all_key [OF _ kyma_series_inj] module_values_of [OF assms(5)] set_all_other
    by (intro exI conjI) (auto simp: calcStateValue_def)
qed

section \<open>Deleting series\<close>

lemma fetch_families:
  assumes "ga_Gather api (kmt_KymaStateGauge m) = Inr ks" and "ga_Gather api (kmt_moduleStateGauge m) = Inr ms"
  shows "fetchMetrics api m MetricKymaState = Inr (map fst ks)" and "fetchMetrics api m MetricModuleState = Inr (map fst ms)"
  using assms by (simp_all add: fetchMetrics_def Registry_Gather_def MetricKymaState_def MetricModuleState_def)

definition has_series :: "(series \<rightharpoonup> int) \<Rightarrow> string \<Rightarrow> bool" where
  "has_series m n \<longleftrightarrow> (\<exists>ls \<in> dom m. label_value ls metrics_KymaNameLabel = n)"

lemma HasMetrics_series:
  assumes "gathers api (kmt_KymaStateGauge m) km" and "gathers api (kmt_moduleStateGauge m) mm"
  shows "HasMetrics api m n = Inr (has_series km n \<or> has_series mm n)"
proof -
  obtain ks ms where g: "ga_Gather api (kmt_KymaStateGauge m) = Inr ks" "ga_Gather api (kmt_moduleStateGauge m) = Inr ms"
    and d: "km = map_of ks" "mm = map_of ms" using assms unfolding gathers_def by metis
  have f: "filterByLabels (map fst xs) [[(metrics_KymaNameLabel, n)]] \<noteq> [] \<longleftrightarrow> has_series (map_of xs) n" for xs :: "(series \<times> int) list"
    by (auto simp: filterByLabels_def matchesLabels_def has_series_def filter_empty_conv dom_map_of_conv_image_fst)
  show ?thesis
    unfolding HasMetrics_def hasMetricsForKyma_def fetch_families [OF g] sum.case f d
    by (cases "has_series (map_of ks) n") simp_all
qed

text \<open>The series of the vectors have a label of every name once.\<close>

definition proper_series :: "(series \<rightharpoonup> int) \<Rightarrow> bool" where
  "proper_series m \<longleftrightarrow> (\<forall>ls \<in> dom m. distinct (map fst ls))"

lemma label_value_iff: "distinct (map fst ls) \<Longrightarrow> n \<noteq> [] \<Longrightarrow> label_value ls k = n \<longleftrightarrow> (k, n) \<in> set ls"
  using map_of_eq_Some_iff [of "rev ls" k n]
  by (cases "map_of (rev ls) k") (auto simp: label_value_def rev_map [symmetric])

definition without :: "string \<Rightarrow> (series \<rightharpoonup> int) \<Rightarrow> (series \<rightharpoonup> int)" where
  "without n m = (\<lambda>ls. if partial_match [(metrics_KymaNameLabel, n)] ls then None else m ls)"

lemma has_series_without:
  assumes "proper_series m" and "n \<noteq> []"
  shows "\<not> has_series (without n m) n" and "n' \<noteq> [] \<Longrightarrow> n' \<noteq> n \<Longrightarrow> has_series (without n m) n' = has_series m n'"
    and "proper_series (without n m)"
proof -
  have in_dom: "ls \<in> dom (without n m) \<longleftrightarrow> ls \<in> dom m \<and> (metrics_KymaNameLabel, n) \<notin> set ls" for ls
    by (auto simp: without_def partial_match_def split: if_splits)
  have val_iff: "ls \<in> dom m \<Longrightarrow> x \<noteq> [] \<Longrightarrow> label_value ls metrics_KymaNameLabel = x \<longleftrightarrow> (metrics_KymaNameLabel, x) \<in> set ls" for ls x
    using assms(1) label_value_iff unfolding proper_series_def by blast
  have uniq: "ls \<in> dom m \<Longrightarrow> (metrics_KymaNameLabel, x) \<in> set ls \<Longrightarrow> (metrics_KymaNameLabel, y) \<in> set ls \<Longrightarrow> x = y" for ls x y
    using assms(1) unfolding proper_series_def by (meson eq_key_imp_eq_value)
  show "\<not> has_series (without n m) n" using in_dom val_iff assms(2) unfolding has_series_def by blast
  show "has_series (without n m) n' = has_series m n'" if "n' \<noteq> []" "n' \<noteq> n"
    using in_dom val_iff that uniq unfolding has_series_def by metis
  show "proper_series (without n m)" using assms(1) in_dom unfolding proper_series_def by blast
qed

lemma CleanupMetrics_gathers:
  assumes "gauge_ok api" and "gathers api (kmt_KymaStateGauge m) km" and "gathers api (kmt_moduleStateGauge m) mm"
  shows "gathers api (kmt_KymaStateGauge (KymaMetrics_CleanupMetrics api n m)) (without n km)"
    and "gathers api (kmt_moduleStateGauge (KymaMetrics_CleanupMetrics api n m)) (without n mm)"
  using gathers_Delete [OF assms(1,2)] gathers_Delete [OF assms(1,3)]
  by (simp_all add: KymaMetrics_CleanupMetrics_def without_def)

text \<open>
  What the deletion of a Kyma relies on: cleaning up the metrics of a Kyma removes all of them, and none of another Kyma.
\<close>

locale metrics_store =
  fixes has :: "'w \<Rightarrow> string \<Rightarrow> goerror + bool"
    and cleanup :: "string \<Rightarrow> 'w \<Rightarrow> 'w"
    and store_ok :: "'w \<Rightarrow> bool"
  assumes cleanup_ok: "store_ok w \<Longrightarrow> n \<noteq> [] \<Longrightarrow> store_ok (cleanup n w)"
    and has_cleaned: "store_ok w \<Longrightarrow> n \<noteq> [] \<Longrightarrow> has (cleanup n w) n = Inr False"
    and has_other: "store_ok w \<Longrightarrow> n \<noteq> [] \<Longrightarrow> n' \<noteq> [] \<Longrightarrow> n' \<noteq> n \<Longrightarrow> has (cleanup n w) n' = has w n'"
begin

lemma DeleteMetrics_done:
  assumes "dc_hasMetrics c = has" and "dc_cleanupMetrics c = cleanup" and "store_ok w" and "om_Name (kyma_Meta k) \<noteq> []"
  shows "uc_IsApplicable (DeleteMetrics c) k (fst (uc_Execute (DeleteMetrics c) k w)) = Inr False"
  using has_cleaned [OF assms(3,4)] assms(1,2) by (simp add: DeleteMetrics_def executed_def)

lemma DeleteMetrics_of_others:
  assumes "dc_hasMetrics c = has" and "dc_cleanupMetrics c = cleanup" and "store_ok w" and "om_Name (kyma_Meta k) \<noteq> []"
    and "om_Name (kyma_Meta k') \<noteq> []" and "om_Name (kyma_Meta k') \<noteq> om_Name (kyma_Meta k)"
  shows "uc_IsApplicable (DeleteMetrics c) k' (fst (uc_Execute (DeleteMetrics c) k w)) = uc_IsApplicable (DeleteMetrics c) k' w"
  using has_other [OF assms(3-6)] assms(1,2) by (simp add: DeleteMetrics_def executed_def)

end

text \<open>The store of the metrics of Kymas, together with the client of its vectors.\<close>

definition metrics_ok :: "'g gauge_api \<times> 'g KymaMetrics \<Rightarrow> bool" where
  "metrics_ok w \<longleftrightarrow> gauge_ok (fst w) \<and> (\<exists>km mm. gathers (fst w) (kmt_KymaStateGauge (snd w)) km \<and> proper_series km
     \<and> gathers (fst w) (kmt_moduleStateGauge (snd w)) mm \<and> proper_series mm)"

interpretation kyma_metrics: metrics_store "\<lambda>w n. HasMetrics (fst w) (snd w) n"
  "\<lambda>n w. (fst w, KymaMetrics_CleanupMetrics (fst w) n (snd w))" metrics_ok
proof
  fix w :: "'a gauge_api \<times> 'a KymaMetrics" and n :: string
  assume "metrics_ok w" and n: "n \<noteq> []"
  then obtain km mm where ok: "gauge_ok (fst w)" and k: "gathers (fst w) (kmt_KymaStateGauge (snd w)) km" "proper_series km"
    and m: "gathers (fst w) (kmt_moduleStateGauge (snd w)) mm" "proper_series mm" unfolding metrics_ok_def by blast
  let ?w = "(fst w, KymaMetrics_CleanupMetrics (fst w) n (snd w))"
  note g = CleanupMetrics_gathers [OF ok k(1) m(1), of n] and hk = has_series_without [OF k(2) n] and hm = has_series_without [OF m(2) n]
  show "metrics_ok ?w" using ok g hk(3) hm(3) unfolding metrics_ok_def by auto
  show "HasMetrics (fst ?w) (snd ?w) n = Inr False" using HasMetrics_series [OF g] hk(1) hm(1) by simp
  show "HasMetrics (fst ?w) (snd ?w) n' = HasMetrics (fst w) (snd w) n'" if "n' \<noteq> []" "n' \<noteq> n" for n'
    using HasMetrics_series [OF g] HasMetrics_series [OF k(1) m(1)] hk(2) [OF that] hm(2) [OF that] by simp
qed

text \<open>Deletion of the metrics of a Kyma: with the metrics of this package, the deletion step for metrics is complete after one
  execution and does not apply again, and it leaves the same step of every other Kyma as it was.\<close>

theorem DeleteMetrics_once:
  assumes "dc_hasMetrics c = (\<lambda>w n. HasMetrics (fst w) (snd w) n)"
    and "dc_cleanupMetrics c = (\<lambda>n w. (fst w, KymaMetrics_CleanupMetrics (fst w) n (snd w)))"
    and "metrics_ok w" and "om_Name (kyma_Meta k) \<noteq> []"
  shows "uc_IsApplicable (DeleteMetrics c) k (fst (uc_Execute (DeleteMetrics c) k w)) = Inr False
    \<and> (\<forall>k'. om_Name (kyma_Meta k') \<noteq> [] \<and> om_Name (kyma_Meta k') \<noteq> om_Name (kyma_Meta k) \<longrightarrow>
        uc_IsApplicable (DeleteMetrics c) k' (fst (uc_Execute (DeleteMetrics c) k w)) = uc_IsApplicable (DeleteMetrics c) k' w)"
  using kyma_metrics.DeleteMetrics_done [OF assms] kyma_metrics.DeleteMetrics_of_others [OF assms] by blast

section \<open>Series of vanished Kymas\<close>

lemma getKymaName_in: "getKymaNameFromLabels ls \<noteq> [] \<Longrightarrow> (metrics_KymaNameLabel, getKymaNameFromLabels ls) \<in> set ls"
  by (induction ls rule: getKymaNameFromLabels.induct) (auto split: if_splits)

lemma drop_vanished_gathers:
  assumes "gauge_ok api" and "gathers api (kmt_KymaStateGauge m) km"
  shows "\<exists>km'. gathers api (kmt_KymaStateGauge (fold (drop_vanished api kymas) xs m)) km' \<and> km' \<subseteq>\<^sub>m km
    \<and> (\<forall>ls \<in> set xs \<inter> dom km'. getKymaNameFromLabels ls \<in> insert [] (getKymaNames kymas))
    \<and> (\<forall>ls \<in> dom km. (\<forall>n. (metrics_KymaNameLabel, n) \<in> set ls \<longrightarrow> n \<in> getKymaNames kymas) \<longrightarrow> km' ls = km ls)
    \<and> kmt_moduleStateGauge (fold (drop_vanished api kymas) xs m) = kmt_moduleStateGauge m"
  using assms(2)
proof (induction xs arbitrary: m km)
  case Nil
  then show ?case by auto
next
  case (Cons x xs)
  let ?n = "getKymaNameFromLabels x" and ?m = "drop_vanished api kymas x m"
  show ?case
  proof (cases "?n \<in> insert [] (getKymaNames kymas)")
    case True
    then have "?m = m" by (auto simp: drop_vanished_def Let_def)
    then show ?thesis using Cons.IH [OF Cons.prems] True by auto
  next
    case False
    have m: "kmt_moduleStateGauge ?m = kmt_moduleStateGauge m" using False by (simp add: drop_vanished_def Let_def)
    have g: "gathers api (kmt_KymaStateGauge ?m) (without ?n km)"
      using False gathers_Delete [OF assms(1) Cons.prems] by (simp add: drop_vanished_def Let_def without_def)
    obtain km' where IH: "gathers api (kmt_KymaStateGauge (fold (drop_vanished api kymas) xs ?m)) km'" "km' \<subseteq>\<^sub>m without ?n km"
      "\<forall>ls \<in> set xs \<inter> dom km'. getKymaNameFromLabels ls \<in> insert [] (getKymaNames kymas)"
      "\<forall>ls \<in> dom (without ?n km). (\<forall>n. (metrics_KymaNameLabel, n) \<in> set ls \<longrightarrow> n \<in> getKymaNames kymas) \<longrightarrow> km' ls = without ?n km ls"
      "kmt_moduleStateGauge (fold (drop_vanished api kymas) xs ?m) = kmt_moduleStateGauge ?m"
      using Cons.IH [OF g] by blast
    have sub: "without ?n km \<subseteq>\<^sub>m km" by (auto simp: without_def map_le_def)
    have "x \<notin> dom (without ?n km)"
      using getKymaName_in [of x] False by (auto simp: without_def partial_match_def split: if_splits)
    then have x: "x \<notin> dom km'" using IH(2) map_le_implies_dom_le by blast
    have keep: "without ?n km ls = km ls" if "\<forall>n. (metrics_KymaNameLabel, n) \<in> set ls \<longrightarrow> n \<in> getKymaNames kymas" for ls
      using that False by (auto simp: without_def partial_match_def)
    have "km' ls = km ls" if "ls \<in> dom km" "\<forall>n. (metrics_KymaNameLabel, n) \<in> set ls \<longrightarrow> n \<in> getKymaNames kymas" for ls
      using IH(4) keep [OF that(2)] that by (simp add: dom_def)
    then show ?thesis using IH(1,3,5) map_le_trans [OF IH(2) sub] x m by (intro exI [of _ km']) auto
  qed
qed

text \<open>C39. The cleanup job for vanished Kymas: when it succeeds, every series of the Kyma state gauge belongs to a Kyma that exists
  and the series of existing Kymas are untouched; the gauge of module states is not looked at, so the module series of a
  Kyma that vanished without its own cleanup stay.\<close>

theorem cleanup_vanished:
  assumes "gauge_ok api" and "gathers api (kmt_KymaStateGauge m) km" and "gathers api (kmt_moduleStateGauge m) mm"
    and "CleanupNonExistingKymaCrsMetrics api (Inr kymas) m = (m', None)"
  shows "\<exists>km'. gathers api (kmt_KymaStateGauge m') km' \<and> km' \<subseteq>\<^sub>m km
    \<and> (\<forall>ls \<in> dom km'. getKymaNameFromLabels ls \<in> insert [] (getKymaNames kymas))
    \<and> (\<forall>ls \<in> dom km. (\<forall>n. (metrics_KymaNameLabel, n) \<in> set ls \<longrightarrow> n \<in> getKymaNames kymas) \<longrightarrow> km' ls = km ls)
    \<and> kmt_moduleStateGauge m' = kmt_moduleStateGauge m"
proof -
  obtain ks ms where g: "ga_Gather api (kmt_KymaStateGauge m) = Inr ks" "ga_Gather api (kmt_moduleStateGauge m) = Inr ms"
    and d: "km = map_of ks" using assms(2,3) unfolding gathers_def by metis
  have dom: "dom km = set (map fst ks)" by (simp add: d dom_map_of_conv_image_fst)
  have "m' = fold (drop_vanished api kymas) (map fst ks) m"
    using assms(4) unfolding CleanupNonExistingKymaCrsMetrics_def fetch_families(1) [OF g]
    by (cases "map fst ks = []") simp_all
  moreover obtain km' where r: "gathers api (kmt_KymaStateGauge (fold (drop_vanished api kymas) (map fst ks) m)) km'" "km' \<subseteq>\<^sub>m km"
      "\<forall>ls \<in> set (map fst ks) \<inter> dom km'. getKymaNameFromLabels ls \<in> insert [] (getKymaNames kymas)"
      "\<forall>ls \<in> dom km. (\<forall>n. (metrics_KymaNameLabel, n) \<in> set ls \<longrightarrow> n \<in> getKymaNames kymas) \<longrightarrow> km' ls = km ls"
      "kmt_moduleStateGauge (fold (drop_vanished api kymas) (map fst ks) m) = kmt_moduleStateGauge m"
    using drop_vanished_gathers [OF assms(1,2)] by blast
  moreover have "\<forall>ls \<in> dom km'. getKymaNameFromLabels ls \<in> insert [] (getKymaNames kymas)"
    using r(3) map_le_implies_dom_le [OF r(2)] dom by blast
  ultimately show ?thesis using r by blast
qed

section \<open>Witnesses\<close>

text \<open>Vectors as association lists.\<close>

definition ref_gauge :: "(series \<times> int) list gauge_api" where
  "ref_gauge = \<lparr>ga_Set = AList.update, ga_Inc = (\<lambda>ls g. AList.update ls (case map_of g ls of None \<Rightarrow> 1 | Some n \<Rightarrow> n + 1) g),
     ga_DeletePartialMatch = (\<lambda>p. filter (\<lambda>x. \<not> partial_match p (fst x))), ga_Gather = Inr\<rparr>"

lemma map_of_filter_keys: "map_of (filter (\<lambda>x. \<not> P (fst x)) g) = (\<lambda>k. if P k then None else map_of g k)"
  by (induction g) (auto simp: fun_eq_iff)

lemma ref_gathers: "gathers ref_gauge g m \<longleftrightarrow> map_of g = m"
  by (simp add: gathers_def ref_gauge_def)

lemma ref_gauge_ok: "gauge_ok ref_gauge"
  unfolding gauge_ok_def ref_gathers
  by (simp add: ref_gauge_def update_conv' map_of_filter_keys)

definition ex_metrics_kyma :: Kyma where
  "ex_metrics_kyma = ex_bare_kyma\<lparr>kyma_Meta := (kyma_Meta ex_bare_kyma)\<lparr>om_Name := ''kyma'',
     om_Annotations := [SkrDomainAnnotation \<mapsto> ''shoot.kyma.cloud''], om_Labels := [InstanceIDLabel \<mapsto> ''42'']\<rparr>,
     kyma_Status := (kyma_Status ex_bare_kyma)\<lparr>kst_State := StateProcessing\<rparr>\<rparr>"

definition ex_metrics :: "(series \<times> int) list KymaMetrics" where
  "ex_metrics = \<lparr>kmt_KymaStateGauge = [(kyma_series ''kyma'' StateReady ''shoot'' ''42'', 1), (kyma_series ''gone'' StateReady ''s'' ''7'', 1)],
     kmt_moduleStateGauge = [(module_series ''istio'' ''gone'' StateReady ''s'' ''7'', 1)], kmt_requeueReasonCounter = []\<rparr>"

theorem UpdateAll_states_witness:
  "map_of (kmt_KymaStateGauge (fst (UpdateAll ref_gauge ex_metrics_kyma ex_metrics))) (kyma_series ''kyma'' StateReady ''shoot'' ''42'') = Some 0
   \<and> map_of (kmt_KymaStateGauge (fst (UpdateAll ref_gauge ex_metrics_kyma ex_metrics))) (kyma_series ''kyma'' StateProcessing ''shoot'' ''42'') = Some 1"
proof -
  let ?r = "UpdateAll ref_gauge ex_metrics_kyma ex_metrics"
  have e: "snd ?r = None" and s: "ExtractShootID ex_metrics_kyma = Inr ''shoot''" and i: "ExtractInstanceID ex_metrics_kyma = Inr ''42''"
    and n: "om_Name (kyma_Meta ex_metrics_kyma) = ''kyma''" and st: "kst_State (kyma_Status ex_metrics_kyma) = StateProcessing" and d: "distinct (map ms_Name (kyma_modules ex_metrics_kyma))"
    by code_simp+
  have r: "?r = (fst ?r, None)" using e by (simp add: prod_eq_iff)
  obtain shoot inst km' where "ExtractShootID ex_metrics_kyma = Inr shoot" "ExtractInstanceID ex_metrics_kyma = Inr inst"
    "gathers ref_gauge (kmt_KymaStateGauge (fst ?r)) km'"
    "\<forall>st \<in> set AllKymaStates. km' (kyma_series (om_Name (kyma_Meta ex_metrics_kyma)) st shoot inst)
         = Some (if st = kst_State (kyma_Status ex_metrics_kyma) then 1 else 0)"
    using UpdateAll_states [OF ref_gauge_ok _ _ r d, unfolded ref_gathers] ref_gathers by metis
  then show ?thesis using s i n st by (simp add: AllKymaStates_def ref_gathers)
qed

definition ex_metrics_client :: "((series \<times> int) list gauge_api \<times> (series \<times> int) list KymaMetrics) dclient" where
  "ex_metrics_client = idle_dclient\<lparr>dc_hasMetrics := (\<lambda>w n. HasMetrics (fst w) (snd w) n),
     dc_cleanupMetrics := (\<lambda>n w. (fst w, KymaMetrics_CleanupMetrics (fst w) n (snd w)))\<rparr>"

lemma ex_metrics_ok: "metrics_ok (ref_gauge, ex_metrics)"
  unfolding metrics_ok_def ref_gathers
  using ref_gauge_ok by (auto simp: ref_gathers proper_series_def ex_metrics_def kyma_series_def module_series_def metric_label_defs)

theorem DeleteMetrics_once_witness:
  "uc_IsApplicable (DeleteMetrics ex_metrics_client) ex_metrics_kyma
     (fst (uc_Execute (DeleteMetrics ex_metrics_client) ex_metrics_kyma (ref_gauge, ex_metrics))) = Inr False
   \<and> HasMetrics ref_gauge ex_metrics ''kyma'' = Inr True"
proof -
  have "om_Name (kyma_Meta ex_metrics_kyma) \<noteq> []" by code_simp
  from DeleteMetrics_once [of ex_metrics_client, OF _ _ ex_metrics_ok this]
  have "uc_IsApplicable (DeleteMetrics ex_metrics_client) ex_metrics_kyma
     (fst (uc_Execute (DeleteMetrics ex_metrics_client) ex_metrics_kyma (ref_gauge, ex_metrics))) = Inr False"
    by (simp add: ex_metrics_client_def)
  moreover have "HasMetrics ref_gauge ex_metrics ''kyma'' = Inr True" by code_simp
  ultimately show ?thesis ..
qed

theorem cleanup_vanished_witness:
  "kmt_moduleStateGauge (fst (CleanupNonExistingKymaCrsMetrics ref_gauge (Inr [ex_metrics_kyma]) ex_metrics)) = kmt_moduleStateGauge ex_metrics
   \<and> map fst (kmt_KymaStateGauge (fst (CleanupNonExistingKymaCrsMetrics ref_gauge (Inr [ex_metrics_kyma]) ex_metrics)))
       = [kyma_series ''kyma'' StateReady ''shoot'' ''42'']"
proof -
  let ?r = "CleanupNonExistingKymaCrsMetrics ref_gauge (Inr [ex_metrics_kyma]) ex_metrics"
  have e: "snd ?r = None" and l: "map fst (kmt_KymaStateGauge (fst ?r)) = [kyma_series ''kyma'' StateReady ''shoot'' ''42'']"
    by code_simp+
  have "?r = (fst ?r, None)" using e by (simp add: prod_eq_iff)
  from cleanup_vanished [OF ref_gauge_ok _ _ this] have "kmt_moduleStateGauge (fst ?r) = kmt_moduleStateGauge ex_metrics"
    unfolding ref_gathers by blast
  with l show ?thesis by blast
qed

end
