(* ===== verification/Startup.thy ===== *)
theory Startup
  imports Flags ComponentDescriptor Metrics WebhookManager MandatoryModules MaintenanceWindows
begin

text \<open>
  The start of the manager (\<^verbatim>\<open>cmd/main.go\<close>, \<^verbatim>\<open>cmd/composition\<close>, \<^verbatim>\<open>internal/setup\<close>): what the flags become. The namespaces that
  the caches cover, the certificate repositories, the names in the certificates of the runtimes, the registry and its
  keychain, the maintenance policy, the requeue intervals of the controllers, and the jobs that run after the start: the
  removal of stored versions from CRDs and the cleanup of metrics. An error that ends the process is \<open>Inl\<close>; the file
  system, the API server and the libraries are parameters.
\<close>

section \<open>Caches (\<^verbatim>\<open>cache_options.go\<close>)\<close>

datatype cached_object =
  CachedSecret | CachedKyma | CachedModuleTemplate | CachedModuleReleaseMeta | CachedManifest | CachedWatcher
| CachedCertificate string   \<comment> \<open>of the API with that name\<close>

type_synonym cache_options = "(cached_object \<times> string list) list"

definition getCertManagementCacheObjects :: "cert_apis \<Rightarrow> string \<Rightarrow> goerror + cached_object list" where
  "getCertManagementCacheObjects ca certificateManagement =
     (case map_of [(ca_certmanager ca, [CachedCertificate (ca_certmanager ca)]), (ca_gardener ca, [CachedCertificate (ca_gardener ca)])]
             certificateManagement of
        Some os \<Rightarrow> Inr os
      | None \<Rightarrow> Inl ErrUnsupportedCertificateManagementSystem)"

definition GetCacheOptions :: "string \<Rightarrow> string \<Rightarrow> cached_object list \<Rightarrow> cache_options" where
  "GetCacheOptions istioNamespace kcpNamespace certManagementCacheObjects =
     [(CachedSecret, [kcpNamespace, istioNamespace]), (CachedKyma, [kcpNamespace]), (CachedModuleTemplate, [kcpNamespace]),
      (CachedModuleReleaseMeta, [kcpNamespace]), (CachedManifest, [kcpNamespace]), (CachedWatcher, [kcpNamespace])]
     @ map (\<lambda>certObject. (certObject, [kcpNamespace, istioNamespace])) certManagementCacheObjects"

definition SetupCacheOptions :: "cert_apis \<Rightarrow> string \<Rightarrow> string \<Rightarrow> string \<Rightarrow> goerror + cache_options" where
  "SetupCacheOptions ca istioNamespace kcpNamespace certificateManagement =
     (case getCertManagementCacheObjects ca certificateManagement of
        Inl e \<Rightarrow> Inl e
      | Inr os \<Rightarrow> Inr (GetCacheOptions istioNamespace kcpNamespace os))"

text \<open>A cached read or a watch of objects sees those namespaces only; an object that is not listed is cached everywhere.\<close>

definition cache_covers :: "cache_options \<Rightarrow> cached_object \<Rightarrow> string \<Rightarrow> bool" where
  "cache_covers opts x ns = (case map_of opts x of None \<Rightarrow> True | Some nss \<Rightarrow> ns \<in> set nss)"

section \<open>Certificates (\<^verbatim>\<open>skr_webhook_manager.go\<close>, \<^verbatim>\<open>gatewaysecret.go\<close>)\<close>

definition errCertificateManagementNotSupported :: goerror where
  "errCertificateManagementNotSupported = Sentinel ''errCertificateManagementNotSupported''
     ''certificate management not supported, please check the certificate management configuration''"
definition ErrWatcherDirNotExist :: goerror where
  "ErrWatcherDirNotExist = Sentinel ''ErrWatcherDirNotExist'' ''failed to locate watcher resource manifest folder''"
definition DefaultResourcesPath :: string where "DefaultResourcesPath = ''skr-webhook''"

definition certificate_values :: "FlagVar \<Rightarrow> string \<Rightarrow> CertificateValues" where
  "certificate_values f ns =
     \<lparr>cv_Namespace = ns, cv_Duration = fl_SelfSignedCertDuration f, cv_RenewBefore = fl_SelfSignedCertRenewBefore f,
      cv_KeySize = fl_SelfSignedCertKeySize f\<rparr>"

text \<open>Which repository of certificates is used, with its configuration.\<close>

datatype cert_repo_choice =
  CertManagerRepository string CertificateValues
| GardenerRepository gcm_config

definition gardener_config :: "FlagVar \<Rightarrow> CertificateValues \<Rightarrow> gcm_config" where
  "gardener_config f values =
     \<lparr>gcf_IssuerName = fl_SelfSignedCertificateIssuerName f, gcf_IssuerNamespace = fl_SelfSignedCertIssuerNamespace f, gcf_Values = values\<rparr>"

definition ComposeCertificateRepository :: "cert_apis \<Rightarrow> FlagVar \<Rightarrow> goerror + cert_repo_choice" where
  "ComposeCertificateRepository ca f =
     (let values = certificate_values f (fl_IstioNamespace f);
          wrap = (\<lambda>e. wrapErr ''failed to create certificate repository: '' e) in
      if fl_CertificateManagement f = ca_certmanager ca
      then (case cm_NewRepository values of
              Some e \<Rightarrow> Inl (wrap e)
            | None \<Rightarrow> Inr (CertManagerRepository (fl_SelfSignedCertificateIssuerName f) values))
      else if fl_CertificateManagement f = ca_gardener ca
      then (case gcm_NewRepository values of Some e \<Rightarrow> Inl (wrap e) | None \<Rightarrow> Inr (GardenerRepository (gardener_config f values)))
      else Inl errCertificateManagementNotSupported)"

definition SetupCertInterface :: "cert_apis \<Rightarrow> FlagVar \<Rightarrow> goerror + cert_repo_choice" where
  "SetupCertInterface ca f =
     (let values = certificate_values f IstioNamespace in
      if fl_CertificateManagement f = ca_certmanager ca
      then (case cm_NewRepository values of
              Some e \<Rightarrow> Inl e
            | None \<Rightarrow> Inr (CertManagerRepository (fl_SelfSignedCertificateIssuerName f) values))
      else if fl_CertificateManagement f = ca_gardener ca
      then (case gcm_NewRepository values of Some e \<Rightarrow> Inl e | None \<Rightarrow> Inr (GardenerRepository (gardener_config f values)))
      else Inl ErrUnsupportedCertificateManagementSystem)"

definition setupSKRCertService :: "'w secret_api \<Rightarrow> time_format \<Rightarrow> 'w cert_repo \<Rightarrow> FlagVar \<Rightarrow> 'w cert_service" where
  "setupSKRCertService secrets tf certificateRepository f =
     \<lparr>cs_certRepo = certificateRepository, cs_secrets = secrets, cs_secretNamespace = fl_IstioNamespace f, cs_time = tf,
      cs_SkrServiceName = SkrResourceName, cs_SkrNamespace = fl_RemoteSyncNamespace f,
      cs_AdditionalDNSNames = split_on (CHR '','') (fl_AdditionalDNSNames f), cs_GatewaySecretName = GatewaySecretName,
      cs_RenewBuffer = fl_SelfSignedCertRenewBuffer f\<rparr>"

text \<open>\<open>executable\<close> is the path of the running program and \<open>isDir\<close> tells an existing directory.\<close>

record webhook_setup =
  ws_resourcesPath :: string
  ws_kcpAddr :: KCPAddr
  ws_remoteNs :: string
  ws_image :: string
  ws_cpuLimit :: string
  ws_memoryLimit :: string
  ws_imagePullSecret :: string

definition ComposeSkrWebhookManager ::
  "(goerror + string) \<Rightarrow> (string \<Rightarrow> bool) \<Rightarrow> (string \<Rightarrow> string \<Rightarrow> goerror + Gateway) \<Rightarrow> FlagVar \<Rightarrow> string \<Rightarrow> goerror + webhook_setup" where
  "ComposeSkrWebhookManager executable isDir getGateway f watcherResourcesPath =
     (case (if watcherResourcesPath = []
            then (case executable of
                    Inl e \<Rightarrow> Inl (wrapErr ''failed to get executable: '' e)
                  | Inr ex \<Rightarrow> Inr (Join [Dir ex, ''..'', DefaultResourcesPath]))
            else Inr watcherResourcesPath) of
        Inl e \<Rightarrow> Inl e
      | Inr path \<Rightarrow>
          if \<not> isDir path then Inl ErrWatcherDirNotExist
          else (case ResolveKcpAddr getGateway (fl_IstioGatewayName f) (fl_IstioGatewayNamespace f) (fl_ListenerPortOverwrite f) of
                  Inl e \<Rightarrow> Inl e
                | Inr addr \<Rightarrow>
                    Inr \<lparr>ws_resourcesPath = path, ws_kcpAddr = addr, ws_remoteNs = fl_RemoteSyncNamespace f, ws_image = GetWatcherImage f,
                         ws_cpuLimit = fl_WatcherResourceLimitsCPU f, ws_memoryLimit = fl_WatcherResourceLimitsMemory f,
                         ws_imagePullSecret = fl_SkrImagePullSecret f\<rparr>))"

section \<open>Registry and keychain\<close>

definition ComposeRegistry :: "auths_decoder \<Rightarrow> (string \<Rightarrow> string \<Rightarrow> goerror + Secret) \<Rightarrow> FlagVar \<Rightarrow> goerror + OCIRegistry" where
  "ComposeRegistry unmarshal getSecret f =
     NewOCIRegistry unmarshal (Some (\<lambda>n. getSecret n DefaultControlPlaneNamespace)) (fl_OciRegistryHost f)
       (fl_OciRegistryCredSecretName f) (fl_ModulesRepositorySubPath f)"

definition ErrNoAuthSecretFound :: goerror where
  "ErrNoAuthSecretFound = Sentinel ''ErrNoAuthSecretFound'' ''no private oci registry auth secret found''"

text \<open>
  The keychain of Google's registries comes first; \<open>defaultKeychain\<close> and \<open>fromSecrets\<close> are keychains of the registry library.
\<close>

datatype 'kc keychain = MultiKeychain "'kc list"

definition DefaultKeychainProvider_Get :: "'kc \<Rightarrow> 'kc \<Rightarrow> goerror + 'kc keychain" where
  "DefaultKeychainProvider_Get google defaultKeychain = Inr (MultiKeychain [google, defaultKeychain])"

definition FromSecretKeychainProvider_Get ::
  "'kc \<Rightarrow> (Secret list \<Rightarrow> goerror + 'kc) \<Rightarrow> (string \<Rightarrow> string \<Rightarrow> goerror + Secret) \<Rightarrow> string \<Rightarrow> string \<Rightarrow> goerror + 'kc keychain" where
  "FromSecretKeychainProvider_Get google fromSecrets getSecret name ns =
     (case getSecret name ns of
        Inl e \<Rightarrow>
          if IsNotFound (Some e) then Inl (wrapPost ErrNoAuthSecretFound ('': '' @ ns @ ''/'' @ name))
          else Inl (wrapErr ''failed to get oci cred secret: '' e)
      | Inr s \<Rightarrow>
          (case fromSecrets [s] of
             Inl e \<Rightarrow> Inl (wrapErr ''failed to create auth keychain: '' e)
           | Inr kc \<Rightarrow> Inr (MultiKeychain [google, kc])))"

definition keychainLookupFromFlag ::
  "'kc \<Rightarrow> 'kc \<Rightarrow> (Secret list \<Rightarrow> goerror + 'kc) \<Rightarrow> (string \<Rightarrow> string \<Rightarrow> goerror + Secret) \<Rightarrow> FlagVar \<Rightarrow> goerror + 'kc keychain" where
  "keychainLookupFromFlag google defaultKeychain fromSecrets getSecret f =
     (if fl_OciRegistryCredSecretName f \<noteq> []
      then FromSecretKeychainProvider_Get google fromSecrets getSecret (fl_OciRegistryCredSecretName f) DefaultControlPlaneNamespace
      else DefaultKeychainProvider_Get google defaultKeychain)"

section \<open>Maintenance policy\<close>

definition PolicyPathENV :: string where "PolicyPathENV = ''MAINTENANCE_POLICY_PATH''"
definition ErrNoPolicyPathEnvVar :: goerror where
  "ErrNoPolicyPathEnvVar = Sentinel ''ErrNoPolicyPathEnvVar'' ''no environment variable set for the maintenance policy path''"
definition ErrReadingDirectory :: goerror where
  "ErrReadingDirectory = Sentinel ''ErrReadingDirectory'' ''error while reading the directory''"
definition ErrPolicyFileNotFound :: goerror where
  "ErrPolicyFileNotFound = Sentinel ''ErrPolicyFileNotFound'' ''maintenance window policy file not found''"

text \<open>
  The environment variables are the state. \<open>px_stat\<close> is the error of \<^verbatim>\<open>os.Stat\<close> and whether it says that the file does not
  exist; the entries of a directory come with the mark of a directory.
\<close>

record 'b policy_env =
  px_setenv :: "string \<Rightarrow> string \<Rightarrow> goerror option"
  px_stat :: "string \<Rightarrow> (goerror \<times> bool) option"
  px_readDir :: "string \<Rightarrow> goerror + (string \<times> bool) list"
  px_readFile :: "string \<Rightarrow> goerror + 'b"
  px_parse :: "'b \<Rightarrow> goerror + MaintenanceWindowPolicy"

text \<open>\<^verbatim>\<open>filepath.Ext\<close>: the suffix that begins at the last dot of the last element.\<close>

definition filepath_Ext :: "string \<Rightarrow> string" where
  "filepath_Ext name =
     (let r = takeWhile (\<lambda>c. c \<noteq> CHR ''.'' \<and> c \<noteq> CHR ''/'') (rev name) in
      case drop (length r) (rev name) of c # _ \<Rightarrow> if c = CHR ''.'' then rev (r @ [c]) else [] | [] \<Rightarrow> [])"

fun read_pool ::
  "'b policy_env \<Rightarrow> string \<Rightarrow> (string \<times> bool) list \<Rightarrow> (string \<rightharpoonup> 'b) \<Rightarrow> goerror + (string \<rightharpoonup> 'b)" where
  "read_pool px path [] pool = Inr pool"
| "read_pool px path ((name, isDir) # entries) pool =
     (if isDir \<or> filepath_Ext name \<noteq> ''.json'' then read_pool px path entries pool
      else (case px_readFile px (Join [path, name]) of
              Inl e \<Rightarrow> Inl (wrapErr (''error while reading the file '' @ name @ '': '') e)
            | Inr data \<Rightarrow> read_pool px path entries (pool(name \<mapsto> data))))"

definition GetMaintenancePolicyPool :: "'b policy_env \<Rightarrow> (string \<rightharpoonup> string) \<Rightarrow> goerror + (string \<rightharpoonup> 'b)" where
  "GetMaintenancePolicyPool px vars =
     (case (case vars PolicyPathENV of Some p \<Rightarrow> p | None \<Rightarrow> []) of
        [] \<Rightarrow> Inl ErrNoPolicyPathEnvVar
      | path \<Rightarrow>
          (case px_readDir px path of
             Inl e \<Rightarrow> Inl (Errorf [Wrap ErrReadingDirectory, Lit ('' '' @ path @ '': ''), Wrap e])
           | Inr entries \<Rightarrow> read_pool px path entries Map.empty))"

definition MaintenancePolicyFileExists :: "'b policy_env \<Rightarrow> string \<Rightarrow> bool" where
  "MaintenancePolicyFileExists px policyFilePath =
     (case px_stat px policyFilePath of Some (e, missing) \<Rightarrow> \<not> missing | None \<Rightarrow> True)"

definition InitializeMaintenanceWindow ::
  "'b policy_env \<Rightarrow> string \<Rightarrow> string \<Rightarrow> duration \<Rightarrow> (string \<rightharpoonup> string)
    \<Rightarrow> (string \<rightharpoonup> string) \<times> (MaintenanceWindowPolicy option \<times> duration) \<times> goerror option" where
  "InitializeMaintenanceWindow px policiesDirectory policyName minWindowSize vars =
     (case px_setenv px PolicyPathENV policiesDirectory of
        Some e \<Rightarrow> (vars, (None, 0), Some (wrapErr ''failed to set the policy path env variable, '' e))
      | None \<Rightarrow>
          (let vars1 = vars(PolicyPathENV \<mapsto> policiesDirectory) in
           if \<not> MaintenancePolicyFileExists px (policiesDirectory @ ''/'' @ policyName @ ''.json'')
           then (vars1, (None, 0), Some (wrapErr ''maintenance windows policy file does not exist, '' ErrPolicyFileNotFound))
           else (case GetMaintenancePolicyPool px vars1 of
                   Inl e \<Rightarrow> (vars1, (None, 0), Some (wrapErr ''failed to get maintenance policy pool, '' e))
                 | Inr pool \<Rightarrow>
                     (case GetMaintenancePolicy (px_parse px) pool policyName of
                        Inl e \<Rightarrow> (vars1, (None, 0), Some (wrapErr ''failed to get maintenance window policy, '' e))
                      | Inr policy \<Rightarrow> (vars1, (policy, minWindowSize), None)))))"

text \<open>The start goes on without a policy; the gauge tells whether one was read.\<close>

definition maintenanceWindowPolicyName :: string where "maintenanceWindowPolicyName = ''policy''"
definition maintenanceWindowPoliciesDirectory :: string where "maintenanceWindowPoliciesDirectory = ''/etc/maintenance-policy''"

definition initMaintenanceWindow ::
  "'b policy_env \<Rightarrow> duration \<Rightarrow> (string \<rightharpoonup> string) \<Rightarrow> (MaintenanceWindowPolicy option \<times> duration) \<times> int" where
  "initMaintenanceWindow px minWindowSize vars =
     (case InitializeMaintenanceWindow px maintenanceWindowPoliciesDirectory maintenanceWindowPolicyName minWindowSize vars of
        (vars', window, err) \<Rightarrow> (window, RecordConfigReadSuccess (err = None)))"

section \<open>Requeue intervals of the controllers\<close>

definition kyma_intervals :: "FlagVar \<Rightarrow> RequeueIntervals" where
  "kyma_intervals f =
     \<lparr>ri_Success = fl_KymaRequeueSuccessInterval f, ri_Busy = fl_KymaRequeueBusyInterval f,
      ri_Warning = fl_KymaRequeueWarningInterval f, ri_Error = fl_KymaRequeueErrInterval f, ri_Jitter = None\<rparr>"

text \<open>The jitter of the Manifest controller draws two random numbers.\<close>

definition manifest_intervals :: "rat \<Rightarrow> rat \<Rightarrow> FlagVar \<Rightarrow> RequeueIntervals" where
  "manifest_intervals rand1 rand2 f =
     \<lparr>ri_Success = fl_ManifestRequeueSuccessInterval f, ri_Busy = fl_ManifestRequeueBusyInterval f,
      ri_Warning = fl_ManifestRequeueWarningInterval f, ri_Error = fl_ManifestRequeueErrInterval f,
      ri_Jitter = map_option (\<lambda>j. RequeueJitter_Apply j rand1 rand2)
        (NewRequeueJitter (fl_ManifestRequeueJitterProbability f) (fl_ManifestRequeueJitterPercentage f))\<rparr>"

definition watcher_intervals :: "FlagVar \<Rightarrow> RequeueIntervals" where
  "watcher_intervals f =
     \<lparr>ri_Success = fl_WatcherRequeueSuccessInterval f, ri_Busy = DefaultKymaRequeueBusyInterval,
      ri_Warning = DefaultKymaRequeueWarningInterval, ri_Error = DefaultKymaRequeueErrInterval, ri_Jitter = None\<rparr>"

definition mandatory_intervals :: "FlagVar \<Rightarrow> RequeueIntervals" where
  "mandatory_intervals f = (kyma_intervals f)\<lparr>ri_Success := fl_MandatoryModuleRequeueSuccessInterval f\<rparr>"

definition mandatory_deletion_intervals :: "FlagVar \<Rightarrow> RequeueIntervals" where
  "mandatory_deletion_intervals f = (kyma_intervals f)\<lparr>ri_Success := fl_MandatoryModuleDeletionRequeueSuccessInterval f\<rparr>"

section \<open>Checks and jobs\<close>

definition errModuleReleaseMetaDoesNotExist :: goerror where
  "errModuleReleaseMetaDoesNotExist = Sentinel ''errModuleReleaseMetaDoesNotExist'' ''ModuleReleaseMeta does not exist''"

fun verifyModuleReleaseMetasForRestrictedDefaultModules :: "'w mclient \<Rightarrow> 'w \<Rightarrow> string list \<Rightarrow> goerror option" where
  "verifyModuleReleaseMetasForRestrictedDefaultModules c w [] = None"
| "verifyModuleReleaseMetasForRestrictedDefaultModules c w (moduleName # rest) =
     (case mrmRepo_Exists c DefaultControlPlaneNamespace w moduleName of
        Inl e \<Rightarrow> Some (wrapErr (''failed checking existence of ModuleReleaseMeta for module '' @ moduleName @ '': '') e)
      | Inr False \<Rightarrow> Some (wrapPost errModuleReleaseMetaDoesNotExist ('' for module '' @ moduleName))
      | Inr True \<Rightarrow> verifyModuleReleaseMetasForRestrictedDefaultModules c w rest)"

text \<open>Stored versions of the custom resource definitions.\<close>

record CRD =
  crd_Name :: string
  crd_Group :: string
  crd_Kind :: string
  crd_StoredVersions :: "string list"

definition resourceVersionPairCount :: nat where "resourceVersionPairCount = 2"

definition ParseStorageVersionsMap :: "string \<Rightarrow> (string \<rightharpoonup> string)" where
  "ParseStorageVersionsMap versions =
     fold (\<lambda>pair m. let kv = split_on (CHR '':'') pair in
             if length kv = resourceVersionPairCount then m(kv ! 0 \<mapsto> kv ! 1) else m)
       (split_on (CHR '','') versions) Map.empty"

text \<open>
  The status updates that are sent, in their order; a list that fails is logged and counts as empty, and so are failed
  updates, which change nothing else.
\<close>

definition DropStoredVersion :: "(goerror + CRD list) \<Rightarrow> string \<Rightarrow> CRD list" where
  "DropStoredVersion listed versionsToBeDropped =
     (let drops = ParseStorageVersionsMap versionsToBeDropped;
          items = (case listed of Inl e \<Rightarrow> [] | Inr crds \<Rightarrow> crds) in
      List.map_filter (\<lambda>crd.
        case drops (crd_Kind crd) of
          None \<Rightarrow> None
        | Some storedVersionToDrop \<Rightarrow>
            if crd_Group crd \<noteq> OperatorGroup then None
            else Some (crd\<lparr>crd_StoredVersions := filter (\<lambda>v. v \<noteq> storedVersionToDrop) (crd_StoredVersions crd)\<rparr>)) items)"

definition cleanupStoredVersions :: "bool \<Rightarrow> (goerror + CRD list) \<Rightarrow> string \<Rightarrow> CRD list" where
  "cleanupStoredVersions cacheSynced listed crdVersionsToDrop =
     (if crdVersionsToDrop = [] then [] else if \<not> cacheSynced then [] else DropStoredVersion listed crdVersionsToDrop)"

section \<open>The start\<close>

record manager_setup =
  mg_cache :: cache_options
  mg_certificates :: cert_repo_choice
  mg_gatewayCertificates :: cert_repo_choice
  mg_webhook :: webhook_setup
  mg_registry :: OCIRegistry

definition start ::
  "cert_apis \<Rightarrow> (duration \<Rightarrow> string) \<Rightarrow> (goerror + string) \<Rightarrow> (string \<Rightarrow> bool) \<Rightarrow> (string \<Rightarrow> string \<Rightarrow> goerror + Gateway)
    \<Rightarrow> auths_decoder \<Rightarrow> (string \<Rightarrow> string \<Rightarrow> goerror + Secret)
    \<Rightarrow> (string \<Rightarrow> 'kc crane_option list \<Rightarrow> goerror + string) \<Rightarrow> (string \<Rightarrow> 'kc crane_option list \<Rightarrow> goerror + cr_layer)
    \<Rightarrow> (goerror + 'kc) \<Rightarrow> FlagVar \<Rightarrow> goerror + manager_setup" where
  "start ca seconds executable isDir getGateway unmarshal getSecret config pull keyChain f =
     (case Validate ca seconds f of
        Some e \<Rightarrow> Inl e
      | None \<Rightarrow>
          (case SetupCacheOptions ca (fl_IstioNamespace f) (fl_IstioGatewayNamespace f) (fl_CertificateManagement f) of
             Inl e \<Rightarrow> Inl e
           | Inr opts \<Rightarrow>
               (case ComposeCertificateRepository ca f of
                  Inl e \<Rightarrow> Inl e
                | Inr certs \<Rightarrow>
                    (case ComposeSkrWebhookManager executable isDir getGateway f [] of
                       Inl e \<Rightarrow> Inl e
                     | Inr webhook \<Rightarrow>
                         (case SetupCertInterface ca f of
                            Inl e \<Rightarrow> Inl e
                          | Inr gatewayCerts \<Rightarrow>
                              (case ComposeRegistry unmarshal getSecret f of
                                 Inl e \<Rightarrow> Inl e
                               | Inr oci \<Rightarrow>
                                   (case ComposeRepository config pull (Some keyChain) oci of
                                      Inl e \<Rightarrow> Inl e
                                    | Inr reader \<Rightarrow>
                                        Inr \<lparr>mg_cache = opts, mg_certificates = certs, mg_gatewayCertificates = gatewayCerts,
                                             mg_webhook = webhook, mg_registry = oci\<rparr>)))))))"

section \<open>What a start needs\<close>

lemma Validate_choice:
  assumes "Validate ca seconds f = None"
  shows "fl_SelfSignedCertKeySize f = 4096"
    and "fl_CertificateManagement f = ca_certmanager ca \<or> fl_CertificateManagement f = ca_gardener ca"
    and "(fl_OciRegistryHost f = []) \<noteq> (fl_OciRegistryCredSecretName f = [])"
  using assms
  by (auto simp: Validate_def valid_key_size_def validateOciRegistryConfig_def split: if_splits option.splits)

lemma certificates_composed:
  assumes "Validate ca seconds f = None"
  shows "(\<exists>c. ComposeCertificateRepository ca f = Inr c) \<longleftrightarrow> fl_IstioNamespace f \<noteq> []"
    and "\<exists>c. SetupCertInterface ca f = Inr c"
    and "\<exists>opts. SetupCacheOptions ca ns ns' (fl_CertificateManagement f) = Inr opts"
  using Validate_choice [OF assms]
  by (auto simp: ComposeCertificateRepository_def SetupCertInterface_def certificate_values_def cm_NewRepository_def
      gcm_NewRepository_def IstioNamespace_def SetupCacheOptions_def getCertManagementCacheObjects_def Let_def)

lemma ComposeRepository_accepts:
  "(\<exists>r. ComposeRepository config pull (Some kc) oci = Inr r)
     \<longleftrightarrow> \<not> containsStr (GetReference oci) ''://'' \<and> \<not> hasPrefix (GetReference oci) ''/''"
  by (simp add: ComposeRepository_def oci_NewRepository_def ocm_NewRepository_def)


text \<open>A registry host that is named by the flags resolves; with credentials the errors are those of reading the secret.\<close>

lemma ComposeRegistry_host:
  assumes "Validate ca seconds f = None" and "fl_OciRegistryHost f \<noteq> []"
  shows "\<exists>oci. ComposeRegistry unmarshal getSecret f = Inr oci"
  using assms(2) Validate_choice(3) [OF assms(1)]
  by (simp add: ComposeRegistry_def NewOCIRegistry_def getRegistry_def Let_def)

section \<open>Namespaces of the caches\<close>

text \<open>What the controllers and repositories read or watch through the cache of the manager, with the namespaces that
  \<^verbatim>\<open>setupManager\<close> and the repositories give them.\<close>

definition cached_reads :: "cert_apis \<Rightarrow> FlagVar \<Rightarrow> (cached_object \<times> string) list" where
  "cached_reads ca f =
     [(CachedKyma, DefaultControlPlaneNamespace), (CachedModuleReleaseMeta, DefaultControlPlaneNamespace),
      (CachedModuleTemplate, DefaultControlPlaneNamespace), (CachedManifest, DefaultControlPlaneNamespace),
      (CachedSecret, DefaultControlPlaneNamespace), (CachedSecret, fl_IstioNamespace f), (CachedSecret, IstioNamespace),
      (CachedCertificate (fl_CertificateManagement f), fl_IstioNamespace f),
      (CachedCertificate (fl_CertificateManagement f), IstioNamespace)]"


section \<open>Names in the certificates of the runtimes\<close>

text \<open>The default of the additional DNS names: without the flag, splitting the empty string gives one empty name, which is
  requested as a DNS name in the certificate of every runtime; with a list, exactly the listed names are added.\<close>

theorem default_dns_names:
  assumes "om_Annotations (kyma_Meta k) SkrDomainAnnotation = Some skrDomain" and "skrDomain \<noteq> []"
  shows "(\<exists>names. constructDNSNames (setupSKRCertService secrets tf repo (default_FlagVar ca)) k = Inr names \<and> [] \<in> set names)
    \<and> (\<forall>xs. xs \<noteq> [] \<and> (\<forall>x \<in> set xs. CHR '','' \<notin> set x) \<longrightarrow>
        (\<exists>services. constructDNSNames
            (setupSKRCertService secrets tf repo ((default_FlagVar ca)\<lparr>fl_AdditionalDNSNames := joinWith '','' xs\<rparr>)) k
          = Inr (skrDomain # xs @ services) \<and> length services = 2))"
  using assms
  by (auto simp: constructDNSNames_def setupSKRCertService_def default_fields split_on_joinWith)

section \<open>Intervals\<close>

lemma default_jitter:
  assumes "0 \<le> rand2" and "2 \<le> d"
  shows "0 < (case ri_Jitter (manifest_intervals rand1 rand2 (default_FlagVar ca)) of Some j \<Rightarrow> j d | None \<Rightarrow> d)"
proof -
  let ?j = "\<lparr>rj_Probability = 5764607523034235 / 288230376151711744, rj_Percentage = 5764607523034235 / 288230376151711744\<rparr> :: RequeueJitter"
  have "ri_Jitter (manifest_intervals rand1 rand2 (default_FlagVar ca)) = Some (RequeueJitter_Apply ?j rand1 rand2)"
    by (simp add: manifest_intervals_def default_fields NewRequeueJitter_def DefaultManifestRequeueJitterProbability_def
        DefaultManifestRequeueJitterPercentage_def)
  then show ?thesis using jitter_small_percentage [of ?j rand2 d rand1] assms by simp
qed

text \<open>With the default flags every controller comes back: the requeue intervals of the Kyma, Watcher and mandatory module
  controllers are positive, and so is every interval of the Manifest controller for any random numbers of its jitter.\<close>

theorem default_flags_requeue:
  assumes "0 \<le> rand2"
  shows "intervals_ok (kyma_intervals (default_FlagVar ca)) \<and> intervals_ok (watcher_intervals (default_FlagVar ca))
    \<and> intervals_ok (mandatory_intervals (default_FlagVar ca)) \<and> intervals_ok (mandatory_deletion_intervals (default_FlagVar ca))
    \<and> 0 < DetermineRequeueInterval state (manifest_intervals rand1 rand2 (default_FlagVar ca))"
proof (intro conjI)
  note defs = default_intervals DefaultKymaRequeueSuccessInterval_def DefaultKymaRequeueBusyInterval_def
    DefaultKymaRequeueErrInterval_def DefaultKymaRequeueWarningInterval_def DefaultWatcherRequeueSuccessInterval_def
    DefaultMandatoryModuleRequeueSuccessInterval_def DefaultMandatoryModuleDeletionRequeueSuccessInterval_def
    DefaultManifestRequeueSuccessInterval_def DefaultManifestRequeueBusyInterval_def DefaultManifestRequeueErrInterval_def
    DefaultManifestRequeueWarningInterval_def second_def minute_def
  show "intervals_ok (kyma_intervals (default_FlagVar ca))" by (simp add: intervals_ok_def kyma_intervals_def defs)
  show "intervals_ok (watcher_intervals (default_FlagVar ca))" by (simp add: intervals_ok_def watcher_intervals_def defs)
  show "intervals_ok (mandatory_intervals (default_FlagVar ca))"
    by (simp add: intervals_ok_def mandatory_intervals_def kyma_intervals_def defs)
  show "intervals_ok (mandatory_deletion_intervals (default_FlagVar ca))"
    by (simp add: intervals_ok_def mandatory_deletion_intervals_def kyma_intervals_def defs)
  have *: "2 \<le> ri_Success (manifest_intervals rand1 rand2 (default_FlagVar ca))" "2 \<le> ri_Busy (manifest_intervals rand1 rand2 (default_FlagVar ca))"
    "2 \<le> ri_Warning (manifest_intervals rand1 rand2 (default_FlagVar ca))" "2 \<le> ri_Error (manifest_intervals rand1 rand2 (default_FlagVar ca))"
    by (simp_all add: manifest_intervals_def defs)
  have "2 \<le> (case state of StateError \<Rightarrow> ri_Error r | StateDeleting \<Rightarrow> ri_Busy r | StateProcessing \<Rightarrow> ri_Busy r
      | StateWarning \<Rightarrow> ri_Warning r | _ \<Rightarrow> ri_Success r)" if "2 \<le> ri_Success r" "2 \<le> ri_Busy r" "2 \<le> ri_Warning r" "2 \<le> ri_Error r" for r
    using that by (cases state) simp_all
  from default_jitter [OF assms this [OF *]] show "0 < DetermineRequeueInterval state (manifest_intervals rand1 rand2 (default_FlagVar ca))"
    unfolding DetermineRequeueInterval_def Let_def by (simp split: option.splits)
qed

section \<open>The maintenance policy that is used\<close>

text \<open>The gauge of the maintenance policy: it shows 1 exactly if a policy is in use after the start, and then the policy is what
  the file of that name in the directory parses to; without one no maintenance window is ever active, so that modules that
  need one are not updated.\<close>

theorem maintenance_gauge_exact:
  "(case initMaintenanceWindow px minSize vars of ((policy, window), gauge) \<Rightarrow>
      (gauge = 1 \<longleftrightarrow> policy \<noteq> None) \<and> (gauge = 0 \<longleftrightarrow> policy = None)
    \<and> (policy = None \<longrightarrow> IsActive now now2 policy window k = Inl ErrNoMaintenanceWindowPolicyConfigured)
    \<and> (\<forall>p. policy = Some p \<longrightarrow> window = minSize \<and> (\<exists>pool data. GetMaintenancePolicyPool px
         (vars(PolicyPathENV \<mapsto> maintenanceWindowPoliciesDirectory)) = Inr pool
       \<and> pool ''policy.json'' = Some data \<and> px_parse px data = Inr p)))"
  unfolding initMaintenanceWindow_def InitializeMaintenanceWindow_def GetMaintenancePolicy_def maintenanceWindowPolicyName_def
  by (auto simp: Let_def RecordConfigReadSuccess_def IsActive_def split: option.splits sum.splits)

section \<open>Stored versions\<close>

text \<open>The format of the flag: pairs of kind and version, separated by commas.\<close>

lemma parse_pairs:
  assumes "\<forall>(k, v) \<in> set kvs. CHR '':'' \<notin> set k \<and> CHR '':'' \<notin> set v"
  shows "fold (\<lambda>pair m. let kv = split_on (CHR '':'') pair in
             if length kv = resourceVersionPairCount then m(kv ! 0 \<mapsto> kv ! 1) else m) (map (\<lambda>(k, v). k @ '':'' @ v) kvs) m
    = m ++ map_of (rev kvs)"
  using assms
proof (induction kvs arbitrary: m)
  case (Cons x kvs)
  obtain k v where x: "x = (k, v)" by (cases x)
  have s: "split_on (CHR '':'') (k @ '':'' @ v) = [k, v]" using Cons.prems x split_on_append [of "CHR '':''" k v] by simp
  show ?case using Cons s x by (simp add: Let_def resourceVersionPairCount_def map_add_def fun_eq_iff split: option.split)
qed (simp add: map_add_def)

lemma ParseStorageVersionsMap_pairs:
  assumes "kvs \<noteq> []" and "\<forall>(k, v) \<in> set kvs. set k \<inter> {CHR '':'', CHR '',''} = {} \<and> set v \<inter> {CHR '':'', CHR '',''} = {}"
  shows "ParseStorageVersionsMap (joinWith '','' (map (\<lambda>(k, v). k @ '':'' @ v) kvs)) = map_of (rev kvs)"
proof -
  have "split_on (CHR '','') (joinWith '','' (map (\<lambda>(k, v). k @ '':'' @ v) kvs)) = map (\<lambda>(k, v). k @ '':'' @ v) kvs"
    by (rule split_on_joinWith) (use assms in auto)
  moreover have "\<forall>(k, v) \<in> set kvs. CHR '':'' \<notin> set k \<and> CHR '':'' \<notin> set v" using assms(2) by auto
  ultimately show ?thesis unfolding ParseStorageVersionsMap_def using parse_pairs [of kvs Map.empty] by simp
qed

text \<open>Removal of stored versions: for a well-formed flag, the updates that are sent are exactly those for the listed definitions
  of the operator's group whose kind is named, in the order of the list, and each removes the named version and nothing else.\<close>

theorem DropStoredVersion_exact:
  assumes "kvs \<noteq> []" and "\<forall>(k, v) \<in> set kvs. set k \<inter> {CHR '':'', CHR '',''} = {} \<and> set v \<inter> {CHR '':'', CHR '',''} = {}"
    and "distinct (map fst kvs)"
  shows "DropStoredVersion (Inr crds) (joinWith '','' (map (\<lambda>(k, v). k @ '':'' @ v) kvs)) =
    map (\<lambda>crd. crd\<lparr>crd_StoredVersions := filter (\<lambda>v. (crd_Kind crd, v) \<notin> set kvs) (crd_StoredVersions crd)\<rparr>)
      (filter (\<lambda>crd. crd_Group crd = OperatorGroup \<and> crd_Kind crd \<in> fst ` set kvs) crds)"
proof -
  have m: "map_of (rev kvs) = map_of kvs" by (rule map_of_inject_set [THEN iffD2]) (use assms(3) in \<open>simp_all add: rev_map [symmetric]\<close>)
  have step: "(case map_of kvs (crd_Kind crd) of
          None \<Rightarrow> None
        | Some d \<Rightarrow> if crd_Group crd \<noteq> OperatorGroup then None
                    else Some (crd\<lparr>crd_StoredVersions := filter (\<lambda>v. v \<noteq> d) (crd_StoredVersions crd)\<rparr>))
      = (if crd_Group crd = OperatorGroup \<and> crd_Kind crd \<in> fst ` set kvs
         then Some (crd\<lparr>crd_StoredVersions := filter (\<lambda>v. (crd_Kind crd, v) \<notin> set kvs) (crd_StoredVersions crd)\<rparr>) else None)" for crd
  proof (cases "map_of kvs (crd_Kind crd)")
    case None
    then have "crd_Kind crd \<notin> fst ` set kvs" by (simp add: map_of_eq_None_iff)
    then show ?thesis using None by simp
  next
    case (Some d)
    have "v \<noteq> d \<longleftrightarrow> (crd_Kind crd, v) \<notin> set kvs" for v
      using Some map_of_eq_Some_iff [OF assms(3)] by (metis option.inject)
    then show ?thesis using Some by (force dest: map_of_SomeD)
  qed
  show ?thesis
    unfolding DropStoredVersion_def ParseStorageVersionsMap_pairs [OF assms(1,2)] m Let_def sum.case step
    by (rule map_filter_map_filter [symmetric])
qed

section \<open>Witnesses\<close>

definition ex_opts :: cache_options where
  "ex_opts = GetCacheOptions ''istio-system'' ''gateways'' [CachedCertificate ''cert-manager.io/v1'']"

definition ex_gateway_flags :: FlagVar where
  "ex_gateway_flags = ex_flags\<lparr>fl_IstioNamespace := ''istio-system'', fl_IstioGatewayNamespace := ''gateways'',
     fl_CertificateManagement := ''cert-manager.io/v1''\<rparr>"


theorem default_dns_names_witness:
  "case constructDNSNames (setupSKRCertService ex_secret_api (cs_time (ex_cert_service None)) (cs_certRepo (ex_cert_service None))
     (default_FlagVar ex_ca)) ex_metrics_kyma of Inl e \<Rightarrow> False | Inr names \<Rightarrow> [] \<in> set names"
proof -
  have "om_Annotations (kyma_Meta ex_metrics_kyma) SkrDomainAnnotation = Some ''shoot.kyma.cloud''" by code_simp
  from default_dns_names [OF this, of ex_secret_api "cs_time (ex_cert_service None)" "cs_certRepo (ex_cert_service None)" ex_ca]
  show ?thesis by (auto split: sum.splits)
qed

theorem default_flags_requeue_witness:
  "0 < DetermineRequeueInterval StateReady (manifest_intervals (1 / 100) (1 / 3) (default_FlagVar ex_ca))"
  using default_flags_requeue [of "1 / 3" ex_ca StateReady "1 / 100"] by simp

theorem DropStoredVersion_exact_witness:
  "DropStoredVersion (Inr [\<lparr>crd_Name = ''kymas'', crd_Group = OperatorGroup, crd_Kind = ''Kyma'', crd_StoredVersions = [''v1beta1'', ''v1beta2'']\<rparr>])
     ''Manifest:v1beta1,Kyma:v1beta1''
   = [\<lparr>crd_Name = ''kymas'', crd_Group = OperatorGroup, crd_Kind = ''Kyma'', crd_StoredVersions = [''v1beta2'']\<rparr>]"
proof -
  let ?kvs = "[(''Manifest'', ''v1beta1''), (''Kyma'', ''v1beta1'')]"
  have "\<forall>(k, v) \<in> set ?kvs. set k \<inter> {CHR '':'', CHR '',''} = {} \<and> set v \<inter> {CHR '':'', CHR '',''} = {}" by simp
  from DropStoredVersion_exact [OF _ this, of "[\<lparr>crd_Name = ''kymas'', crd_Group = OperatorGroup, crd_Kind = ''Kyma'',
      crd_StoredVersions = [''v1beta1'', ''v1beta2'']\<rparr>]"] show ?thesis by simp
qed

end
