(* ===== verification/SkrClient.thy ===== *)
theory SkrClient
  imports ManifestTypes Util
begin

text \<open>
  The client for the clusters of the runtimes (\<^verbatim>\<open>internal/service/skrclient\<close>): it checks before every request that the REST
  mapper knows the kind of the object and lets the mapper read the API of the cluster again when it does not. The mapper and
  the client below it are parameters, as are the connection set-up and the cache library; the cache of clients with its
  random time to live is the state of \<^verbatim>\<open>skrclient/cache\<close> and of \<^verbatim>\<open>internal/remote/client_cache.go\<close>.
\<close>

section \<open>REST mappings\<close>

definition gvk_Empty :: "GVK \<Rightarrow> bool" where
  "gvk_Empty g \<longleftrightarrow> gvk_Group g = [] \<and> gvk_Version g = [] \<and> gvk_Kind g = []"

text \<open>\<^verbatim>\<open>GroupKind.String\<close>.\<close>

definition groupKind_text :: "GVK \<Rightarrow> string" where
  "groupKind_text g = (if gvk_Group g = [] then gvk_Kind g else gvk_Kind g @ ''.'' @ gvk_Group g)"

text \<open>A mapper with a cache of what the cluster serves: its state changes when it looks something up and when it is reset.\<close>

record ('m, 'r) rest_mapper =
  rm_RESTMapping :: "GVK \<Rightarrow> 'm \<Rightarrow> 'm \<times> (goerror + 'r)"
  rm_Reset :: "'m \<Rightarrow> 'm"

text \<open>\<^verbatim>\<open>getResourceMapping\<close>; for an empty kind an error is dropped and the mapping may be nil.\<close>

definition getResourceMapping :: "('m, 'r) rest_mapper \<Rightarrow> GVK \<Rightarrow> 'm \<Rightarrow> 'm \<times> (goerror + 'r option)" where
  "getResourceMapping mapper gvk m =
     (case rm_RESTMapping mapper gvk m of (m1, mapping) \<Rightarrow>
        if gvk_Empty gvk then (m1, Inr (case mapping of Inl e \<Rightarrow> None | Inr r \<Rightarrow> Some r))
        else
          (case (case mapping of
                   Inl e \<Rightarrow> if no_match e then rm_RESTMapping mapper gvk (rm_Reset mapper m1) else (m1, mapping)
                 | Inr r \<Rightarrow> (m1, mapping)) of
             (m2, Inl e) \<Rightarrow>
               (m2, Inl (wrapErr (''failed rest mapping ['' @ groupKind_text gvk @ '', '' @ gvk_Version gvk @ '']: '') e))
           | (m2, Inr r) \<Rightarrow> (m2, Inr (Some r))))"

section \<open>The proxy\<close>

text \<open>
  A request of the client below, on the state of the cluster. \<open>shown\<close> is the object as \<^verbatim>\<open>%v\<close> prints it.
\<close>

type_synonym 'w request = "'w \<Rightarrow> 'w \<times> goerror option"

definition proxied ::
  "('m, 'r) rest_mapper \<Rightarrow> GVK \<Rightarrow> string \<Rightarrow> string \<Rightarrow> 'w request \<Rightarrow> 'm \<times> 'w \<Rightarrow> ('m \<times> 'w) \<times> goerror option" where
  "proxied mapper gvk mappingText text base s =
     (case getResourceMapping mapper gvk (fst s) of
        (m, Inl e) \<Rightarrow> ((m, snd s), Some (wrapErr mappingText e))
      | (m, Inr mapping) \<Rightarrow> (case base (snd s) of (w, r) \<Rightarrow> ((m, w), map_option (\<lambda>e. wrapErr text e) r)))"

abbreviation mapping_text :: string where "mapping_text \<equiv> ''failed to get resource mapping: ''"

definition proxy_Create where
  "proxy_Create mapper gvk shown = proxied mapper gvk mapping_text (''failed to create object for ['' @ shown @ '']: '')"

definition proxy_Update where
  "proxy_Update mapper gvk shown = proxied mapper gvk mapping_text (''failed to update object for['' @ shown @ '']:'')"

definition proxy_Delete where
  "proxy_Delete mapper gvk shown = proxied mapper gvk mapping_text (''failed to delete object for ['' @ shown @ '']: '')"

definition proxy_DeleteAllOf where
  "proxy_DeleteAllOf mapper gvk shown = proxied mapper gvk mapping_text (''failed to delete all objects for ['' @ shown @ '']: '')"

definition proxy_Patch where
  "proxy_Patch mapper gvk shown = proxied mapper gvk mapping_text (''failed to patch object for ['' @ shown @ '']: '')"

definition proxy_Get where
  "proxy_Get mapper gvk shown = proxied mapper gvk mapping_text (''failed to fetch object for ['' @ shown @ '']: '')"

definition proxy_List where
  "proxy_List mapper gvk shown = proxied mapper gvk mapping_text (''failed to fetch object for ['' @ shown @ '']: '')"

text \<open>The kind of an apply configuration: of an object, of a typed configuration, whose pointers may be nil, or none.\<close>

datatype apply_config =
  ObjectConfig GVK
| TypedConfig "string option" "string option"
| OtherConfig

definition ErrFailedToCastApplyConfig :: goerror where
  "ErrFailedToCastApplyConfig = Sentinel ''ErrFailedToCastApplyConfig''
     ''failed to cast apply configuration to client.Object or apiVersionAndKind''"

text \<open>\<open>fromAPI\<close> is \<^verbatim>\<open>schema.FromAPIVersionAndKind\<close>.\<close>

definition gvkFromApplyConfig :: "(string \<Rightarrow> string \<Rightarrow> GVK) \<Rightarrow> apply_config \<Rightarrow> goerror + GVK" where
  "gvkFromApplyConfig fromAPI c =
     (case c of
        ObjectConfig gvk \<Rightarrow> Inr gvk
      | TypedConfig (Some apiVersion) (Some kind) \<Rightarrow> Inr (fromAPI apiVersion kind)
      | TypedConfig _ _ \<Rightarrow> Inl nilDereference
      | OtherConfig \<Rightarrow> Inl ErrFailedToCastApplyConfig)"

definition proxy_Apply ::
  "('m, 'r) rest_mapper \<Rightarrow> (string \<Rightarrow> string \<Rightarrow> GVK) \<Rightarrow> (GVK \<Rightarrow> string) \<Rightarrow> apply_config \<Rightarrow> 'w request
    \<Rightarrow> 'm \<times> 'w \<Rightarrow> ('m \<times> 'w) \<times> goerror option" where
  "proxy_Apply mapper fromAPI gvk_text c base s =
     (case gvkFromApplyConfig fromAPI c of
        Inl e \<Rightarrow> (s, Some (wrapErr ''failed to get GVK from apply configuration: '' e))
      | Inr gvk \<Rightarrow>
          proxied mapper gvk (''failed to get resource mapping for ['' @ gvk_text gvk @ '']: '')
            (''failed to apply object for ['' @ gvk_text gvk @ '']: '') base s)"

definition GroupVersionKindFor :: "goerror + GVK \<Rightarrow> goerror + GVK" where
  "GroupVersionKindFor base = (case base of Inl e \<Rightarrow> Inl (wrapErr ''failed to fetch group version: '' e) | Inr g \<Rightarrow> Inr g)"

definition IsObjectNamespaced :: "goerror + bool \<Rightarrow> goerror + bool" where
  "IsObjectNamespaced base =
     (case base of Inl e \<Rightarrow> Inl (wrapErr ''failed to fetch group version is namespaced or not: '' e) | Inr b \<Rightarrow> Inr b)"

section \<open>Connections\<close>

record rest_config =
  rc_Host :: string
  rc_QPS :: int
  rc_Burst :: int
  rc_GroupVersion :: "string \<times> string"
  rc_APIPath :: string
  rc_NegotiatedSerializer :: "string option"
  rc_Proxy :: "string option"

text \<open>
  The configuration for a Kyma, the defaults of the client library, the codecs without conversion, the proxy of the
  environment, and the construction of the discovery client and of the client proxy.
\<close>

record connection_env =
  cx_accessConfig :: "string \<Rightarrow> goerror + rest_config"
  cx_defaults :: "rest_config \<Rightarrow> goerror + rest_config"
  cx_codecs :: string
  cx_proxy :: string
  cx_discovery :: "rest_config \<Rightarrow> goerror option"
  cx_clientNew :: "rest_config \<Rightarrow> goerror option"

definition setKubernetesDefaults :: "connection_env \<Rightarrow> rest_config \<Rightarrow> goerror + rest_config" where
  "setKubernetesDefaults cx config =
     (let c1 = config\<lparr>rc_GroupVersion := ([], ''v1'')\<rparr>;
          c2 = (if rc_APIPath c1 = [] then c1\<lparr>rc_APIPath := ''/api''\<rparr> else c1);
          c3 = (if rc_NegotiatedSerializer c2 = None then c2\<lparr>rc_NegotiatedSerializer := Some (cx_codecs cx)\<rparr> else c2) in
      case cx_defaults cx c3 of
        Inl e \<Rightarrow> Inl (wrapErr ''failed to create kubernetes default config: '' e)
      | Inr c \<Rightarrow> Inr c)"

definition newClientProxy :: "connection_env \<Rightarrow> rest_config \<Rightarrow> goerror option" where
  "newClientProxy cx config = map_option (\<lambda>e. wrapErr ''failed to create client proxy: '' e) (cx_clientNew cx config)"

text \<open>A client is its configuration with two caches of REST clients.\<close>

record 'c SKRClient =
  sc_config :: rest_config
  sc_structured :: "string \<rightharpoonup> 'c"
  sc_unstructured :: "string \<rightharpoonup> 'c"

definition ResolveClient :: "connection_env \<Rightarrow> int \<Rightarrow> int \<Rightarrow> Manifest \<Rightarrow> goerror + 'c SKRClient" where
  "ResolveClient cx qps burst manifest =
     (case GetKymaName manifest of
        Inl e \<Rightarrow> Inl (wrapErr ''failed to get kyma owner label: '' e)
      | Inr kymaName \<Rightarrow>
          (case cx_accessConfig cx kymaName of
             Inl e \<Rightarrow> Inl e
           | Inr config \<Rightarrow>
               (case setKubernetesDefaults cx (config\<lparr>rc_QPS := qps, rc_Burst := burst\<rparr>) of
                  Inl e \<Rightarrow> Inl e
                | Inr c \<Rightarrow>
                    (let c' = c\<lparr>rc_Proxy := Some (cx_proxy cx)\<rparr> in
                     case cx_discovery cx c' of
                       Some e \<Rightarrow> Inl (wrapErr ''failed to initiliaze DiscoveryClient: '' e)
                     | None \<Rightarrow>
                         (case newClientProxy cx c' of
                            Some e \<Rightarrow> Inl e
                          | None \<Rightarrow> Inr \<lparr>sc_config = c', sc_structured = Map.empty, sc_unstructured = Map.empty\<rparr>)))))"

section \<open>REST clients for a mapping (\<^verbatim>\<open>kube_factory_proxy.go\<close>)\<close>

record rest_mapping =
  mp_Resource :: string   \<comment> \<open>as printed\<close>
  mp_gvk :: GVK
  mp_gvkText :: string
  mp_Scope :: string

definition clientCacheKeyForMapping :: "rest_mapping \<Rightarrow> string" where
  "clientCacheKeyForMapping mp = mp_Resource mp @ ''+'' @ mp_gvkText mp @ '':'' @ mp_Scope mp"

definition mapped_config :: "rest_mapping \<Rightarrow> rest_config \<Rightarrow> rest_config" where
  "mapped_config mp cfg =
     cfg\<lparr>rc_APIPath := (if gvk_Group (mp_gvk mp) = [] then ''/api'' else ''/apis''),
         rc_GroupVersion := (gvk_Group (mp_gvk mp), gvk_Version (mp_gvk mp))\<rparr>"

text \<open>\<open>restClientFor\<close> builds a client and \<open>unstructuredContent\<close> sets the content types for unstructured objects.\<close>

definition ClientForMapping ::
  "(rest_config \<Rightarrow> goerror + 'c) \<Rightarrow> rest_mapping \<Rightarrow> 'c SKRClient \<Rightarrow> 'c SKRClient \<times> (goerror + 'c)" where
  "ClientForMapping restClientFor mp s =
     (let key = clientCacheKeyForMapping mp in
      case sc_structured s key of
        Some c \<Rightarrow> (s, Inr c)
      | None \<Rightarrow>
          (case restClientFor (mapped_config mp (sc_config s)) of
             Inl e \<Rightarrow> (s, Inl (wrapErr ''failed to create httpClient config: '' e))
           | Inr c \<Rightarrow> (s\<lparr>sc_structured := (sc_structured s)(key \<mapsto> c)\<rparr>, Inr c)))"

definition UnstructuredClientForMapping ::
  "(rest_config \<Rightarrow> goerror + 'c) \<Rightarrow> (rest_config \<Rightarrow> rest_config) \<Rightarrow> rest_mapping \<Rightarrow> 'c SKRClient \<Rightarrow> 'c SKRClient \<times> (goerror + 'c)" where
  "UnstructuredClientForMapping restClientFor unstructuredContent mp s =
     (let key = clientCacheKeyForMapping mp in
      case sc_unstructured s key of
        Some c \<Rightarrow> (s, Inr c)
      | None \<Rightarrow>
          (case restClientFor (mapped_config mp (unstructuredContent (sc_config s))) of
             Inl e \<Rightarrow> (s, Inl (wrapErr ''failed to create httpClient config: '' e))
           | Inr c \<Rightarrow> (s\<lparr>sc_unstructured := (sc_unstructured s)(key \<mapsto> c)\<rparr>, Inr c)))"

section \<open>Caches of clients\<close>

text \<open>The cache library: entries with a time to live, at a time.\<close>

record ('k, 'v, 'c) ttl_cache =
  tc_Get :: "'k \<Rightarrow> int \<Rightarrow> 'c \<Rightarrow> 'v option"
  tc_Set :: "'k \<Rightarrow> 'v \<Rightarrow> duration \<Rightarrow> int \<Rightarrow> 'c \<Rightarrow> 'c"
  tc_Has :: "'k \<Rightarrow> int \<Rightarrow> 'c \<Rightarrow> bool"
  tc_Delete :: "'k \<Rightarrow> 'c \<Rightarrow> 'c"

text \<open>
  Documented behaviour, with touching on hits disabled: an entry is returned until its time to live has passed since it was
  set and never after, and it is independent of the other keys.
\<close>

definition ttl_ok :: "('k, 'v, 'c) ttl_cache \<Rightarrow> bool" where
  "ttl_ok api \<longleftrightarrow>
     (\<forall>k v d t c k' t'. t \<le> t' \<longrightarrow> tc_Get api k' t' (tc_Set api k v d t c) =
        (if k' = k then (if t' < t + d then Some v else None) else tc_Get api k' t' c))
   \<and> (\<forall>k c k' t. tc_Get api k' t (tc_Delete api k c) = (if k' = k then None else tc_Get api k' t c))
   \<and> (\<forall>k t c. tc_Has api k t c \<longleftrightarrow> tc_Get api k t c \<noteq> None)"

definition ttlInSecondsLower :: int where "ttlInSecondsLower = 23 * 60 * 60"
definition ttlInSecondsUpper :: int where "ttlInSecondsUpper = 25 * 60 * 60"

text \<open>\<open>randomRange\<close> is the number that is drawn below the difference of the bounds.\<close>

definition getRandomTTL :: "int \<Rightarrow> duration" where
  "getRandomTTL randomRange = (randomRange + ttlInSecondsLower) * second"

definition GetClient :: "('k, 'v, 'c) ttl_cache \<Rightarrow> 'k \<Rightarrow> int \<Rightarrow> 'c \<Rightarrow> 'v option" where
  "GetClient api key now c = tc_Get api key now c"

definition AddClient :: "('k, 'v, 'c) ttl_cache \<Rightarrow> int \<Rightarrow> 'k \<Rightarrow> 'v \<Rightarrow> int \<Rightarrow> 'c \<Rightarrow> 'c" where
  "AddClient api randomRange key client now c = tc_Set api key client (getRandomTTL randomRange) now c"

definition DeleteClient :: "('k, 'v, 'c) ttl_cache \<Rightarrow> 'k \<Rightarrow> 'c \<Rightarrow> 'c" where
  "DeleteClient api key c = tc_Delete api key c"

text \<open>The cache of the Kyma controller has the same operations, and a test for a key.\<close>

definition ClientCache_Get :: "('k, 'v, 'c) ttl_cache \<Rightarrow> 'k \<Rightarrow> int \<Rightarrow> 'c \<Rightarrow> 'v option" where
  "ClientCache_Get api key now c = tc_Get api key now c"

definition ClientCache_Add :: "('k, 'v, 'c) ttl_cache \<Rightarrow> int \<Rightarrow> 'k \<Rightarrow> 'v \<Rightarrow> int \<Rightarrow> 'c \<Rightarrow> 'c" where
  "ClientCache_Add api randomRange key client now c = tc_Set api key client (getRandomTTL randomRange) now c"

definition ClientCache_Contains :: "('k, 'v, 'c) ttl_cache \<Rightarrow> 'k \<Rightarrow> int \<Rightarrow> 'c \<Rightarrow> bool" where
  "ClientCache_Contains api key now c = tc_Has api key now c"

definition ClientCache_Delete :: "('k, 'v, 'c) ttl_cache \<Rightarrow> 'k \<Rightarrow> 'c \<Rightarrow> 'c" where
  "ClientCache_Delete api key c = tc_Delete api key c"


section \<open>Requests reach the cluster\<close>

text \<open>
  What the discovery client and its mapper document while the cluster answers: a lookup finds the kind in the cache or
  reports that there is no match, and after a reset it finds exactly the kinds the cluster serves.
\<close>

definition mapper_ok :: "('m, 'r) rest_mapper \<Rightarrow> (GVK \<Rightarrow> bool) \<Rightarrow> bool" where
  "mapper_ok mapper served \<longleftrightarrow>
     (\<forall>g m. case snd (rm_RESTMapping mapper g m) of Inl e \<Rightarrow> no_match e | Inr r \<Rightarrow> True)
   \<and> (\<forall>g m. (\<exists>r. snd (rm_RESTMapping mapper g (rm_Reset mapper m)) = Inr r) \<longleftrightarrow> served g)"

lemma no_match_wrapErr [err_simps]: "no_match (wrapErr pre e) = no_match e"
  by (simp add: no_match_def)

lemma mapper_okD:
  assumes "mapper_ok mapper served" and "snd (rm_RESTMapping mapper g m) = Inl e"
  shows "no_match e"
  using assms unfolding mapper_ok_def by (metis sum.case(1))

lemma mapper_ok_reset:
  assumes "mapper_ok mapper served"
  shows "(\<exists>r. snd (rm_RESTMapping mapper g (rm_Reset mapper m)) = Inr r) \<longleftrightarrow> served g"
  using assms unfolding mapper_ok_def by blast

lemma getResourceMapping_served:
  assumes ok: "mapper_ok mapper served" and s: "served gvk"
  obtains m' r where "getResourceMapping mapper gvk m = (m', Inr r)"
proof -
  obtain m1 res where m1: "rm_RESTMapping mapper gvk m = (m1, res)" by (cases "rm_RESTMapping mapper gvk m")
  obtain m2 res2 where m2: "rm_RESTMapping mapper gvk (rm_Reset mapper m1) = (m2, res2)"
    by (cases "rm_RESTMapping mapper gvk (rm_Reset mapper m1)")
  have "\<exists>r. res2 = Inr r" using mapper_ok_reset [OF ok, of gvk m1] s m2 by simp
  then obtain r2 where r2: "res2 = Inr r2" ..
  show ?thesis
  proof (cases res)
    case (Inl e)
    then have "no_match e" using mapper_okD [OF ok, of gvk m e] m1 by simp
    then show ?thesis using that m1 m2 Inl r2 by (cases "gvk_Empty gvk") (auto simp: getResourceMapping_def)
  next
    case (Inr r)
    then show ?thesis using that m1 by (cases "gvk_Empty gvk") (auto simp: getResourceMapping_def)
  qed
qed

lemma getResourceMapping_unserved:
  assumes ok: "mapper_ok mapper served" and s: "\<not> served gvk" and g: "\<not> gvk_Empty gvk"
    and miss: "snd (rm_RESTMapping mapper gvk m) = Inl e0"
  obtains m' e where "getResourceMapping mapper gvk m = (m', Inl e)" and "no_match e"
proof -
  obtain m1 where m1: "rm_RESTMapping mapper gvk m = (m1, Inl e0)"
    using miss by (cases "rm_RESTMapping mapper gvk m") simp
  obtain m2 res2 where m2: "rm_RESTMapping mapper gvk (rm_Reset mapper m1) = (m2, res2)"
    by (cases "rm_RESTMapping mapper gvk (rm_Reset mapper m1)")
  obtain e2 where e2: "res2 = Inl e2" using mapper_ok_reset [OF ok, of gvk m1] s m2 by (cases res2) auto
  have "no_match e0" by (rule mapper_okD [OF ok miss])
  moreover have "no_match e2" using mapper_okD [OF ok, of gvk "rm_Reset mapper m1" e2] m2 e2 by simp
  ultimately show ?thesis using that m1 m2 e2 g by (simp add: getResourceMapping_def no_match_wrapErr)
qed

abbreviation proxy_operations where
  "proxy_operations \<equiv> {proxy_Create, proxy_Update, proxy_Delete, proxy_DeleteAllOf, proxy_Patch, proxy_Get, proxy_List}"

lemmas proxy_operation_defs =
  proxy_Create_def proxy_Update_def proxy_Delete_def proxy_DeleteAllOf_def proxy_Patch_def proxy_Get_def proxy_List_def

lemma proxy_operation_proxied:
  assumes "op \<in> proxy_operations"
  obtains msg where "op mapper gvk shown = proxied mapper gvk mapping_text msg"
  using assms that by (auto simp: proxy_operation_defs)

text \<open>
  C30. Whatever the mapper remembers, a request for a kind the cluster serves is sent to the cluster, once, with its effect
  and with the reason of its error unchanged. A request for a kind that is not served and not remembered does not touch the
  cluster and fails with an error that the controllers take for not found.
\<close>

theorem proxied_request_exact:
  fixes base :: "'w request"
  assumes "mapper_ok mapper served" and "\<not> gvk_Empty gvk" and "op \<in> proxy_operations"
    and "op mapper gvk shown base (m, w) = ((m', w'), err)"
  shows "(served gvk \<longrightarrow>
            w' = fst (base w) \<and> (err = None \<longleftrightarrow> snd (base w) = None)
            \<and> map_option reasonForError err = map_option reasonForError (snd (base w)))
       \<and> (\<not> served gvk \<and> isl (snd (rm_RESTMapping mapper gvk m)) \<longrightarrow> w' = w \<and> err \<noteq> None \<and> IsNotFound err)"
proof -
  obtain msg where p: "op mapper gvk shown = proxied mapper gvk mapping_text msg"
    using assms(3) by (rule proxy_operation_proxied)
  have run: "proxied mapper gvk mapping_text msg base (m, w) = ((m', w'), err)" using assms(4) p by simp
  show ?thesis
  proof (cases "served gvk")
    case True
    obtain m1 r where "getResourceMapping mapper gvk m = (m1, Inr r)"
      using getResourceMapping_served [OF assms(1) True] .
    then show ?thesis
      using run True by (cases "base w"; cases "snd (base w)") (auto simp: proxied_def err_simps)
  next
    case False
    {
      assume "isl (snd (rm_RESTMapping mapper gvk m))"
      then obtain e0 where "snd (rm_RESTMapping mapper gvk m) = Inl e0" by (auto simp: isl_def)
      then obtain m1 e where "getResourceMapping mapper gvk m = (m1, Inl e)" "no_match e"
        using getResourceMapping_unserved [OF assms(1) False assms(2)] by blast
      then have "w' = w \<and> err = Some (wrapErr mapping_text e) \<and> no_match e" using run by (auto simp: proxied_def)
      then have "w' = w \<and> err \<noteq> None \<and> IsNotFound err" by (auto simp: IsNotFound_def no_match_wrapErr)
    }
    then show ?thesis using False by blast
  qed
qed

text \<open>A mapper that remembers a list of kinds of a cluster which serves Samples since its last look.\<close>

definition sample_gvk :: GVK where
  "sample_gvk = \<lparr>gvk_Group = ''operator.kyma-project.io'', gvk_Version = ''v1alpha1'', gvk_Kind = ''Sample''\<rparr>"

definition no_match_err :: goerror where
  "no_match_err = Ext \<lparr>ext_msg = ''no matches for kind'', ext_reason = None, ext_conn_refused = False,
     ext_dns_not_found = None, ext_group_not_found = None, ext_not_registered = False, ext_no_match = True\<rparr>"

definition ref_mapper :: "(GVK list, unit) rest_mapper" where
  "ref_mapper = \<lparr>rm_RESTMapping = (\<lambda>g m. (m, if g \<in> set m then Inr () else Inl no_match_err)), rm_Reset = (\<lambda>m. [sample_gvk])\<rparr>"

lemma ref_mapper_ok: "mapper_ok ref_mapper (\<lambda>g. g = sample_gvk)"
  by (auto simp: mapper_ok_def ref_mapper_def no_match_err_def no_match_def)

definition counted_request :: "int request" where
  "counted_request n = (n + 1, None)"

definition gone_gvk :: GVK where
  "gone_gvk = \<lparr>gvk_Group = [], gvk_Version = ''v1'', gvk_Kind = ''Gone''\<rparr>"

theorem proxied_request_exact_witness:
  "mapper_ok ref_mapper (\<lambda>g. g = sample_gvk)
   \<and> proxy_Create ref_mapper sample_gvk ''sample'' counted_request ([], 0) = (([sample_gvk], fst (counted_request 0)), None)
   \<and> fst (counted_request 0) = 1
   \<and> IsNotFound (snd (proxy_Get ref_mapper gone_gvk ''gone'' counted_request ([], 0)))"
proof -
  have create: "proxy_Create ref_mapper sample_gvk ''sample'' counted_request ([], 0) = (([sample_gvk], 1), None)"
    by code_simp
  have "\<not> gvk_Empty sample_gvk" by code_simp
  from proxied_request_exact [where op = proxy_Create, OF ref_mapper_ok this _ create]
  have "(1 :: int) = fst (counted_request 0)" by simp
  moreover
  obtain m' w' err where get: "proxy_Get ref_mapper gone_gvk ''gone'' counted_request ([], 0) = ((m', w'), err)"
    by (metis surj_pair)
  have "\<not> gvk_Empty gone_gvk" and "gone_gvk \<noteq> sample_gvk" and "isl (snd (rm_RESTMapping ref_mapper gone_gvk []))"
    by code_simp+
  with proxied_request_exact [where op = proxy_Get, OF ref_mapper_ok this(1) _ get] have "IsNotFound err" by simp
  ultimately show ?thesis using ref_mapper_ok create get by simp
qed

section \<open>Lifetime of cached clients\<close>

lemma getRandomTTL_bounds:
  assumes "0 \<le> randomRange" and "randomRange < ttlInSecondsUpper - ttlInSecondsLower"
  shows "23 * hour \<le> getRandomTTL randomRange" and "getRandomTTL randomRange < 25 * hour"
  using assms by (simp_all add: getRandomTTL_def ttlInSecondsLower_def ttlInSecondsUpper_def hour_def minute_def second_def)

text \<open>
  A client that was put into the cache is returned for 23 hours, is gone after 25 hours, and is gone at once when it is
  deleted; the clients under other keys do not change.
\<close>

lemma cached_client_lifetime:
  assumes "ttl_ok api" and "0 \<le> randomRange" and "randomRange < ttlInSecondsUpper - ttlInSecondsLower" and "now \<le> later"
  shows "later \<le> now + 23 * hour - 1 \<Longrightarrow> GetClient api key later (AddClient api randomRange key client now c) = Some client"
    and "now + 25 * hour \<le> later \<Longrightarrow> GetClient api key later (AddClient api randomRange key client now c) = None"
    and "other \<noteq> key \<Longrightarrow>
      GetClient api other later (AddClient api randomRange key client now c) = GetClient api other later c"
    and "GetClient api key later (DeleteClient api key (AddClient api randomRange key client now c)) = None"
  using assms(1,4) getRandomTTL_bounds [OF assms(2,3)]
  unfolding ttl_ok_def GetClient_def AddClient_def DeleteClient_def by simp_all

end
