(* ===== verification/SkrSync.thy ===== *)
theory SkrSync
  imports Remote Json
begin

text \<open>
  What is copied to an SKR, in detail: the syncer of ModuleReleaseMetas as it is written
  (\<^verbatim>\<open>internal/remote/modulereleasemeta_syncer.go\<close> and its worker), proved to be the generic syncer of Remote, and the
  definitions of the custom resources that the SKR gets (\<^verbatim>\<open>internal/repository/skr/crd\<close>,
  \<^verbatim>\<open>cmd/composition/service/skrsync\<close>). The conversion to unstructured objects is a parameter.
\<close>

section \<open>ModuleReleaseMetas\<close>

definition errModuleReleaseMetaCleanup :: goerror where
  "errModuleReleaseMetaCleanup = Sentinel ''errModuleReleaseMetaCleanup'' ''catalog sync: Failed to delete ModuleReleaseMeta''"
definition errCatModuleReleaseMetaApply :: goerror where
  "errCatModuleReleaseMetaApply = Sentinel ''errCatModuleReleaseMetaApply'' ''catalog sync: Could not apply ModuleReleaseMetas''"

definition prepareModuleReleaseMetaForSSA :: "string \<Rightarrow> ModuleReleaseMeta \<Rightarrow> ModuleReleaseMeta" where
  "prepareModuleReleaseMetaForSSA namespace m =
     (let m1 = m\<lparr>mrm_Meta := (mrm_Meta m)\<lparr>om_ManagedFields := []\<rparr>\<rparr>;
          m2 = m1\<lparr>mrm_Meta := (mrm_Meta m1)\<lparr>om_Labels := fst (MergeMaps (om_Labels (mrm_Meta m1)) [(ManagedBy, ManagedByLabelValue)])\<rparr>\<rparr> in
      if namespace \<noteq> [] then m2\<lparr>mrm_Meta := (mrm_Meta m2)\<lparr>om_Namespace := namespace\<rparr>\<rparr> else m2)"

definition patchDiffModuleReleaseMeta ::
  "ModuleReleaseMeta kind_client \<Rightarrow> ModuleReleaseMeta \<Rightarrow> history \<Rightarrow> history \<times> goerror option" where
  "patchDiffModuleReleaseMeta skrClient diff s =
     (case ask (PatchRemoteMeta diff) (\<lambda>h. kc_patch skrClient h diff) s of
        (s1, Some e) \<Rightarrow> (s1, Some (wrapErr ''could not apply ModuleReleaseMeta diff: '' e))
      | (s1, None) \<Rightarrow> (s1, None))"

definition deleteModuleReleaseMeta ::
  "ModuleReleaseMeta kind_client \<Rightarrow> ModuleReleaseMeta \<Rightarrow> history \<Rightarrow> history \<times> goerror option" where
  "deleteModuleReleaseMeta skrClient diff s =
     (case ask (DeleteRemoteMeta diff) (\<lambda>h. kc_delete skrClient h diff) s of
        (s1, Some e) \<Rightarrow> (s1, Some (wrapErr ''could not delete ModuleReleaseMeta: '' e))
      | (s1, None) \<Rightarrow> (s1, None))"

definition mrm_SyncConcurrently ::
  "ModuleReleaseMeta kind_client \<Rightarrow> string \<Rightarrow> (ModuleReleaseMeta list \<Rightarrow> ModuleReleaseMeta list) \<Rightarrow> ModuleReleaseMeta list
    \<Rightarrow> history \<Rightarrow> history \<times> goerror option" where
  "mrm_SyncConcurrently skrClient namespace order kcpModules s =
     (case run_each (patchDiffModuleReleaseMeta skrClient) (order (map (prepareModuleReleaseMetaForSSA namespace) kcpModules)) s of
        (s1, errs) \<Rightarrow> if errs \<noteq> [] then (s1, Some (errors_JoinAll (errs @ [errCatModuleReleaseMetaApply]))) else (s1, None))"

definition mrm_DeleteConcurrently ::
  "ModuleReleaseMeta kind_client \<Rightarrow> (ModuleReleaseMeta list \<Rightarrow> ModuleReleaseMeta list) \<Rightarrow> ModuleReleaseMeta list
    \<Rightarrow> history \<Rightarrow> history \<times> goerror option" where
  "mrm_DeleteConcurrently skrClient order diffsToDelete s =
     (case run_each (deleteModuleReleaseMeta skrClient) (order diffsToDelete) s of
        (s1, errs) \<Rightarrow> if errs \<noteq> [] then (s1, Some (errors_JoinAll (errs @ [errModuleReleaseMetaCleanup]))) else (s1, None))"

definition moduleReleaseMetasDiffFor :: "ModuleReleaseMeta \<Rightarrow> string" where
  "moduleReleaseMetasDiffFor obj = om_Namespace (mrm_Meta obj) @ om_Name (mrm_Meta obj)"

definition isModuleReleaseMetaManagedByKcp :: "ModuleReleaseMeta \<Rightarrow> bool" where
  "isModuleReleaseMetaManagedByKcp skrObject =
     list_ex (\<lambda>manager. manager = ModuleCatalogSync) (om_ManagedFields (mrm_Meta skrObject))"

text \<open>The goroutines prepare the objects in place, so the comparison sees the prepared ones.\<close>

definition mrm_SyncToSKR ::
  "ModuleReleaseMeta kind_client \<Rightarrow> string \<Rightarrow> (ModuleReleaseMeta list \<Rightarrow> ModuleReleaseMeta list) \<Rightarrow> ModuleReleaseMeta list
    \<Rightarrow> history \<Rightarrow> history \<times> goerror option" where
  "mrm_SyncToSKR skrClient namespace order kcpModuleReleases s =
     (case mrm_SyncConcurrently skrClient namespace order kcpModuleReleases s of
        (s1, Some e) \<Rightarrow> (s1, Some e)
      | (s1, None) \<Rightarrow>
          (case ask ListRemoteMetas (kc_list skrClient) s1 of
             (s2, Inl e) \<Rightarrow>
               if no_match e then (s2, None) else (s2, Some (wrapErr ''failed to list ModuleReleaseMetas from runtime: '' e))
           | (s2, Inr runtime) \<Rightarrow>
               mrm_DeleteConcurrently skrClient order
                 (FilterInPlace isModuleReleaseMetaManagedByKcp
                    (NotExistingIn moduleReleaseMetasDiffFor runtime
                       (map (prepareModuleReleaseMetaForSSA namespace) kcpModuleReleases))) s2))"

definition mrm_DeleteAllManaged :: "ModuleReleaseMeta kind_client \<Rightarrow> history \<Rightarrow> history \<times> goerror option" where
  "mrm_DeleteAllManaged skrClient s =
     (case ask ListRemoteMetas (kc_list skrClient) s of
        (s1, Inl e) \<Rightarrow>
          if IsNotFound (Some e) then (s1, None) else (s1, Some (wrapErr ''failed to list ModuleReleaseMeta from skr: '' e))
      | (s1, Inr items) \<Rightarrow>
          try_each (\<lambda>x s. if isModuleReleaseMetaManagedByKcp x
             then (case ask (DeleteRemoteMeta x) (\<lambda>h. kc_delete skrClient h x) s of
                     (s2, Some e) \<Rightarrow>
                       if IsNotFound (Some e) then (s2, None) else (s2, Some (wrapErr ''failed to delete ModuleReleaseMeta from skr: '' e))
                   | (s2, None) \<Rightarrow> (s2, None))
             else (s, None)) items s1)"

text \<open>It is the generic syncer, so that what is proved of that one holds for it.\<close>

lemma mrm_parts_eq:
  "prepareModuleReleaseMetaForSSA ns = prepareForSSA moduleReleaseMetaSyncer ns"
  "patchDiffModuleReleaseMeta c = patchDiff moduleReleaseMetaSyncer c"
  "deleteModuleReleaseMeta c = deleteDiff moduleReleaseMetaSyncer c"
  "moduleReleaseMetasDiffFor = kd_identity moduleReleaseMetaSyncer"
  "isModuleReleaseMetaManagedByKcp = isManagedByKcp moduleReleaseMetaSyncer"
  by (simp_all add: fun_eq_iff prepareModuleReleaseMetaForSSA_def prepareForSSA_def patchDiffModuleReleaseMeta_def patchDiff_def
      deleteModuleReleaseMeta_def deleteDiff_def moduleReleaseMetasDiffFor_def kd_identity_def
      isModuleReleaseMetaManagedByKcp_def isManagedByKcp_def moduleReleaseMetaSyncer_def Let_def ask_def split: option.split)

lemma mrm_SyncConcurrently_eq:
  "mrm_SyncConcurrently c ns order xs s = SyncConcurrently moduleReleaseMetaSyncer c ns order xs s"
proof -
  have "kd_errApply moduleReleaseMetaSyncer = errCatModuleReleaseMetaApply"
    by (simp add: moduleReleaseMetaSyncer_def errCatModuleReleaseMetaApply_def)
  then show ?thesis
    by (simp add: mrm_SyncConcurrently_def SyncConcurrently_def joined_def mrm_parts_eq split_beta)
qed

lemma mrm_DeleteConcurrently_eq:
  "mrm_DeleteConcurrently c order xs s = DeleteConcurrently moduleReleaseMetaSyncer c order xs s"
proof -
  have "kd_errCleanup moduleReleaseMetaSyncer = errModuleReleaseMetaCleanup"
    by (simp add: moduleReleaseMetaSyncer_def errModuleReleaseMetaCleanup_def)
  then show ?thesis
    by (simp add: mrm_DeleteConcurrently_def DeleteConcurrently_def joined_def mrm_parts_eq split_beta)
qed

theorem mrm_SyncToSKR_eq: "mrm_SyncToSKR c ns order xs s = SyncMetasToSKR c ns order xs s"
proof -
  have k: "kd_listed moduleReleaseMetaSyncer = ListRemoteMetas" "kd_name moduleReleaseMetaSyncer = ''ModuleReleaseMeta''"
    by (simp_all add: moduleReleaseMetaSyncer_def)
  show ?thesis
    unfolding mrm_SyncToSKR_def SyncMetasToSKR_def SyncToSKR_def mrm_SyncConcurrently_eq mrm_DeleteConcurrently_eq mrm_parts_eq k
    by (simp split: prod.split option.split sum.split)
qed

text \<open>The deletion of the catalog removes no ModuleReleaseMeta: it calls the deletion of ModuleTemplates only.\<close>

lemma catalog_Delete_keeps_metas:
  assumes "catalog_Delete penv kyma [] = (h, r)"
  shows "DeleteRemoteMeta m \<notin> set h"
proof -
  have k: "kd_listed moduleTemplateSyncer = ListRemoteTemplates" "kd_deleted moduleTemplateSyncer = DeleteRemoteTemplate"
    by (simp_all add: moduleTemplateSyncer_def)
  have "DeleteRemoteMeta m \<notin> set (fst (DeleteAllManaged moduleTemplateSyncer c []))" for c
  proof (cases "kc_list c []")
    case (Inr xs)
    show ?thesis
      unfolding DeleteAllManaged_def k ask_def Inr prod.case sum.case
      by (rule try_each_invariant) (auto split: option.split)
  qed (simp add: DeleteAllManaged_def ask_def k)
  then show ?thesis
    using assms by (cases "provider_Get penv kyma []") (auto simp: catalog_Delete_def, metis fst_conv)
qed

section \<open>Custom resource definitions\<close>

text \<open>The specification of a definition: its conversion, if it is set, and the other fields.\<close>

datatype crd_conversion = NoneConverter | WebhookConverter json

record crd_spec =
  cr_Conversion :: "crd_conversion option"
  cr_Other :: json

text \<open>
  \<open>toUnstructured\<close> is the library's conversion of the specification. The documented names of the fields are those of its
  JSON form.
\<close>

definition crd_lib_ok :: "(crd_spec \<Rightarrow> goerror + (string \<times> json) list) \<Rightarrow> bool" where
  "crd_lib_ok toUnstructured \<longleftrightarrow>
     (\<forall>spec x. toUnstructured spec = Inr x \<and> cr_Conversion spec = Some NoneConverter
        \<longrightarrow> map_of x ''conversion'' = Some (JObj [(''strategy'', JStr ''None'')]))
   \<and> (\<forall>spec spec' x x'. toUnstructured spec = Inr x \<and> toUnstructured spec' = Inr x' \<and> cr_Other spec = cr_Other spec'
        \<longrightarrow> (\<forall>f. f \<noteq> ''conversion'' \<longrightarrow> map_of x f = map_of x' f))"

definition crd_object :: "string \<Rightarrow> json" where
  "crd_object name =
     JObj [(''apiVersion'', JStr ''apiextensions.k8s.io/v1''), (''kind'', JStr ''CustomResourceDefinition''),
       (''metadata'', JObj [(''name'', JStr name), (''labels'', JObj [(ManagedBy, JStr ManagedByLabelValue)])])]"

definition buildSkrCrd ::
  "ulib \<Rightarrow> (crd_spec \<Rightarrow> goerror + (string \<times> json) list) \<Rightarrow> string \<Rightarrow> crd_spec \<Rightarrow> goerror + json" where
  "buildSkrCrd lib toUnstructured name spec =
     (case toUnstructured (spec\<lparr>cr_Conversion := Some NoneConverter\<rparr>) of
        Inl e \<Rightarrow> Inl (wrapErr ''failed to convert CRD spec to unstructured: '' e)
      | Inr specMap \<Rightarrow>
          (case SetNestedField lib (crd_object name) (JObj specMap) [''spec''] of
             Inl e \<Rightarrow> Inl (wrapErr ''failed to set CRD spec on unstructured object: '' e)
           | Inr desired \<Rightarrow> Inr desired))"

text \<open>\<open>cached\<close> tells whether the cache has a client for the Kyma, \<open>patch\<close> is the request of that client.\<close>

definition skr_crd_Apply ::
  "ulib \<Rightarrow> (crd_spec \<Rightarrow> goerror + (string \<times> json) list) \<Rightarrow> (NamespacedName \<Rightarrow> bool) \<Rightarrow> (NamespacedName \<Rightarrow> json \<Rightarrow> goerror option)
    \<Rightarrow> string \<Rightarrow> NamespacedName \<Rightarrow> crd_spec \<Rightarrow> goerror option" where
  "skr_crd_Apply lib toUnstructured cached patch crdName kymaName kcpCrd =
     (if \<not> cached kymaName
      then Some (wrapPost ErrSkrClientNotFound ('': Kyma '' @ fst kymaName @ ''/'' @ snd kymaName))
      else (case buildSkrCrd lib toUnstructured crdName kcpCrd of
              Inl e \<Rightarrow> Some (wrapErr (''failed to build SKR CRD '' @ quoted crdName @ '': '') e)
            | Inr desired \<Rightarrow>
                map_option (\<lambda>e. wrapErr (''failed to apply CRD '' @ quoted crdName @ '' to SKR: '') e) (patch kymaName desired)))"

definition crd_Get :: "(string \<Rightarrow> goerror + crd_spec) \<Rightarrow> string \<Rightarrow> goerror + crd_spec" where
  "crd_Get reader name =
     (case reader name of Inl e \<Rightarrow> Inl (wrapErr (''failed to get CRD '' @ quoted name @ '': '') e) | Inr crd \<Rightarrow> Inr crd)"

definition Kind_Plural :: "string \<Rightarrow> string" where
  "Kind_Plural k = toLower k @ ''s''"

definition klmManagedCrdKinds :: "string list" where
  "klmManagedCrdKinds = [''Kyma'', ''ModuleTemplate'', ''ModuleReleaseMeta'']"

definition buildCrdSyncEntries :: "(string \<times> string) list" where
  "buildCrdSyncEntries = map (\<lambda>k. (k, Kind_Plural k)) klmManagedCrdKinds"

text \<open>
  The service as it is composed. The definition that is applied is the one that the preceding call has read, so it is the
  answer to the history without that call.
\<close>

record crd_env =
  cv_lib :: ulib
  cv_toUnstructured :: "crd_spec \<Rightarrow> goerror + (string \<times> json) list"
  cv_reader :: "history \<Rightarrow> string \<Rightarrow> goerror + crd_spec"
  cv_cached :: "history \<Rightarrow> NamespacedName \<Rightarrow> bool"
  cv_patch :: "history \<Rightarrow> NamespacedName \<Rightarrow> json \<Rightarrow> goerror option"

definition ComposeService ::
  "crd_env \<Rightarrow> (history \<Rightarrow> string \<Rightarrow> goerror + RemoteSecret) \<Rightarrow> string \<Rightarrow> skrsync_env" where
  "ComposeService cv getSecret imagePullSecretName =
     \<lparr>ss_crdEntries = buildCrdSyncEntries,
      ss_readCrd = (\<lambda>h name. case crd_Get (cv_reader cv h) name of Inl e \<Rightarrow> Some e | Inr crd \<Rightarrow> None),
      ss_applyCrd = (\<lambda>h kyma name.
        case crd_Get (cv_reader cv (butlast h)) name of
          Inl e \<Rightarrow> Some e
        | Inr crd \<Rightarrow> skr_crd_Apply (cv_lib cv) (cv_toUnstructured cv) (cv_cached cv h) (cv_patch cv h) name kyma crd),
      ss_getSecret = getSecret, ss_secretName = imagePullSecretName\<rparr>"

text \<open>What the SKR gets for a definition: its name, the label of the manager, the specification of the control plane, and no
  conversion, so that the SKR never calls the webhook of the control plane.\<close>

lemma buildSkrCrd_object:
  assumes "nested_ok lib" and "crd_lib_ok toU" and "buildSkrCrd lib toU name spec = Inr obj"
  shows "path_get [''metadata'', ''name''] obj = Found (JStr name)"
    and "path_get [''metadata'', ''labels'', ManagedBy] obj = Found (JStr ManagedByLabelValue)"
    and "path_get [''spec'', ''conversion'', ''strategy''] obj = Found (JStr ''None'')"
    and "path_get [''spec'', ''conversion'', ''webhook''] obj = Missing"
    and "\<And>original f. toU spec = Inr original \<Longrightarrow> f \<noteq> ''conversion'' \<Longrightarrow>
      path_get [''spec'', f] obj = (case map_of original f of None \<Rightarrow> Missing | Some v \<Rightarrow> Found v)"
proof -
  let ?spec = "spec\<lparr>cr_Conversion := Some NoneConverter\<rparr>"
  obtain m where m: "toU ?spec = Inr m" and sf: "SetNestedField lib (crd_object name) (JObj m) [''spec''] = Inr obj"
    using assms(3) by (auto simp: buildSkrCrd_def split: sum.splits)
  let ?obj = "JObj (AList.update ''spec'' (JObj m) (case crd_object name of JObj kv \<Rightarrow> kv | _ \<Rightarrow> []))"
  have ps: "path_set [''spec''] (JObj m) (crd_object name) = Some ?obj" by (simp add: crd_object_def)
  have "\<forall>x v fs y. path_set fs v x = Some y \<longrightarrow> SetNestedField lib x v fs = Inr y"
    using assms(1) unfolding nested_ok_def by (elim conjE)
  from this [rule_format, OF ps] have obj: "obj = ?obj" using sf by simp
  have c: "map_of m ''conversion'' = Some (JObj [(''strategy'', JStr ''None'')])"
    using m by (intro conjunct1 [OF assms(2) [unfolded crd_lib_ok_def], rule_format, of ?spec]) simp
  show "path_get [''metadata'', ''name''] obj = Found (JStr name)"
    and "path_get [''metadata'', ''labels'', ManagedBy] obj = Found (JStr ManagedByLabelValue)"
    and "path_get [''spec'', ''conversion'', ''strategy''] obj = Found (JStr ''None'')"
    and "path_get [''spec'', ''conversion'', ''webhook''] obj = Missing"
    by (simp_all add: obj crd_object_def c)
  show "path_get [''spec'', f] obj = (case map_of original f of None \<Rightarrow> Missing | Some v \<Rightarrow> Found v)"
    if "toU spec = Inr original" and "f \<noteq> ''conversion''" for original f
  proof -
    have "map_of m f = map_of original f"
      using m that by (intro conjunct2 [OF assms(2) [unfolded crd_lib_ok_def], rule_format, of ?spec m spec original]) simp_all
    then show ?thesis by (simp add: obj crd_object_def split: option.split)
  qed
qed

end
