(* ===== verification/EventFilters.thy ===== *)
theory EventFilters
  imports MandatoryModules MrmWatch KymaController WatcherController CertService
begin

text \<open>
  Which events wake which controller: the registrations of the controllers with their filters (\<^verbatim>\<open>setup.go\<close> of the
  controllers in \<^verbatim>\<open>internal/controller\<close>). The predicates, handlers and the builder of the controller library are a
  parameter; its documented behaviour is \<open>ctrl_lib_ok\<close>: a filter of the controller applies to every watch in addition
  to the predicates of the watch, except to raw sources.
\<close>

section \<open>Events\<close>

text \<open>An object with its resource version; Secrets and Watchers are their metadata here.\<close>

datatype watched =
  is_WatchedKyma: WatchedKyma Kyma string
| is_WatchedTemplate: WatchedTemplate ModuleTemplate string
| is_WatchedRelease: WatchedRelease ModuleReleaseMeta string
| is_WatchedManifest: WatchedManifest Manifest string
| is_WatchedSecret: WatchedSecret ObjectMeta string
| is_WatchedWatcher: WatchedWatcher ObjectMeta string

primrec watched_meta :: "watched \<Rightarrow> ObjectMeta" where
  "watched_meta (WatchedKyma k v) = kyma_Meta k"
| "watched_meta (WatchedTemplate t v) = mt_Meta t"
| "watched_meta (WatchedRelease m v) = mrm_Meta m"
| "watched_meta (WatchedManifest m v) = man_Meta m"
| "watched_meta (WatchedSecret m v) = m"
| "watched_meta (WatchedWatcher m v) = m"

primrec watched_version :: "watched \<Rightarrow> string" where
  "watched_version (WatchedKyma k v) = v"
| "watched_version (WatchedTemplate t v) = v"
| "watched_version (WatchedRelease m v) = v"
| "watched_version (WatchedManifest m v) = v"
| "watched_version (WatchedSecret m v) = v"
| "watched_version (WatchedWatcher m v) = v"

datatype watch_event =
  CreateEvent watched
| UpdateEvent watched watched
| DeleteEvent watched
| GenericEvent watched

text \<open>The object of an event, for an update the new one.\<close>

primrec event_new :: "watch_event \<Rightarrow> watched" where
  "event_new (CreateEvent x) = x"
| "event_new (UpdateEvent old x) = x"
| "event_new (DeleteEvent x) = x"
| "event_new (GenericEvent x) = x"

type_synonym event_predicate = "watch_event \<Rightarrow> bool"

text \<open>The functions of \<^verbatim>\<open>predicate.Funcs\<close>, which may be nil.\<close>

record event_funcs =
  ef_Create :: "(watched \<Rightarrow> bool) option"
  ef_Update :: "(watched \<Rightarrow> watched \<Rightarrow> bool) option"
  ef_Delete :: "(watched \<Rightarrow> bool) option"
  ef_Generic :: "(watched \<Rightarrow> bool) option"

section \<open>The controller library\<close>

record ctrl_lib =
  cl_GenerationChanged :: event_predicate
  cl_LabelChanged :: event_predicate
  cl_ResourceVersionChanged :: event_predicate
  cl_Or :: "event_predicate list \<Rightarrow> event_predicate"
  cl_Funcs :: "event_funcs \<Rightarrow> event_predicate"
  cl_NewPredicateFuncs :: "(watched \<Rightarrow> bool) \<Rightarrow> event_predicate"
  cl_admits :: "event_predicate list \<Rightarrow> event_predicate list \<Rightarrow> event_predicate"
  cl_forObject :: "watch_event \<Rightarrow> queue_op list"
  cl_forControllerOwner :: "watch_event \<Rightarrow> queue_op list"
  cl_fromMapFunc :: "(watched \<Rightarrow> NamespacedName list) \<Rightarrow> watch_event \<Rightarrow> queue_op list"

text \<open>A predicate on updates passes all other events.\<close>

definition on_update :: "(watched \<Rightarrow> watched \<Rightarrow> bool) \<Rightarrow> event_predicate" where
  "on_update p ev = (case ev of UpdateEvent old x \<Rightarrow> p old x | _ \<Rightarrow> True)"

definition generation_differs :: "watched \<Rightarrow> watched \<Rightarrow> bool" where
  "generation_differs x y \<longleftrightarrow> om_Generation (watched_meta x) \<noteq> om_Generation (watched_meta y)"

definition labels_differ :: "watched \<Rightarrow> watched \<Rightarrow> bool" where
  "labels_differ x y \<longleftrightarrow> om_Labels (watched_meta x) \<noteq> om_Labels (watched_meta y)"

definition versions_differ :: "watched \<Rightarrow> watched \<Rightarrow> bool" where
  "versions_differ x y \<longleftrightarrow> watched_version x \<noteq> watched_version y"

definition funcs_pass :: "event_funcs \<Rightarrow> event_predicate" where
  "funcs_pass f ev =
     (case ev of
        CreateEvent x \<Rightarrow> (case ef_Create f of None \<Rightarrow> True | Some p \<Rightarrow> p x)
      | UpdateEvent old x \<Rightarrow> (case ef_Update f of None \<Rightarrow> True | Some p \<Rightarrow> p old x)
      | DeleteEvent x \<Rightarrow> (case ef_Delete f of None \<Rightarrow> True | Some p \<Rightarrow> p x)
      | GenericEvent x \<Rightarrow> (case ef_Generic f of None \<Rightarrow> True | Some p \<Rightarrow> p x))"

definition ctrl_lib_ok :: "ctrl_lib \<Rightarrow> bool" where
  "ctrl_lib_ok lib \<longleftrightarrow>
     cl_GenerationChanged lib = on_update generation_differs
   \<and> cl_LabelChanged lib = on_update labels_differ
   \<and> cl_ResourceVersionChanged lib = on_update versions_differ
   \<and> (\<forall>ps ev. cl_Or lib ps ev \<longleftrightarrow> list_ex (\<lambda>p. p ev) ps)
   \<and> (\<forall>f ev. cl_Funcs lib f ev \<longleftrightarrow> funcs_pass f ev)
   \<and> (\<forall>p ev. cl_NewPredicateFuncs lib p ev \<longleftrightarrow> p (event_new ev))
   \<and> (\<forall>filters ps ev. cl_admits lib filters ps ev \<longleftrightarrow> list_all (\<lambda>p. p ev) filters \<and> list_all (\<lambda>p. p ev) ps)"

text \<open>A watch of a kind with its own predicates and its handler; a controller with its filter.\<close>

record watch =
  wt_kind :: "watched \<Rightarrow> bool"
  wt_predicates :: "event_predicate list"
  wt_handler :: "watch_event \<Rightarrow> queue_op list"

record controller_setup =
  cs_filter :: "event_predicate list"
  cs_watches :: "watch list"

definition triggered :: "ctrl_lib \<Rightarrow> controller_setup \<Rightarrow> watch_event \<Rightarrow> queue_op list" where
  "triggered lib cs ev =
     concat (map (\<lambda>w. if wt_kind w (event_new ev) \<and> cl_admits lib (cs_filter cs) (wt_predicates w) ev then wt_handler w ev else [])
       (cs_watches cs))"

text \<open>\<^verbatim>\<open>handler.Funcs{}\<close>: without functions nothing is enqueued.\<close>

definition no_handler :: "watch_event \<Rightarrow> queue_op list" where
  "no_handler ev = []"

definition changed_filter :: "ctrl_lib \<Rightarrow> event_predicate list" where
  "changed_filter lib = [cl_Or lib [cl_GenerationChanged lib, cl_LabelChanged lib]]"

section \<open>The Kyma controller\<close>

primrec as_template :: "watched \<Rightarrow> ModuleTemplate option" where
  "as_template (WatchedKyma k v) = None"
| "as_template (WatchedTemplate t v) = Some t"
| "as_template (WatchedRelease m v) = None"
| "as_template (WatchedManifest m v) = None"
| "as_template (WatchedSecret m v) = None"
| "as_template (WatchedWatcher m v) = None"

primrec as_release :: "watched \<Rightarrow> ModuleReleaseMeta option" where
  "as_release (WatchedKyma k v) = None"
| "as_release (WatchedTemplate t v) = None"
| "as_release (WatchedRelease m v) = Some m"
| "as_release (WatchedManifest m v) = None"
| "as_release (WatchedSecret m v) = None"
| "as_release (WatchedWatcher m v) = None"

text \<open>The event handler for ModuleReleaseMetas, which the controllers get with their resolver.\<close>

definition mrm_EventHandler ::
  "kyma_lookup \<Rightarrow> resolver \<Rightarrow> (nat \<Rightarrow> int \<Rightarrow> int) \<Rightarrow> duration \<Rightarrow> watch_event \<Rightarrow> queue_op list" where
  "mrm_EventHandler repo r rnd maxDelay ev =
     (case ev of
        CreateEvent x \<Rightarrow> mrm_Create repo r (as_release x)
      | UpdateEvent old x \<Rightarrow> mrm_Update repo r rnd maxDelay (as_release old) (as_release x)
      | DeleteEvent x \<Rightarrow> mrm_Delete repo r (as_release x)
      | GenericEvent x \<Rightarrow> mrm_Generic (as_release x))"

definition kyma_SetupWithManager ::
  "ctrl_lib \<Rightarrow> (watched \<Rightarrow> NamespacedName list) \<Rightarrow> (watch_event \<Rightarrow> queue_op list) \<Rightarrow> controller_setup" where
  "kyma_SetupWithManager lib mtEventHandlerMapFunc mrmEventHandler =
     \<lparr>cs_filter = changed_filter lib,
      cs_watches =
        [\<lparr>wt_kind = is_WatchedKyma, wt_predicates = [], wt_handler = cl_forObject lib\<rparr>,
         \<lparr>wt_kind = is_WatchedTemplate, wt_predicates = [], wt_handler = cl_fromMapFunc lib mtEventHandlerMapFunc\<rparr>,
         \<lparr>wt_kind = is_WatchedRelease, wt_predicates = [], wt_handler = mrmEventHandler\<rparr>,
         \<lparr>wt_kind = is_WatchedSecret, wt_predicates = [], wt_handler = no_handler\<rparr>,
         \<lparr>wt_kind = is_WatchedManifest, wt_predicates = [cl_ResourceVersionChanged lib], wt_handler = cl_forControllerOwner lib\<rparr>]\<rparr>"

text \<open>The raw source of the events from the SKRs: they are converted one by one, and looked up.\<close>

definition NameByRuntimeID :: "(string \<Rightarrow> goerror + Kyma) \<Rightarrow> string \<Rightarrow> goerror + string" where
  "NameByRuntimeID byRuntime runtimeID =
     (case byRuntime runtimeID of Inl e \<Rightarrow> Inl e | Inr k \<Rightarrow> Inr (om_Name (kyma_Meta k)))"

record listener_event =
  le_Object :: event_object
  le_Source :: string   \<comment> \<open>what else the listener reports\<close>

definition AdaptEvents :: "listener_event list \<Rightarrow> event_object list" where
  "AdaptEvents evs = map le_Object evs"

definition skr_requests :: "(string \<Rightarrow> goerror + Kyma) \<Rightarrow> listener_event list \<Rightarrow> NamespacedName list" where
  "skr_requests byRuntime evs =
     concat (map (\<lambda>ev. case skr_event_request (NameByRuntimeID byRuntime) ev of None \<Rightarrow> [] | Some r \<Rightarrow> [r]) (AdaptEvents evs))"

section \<open>The other controllers\<close>

definition manifest_updated :: "watched \<Rightarrow> watched \<Rightarrow> bool" where
  "manifest_updated old new \<longleftrightarrow>
     generation_differs new old
   \<or> (om_DeletionTimestamp (watched_meta old) = None \<and> om_DeletionTimestamp (watched_meta new) \<noteq> None)
   \<or> labels_differ old new"

definition manifest_SetupWithManager :: "ctrl_lib \<Rightarrow> controller_setup" where
  "manifest_SetupWithManager lib =
     \<lparr>cs_filter = [],
      cs_watches =
        [\<lparr>wt_kind = is_WatchedManifest,
          wt_predicates = [cl_Funcs lib \<lparr>ef_Create = None, ef_Update = Some manifest_updated, ef_Delete = None, ef_Generic = None\<rparr>],
          wt_handler = cl_forObject lib\<rparr>,
         \<lparr>wt_kind = is_WatchedSecret, wt_predicates = changed_filter lib, wt_handler = no_handler\<rparr>]\<rparr>"

definition isMandatoryObject :: "watched \<Rightarrow> bool" where
  "isMandatoryObject obj = (case as_release obj of None \<Rightarrow> False | Some m \<Rightarrow> isMandatoryMrm m)"

definition installation_SetupWithManager :: "ctrl_lib \<Rightarrow> (watch_event \<Rightarrow> queue_op list) \<Rightarrow> controller_setup" where
  "installation_SetupWithManager lib mandatoryMrmEventHandler =
     \<lparr>cs_filter = changed_filter lib,
      cs_watches =
        [\<lparr>wt_kind = is_WatchedKyma, wt_predicates = [], wt_handler = cl_forObject lib\<rparr>,
         \<lparr>wt_kind = is_WatchedRelease, wt_predicates = [cl_NewPredicateFuncs lib isMandatoryObject],
          wt_handler = mandatoryMrmEventHandler\<rparr>,
         \<lparr>wt_kind = is_WatchedSecret, wt_predicates = [], wt_handler = no_handler\<rparr>]\<rparr>"

definition deletion_SetupWithManager :: "ctrl_lib \<Rightarrow> controller_setup" where
  "deletion_SetupWithManager lib =
     \<lparr>cs_filter = [cl_NewPredicateFuncs lib isMandatoryObject],
      cs_watches = [\<lparr>wt_kind = is_WatchedRelease, wt_predicates = [], wt_handler = cl_forObject lib\<rparr>]\<rparr>"

definition watcher_SetupWithManager :: "ctrl_lib \<Rightarrow> controller_setup" where
  "watcher_SetupWithManager lib =
     \<lparr>cs_filter = changed_filter lib,
      cs_watches = [\<lparr>wt_kind = is_WatchedWatcher, wt_predicates = [], wt_handler = cl_forObject lib\<rparr>]\<rparr>"

definition root_secret_object :: "watched \<Rightarrow> bool" where
  "root_secret_object x =
     (om_Namespace (watched_meta x) = IstioNamespace \<and> om_Name (watched_meta x) = kcpRootSecretName)"

definition gatewaysecret_setupWithManager :: "ctrl_lib \<Rightarrow> controller_setup" where
  "gatewaysecret_setupWithManager lib =
     \<lparr>cs_filter = [cl_Funcs lib \<lparr>ef_Create = Some root_secret_object, ef_Update = Some (\<lambda>old new. root_secret_object new),
                     ef_Delete = Some (\<lambda>x. False), ef_Generic = Some (\<lambda>x. False)\<rparr>],
      cs_watches = [\<lparr>wt_kind = is_WatchedSecret, wt_predicates = [], wt_handler = cl_forObject lib\<rparr>]\<rparr>"

section \<open>What wakes the controllers\<close>

lemma admits_iff:
  "ctrl_lib_ok lib \<Longrightarrow> cl_admits lib filters ps ev \<longleftrightarrow> list_all (\<lambda>p. p ev) filters \<and> list_all (\<lambda>p. p ev) ps"
  by (simp add: ctrl_lib_ok_def)

lemma changed_filter_iff:
  "ctrl_lib_ok lib \<Longrightarrow>
     list_all (\<lambda>p. p ev) (changed_filter lib) \<longleftrightarrow> on_update (\<lambda>old x. generation_differs old x \<or> labels_differ old x) ev"
  by (cases ev) (simp_all add: ctrl_lib_ok_def changed_filter_def on_update_def)

lemmas setup_defs =
  triggered_def kyma_SetupWithManager_def manifest_SetupWithManager_def installation_SetupWithManager_def
  deletion_SetupWithManager_def watcher_SetupWithManager_def gatewaysecret_setupWithManager_def no_handler_def

lemma kyma_triggered_by_manifest:
  assumes "ctrl_lib_ok lib" and "is_WatchedManifest (event_new ev)"
  shows "triggered lib (kyma_SetupWithManager lib mt mrm) ev =
    (if on_update (\<lambda>old x. (generation_differs old x \<or> labels_differ old x) \<and> versions_differ old x) ev
     then cl_forControllerOwner lib ev else [])"
proof -
  have "cl_ResourceVersionChanged lib = on_update versions_differ" using assms(1) by (simp add: ctrl_lib_ok_def)
  then have "cl_admits lib (changed_filter lib) [cl_ResourceVersionChanged lib] ev
      \<longleftrightarrow> on_update (\<lambda>old x. (generation_differs old x \<or> labels_differ old x) \<and> versions_differ old x) ev"
    unfolding admits_iff [OF assms(1)] changed_filter_iff [OF assms(1)] by (cases ev) (simp_all add: on_update_def)
  moreover have "\<not> is_WatchedKyma (event_new ev)" "\<not> is_WatchedTemplate (event_new ev)" "\<not> is_WatchedRelease (event_new ev)"
    "\<not> is_WatchedSecret (event_new ev)"
    using assms(2) by (cases "event_new ev"; simp)+
  ultimately show ?thesis using assms(2) by (simp add: setup_defs)
qed


text \<open>The Manifest controller reacts to new generations, deletions and labels; a new annotation alone is not seen.\<close>

lemma manifest_triggered_iff:
  assumes "ctrl_lib_ok lib"
  shows "triggered lib (manifest_SetupWithManager lib) (UpdateEvent (WatchedManifest m v) (WatchedManifest m' v')) =
    (if manifest_updated (WatchedManifest m v) (WatchedManifest m' v')
     then cl_forObject lib (UpdateEvent (WatchedManifest m v) (WatchedManifest m' v')) else [])"
  using assms unfolding setup_defs ctrl_lib_ok_def by (simp add: funcs_pass_def)

lemma manifest_annotation_unseen:
  assumes "ctrl_lib_ok lib"
  shows "triggered lib (manifest_SetupWithManager lib) (UpdateEvent (WatchedManifest m v)
    (WatchedManifest (m\<lparr>man_Meta := (man_Meta m)\<lparr>om_Annotations := annotations\<rparr>\<rparr>) v')) = []"
  unfolding manifest_triggered_iff [OF assms]
  by (cases "om_DeletionTimestamp (man_Meta m)") (simp_all add: manifest_updated_def generation_differs_def labels_differ_def)

text \<open>The deletion controller for mandatory modules sees exactly the mandatory ModuleReleaseMetas, by their new version.\<close>

lemma deletion_triggered_iff:
  assumes "ctrl_lib_ok lib"
  shows "triggered lib (deletion_SetupWithManager lib) ev =
    (if \<exists>m. as_release (event_new ev) = Some m \<and> isMandatoryMrm m then cl_forObject lib ev else [])"
  using assms unfolding setup_defs ctrl_lib_ok_def
  by (cases "event_new ev") (simp_all add: isMandatoryObject_def)

text \<open>The controller of the gateway secret sees creations and updates of the root secret only.\<close>

lemma gatewaysecret_triggered_iff:
  assumes "ctrl_lib_ok lib" and "is_WatchedSecret (event_new ev)"
  shows "triggered lib (gatewaysecret_setupWithManager lib) ev =
    (case ev of
       CreateEvent x \<Rightarrow> if root_secret_object x then cl_forObject lib ev else []
     | UpdateEvent old x \<Rightarrow> if root_secret_object x then cl_forObject lib ev else []
     | _ \<Rightarrow> [])"
  using assms unfolding setup_defs ctrl_lib_ok_def by (cases ev) (simp_all add: funcs_pass_def)

text \<open>An event from an SKR adds the Kyma of its runtime, and events that cannot be attributed add nothing.\<close>

lemma skr_event_request_iff:
  "skr_event_request (NameByRuntimeID byRuntime) x = Some r \<longleftrightarrow>
     (\<exists>rid k. GetRuntimeIDFromEvent x = Inr rid \<and> byRuntime rid = Inr k \<and> r = (DefaultControlPlaneNamespace, om_Name (kyma_Meta k)))"
proof (cases "GetRuntimeIDFromEvent x")
  case (Inr rid)
  then show ?thesis by (cases "byRuntime rid") (auto simp: skr_event_request_def NameByRuntimeID_def)
qed (simp add: skr_event_request_def)

lemma skr_requests_iff:
  "r \<in> set (skr_requests byRuntime evs) \<longleftrightarrow>
     (\<exists>ev \<in> set evs. \<exists>rid k. GetRuntimeIDFromEvent (le_Object ev) = Inr rid \<and> byRuntime rid = Inr k
        \<and> r = (DefaultControlPlaneNamespace, om_Name (kyma_Meta k)))"
proof -
  have "r \<in> set (skr_requests byRuntime evs) \<longleftrightarrow>
      (\<exists>ev \<in> set evs. skr_event_request (NameByRuntimeID byRuntime) (le_Object ev) = Some r)"
  proof -
    have "r \<in> set (case q of None \<Rightarrow> [] | Some r \<Rightarrow> [r]) \<longleftrightarrow> q = Some r" for q by (cases q) auto
    then show ?thesis by (simp add: skr_requests_def AdaptEvents_def)
  qed
  then show ?thesis by (simp only: skr_event_request_iff)
qed

section \<open>Witnesses\<close>

definition ref_ctrl_lib :: ctrl_lib where
  "ref_ctrl_lib =
     \<lparr>cl_GenerationChanged = on_update generation_differs, cl_LabelChanged = on_update labels_differ,
      cl_ResourceVersionChanged = on_update versions_differ, cl_Or = (\<lambda>ps ev. list_ex (\<lambda>p. p ev) ps), cl_Funcs = funcs_pass,
      cl_NewPredicateFuncs = (\<lambda>p ev. p (event_new ev)),
      cl_admits = (\<lambda>filters ps ev. list_all (\<lambda>p. p ev) (filters @ ps)),
      cl_forObject = (\<lambda>ev. [QueueAdd (om_Namespace (watched_meta (event_new ev)), om_Name (watched_meta (event_new ev)))]),
      cl_forControllerOwner = (\<lambda>ev. map (\<lambda>n. QueueAdd (om_Namespace (watched_meta (event_new ev)), n))
        (om_OwnerReferences (watched_meta (event_new ev)))),
      cl_fromMapFunc = (\<lambda>f ev. map QueueAdd (f (event_new ev)))\<rparr>"

lemma ref_ctrl_lib_ok: "ctrl_lib_ok ref_ctrl_lib"
  by (simp add: ctrl_lib_ok_def ref_ctrl_lib_def)


end
