(* ===== verification/Collector.thy ===== *)
theory Collector
  imports SkrClient KymaDeletion Json Regex
begin

text \<open>
  What is reported about the work of the controllers: the log of unknown field managers, limited in frequency per Manifest
  (\<^verbatim>\<open>internal/manifest/skrresources/collector.go\<close>, \<^verbatim>\<open>manifestcollector.go\<close>), and the Kubernetes events with their
  bounded messages (\<^verbatim>\<open>internal/event\<close>, \<^verbatim>\<open>internal/result/event\<close>). Environment variables, the cache library, JSON and the
  compression are parameters.
\<close>

section \<open>Repetition in regular expressions\<close>

text \<open>The operator \<open>r{lo,lo + n}\<close>.\<close>

primrec RUpTo :: "nat \<Rightarrow> regex \<Rightarrow> regex" where
  "RUpTo 0 r = REps"
| "RUpTo (Suc n) r = ROpt (RSeq r (RUpTo n r))"

primrec RRange :: "nat \<Rightarrow> nat \<Rightarrow> regex \<Rightarrow> regex" where
  "RRange 0 n r = RUpTo n r"
| "RRange (Suc lo) n r = RSeq r (RRange lo n r)"

lemma lang_RUpTo_class: "s \<in> lang (RUpTo n (RClass P)) \<longleftrightarrow> length s \<le> n \<and> (\<forall>c \<in> set s. P c)"
proof (induction n arbitrary: s)
  case (Suc n)
  show ?case by (cases s) (simp_all add: ROpt_def Suc lang_Seq_class del: lang.simps(5), auto)
qed auto

lemma lang_RRange_class: "s \<in> lang (RRange lo n (RClass P)) \<longleftrightarrow> lo \<le> length s \<and> length s \<le> lo + n \<and> (\<forall>c \<in> set s. P c)"
proof (induction lo arbitrary: s)
  case (Suc lo)
  show ?case by (cases s) (simp_all add: Suc lang_Seq_class del: lang.simps(5), auto)
qed (simp add: lang_RUpTo_class)

section \<open>Configuration\<close>

definition DeclarativeApplier :: string where "DeclarativeApplier = ''declarative.kyma-project.io/applier''"
definition LegacyLifecycleManager :: string where "LegacyLifecycleManager = OperatorName"

definition knownManagersDefault :: string where
  "knownManagersDefault = DeclarativeApplier @ '';'' @ LegacyLifecycleManager @ '';'' @ ''k3s''"
definition knownManagersEnvVar :: string where "knownManagersEnvVar = ''KLM_EXPERIMENTAL_KNOWN_MANAGERS''"
definition frequencyLimiterTTLDefault :: int where "frequencyLimiterTTLDefault = 60 * 5"
definition frequencyLimiterTTLEnvVar :: string where "frequencyLimiterTTLEnvVar = ''KLM_EXPERIMENTAL_FREQUENCY_LIMITER_TTL''"
definition managedFieldsAnalysisLabelEnvVar :: string where
  "managedFieldsAnalysisLabelEnvVar = ''KLM_EXPERIMENTAL_MANAGED_FIELDS_ANALYSIS_LABEL''"

definition ascii_letter :: "char \<Rightarrow> bool" where
  "ascii_letter c \<longleftrightarrow> (CHR ''a'' \<le> c \<and> c \<le> CHR ''z'') \<or> (CHR ''A'' \<le> c \<and> c \<le> CHR ''Z'')"
definition ascii_digit :: "char \<Rightarrow> bool" where
  "ascii_digit c \<longleftrightarrow> CHR ''0'' \<le> c \<and> c \<le> CHR ''9''"

definition knownManagersRegexp :: regex where
  "knownManagersRegexp =
     RSeq (RClass ascii_letter) (RRange 1 126 (RClass (\<lambda>c. ascii_letter c \<or> ascii_digit c \<or> c \<in> set ''.:_/-'')))"

definition frequencyLimiterTTLRegexp :: regex where
  "frequencyLimiterTTLRegexp =
     RSeq (RClass (\<lambda>c. ascii_digit c \<and> c \<noteq> CHR ''0'')) (RRange 1 2 (RClass ascii_digit))"

definition splitBySemicolons :: "string \<Rightarrow> string list" where
  "splitBySemicolons v = split_on (CHR '';'') v"

definition getAllowedManagers :: "(string \<Rightarrow> string) \<Rightarrow> string list" where
  "getAllowedManagers getenv =
     (let configured = getenv knownManagersEnvVar in
      if configured = [] then splitBySemicolons knownManagersDefault
      else filter (MatchString knownManagersRegexp) (splitBySemicolons configured))"

definition isUnknownManager :: "(string \<Rightarrow> string) \<Rightarrow> string \<Rightarrow> bool" where
  "isUnknownManager getenv manager \<longleftrightarrow> manager \<notin> set (getAllowedManagers getenv)"

text \<open>\<^verbatim>\<open>strconv.Atoi\<close> of a short string of digits.\<close>

definition decimal_value :: "string \<Rightarrow> int" where
  "decimal_value s = foldl (\<lambda>n c. n * 10 + (of_char c - 48)) 0 s"

definition getFrequencyLimiterTTL :: "(string \<Rightarrow> string) \<Rightarrow> int" where
  "getFrequencyLimiterTTL getenv =
     (let configured = getenv frequencyLimiterTTLEnvVar in
      if configured \<noteq> [] \<and> MatchString frequencyLimiterTTLRegexp configured then decimal_value configured
      else frequencyLimiterTTLDefault)"

definition getManagedFieldsAnalysisLabel :: "(string \<Rightarrow> string) \<Rightarrow> string" where
  "getManagedFieldsAnalysisLabel getenv = getenv managedFieldsAnalysisLabelEnvVar"

lemma ascii_digit_value: "ascii_digit c \<Longrightarrow> 0 \<le> (of_char c :: int) - 48 \<and> (of_char c :: int) - 48 \<le> 9"
proof -
  assume "ascii_digit c"
  then have "48 \<le> (of_char c :: nat) \<and> (of_char c :: nat) \<le> 57" by (simp add: ascii_digit_def less_eq_char_def)
  moreover have "(of_char c :: int) = int (of_char c)" by (simp add: of_nat_of_char)
  ultimately show ?thesis by linarith
qed

lemma ascii_digit_positive: "ascii_digit c \<Longrightarrow> c \<noteq> CHR ''0'' \<Longrightarrow> 1 \<le> (of_char c :: int) - 48"
  using ascii_digit_value [of c] of_char_eq_iff [where 'a = int, of c "CHR ''0''"] by simp

text \<open>A configured time is between 10 and 9999 seconds; whatever else is configured, the default is used.\<close>

lemma getFrequencyLimiterTTL_bounds: "10 \<le> getFrequencyLimiterTTL getenv \<and> getFrequencyLimiterTTL getenv \<le> 9999"
proof (cases "getenv frequencyLimiterTTLEnvVar \<noteq> [] \<and> MatchString frequencyLimiterTTLRegexp (getenv frequencyLimiterTTLEnvVar)")
  case True
  let ?s = "getenv frequencyLimiterTTLEnvVar"
  obtain c t where s: "?s = c # t" and c: "ascii_digit c" "c \<noteq> CHR ''0''" and t: "t \<in> lang (RRange 1 2 (RClass ascii_digit))"
    using True unfolding MatchString_lang frequencyLimiterTTLRegexp_def by (cases ?s) (simp_all del: lang.simps(5))
  have l: "1 \<le> length t" "length t \<le> 3" "\<forall>d \<in> set t. ascii_digit d" using t unfolding lang_RRange_class by simp_all
  then consider a where "t = [a]" | a b where "t = [a, b]" | a b d where "t = [a, b, d]"
    by (cases t; cases "tl t"; cases "tl (tl t)") auto
  then show ?thesis
  proof cases
    case 1
    then show ?thesis
      using True s l ascii_digit_positive [OF c] ascii_digit_value [OF c(1)] ascii_digit_value [of a]
      by (simp add: getFrequencyLimiterTTL_def decimal_value_def)
  next
    case 2
    then show ?thesis
      using True s l ascii_digit_positive [OF c] ascii_digit_value [OF c(1)] ascii_digit_value [of a] ascii_digit_value [of b]
      by (simp add: getFrequencyLimiterTTL_def decimal_value_def)
  next
    case 3
    then show ?thesis
      using True s l ascii_digit_positive [OF c] ascii_digit_value [OF c(1)] ascii_digit_value [of a] ascii_digit_value [of b]
        ascii_digit_value [of d]
      by (simp add: getFrequencyLimiterTTL_def decimal_value_def)
  qed
next
  case False
  then show ?thesis by (auto simp: getFrequencyLimiterTTL_def frequencyLimiterTTLDefault_def)
qed

section \<open>The log collector\<close>

record managed_object =
  mo_Name :: string
  mo_Namespace :: string
  mo_GVK :: string
  mo_Managers :: "string list"   \<comment> \<open>the managers of the field entries\<close>

record LogCollectorEntry =
  lce_ObjectName :: string
  lce_ObjectNamespace :: string
  lce_ObjectGVK :: string
  lce_ManagedFields :: "string list"

record LogCollector =
  lc_objectKey :: string
  lc_entries :: "LogCollectorEntry list"

definition NewLogCollector :: "string \<Rightarrow> LogCollector" where
  "NewLogCollector key = \<lparr>lc_objectKey = key, lc_entries = []\<rparr>"

definition safeAddEntry :: "LogCollectorEntry \<Rightarrow> LogCollector \<Rightarrow> LogCollector" where
  "safeAddEntry entry c = c\<lparr>lc_entries := lc_entries c @ [entry]\<rparr>"

definition Collect :: "(string \<Rightarrow> string) \<Rightarrow> managed_object \<Rightarrow> LogCollector \<Rightarrow> LogCollector" where
  "Collect getenv remoteObj c =
     (if list_ex (isUnknownManager getenv) (mo_Managers remoteObj)
      then safeAddEntry \<lparr>lce_ObjectName = mo_Name remoteObj, lce_ObjectNamespace = mo_Namespace remoteObj,
             lce_ObjectGVK = mo_GVK remoteObj, lce_ManagedFields = mo_Managers remoteObj\<rparr> c
      else c)"

text \<open>Encoding and compression, whose writer may fail when it is written to and when it is closed.\<close>

record log_env =
  lg_MarshalIndent :: "LogCollectorEntry list \<Rightarrow> goerror + string"
  lg_gzipWrite :: "string \<Rightarrow> goerror option"
  lg_gzipClose :: "string \<Rightarrow> goerror + string"

definition compressAndBase64 :: "log_env \<Rightarrow> string \<Rightarrow> goerror + string" where
  "compressAndBase64 le input =
     (case lg_gzipWrite le input of
        Some e \<Rightarrow> Inl (wrapErr ''failed to write to gzip archive: '' e)
      | None \<Rightarrow>
          (case lg_gzipClose le input of
             Inl e \<Rightarrow> Inl (wrapErr ''failed to close gzip archive: '' e)
           | Inr compressed \<Rightarrow> Inr (b64_encode compressed)))"

text \<open>The result: the limiter, what was logged, and the error. The limiter is shared by all collectors.\<close>

definition Emit ::
  "(string, bool, 'c) ttl_cache \<Rightarrow> (string \<Rightarrow> string) \<Rightarrow> log_env \<Rightarrow> LogCollector \<Rightarrow> int \<Rightarrow> 'c \<Rightarrow> 'c \<times> string option \<times> goerror option" where
  "Emit api getenv le c now limiter =
     (if tc_Has api (lc_objectKey c) now limiter then (limiter, None, None)
      else if lc_entries c \<noteq> []
      then (let limiter' = tc_Set api (lc_objectKey c) True (getFrequencyLimiterTTL getenv * second) now limiter in
            case lg_MarshalIndent le (lc_entries c) of
              Inl e \<Rightarrow> (limiter', None, Some (wrapErr ''failed to serialize managed field data: '' e))
            | Inr jsonSer \<Rightarrow>
                (case compressAndBase64 le jsonSer of
                   Inl e \<Rightarrow> (limiter', None, Some e)
                 | Inr logData \<Rightarrow> (limiter', Some logData, None)))
      else (limiter, None, None))"

text \<open>The collector of a Manifest, whose unique identifier is the key; a missing Manifest disables it.\<close>

record ManifestLogCollector =
  mlc_collector :: LogCollector
  mlc_enabled :: bool

definition isManifestCollectionEnabled :: "(string \<Rightarrow> string) \<Rightarrow> Manifest option \<Rightarrow> bool" where
  "isManifestCollectionEnabled getenv obj =
     (case obj of
        None \<Rightarrow> False
      | Some m \<Rightarrow>
          (let configuredLabelName = getManagedFieldsAnalysisLabel getenv in
           if configuredLabelName = [] then False else man_labels m configuredLabelName \<noteq> None))"

definition NewManifestLogCollector :: "(string \<Rightarrow> string) \<Rightarrow> (Manifest \<Rightarrow> string) \<Rightarrow> Manifest option \<Rightarrow> ManifestLogCollector" where
  "NewManifestLogCollector getenv uid manifest =
     (case manifest of
        None \<Rightarrow> \<lparr>mlc_collector = NewLogCollector [], mlc_enabled = False\<rparr>
      | Some m \<Rightarrow> \<lparr>mlc_collector = NewLogCollector (uid m), mlc_enabled = isManifestCollectionEnabled getenv (Some m)\<rparr>)"

definition manifest_Collect :: "(string \<Rightarrow> string) \<Rightarrow> managed_object \<Rightarrow> ManifestLogCollector \<Rightarrow> ManifestLogCollector" where
  "manifest_Collect getenv obj c =
     (if mlc_enabled c then c\<lparr>mlc_collector := Collect getenv obj (mlc_collector c)\<rparr> else c)"

definition manifest_Emit ::
  "(string, bool, 'c) ttl_cache \<Rightarrow> (string \<Rightarrow> string) \<Rightarrow> log_env \<Rightarrow> ManifestLogCollector \<Rightarrow> int \<Rightarrow> 'c
    \<Rightarrow> 'c \<times> string option \<times> goerror option" where
  "manifest_Emit api getenv le c now limiter =
     (if mlc_enabled c then Emit api getenv le (mlc_collector c) now limiter else (limiter, None, None))"

text \<open>All emissions of a run, in the order of time: the keys and times of what was logged.\<close>

fun emissions ::
  "(string, bool, 'c) ttl_cache \<Rightarrow> (string \<Rightarrow> string) \<Rightarrow> log_env \<Rightarrow> (int \<times> ManifestLogCollector) list \<Rightarrow> 'c \<Rightarrow> (string \<times> int) list" where
  "emissions api getenv le [] limiter = []"
| "emissions api getenv le ((now, c) # cs) limiter =
     (case manifest_Emit api getenv le c now limiter of
        (limiter', logged, err) \<Rightarrow>
          (case logged of None \<Rightarrow> [] | Some d \<Rightarrow> [(lc_objectKey (mlc_collector c), now)]) @ emissions api getenv le cs limiter')"

section \<open>Frequency of the log\<close>

lemma ttl_ok_Get_Set:
  assumes "ttl_ok api" and "t \<le> t'"
  shows "tc_Get api k' t' (tc_Set api k v d t c) = (if k' = k then (if t' < t + d then Some v else None) else tc_Get api k' t' c)"
  using assms unfolding ttl_ok_def by blast

lemma ttl_ok_Has: "ttl_ok api \<Longrightarrow> tc_Has api k t c \<longleftrightarrow> tc_Get api k t c \<noteq> None"
  unfolding ttl_ok_def by blast

text \<open>The limiter holds a key until a time, from now on.\<close>

definition held :: "(string, bool, 'c) ttl_cache \<Rightarrow> string \<Rightarrow> int \<Rightarrow> int \<Rightarrow> 'c \<Rightarrow> bool" where
  "held api k now until limiter \<longleftrightarrow> (\<forall>t. now \<le> t \<and> t < until \<longrightarrow> tc_Get api k t limiter \<noteq> None)"

lemma Emit_cases:
  assumes "manifest_Emit api getenv le c now limiter = (limiter', logged, err)"
  shows "(logged = None \<and> limiter' = limiter)
    \<or> (\<not> tc_Has api (lc_objectKey (mlc_collector c)) now limiter
       \<and> limiter' = tc_Set api (lc_objectKey (mlc_collector c)) True (getFrequencyLimiterTTL getenv * second) now limiter)"
  using assms unfolding manifest_Emit_def Emit_def Let_def by (auto split: if_splits sum.splits)

lemma held_Emit:
  assumes ok: "ttl_ok api" and h: "held api k now until limiter" and now: "now \<le> t"
    and e: "manifest_Emit api getenv le c t limiter = (limiter', logged, err)"
  shows "held api k t until limiter' \<and> (logged \<noteq> None \<and> lc_objectKey (mlc_collector c) = k \<longrightarrow> until \<le> t)"
proof (cases "limiter' = limiter \<and> logged = None")
  case True
  then show ?thesis using h now by (auto simp: held_def)
next
  case False
  let ?k = "lc_objectKey (mlc_collector c)" and ?d = "getFrequencyLimiterTTL getenv * second"
  have s: "\<not> tc_Has api ?k t limiter" "limiter' = tc_Set api ?k True ?d t limiter" using Emit_cases [OF e] False by blast+
  have late: "until \<le> t" if "?k = k" using h s(1) that now ttl_ok_Has [OF ok, of ?k t limiter] by (force simp: held_def)
  have "held api k t until limiter'"
    unfolding held_def
  proof (intro allI impI)
    fix t' assume t': "t \<le> t' \<and> t' < until"
    show "tc_Get api k t' limiter' \<noteq> None"
    proof (cases "?k = k")
      case True
      then show ?thesis using late t' by simp
    next
      case False
      then show ?thesis using h now t' ttl_ok_Get_Set [OF ok, of t t'] by (simp add: s(2) held_def)
    qed
  qed
  then show ?thesis using late by blast
qed

lemma emissions_held:
  assumes "ttl_ok api" and "held api k now until limiter" and "sorted (map fst cs)" and "\<forall>x \<in> set cs. now \<le> fst x"
    and "(k, t) \<in> set (emissions api getenv le cs limiter)"
  shows "until \<le> t"
  using assms(2-5)
proof (induction cs arbitrary: now limiter)
  case (Cons x cs)
  obtain now' c where x: "x = (now', c)" by (cases x)
  obtain limiter' logged err where e: "manifest_Emit api getenv le c now' limiter = (limiter', logged, err)"
    by (metis prod_cases3)
  have h: "held api k now' until limiter'" "logged \<noteq> None \<and> lc_objectKey (mlc_collector c) = k \<longrightarrow> until \<le> now'"
    using held_Emit [OF assms(1) Cons.prems(1) _ e] Cons.prems(3) x by auto
  have later: "sorted (map fst cs)" "\<forall>y \<in> set cs. now' \<le> fst y" using Cons.prems(2) x by auto
  have "(k, t) = (lc_objectKey (mlc_collector c), now') \<and> logged \<noteq> None \<or> (k, t) \<in> set (emissions api getenv le cs limiter')"
    using Cons.prems(4) by (auto simp: x e split: option.splits)
  then show ?case using h Cons.IH [OF h(1) later] by auto
qed simp

text \<open>
  The log of unknown managers is limited: whatever the reconciliations collect and in whatever order they come, two
  reports for the same Manifest are at least the configured time apart, which is between 10 and 9999 seconds.
\<close>

theorem reports_limited:
  assumes "ttl_ok api" and "sorted (map fst cs)" and "emissions api getenv le cs limiter = before @ (k, t) # between @ (k, t') # after"
  shows "t + getFrequencyLimiterTTL getenv * second \<le> t' \<and> 10 \<le> getFrequencyLimiterTTL getenv \<and> getFrequencyLimiterTTL getenv \<le> 9999"
proof -
  have "t + getFrequencyLimiterTTL getenv * second \<le> t'"
    using assms(2,3)
  proof (induction cs arbitrary: limiter before)
    case (Cons x cs)
    obtain now c where x: "x = (now, c)" by (cases x)
    obtain limiter' logged err where e: "manifest_Emit api getenv le c now limiter = (limiter', logged, err)"
      by (metis prod_cases3)
    have sorted: "sorted (map fst cs)" "\<forall>y \<in> set cs. now \<le> fst y" using Cons.prems(1) x by auto
    show ?case
    proof (cases logged)
      case None
      then show ?thesis using Cons.IH [OF sorted(1), of limiter' before] Cons.prems(2) by (simp add: x e)
    next
      case (Some d)
      let ?k = "lc_objectKey (mlc_collector c)" and ?until = "now + getFrequencyLimiterTTL getenv * second"
      have all: "(?k, now) # emissions api getenv le cs limiter' = before @ (k, t) # between @ (k, t') # after"
        using Cons.prems(2) by (simp add: x e Some)
      show ?thesis
      proof (cases before)
        case Nil
        have "limiter' = tc_Set api ?k True (getFrequencyLimiterTTL getenv * second) now limiter"
          using Emit_cases [OF e] Some by auto
        then have "held api ?k now ?until limiter'" using ttl_ok_Get_Set [OF assms(1), of now] by (simp add: held_def)
        moreover have "k = ?k" "t = now" "(k, t') \<in> set (emissions api getenv le cs limiter')" using all Nil by auto
        ultimately show ?thesis using emissions_held [OF assms(1) _ sorted] by blast
      next
        case (Cons b bs)
        then show ?thesis using Cons.IH [OF sorted(1), of limiter' bs] all by simp
      qed
    qed
  qed simp
  then show ?thesis using getFrequencyLimiterTTL_bounds by blast
qed

text \<open>A cache that keeps the time until which an entry lives, and three reconciliations of one Manifest.\<close>

definition ref_ttl :: "(string, bool, string \<Rightarrow> (bool \<times> int) option) ttl_cache" where
  "ref_ttl =
     \<lparr>tc_Get = (\<lambda>k t c. case c k of None \<Rightarrow> None | Some (v, until) \<Rightarrow> if t < until then Some v else None),
      tc_Set = (\<lambda>k v d t c. c(k \<mapsto> (v, t + d))),
      tc_Has = (\<lambda>k t c. case c k of None \<Rightarrow> False | Some (v, until) \<Rightarrow> t < until),
      tc_Delete = (\<lambda>k c. c(k := None))\<rparr>"

lemma ref_ttl_ok: "ttl_ok ref_ttl"
  unfolding ttl_ok_def by (simp add: ref_ttl_def split: option.split prod.split)

definition ref_log :: log_env where
  "ref_log = \<lparr>lg_MarshalIndent = (\<lambda>es. Inr ''[]''), lg_gzipWrite = (\<lambda>s. None), lg_gzipClose = Inr\<rparr>"

definition ex_collector :: ManifestLogCollector where
  "ex_collector = \<lparr>mlc_collector = \<lparr>lc_objectKey = ''uid'',
     lc_entries = [\<lparr>lce_ObjectName = ''cm'', lce_ObjectNamespace = ''default'', lce_ObjectGVK = ''v1'', lce_ManagedFields = [''kubectl'']\<rparr>]\<rparr>,
     mlc_enabled = True\<rparr>"

theorem reports_limited_witness:
  "emissions ref_ttl (\<lambda>v. []) ref_log [(0, ex_collector), (5 * second, ex_collector), (400 * second, ex_collector)] Map.empty
     = [(''uid'', 0), (''uid'', 400 * second)]
   \<and> 0 + getFrequencyLimiterTTL (\<lambda>v. []) * second \<le> 400 * second"
proof -
  have e: "emissions ref_ttl (\<lambda>v. []) ref_log [(0, ex_collector), (5 * second, ex_collector), (400 * second, ex_collector)] Map.empty
      = [] @ (''uid'', 0) # [] @ (''uid'', 400 * second) # []"
    by code_simp
  have "sorted (map fst [(0 :: int, ex_collector), (5 * second, ex_collector), (400 * second, ex_collector)])"
    by (simp add: second_def)
  from reports_limited [OF ref_ttl_ok this e] show ?thesis using e by simp
qed

section \<open>Kubernetes events\<close>

definition maxErrorLength :: nat where "maxErrorLength = 100"

definition truncatedErrMsg :: "goerror \<Rightarrow> string" where
  "truncatedErrMsg err =
     (let msg = error_text err in
      if length msg \<le> maxErrorLength then msg else drop (length msg - maxErrorLength) msg)"

text \<open>What reaches the recorder of the library; \<open>obj\<close> tells whether the object is not nil.\<close>

datatype k8s_event = NormalEvent string string | WarningEvent string string

definition event_Normal :: "bool \<Rightarrow> string \<Rightarrow> string \<Rightarrow> k8s_event list" where
  "event_Normal obj reason msg = (if \<not> obj then [] else [NormalEvent reason msg])"

definition event_Warning :: "bool \<Rightarrow> string \<Rightarrow> goerror option \<Rightarrow> k8s_event list" where
  "event_Warning obj reason err =
     (case err of None \<Rightarrow> [] | Some e \<Rightarrow> if \<not> obj then [] else [WarningEvent reason (truncatedErrMsg e)])"

definition errKymaDeletionStuck :: goerror where
  "errKymaDeletionStuck = Sentinel ''errKymaDeletionStuck'' ''kyma still exists after deletion usecases have been handled''"

definition Record :: "bool \<Rightarrow> Result \<Rightarrow> k8s_event list" where
  "Record obj res =
     (case res_Err res of
        Some e \<Rightarrow>
          if errors_Is e ErrNoUseCaseApplicable then event_Warning obj ''KymaDeletionStuck'' (Some errKymaDeletionStuck)
          else event_Warning obj (res_UseCase res) (Some e)
      | None \<Rightarrow> event_Normal obj (res_UseCase res) ''Success'')"

text \<open>Messages of events are bounded and keep the end of the text, where the cause stands.\<close>

lemma truncatedErrMsg_suffix:
  "length (truncatedErrMsg e) \<le> 100 \<and> hasSuffix (error_text e) (truncatedErrMsg e)"
proof -
  have "error_text e = take (length (error_text e) - 100) (error_text e) @ drop (length (error_text e) - 100) (error_text e)"
    by simp
  then show ?thesis
    by (auto simp: truncatedErrMsg_def maxErrorLength_def Let_def hasSuffix_iff intro: exI [of _ "[]"] simp del: append_take_drop_id)
qed

text \<open>A result is reported once, as a success exactly if it has no error; a deletion that no use case applies to is reported
  as stuck.\<close>

lemma Record_exact:
  "length (Record True res) = 1"
  "(\<exists>r m. Record True res = [NormalEvent r m]) \<longleftrightarrow> res_Err res = None"
  "Record True res = [WarningEvent r m] \<Longrightarrow> length m \<le> 100"
  using truncatedErrMsg_suffix
  by (auto simp: Record_def event_Normal_def event_Warning_def split: option.splits if_splits)

end
