(* ===== verification/FileMutex.thy ===== *)
theory FileMutex
  imports Prelude
begin

text \<open>
  The mutexes that protect the files of fetched layers (\<^verbatim>\<open>internal/manifest/filemutex/cache.go\<close>, and their use in
  \<^verbatim>\<open>internal/manifest/img/pathextractor.go\<close>). The cache is a \<^verbatim>\<open>sync.Map\<close>, whose operations are atomic, but
  looking a mutex up takes two of them, between which other goroutines run. The goroutines are a step relation; that at
  most one of them is between \<^verbatim>\<open>Lock\<close> and \<^verbatim>\<open>Unlock\<close> for a path is an invariant of it.
\<close>

section \<open>The cache\<close>

text \<open>A mutex is its address; a map that was passed in may hold other values.\<close>

datatype cached_value = CachedMutex nat | CachedOther

definition ErrMutexConversion :: goerror where
  "ErrMutexConversion = Sentinel ''ErrMutexConversion'' ''failed to convert cached value to mutex''"

definition NewMutexCache :: "(string \<rightharpoonup> cached_value) option \<Rightarrow> (string \<rightharpoonup> cached_value)" where
  "NewMutexCache concurrMap = (case concurrMap of None \<Rightarrow> Map.empty | Some m \<Rightarrow> m)"

definition LoadOrStore :: "string \<Rightarrow> cached_value \<Rightarrow> (string \<rightharpoonup> cached_value) \<Rightarrow> (string \<rightharpoonup> cached_value) \<times> cached_value" where
  "LoadOrStore key v cache = (case cache key of Some old \<Rightarrow> (cache, old) | None \<Rightarrow> (cache(key \<mapsto> v), v))"

text \<open>The type assertion at the end of \<^verbatim>\<open>GetLocker\<close>.\<close>

definition as_mutex :: "cached_value \<Rightarrow> goerror + nat" where
  "as_mutex v = (case v of CachedMutex n \<Rightarrow> Inr n | CachedOther \<Rightarrow> Inl ErrMutexConversion)"

text \<open>\<^verbatim>\<open>GetLocker\<close> when no other goroutine runs; \<open>fresh\<close> is the address of the mutex it allocates.\<close>

definition GetLocker :: "nat \<Rightarrow> string \<Rightarrow> (string \<rightharpoonup> cached_value) \<Rightarrow> (string \<rightharpoonup> cached_value) \<times> (goerror + nat)" where
  "GetLocker fresh key cache =
     (case cache key of
        Some v \<Rightarrow> (cache, as_mutex v)
      | None \<Rightarrow> (case LoadOrStore key (CachedMutex fresh) cache of (cache', v) \<Rightarrow> (cache', as_mutex v)))"

section \<open>Goroutines\<close>

datatype fm_phase =
  Loading               \<comment> \<open>about to load\<close>
| Storing               \<comment> \<open>the load has found nothing\<close>
| Locking nat           \<comment> \<open>has got its mutex\<close>
| InSection nat         \<comment> \<open>between \<^verbatim>\<open>Lock\<close> and \<^verbatim>\<open>Unlock\<close>\<close>
| Returned "goerror option"

record fm_state =
  fm_cache :: "string \<rightharpoonup> cached_value"
  fm_next :: nat                            \<comment> \<open>no mutex has this address or a higher one\<close>
  fm_locked :: "nat set"
  fm_threads :: "nat \<rightharpoonup> string \<times> fm_phase"

definition fm_goto :: "nat \<Rightarrow> string \<Rightarrow> fm_phase \<Rightarrow> fm_state \<Rightarrow> fm_state" where
  "fm_goto t key p s = s\<lparr>fm_threads := (fm_threads s)(t \<mapsto> (key, p))\<rparr>"

definition after_cast :: "cached_value \<Rightarrow> fm_phase" where
  "after_cast v = (case as_mutex v of Inl e \<Rightarrow> Returned (Some e) | Inr n \<Rightarrow> Locking n)"

inductive fm_step :: "fm_state \<Rightarrow> fm_state \<Rightarrow> bool" where
  fm_call: "fm_threads s t = None \<Longrightarrow> fm_step s (fm_goto t key Loading s)"
| fm_load: "fm_threads s t = Some (key, Loading) \<Longrightarrow>
    fm_step s (fm_goto t key (case fm_cache s key of None \<Rightarrow> Storing | Some v \<Rightarrow> after_cast v) s)"
| fm_store: "fm_threads s t = Some (key, Storing) \<Longrightarrow>
    LoadOrStore key (CachedMutex (fm_next s)) (fm_cache s) = (cache, v) \<Longrightarrow>
    fm_step s (fm_goto t key (after_cast v) (s\<lparr>fm_cache := cache, fm_next := Suc (fm_next s)\<rparr>))"
| fm_lock: "fm_threads s t = Some (key, Locking n) \<Longrightarrow> n \<notin> fm_locked s \<Longrightarrow>
    fm_step s (fm_goto t key (InSection n) (s\<lparr>fm_locked := insert n (fm_locked s)\<rparr>))"
| fm_unlock: "fm_threads s t = Some (key, InSection n) \<Longrightarrow>
    fm_step s (fm_goto t key (Returned err) (s\<lparr>fm_locked := fm_locked s - {n}\<rparr>))"

inductive_cases fm_stepE: "fm_step s s'"

text \<open>The start: a cache without goroutines, whose mutexes are distinct.\<close>

definition cache_distinct :: "(string \<rightharpoonup> cached_value) \<Rightarrow> nat \<Rightarrow> bool" where
  "cache_distinct cache fresh \<longleftrightarrow>
     (\<forall>k n. cache k = Some (CachedMutex n) \<longrightarrow> n < fresh)
   \<and> (\<forall>k k' n. cache k = Some (CachedMutex n) \<and> cache k' = Some (CachedMutex n) \<longrightarrow> k = k')"

definition fm_init :: "(string \<rightharpoonup> cached_value) option \<Rightarrow> nat \<Rightarrow> fm_state" where
  "fm_init concurrMap fresh = \<lparr>fm_cache = NewMutexCache concurrMap, fm_next = fresh, fm_locked = {}, fm_threads = Map.empty\<rparr>"

inductive fm_reachable :: "(string \<rightharpoonup> cached_value) option \<Rightarrow> nat \<Rightarrow> fm_state \<Rightarrow> bool" for m n where
  fm_start: "fm_reachable m n (fm_init m n)"
| fm_next_state: "fm_reachable m n s \<Longrightarrow> fm_step s s' \<Longrightarrow> fm_reachable m n s'"

section \<open>Invariant\<close>

text \<open>What a goroutine holds or waits for is the mutex of its path in the cache, and a mutex is locked by the one goroutine
  that is in its section.\<close>

definition has_mutex :: "fm_state \<Rightarrow> nat \<Rightarrow> string \<Rightarrow> nat \<Rightarrow> bool" where
  "has_mutex s t k n \<longleftrightarrow> fm_threads s t = Some (k, Locking n) \<or> fm_threads s t = Some (k, InSection n)"

definition fm_inv :: "fm_state \<Rightarrow> bool" where
  "fm_inv s \<longleftrightarrow>
     cache_distinct (fm_cache s) (fm_next s)
   \<and> (\<forall>t k n. has_mutex s t k n \<longrightarrow> fm_cache s k = Some (CachedMutex n))
   \<and> (\<forall>t k n. fm_threads s t = Some (k, InSection n) \<longrightarrow> n \<in> fm_locked s)
   \<and> (\<forall>t t' k k' n. fm_threads s t = Some (k, InSection n) \<and> fm_threads s t' = Some (k', InSection n) \<longrightarrow> t = t')"

lemma after_cast_simps [simp]:
  "after_cast (CachedMutex n) = Locking n" "after_cast CachedOther = Returned (Some ErrMutexConversion)"
  by (simp_all add: after_cast_def as_mutex_def)

lemma fm_goto_sel [simp]:
  "fm_cache (fm_goto t k p s) = fm_cache s" "fm_next (fm_goto t k p s) = fm_next s" "fm_locked (fm_goto t k p s) = fm_locked s"
  "fm_threads (fm_goto t k p s) = (fm_threads s)(t \<mapsto> (k, p))"
  by (simp_all add: fm_goto_def)

lemma has_mutex_goto:
  "has_mutex (fm_goto t k p s) t' k' n \<longleftrightarrow> (if t' = t then k' = k \<and> (p = Locking n \<or> p = InSection n) else has_mutex s t' k' n)"
  by (auto simp: has_mutex_def)

lemma fm_inv_goto:
  assumes "fm_inv s" and "\<And>n. p \<noteq> InSection n" and "\<And>n. p = Locking n \<Longrightarrow> fm_cache s k = Some (CachedMutex n)"
  shows "fm_inv (fm_goto t k p s)"
  using assms unfolding fm_inv_def has_mutex_goto by (auto split: if_splits)

lemma cache_distinct_store:
  assumes "cache_distinct cache fresh" and "LoadOrStore k (CachedMutex fresh) cache = (cache', v)"
  shows "cache_distinct cache' (Suc fresh)" and "cache' k = Some v" and "\<And>k' w. cache k' = Some w \<Longrightarrow> cache' k' = Some w"
proof -
  have "cache_distinct cache (Suc fresh)" using assms(1) unfolding cache_distinct_def by (meson less_Suc_eq)
  moreover have "cache_distinct (cache(k \<mapsto> CachedMutex fresh)) (Suc fresh)"
    using assms(1) unfolding cache_distinct_def by (auto simp: less_Suc_eq)
  ultimately show "cache_distinct cache' (Suc fresh)" using assms(2) by (auto simp: LoadOrStore_def split: option.splits)
  show "cache' k = Some v" and "\<And>k' w. cache k' = Some w \<Longrightarrow> cache' k' = Some w"
    using assms(2) by (auto simp: LoadOrStore_def split: option.splits)
qed

lemma fm_inv_store:
  assumes "fm_inv s" and "LoadOrStore k (CachedMutex (fm_next s)) (fm_cache s) = (cache, v)"
  shows "fm_inv (s\<lparr>fm_cache := cache, fm_next := Suc (fm_next s)\<rparr>)"
  using assms(1) cache_distinct_store [OF _ assms(2)] unfolding fm_inv_def has_mutex_def by simp

lemma fm_inv_lock:
  assumes "fm_inv s" and "fm_threads s t = Some (k, Locking n)" and "n \<notin> fm_locked s"
  shows "fm_inv (fm_goto t k (InSection n) (s\<lparr>fm_locked := insert n (fm_locked s)\<rparr>))"
proof -
  have "fm_cache s k = Some (CachedMutex n)" using assms(1,2) unfolding fm_inv_def has_mutex_def by blast
  moreover have "fm_threads s t' \<noteq> Some (k', InSection n)" for t' k' using assms(1,3) unfolding fm_inv_def by blast
  ultimately show ?thesis using assms(1) unfolding fm_inv_def has_mutex_goto by (auto simp: has_mutex_def split: if_splits)
qed

lemma fm_inv_unlock:
  assumes "fm_inv s" and "fm_threads s t = Some (k, InSection n)"
  shows "fm_inv (fm_goto t k (Returned err) (s\<lparr>fm_locked := fm_locked s - {n}\<rparr>))"
proof -
  have "fm_threads s t' \<noteq> Some (k', InSection n)" if "t' \<noteq> t" for t' k' using assms that unfolding fm_inv_def by blast
  then show ?thesis using assms(1) unfolding fm_inv_def has_mutex_goto by (auto simp: has_mutex_def split: if_splits)
qed

lemma fm_inv_load:
  assumes "fm_inv s"
  shows "fm_inv (fm_goto t key (case fm_cache s key of None \<Rightarrow> Storing | Some v \<Rightarrow> after_cast v) s)"
proof (intro fm_inv_goto [OF assms])
  show "(case fm_cache s key of None \<Rightarrow> Storing | Some v \<Rightarrow> after_cast v) \<noteq> InSection n" for n
    by (auto simp: after_cast_def split: option.split sum.split)
  show "fm_cache s key = Some (CachedMutex n)" if "(case fm_cache s key of None \<Rightarrow> Storing | Some v \<Rightarrow> after_cast v) = Locking n" for n
  proof (cases "fm_cache s key")
    case (Some v)
    then show ?thesis using that by (cases v) simp_all
  qed (use that in simp)
qed

lemma fm_inv_stored:
  assumes "fm_inv s" and "LoadOrStore key (CachedMutex (fm_next s)) (fm_cache s) = (cache, v)"
  shows "fm_inv (fm_goto t key (after_cast v) (s\<lparr>fm_cache := cache, fm_next := Suc (fm_next s)\<rparr>))"
proof -
  have "cache key = Some v" by (rule cache_distinct_store(2) [OF _ assms(2)]) (use assms(1) in \<open>simp add: fm_inv_def\<close>)
  then show ?thesis by (intro fm_inv_goto fm_inv_store [OF assms]) (cases v; simp)+
qed

lemma fm_inv_step: "fm_step s s' \<Longrightarrow> fm_inv s \<Longrightarrow> fm_inv s'"
  by (erule fm_stepE) (auto intro: fm_inv_goto fm_inv_load fm_inv_stored fm_inv_lock fm_inv_unlock)

lemma fm_inv_reachable:
  assumes "fm_reachable m n s" and "cache_distinct (NewMutexCache m) n"
  shows "fm_inv s"
  using assms(1)
proof (induction rule: fm_reachable.induct)
  case fm_start
  then show ?case using assms(2) by (simp add: fm_inv_def fm_init_def has_mutex_def)
qed (rule fm_inv_step)

text \<open>
  C35. One goroutine per path: however the goroutines are interleaved, also between the two accesses of a lookup, all that get
  a mutex for a path get the same one, goroutines for different paths get different ones, and at most one goroutine is in
  the section of a path.
\<close>

theorem layer_files_exclusive:
  assumes "fm_reachable m fresh s" and "cache_distinct (NewMutexCache m) fresh"
  shows "(has_mutex s t k n \<and> has_mutex s t' k' n' \<longrightarrow> (k = k' \<longleftrightarrow> n = n'))
    \<and> (fm_threads s t = Some (k, InSection n) \<and> fm_threads s t' = Some (k, InSection n') \<longrightarrow> t = t')"
proof -
  have i: "fm_inv s" by (rule fm_inv_reachable [OF assms])
  have "k = k' \<longleftrightarrow> n = n'" if "has_mutex s t k n" "has_mutex s t' k' n'"
  proof -
    have "fm_cache s k = Some (CachedMutex n)" "fm_cache s k' = Some (CachedMutex n')" using i that unfolding fm_inv_def by blast+
    then show ?thesis using i unfolding fm_inv_def cache_distinct_def by auto
  qed
  moreover have "t = t'" if "fm_threads s t = Some (k, InSection n)" "fm_threads s t' = Some (k, InSection n')"
  proof -
    have "fm_cache s k = Some (CachedMutex n)" "fm_cache s k = Some (CachedMutex n')"
      using i that unfolding fm_inv_def has_mutex_def by blast+
    then have "n = n'" by simp
    then show ?thesis using i that unfolding fm_inv_def by blast
  qed
  ultimately show ?thesis by blast
qed

text \<open>Without other goroutines, the second lookup finds the mutex of the first.\<close>

lemma GetLocker_stable:
  assumes "GetLocker fresh key cache = (cache', r)"
  shows "GetLocker fresh' key cache' = (cache', r)"
  using assms by (auto simp: GetLocker_def LoadOrStore_def split: option.splits)

section \<open>Witness\<close>

text \<open>Two goroutines look the mutex of a path up at the same time, and one of them enters.\<close>

definition ex_two_lookups :: fm_state where
  "ex_two_lookups = fm_goto 2 ''layer'' Storing (fm_goto 1 ''layer'' Storing (fm_init None 0))"

definition ex_both_have :: fm_state where
  "ex_both_have = fm_goto 2 ''layer'' (Locking 0) ((fm_goto 1 ''layer'' (Locking 0)
     (ex_two_lookups\<lparr>fm_cache := [''layer'' \<mapsto> CachedMutex 0], fm_next := 1\<rparr>))\<lparr>fm_cache := [''layer'' \<mapsto> CachedMutex 0], fm_next := 2\<rparr>)"

definition ex_entered :: fm_state where
  "ex_entered = fm_goto 1 ''layer'' (InSection 0) (ex_both_have\<lparr>fm_locked := {0}\<rparr>)"

lemma ex_two_lookups_reachable: "fm_reachable None 0 ex_two_lookups"
proof -
  let ?a = "fm_goto 1 ''layer'' Loading (fm_init None 0)"
  let ?b = "fm_goto 2 ''layer'' Loading ?a"
  let ?c = "fm_goto 1 ''layer'' Storing ?b"
  have "fm_reachable None 0 ?a" by (rule fm_next_state [OF fm_start fm_call]) (simp add: fm_init_def)
  then have "fm_reachable None 0 ?b" by (rule fm_next_state [OF _ fm_call]) (simp add: fm_init_def)
  moreover have "fm_step ?b ?c" using fm_load [of ?b 1 "''layer''"] by (simp add: fm_init_def NewMutexCache_def)
  ultimately have c: "fm_reachable None 0 ?c" by (rule fm_next_state)
  have "fm_step ?c (fm_goto 2 ''layer'' Storing ?c)" using fm_load [of ?c 2 "''layer''"] by (simp add: fm_init_def NewMutexCache_def)
  from fm_next_state [OF c this] show ?thesis
    by (simp add: ex_two_lookups_def fm_goto_def fm_init_def fun_upd_twist)
qed

lemma ex_entered_reachable: "fm_reachable None 0 ex_entered"
proof -
  let ?s = "ex_two_lookups"
  have th: "fm_threads ?s 1 = Some (''layer'', Storing)" "fm_threads ?s 2 = Some (''layer'', Storing)"
    and st: "fm_cache ?s = Map.empty" "fm_next ?s = 0" "fm_locked ?s = {}"
    by (simp_all add: ex_two_lookups_def fm_init_def NewMutexCache_def)
  let ?a = "fm_goto 1 ''layer'' (Locking 0) (?s\<lparr>fm_cache := [''layer'' \<mapsto> CachedMutex 0], fm_next := 1\<rparr>)"
  have "fm_step ?s ?a" using fm_store [OF th(1)] by (simp add: st LoadOrStore_def)
  with ex_two_lookups_reachable have a: "fm_reachable None 0 ?a" by (rule fm_next_state)
  have "fm_step ?a ex_both_have"
    using fm_store [of ?a 2 "''layer''"] th by (simp add: ex_both_have_def LoadOrStore_def numeral_2_eq_2)
  with a have b: "fm_reachable None 0 ex_both_have" by (rule fm_next_state)
  have "fm_step ex_both_have ex_entered"
    using fm_lock [of ex_both_have 1 "''layer''" 0] by (simp add: ex_entered_def ex_both_have_def st)
  with b show ?thesis by (rule fm_next_state)
qed

theorem layer_files_exclusive_witness:
  "fm_reachable None 0 ex_entered \<and> has_mutex ex_entered 1 ''layer'' 0 \<and> has_mutex ex_entered 2 ''layer'' 0
   \<and> fm_threads ex_entered 1 = Some (''layer'', InSection 0) \<and> fm_threads ex_entered 2 \<noteq> Some (''layer'', InSection 0)"
proof -
  have d: "cache_distinct (NewMutexCache None) 0" by (simp add: cache_distinct_def NewMutexCache_def)
  have h: "has_mutex ex_entered 1 ''layer'' 0" "has_mutex ex_entered 2 ''layer'' 0"
    and t: "fm_threads ex_entered 1 = Some (''layer'', InSection 0)"
    by (simp_all add: has_mutex_def ex_entered_def ex_both_have_def)
  show ?thesis
    using layer_files_exclusive [OF ex_entered_reachable d, of 1 "''layer''" 0 2 "''layer''" 0] ex_entered_reachable h t by auto
qed

end
