(* ===== verification/Spec2Isabelle.thy ===== *)
theory Spec2Isabelle
  imports TemplateLookup ModuleSync StatusHandler KymaDeletion Remote KymaReconcile ManifestReconcile Render LayerFiles
    MandatoryModules MrmWatch WebhookManager Startup SkrClient SkrSync
    EventFilters Collector FileMutex
begin

text \<open>
  \<^bold>\<open>Lifecycle Manager.\<close> The lifecycle manager runs in a control plane (KCP) and manages modules in
  remote clusters (SKR). A Kyma resource lists the modules of one SKR. The Kyma controller looks up a
  ModuleTemplate for every module, turns it into a Manifest in the KCP, synchronises the module catalog to the
  SKR, aggregates the states of the Manifests in the status of the Kyma, and cleans up when the Kyma is
  deleted. The Manifest controller renders the resources of one module, applies them to the SKR, prunes what is
  no longer rendered, and deletes everything when the Manifest goes. Mandatory modules are installed in
  every SKR without being listed. A webhook in the SKR reports changes back to the KCP; Watchers configure the
  routes for these reports, and certificates secure them.

  \<^bold>\<open>How the code is modelled.\<close> A Go struct is a record whose fields carry the initials of the struct,
  a string enumeration is a datatype, an error is a tree of sentinels, wrapped errors and library errors
  (\<^verbatim>\<open>goerror\<close> in Prelude), a function that returns a value and an error is a function into a sum or
  a pair with an optional error. A panic (nil dereference, write to a nil map) is an error value of its own. Go
  maps with an observable order, the order of goroutines and their interleaving are explicit arguments, so the
  theorems hold for every order. Code outside the repository (API servers, the Kubernetes libraries, the OCM
  library, PEM, X.509 and time formats, the semver library) is a parameter: either a record of functions over an
  arbitrary state, or answers that depend on the whole history of calls. What the documentation of such code
  promises is a named predicate (\<open>klib_ok\<close>, \<open>faithful\<close>, \<open>api_faithful\<close>, \<open>pem_ok\<close>, \<open>nested_ok\<close> and
  so on) with a concrete instance that satisfies it, for the witnesses. Logging, metrics and Kubernetes events carry no
  state that the controllers read; they have theories of their own (Metrics, Collector), and the controllers are modelled
  without these calls.

  \<^bold>\<open>Theories.\<close>
  \<^item> Prelude, ApiTypes, Util: strings, errors, results of reconcilers; states, labels, object metadata and
    conditions (\<^verbatim>\<open>api/shared\<close>); classification of errors, requeue intervals, slices and maps
    (\<^verbatim>\<open>pkg/util\<close>, \<^verbatim>\<open>pkg/queue\<close>, \<^verbatim>\<open>internal/util/collections\<close>).
  \<^item> KymaTypes, ModuleTypes, ManifestTypes: the Kyma, ModuleTemplate, ModuleReleaseMeta and Manifest with
    their methods (\<^verbatim>\<open>api/v1beta2\<close>), component identities, restricted modules, names of Manifests
    (\<^verbatim>\<open>pkg/module/common\<close>).
  \<^item> MaintenanceWindows: the policies, the search for the next window and the two questions the controller
    asks (\<^verbatim>\<open>maintenancewindows/resolver\<close>, \<^verbatim>\<open>internal/maintenancewindows\<close>). The search looks at eight
    days, which \<open>NextWindow_found\<close> proves to be enough for a policy with a valid weekday.
  \<^item> TemplateLookup: the ModuleTemplate of every module (\<^verbatim>\<open>pkg/templatelookup\<close>): only admitted
    templates are passed on without an error, and no update that needs downtime outside a window.
  \<^item> ModuleParser, ModuleSync: templates to Manifests (\<^verbatim>\<open>internal/service/manifest/parser\<close>) and the
    runner that writes them (\<^verbatim>\<open>pkg/module/sync\<close>): which writes happen, that the order of the
    goroutines does not matter.
  \<^item> StatusHandler: module statuses (\<^verbatim>\<open>internal/service/kyma/status\<close>), with the slices of the code
    as an explicit store, because the handler keeps pointers into a slice that it appends to.
  \<^item> KymaDeletion: the twelve use cases of the deletion of a Kyma with their repositories
    (\<^verbatim>\<open>internal/service/kyma/deletion\<close>): the finalizer goes last, and the deletion ends.
  \<^item> Remote: access to the SKR, the remote Kyma, the module catalog, CRDs and the image pull secret
    (\<^verbatim>\<open>internal/remote\<close>, \<^verbatim>\<open>internal/service/skrsync\<close>).
  \<^item> KymaController, KymaReconcile: the reconciler of the Kyma and its theorems
    (\<^verbatim>\<open>internal/controller/kyma\<close>): Ready is sound, the states follow the transitions of an abstract
    state machine, the deletion is safe, the controller comes back.
  \<^item> ManifestOps, ManifestController, ManifestReconcile: the reconciler of the Manifest
    (\<^verbatim>\<open>internal/controller/manifest\<close>, \<^verbatim>\<open>internal/manifest\<close>): what is pruned, when the finalizer
    goes, that the controller comes back.
  \<^item> Json, Paths, ImageRewrite, Render, LayerFiles: unstructured objects, file paths, the rewriting of image
    references (\<^verbatim>\<open>internal/imagerewrite\<close>), the parser with its cache and the transforms
    (\<^verbatim>\<open>internal/service/manifest/render\<close>, \<^verbatim>\<open>internal/util.go\<close>), the files of fetched layers
    (\<^verbatim>\<open>internal/manifest/img/pathextractor.go\<close>).
  \<^item> FileMutex: the mutexes that protect these files (\<^verbatim>\<open>internal/manifest/filemutex\<close>) as a step relation of
    interleaved goroutines: at most one of them works on a path.
  \<^item> MandatoryModules: installation and deletion of mandatory modules
    (\<^verbatim>\<open>internal/service/mandatorymodule\<close>, \<^verbatim>\<open>internal/controller/mandatorymodule\<close>).
  \<^item> MrmWatch: which Kymas a change of a ModuleReleaseMeta or a ModuleTemplate concerns
    (\<^verbatim>\<open>internal/watch\<close>).
  \<^item> CertBundle, CertService: the CA bundle of the gateway and its rotation
    (\<^verbatim>\<open>internal/gatewaysecret\<close>, \<^verbatim>\<open>internal/controller/istiogatewaysecret\<close>), the certificate
    repositories and the certificate service (\<^verbatim>\<open>internal/repository/watcher\<close>,
    \<^verbatim>\<open>internal/service/watcher/certificate\<close>). The loop that decodes a bundle gets the length of the
    bundle as fuel; \<open>decodeCertsToPEM_total\<close> proves that it never runs out of it, because every block
    consumes at least one byte.
  \<^item> WatcherController: Watchers, VirtualServices and their reconciler
    (\<^verbatim>\<open>internal/controller/watcher\<close>, \<^verbatim>\<open>internal/istio\<close>): Ready is sound, the finalizer protects the
    VirtualService, an available API server leads to Ready within three and to the end of a deletion within two
    reconciliations.
  \<^item> WebhookManager: the watch mechanism in the SKR (\<^verbatim>\<open>pkg/watcher\<close>,
    \<^verbatim>\<open>internal/service/watcher\<close>): what a successful installation has written, and which removals are
    reported as successful without being so.
  \<^item> OciRegistry, ComponentDescriptor: the address of the registry, its repositories for OCM and OCI
    (\<^verbatim>\<open>internal/setup/ociregistry.go\<close>, \<^verbatim>\<open>internal/repository/ocm\<close>) and the service that reads component
    descriptors from archives (\<^verbatim>\<open>internal/service/componentdescriptor\<close>): which descriptor a component gets, that
    the reader is bounded whatever the archive claims, that one repository serves one component.
  \<^item> Regex, Flags: derivatives of regular expressions for the patterns of the code, and the flags with their
    defaults, parsing and validation (\<^verbatim>\<open>internal/pkg/flags\<close>) and the jitter that they configure: exactly
    which flags are accepted, and what accepted flags can lead to.
  \<^item> Metrics: gauges and counters and their clean-up (\<^verbatim>\<open>internal/pkg/metrics\<close>): one state per series, and
    which series of vanished Kymas stay.
  \<^item> Startup: the caches of the manager (\<^verbatim>\<open>internal/setup\<close>), the composition of certificates, webhook,
    registry and keychains (\<^verbatim>\<open>cmd/composition\<close>, \<^verbatim>\<open>internal/manifest/keychainprovider\<close>), the maintenance
    policy, the intervals of the controllers, the stored versions (\<^verbatim>\<open>internal/crd\<close>) and the order of the
    start (\<^verbatim>\<open>cmd/main.go\<close>): exactly when the start succeeds, and for which flags the caches cover what the
    controllers read.
  \<^item> SkrClient: the client of the Manifest controller for an SKR, which refreshes its REST mappings
    (\<^verbatim>\<open>internal/service/skrclient\<close>), and the caches of clients: requests for served kinds reach the cluster.
  \<^item> SkrSync: the syncer of ModuleReleaseMetas as it is written, shown to be the generic one of Remote, and the
    CRDs that an SKR gets (\<^verbatim>\<open>internal/repository/skr/crd\<close>, \<^verbatim>\<open>cmd/composition/service/skrsync\<close>).
  \<^item> EventFilters: the registrations of the controllers (\<^verbatim>\<open>setup.go\<close>): which events wake which controller.
  \<^item> Collector: the log of unknown field managers and the Kubernetes events
    (\<^verbatim>\<open>internal/manifest/skrresources\<close>, \<^verbatim>\<open>internal/event\<close>): how often it reports, how long messages get.

  \<^bold>\<open>Interfaces.\<close> Where several implementations share a contract, or a client relies on one, the contract is a
  locale: the certificate repositories of cert-manager and of Gardener (\<open>certificate_repository\<close>), the resolvers
  of affected Kymas (\<open>kymas_resolver\<close>), the lookup that the maintenance window decorates (\<open>module_lookup\<close>), the
  use cases of the deletion (\<open>use_cases\<close>), the kinds of the catalog (\<open>syncable\<close>), the state checks of the
  Manifest controller (\<open>state_checker\<close>) and the store that the clean-up of metrics works on (\<open>metrics_store\<close>). Each is interpreted on the definitions that model the code.

  \<^bold>\<open>Composition.\<close> The theorems of a controller rest on those of the components it calls: the Kyma reconciler
  on lookup, parser, runner, status handler and catalog; mandatory modules on parser, runner and the Kyma
  repositories; the webhook manager on the certificate service, the gateway secret and the Watchers; the start on
  flags, registry, descriptors, certificates, webhook manager and maintenance windows.

  \<^bold>\<open>Not modelled.\<close> Errors of the registration of controllers with the library, leader election and the servers for
  probes and profiling (wiring of library objects); generated deep copies and apply configurations; test utilities and
  development tools; the decoders of policies, charts, YAML and JSON, which are parameters; \<^verbatim>\<open>v1beta1\<close> of the API,
  which no controller uses. Floating point numbers of the flags are rational numbers or not a number, without rounding.
  Integers that only count (generations, durations) are unbounded, while ports and key sizes keep their width.
\<close>

end
